(* ===== verification/Prelude.thy ===== *)
theory Prelude
  imports Main
begin

text \<open>
  The vocabulary shared by every component of the development: results of fallible Go
  functions, the collections of rewrite rules that the component proofs draw on, and generic
  facts about lists and maps.

  A Go function returning \<open>(T, error)\<close> is a HOL function into \<open>'e + 'a\<close>: \<open>Inl\<close> carries the
  error value, \<open>Inr\<close> the result. A loop that returns on its first error is
  \<open>mapM_res\<close> or \<open>fold_res\<close>.
\<close>

named_theorems go_simps \<open>rewrite rules for the string and library functions of Go\<close>
named_theorems wf_intros \<open>introduction rules for well-formedness invariants\<close>
named_theorems res_simps \<open>rewrite rules for the result type\<close>

type_synonym ('e, 'a) res = "'e + 'a"

definition bind_res :: "('e, 'a) res \<Rightarrow> ('a \<Rightarrow> ('e, 'b) res) \<Rightarrow> ('e, 'b) res" where
  "bind_res r f = (case r of Inl e \<Rightarrow> Inl e | Inr x \<Rightarrow> f x)"

definition is_ok :: "('e, 'a) res \<Rightarrow> bool" where
  "is_ok r = (case r of Inl _ \<Rightarrow> False | Inr _ \<Rightarrow> True)"

definition the_ok :: "'a \<Rightarrow> ('e, 'a) res \<Rightarrow> 'a" where
  "the_ok d r = (case r of Inl _ \<Rightarrow> d | Inr x \<Rightarrow> x)"

fun mapM_res :: "('a \<Rightarrow> ('e, 'b) res) \<Rightarrow> 'a list \<Rightarrow> ('e, 'b list) res" where
  "mapM_res f [] = Inr []"
| "mapM_res f (x # xs) =
     (case f x of Inl e \<Rightarrow> Inl e
      | Inr y \<Rightarrow> (case mapM_res f xs of Inl e \<Rightarrow> Inl e | Inr ys \<Rightarrow> Inr (y # ys)))"

fun fold_res :: "('a \<Rightarrow> 's \<Rightarrow> ('e, 's) res) \<Rightarrow> 'a list \<Rightarrow> 's \<Rightarrow> ('e, 's) res" where
  "fold_res f [] s = Inr s"
| "fold_res f (x # xs) s = (case f x s of Inl e \<Rightarrow> Inl e | Inr s' \<Rightarrow> fold_res f xs s')"

lemma bind_res_simps [res_simps, simp]:
  "bind_res (Inl e) f = Inl e"
  "bind_res (Inr x) f = f x"
  by (simp_all add: bind_res_def)

lemma bind_res_Inr_iff [res_simps]:
  "bind_res r f = Inr y \<longleftrightarrow> (\<exists>x. r = Inr x \<and> f x = Inr y)"
  by (cases r) (auto simp: bind_res_def)

lemma is_ok_simps [res_simps, simp]:
  "\<not> is_ok (Inl e)"
  "is_ok (Inr x)"
  by (simp_all add: is_ok_def)

lemma is_ok_iff: "is_ok r \<longleftrightarrow> (\<exists>x. r = Inr x)"
  by (cases r) auto

lemma the_ok_simps [res_simps, simp]:
  "the_ok d (Inl e) = d"
  "the_ok d (Inr x) = x"
  by (simp_all add: the_ok_def)

text \<open>The result of a loop that stops at the first error is the list of all results, or the error
  of the first element that has one.\<close>

lemma mapM_res_Inr: "mapM_res f xs = Inr ys \<longleftrightarrow> list_all2 (\<lambda>x y. f x = Inr y) xs ys"
proof (induction xs arbitrary: ys)
  case Nil
  then show ?case by auto
next
  case (Cons x xs)
  then show ?case by (cases ys; cases "f x"; cases "mapM_res f xs") auto
qed

lemma mapM_res_length: "mapM_res f xs = Inr ys \<Longrightarrow> length ys = length xs"
  by (auto simp: mapM_res_Inr dest: list_all2_lengthD)

lemma mapM_res_source: "mapM_res f xs = Inr ys \<Longrightarrow> y \<in> set ys \<Longrightarrow> \<exists>x \<in> set xs. f x = Inr y"
  by (auto simp: mapM_res_Inr list_all2_conv_all_nth in_set_conv_nth Bex_def)

lemma mapM_res_target: "mapM_res f xs = Inr ys \<Longrightarrow> x \<in> set xs \<Longrightarrow> \<exists>y \<in> set ys. f x = Inr y"
  by (auto simp: mapM_res_Inr list_all2_conv_all_nth in_set_conv_nth Bex_def)

lemma mapM_res_Inl: "mapM_res f xs = Inl e \<Longrightarrow> \<exists>x \<in> set xs. f x = Inl e"
  by (induction xs) (auto split: sum.splits)

lemma fold_res_append:
  "fold_res f (xs @ ys) s = bind_res (fold_res f xs s) (fold_res f ys)"
  by (induction xs arbitrary: s) (auto split: sum.splits)

text \<open>An invariant that every iteration keeps holds of the state the loop returns.\<close>

lemma fold_res_invariant:
  assumes "fold_res f xs s = Inr t" and "P s"
    and "\<And>x s s'. x \<in> set xs \<Longrightarrow> P s \<Longrightarrow> f x s = Inr s' \<Longrightarrow> P s'"
  shows "P t"
  using assms
proof (induction xs arbitrary: s)
  case Nil
  then show ?case by simp
next
  case (Cons x xs)
  then obtain s' where "f x s = Inr s'" and rest: "fold_res f xs s' = Inr t"
    by (auto split: sum.splits)
  with Cons.prems have "P s'" by auto
  with Cons.IH rest Cons.prems(3) show ?case by auto
qed

text \<open>What an iteration establishes and later iterations keep holds of every element at the end.\<close>

lemma fold_res_covers:
  assumes "fold_res f xs s = Inr t"
    and "\<And>x s s'. x \<in> set xs \<Longrightarrow> f x s = Inr s' \<Longrightarrow> R x s'"
    and "\<And>x y s s'. y \<in> set xs \<Longrightarrow> R x s \<Longrightarrow> f y s = Inr s' \<Longrightarrow> R x s'"
  shows "\<forall>x \<in> set xs. R x t"
  using assms
proof (induction xs arbitrary: s)
  case (Cons x xs)
  then obtain s' where step: "f x s = Inr s'" and rest: "fold_res f xs s' = Inr t"
    by (auto split: sum.splits)
  have "R x s'" using step Cons.prems(2) by simp
  then have "R x t" by (rule fold_res_invariant [OF rest]) (meson Cons.prems(3) list.set_intros(2))
  moreover have "\<forall>x \<in> set xs. R x t" by (rule Cons.IH [OF rest]) (meson Cons.prems(2,3) list.set_intros(2))+
  ultimately show ?case by simp
qed simp

lemma distinct_map_filter': "distinct (map f xs) \<Longrightarrow> distinct (map f (filter P xs))"
  by (induction xs) auto

lemma find_None_filter: "(List.find P xs = None) = (filter P xs = [])"
  by (induction xs) auto

lemma find_Some_set: "List.find P xs = Some x \<Longrightarrow> x \<in> set xs \<and> P x"
  by (induction xs) (auto split: if_splits)

lemma map_of_Some_set: "map_of kvs k = Some v \<Longrightarrow> (k, v) \<in> set kvs"
  by (rule map_of_SomeD)

lemma map_option_the: "m \<noteq> None \<Longrightarrow> Some (the m) = m"
  by auto

end
