(* ===== verification/GoStrings.thy ===== *)
theory GoStrings
  imports Prelude "HOL-Library.Char_ord" "HOL-Library.List_Lexorder"
begin

text \<open>
  The part of Go's \<open>strings\<close>, \<open>strconv\<close> and \<open>sort\<close> packages that the controller uses. A Go string
  is a sequence of bytes and a HOL \<open>char\<close> is a byte, so \<open>string\<close> is the Go type as it is and
  \<open>length\<close> is Go's \<open>len\<close>. \<open>sort.Strings\<close> orders strings bytewise, which is the lexicographic
  order of \<open>HOL-Library.List_Lexorder\<close> over \<open>HOL-Library.Char_ord\<close>.
\<close>

subsection \<open>Prefixes, suffixes and searching\<close>

definition has_prefix :: "string \<Rightarrow> string \<Rightarrow> bool" where
  "has_prefix s p \<longleftrightarrow> take (length p) s = p"

definition has_suffix :: "string \<Rightarrow> string \<Rightarrow> bool" where
  "has_suffix s p \<longleftrightarrow> length p \<le> length s \<and> drop (length s - length p) s = p"

definition trim_prefix :: "string \<Rightarrow> string \<Rightarrow> string" where
  "trim_prefix s p = (if has_prefix s p then drop (length p) s else s)"

definition trim_suffix :: "string \<Rightarrow> string \<Rightarrow> string" where
  "trim_suffix s p = (if has_suffix s p then take (length s - length p) s else s)"

fun contains_str :: "string \<Rightarrow> string \<Rightarrow> bool" where
  "contains_str [] p = (p = [])"
| "contains_str (c # cs) p = (has_prefix (c # cs) p \<or> contains_str cs p)"

definition contains_any :: "string \<Rightarrow> string \<Rightarrow> bool" where
  "contains_any s chars = list_ex (\<lambda>c. c \<in> set chars) s"

text \<open>\<open>strings.LastIndex\<close>: the start of the last occurrence, \<open>None\<close> for Go's \<open>-1\<close>.\<close>

fun last_index :: "string \<Rightarrow> string \<Rightarrow> nat option" where
  "last_index [] p = (if p = [] then Some 0 else None)"
| "last_index (c # cs) p =
     (case last_index cs p of
        Some i \<Rightarrow> Some (Suc i)
      | None \<Rightarrow> if has_prefix (c # cs) p then Some 0 else None)"

text \<open>\<open>strings.Count\<close> and \<open>strings.Split\<close> with a separator of one byte, the only use.\<close>

definition count_byte :: "char \<Rightarrow> string \<Rightarrow> nat" where
  "count_byte c s = length (filter (\<lambda>x. x = c) s)"

fun split_byte :: "char \<Rightarrow> string \<Rightarrow> string list" where
  "split_byte c [] = [[]]"
| "split_byte c (x # xs) =
     (if x = c then [] # split_byte c xs
      else (case split_byte c xs of [] \<Rightarrow> [[x]] | w # ws \<Rightarrow> (x # w) # ws))"

fun join_str :: "string list \<Rightarrow> string \<Rightarrow> string" where
  "join_str [] sep = []"
| "join_str [x] sep = x"
| "join_str (x # y # ys) sep = x @ sep @ join_str (y # ys) sep"

text \<open>\<open>strings.ReplaceAll\<close> with a non-empty pattern: occurrences are replaced from the left
  and the replacement is not searched again.\<close>

function replace_all :: "string \<Rightarrow> string \<Rightarrow> string \<Rightarrow> string" where
  "replace_all s old new =
     (if old = [] \<or> s = [] then s
      else if has_prefix s old then new @ replace_all (drop (length old) s) old new
      else hd s # replace_all (tl s) old new)"
  by pat_completeness auto
termination
  by (relation "measure (\<lambda>(s, old, new). length s)") auto

declare replace_all.simps [simp del]

subsection \<open>Trimming\<close>

definition ws_ascii :: string where
  "ws_ascii = [CHR 0x09, CHR 0x0A, CHR 0x0B, CHR 0x0C, CHR 0x0D, CHR 0x20]"

text \<open>The UTF-8 encodings of the runes \<open>unicode.IsSpace\<close> accepts.\<close>

definition ws_runes :: "string list" where
  "ws_runes = map (\<lambda>c. [c]) ws_ascii @
     [[CHR 0xC2, CHR 0x85], [CHR 0xC2, CHR 0xA0], [CHR 0xE1, CHR 0x9A, CHR 0x80]] @
     map (\<lambda>c. [CHR 0xE2, CHR 0x80, c])
       [CHR 0x80, CHR 0x81, CHR 0x82, CHR 0x83, CHR 0x84, CHR 0x85, CHR 0x86, CHR 0x87,
        CHR 0x88, CHR 0x89, CHR 0x8A, CHR 0xA8, CHR 0xA9, CHR 0xAF] @
     [[CHR 0xE2, CHR 0x81, CHR 0x9F], [CHR 0xE3, CHR 0x80, CHR 0x80]]"

function trim_left_space :: "string \<Rightarrow> string" where
  "trim_left_space s =
     (case List.find (\<lambda>w. w \<noteq> [] \<and> s \<noteq> [] \<and> has_prefix s w) ws_runes of
        None \<Rightarrow> s
      | Some w \<Rightarrow> trim_left_space (drop (length w) s))"
  by pat_completeness auto
termination
  by (relation "measure length") (auto dest: find_Some_set)

declare trim_left_space.simps [simp del]

function trim_right_space :: "string \<Rightarrow> string" where
  "trim_right_space s =
     (case List.find (\<lambda>w. w \<noteq> [] \<and> s \<noteq> [] \<and> has_suffix s w) ws_runes of
        None \<Rightarrow> s
      | Some w \<Rightarrow> trim_right_space (take (length s - length w) s))"
  by pat_completeness auto
termination
  by (relation "measure length") (auto dest: find_Some_set)

declare trim_right_space.simps [simp del]

definition trim_space :: "string \<Rightarrow> string" where
  "trim_space s = trim_right_space (trim_left_space s)"

text \<open>\<open>strings.TrimRight\<close>, \<open>strings.TrimLeft\<close> and \<open>strings.Trim\<close> with an ASCII cutset.\<close>

definition trim_right_set :: "string \<Rightarrow> string \<Rightarrow> string" where
  "trim_right_set s cuts = rev (dropWhile (\<lambda>c. c \<in> set cuts) (rev s))"

definition trim_set :: "string \<Rightarrow> string \<Rightarrow> string" where
  "trim_set s cuts = trim_right_set (dropWhile (\<lambda>c. c \<in> set cuts) s) cuts"

subsection \<open>Numbers\<close>

definition digit_val :: "char \<Rightarrow> nat option" where
  "digit_val c = (let n = of_char c :: nat in if 48 \<le> n \<and> n \<le> 57 then Some (n - 48) else None)"

fun digits_val :: "nat \<Rightarrow> string \<Rightarrow> nat option" where
  "digits_val acc [] = Some acc"
| "digits_val acc (c # cs) =
     (case digit_val c of None \<Rightarrow> None | Some d \<Rightarrow> digits_val (10 * acc + d) cs)"

definition parse_nat :: "string \<Rightarrow> nat option" where
  "parse_nat s = (if s = [] then None else digits_val 0 s)"

text \<open>\<open>strconv.ParseInt(s, 10, 64)\<close>: an optional sign, one or more digits, within 64 bits.\<close>

definition max_int64 :: int where "max_int64 = 9223372036854775807"
definition min_int64 :: int where "min_int64 = - 9223372036854775808"

definition parse_int64 :: "string \<Rightarrow> int option" where
  "parse_int64 s =
     (let neg = (s \<noteq> [] \<and> hd s = CHR ''-'');
          body = (if s \<noteq> [] \<and> (hd s = CHR ''-'' \<or> hd s = CHR ''+'') then tl s else s)
      in case parse_nat body of
           None \<Rightarrow> None
         | Some n \<Rightarrow> (let v = (if neg then - int n else int n)
                      in if min_int64 \<le> v \<and> v \<le> max_int64 then Some v else None))"

fun format_nat :: "nat \<Rightarrow> string" where
  "format_nat n = (if n < 10 then [char_of (48 + n)] else format_nat (n div 10) @ [char_of (48 + n mod 10)])"

declare format_nat.simps [simp del]

text \<open>\<open>strconv.FormatInt(i, 10)\<close>.\<close>

definition format_int :: "int \<Rightarrow> string" where
  "format_int i = (if i < 0 then CHR ''-'' # format_nat (nat (- i)) else format_nat (nat i))"

subsection \<open>Facts about the string functions\<close>

lemma has_prefix_append [simp, go_simps]: "has_prefix (p @ s) p"
  by (simp add: has_prefix_def)

lemma has_prefix_iff: "has_prefix s p \<longleftrightarrow> (\<exists>t. s = p @ t)"
  by (auto simp: has_prefix_def) (metis append_take_drop_id)

lemma has_suffix_iff: "has_suffix s p \<longleftrightarrow> (\<exists>t. s = t @ p)"
  by (auto simp: has_suffix_def) (metis append_take_drop_id)

lemma count_byte_simps [simp, go_simps]:
  "count_byte c [] = 0"
  "count_byte c (x # xs) = (if x = c then Suc (count_byte c xs) else count_byte c xs)"
  "count_byte c (xs @ ys) = count_byte c xs + count_byte c ys"
  by (simp_all add: count_byte_def)

lemma count_byte_eq_0: "count_byte c s = 0 \<longleftrightarrow> c \<notin> set s"
  by (induction s) auto

lemma split_byte_not_Nil [simp]: "split_byte c s \<noteq> []"
  by (induction s) (auto split: list.splits)

lemma split_byte_none: "c \<notin> set s \<Longrightarrow> split_byte c s = [s]"
  by (induction s) auto

lemma split_byte_append:
  "c \<notin> set s \<Longrightarrow> split_byte c (s @ c # t) = s # split_byte c t"
  by (induction s) auto

lemma length_split_byte: "length (split_byte c s) = Suc (count_byte c s)"
  by (induction s) (auto split: list.splits)

text \<open>Splitting on a byte inverts joining with it, when no part contains the byte.\<close>

lemma split_join:
  "xs \<noteq> [] \<Longrightarrow> (\<And>x. x \<in> set xs \<Longrightarrow> c \<notin> set x) \<Longrightarrow> split_byte c (join_str xs [c]) = xs"
proof (induction xs rule: induct_list012)
  case (3 x y zs)
  then have "split_byte c (join_str (y # zs) [c]) = y # zs" by auto
  with 3 show ?case by (simp add: split_byte_append)
qed (auto simp: split_byte_none)

lemma join_split: "join_str (split_byte c s) [c] = s"
proof (induction s)
  case (Cons x xs)
  obtain w ws where w: "split_byte c xs = w # ws"
    by (cases "split_byte c xs") auto
  with Cons show ?case by (cases ws) auto
qed simp

lemma last_index_Some:
  "last_index s p = Some i \<Longrightarrow> \<exists>u v. s = u @ p @ v \<and> length u = i"
proof (induction s arbitrary: i)
  case Nil
  then show ?case by (auto split: if_splits)
next
  case (Cons c cs)
  show ?case
  proof (cases "last_index cs p")
    case None
    with Cons.prems show ?thesis
      by (auto simp: has_prefix_iff split: if_splits)
  next
    case (Some j)
    with Cons obtain u v where "cs = u @ p @ v" and "length u = j" by blast
    with Cons.prems Some have "c # cs = (c # u) @ p @ v \<and> length (c # u) = i" by auto
    then show ?thesis by blast
  qed
qed

lemma last_index_None_iff: "p \<noteq> [] \<Longrightarrow> last_index s p = None \<longleftrightarrow> \<not> contains_str s p"
  by (induction s) (auto split: option.splits if_splits)

lemma contains_str_iff: "contains_str s p \<longleftrightarrow> (\<exists>u v. s = u @ p @ v)"
proof (induction s)
  case (Cons c cs)
  then show ?case by (auto simp: has_prefix_iff Cons_eq_append_conv)
qed simp

lemma contains_byte_iff: "contains_str s [c] \<longleftrightarrow> c \<in> set s"
  by (auto simp: contains_str_iff in_set_conv_decomp)

text \<open>The last occurrence of a pattern that begins with a byte absent from what follows.\<close>

lemma last_index_last:
  assumes "c \<notin> set p" and "c \<notin> set t"
  shows "last_index (u @ (c # p) @ t) (c # p) = Some (length u)"
proof -
  have none: "last_index (p @ t) (c # p) = None"
    using assms by (auto simp: last_index_None_iff contains_str_iff) (metis Un_iff in_set_conv_decomp set_append)
  show ?thesis
  proof (induction u)
    case Nil
    show ?case using none by (simp add: has_prefix_def)
  next
    case (Cons x xs)
    then show ?case by simp
  qed
qed

lemma trim_right_set_prefix: "\<exists>t. s = trim_right_set s cuts @ t \<and> set t \<subseteq> set cuts"
proof -
  have "rev s = takeWhile (\<lambda>c. c \<in> set cuts) (rev s) @ dropWhile (\<lambda>c. c \<in> set cuts) (rev s)"
    by simp
  then have "s = trim_right_set s cuts @ rev (takeWhile (\<lambda>c. c \<in> set cuts) (rev s))"
    by (metis rev_append rev_rev_ident trim_right_set_def)
  moreover have "set (rev (takeWhile (\<lambda>c. c \<in> set cuts) (rev s))) \<subseteq> set cuts"
    by (auto dest: set_takeWhileD)
  ultimately show ?thesis by blast
qed

lemma length_trim_right_set: "length (trim_right_set s cuts) \<le> length s"
  using trim_right_set_prefix [of s cuts] by (metis length_append le_add1)

text \<open>A string is its own trimming when it neither starts nor ends with a white-space rune.\<close>

lemma trim_space_id:
  assumes "\<forall>w \<in> set ws_runes. \<not> has_prefix s w \<and> \<not> has_suffix s w"
  shows "trim_space s = s"
proof -
  have "List.find (\<lambda>w. w \<noteq> [] \<and> s \<noteq> [] \<and> has_prefix s w) ws_runes = None"
    and "List.find (\<lambda>w. w \<noteq> [] \<and> s \<noteq> [] \<and> has_suffix s w) ws_runes = None"
    using assms by (auto simp: find_None_iff)
  then show ?thesis
    by (simp add: trim_space_def trim_left_space.simps [of s] trim_right_space.simps [of s])
qed

lemma trim_left_space_Nil [simp]: "trim_left_space [] = []"
  by (subst trim_left_space.simps) (auto split: option.splits dest: find_Some_set)

lemma trim_right_space_Nil [simp]: "trim_right_space [] = []"
  by (subst trim_right_space.simps) (auto split: option.splits dest: find_Some_set)

lemma trim_space_Nil [simp]: "trim_space [] = []"
  by (simp add: trim_space_def)

lemma length_trim_left_space: "length (trim_left_space s) \<le> length s"
proof (induction s rule: trim_left_space.induct)
  case (1 s)
  then show ?case
    by (subst trim_left_space.simps) (auto split: option.splits intro: le_trans)
qed

lemma length_trim_right_space: "length (trim_right_space s) \<le> length s"
proof (induction s rule: trim_right_space.induct)
  case (1 s)
  then show ?case
    by (subst trim_right_space.simps) (auto split: option.splits intro: le_trans)
qed

lemma length_trim_space: "length (trim_space s) \<le> length s"
  unfolding trim_space_def
  using length_trim_left_space length_trim_right_space le_trans by blast

subsection \<open>Decimal numbers: formatting and parsing are inverse\<close>

lemma digit_val_char: "d < 10 \<Longrightarrow> digit_val (char_of (48 + d)) = Some d"
  by (simp add: digit_val_def of_char_of)

lemma digits_val_append:
  "digits_val acc (s @ t) = (case digits_val acc s of None \<Rightarrow> None | Some n \<Rightarrow> digits_val n t)"
  by (induction s arbitrary: acc) (auto split: option.splits)

lemma digits_val_format_nat: "digits_val 0 (format_nat n) = Some n"
proof (induction n rule: format_nat.induct)
  case (1 n)
  show ?case
  proof (cases "n < 10")
    case True
    then show ?thesis by (simp add: format_nat.simps [of n] digit_val_char)
  next
    case False
    with 1 show ?thesis
      by (simp add: format_nat.simps [of n] digits_val_append digit_val_char)
  qed
qed

lemma format_nat_not_Nil [simp]: "format_nat n \<noteq> []"
  by (subst format_nat.simps) simp

lemma format_nat_digits: "c \<in> set (format_nat n) \<Longrightarrow> 48 \<le> (of_char c :: nat) \<and> (of_char c :: nat) \<le> 57"
proof (induction n rule: format_nat.induct)
  case (1 n)
  show ?case
  proof (cases "n < 10")
    case True
    with 1(2) show ?thesis by (simp add: format_nat.simps [of n] of_char_of)
  next
    case False
    with 1 show ?thesis
      by (auto simp: format_nat.simps [of n] of_char_of)
  qed
qed

lemma parse_nat_format [simp, go_simps]: "parse_nat (format_nat n) = Some n"
  by (simp add: parse_nat_def digits_val_format_nat)

lemma format_nat_hd: "hd (format_nat n) \<noteq> CHR ''-'' \<and> hd (format_nat n) \<noteq> CHR ''+''"
  using format_nat_digits [of "hd (format_nat n)" n] by (auto simp: hd_in_set)

lemma parse_int64_format [go_simps]:
  "min_int64 \<le> i \<Longrightarrow> i \<le> max_int64 \<Longrightarrow> parse_int64 (format_int i) = Some i"
  using format_nat_hd [of "nat i"]
  by (auto simp: parse_int64_def format_int_def Let_def)

end
