(* ===== verification/ApiTypes.thy ===== *)
theory ApiTypes
  imports GoStrings
begin

text \<open>
  The custom resources of \<open>src/api/inference/v1alpha1\<close> as the controller reads them: ExternalModel and
  ExternalProvider with the references, authentication blocks and statuses they hold. Every
  field of the specs is kept; of \<open>metav1.ObjectMeta\<close> the fields that the components read are kept.

  A Go \<open>map[string]string\<close> is an association list with lookup by \<open>map_of\<close>; a nil map is the empty list,
  which Go does not distinguish on reading. A pointer to an optional value is an \<open>option\<close>.

  Functions of \<open>k8s.io/apimachinery\<close> that the sources call are not part of the repository.
  They are the fields of a record \<open>k8s_lib\<close>, which every definition that needs one takes as its first argument.
\<close>

subsection \<open>String maps\<close>

type_synonym str_map = "(string \<times> string) list"

definition sm_get :: "str_map \<Rightarrow> string \<Rightarrow> string" where
  "sm_get m k = (case map_of m k of None \<Rightarrow> [] | Some v \<Rightarrow> v)"

definition sm_has :: "str_map \<Rightarrow> string \<Rightarrow> bool" where
  "sm_has m k \<longleftrightarrow> map_of m k \<noteq> None"

text \<open>The keys of a map in the order \<open>sort.Strings\<close> gives them.\<close>

definition sm_sorted_keys :: "str_map \<Rightarrow> string list" where
  "sm_sorted_keys m = sort (remdups (map fst m))"

subsection \<open>Object metadata and conditions\<close>

record ObjectMeta =
  om_Name :: string
  om_Namespace :: string
  om_UID :: string
  om_Generation :: int
  om_Labels :: str_map
  om_Annotations :: str_map
  om_Deleting :: bool

datatype ConditionStatus = ConditionTrue | ConditionFalse | ConditionUnknown

record Condition =
  co_Type :: string
  co_Status :: ConditionStatus
  co_ObservedGeneration :: int
  co_Reason :: string
  co_Message :: string

record k8s_lib =
  FindStatusCondition :: "Condition list \<Rightarrow> string \<Rightarrow> Condition option"
  IsDNS1123Subdomain :: "string \<Rightarrow> string list"
  IsDNS1123Label :: "string \<Rightarrow> string list"

text \<open>What \<open>apimeta.FindStatusCondition\<close> documents: the condition it returns is one of the list
  and has the type asked for; it returns nil only when the list has none of that type.\<close>

definition find_status_condition_doc :: "k8s_lib \<Rightarrow> bool" where
  "find_status_condition_doc lib \<longleftrightarrow>
     (\<forall>cs t. case FindStatusCondition lib cs t of
               None \<Rightarrow> \<forall>c \<in> set cs. co_Type c \<noteq> t
             | Some c \<Rightarrow> c \<in> set cs \<and> co_Type c = t)"

subsection \<open>ExternalProvider and ExternalModel\<close>

record NameReference =
  nr_Name :: string

record AuthConfig =
  ac_Type :: string
  ac_SecretRef :: NameReference

record ExternalProviderReference =
  pr_Name :: string
  pr_Namespace :: string

record NamespacedObjectReference =
  no_Name :: string
  no_Namespace :: string

record ExternalProviderRef =
  er_Ref :: ExternalProviderReference
  er_TargetModel :: string
  er_APIFormat :: string
  er_Path :: string
  er_Config :: str_map
  er_Auth :: "AuthConfig option"
  er_Weight :: "int option"

record ExternalModelSpec =
  ms_ModelName :: string
  ms_ExternalProviderRefs :: "ExternalProviderRef list"
  ms_GatewayRefs :: "NamespacedObjectReference list"

record ExternalModelGatewayStatus =
  gs_Gateway :: NamespacedObjectReference
  gs_HTTPRouteRef :: "NamespacedObjectReference option"
  gs_Conditions :: "Condition list"

record ExternalModelStatus =
  mst_Phase :: string
  mst_HTTPRouteName :: string
  mst_ObservedGeneration :: int
  mst_OverlayDigest :: string
  mst_OverlayGeneration :: int
  mst_Conditions :: "Condition list"
  mst_Gateways :: "ExternalModelGatewayStatus list"

record ExternalModel =
  em_Meta :: ObjectMeta
  em_Spec :: ExternalModelSpec
  em_Status :: ExternalModelStatus

record ExternalProviderSpec =
  ps_Provider :: string
  ps_Endpoint :: string
  ps_Auth :: AuthConfig
  ps_Config :: str_map

record ExternalProviderStatus =
  pst_Phase :: string
  pst_ObservedGeneration :: int
  pst_Conditions :: "Condition list"

record ExternalProvider =
  ep_Meta :: ObjectMeta
  ep_Spec :: ExternalProviderSpec
  ep_Status :: ExternalProviderStatus

abbreviation em_Name :: "ExternalModel \<Rightarrow> string" where
  "em_Name m \<equiv> om_Name (em_Meta m)"

abbreviation em_Namespace :: "ExternalModel \<Rightarrow> string" where
  "em_Namespace m \<equiv> om_Namespace (em_Meta m)"

abbreviation ep_Name :: "ExternalProvider \<Rightarrow> string" where
  "ep_Name p \<equiv> om_Name (ep_Meta p)"

abbreviation ep_Namespace :: "ExternalProvider \<Rightarrow> string" where
  "ep_Namespace p \<equiv> om_Namespace (ep_Meta p)"

subsection \<open>Facts about string maps\<close>

lemma set_sm_sorted_keys [simp]: "set (sm_sorted_keys m) = dom (map_of m)"
  by (auto simp: sm_sorted_keys_def dom_map_of_conv_image_fst)

lemma sorted_sm_keys: "sorted (sm_sorted_keys m) \<and> distinct (sm_sorted_keys m)"
  by (simp add: sm_sorted_keys_def)

lemma sm_has_append [simp]: "sm_has (m @ n) k \<longleftrightarrow> sm_has m k \<or> sm_has n k"
  by (auto simp: sm_has_def map_add_def split: option.splits)

lemma sm_get_append: "sm_get (m @ n) k = (if sm_has m k then sm_get m k else sm_get n k)"
  by (auto simp: sm_has_def sm_get_def map_add_def split: option.splits)

end
