(* ===== verification/Sha256.thy ===== *)
theory Sha256
  imports GoStrings "HOL-Library.Word"
begin

unbundle bit_operations_syntax

text \<open>
  \<open>crypto/sha256\<close> and \<open>encoding/hex\<close> as the controller uses them: the SHA-256 digest of a byte
  string (FIPS 180-4) rendered in lowercase hexadecimal. The digest is content addressing for
  routing overlays, binding revisions, resource names and configuration hashes, so the
  components rely on its shape (64 lowercase hexadecimal digits), stated once as the locale
  \<open>content_digest\<close> and discharged here for the function the code calls.
\<close>

subsection \<open>The compression function\<close>

text \<open>FIPS 180-4 fixes the constants as the first 32 bits of the fractional parts of the square roots of
  the first eight primes and of the cube roots of the first sixty-four. \<open>root_floor k n\<close> is the integer
  part of the \<open>k\<close>-th root of \<open>n\<close>, found bit by bit below \<open>2 ^ b\<close>.\<close>

fun root_floor :: "nat \<Rightarrow> nat \<Rightarrow> nat \<Rightarrow> nat \<Rightarrow> nat" where
  "root_floor k n 0 r = r"
| "root_floor k n (Suc b) r =
     (let r' = r + 2 ^ b in if r' ^ k \<le> n then root_floor k n b r' else root_floor k n b r)"

definition frac_root :: "nat \<Rightarrow> nat \<Rightarrow> 32 word" where
  "frac_root k p = of_nat (root_floor k (p * 2 ^ (32 * k)) 40 0)"

definition is_prime_nat :: "nat \<Rightarrow> bool" where
  "is_prime_nat n \<longleftrightarrow> 2 \<le> n \<and> (\<forall>d \<in> set [2..<n]. n mod d \<noteq> 0)"

definition sha_primes :: "nat list" where
  "sha_primes = filter is_prime_nat [2..<312]"

definition sha_k :: "32 word list" where
  "sha_k = map (frac_root 3) sha_primes"

type_synonym sha_state =
  "32 word \<times> 32 word \<times> 32 word \<times> 32 word \<times> 32 word \<times> 32 word \<times> 32 word \<times> 32 word"

definition sha_init :: sha_state where
  "sha_init = (frac_root 2 2, frac_root 2 3, frac_root 2 5, frac_root 2 7,
               frac_root 2 11, frac_root 2 13, frac_root 2 17, frac_root 2 19)"

definition rotr32 :: "nat \<Rightarrow> 32 word \<Rightarrow> 32 word" where
  "rotr32 n x = (drop_bit n x OR push_bit (32 - n) x)"

definition small_sigma0 :: "32 word \<Rightarrow> 32 word" where
  "small_sigma0 x = (rotr32 7 x XOR rotr32 18 x XOR drop_bit 3 x)"

definition small_sigma1 :: "32 word \<Rightarrow> 32 word" where
  "small_sigma1 x = (rotr32 17 x XOR rotr32 19 x XOR drop_bit 10 x)"

definition big_sigma0 :: "32 word \<Rightarrow> 32 word" where
  "big_sigma0 x = (rotr32 2 x XOR rotr32 13 x XOR rotr32 22 x)"

definition big_sigma1 :: "32 word \<Rightarrow> 32 word" where
  "big_sigma1 x = (rotr32 6 x XOR rotr32 11 x XOR rotr32 25 x)"

text \<open>The message schedule: sixteen words of the block extended to sixty-four. The window holds
  the last sixteen words, oldest first.\<close>

fun sha_schedule :: "nat \<Rightarrow> 32 word list \<Rightarrow> 32 word list" where
  "sha_schedule 0 w = w"
| "sha_schedule (Suc n) w =
     (let next = small_sigma1 (w ! 14) + w ! 9 + small_sigma0 (w ! 1) + w ! 0
      in hd w # sha_schedule n (tl w @ [next]))"

fun sha_round :: "32 word \<times> 32 word \<Rightarrow> sha_state \<Rightarrow> sha_state" where
  "sha_round (k, w) (a, b, c, d, e, f, g, h) =
     (let t1 = h + big_sigma1 e + ((e AND f) XOR (NOT e AND g)) + k + w;
          t2 = big_sigma0 a + ((a AND b) XOR (a AND c) XOR (b AND c))
      in (t1 + t2, a, b, c, d + t1, e, f, g))"

fun sha_add :: "sha_state \<Rightarrow> sha_state \<Rightarrow> sha_state" where
  "sha_add (a, b, c, d, e, f, g, h) (a', b', c', d', e', f', g', h') =
     (a + a', b + b', c + c', d + d', e + e', f + f', g + g', h + h')"

definition sha_block :: "32 word list \<Rightarrow> sha_state \<Rightarrow> sha_state" where
  "sha_block w s = sha_add s (fold sha_round (zip sha_k (sha_schedule 48 w)) s)"

subsection \<open>Padding and output\<close>

fun be_bytes :: "nat \<Rightarrow> nat \<Rightarrow> nat list" where
  "be_bytes 0 n = []"
| "be_bytes (Suc k) n = be_bytes k (n div 256) @ [n mod 256]"

definition sha_pad :: "nat list \<Rightarrow> nat list" where
  "sha_pad bs = bs @ [128] @ replicate ((119 - length bs mod 64) mod 64) 0
                @ be_bytes 8 ((8 * length bs) mod 2 ^ 64)"

fun be_words :: "nat list \<Rightarrow> 32 word list" where
  "be_words (a # b # c # d # bs) =
     of_nat (((a * 256 + b) * 256 + c) * 256 + d) # be_words bs"
| "be_words _ = []"

function sha_blocks :: "32 word list \<Rightarrow> sha_state \<Rightarrow> sha_state" where
  "sha_blocks ws s = (if length ws < 16 then s else sha_blocks (drop 16 ws) (sha_block (take 16 ws) s))"
  by pat_completeness auto
termination
  by (relation "measure (\<lambda>(ws, s). length ws)") auto

declare sha_blocks.simps [simp del]

fun state_words :: "sha_state \<Rightarrow> 32 word list" where
  "state_words (a, b, c, d, e, f, g, h) = [a, b, c, d, e, f, g, h]"

definition sha256_words :: "string \<Rightarrow> 32 word list" where
  "sha256_words s = state_words (sha_blocks (be_words (sha_pad (map of_char s))) sha_init)"

definition hex_chars :: string where
  "hex_chars = ''0123456789abcdef''"

definition hex_digit :: "nat \<Rightarrow> char" where
  "hex_digit n = hex_chars ! (n mod 16)"

fun hex_nat :: "nat \<Rightarrow> nat \<Rightarrow> string" where
  "hex_nat 0 n = []"
| "hex_nat (Suc k) n = hex_nat k (n div 16) @ [hex_digit n]"

text \<open>\<open>hex.EncodeToString(sha256.Sum256(b)[:])\<close>.\<close>

definition sha256_hex :: "string \<Rightarrow> string" where
  "sha256_hex s = concat (map (\<lambda>w. hex_nat 8 (unat w)) (sha256_words s))"

subsection \<open>The shape of a digest\<close>

lemma length_hex_nat [simp]: "length (hex_nat k n) = k"
  by (induction k arbitrary: n) auto

lemma hex_digit_in: "hex_digit n \<in> set hex_chars"
proof -
  have "n mod 16 < length hex_chars" by (simp add: hex_chars_def)
  then show ?thesis by (simp add: hex_digit_def nth_mem)
qed

lemma set_hex_nat: "set (hex_nat k n) \<subseteq> set hex_chars"
  by (induction k arbitrary: n) (auto simp: hex_digit_in)

lemma length_state_words: "length (state_words s) = 8"
  by (cases s) auto

lemma length_sha256_hex: "length (sha256_hex s) = 64"
proof -
  have "length (sha256_hex s) = sum_list (map (\<lambda>w. 8) (sha256_words s))"
    by (simp add: sha256_hex_def length_concat comp_def)
  also have "\<dots> = 8 * length (sha256_words s)"
    by (simp add: sum_list_triv)
  finally show ?thesis
    by (simp add: sha256_words_def length_state_words)
qed

lemma set_sha256_hex: "set (sha256_hex s) \<subseteq> set hex_chars"
  using set_hex_nat by (auto simp: sha256_hex_def)

text \<open>What the rest of the program relies on: the digest of any input is 64 lowercase hexadecimal
  digits, hence never empty, free of the separators that structured names use, and a prefix of it
  has the requested length.\<close>

locale content_digest =
  fixes digest :: "string \<Rightarrow> string"
  assumes digest_length: "length (digest s) = 64"
    and digest_hex: "set (digest s) \<subseteq> set hex_chars"
begin

lemma digest_not_empty: "digest s \<noteq> []"
  using digest_length [of s] by auto

lemma digest_no_char: "c \<notin> set hex_chars \<Longrightarrow> c \<notin> set (digest s)"
  using digest_hex [of s] by auto

lemma digest_take: "n \<le> 64 \<Longrightarrow> length (take n (digest s)) = n"
  by (simp add: digest_length)

lemma digest_take_no_char: "c \<notin> set hex_chars \<Longrightarrow> c \<notin> set (take n (digest s))"
  using digest_no_char [of c s] in_set_takeD [of c n] by blast

end

interpretation sha: content_digest sha256_hex
  by unfold_locales (simp_all add: length_sha256_hex set_sha256_hex)

end
