(* ===== verification/Resolver.thy ===== *)
theory Resolver
  imports ApiTypes Sha256
begin

text \<open>
  The route resolver, \<open>src/pkg/resolver/resolver.go\<close>: it merges ExternalModel and ExternalProvider
  pairs into the set of routes that both output planes are rendered from. The definitions follow the
  file's functions. \<open>resolve\<close> returns the pair of Go results: a route set that may be nil and an error
  that may be nil.

  Error and skip texts are values of the datatypes \<open>SkipMessage\<close>, \<open>TransportError\<close> and
  \<open>ResolveError\<close>, with one constructor per message of the source that carries what is printed in it.
\<close>

subsection \<open>Skips, routes and route sets\<close>

definition ProviderPortAnnotation :: string where
  "ProviderPortAnnotation = ''inference.opendatahub.io/port''"

definition ProviderTLSAnnotation :: string where
  "ProviderTLSAnnotation = ''inference.opendatahub.io/tls''"

definition defaultProviderPort :: int where
  "defaultProviderPort = 443"

definition PhaseReady :: string where
  "PhaseReady = ''Ready''"

datatype SkipReason =
    SkipRefNotFound
  | SkipRefNotPermitted
  | SkipProviderNotReady
  | SkipWeightDisabled
  | SkipTranslationDisabled
  | SkipAPIFormatUnsupported
  | SkipPathUnresolved

datatype SkipMessage =
    MsgWeightDisables int
  | MsgNotFoundOrNotPermitted string string
  | MsgTranslationRequired
  | MsgNotInModelNamespace
  | MsgPhaseNotReady string "string option"
  | MsgNoQualifiedProfile string string
  | MsgCredentialNotReady string string

record Skip =
  sk_ModelRef :: string
  sk_ProviderRef :: string
  sk_Reason :: SkipReason
  sk_Message :: SkipMessage

record Route =
  Model :: string
  ClientName :: string
  Namespace :: string
  Provider :: string
  ProviderNamespace :: string
  ProviderType :: string
  Cluster :: string
  Endpoint :: string
  Port :: int
  TLSCACertificates :: string
  TLSCredentialName :: string
  TargetModel :: string
  APIFormat :: string
  Path :: string
  APITranslationEnabled :: bool
  Weight :: int
  AuthType :: string
  SecretName :: string
  SecretKey :: string
  StableID :: string
  SecretNamespace :: string

record ModelRoutes =
  mr_ModelRef :: string
  mr_Routes :: "Route list"
  mr_Skips :: "Skip list"

record ResolvedRouteSet =
  Models :: "ModelRoutes list"

definition Routes :: "ResolvedRouteSet \<Rightarrow> Route list" where
  "Routes s = concat (map mr_Routes (Models s))"

datatype TrustError =
    CaCertificatesNotAbsolute
  | CredentialNameInvalid "string list"
  | TrustMutuallyExclusive

datatype TransportError =
    TrustOverride string string
  | TrustInvalid TrustError
  | PathUnresolved string "string list"
  | TargetModelInvalid
  | PathInvalid
  | PortInvalid

datatype TlsError = PlaintextNotSupported | TlsNotBoolean

datatype ResolveError =
    ErrNoRoutes
  | ErrProviderCapabilityUnsupported string string SkipMessage
  | MultipleActiveReferences string string string
  | RefTransportError string string TransportError

subsection \<open>Provider transport settings\<close>

definition ProviderPort :: "ExternalProvider option \<Rightarrow> (TransportError, int) res" where
  "ProviderPort provider =
     (case provider of
        None \<Rightarrow> Inr defaultProviderPort
      | Some p \<Rightarrow>
          (case map_of (om_Annotations (ep_Meta p)) ProviderPortAnnotation of
             None \<Rightarrow> Inr defaultProviderPort
           | Some raw \<Rightarrow>
               (case parse_int64 (trim_space raw) of
                  None \<Rightarrow> Inl PortInvalid
                | Some port \<Rightarrow>
                    if port < 1 \<or> port > 65535 then Inl PortInvalid else Inr port)))"

definition ValidateProviderTLS :: "ExternalProvider option \<Rightarrow> TlsError option" where
  "ValidateProviderTLS provider =
     (case provider of
        None \<Rightarrow> None
      | Some p \<Rightarrow>
          (case map_of (om_Annotations (ep_Meta p)) ProviderTLSAnnotation of
             None \<Rightarrow> None
           | Some raw \<Rightarrow>
               (let v = trim_space raw in
                if v = ''true'' then None
                else if v = ''false'' then Some PlaintextNotSupported
                else Some TlsNotBoolean)))"

definition AuthTypeOf :: "string \<Rightarrow> string" where
  "AuthTypeOf crdType = (if crdType = ''simple'' then ''apikey'' else crdType)"

definition CrossNamespace :: "Route \<Rightarrow> bool" where
  "CrossNamespace r \<longleftrightarrow> ProviderNamespace r \<noteq> [] \<and> ProviderNamespace r \<noteq> Namespace r"

definition ServiceName :: "Route \<Rightarrow> string" where
  "ServiceName r =
     (let name = ''provider-'' @ Provider r in
      if \<not> CrossNamespace r then name
      else
        (let hash = take 12 (sha256_hex (ProviderNamespace r @ ''/'' @ Provider r));
             limit = 63 - length hash - 1;
             name' = (if length name > limit then trim_right_set (take limit name) ''-.'' else name)
         in name' @ ''-'' @ hash))"

definition SecretRefNamespace :: "Route \<Rightarrow> string" where
  "SecretRefNamespace r = (if SecretNamespace r \<noteq> [] then SecretNamespace r else Namespace r)"

definition ValidateProviderTrust :: "k8s_lib \<Rightarrow> str_map \<Rightarrow> TrustError option" where
  "ValidateProviderTrust lib config =
     (let caCertificates = trim_space (sm_get config ''tls.caCertificates'');
          credentialName = trim_space (sm_get config ''tls.credentialName'') in
      if caCertificates \<noteq> [] \<and> (\<not> has_prefix caCertificates ''/'' \<or> contains_str caCertificates ''..'')
      then Some CaCertificatesNotAbsolute
      else if credentialName = [] then None
      else if IsDNS1123Subdomain lib credentialName \<noteq> []
      then Some (CredentialNameInvalid (IsDNS1123Subdomain lib credentialName))
      else if caCertificates \<noteq> [] then Some TrustMutuallyExclusive
      else None)"

definition supportedProviderFormat :: "string \<Rightarrow> string \<Rightarrow> bool" where
  "supportedProviderFormat providerType apiFormat =
     (if providerType = ''openai'' \<and> apiFormat = ''openai-chat'' then True
      else if providerType = ''bedrock-openai'' \<and> apiFormat = ''openai-chat'' then True
      else if providerType = ''anthropic'' \<and> apiFormat = ''messages'' then True
      else if (providerType = ''azure'' \<or> providerType = ''azure-openai'') \<and> apiFormat = ''openai-chat'' then True
      else False)"

definition newSkip :: "Skip \<Rightarrow> SkipReason \<Rightarrow> SkipMessage \<Rightarrow> Skip" where
  "newSkip s reason message = s\<lparr>sk_Reason := reason, sk_Message := message\<rparr>"

text \<open>Model-ref entries shadow provider entries, so the merged map is the ref's list before the provider's.\<close>

definition mergeConfig :: "str_map \<Rightarrow> str_map \<Rightarrow> str_map" where
  "mergeConfig provCfg refCfg = refCfg @ provCfg"

subsection \<open>Path templates\<close>

text \<open>All submatches of the regular expression \<^verbatim>\<open>\{([^}]+)\}\<close> from the left: at an opening brace the class
  takes the longest run without a closing brace, which must be non-empty and closed.\<close>

function placeholders :: "string \<Rightarrow> string list" where
  "placeholders s =
     (case s of
        [] \<Rightarrow> []
      | c # cs \<Rightarrow>
          (let key = takeWhile (\<lambda>x. x \<noteq> CHR ''}'') cs;
               rest = dropWhile (\<lambda>x. x \<noteq> CHR ''}'') cs in
           if c = CHR ''{'' \<and> key \<noteq> [] \<and> rest \<noteq> [] then key # placeholders (tl rest)
           else placeholders cs))"
  by pat_completeness auto
termination
proof (relation "measure length", goal_cases)
  case (2 s c cs key rest)
  have "length (tl rest) \<le> length cs"
    using 2 by (metis diff_le_self le_trans length_dropWhile_le length_tl)
  with 2 show ?case by simp
qed auto

declare placeholders.simps [simp del]

definition brace :: "string \<Rightarrow> string" where
  "brace k = ''{'' @ k @ ''}''"

definition resolvePath :: "string \<Rightarrow> string \<Rightarrow> str_map \<Rightarrow> (TransportError, string) res" where
  "resolvePath tmpl targetModel cfg =
     (if tmpl = [] \<or> \<not> contains_str tmpl ''{'' then Inr tmpl
      else
        (let path = fold (\<lambda>k path. replace_all path (brace k) (sm_get cfg k)) (sm_sorted_keys cfg) tmpl;
             path' = replace_all path (brace ''model'') targetModel;
             matches = placeholders path' in
         if matches \<noteq> [] then Inl (PathUnresolved tmpl matches) else Inr path'))"

subsection \<open>Transport of one reference\<close>

record RefTransport =
  rt_path :: string
  rt_caCertificates :: string
  rt_credentialName :: string
  rt_port :: int

definition trust_override :: "ExternalProvider \<Rightarrow> ExternalProviderRef \<Rightarrow> string \<Rightarrow> bool" where
  "trust_override prov ref key \<longleftrightarrow>
     (case map_of (er_Config ref) key of
        None \<Rightarrow> False
      | Some modelValue \<Rightarrow> trim_space modelValue \<noteq> trim_space (sm_get (ps_Config (ep_Spec prov)) key))"

definition resolveRefTransport ::
    "k8s_lib \<Rightarrow> ExternalProvider \<Rightarrow> ExternalProviderRef \<Rightarrow> (TransportError, RefTransport) res" where
  "resolveRefTransport lib prov ref =
     (case List.find (trust_override prov ref) [''tls.caCertificates'', ''tls.credentialName''] of
        Some key \<Rightarrow> Inl (TrustOverride key (ep_Name prov))
      | None \<Rightarrow>
          (let cfg = mergeConfig (ps_Config (ep_Spec prov)) (er_Config ref) in
           case ValidateProviderTrust lib cfg of
             Some e \<Rightarrow> Inl (TrustInvalid e)
           | None \<Rightarrow>
               bind_res (resolvePath (er_Path ref) (er_TargetModel ref) cfg) (\<lambda>path.
                 if trim_space (er_TargetModel ref) = [] \<or> length (er_TargetModel ref) > 256
                    \<or> contains_any (er_TargetModel ref) [CHR 0x0D, CHR 0x0A, CHR 0x00]
                 then Inl TargetModelInvalid
                 else if path = [] \<or> length path > 2048 \<or> \<not> has_prefix path ''/''
                    \<or> contains_any path [CHR ''?'', CHR ''#'', CHR 0x0D, CHR 0x0A, CHR 0x00]
                 then Inl PathInvalid
                 else bind_res (ProviderPort (Some prov)) (\<lambda>port.
                   Inr \<lparr>rt_path = path,
                        rt_caCertificates = trim_space (sm_get cfg ''tls.caCertificates''),
                        rt_credentialName = trim_space (sm_get cfg ''tls.credentialName''),
                        rt_port = port\<rparr>))))"

subsection \<open>The resolution loops\<close>

type_synonym prov_key = "string \<times> string"

text \<open>\<open>byKey\<close>: later providers of the same namespace and name overwrite earlier ones; nil entries are skipped.\<close>

definition byKey :: "ExternalProvider option list \<Rightarrow> prov_key \<Rightarrow> ExternalProvider option" where
  "byKey providers key =
     fold (\<lambda>p acc. case p of
                     None \<Rightarrow> acc
                   | Some prov \<Rightarrow> if (ep_Namespace prov, ep_Name prov) = key then Some prov else acc)
       providers None"

definition ref_weight :: "ExternalProviderRef \<Rightarrow> int" where
  "ref_weight ref = (case er_Weight ref of None \<Rightarrow> 1 | Some w \<Rightarrow> w)"

definition ref_key :: "ExternalModel \<Rightarrow> ExternalProviderRef \<Rightarrow> prov_key" where
  "ref_key m ref =
     (if pr_Namespace (er_Ref ref) \<noteq> [] then pr_Namespace (er_Ref ref) else em_Namespace m, pr_Name (er_Ref ref))"

definition model_ref :: "ExternalModel \<Rightarrow> string" where
  "model_ref m = em_Namespace m @ ''/'' @ em_Name m"

definition client_name :: "ExternalModel \<Rightarrow> string" where
  "client_name m = (if ms_ModelName (em_Spec m) \<noteq> [] then ms_ModelName (em_Spec m) else em_Name m)"

definition build_route ::
    "bool \<Rightarrow> ExternalModel \<Rightarrow> ExternalProvider \<Rightarrow> ExternalProviderRef \<Rightarrow> RefTransport \<Rightarrow> Route" where
  "build_route translationEnabled m prov ref t =
     (let auth = (case er_Auth ref of Some a \<Rightarrow> a | None \<Rightarrow> ps_Auth (ep_Spec prov));
          secretNamespace =
            (if er_Auth ref = None \<and> ep_Namespace prov \<noteq> em_Namespace m then ep_Namespace prov else []);
          route =
            \<lparr>Model = em_Name m, ClientName = client_name m, Namespace = em_Namespace m,
             Provider = ep_Name prov, ProviderNamespace = ep_Namespace prov,
             ProviderType = ps_Provider (ep_Spec prov), Cluster = [],
             Endpoint = ps_Endpoint (ep_Spec prov), Port = rt_port t,
             TLSCACertificates = rt_caCertificates t, TLSCredentialName = rt_credentialName t,
             TargetModel = er_TargetModel ref, APIFormat = er_APIFormat ref, Path = rt_path t,
             APITranslationEnabled = translationEnabled, Weight = ref_weight ref,
             AuthType = AuthTypeOf (ac_Type auth), SecretName = nr_Name (ac_SecretRef auth),
             SecretKey = ''api-key'', StableID = [], SecretNamespace = secretNamespace\<rparr>
      in route\<lparr>Cluster := ServiceName route\<rparr>)"

text \<open>What one iteration of the inner loop does: record a skip, add a route, or leave \<open>resolve\<close>.\<close>

datatype RefOutcome =
    RefSkipped Skip
  | RefRouted Route
  | RefUnsupported Skip ResolveError
  | RefFailed ResolveError

definition resolve_ref ::
    "k8s_lib \<Rightarrow> bool \<Rightarrow> bool \<Rightarrow> (prov_key \<Rightarrow> ExternalProvider option) \<Rightarrow> ExternalModel \<Rightarrow>
     prov_key list \<Rightarrow> ExternalProviderRef \<Rightarrow> RefOutcome" where
  "resolve_ref lib includeDisabled translationEnabled provs m active ref =
     (let base = \<lparr>sk_ModelRef = model_ref m, sk_ProviderRef = pr_Name (er_Ref ref),
                  sk_Reason = SkipRefNotFound, sk_Message = MsgNotInModelNamespace\<rparr>;
          weight = ref_weight ref;
          key = ref_key m ref;
          found = provs key in
      if weight \<le> 0 \<and> \<not> includeDisabled
      then RefSkipped (newSkip base SkipWeightDisabled (MsgWeightDisables weight))
      else if found = None \<and> fst key \<noteq> em_Namespace m
      then RefSkipped (newSkip base SkipRefNotPermitted (MsgNotFoundOrNotPermitted (fst key) (snd key)))
      else if er_APIFormat ref = ''messages'' \<and> \<not> translationEnabled
              \<and> (case found of None \<Rightarrow> True | Some prov \<Rightarrow> ps_Provider (ep_Spec prov) = ''anthropic'')
      then RefSkipped (newSkip base SkipTranslationDisabled MsgTranslationRequired)
      else
        (case found of
           None \<Rightarrow> RefSkipped (newSkip base SkipRefNotFound MsgNotInModelNamespace)
         | Some prov \<Rightarrow>
             if pst_Phase (ep_Status prov) \<noteq> PhaseReady
             then RefSkipped (newSkip base SkipProviderNotReady
                    (MsgPhaseNotReady (pst_Phase (ep_Status prov))
                       (case FindStatusCondition lib (pst_Conditions (ep_Status prov)) ''Ready'' of
                          Some ready \<Rightarrow> if co_Message ready \<noteq> [] then Some (co_Message ready) else None
                        | None \<Rightarrow> None)))
             else if \<not> supportedProviderFormat (ps_Provider (ep_Spec prov)) (er_APIFormat ref)
             then
               (let message = MsgNoQualifiedProfile (ps_Provider (ep_Spec prov)) (er_APIFormat ref);
                    skip = newSkip base SkipAPIFormatUnsupported message in
                if weight \<le> 0 then RefSkipped skip
                else RefUnsupported skip
                       (ErrProviderCapabilityUnsupported (model_ref m) (pr_Name (er_Ref ref)) message))
             else if weight > 0 \<and> key \<in> set active
             then RefFailed (MultipleActiveReferences (model_ref m) (ep_Namespace prov) (ep_Name prov))
             else
               (case resolveRefTransport lib prov ref of
                  Inl e \<Rightarrow> RefFailed (RefTransportError (model_ref m) (pr_Name (er_Ref ref)) e)
                | Inr t \<Rightarrow> RefRouted (build_route translationEnabled m prov ref t))))"

record ModelLoop =
  ml_mr :: ModelRoutes
  ml_active :: "prov_key list"
  ml_resolved :: nat

text \<open>An early return from inside the loops: with the model's routes so far added to the set, or with nil.\<close>

datatype EarlyReturn = ReturnSet ModelRoutes ResolveError | ReturnNil ResolveError

definition add_skip :: "Skip \<Rightarrow> ModelRoutes \<Rightarrow> ModelRoutes" where
  "add_skip s mr = mr\<lparr>mr_Skips := mr_Skips mr @ [s]\<rparr>"

definition add_route :: "Route \<Rightarrow> ModelRoutes \<Rightarrow> ModelRoutes" where
  "add_route r mr = mr\<lparr>mr_Routes := mr_Routes mr @ [r]\<rparr>"

definition resolve_ref_step ::
    "k8s_lib \<Rightarrow> bool \<Rightarrow> bool \<Rightarrow> (prov_key \<Rightarrow> ExternalProvider option) \<Rightarrow> ExternalModel \<Rightarrow>
     ExternalProviderRef \<Rightarrow> ModelLoop \<Rightarrow> (EarlyReturn, ModelLoop) res" where
  "resolve_ref_step lib includeDisabled translationEnabled provs m ref s =
     (case resolve_ref lib includeDisabled translationEnabled provs m (ml_active s) ref of
        RefSkipped skip \<Rightarrow> Inr (s\<lparr>ml_mr := add_skip skip (ml_mr s)\<rparr>)
      | RefUnsupported skip e \<Rightarrow> Inl (ReturnSet (add_skip skip (ml_mr s)) e)
      | RefFailed e \<Rightarrow> Inl (ReturnNil e)
      | RefRouted route \<Rightarrow>
          Inr (s\<lparr>ml_mr := add_route route (ml_mr s),
                 ml_active := (if ref_weight ref > 0 then ref_key m ref # ml_active s else ml_active s),
                 ml_resolved := Suc (ml_resolved s)\<rparr>))"

definition resolve_model ::
    "k8s_lib \<Rightarrow> bool \<Rightarrow> bool \<Rightarrow> (prov_key \<Rightarrow> ExternalProvider option) \<Rightarrow> ExternalModel \<Rightarrow> nat \<Rightarrow>
     (EarlyReturn, ModelLoop) res" where
  "resolve_model lib includeDisabled translationEnabled provs m resolved =
     fold_res (resolve_ref_step lib includeDisabled translationEnabled provs m)
       (ms_ExternalProviderRefs (em_Spec m))
       \<lparr>ml_mr = \<lparr>mr_ModelRef = model_ref m, mr_Routes = [], mr_Skips = []\<rparr>,
        ml_active = [], ml_resolved = resolved\<rparr>"

fun resolve_models ::
    "k8s_lib \<Rightarrow> bool \<Rightarrow> bool \<Rightarrow> (prov_key \<Rightarrow> ExternalProvider option) \<Rightarrow> ExternalModel option list \<Rightarrow>
     ModelRoutes list \<Rightarrow> nat \<Rightarrow> ResolvedRouteSet option \<times> ResolveError option" where
  "resolve_models lib incl transl provs [] done resolved =
     (Some \<lparr>Models = done\<rparr>, if resolved = 0 then Some ErrNoRoutes else None)"
| "resolve_models lib incl transl provs (None # ms) done resolved =
     resolve_models lib incl transl provs ms done resolved"
| "resolve_models lib incl transl provs (Some m # ms) done resolved =
     (case resolve_model lib incl transl provs m resolved of
        Inl (ReturnSet mr e) \<Rightarrow> (Some \<lparr>Models = done @ [mr]\<rparr>, Some e)
      | Inl (ReturnNil e) \<Rightarrow> (None, Some e)
      | Inr s \<Rightarrow> resolve_models lib incl transl provs ms (done @ [ml_mr s]) (ml_resolved s))"

definition resolve ::
    "k8s_lib \<Rightarrow> ExternalModel option list \<Rightarrow> ExternalProvider option list \<Rightarrow> bool \<Rightarrow> bool \<Rightarrow>
     ResolvedRouteSet option \<times> ResolveError option" where
  "resolve lib models providers includeDisabled translationEnabled =
     resolve_models lib includeDisabled translationEnabled (byKey providers) models [] 0"

definition Resolve ::
    "k8s_lib \<Rightarrow> ExternalModel option list \<Rightarrow> ExternalProvider option list \<Rightarrow>
     ResolvedRouteSet option \<times> ResolveError option" where
  "Resolve lib models providers = resolve lib models providers False False"

definition ResolveWithAPITranslation ::
    "k8s_lib \<Rightarrow> ExternalModel option list \<Rightarrow> ExternalProvider option list \<Rightarrow> bool \<Rightarrow>
     ResolvedRouteSet option \<times> ResolveError option" where
  "ResolveWithAPITranslation lib models providers enabled = resolve lib models providers False enabled"

definition ResolveAll ::
    "k8s_lib \<Rightarrow> ExternalModel option list \<Rightarrow> ExternalProvider option list \<Rightarrow>
     ResolvedRouteSet option \<times> ResolveError option" where
  "ResolveAll lib models providers = resolve lib models providers True False"

definition ResolveAllWithAPITranslation ::
    "k8s_lib \<Rightarrow> ExternalModel option list \<Rightarrow> ExternalProvider option list \<Rightarrow> bool \<Rightarrow>
     ResolvedRouteSet option \<times> ResolveError option" where
  "ResolveAllWithAPITranslation lib models providers enabled = resolve lib models providers True enabled"

end
