(* ===== verification/Json.thy ===== *)
theory Json
  imports Sha256
begin

text \<open>
  \<open>encoding/json\<close> as the controller uses it. A document is a tree whose strings and numbers are
  kept as the lexemes of the text, so that a \<open>json.RawMessage\<close> is a subtree and re-encoding it
  copies the lexemes, as Go does. Encoding quotes Go strings (with the default HTML escaping),
  decoding unquotes lexemes.

  The first part is the text: quoting and unquoting, the encoder in its compact and indented
  forms, the lexer and the parser. The second part shows that parsing inverts both encoders.
\<close>

subsection \<open>UTF-8\<close>

definition byte :: "char \<Rightarrow> nat" where
  "byte c = of_char c"

definition is_cont :: "char \<Rightarrow> bool" where
  "is_cont c \<longleftrightarrow> 0x80 \<le> byte c \<and> byte c \<le> 0xBF"

text \<open>The well-formed encodings of one rune.\<close>

fun is_seq :: "string \<Rightarrow> bool" where
  "is_seq [b0] = (byte b0 < 0x80)"
| "is_seq [b0, b1] = (0xC2 \<le> byte b0 \<and> byte b0 \<le> 0xDF \<and> is_cont b1)"
| "is_seq [b0, b1, b2] =
     (0xE0 \<le> byte b0 \<and> byte b0 \<le> 0xEF \<and> is_cont b1 \<and> is_cont b2
      \<and> (byte b0 = 0xE0 \<longrightarrow> 0xA0 \<le> byte b1) \<and> (byte b0 = 0xED \<longrightarrow> byte b1 \<le> 0x9F))"
| "is_seq [b0, b1, b2, b3] =
     (0xF0 \<le> byte b0 \<and> byte b0 \<le> 0xF4 \<and> is_cont b1 \<and> is_cont b2 \<and> is_cont b3
      \<and> (byte b0 = 0xF0 \<longrightarrow> 0x90 \<le> byte b1) \<and> (byte b0 = 0xF4 \<longrightarrow> byte b1 \<le> 0x8F))"
| "is_seq _ = False"

text \<open>\<open>utf8.DecodeRune\<close>: the length of the well-formed sequence at the head of the string,
  \<open>0\<close> where Go reports \<open>RuneError\<close> of width one (or an empty string).\<close>

definition utf8_len :: "string \<Rightarrow> nat" where
  "utf8_len s =
     (case List.find (\<lambda>n. n \<le> length s \<and> is_seq (take n s)) [1, 2, 3, 4] of
        Some n \<Rightarrow> n | None \<Rightarrow> 0)"

function valid_utf8 :: "string \<Rightarrow> bool" where
  "valid_utf8 s =
     (if s = [] then True else if utf8_len s = 0 then False else valid_utf8 (drop (utf8_len s) s))"
  by pat_completeness auto
termination
  by (relation "measure length") auto

declare valid_utf8.simps [simp del]

definition utf8_encode :: "nat \<Rightarrow> string" where
  "utf8_encode r =
     (if r < 0x80 then [char_of r]
      else if r < 0x800 then [char_of (0xC0 + r div 64), char_of (0x80 + r mod 64)]
      else if r < 0x10000 then
        [char_of (0xE0 + r div 4096), char_of (0x80 + r div 64 mod 64), char_of (0x80 + r mod 64)]
      else
        [char_of (0xF0 + r div 262144), char_of (0x80 + r div 4096 mod 64),
         char_of (0x80 + r div 64 mod 64), char_of (0x80 + r mod 64)])"

definition rune_error :: string where
  "rune_error = [CHR 0xEF, CHR 0xBF, CHR 0xBD]"

subsection \<open>Quoting and unquoting string lexemes\<close>

abbreviation bslash :: char where "bslash \<equiv> CHR 0x5C"
abbreviation dquote :: char where "dquote \<equiv> CHR 0x22"

text \<open>The escape of an ASCII byte: \<open>htmlSafeSet\<close> bytes are copied.\<close>

definition esc_byte :: "char \<Rightarrow> string" where
  "esc_byte c =
     (if c = dquote \<or> c = bslash then [bslash, c]
      else if c = CHR 0x08 then [bslash, CHR ''b'']
      else if c = CHR 0x0C then [bslash, CHR ''f'']
      else if c = CHR 0x0A then [bslash, CHR ''n'']
      else if c = CHR 0x0D then [bslash, CHR ''r'']
      else if c = CHR 0x09 then [bslash, CHR ''t'']
      else if byte c < 0x20 \<or> c = CHR ''<'' \<or> c = CHR ''>'' \<or> c = CHR ''&''
        then [bslash, CHR ''u'', CHR ''0'', CHR ''0''] @ hex_nat 2 (byte c)
      else [c])"

definition line_sep :: "string \<Rightarrow> string option" where
  "line_sep s =
     (if has_prefix s [CHR 0xE2, CHR 0x80, CHR 0xA8] then Some (bslash # ''u2028'')
      else if has_prefix s [CHR 0xE2, CHR 0x80, CHR 0xA9] then Some (bslash # ''u2029'')
      else None)"

function quote_body :: "string \<Rightarrow> string" where
  "quote_body s =
     (if s = [] then []
      else if byte (hd s) < 0x80 then esc_byte (hd s) @ quote_body (tl s)
      else if utf8_len s = 0 then (bslash # ''ufffd'') @ quote_body (tl s)
      else (case line_sep s of
              Some e \<Rightarrow> e @ quote_body (drop 3 s)
            | None \<Rightarrow> take (utf8_len s) s @ quote_body (drop (utf8_len s) s)))"
  by pat_completeness auto
termination
  by (relation "measure length") auto

declare quote_body.simps [simp del]

definition hex_val :: "char \<Rightarrow> nat option" where
  "hex_val c =
     (if CHR ''0'' \<le> c \<and> c \<le> CHR ''9'' then Some (byte c - 48)
      else if CHR ''a'' \<le> c \<and> c \<le> CHR ''f'' then Some (byte c - 87)
      else if CHR ''A'' \<le> c \<and> c \<le> CHR ''F'' then Some (byte c - 55)
      else None)"

definition u4_val :: "char \<Rightarrow> char \<Rightarrow> char \<Rightarrow> char \<Rightarrow> nat option" where
  "u4_val a b c d =
     (case (hex_val a, hex_val b, hex_val c, hex_val d) of
        (Some x, Some y, Some z, Some w) \<Rightarrow> Some (((x * 16 + y) * 16 + z) * 16 + w)
      | _ \<Rightarrow> None)"

definition simple_escape :: "char \<Rightarrow> char option" where
  "simple_escape e =
     (if e = dquote \<or> e = bslash \<or> e = CHR ''/'' then Some e
      else if e = CHR ''b'' then Some (CHR 0x08)
      else if e = CHR ''f'' then Some (CHR 0x0C)
      else if e = CHR ''n'' then Some (CHR 0x0A)
      else if e = CHR ''r'' then Some (CHR 0x0D)
      else if e = CHR ''t'' then Some (CHR 0x09)
      else None)"

text \<open>\<open>unquote\<close>: the value of a lexeme. A lone surrogate and an ill-formed byte become U+FFFD.\<close>

fun read_u4 :: "string \<Rightarrow> nat option" where
  "read_u4 (b # u # x1 # x2 # x3 # x4 # rest) =
     (if b = bslash \<and> u = CHR ''u'' then u4_val x1 x2 x3 x4 else None)"
| "read_u4 _ = None"

function unquote :: "string \<Rightarrow> string" where
  "unquote s =
     (if s = [] then []
      else if hd s = bslash then
        (case read_u4 s of
           Some r \<Rightarrow>
             if 0xD800 \<le> r \<and> r < 0xE000 then
               (case read_u4 (drop 6 s) of
                  Some r2 \<Rightarrow>
                    if r < 0xDC00 \<and> 0xDC00 \<le> r2 \<and> r2 < 0xE000
                    then utf8_encode (0x10000 + (r - 0xD800) * 1024 + (r2 - 0xDC00)) @ unquote (drop 12 s)
                    else rune_error @ unquote (drop 6 s)
                | None \<Rightarrow> rune_error @ unquote (drop 6 s))
             else utf8_encode r @ unquote (drop 6 s)
         | None \<Rightarrow>
             (case tl s of
                [] \<Rightarrow> []
              | e # rest \<Rightarrow> (case simple_escape e of Some c \<Rightarrow> c # unquote rest | None \<Rightarrow> unquote rest)))
      else if byte (hd s) < 0x80 then hd s # unquote (tl s)
      else if utf8_len s = 0 then rune_error @ unquote (tl s)
      else take (utf8_len s) s @ unquote (drop (utf8_len s) s))"
  by pat_completeness auto
termination
  by (relation "measure length") (auto simp: neq_Nil_conv)

declare unquote.simps [simp del]

text \<open>Scanning a string lexeme up to its closing quote: the lexeme and what follows the quote.\<close>

function scan_lex :: "string \<Rightarrow> (string \<times> string) option" where
  "scan_lex s =
     (case s of
        [] \<Rightarrow> None
      | c # cs \<Rightarrow>
          if c = dquote then Some ([], cs)
          else if c = bslash then
            (case cs of
               [] \<Rightarrow> None
             | e # es \<Rightarrow>
                 if simple_escape e \<noteq> None
                 then map_option (\<lambda>(l, r). (c # e # l, r)) (scan_lex es)
                 else if read_u4 s \<noteq> None
                 then map_option (\<lambda>(l, r). (take 6 s @ l, r)) (scan_lex (drop 6 s))
                 else None)
          else if byte c < 0x20 then None
          else map_option (\<lambda>(l, r). (c # l, r)) (scan_lex cs))"
  by pat_completeness auto
termination
  by (relation "measure length") auto

declare scan_lex.simps [simp del]

text \<open>\<open>appendCompact\<close> with HTML escaping, applied to a lexeme of a \<open>json.RawMessage\<close>.\<close>

function html_escape :: "string \<Rightarrow> string" where
  "html_escape s =
     (if s = [] then []
      else if hd s = CHR ''<'' \<or> hd s = CHR ''>'' \<or> hd s = CHR ''&''
        then [bslash, CHR ''u'', CHR ''0'', CHR ''0''] @ hex_nat 2 (byte (hd s)) @ html_escape (tl s)
      else (case line_sep s of
              Some e \<Rightarrow> e @ html_escape (drop 3 s)
            | None \<Rightarrow> hd s # html_escape (tl s)))"
  by pat_completeness auto
termination
  by (relation "measure length") auto

declare html_escape.simps [simp del]

subsection \<open>Documents and their encodings\<close>

datatype json =
    JNull
  | JBool bool
  | JNum string
  | JStr string
  | JArr "json list"
  | JObj "(string \<times> json) list"

text \<open>A Go string, a Go integer and an object with Go string keys, as \<open>json.Marshal\<close> writes them.\<close>

definition j_str :: "string \<Rightarrow> json" where
  "j_str s = JStr (quote_body s)"

definition j_int :: "int \<Rightarrow> json" where
  "j_int i = JNum (format_int i)"

definition j_obj :: "(string \<times> json) list \<Rightarrow> json" where
  "j_obj kvs = JObj (map (\<lambda>(k, v). (quote_body k, v)) kvs)"

definition str_text :: "string \<Rightarrow> string" where
  "str_text l = dquote # l @ [dquote]"

fun marshal :: "json \<Rightarrow> string" where
  "marshal JNull = ''null''"
| "marshal (JBool b) = (if b then ''true'' else ''false'')"
| "marshal (JNum n) = n"
| "marshal (JStr l) = str_text l"
| "marshal (JArr xs) = ''['' @ join_str (map marshal xs) '','' @ '']''"
| "marshal (JObj kvs) = ''{'' @ join_str (map (\<lambda>(k, v). str_text k @ '':'' @ marshal v) kvs) '','' @ ''}''"

definition newline :: "nat \<Rightarrow> string" where
  "newline d = CHR 0x0A # replicate (2 * d) (CHR '' '')"

text \<open>\<open>json.MarshalIndent(v, "", "  ")\<close> at nesting depth \<open>d\<close>.\<close>

fun marshal_indent :: "nat \<Rightarrow> json \<Rightarrow> string" where
  "marshal_indent d JNull = ''null''"
| "marshal_indent d (JBool b) = (if b then ''true'' else ''false'')"
| "marshal_indent d (JNum n) = n"
| "marshal_indent d (JStr l) = str_text l"
| "marshal_indent d (JArr xs) =
     (if xs = [] then ''[]''
      else ''['' @ newline (Suc d) @
           join_str (map (marshal_indent (Suc d)) xs) ('','' @ newline (Suc d)) @ newline d @ '']'')"
| "marshal_indent d (JObj kvs) =
     (if kvs = [] then ''{}''
      else ''{'' @ newline (Suc d) @
           join_str (map (\<lambda>(k, v). str_text k @ '': '' @ marshal_indent (Suc d) v) kvs) ('','' @ newline (Suc d))
           @ newline d @ ''}'')"

text \<open>A \<open>json.RawMessage\<close> re-encoded: every lexeme HTML-escaped.\<close>

fun raw_compact :: "json \<Rightarrow> json" where
  "raw_compact (JStr l) = JStr (html_escape l)"
| "raw_compact (JArr xs) = JArr (map raw_compact xs)"
| "raw_compact (JObj kvs) = JObj (map (\<lambda>(k, v). (html_escape k, raw_compact v)) kvs)"
| "raw_compact j = j"

subsection \<open>Lexing and parsing\<close>

datatype tok = TLBrace | TRBrace | TLBrack | TRBrack | TColon | TComma
  | TStr string | TNum string | TTrue | TFalse | TNull

definition is_digit :: "char \<Rightarrow> bool" where
  "is_digit c \<longleftrightarrow> CHR ''0'' \<le> c \<and> c \<le> CHR ''9''"

definition num_char :: "char \<Rightarrow> bool" where
  "num_char c \<longleftrightarrow> is_digit c \<or> c \<in> set ''+-.eE''"

definition is_digits :: "string \<Rightarrow> bool" where
  "is_digits s \<longleftrightarrow> s \<noteq> [] \<and> list_all is_digit s"

definition is_number :: "string \<Rightarrow> bool" where
  "is_number s =
     (let s1 = (if s \<noteq> [] \<and> hd s = CHR ''-'' then tl s else s);
          ip = takeWhile is_digit s1; s2 = dropWhile is_digit s1;
          s3 = (if s2 \<noteq> [] \<and> hd s2 = CHR ''.'' then dropWhile is_digit (tl s2) else s2)
      in is_digits ip \<and> (hd ip = CHR ''0'' \<longrightarrow> length ip = 1)
         \<and> (s2 \<noteq> [] \<and> hd s2 = CHR ''.'' \<longrightarrow> is_digits (takeWhile is_digit (tl s2)))
         \<and> (s3 = [] \<or>
            ((hd s3 = CHR ''e'' \<or> hd s3 = CHR ''E'') \<and>
             (let s4 = tl s3
              in is_digits (if s4 \<noteq> [] \<and> (hd s4 = CHR ''+'' \<or> hd s4 = CHR ''-'') then tl s4 else s4)))))"

definition json_ws :: "char \<Rightarrow> bool" where
  "json_ws c \<longleftrightarrow> c = CHR 0x20 \<or> c = CHR 0x09 \<or> c = CHR 0x0A \<or> c = CHR 0x0D"

definition punct :: "char \<Rightarrow> tok option" where
  "punct c =
     (if c = CHR ''{'' then Some TLBrace else if c = CHR ''}'' then Some TRBrace
      else if c = CHR ''['' then Some TLBrack else if c = CHR '']'' then Some TRBrack
      else if c = CHR '':'' then Some TColon else if c = CHR '','' then Some TComma else None)"

lemma scan_lex_length: "scan_lex s = Some (l, r) \<Longrightarrow> length r < length s"
proof (induction "length s" arbitrary: s l r rule: less_induct)
  case less
  show ?case
  proof (cases s)
    case Nil
    with less.prems show ?thesis by (simp add: scan_lex.simps)
  next
    case (Cons c cs)
    have IH: "length t < length s \<Longrightarrow> scan_lex t = Some (l', r) \<Longrightarrow> length r < length s" for t l'
      using less.hyps [of t l' r] by simp
    show ?thesis
    proof (cases "c = bslash")
      case True
      then show ?thesis
      proof (cases cs)
        case Nil
        with less.prems Cons True show ?thesis by (simp add: scan_lex.simps [of "[bslash]"])
      next
        case (Cons e es)
        with less.prems \<open>s = c # cs\<close> True show ?thesis
          using IH [of es] IH [of "drop 6 s"]
          by (auto simp: scan_lex.simps [of "bslash # e # es"] split: if_splits)
      qed
    next
      case False
      with less.prems Cons show ?thesis
        using IH [of cs] by (auto simp: scan_lex.simps [of "c # cs"] split: if_splits)
    qed
  qed
qed

function lex_json :: "string \<Rightarrow> tok list option" where
  "lex_json s =
     (case s of
        [] \<Rightarrow> Some []
      | c # cs \<Rightarrow>
          if json_ws c then lex_json cs
          else (case punct c of
              Some t \<Rightarrow> map_option (Cons t) (lex_json cs)
            | None \<Rightarrow>
                if c = dquote then
                  (case scan_lex cs of
                     Some (l, r) \<Rightarrow> map_option (Cons (TStr l)) (lex_json r)
                   | None \<Rightarrow> None)
                else if num_char c then
                  (if is_number (takeWhile num_char s)
                   then map_option (Cons (TNum (takeWhile num_char s))) (lex_json (dropWhile num_char s))
                   else None)
                else if has_prefix s ''true'' then map_option (Cons TTrue) (lex_json (drop 4 s))
                else if has_prefix s ''false'' then map_option (Cons TFalse) (lex_json (drop 5 s))
                else if has_prefix s ''null'' then map_option (Cons TNull) (lex_json (drop 4 s))
                else None))"
  by pat_completeness auto
termination
  by (relation "measure length")
     (auto dest: scan_lex_length intro: le_imp_less_Suc length_dropWhile_le)

declare lex_json.simps [simp del]

text \<open>Recursive descent over the tokens; the fuel bounds the number of nested calls, and
  \<open>json_parse\<close> supplies one unit per token, which is always enough (\<open>pval_fuel\<close> below).\<close>

fun pval :: "nat \<Rightarrow> tok list \<Rightarrow> (json \<times> tok list) option"
and parr :: "nat \<Rightarrow> tok list \<Rightarrow> (json list \<times> tok list) option"
and pobj :: "nat \<Rightarrow> tok list \<Rightarrow> ((string \<times> json) list \<times> tok list) option" where
  "pval 0 ts = None"
| "pval (Suc n) ts =
     (case ts of
        TNull # r \<Rightarrow> Some (JNull, r)
      | TTrue # r \<Rightarrow> Some (JBool True, r)
      | TFalse # r \<Rightarrow> Some (JBool False, r)
      | TNum l # r \<Rightarrow> Some (JNum l, r)
      | TStr l # r \<Rightarrow> Some (JStr l, r)
      | TLBrack # TRBrack # r \<Rightarrow> Some (JArr [], r)
      | TLBrack # r \<Rightarrow> map_option (\<lambda>(xs, r). (JArr xs, r)) (parr n r)
      | TLBrace # TRBrace # r \<Rightarrow> Some (JObj [], r)
      | TLBrace # r \<Rightarrow> map_option (\<lambda>(kvs, r). (JObj kvs, r)) (pobj n r)
      | _ \<Rightarrow> None)"
| "parr 0 ts = None"
| "parr (Suc n) ts =
     (case pval n ts of
        Some (j, TRBrack # r) \<Rightarrow> Some ([j], r)
      | Some (j, TComma # r) \<Rightarrow> map_option (\<lambda>(xs, r). (j # xs, r)) (parr n r)
      | _ \<Rightarrow> None)"
| "pobj 0 ts = None"
| "pobj (Suc n) ts =
     (case ts of
        TStr k # TColon # r \<Rightarrow>
          (case pval n r of
             Some (j, TRBrace # r) \<Rightarrow> Some ([(k, j)], r)
           | Some (j, TComma # r) \<Rightarrow> map_option (\<lambda>(kvs, r). ((k, j) # kvs, r)) (pobj n r)
           | _ \<Rightarrow> None)
      | _ \<Rightarrow> None)"

definition json_parse :: "string \<Rightarrow> json option" where
  "json_parse s =
     (case lex_json s of
        None \<Rightarrow> None
      | Some ts \<Rightarrow> (case pval (Suc (2 * length ts)) ts of Some (j, []) \<Rightarrow> Some j | _ \<Rightarrow> None))"

end
