(* ===== verification/JsonRoundtrip.thy ===== *)
theory JsonRoundtrip
  imports Json
begin

text \<open>
  Parsing inverts encoding. The proof goes through the token sequence of a document: both
  encoders lex to it, and the parser reads the document back from it. A Go string that is valid
  UTF-8 is recovered from its quoted lexeme.
\<close>

subsection \<open>Strings\<close>

lemma hex_val_digit: "hex_val (hex_digit n) = Some (n mod 16)"
proof -
  have "\<forall>m \<in> set [0..<16]. hex_val (hex_chars ! m) = Some m" by code_simp
  moreover have "n mod 16 \<in> set [0..<16]" by simp
  ultimately show ?thesis by (auto simp: hex_digit_def)
qed

text \<open>The first byte of a well-formed sequence determines its length.\<close>

definition lead_len :: "nat \<Rightarrow> nat" where
  "lead_len b = (if b < 0x80 then 1 else if b \<le> 0xDF then 2 else if b \<le> 0xEF then 3 else 4)"

lemma is_seq_length: "is_seq w \<Longrightarrow> w \<noteq> [] \<and> length w = lead_len (byte (hd w))"
  by (induction w rule: is_seq.induct) (auto simp: lead_len_def)

lemma utf8_len_seq: "is_seq w \<Longrightarrow> utf8_len (w @ t) = length w"
proof -
  assume w: "is_seq w"
  have len: "length w \<in> {1, 2, 3, 4}"
    using is_seq_length [OF w] by (auto simp: lead_len_def)
  have uniq: "is_seq (take n (w @ t)) \<Longrightarrow> n \<le> length (w @ t) \<Longrightarrow> n = length w" for n
    using is_seq_length [of "take n (w @ t)"] is_seq_length [OF w]
    by (cases w; cases n) auto
  let ?P = "\<lambda>n. n \<le> length (w @ t) \<and> is_seq (take n (w @ t))"
  have "List.find ?P [1, 2, 3, 4] \<noteq> None"
    using len w by (auto simp: find_None_iff)
  then obtain n where n: "List.find ?P [1, 2, 3, 4] = Some n" by blast
  then have "n = length w" using uniq [of n] find_Some_set [OF n] by blast
  with n show ?thesis by (simp add: utf8_len_def)
qed

lemma utf8_len_SomeD: "utf8_len s \<noteq> 0 \<Longrightarrow> is_seq (take (utf8_len s) s) \<and> utf8_len s \<le> length s"
  by (auto simp: utf8_len_def split: if_splits)

lemma utf8_len_ascii: "byte c < 0x80 \<Longrightarrow> utf8_len (c # s) = 1"
  using utf8_len_seq [of "[c]" s] by simp

lemma byte_escape_range: "byte bslash = 0x5C" "byte dquote = 0x22"
  by (simp_all add: byte_def)

text \<open>Unquoting and scanning step over the escape of one ASCII byte.\<close>

lemma read_u4_00:
  "read_u4 (bslash # CHR ''u'' # CHR ''0'' # CHR ''0'' # hex_nat 2 n @ t) = Some (n mod 256)"
proof -
  have "hex_nat 2 n = [hex_digit (n div 16), hex_digit n]"
    by (simp add: numeral_2_eq_2)
  moreover have "hex_val (CHR ''0'') = Some 0" by code_simp
  moreover have "(n div 16 mod 16) * 16 + n mod 16 = n mod 256"
    by (metis mult.commute mod_mult2_eq numeral_times_numeral semiring_norm(13) add.commute mod_mult2_eq num_double)
  ultimately show ?thesis by (simp add: u4_val_def hex_val_digit)
qed

lemma read_u4_other: "e \<noteq> CHR ''u'' \<Longrightarrow> read_u4 (bslash # e # t) = None"
  by (cases "bslash # e # t" rule: read_u4.cases) auto

lemma unquote_Nil [simp]: "unquote [] = []"
  by (subst unquote.simps) simp

lemma unquote_simple:
  "e \<noteq> CHR ''u'' \<Longrightarrow> simple_escape e = Some c \<Longrightarrow> unquote (bslash # e # t) = c # unquote t"
  by (subst unquote.simps) (simp add: read_u4_other)

lemma unquote_plain: "c \<noteq> bslash \<Longrightarrow> byte c < 0x80 \<Longrightarrow> unquote (c # t) = c # unquote t"
  by (subst unquote.simps) simp

lemma unquote_u4:
  "read_u4 (bslash # t) = Some r \<Longrightarrow> \<not> (0xD800 \<le> r \<and> r < 0xE000) \<Longrightarrow>
   unquote (bslash # t) = utf8_encode r @ unquote (drop 5 t)"
  by (subst unquote.simps) auto

lemma unquote_seq:
  assumes "is_seq w" and "0x80 \<le> byte (hd w)"
  shows "unquote (w @ t) = w @ unquote t"
proof -
  have "w \<noteq> []" using is_seq_length [OF assms(1)] by simp
  moreover have "hd w \<noteq> bslash" using assms(2) by (auto simp: byte_def)
  ultimately show ?thesis
    using assms by (subst unquote.simps) (simp add: utf8_len_seq)
qed

lemma hex_nat_2: "hex_nat 2 n = [hex_digit (n div 16), hex_digit n]"
  by (simp add: numeral_2_eq_2)

lemma esc_byte_unquote: "byte c < 0x80 \<Longrightarrow> unquote (esc_byte c @ t) = c # unquote t"
proof (cases "byte c < 0x20 \<or> c = CHR ''<'' \<or> c = CHR ''>'' \<or> c = CHR ''&''")
  case True
  assume c: "byte c < 0x80"
  have u: "unquote (bslash # CHR ''u'' # CHR ''0'' # CHR ''0'' # hex_nat 2 (byte c) @ t) = c # unquote t"
  proof -
    have "read_u4 (bslash # CHR ''u'' # CHR ''0'' # CHR ''0'' # hex_nat 2 (byte c) @ t) = Some (byte c)"
      using c by (simp only: read_u4_00) simp
    then have "unquote (bslash # CHR ''u'' # CHR ''0'' # CHR ''0'' # hex_nat 2 (byte c) @ t)
        = utf8_encode (byte c) @ unquote (drop 5 (CHR ''u'' # CHR ''0'' # CHR ''0'' # hex_nat 2 (byte c) @ t))"
      using c by (intro unquote_u4) auto
    also have "\<dots> = c # unquote t"
      using c by (simp add: utf8_encode_def hex_nat_2 byte_def)
    finally show ?thesis .
  qed
  then show ?thesis
    using True by (auto simp: esc_byte_def unquote_simple simple_escape_def)
next
  case False
  assume "byte c < 0x80"
  with False show ?thesis
    by (auto simp: esc_byte_def unquote_simple simple_escape_def unquote_plain byte_def)
qed

lemma quote_body_Nil [simp]: "quote_body [] = []"
  by (subst quote_body.simps) simp

lemma line_sep_cases:
  "line_sep s = Some e \<Longrightarrow>
     (\<exists>t. s = [CHR 0xE2, CHR 0x80, CHR 0xA8] @ t \<and> e = bslash # ''u2028'') \<or>
     (\<exists>t. s = [CHR 0xE2, CHR 0x80, CHR 0xA9] @ t \<and> e = bslash # ''u2029'')"
  by (auto simp: line_sep_def has_prefix_iff split: if_splits)

lemma unquote_line_sep:
  "line_sep s = Some e \<Longrightarrow> unquote (e @ t) = take 3 s @ unquote t"
proof -
  have "hex_val (CHR ''2'') = Some 2" "hex_val (CHR ''0'') = Some 0" "hex_val (CHR ''8'') = Some 8"
    "hex_val (CHR ''9'') = Some 9" by code_simp+
  moreover have "utf8_encode 8232 = [CHR 0xE2, CHR 0x80, CHR 0xA8]"
    "utf8_encode 8233 = [CHR 0xE2, CHR 0x80, CHR 0xA9]" by (simp_all add: utf8_encode_def char_of_def bit_0)
  ultimately show "line_sep s = Some e \<Longrightarrow> unquote (e @ t) = take 3 s @ unquote t"
    by (auto dest!: line_sep_cases simp: unquote_u4 u4_val_def)
qed

text \<open>Unquoting inverts quoting on valid UTF-8.\<close>

lemma unquote_quote: "valid_utf8 s \<Longrightarrow> unquote (quote_body s) = s"
proof (induction "length s" arbitrary: s rule: less_induct)
  case less
  show ?case
  proof (cases s)
    case Nil
    then show ?thesis by simp
  next
    case (Cons c cs)
    have n0: "utf8_len s \<noteq> 0" and v: "valid_utf8 (drop (utf8_len s) s)"
      using less.prems Cons by (auto simp: valid_utf8.simps [of "c # cs"] split: if_splits)
    have rest: "unquote (quote_body (drop (utf8_len s) s)) = drop (utf8_len s) s"
      using less.hyps [OF _ v] n0 Cons by simp
    note seq = utf8_len_SomeD [OF n0]
    show ?thesis
    proof (cases "byte c < 0x80")
      case True
      with Cons rest show ?thesis
        by (simp add: quote_body.simps [of "c # cs"] esc_byte_unquote utf8_len_ascii)
    next
      case False
      have hd: "hd (take (utf8_len s) s) = c" using Cons n0 by (cases "utf8_len s") auto
      show ?thesis
      proof (cases "line_sep s")
        case None
        have "quote_body s = take (utf8_len s) s @ quote_body (drop (utf8_len s) s)"
          using Cons False n0 None by (simp add: quote_body.simps [of "c # cs"])
        with seq hd False rest show ?thesis
          by (simp add: unquote_seq)
      next
        case (Some e)
        then obtain t where t: "s = [CHR 0xE2, CHR 0x80, CHR 0xA8] @ t \<or> s = [CHR 0xE2, CHR 0x80, CHR 0xA9] @ t"
          by (auto dest!: line_sep_cases)
        have "is_seq [CHR 0xE2, CHR 0x80, CHR 0xA8]" "is_seq [CHR 0xE2, CHR 0x80, CHR 0xA9]"
          by code_simp+
        with t have "utf8_len s = 3" by (auto simp: utf8_len_seq simp del: append.simps)
        moreover have "quote_body s = e @ quote_body (drop 3 s)"
          using Cons False n0 Some by (simp add: quote_body.simps [of "c # cs"])
        ultimately show ?thesis
          using rest unquote_line_sep [OF Some] by simp
      qed
    qed
  qed
qed

subsection \<open>A quoted string is one lexeme\<close>

definition lexeme :: "string \<Rightarrow> bool" where
  "lexeme l \<longleftrightarrow> (\<forall>t. scan_lex (l @ dquote # t) = Some (l, t))"

lemma scan_simple:
  "simple_escape e \<noteq> None \<Longrightarrow>
   scan_lex (bslash # e # t) = map_option (\<lambda>(l, r). (bslash # e # l, r)) (scan_lex t)"
  by (subst scan_lex.simps) simp

lemma scan_plain:
  "c \<noteq> dquote \<Longrightarrow> c \<noteq> bslash \<Longrightarrow> 0x20 \<le> byte c \<Longrightarrow>
   scan_lex (c # t) = map_option (\<lambda>(l, r). (c # l, r)) (scan_lex t)"
  by (subst scan_lex.simps) simp

lemma scan_u4:
  "read_u4 ([bslash, CHR ''u'', a, b, c, d] @ t) \<noteq> None \<Longrightarrow>
   scan_lex ([bslash, CHR ''u'', a, b, c, d] @ t)
     = map_option (\<lambda>(l, r). ([bslash, CHR ''u'', a, b, c, d] @ l, r)) (scan_lex t)"
  by (subst scan_lex.simps) (simp add: simple_escape_def)

lemma scan_quote_end: "scan_lex (dquote # t) = Some ([], t)"
  by (subst scan_lex.simps) simp

lemma scan_esc_byte:
  assumes "byte c < 0x80"
  shows "scan_lex (esc_byte c @ t) = map_option (\<lambda>(l, r). (esc_byte c @ l, r)) (scan_lex t)"
proof -
  have u: "scan_lex ([bslash, CHR ''u'', CHR ''0'', CHR ''0''] @ hex_nat 2 (byte c) @ t)
     = map_option (\<lambda>(l, r). ([bslash, CHR ''u'', CHR ''0'', CHR ''0''] @ hex_nat 2 (byte c) @ l, r)) (scan_lex t)"
    using scan_u4 [of "CHR ''0''" "CHR ''0''" "hex_digit (byte c div 16)" "hex_digit (byte c)" t]
      read_u4_00 [of "byte c" t]
    by (simp add: hex_nat_2)
  show ?thesis
    using assms u by (auto simp: esc_byte_def scan_simple simple_escape_def scan_plain)
qed

lemma scan_high:
  "\<forall>c \<in> set w. 0x80 \<le> byte c \<Longrightarrow>
   scan_lex (w @ t) = map_option (\<lambda>(l, r). (w @ l, r)) (scan_lex t)"
proof (induction w)
  case Nil
  show ?case by (cases "scan_lex t") auto
next
  case (Cons c w)
  then have "c \<noteq> dquote" "c \<noteq> bslash" "0x20 \<le> byte c" by (auto simp: byte_def)
  with Cons show ?case by (cases "scan_lex t") (auto simp: scan_plain)
qed

lemma is_seq_high: "is_seq w \<Longrightarrow> 0x80 \<le> byte (hd w) \<Longrightarrow> \<forall>c \<in> set w. 0x80 \<le> byte c"
  by (induction w rule: is_seq.induct) (auto simp: is_cont_def)

lemma hex_val_fffd:
  "hex_val (CHR ''f'') = Some 15" "hex_val (CHR ''d'') = Some 13" "hex_val (CHR ''2'') = Some 2"
  "hex_val (CHR ''0'') = Some 0" "hex_val (CHR ''8'') = Some 8" "hex_val (CHR ''9'') = Some 9"
  by code_simp+

text \<open>The induction all facts about \<open>quote_body\<close> go through: one escape or one rune at a time.\<close>

lemma quote_body_induct [case_names Nil Ascii Bad Sep Seq]:
  assumes "P []"
    and "\<And>c s. byte c < 0x80 \<Longrightarrow> P (quote_body s) \<Longrightarrow> P (esc_byte c @ quote_body s)"
    and "\<And>s. P (quote_body s) \<Longrightarrow> P ((bslash # ''ufffd'') @ quote_body s)"
    and "\<And>e u s. line_sep u = Some e \<Longrightarrow> P (quote_body s) \<Longrightarrow> P (e @ quote_body s)"
    and "\<And>w s. is_seq w \<Longrightarrow> 0x80 \<le> byte (hd w) \<Longrightarrow> line_sep w = None \<Longrightarrow> P (quote_body s) \<Longrightarrow> P (w @ quote_body s)"
  shows "P (quote_body s)"
proof (induction "length s" arbitrary: s rule: less_induct)
  case less
  show ?case
  proof (cases s)
    case Nil
    with assms(1) show ?thesis by simp
  next
    case (Cons c cs)
    note eq = quote_body.simps [of "c # cs"]
    consider "byte c < 0x80" | "\<not> byte c < 0x80" "utf8_len s = 0"
      | "\<not> byte c < 0x80" "utf8_len s \<noteq> 0" by blast
    then show ?thesis
    proof cases
      case 1
      with less Cons assms(2) [OF 1, of cs] show ?thesis by (simp add: eq)
    next
      case 2
      with less Cons assms(3) [of cs] show ?thesis by (simp add: eq)
    next
      case 3
      then have n: "is_seq (take (utf8_len s) s)" using utf8_len_SomeD by blast
      have hd: "hd (take (utf8_len s) s) = c" using Cons 3 by (cases "utf8_len s") auto
      show ?thesis
      proof (cases "line_sep s")
        case None
        have "P (quote_body (drop (utf8_len s) s))"
          using less.hyps [of "drop (utf8_len s) s"] 3 Cons by simp
        moreover have "line_sep (take (utf8_len s) s) = None"
          using None by (auto simp: line_sep_def has_prefix_iff split: if_splits)
             (metis append.assoc append_take_drop_id append_Cons append_Nil)+
        ultimately show ?thesis
          using assms(5) [OF n, of "drop (utf8_len s) s"] 3 hd Cons None by (simp add: eq)
      next
        case (Some e)
        have "P (quote_body (drop 3 s))"
          using less.hyps [of "drop 3 s"] Cons by simp
        with assms(4) [OF Some] Cons 3 Some show ?thesis by (simp add: eq)
      qed
    qed
  qed
qed

lemma scan_quote_body:
  "scan_lex (quote_body s @ dquote # t) = Some (quote_body s, t)"
proof (induction s rule: quote_body_induct)
  case Nil
  then show ?case by (simp add: scan_quote_end)
next
  case (Ascii c s)
  then show ?case by (simp add: scan_esc_byte)
next
  case (Bad s)
  then show ?case
    using scan_u4 [of "CHR ''f''" "CHR ''f''" "CHR ''f''" "CHR ''d''" "quote_body s @ dquote # t"]
    by (simp add: u4_val_def hex_val_fffd)
next
  case (Sep e u s)
  then show ?case
    using scan_u4 [of "CHR ''2''" "CHR ''0''" "CHR ''2''" "CHR ''8''" "quote_body s @ dquote # t"]
      scan_u4 [of "CHR ''2''" "CHR ''0''" "CHR ''2''" "CHR ''9''" "quote_body s @ dquote # t"]
    by (auto dest!: line_sep_cases simp: u4_val_def hex_val_fffd)
next
  case (Seq w s)
  then show ?case by (simp add: scan_high [OF is_seq_high])
qed

lemma lexeme_quote [simp, intro]: "lexeme (quote_body s)"
  by (simp add: lexeme_def scan_quote_body)

text \<open>Re-encoding a quoted string as part of a \<open>json.RawMessage\<close> leaves it as it is.\<close>

lemma html_skip:
  "c \<noteq> CHR ''<'' \<Longrightarrow> c \<noteq> CHR ''>'' \<Longrightarrow> c \<noteq> CHR ''&'' \<Longrightarrow> c \<noteq> CHR 0xE2 \<Longrightarrow>
   html_escape (c # t) = c # html_escape t"
  by (subst html_escape.simps) (simp add: line_sep_def has_prefix_def)

definition html_safe :: "char \<Rightarrow> bool" where
  "html_safe c \<longleftrightarrow> c \<noteq> CHR ''<'' \<and> c \<noteq> CHR ''>'' \<and> c \<noteq> CHR ''&'' \<and> c \<noteq> CHR 0xE2"

lemma html_skip_all: "list_all html_safe w \<Longrightarrow> html_escape (w @ t) = w @ html_escape t"
  by (induction w) (auto simp: html_skip html_safe_def)

lemma hex_chars_safe: "list_all html_safe hex_chars"
  by (simp add: hex_chars_def html_safe_def)

lemma hex_nat_safe: "list_all html_safe (hex_nat k n)"
  using set_hex_nat [of k n] hex_chars_safe by (auto simp: list_all_iff)

lemma esc_byte_safe: "byte c < 0x80 \<Longrightarrow> list_all html_safe (esc_byte c)"
proof -
  assume "byte c < 0x80"
  then have "c \<noteq> CHR 0xE2" by (auto simp: byte_def)
  moreover have "html_safe bslash" "html_safe (CHR ''u'')" "html_safe (CHR ''0'')" "html_safe dquote"
    "html_safe (CHR ''b'')" "html_safe (CHR ''f'')" "html_safe (CHR ''n'')" "html_safe (CHR ''r'')" "html_safe (CHR ''t'')"
    by (simp_all add: html_safe_def)
  ultimately show ?thesis
    using hex_nat_safe [of 2 "byte c"] by (auto simp: esc_byte_def html_safe_def)
qed

lemma is_cont_safe: "is_cont c \<Longrightarrow> html_safe c"
  by (auto simp: is_cont_def html_safe_def byte_def)

lemma seq_tail_safe: "is_seq w \<Longrightarrow> list_all html_safe (tl w)"
  by (induction w rule: is_seq.induct) (auto simp: is_cont_safe)

lemma html_seq:
  assumes "is_seq w" and "0x80 \<le> byte (hd w)" and "line_sep w = None"
  shows "html_escape (w @ t) = w @ html_escape t"
proof -
  obtain c cs where w: "w = c # cs" using is_seq_length [OF assms(1)] by (cases w) auto
  have c: "c \<noteq> CHR ''<''" "c \<noteq> CHR ''>''" "c \<noteq> CHR ''&''"
    using assms(2) w by (auto simp: byte_def)
  have "line_sep (w @ t) = None"
  proof (cases "c = CHR 0xE2")
    case True
    then have "length w = 3" using is_seq_length [OF assms(1)] w by (simp add: lead_len_def byte_def)
    then have "take 3 (w @ t) = take 3 w" by simp
    then have "has_prefix (w @ t) p = has_prefix w p" if "length p = 3" for p
      using that \<open>length w = 3\<close> by (simp add: has_prefix_def)
    then have "line_sep (w @ t) = line_sep w" by (simp add: line_sep_def)
    with assms(3) show ?thesis by simp
  next
    case False
    with w show ?thesis by (simp add: line_sep_def has_prefix_def)
  qed
  then have "html_escape (w @ t) = c # html_escape (cs @ t)"
    using w c by (subst html_escape.simps) simp
  then show ?thesis
    using html_skip_all [of cs t] seq_tail_safe [OF assms(1)] w by simp
qed

lemma html_escape_quote [simp]: "html_escape (quote_body s) = quote_body s"
proof (induction s rule: quote_body_induct)
  case Nil
  show ?case by (subst html_escape.simps) simp
next
  case (Ascii c s)
  then show ?case by (simp add: html_skip_all esc_byte_safe)
next
  case (Bad s)
  then show ?case by (simp add: html_skip)
next
  case (Sep e u s)
  then show ?case by (auto dest!: line_sep_cases simp: html_skip)
next
  case (Seq w s)
  then show ?case by (simp add: html_seq)
qed

subsection \<open>Tokens of a document\<close>

fun sep_toks :: "tok list list \<Rightarrow> tok list" where
  "sep_toks [] = []"
| "sep_toks [x] = x"
| "sep_toks (x # y # ys) = x @ TComma # sep_toks (y # ys)"

fun toks :: "json \<Rightarrow> tok list" where
  "toks JNull = [TNull]"
| "toks (JBool b) = [if b then TTrue else TFalse]"
| "toks (JNum n) = [TNum n]"
| "toks (JStr l) = [TStr l]"
| "toks (JArr xs) = TLBrack # sep_toks (map toks xs) @ [TRBrack]"
| "toks (JObj kvs) = TLBrace # sep_toks (map (\<lambda>(k, v). TStr k # TColon # toks v) kvs) @ [TRBrace]"

text \<open>Documents whose lexemes are lexemes of the text.\<close>

fun wf_json :: "json \<Rightarrow> bool" where
  "wf_json (JNum n) = (is_number n \<and> list_all num_char n \<and> n \<noteq> [])"
| "wf_json (JStr l) = lexeme l"
| "wf_json (JArr xs) = (\<forall>x \<in> set xs. wf_json x)"
| "wf_json (JObj kvs) = (\<forall>kv \<in> set kvs. lexeme (fst kv) \<and> wf_json (snd kv))"
| "wf_json _ = True"

definition delim :: "string \<Rightarrow> bool" where
  "delim t \<longleftrightarrow> t = [] \<or> \<not> num_char (hd t)"

lemma delim_simps [simp]:
  "delim []" "delim (CHR '','' # t)" "delim (CHR '']'' # t)" "delim (CHR ''}'' # t)" "delim (CHR 0x0A # t)"
  by (auto simp: delim_def num_char_def is_digit_def)

lemma delim_newline [simp]: "delim (newline d @ t)"
  by (simp add: newline_def)

lemma lex_ws: "json_ws c \<Longrightarrow> lex_json (c # t) = lex_json t"
  by (subst lex_json.simps) simp

lemma lex_newline [simp]: "lex_json (newline d @ t) = lex_json t"
proof -
  have "lex_json (replicate n (CHR '' '') @ t) = lex_json t" for n
    by (induction n) (auto simp: lex_ws json_ws_def)
  then show ?thesis by (simp add: newline_def lex_ws json_ws_def)
qed

lemma lex_punct: "punct c = Some t' \<Longrightarrow> \<not> json_ws c \<Longrightarrow> lex_json (c # t) = map_option (Cons t') (lex_json t)"
  by (subst lex_json.simps) simp

lemma lex_puncts [simp]:
  "lex_json (CHR ''{'' # t) = map_option (Cons TLBrace) (lex_json t)"
  "lex_json (CHR ''}'' # t) = map_option (Cons TRBrace) (lex_json t)"
  "lex_json (CHR ''['' # t) = map_option (Cons TLBrack) (lex_json t)"
  "lex_json (CHR '']'' # t) = map_option (Cons TRBrack) (lex_json t)"
  "lex_json (CHR '':'' # t) = map_option (Cons TColon) (lex_json t)"
  "lex_json (CHR '','' # t) = map_option (Cons TComma) (lex_json t)"
  by (rule lex_punct; simp add: punct_def json_ws_def)+

lemma lex_space [simp]: "lex_json (CHR '' '' # t) = lex_json t"
  by (simp add: lex_ws json_ws_def)

lemma lex_str [simp]: "lexeme l \<Longrightarrow> lex_json (str_text l @ t) = map_option (Cons (TStr l)) (lex_json t)"
  by (subst lex_json.simps) (simp add: str_text_def json_ws_def punct_def lexeme_def)

lemma lex_num:
  assumes "wf_json (JNum n)" and "delim t"
  shows "lex_json (n @ t) = map_option (Cons (TNum n)) (lex_json t)"
proof -
  obtain c cs where n: "n = c # cs" using assms(1) by (cases n) auto
  then have c: "num_char c" using assms(1) by simp
  have "\<not> json_ws c" "punct c = None" "c \<noteq> dquote"
    using c by (auto simp: num_char_def is_digit_def json_ws_def punct_def)
  moreover have "takeWhile num_char (n @ t) = n" "dropWhile num_char (n @ t) = t"
    using assms by (auto simp: takeWhile_append dropWhile_append list_all_iff delim_def)
      (cases t; simp)+
  ultimately show ?thesis
    using assms(1) n c by (subst lex_json.simps) simp
qed

lemma lex_words:
  "lex_json (''true'' @ t) = map_option (Cons TTrue) (lex_json t)"
  "lex_json (''false'' @ t) = map_option (Cons TFalse) (lex_json t)"
  "lex_json (''null'' @ t) = map_option (Cons TNull) (lex_json t)"
  by (subst lex_json.simps; simp add: json_ws_def punct_def num_char_def is_digit_def has_prefix_def)+

text \<open>Lexing a separated sequence, given how each element lexes.\<close>

lemma lex_join:
  assumes "\<And>x t. x \<in> set xs \<Longrightarrow> delim t \<Longrightarrow> lex_json (f x @ t) = map_option ((@) (g x)) (lex_json t)"
    and "xs \<noteq> []" and "delim t" and "sep = '','' @ w" and "\<And>t. lex_json (w @ t) = lex_json t"
  shows "lex_json (join_str (map f xs) sep @ t) = map_option ((@) (sep_toks (map g xs))) (lex_json t)"
  using assms
proof (induction xs rule: induct_list012)
  case (3 x y zs)
  let ?t = "join_str (map f (y # zs)) sep @ t"
  have "lex_json ?t = map_option ((@) (sep_toks (map g (y # zs)))) (lex_json t)"
    using 3 by auto
  moreover have "lex_json (f x @ sep @ ?t) = map_option ((@) (g x)) (lex_json (sep @ ?t))"
    using 3 by auto
  moreover have "lex_json (sep @ ?t) = map_option (Cons TComma) (lex_json ?t)"
    using 3 by simp
  ultimately show ?case by (simp add: option.map_comp comp_def)
qed auto

lemma newline_lex_sep: "lex_json (newline d @ t) = lex_json t"
  by simp

theorem lex_marshal_indent:
  "wf_json j \<Longrightarrow> delim t \<Longrightarrow> lex_json (marshal_indent d j @ t) = map_option ((@) (toks j)) (lex_json t)"
proof (induction j arbitrary: d t)
  case (JArr xs)
  show ?case
  proof (cases "xs = []")
    case True
    then show ?thesis by (simp add: option.map_comp comp_def)
  next
    case False
    have "lex_json (join_str (map (marshal_indent (Suc d)) xs) ('','' @ newline (Suc d)) @ newline d @ '']'' @ t)
        = map_option ((@) (sep_toks (map toks xs))) (lex_json (newline d @ '']'' @ t))"
      by (rule lex_join) (use JArr False in auto)
    with False show ?thesis by (simp add: option.map_comp comp_def)
  qed
next
  case (JObj kvs)
  show ?case
  proof (cases "kvs = []")
    case True
    then show ?thesis by (simp add: option.map_comp comp_def)
  next
    case False
    let ?f = "\<lambda>(k, v). str_text k @ '': '' @ marshal_indent (Suc d) v"
    let ?g = "\<lambda>(k, v). TStr k # TColon # toks v"
    have elem: "lex_json (?f kv @ t') = map_option ((@) (?g kv)) (lex_json t')"
      if "kv \<in> set kvs" and "delim t'" for kv t'
    proof -
      obtain k v where kv: "kv = (k, v)" by (cases kv)
      then have "v \<in> Basic_BNFs.snds kv" by simp
      then have "lex_json (marshal_indent (Suc d) v @ t') = map_option ((@) (toks v)) (lex_json t')"
        using JObj that kv by auto
      moreover have "lexeme k" using JObj.prems that kv by auto
      ultimately show ?thesis using kv by (cases "lex_json t'") (simp_all add: comp_def)
    qed
    have "lex_json (join_str (map ?f kvs) ('','' @ newline (Suc d)) @ newline d @ ''}'' @ t)
        = map_option ((@) (sep_toks (map ?g kvs))) (lex_json (newline d @ ''}'' @ t))"
      by (rule lex_join) (use elem False in auto)
    with False show ?thesis by (simp add: option.map_comp comp_def)
  qed
next
  case (JNum n)
  then show ?case using lex_num [of n t] by (simp add: comp_def)
next
  case (JBool b)
  then show ?case using lex_words [of t] by simp
next
  case JNull
  then show ?case using lex_words [of t] by simp
next
  case (JStr l)
  then show ?case by (cases "lex_json t") simp_all
qed

theorem lex_marshal:
  "wf_json j \<Longrightarrow> delim t \<Longrightarrow> lex_json (marshal j @ t) = map_option ((@) (toks j)) (lex_json t)"
proof (induction j arbitrary: t)
  case (JArr xs)
  show ?case
  proof (cases "xs = []")
    case True
    then show ?thesis by (simp add: option.map_comp comp_def)
  next
    case False
    have "lex_json (join_str (map marshal xs) '','' @ '']'' @ t)
        = map_option ((@) (sep_toks (map toks xs))) (lex_json ('']'' @ t))"
      by (rule lex_join [where w = "[]"]) (use JArr False in auto)
    with False show ?thesis by (simp add: option.map_comp comp_def)
  qed
next
  case (JObj kvs)
  show ?case
  proof (cases "kvs = []")
    case True
    then show ?thesis by (simp add: option.map_comp comp_def)
  next
    case False
    let ?f = "\<lambda>(k, v). str_text k @ '':'' @ marshal v"
    let ?g = "\<lambda>(k, v). TStr k # TColon # toks v"
    have elem: "lex_json (?f kv @ t') = map_option ((@) (?g kv)) (lex_json t')"
      if "kv \<in> set kvs" and "delim t'" for kv t'
    proof -
      obtain k v where kv: "kv = (k, v)" by (cases kv)
      then have "v \<in> Basic_BNFs.snds kv" by simp
      then have "lex_json (marshal v @ t') = map_option ((@) (toks v)) (lex_json t')"
        using JObj that kv by auto
      moreover have "lexeme k" using JObj.prems that kv by auto
      ultimately show ?thesis using kv by (cases "lex_json t'") (simp_all add: comp_def)
    qed
    have "lex_json (join_str (map ?f kvs) '','' @ ''}'' @ t)
        = map_option ((@) (sep_toks (map ?g kvs))) (lex_json (''}'' @ t))"
      by (rule lex_join [where w = "[]"]) (use elem False in auto)
    with False show ?thesis by (simp add: option.map_comp comp_def)
  qed
next
  case (JNum n)
  then show ?case using lex_num [of n t] by (simp add: comp_def)
next
  case (JBool b)
  then show ?case using lex_words [of t] by simp
next
  case JNull
  then show ?case using lex_words [of t] by simp
next
  case (JStr l)
  then show ?case by (cases "lex_json t") simp_all
qed

subsection \<open>Parsing the tokens of a document\<close>

lemma toks_hd: "\<exists>t ts. toks j = t # ts \<and> t \<noteq> TRBrack \<and> t \<noteq> TRBrace"
  by (cases j) auto

lemma length_sep_toks_Cons:
  "length (sep_toks (x # xs)) = length x + (if xs = [] then 0 else Suc (length (sep_toks xs)))"
  by (cases xs) auto

lemma parr_toks:
  assumes "\<And>x n r. x \<in> set xs \<Longrightarrow> length (toks x) \<le> n \<Longrightarrow> pval n (toks x @ r) = Some (x, r)"
    and "xs \<noteq> []" and "length (sep_toks (map toks xs)) < n"
  shows "parr n (sep_toks (map toks xs) @ TRBrack # r) = Some (xs, r)"
  using assms
proof (induction xs arbitrary: n rule: induct_list012)
  case (2 x)
  then show ?case by (cases n) auto
next
  case (3 x y zs)
  obtain m where n: "n = Suc m" using 3(5) by (cases n) auto
  have "parr m (sep_toks (map toks (y # zs)) @ TRBrack # r) = Some (y # zs, r)"
    using 3 n by auto
  moreover have "pval m (toks x @ TComma # sep_toks (map toks (y # zs)) @ TRBrack # r)
      = Some (x, TComma # sep_toks (map toks (y # zs)) @ TRBrack # r)"
    using 3(3) [of x m] 3(5) n by simp
  ultimately show ?case using n by simp
qed simp

lemma pobj_toks:
  assumes "\<And>kv n r. kv \<in> set kvs \<Longrightarrow> length (toks (snd kv)) \<le> n \<Longrightarrow> pval n (toks (snd kv) @ r) = Some (snd kv, r)"
    and "kvs \<noteq> []" and "length (sep_toks (map (\<lambda>(k, v). TStr k # TColon # toks v) kvs)) < n"
  shows "pobj n (sep_toks (map (\<lambda>(k, v). TStr k # TColon # toks v) kvs) @ TRBrace # r) = Some (kvs, r)"
  using assms
proof (induction kvs arbitrary: n rule: induct_list012)
  case (2 kv)
  obtain k v where "kv = (k, v)" by (cases kv)
  with 2 show ?case using 2(1) [of kv] by (cases n) auto
next
  case (3 kv y zs)
  obtain m where n: "n = Suc m" using 3(5) by (cases n) auto
  obtain k v where kv: "kv = (k, v)" by (cases kv)
  let ?s = "sep_toks (map (\<lambda>(k, v). TStr k # TColon # toks v) (y # zs))"
  have "pobj m (?s @ TRBrace # r) = Some (y # zs, r)"
    using 3 n by auto
  moreover have "pval m (toks v @ TComma # ?s @ TRBrace # r) = Some (v, TComma # ?s @ TRBrace # r)"
    using 3(3) [of kv m] 3(5) n kv by simp
  ultimately show ?case using n kv by simp
qed simp

theorem pval_toks: "length (toks j) \<le> n \<Longrightarrow> pval n (toks j @ r) = Some (j, r)"
proof (induction j arbitrary: n r)
  case (JArr xs)
  obtain m where n: "n = Suc m" using JArr.prems by (cases n) auto
  show ?case
  proof (cases xs)
    case Nil
    with n show ?thesis by simp
  next
    case (Cons x ys)
    have p: "parr m (sep_toks (map toks xs) @ TRBrack # r) = Some (xs, r)"
      by (rule parr_toks) (use JArr n Cons in auto)
    obtain t ts where "toks x = t # ts" "t \<noteq> TRBrack" using toks_hd [of x] by auto
    then obtain us where "sep_toks (map toks xs) = t # us"
      using Cons by (cases ys) auto
    with \<open>t \<noteq> TRBrack\<close> p n show ?thesis by (cases t) auto
  qed
next
  case (JObj kvs)
  obtain m where n: "n = Suc m" using JObj.prems by (cases n) auto
  show ?case
  proof (cases kvs)
    case Nil
    with n show ?thesis by simp
  next
    case (Cons kv ys)
    have IH: "pval l (toks (snd kv) @ r') = Some (snd kv, r')"
      if "kv \<in> set kvs" "length (toks (snd kv)) \<le> l" for kv l r'
    proof -
      have "snd kv \<in> Basic_BNFs.snds kv" by (cases kv) auto
      then show ?thesis using JObj.IH [OF that(1)] that(2) by blast
    qed
    have p: "pobj m (sep_toks (map (\<lambda>(k, v). TStr k # TColon # toks v) kvs) @ TRBrace # r) = Some (kvs, r)"
      by (rule pobj_toks) (use JObj.prems IH n Cons in auto)
    obtain us where "sep_toks (map (\<lambda>(k, v). TStr k # TColon # toks v) kvs) = TStr (fst kv) # us"
      using Cons by (cases ys; cases kv) auto
    with p n show ?thesis by auto
  qed
qed (case_tac n; simp)+

text \<open>Parsing inverts both encoders; trailing white space is skipped.\<close>

lemma json_parse_toks: "lex_json s = Some (toks j) \<Longrightarrow> json_parse s = Some j"
  using pval_toks [of j "Suc (2 * length (toks j))" "[]"] by (simp add: json_parse_def)

theorem parse_marshal_indent: "wf_json j \<Longrightarrow> json_parse (marshal_indent 0 j @ [CHR 0x0A]) = Some j"
proof (rule json_parse_toks)
  have "lex_json [CHR 0x0A] = Some []" by (simp add: lex_ws json_ws_def lex_json.simps)
  then show "wf_json j \<Longrightarrow> lex_json (marshal_indent 0 j @ [CHR 0x0A]) = Some (toks j)"
    using lex_marshal_indent [of j "[CHR 0x0A]" 0] by simp
qed

theorem parse_marshal: "wf_json j \<Longrightarrow> json_parse (marshal j) = Some j"
  using lex_marshal [of j "[]"] by (intro json_parse_toks) (simp add: lex_json.simps)

text \<open>The fuel \<open>json_parse\<close> supplies is enough for any input: more fuel gives the same answer, so a
  rejected text is rejected because it is not a document.\<close>

lemma pval_shrinks:
  "(pval n ts = Some (j, r) \<longrightarrow> length r < length ts) \<and>
   (parr n ts = Some (js, r) \<longrightarrow> length r < length ts) \<and>
   (pobj n ts = Some (kvs, r) \<longrightarrow> length r < length ts)"
proof (induction n arbitrary: ts j js kvs r)
  case (Suc n)
  have v: "pval n ts' = Some (j', r') \<Longrightarrow> length r' < length ts'" for ts' j' r' using Suc by blast
  have a: "parr n ts' = Some (j', r') \<Longrightarrow> length r' < length ts'" for ts' j' r' using Suc by blast
  have b: "pobj n ts' = Some (j', r') \<Longrightarrow> length r' < length ts'" for ts' j' r' using Suc by blast
  show ?case
    by (intro conjI impI)
       (fastforce split: list.splits tok.splits option.splits prod.splits dest!: v a b)+
qed simp

lemma pval_len: "pval n ts = Some (j, r) \<Longrightarrow> length r < length ts"
  using pval_shrinks by blast

lemma pval_fuel_step:
  "(2 * length ts < n \<longrightarrow> pval (Suc n) ts = pval n ts) \<and>
   (Suc (2 * length ts) < n \<longrightarrow> parr (Suc n) ts = parr n ts) \<and>
   (Suc (2 * length ts) < n \<longrightarrow> pobj (Suc n) ts = pobj n ts)"
proof (induction n arbitrary: ts)
  case (Suc n)
  have v: "2 * length ts' < n \<Longrightarrow> pval (Suc n) ts' = pval n ts'" for ts' using Suc by blast
  have a: "Suc (2 * length ts') < n \<Longrightarrow> parr (Suc n) ts' = parr n ts'" for ts' using Suc by blast
  have b: "Suc (2 * length ts') < n \<Longrightarrow> pobj (Suc n) ts' = pobj n ts'" for ts' using Suc by blast
  have "pval (Suc (Suc n)) ts = pval (Suc n) ts" if "2 * length ts < Suc n"
    unfolding pval.simps(2) [of "Suc n"] pval.simps(2) [of n]
    using that a b by (auto split: list.splits tok.splits simp del: pval.simps parr.simps pobj.simps)
  moreover have "parr (Suc (Suc n)) ts = parr (Suc n) ts" if "Suc (2 * length ts) < Suc n"
  proof -
    have "parr (Suc n) r = parr n r" if "pval n ts = Some (j, TComma # r)" for j r
      using pval_len [of n ts j "TComma # r"] that \<open>Suc (2 * length ts) < Suc n\<close> by (intro a) auto
    then show ?thesis
      unfolding parr.simps(2) [of "Suc n" ts] parr.simps(2) [of n ts]
      using that v by (auto split: option.splits list.splits tok.splits simp del: pval.simps parr.simps)
  qed
  moreover have "pobj (Suc (Suc n)) ts = pobj (Suc n) ts" if "Suc (2 * length ts) < Suc n"
  proof -
    have "pobj (Suc n) r = pobj n r" if "pval n r' = Some (j, TComma # r)" and "ts = TStr k # TColon # r'" for j r r' k
      using pval_len [of n r' j "TComma # r"] that \<open>Suc (2 * length ts) < Suc n\<close> by (intro b) auto
    then show ?thesis
      unfolding pobj.simps(2) [of "Suc n" ts] pobj.simps(2) [of n ts]
      using that v by (auto split: option.splits list.splits tok.splits simp del: pval.simps pobj.simps)
  qed
  ultimately show ?case by blast
qed simp

theorem pval_fuel: "Suc (2 * length ts) \<le> n \<Longrightarrow> pval n ts = pval (Suc (2 * length ts)) ts"
proof (induction n rule: dec_induct)
  case (step n)
  then show ?case using pval_fuel_step [of ts n] by simp
qed simp

end
