(* ===== verification/JsonDecode.thy ===== *)
theory JsonDecode
  imports JsonRoundtrip
begin

text \<open>
  \<open>json.Unmarshal\<close> into Go values. Members of an object are assigned in order, so a repeated key
  overrides; a key selects the struct field with the same name, else the one that equals it under
  case folding; unknown keys are ignored; \<open>null\<close> leaves a field as it is; a value of the wrong
  type is an error. The locale \<open>json_codec\<close> states what a component needs of its encoder and
  decoder, and gives the round trip through the text.
\<close>

datatype json_error = JsonSyntax | JsonType

definition unmarshal :: "(json \<Rightarrow> (json_error, 'a) res) \<Rightarrow> string \<Rightarrow> (json_error, 'a) res" where
  "unmarshal dec s = (case json_parse s of None \<Rightarrow> Inl JsonSyntax | Some j \<Rightarrow> dec j)"

subsection \<open>Field selection\<close>

definition ascii_upper :: "char \<Rightarrow> char" where
  "ascii_upper c = (if CHR ''a'' \<le> c \<and> c \<le> CHR ''z'' then char_of (of_char c - 32 :: nat) else c)"

text \<open>\<open>foldName\<close>: upper case, with the Kelvin sign and the long s folded onto ASCII.\<close>

fun fold_key :: "string \<Rightarrow> string" where
  "fold_key s = (case s of
      [] \<Rightarrow> []
    | c # cs \<Rightarrow>
        if has_prefix s [CHR 0xE2, CHR 0x84, CHR 0xAA] then CHR ''K'' # fold_key (drop 2 cs)
        else if has_prefix s [CHR 0xC5, CHR 0xBF] then CHR ''S'' # fold_key (drop 1 cs)
        else ascii_upper c # fold_key cs)"

declare fold_key.simps [simp del]

definition pick_field :: "string list \<Rightarrow> string \<Rightarrow> string option" where
  "pick_field names k =
     (if k \<in> set names then Some k else List.find (\<lambda>n. fold_key n = fold_key k) names)"

definition dec_fields ::
  "string list \<Rightarrow> (string \<Rightarrow> json \<Rightarrow> 's \<Rightarrow> (json_error, 's) res) \<Rightarrow> json \<Rightarrow> 's \<Rightarrow> (json_error, 's) res" where
  "dec_fields names upd j s =
     (case j of
        JNull \<Rightarrow> Inr s
      | JObj kvs \<Rightarrow>
          fold_res (\<lambda>(k, v) s. case pick_field names (unquote k) of
              None \<Rightarrow> Inr s | Some n \<Rightarrow> upd n v s) kvs s
      | _ \<Rightarrow> Inl JsonType)"

subsection \<open>Leaf values\<close>

definition dec_str :: "json \<Rightarrow> string \<Rightarrow> (json_error, string) res" where
  "dec_str j old = (case j of JNull \<Rightarrow> Inr old | JStr l \<Rightarrow> Inr (unquote l) | _ \<Rightarrow> Inl JsonType)"

definition dec_bool :: "json \<Rightarrow> bool \<Rightarrow> (json_error, bool) res" where
  "dec_bool j old = (case j of JNull \<Rightarrow> Inr old | JBool b \<Rightarrow> Inr b | _ \<Rightarrow> Inl JsonType)"

definition dec_int64 :: "json \<Rightarrow> int \<Rightarrow> (json_error, int) res" where
  "dec_int64 j old =
     (case j of
        JNull \<Rightarrow> Inr old
      | JNum n \<Rightarrow> (case parse_int64 n of Some i \<Rightarrow> Inr i | None \<Rightarrow> Inl JsonType)
      | _ \<Rightarrow> Inl JsonType)"

text \<open>A \<open>*uint32\<close> field: \<open>null\<close> is the nil pointer.\<close>

definition dec_uint32 :: "json \<Rightarrow> (json_error, nat option) res" where
  "dec_uint32 j =
     (case j of
        JNull \<Rightarrow> Inr None
      | JNum n \<Rightarrow> (case parse_nat n of
            Some i \<Rightarrow> if i < 2 ^ 32 then Inr (Some i) else Inl JsonType | None \<Rightarrow> Inl JsonType)
      | _ \<Rightarrow> Inl JsonType)"

definition dec_list :: "(json \<Rightarrow> (json_error, 'a) res) \<Rightarrow> json \<Rightarrow> (json_error, 'a list) res" where
  "dec_list dec j =
     (case j of JNull \<Rightarrow> Inr [] | JArr xs \<Rightarrow> mapM_res dec xs | _ \<Rightarrow> Inl JsonType)"

text \<open>\<open>json.Unmarshal\<close> into \<open>map[string]json.RawMessage\<close>: the members by key, the last one winning.\<close>

definition dec_raw_map :: "json \<Rightarrow> (json_error, (string \<times> json) list) res" where
  "dec_raw_map j =
     (case j of
        JNull \<Rightarrow> Inr []
      | JObj kvs \<Rightarrow> Inr (rev (map (\<lambda>(k, v). (unquote k, v)) kvs))
      | _ \<Rightarrow> Inl JsonType)"

subsection \<open>Encoded leaves decode to themselves\<close>

lemma dec_str_j_str [simp]: "valid_utf8 s \<Longrightarrow> dec_str (j_str s) old = Inr s"
  by (simp add: dec_str_def j_str_def unquote_quote)

lemma dec_bool_JBool [simp]: "dec_bool (JBool b) old = Inr b"
  by (simp add: dec_bool_def)

lemma dec_int64_j_int [simp]:
  "min_int64 \<le> i \<Longrightarrow> i \<le> max_int64 \<Longrightarrow> dec_int64 (j_int i) old = Inr i"
  by (simp add: dec_int64_def j_int_def parse_int64_format)

lemma dec_uint32_j_int [simp]: "n < 2 ^ 32 \<Longrightarrow> dec_uint32 (j_int (int n)) = Inr (Some n)"
  by (simp add: dec_uint32_def j_int_def format_int_def)

lemma dec_list_enc:
  "(\<And>x. x \<in> set xs \<Longrightarrow> dec (enc x) = Inr x) \<Longrightarrow> dec_list dec (JArr (map enc xs)) = Inr xs"
  by (auto simp: dec_list_def mapM_res_Inr list_all2_conv_all_nth)

text \<open>An object written with known ASCII keys assigns the fields one after the other.\<close>

lemma dec_fields_j_obj:
  assumes "\<And>k. k \<in> set (map fst kvs) \<Longrightarrow> k \<in> set names \<and> valid_utf8 k"
  shows "dec_fields names upd (j_obj kvs) s = fold_res (\<lambda>(k, v). upd k v) kvs s"
proof -
  have "fold_res (\<lambda>(k, v) s. case pick_field names (unquote k) of None \<Rightarrow> Inr s | Some n \<Rightarrow> upd n v s)
         (map (\<lambda>(k, v). (quote_body k, v)) kvs) s = fold_res (\<lambda>(k, v). upd k v) kvs s"
    using assms
  proof (induction kvs arbitrary: s)
    case (Cons kv kvs)
    obtain k v where kv: "kv = (k, v)" by (cases kv)
    with Cons.prems have "unquote (quote_body k) = k" and "pick_field names k = Some k"
      by (auto simp: unquote_quote pick_field_def)
    with kv Cons show ?case by (auto split: sum.splits)
  qed simp
  then show ?thesis by (simp add: dec_fields_def j_obj_def)
qed

lemma valid_utf8_ascii: "list_all (\<lambda>c. byte c < 0x80) s \<Longrightarrow> valid_utf8 s"
proof (induction s)
  case Nil
  then show ?case by (simp add: valid_utf8.simps)
next
  case (Cons c s)
  then have "utf8_len (c # s) = 1" by (simp add: utf8_len_ascii)
  with Cons show ?case by (simp add: valid_utf8.simps [of "c # s"])
qed

subsection \<open>Well-formed encodings\<close>

lemma format_nat_isd: "list_all is_digit (format_nat n)"
proof -
  have "of_char (CHR ''0'') = (48 :: nat)" "of_char (CHR ''9'') = (57 :: nat)" by simp_all
  then show ?thesis
    using format_nat_digits [of _ n] by (auto simp: list_all_iff is_digit_def less_eq_char_def)
qed

text \<open>A decimal numeral has no leading zero.\<close>

lemma format_nat_hd_zero: "hd (format_nat n) = CHR ''0'' \<Longrightarrow> n = 0"
proof (induction n rule: format_nat.induct)
  case (1 n)
  show ?case
  proof (cases "n < 10")
    case True
    have "of_char (CHR ''0'') = (48 :: nat)" by simp
    with 1 True have "(of_char (char_of (48 + n)) :: nat) = 48"
      by (simp add: format_nat.simps [of n])
    with True show ?thesis by (simp add: of_char_of)
  next
    case False
    with 1 have "n div 10 = 0" by (simp add: format_nat.simps [of n])
    with False show ?thesis by simp
  qed
qed

lemma format_nat_0: "format_nat 0 = ''0''"
  by (simp add: format_nat.simps char_of_def bit_0)

lemma is_number_digits:
  assumes "list_all is_digit s" and "s \<noteq> []" and "hd s = CHR ''0'' \<longrightarrow> length s = 1"
  shows "is_number s" and "is_number (CHR ''-'' # s)"
proof -
  have tw: "takeWhile is_digit s = s" "dropWhile is_digit s = []"
    using assms(1) by (simp_all add: list_all_iff)
  have "hd s \<noteq> CHR ''-''"
    using assms(1,2) by (cases s) (auto simp: is_digit_def less_eq_char_def)
  with assms show "is_number s" and "is_number (CHR ''-'' # s)"
    by (auto simp: is_number_def is_digits_def Let_def tw list_all_iff)
qed

lemma num_char_digits: "list_all is_digit s \<Longrightarrow> list_all num_char s"
  by (auto simp: list_all_iff num_char_def)

lemma wf_j_int [simp]: "wf_json (j_int i)"
proof -
  have "hd (format_nat n) = CHR ''0'' \<longrightarrow> length (format_nat n) = 1" for n
    using format_nat_hd_zero [of n] by (auto simp: format_nat_0)
  then show ?thesis
    using is_number_digits [OF format_nat_isd format_nat_not_Nil] num_char_digits [OF format_nat_isd]
    by (auto simp: j_int_def format_int_def num_char_def)
qed

lemma wf_j_str [simp]: "wf_json (j_str s)"
  by (simp add: j_str_def)

lemma wf_j_obj [simp]: "wf_json (j_obj kvs) \<longleftrightarrow> (\<forall>kv \<in> set kvs. wf_json (snd kv))"
  by (auto simp: j_obj_def)

text \<open>An encoder and decoder of one Go type, with the values the round trip holds for.\<close>

locale json_codec =
  fixes enc :: "'a \<Rightarrow> json"
    and dec :: "json \<Rightarrow> (json_error, 'a) res"
    and ok :: "'a \<Rightarrow> bool"
  assumes enc_wf: "ok x \<Longrightarrow> wf_json (enc x)"
    and dec_enc: "ok x \<Longrightarrow> dec (enc x) = Inr x"
begin

lemma unmarshal_indent: "ok x \<Longrightarrow> unmarshal dec (marshal_indent 0 (enc x) @ [CHR 0x0A]) = Inr x"
  by (simp add: unmarshal_def parse_marshal_indent enc_wf dec_enc)

lemma unmarshal_compact: "ok x \<Longrightarrow> unmarshal dec (marshal (enc x)) = Inr x"
  by (simp add: unmarshal_def parse_marshal enc_wf dec_enc)

lemma indent_inj:
  assumes "ok x" and "ok y" and "marshal_indent 0 (enc x) @ [CHR 0x0A] = marshal_indent 0 (enc y) @ [CHR 0x0A]"
  shows "x = y"
proof -
  have "unmarshal dec (marshal_indent 0 (enc x) @ [CHR 0x0A]) = Inr x"
    by (rule unmarshal_indent [OF assms(1)])
  then show ?thesis
    unfolding assms(3) unmarshal_indent [OF assms(2)] by simp
qed

end

end
