(* ===== verification/Envelope.thy ===== *)
theory Envelope
  imports Resolver JsonDecode "HOL-Library.AList"
begin

text \<open>
  The routing overlay, \<open>src/pkg/envelope/envelope.go\<close>: the document that tells the data plane which
  candidates serve which client model, addressed by the digest of its content.

  The wire form of each struct is its encoder (\<open>enc_*\<close>) and decoder (\<open>dec_*\<close>), in the field
  order and with the \<open>omitempty\<close> rules of the struct tags. A \<open>json.RawMessage\<close> is a document tree. The
  canonicaliser \<open>jcs.Transform\<close> belongs to another module: it is the parameter \<open>jcs\<close>, \<open>None\<close> standing for an
  error. Go's \<open>uint32\<close> fields are natural numbers (the values written are at most 1000), \<open>int64\<close>
  generations are integers with the bound \<open>max_int64\<close> written out where the code tests it.
\<close>

subsection \<open>Documents\<close>

definition SchemaVersion :: string where
  "SchemaVersion = ''1.0.0''"

record Scope =
  sc_Network :: string
  sc_Gateway :: string
  sc_Namespace :: string
  sc_LocalSite :: string

record Revision =
  rv_Generation :: int
  rv_Digest :: string

record RevisionField =
  rf_Kind :: string
  rf_Algorithm :: string
  rf_Value :: string

record SecretRef =
  sr_Name :: string
  sr_Namespace :: string
  sr_Key :: string

record Credential =
  cr_Strategy :: string
  cr_Header :: string
  cr_SecretRef :: SecretRef

record Candidate =
  ca_Cluster :: string
  ca_StableID :: string
  ca_Kind :: string
  ca_Name :: string
  ca_Site :: string
  ca_Fresh :: bool
  ca_SelectionGroup :: "nat option"
  ca_TrafficWeight :: "nat option"
  ca_Credential :: "Credential option"
  ca_APIFormat :: string
  ca_Path :: string
  ca_TargetModel :: string

record Provenance =
  pv_Producer :: string
  pv_ProducerVersion :: string
  pv_SourceName :: string
  pv_SourceUID :: string
  pv_SourceGeneration :: int
  pv_RenderedAt :: string

record Digest =
  dg_Algorithm :: string
  dg_Value :: string

record Overlay =
  ov_Network :: string
  ov_LocalSite :: string
  ov_Candidates :: "Candidate list"
  ov_SelectionPolicy :: "json option"

record Envelope =
  ev_SchemaVersion :: string
  ev_Revision :: RevisionField
  ev_ContentDigest :: Digest
  ev_Scope :: Scope
  ev_Provenance :: Provenance
  ev_Overlay :: Overlay

datatype StrategyError =
    UnsupportedApikey string string
  | UnsupportedAuthType string
  | UnknownAuthType string

datatype EnvelopeError =
    ErrDuplicateProvider string string
  | ErrUnknownCluster string string
  | ErrScopeMismatch Scope
  | ErrNilRouteSet
  | ErrNegativeGeneration int int
  | ErrGenerationNotPositive
  | ErrSameDigest int int
  | ErrGenerationRegression int int
  | ErrGenerationExhausted int
  | ErrUnsupportedCredential string string StrategyError
  | ErrCanonicalize

record Options =
  op_KnownClusters :: "string list"
  op_SourceUID :: string
  op_ProducerVersion :: string
  op_RenderedAt :: string
  op_IncludeProviderProfiles :: bool
  op_PreservedCandidates :: "Candidate list"

subsection \<open>Wire forms\<close>

text \<open>A member that \<open>omitempty\<close> leaves out.\<close>

definition opt_str :: "string \<Rightarrow> string \<Rightarrow> (string \<times> json) list" where
  "opt_str k s = (if s = [] then [] else [(k, j_str s)])"

definition opt_num :: "string \<Rightarrow> nat option \<Rightarrow> (string \<times> json) list" where
  "opt_num k n = (case n of None \<Rightarrow> [] | Some i \<Rightarrow> [(k, j_int (int i))])"

definition enc_scope :: "Scope \<Rightarrow> json" where
  "enc_scope s = j_obj [(''network'', j_str (sc_Network s)), (''gateway'', j_str (sc_Gateway s)),
     (''namespace'', j_str (sc_Namespace s)), (''local_site'', j_str (sc_LocalSite s))]"

definition enc_revision_field :: "RevisionField \<Rightarrow> json" where
  "enc_revision_field r = j_obj [(''kind'', j_str (rf_Kind r)), (''algorithm'', j_str (rf_Algorithm r)),
     (''value'', j_str (rf_Value r))]"

definition enc_secret_ref :: "SecretRef \<Rightarrow> json" where
  "enc_secret_ref s = j_obj [(''name'', j_str (sr_Name s)), (''namespace'', j_str (sr_Namespace s)),
     (''key'', j_str (sr_Key s))]"

definition enc_credential :: "Credential \<Rightarrow> json" where
  "enc_credential c = j_obj [(''strategy'', j_str (cr_Strategy c)), (''secretRef'', enc_secret_ref (cr_SecretRef c))]"

definition enc_candidate :: "Candidate \<Rightarrow> json" where
  "enc_candidate c = j_obj
     ([(''cluster'', j_str (ca_Cluster c))] @ opt_str ''stable_id'' (ca_StableID c)
      @ [(''kind'', j_str (ca_Kind c)), (''name'', j_str (ca_Name c)), (''site'', j_str (ca_Site c)),
         (''fresh'', JBool (ca_Fresh c))]
      @ opt_num ''selection_group'' (ca_SelectionGroup c) @ opt_num ''traffic_weight'' (ca_TrafficWeight c)
      @ (case ca_Credential c of None \<Rightarrow> [] | Some cr \<Rightarrow> [(''credential'', enc_credential cr)])
      @ opt_str ''api_format'' (ca_APIFormat c) @ opt_str ''path'' (ca_Path c)
      @ opt_str ''target_model'' (ca_TargetModel c))"

definition enc_provenance :: "Provenance \<Rightarrow> json" where
  "enc_provenance p = j_obj [(''producer'', j_str (pv_Producer p)), (''producer_version'', j_str (pv_ProducerVersion p)),
     (''source_name'', j_str (pv_SourceName p)), (''source_uid'', j_str (pv_SourceUID p)),
     (''source_generation'', j_int (pv_SourceGeneration p)), (''rendered_at'', j_str (pv_RenderedAt p))]"

definition enc_digest :: "Digest \<Rightarrow> json" where
  "enc_digest d = j_obj [(''algorithm'', j_str (dg_Algorithm d)), (''value'', j_str (dg_Value d))]"

definition enc_candidates :: "Candidate list \<Rightarrow> json" where
  "enc_candidates cs = JArr (map enc_candidate cs)"

definition enc_policy :: "json option \<Rightarrow> (string \<times> json) list" where
  "enc_policy p = (case p of None \<Rightarrow> [] | Some j \<Rightarrow> [(''selection_policy'', raw_compact j)])"

definition enc_overlay :: "Overlay \<Rightarrow> json" where
  "enc_overlay ov = j_obj ([(''network'', j_str (ov_Network ov)), (''local_site'', j_str (ov_LocalSite ov)),
     (''candidates'', enc_candidates (ov_Candidates ov))] @ enc_policy (ov_SelectionPolicy ov))"

definition enc_envelope :: "Envelope \<Rightarrow> json" where
  "enc_envelope e = j_obj [(''schema_version'', j_str (ev_SchemaVersion e)),
     (''revision'', enc_revision_field (ev_Revision e)), (''content_digest'', enc_digest (ev_ContentDigest e)),
     (''scope'', enc_scope (ev_Scope e)), (''provenance'', enc_provenance (ev_Provenance e)),
     (''overlay'', enc_overlay (ev_Overlay e))]"

text \<open>\<open>json.MarshalIndent(env, "", "  ")\<close> followed by a newline, the bytes that the publisher writes.\<close>

definition envelope_text :: "Envelope \<Rightarrow> string" where
  "envelope_text e = marshal_indent 0 (enc_envelope e) @ [CHR 0x0A]"

definition set_str :: "(string \<Rightarrow> 's) \<Rightarrow> string \<Rightarrow> json \<Rightarrow> (json_error, 's) res" where
  "set_str upd old v = bind_res (dec_str v old) (\<lambda>x. Inr (upd x))"

definition upd_scope :: "string \<Rightarrow> json \<Rightarrow> Scope \<Rightarrow> (json_error, Scope) res" where
  "upd_scope k v s =
     (if k = ''network'' then set_str (\<lambda>x. s\<lparr>sc_Network := x\<rparr>) (sc_Network s) v
      else if k = ''gateway'' then set_str (\<lambda>x. s\<lparr>sc_Gateway := x\<rparr>) (sc_Gateway s) v
      else if k = ''namespace'' then set_str (\<lambda>x. s\<lparr>sc_Namespace := x\<rparr>) (sc_Namespace s) v
      else set_str (\<lambda>x. s\<lparr>sc_LocalSite := x\<rparr>) (sc_LocalSite s) v)"

definition dec_scope :: "json \<Rightarrow> Scope \<Rightarrow> (json_error, Scope) res" where
  "dec_scope = dec_fields [''network'', ''gateway'', ''namespace'', ''local_site''] upd_scope"

definition upd_revision_field :: "string \<Rightarrow> json \<Rightarrow> RevisionField \<Rightarrow> (json_error, RevisionField) res" where
  "upd_revision_field k v r =
     (if k = ''kind'' then set_str (\<lambda>x. r\<lparr>rf_Kind := x\<rparr>) (rf_Kind r) v
      else if k = ''algorithm'' then set_str (\<lambda>x. r\<lparr>rf_Algorithm := x\<rparr>) (rf_Algorithm r) v
      else set_str (\<lambda>x. r\<lparr>rf_Value := x\<rparr>) (rf_Value r) v)"

definition dec_revision_field :: "json \<Rightarrow> RevisionField \<Rightarrow> (json_error, RevisionField) res" where
  "dec_revision_field = dec_fields [''kind'', ''algorithm'', ''value''] upd_revision_field"

definition upd_secret_ref :: "string \<Rightarrow> json \<Rightarrow> SecretRef \<Rightarrow> (json_error, SecretRef) res" where
  "upd_secret_ref k v s =
     (if k = ''name'' then set_str (\<lambda>x. s\<lparr>sr_Name := x\<rparr>) (sr_Name s) v
      else if k = ''namespace'' then set_str (\<lambda>x. s\<lparr>sr_Namespace := x\<rparr>) (sr_Namespace s) v
      else set_str (\<lambda>x. s\<lparr>sr_Key := x\<rparr>) (sr_Key s) v)"

definition dec_secret_ref :: "json \<Rightarrow> SecretRef \<Rightarrow> (json_error, SecretRef) res" where
  "dec_secret_ref = dec_fields [''name'', ''namespace'', ''key''] upd_secret_ref"

definition upd_credential :: "string \<Rightarrow> json \<Rightarrow> Credential \<Rightarrow> (json_error, Credential) res" where
  "upd_credential k v c =
     (if k = ''strategy'' then set_str (\<lambda>x. c\<lparr>cr_Strategy := x\<rparr>) (cr_Strategy c) v
      else bind_res (dec_secret_ref v (cr_SecretRef c)) (\<lambda>x. Inr (c\<lparr>cr_SecretRef := x\<rparr>)))"

definition dec_credential :: "json \<Rightarrow> Credential \<Rightarrow> (json_error, Credential) res" where
  "dec_credential = dec_fields [''strategy'', ''secretRef''] upd_credential"

definition zero_secret_ref :: SecretRef where
  "zero_secret_ref = \<lparr>sr_Name = [], sr_Namespace = [], sr_Key = []\<rparr>"

definition zero_credential :: Credential where
  "zero_credential = \<lparr>cr_Strategy = [], cr_Header = [], cr_SecretRef = zero_secret_ref\<rparr>"

definition zero_candidate :: Candidate where
  "zero_candidate = \<lparr>ca_Cluster = [], ca_StableID = [], ca_Kind = [], ca_Name = [], ca_Site = [], ca_Fresh = False,
     ca_SelectionGroup = None, ca_TrafficWeight = None, ca_Credential = None, ca_APIFormat = [], ca_Path = [],
     ca_TargetModel = []\<rparr>"

definition candidate_fields :: "string list" where
  "candidate_fields = [''cluster'', ''stable_id'', ''kind'', ''name'', ''site'', ''fresh'', ''selection_group'',
     ''traffic_weight'', ''credential'', ''api_format'', ''path'', ''target_model'']"

definition upd_candidate :: "string \<Rightarrow> json \<Rightarrow> Candidate \<Rightarrow> (json_error, Candidate) res" where
  "upd_candidate k v c =
     (if k = ''cluster'' then set_str (\<lambda>x. c\<lparr>ca_Cluster := x\<rparr>) (ca_Cluster c) v
      else if k = ''stable_id'' then set_str (\<lambda>x. c\<lparr>ca_StableID := x\<rparr>) (ca_StableID c) v
      else if k = ''kind'' then set_str (\<lambda>x. c\<lparr>ca_Kind := x\<rparr>) (ca_Kind c) v
      else if k = ''name'' then set_str (\<lambda>x. c\<lparr>ca_Name := x\<rparr>) (ca_Name c) v
      else if k = ''site'' then set_str (\<lambda>x. c\<lparr>ca_Site := x\<rparr>) (ca_Site c) v
      else if k = ''fresh'' then bind_res (dec_bool v (ca_Fresh c)) (\<lambda>x. Inr (c\<lparr>ca_Fresh := x\<rparr>))
      else if k = ''selection_group'' then bind_res (dec_uint32 v) (\<lambda>x. Inr (c\<lparr>ca_SelectionGroup := x\<rparr>))
      else if k = ''traffic_weight'' then bind_res (dec_uint32 v) (\<lambda>x. Inr (c\<lparr>ca_TrafficWeight := x\<rparr>))
      else if k = ''credential'' then
        (if v = JNull then Inr (c\<lparr>ca_Credential := None\<rparr>)
         else bind_res (dec_credential v (case ca_Credential c of None \<Rightarrow> zero_credential | Some cr \<Rightarrow> cr))
                (\<lambda>x. Inr (c\<lparr>ca_Credential := Some x\<rparr>)))
      else if k = ''api_format'' then set_str (\<lambda>x. c\<lparr>ca_APIFormat := x\<rparr>) (ca_APIFormat c) v
      else if k = ''path'' then set_str (\<lambda>x. c\<lparr>ca_Path := x\<rparr>) (ca_Path c) v
      else set_str (\<lambda>x. c\<lparr>ca_TargetModel := x\<rparr>) (ca_TargetModel c) v)"

definition dec_candidate :: "json \<Rightarrow> (json_error, Candidate) res" where
  "dec_candidate j = dec_fields candidate_fields upd_candidate j zero_candidate"

definition upd_provenance :: "string \<Rightarrow> json \<Rightarrow> Provenance \<Rightarrow> (json_error, Provenance) res" where
  "upd_provenance k v p =
     (if k = ''producer'' then set_str (\<lambda>x. p\<lparr>pv_Producer := x\<rparr>) (pv_Producer p) v
      else if k = ''producer_version'' then set_str (\<lambda>x. p\<lparr>pv_ProducerVersion := x\<rparr>) (pv_ProducerVersion p) v
      else if k = ''source_name'' then set_str (\<lambda>x. p\<lparr>pv_SourceName := x\<rparr>) (pv_SourceName p) v
      else if k = ''source_uid'' then set_str (\<lambda>x. p\<lparr>pv_SourceUID := x\<rparr>) (pv_SourceUID p) v
      else if k = ''source_generation'' then
        bind_res (dec_int64 v (pv_SourceGeneration p)) (\<lambda>x. Inr (p\<lparr>pv_SourceGeneration := x\<rparr>))
      else set_str (\<lambda>x. p\<lparr>pv_RenderedAt := x\<rparr>) (pv_RenderedAt p) v)"

definition dec_provenance :: "json \<Rightarrow> Provenance \<Rightarrow> (json_error, Provenance) res" where
  "dec_provenance = dec_fields [''producer'', ''producer_version'', ''source_name'', ''source_uid'',
     ''source_generation'', ''rendered_at''] upd_provenance"

definition upd_digest :: "string \<Rightarrow> json \<Rightarrow> Digest \<Rightarrow> (json_error, Digest) res" where
  "upd_digest k v d =
     (if k = ''algorithm'' then set_str (\<lambda>x. d\<lparr>dg_Algorithm := x\<rparr>) (dg_Algorithm d) v
      else set_str (\<lambda>x. d\<lparr>dg_Value := x\<rparr>) (dg_Value d) v)"

definition dec_digest :: "json \<Rightarrow> Digest \<Rightarrow> (json_error, Digest) res" where
  "dec_digest = dec_fields [''algorithm'', ''value''] upd_digest"

definition upd_overlay :: "string \<Rightarrow> json \<Rightarrow> Overlay \<Rightarrow> (json_error, Overlay) res" where
  "upd_overlay k v ov =
     (if k = ''network'' then set_str (\<lambda>x. ov\<lparr>ov_Network := x\<rparr>) (ov_Network ov) v
      else if k = ''local_site'' then set_str (\<lambda>x. ov\<lparr>ov_LocalSite := x\<rparr>) (ov_LocalSite ov) v
      else if k = ''candidates'' then bind_res (dec_list dec_candidate v) (\<lambda>x. Inr (ov\<lparr>ov_Candidates := x\<rparr>))
      else Inr (ov\<lparr>ov_SelectionPolicy := Some v\<rparr>))"

definition dec_overlay :: "json \<Rightarrow> Overlay \<Rightarrow> (json_error, Overlay) res" where
  "dec_overlay = dec_fields [''network'', ''local_site'', ''candidates'', ''selection_policy''] upd_overlay"

definition upd_envelope :: "string \<Rightarrow> json \<Rightarrow> Envelope \<Rightarrow> (json_error, Envelope) res" where
  "upd_envelope k v e =
     (if k = ''schema_version'' then set_str (\<lambda>x. e\<lparr>ev_SchemaVersion := x\<rparr>) (ev_SchemaVersion e) v
      else if k = ''revision'' then
        bind_res (dec_revision_field v (ev_Revision e)) (\<lambda>x. Inr (e\<lparr>ev_Revision := x\<rparr>))
      else if k = ''content_digest'' then
        bind_res (dec_digest v (ev_ContentDigest e)) (\<lambda>x. Inr (e\<lparr>ev_ContentDigest := x\<rparr>))
      else if k = ''scope'' then bind_res (dec_scope v (ev_Scope e)) (\<lambda>x. Inr (e\<lparr>ev_Scope := x\<rparr>))
      else if k = ''provenance'' then
        bind_res (dec_provenance v (ev_Provenance e)) (\<lambda>x. Inr (e\<lparr>ev_Provenance := x\<rparr>))
      else bind_res (dec_overlay v (ev_Overlay e)) (\<lambda>x. Inr (e\<lparr>ev_Overlay := x\<rparr>)))"

definition zero_scope :: Scope where
  "zero_scope = \<lparr>sc_Network = [], sc_Gateway = [], sc_Namespace = [], sc_LocalSite = []\<rparr>"

definition zero_overlay :: Overlay where
  "zero_overlay = \<lparr>ov_Network = [], ov_LocalSite = [], ov_Candidates = [], ov_SelectionPolicy = None\<rparr>"

definition zero_envelope :: Envelope where
  "zero_envelope = \<lparr>ev_SchemaVersion = [], ev_Revision = \<lparr>rf_Kind = [], rf_Algorithm = [], rf_Value = []\<rparr>,
     ev_ContentDigest = \<lparr>dg_Algorithm = [], dg_Value = []\<rparr>, ev_Scope = zero_scope,
     ev_Provenance = \<lparr>pv_Producer = [], pv_ProducerVersion = [], pv_SourceName = [], pv_SourceUID = [],
       pv_SourceGeneration = 0, pv_RenderedAt = []\<rparr>,
     ev_Overlay = zero_overlay\<rparr>"

text \<open>\<open>json.Unmarshal(raw, &env)\<close> into a zero envelope. (A document that repeats the \<open>candidates\<close> key makes
  Go decode the second array over the elements of the first; here the second array replaces the first.)\<close>

definition dec_envelope :: "json \<Rightarrow> (json_error, Envelope) res" where
  "dec_envelope j = dec_fields [''schema_version'', ''revision'', ''content_digest'', ''scope'', ''provenance'', ''overlay'']
     upd_envelope j zero_envelope"

subsection \<open>Selection metadata\<close>

record selectionRouteKey =
  k_modelRef :: string
  k_model :: string
  k_provider :: string
  k_cluster :: string

record selectionCapability =
  sel_count :: int
  sel_firstWeight :: int
  sel_unequal :: bool

record selectionMetadata =
  sm_policy :: "json option"
  sm_weighted :: bool
  sm_groups :: "selectionRouteKey \<rightharpoonup> nat"
  sm_weights :: "selectionRouteKey \<rightharpoonup> nat"

definition randomSelectionPolicy :: json where
  "randomSelectionPolicy = j_obj [(''mode'', j_str ''random'')]"

definition weightedRandomSelectionPolicy :: json where
  "weightedRandomSelectionPolicy = j_obj [(''mode'', j_str ''weightedRandom'')]"

definition trafficWeightFor :: "int \<Rightarrow> nat" where
  "trafficWeightFor weight = (if weight < 1 then 1 else if weight > 1000 then 1000 else nat weight)"

definition capability_key :: "Route \<Rightarrow> string" where
  "capability_key r = ''inference_model'' @ [CHR 0x00] @ ClientName r"

definition binding_key :: "Route \<Rightarrow> string" where
  "binding_key r = capability_key r @ [CHR 0x00] @ ProviderNamespace r @ ''/'' @ Provider r"

definition route_key :: "ModelRoutes \<Rightarrow> Route \<Rightarrow> selectionRouteKey" where
  "route_key m r = \<lparr>k_modelRef = mr_ModelRef m, k_model = Model r, k_provider = Provider r, k_cluster = Cluster r\<rparr>"

record CapState =
  cs_caps :: "(string \<times> selectionCapability) list"
  cs_bindings :: "string list"

text \<open>One iteration of the first loop: reject a repeated binding, then count the route.\<close>

definition count_route :: "Route \<Rightarrow> CapState \<Rightarrow> (EnvelopeError, CapState) res" where
  "count_route r s =
     (if binding_key r \<in> set (cs_bindings s) then Inl (ErrDuplicateProvider (ClientName r) (Provider r))
      else
        (let cap = (case map_of (cs_caps s) (capability_key r) of
                      None \<Rightarrow> \<lparr>sel_count = 0, sel_firstWeight = Weight r, sel_unequal = False\<rparr>
                    | Some c \<Rightarrow> if Weight r \<noteq> sel_firstWeight c then c\<lparr>sel_unequal := True\<rparr> else c);
             cap' = cap\<lparr>sel_count := sel_count cap + 1\<rparr>
         in Inr \<lparr>cs_caps = AList.update (capability_key r) cap' (cs_caps s),
                 cs_bindings = binding_key r # cs_bindings s\<rparr>))"

definition keyed_routes :: "ResolvedRouteSet \<Rightarrow> (selectionRouteKey \<times> Route) list" where
  "keyed_routes rs = concat (map (\<lambda>m. map (\<lambda>r. (route_key m r, r)) (mr_Routes m)) (Models rs))"

definition cap_count :: "CapState \<Rightarrow> Route \<Rightarrow> int" where
  "cap_count s r = (case map_of (cs_caps s) (capability_key r) of None \<Rightarrow> 0 | Some c \<Rightarrow> sel_count c)"

definition deriveSelectionMetadata :: "ResolvedRouteSet \<Rightarrow> (EnvelopeError, selectionMetadata) res" where
  "deriveSelectionMetadata rs =
     bind_res (fold_res count_route (Routes rs) \<lparr>cs_caps = [], cs_bindings = []\<rparr>) (\<lambda>s.
       let needsWeighted = list_ex (\<lambda>(_, c). sel_count c > 1 \<and> sel_unequal c) (cs_caps s);
           needsRandom = list_ex (\<lambda>(_, c). sel_count c > 1 \<and> \<not> sel_unequal c) (cs_caps s) in
       if needsWeighted then
         Inr \<lparr>sm_policy = Some weightedRandomSelectionPolicy, sm_weighted = True,
              sm_groups = fold (\<lambda>(k, r) g. g(k \<mapsto> 0)) (keyed_routes rs) Map.empty,
              sm_weights = fold (\<lambda>(k, r) w. w(k \<mapsto> trafficWeightFor (Weight r))) (keyed_routes rs) Map.empty\<rparr>
       else if needsRandom then
         Inr \<lparr>sm_policy = Some randomSelectionPolicy, sm_weighted = False,
              sm_groups = fold (\<lambda>(k, r) g. if cap_count s r > 1 then g(k \<mapsto> 0) else g) (keyed_routes rs) Map.empty,
              sm_weights = Map.empty\<rparr>
       else Inr \<lparr>sm_policy = None, sm_weighted = False, sm_groups = Map.empty, sm_weights = Map.empty\<rparr>)"

definition normalizeWeightedCandidates :: "Candidate list \<Rightarrow> Candidate list" where
  "normalizeWeightedCandidates =
     map (\<lambda>c. c\<lparr>ca_SelectionGroup := (case ca_SelectionGroup c of None \<Rightarrow> Some 0 | Some g \<Rightarrow> Some g),
                ca_TrafficWeight := (case ca_TrafficWeight c of None \<Rightarrow> Some 1 | Some w \<Rightarrow> Some w)\<rparr>)"

definition ValidateSelectionMetadata :: "ResolvedRouteSet option \<Rightarrow> EnvelopeError option" where
  "ValidateSelectionMetadata routes =
     (case routes of
        None \<Rightarrow> Some ErrNilRouteSet
      | Some rs \<Rightarrow> (case deriveSelectionMetadata rs of Inl e \<Rightarrow> Some e | Inr _ \<Rightarrow> None))"

subsection \<open>Credential strategies\<close>

definition defaultAuthHeaders :: str_map where
  "defaultAuthHeaders = [(''anthropic'', ''x-api-key''), (''azure'', ''api-key''), (''azure-openai'', ''api-key'')]"

definition IsQualifiedAuthHeader :: "string \<Rightarrow> bool" where
  "IsQualifiedAuthHeader header = list_ex (\<lambda>(_, qualified). qualified = header) defaultAuthHeaders"

definition StrategyFor :: "Route \<Rightarrow> (StrategyError, string \<times> string) res" where
  "StrategyFor r =
     (if AuthType r = [] then Inr ([], [])
      else if AuthType r = ''apikey'' then
        (if ProviderType r = ''openai'' \<and> APIFormat r = ''openai-chat'' then Inr (''bearer_token'', [])
         else if ProviderType r = ''anthropic'' \<and> APIFormat r = ''messages''
         then Inr (''apikey'', sm_get defaultAuthHeaders ''anthropic'')
         else if (ProviderType r = ''azure'' \<or> ProviderType r = ''azure-openai'') \<and> APIFormat r = ''openai-chat''
         then Inr (''apikey'', sm_get defaultAuthHeaders (ProviderType r))
         else if ProviderType r = ''bedrock-openai'' \<and> APIFormat r = ''openai-chat'' then Inr (''bearer_token'', [])
         else Inl (UnsupportedApikey (ProviderType r) (APIFormat r)))
      else if AuthType r = ''sigv4'' \<or> AuthType r = ''oauth2'' then Inl (UnsupportedAuthType (AuthType r))
      else Inl (UnknownAuthType (AuthType r)))"

subsection \<open>Stable identifiers\<close>

definition CandidateStableID :: "string \<Rightarrow> string \<Rightarrow> string" where
  "CandidateStableID model provider = model @ ''/provider-'' @ provider"

definition maxStableIDBytes :: nat where
  "maxStableIDBytes = 256"

text \<open>\<open>binary.BigEndian.PutUint64\<close>.\<close>

fun be_bytes :: "nat \<Rightarrow> nat \<Rightarrow> string" where
  "be_bytes 0 n = []"
| "be_bytes (Suc k) n = be_bytes k (n div 256) @ [char_of (n mod 256)]"

definition ScopedStableID :: "string \<Rightarrow> string \<Rightarrow> string \<Rightarrow> string \<Rightarrow> string" where
  "ScopedStableID modelNamespace model providerNamespace provider =
     (let fields = [modelNamespace, model, providerNamespace, provider];
          ident = join_str fields ''/'' in
      if length ident \<le> maxStableIDBytes then ident
      else ''sha256:'' @ sha256_hex (concat (map (\<lambda>field. be_bytes 8 (length field) @ field) fields)))"

definition RouteStableID :: "Route \<Rightarrow> string" where
  "RouteStableID r = (if StableID r \<noteq> [] then StableID r else CandidateStableID (Model r) (Provider r))"

definition IsScopedStableID :: "string \<Rightarrow> bool" where
  "IsScopedStableID ident \<longleftrightarrow> count_byte (CHR ''/'') ident \<noteq> 1"

subsection \<open>Digests\<close>

type_synonym jcs_fn = "string \<Rightarrow> string option"

definition digest_payload :: "Overlay \<Rightarrow> json" where
  "digest_payload ov = j_obj ([(''candidates'', enc_candidates (ov_Candidates ov)),
     (''local_site'', j_str (ov_LocalSite ov)), (''network'', j_str (ov_Network ov))]
     @ enc_policy (ov_SelectionPolicy ov))"

definition ComputeDigest :: "jcs_fn \<Rightarrow> Overlay \<Rightarrow> (EnvelopeError, string) res" where
  "ComputeDigest jcs ov =
     (case jcs (marshal (digest_payload ov)) of
        None \<Rightarrow> Inl ErrCanonicalize
      | Some canon \<Rightarrow> Inr (sha256_hex canon))"

datatype WireError = WireNotObject json_error | WireNoOverlay | WireOverlayNotObject json_error | WireCanonicalize

text \<open>The inner \<open>json.Unmarshal\<close> decodes into the map that already holds the envelope's own members, which it
  adds to: \<open>overlay := doc\<close> shares the map. A null overlay section sets the map to nil.\<close>

definition overlay_members :: "(string \<times> json) list \<Rightarrow> json \<Rightarrow> (json_error, (string \<times> json) list) res" where
  "overlay_members doc inner =
     (case inner of
        JNull \<Rightarrow> Inr []
      | _ \<Rightarrow> bind_res (dec_raw_map inner) (\<lambda>kvs. Inr (kvs @ doc)))"

definition wire_filtered :: "(string \<times> json) list \<Rightarrow> (string \<times> json) list" where
  "wire_filtered overlay =
     concat (map (\<lambda>k. case map_of overlay k of None \<Rightarrow> [] | Some v \<Rightarrow> [(k, raw_compact v)])
       [''candidates'', ''local_site'', ''network'', ''selection_policy''])"

definition ComputeDigestFromWire :: "jcs_fn \<Rightarrow> string \<Rightarrow> (WireError, string) res" where
  "ComputeDigestFromWire jcs raw =
     (case unmarshal dec_raw_map raw of
        Inl e \<Rightarrow> Inl (WireNotObject e)
      | Inr doc \<Rightarrow>
          bind_res
            (if map_of doc ''schema_version'' = None then Inr doc
             else (case map_of doc ''overlay'' of
                     None \<Rightarrow> Inl WireNoOverlay
                   | Some inner \<Rightarrow>
                       (case overlay_members doc inner of
                          Inl e \<Rightarrow> Inl (WireOverlayNotObject e)
                        | Inr m \<Rightarrow> Inr m)))
            (\<lambda>overlay.
               case jcs (marshal (j_obj (wire_filtered overlay))) of
                 None \<Rightarrow> Inl WireCanonicalize
               | Some canon \<Rightarrow> Inr (sha256_hex canon)))"

subsection \<open>Rendering\<close>

definition validate_route :: "Options \<Rightarrow> Route \<Rightarrow> EnvelopeError option" where
  "validate_route opts r =
     (if op_KnownClusters opts \<noteq> [] \<and> Cluster r \<notin> set (op_KnownClusters opts)
      then Some (ErrUnknownCluster (Cluster r) (Model r))
      else (case StrategyFor r of
              Inl e \<Rightarrow> Some (ErrUnsupportedCredential (Model r) (Provider r) e)
            | Inr _ \<Rightarrow> None))"

definition ValidateModel :: "ModelRoutes \<Rightarrow> Options \<Rightarrow> EnvelopeError option" where
  "ValidateModel m opts =
     (case deriveSelectionMetadata \<lparr>Models = [m]\<rparr> of
        Inl e \<Rightarrow> Some e
      | Inr _ \<Rightarrow>
          (case List.find (\<lambda>r. validate_route opts r \<noteq> None) (mr_Routes m) of
             None \<Rightarrow> None
           | Some r \<Rightarrow> validate_route opts r))"

definition route_credential :: "Route \<Rightarrow> Credential option" where
  "route_credential r =
     (case StrategyFor r of
        Inl _ \<Rightarrow> None
      | Inr (strategy, header) \<Rightarrow>
          if strategy = [] then None
          else Some \<lparr>cr_Strategy = strategy, cr_Header = header,
                     cr_SecretRef = \<lparr>sr_Name = SecretName r, sr_Namespace = SecretRefNamespace r, sr_Key = SecretKey r\<rparr>\<rparr>)"

definition render_candidate ::
    "Scope \<Rightarrow> Options \<Rightarrow> selectionMetadata \<Rightarrow> ModelRoutes \<Rightarrow> Route \<Rightarrow> Candidate" where
  "render_candidate scope opts selection m r =
     (let profile = op_IncludeProviderProfiles opts in
      \<lparr>ca_Cluster = Cluster r, ca_StableID = RouteStableID r, ca_Kind = ''inference_model'', ca_Name = ClientName r,
       ca_Site = sc_LocalSite scope, ca_Fresh = True,
       ca_SelectionGroup = sm_groups selection (route_key m r),
       ca_TrafficWeight = sm_weights selection (route_key m r),
       ca_Credential = route_credential r,
       ca_APIFormat = (if profile then APIFormat r else []),
       ca_Path = (if profile then Path r else []),
       ca_TargetModel = (if profile then TargetModel r else [])\<rparr>)"

text \<open>The mode that the preserved candidates force on top of the derived one.\<close>

definition merge_preserved :: "Candidate list \<Rightarrow> selectionMetadata \<Rightarrow> selectionMetadata" where
  "merge_preserved preserved selection =
     (if sm_weighted selection \<or> list_ex (\<lambda>c. ca_TrafficWeight c \<noteq> None) preserved
      then selection\<lparr>sm_policy := Some weightedRandomSelectionPolicy, sm_weighted := True\<rparr>
      else if sm_policy selection = None \<and> list_ex (\<lambda>c. ca_SelectionGroup c \<noteq> None) preserved
      then selection\<lparr>sm_policy := Some randomSelectionPolicy\<rparr>
      else selection)"

definition render_model ::
    "Scope \<Rightarrow> Options \<Rightarrow> selectionMetadata \<Rightarrow> ModelRoutes \<Rightarrow> Candidate list \<Rightarrow> (EnvelopeError, Candidate list) res" where
  "render_model scope opts selection m cands =
     (case ValidateModel m opts of
        Some e \<Rightarrow> Inl e
      | None \<Rightarrow> Inr (cands @ map (render_candidate scope opts selection m) (mr_Routes m)))"

definition strip_profile :: "Candidate \<Rightarrow> Candidate" where
  "strip_profile c = c\<lparr>ca_APIFormat := [], ca_Path := [], ca_TargetModel := []\<rparr>"

definition next_revision :: "Revision \<Rightarrow> string \<Rightarrow> (EnvelopeError, Revision) res" where
  "next_revision prev digest =
     (if rv_Digest prev = digest \<and> rv_Generation prev > 0 then Inr prev
      else if rv_Generation prev > 0 then
        (if rv_Generation prev = max_int64 then Inl (ErrGenerationExhausted (rv_Generation prev))
         else Inr \<lparr>rv_Generation = rv_Generation prev + 1, rv_Digest = digest\<rparr>)
      else Inr \<lparr>rv_Generation = 1, rv_Digest = digest\<rparr>)"

definition build_envelope :: "Scope \<Rightarrow> Options \<Rightarrow> Overlay \<Rightarrow> string \<Rightarrow> Revision \<Rightarrow> Envelope" where
  "build_envelope scope opts overlay digest nrev =
     \<lparr>ev_SchemaVersion = SchemaVersion,
      ev_Revision = \<lparr>rf_Kind = ''content_addressed'', rf_Algorithm = ''sha256'', rf_Value = digest\<rparr>,
      ev_ContentDigest = \<lparr>dg_Algorithm = ''sha256'', dg_Value = digest\<rparr>,
      ev_Scope = scope,
      ev_Provenance = \<lparr>pv_Producer = ''ai-gateway-controller'',
        pv_ProducerVersion = (if op_ProducerVersion opts = [] then ''dev'' else op_ProducerVersion opts),
        pv_SourceName = sc_Network scope, pv_SourceUID = op_SourceUID opts,
        pv_SourceGeneration = rv_Generation nrev, pv_RenderedAt = op_RenderedAt opts\<rparr>,
      ev_Overlay = overlay\<rparr>"

text \<open>The overlay that \<open>Render\<close> builds before it is hashed.\<close>

definition render_overlay ::
    "ResolvedRouteSet \<Rightarrow> Scope \<Rightarrow> Options \<Rightarrow> (EnvelopeError, Overlay) res" where
  "render_overlay rs scope opts =
     bind_res (deriveSelectionMetadata rs) (\<lambda>derived.
       let selection = merge_preserved (op_PreservedCandidates opts) derived in
       bind_res (fold_res (render_model scope opts selection) (Models rs) (op_PreservedCandidates opts)) (\<lambda>cands.
         let cands1 = (if sm_weighted selection then normalizeWeightedCandidates cands else cands);
             cands2 = (if op_IncludeProviderProfiles opts then cands1 else map strip_profile cands1) in
         Inr \<lparr>ov_Network = sc_Network scope, ov_LocalSite = sc_LocalSite scope, ov_Candidates = cands2,
              ov_SelectionPolicy = sm_policy selection\<rparr>))"

definition Render ::
    "jcs_fn \<Rightarrow> ResolvedRouteSet option \<Rightarrow> Scope \<Rightarrow> Revision \<Rightarrow> Options \<Rightarrow> (EnvelopeError, Envelope) res" where
  "Render jcs routes scope prev opts =
     (if rv_Generation prev < 0 then Inl (ErrNegativeGeneration (rv_Generation prev) 0)
      else if sc_Network scope = [] \<or> sc_Gateway scope = [] \<or> sc_Namespace scope = [] \<or> sc_LocalSite scope = []
      then Inl (ErrScopeMismatch scope)
      else (case routes of
              None \<Rightarrow> Inl ErrNilRouteSet
            | Some rs \<Rightarrow>
                bind_res (render_overlay rs scope opts) (\<lambda>overlay.
                  bind_res (ComputeDigest jcs overlay) (\<lambda>digest.
                    bind_res (next_revision prev digest) (\<lambda>rev.
                      Inr (build_envelope scope opts overlay digest rev))))))"

definition CheckRevisionTransition :: "Revision \<Rightarrow> Revision \<Rightarrow> EnvelopeError option" where
  "CheckRevisionTransition prev next =
     (if rv_Generation prev < 0 \<or> rv_Generation next < 0
      then Some (ErrNegativeGeneration (rv_Generation prev) (rv_Generation next))
      else if rv_Generation next = 0 then Some ErrGenerationNotPositive
      else if rv_Generation prev = 0 then None
      else if rv_Digest next = rv_Digest prev \<and> rv_Generation next \<noteq> rv_Generation prev
      then Some (ErrSameDigest (rv_Generation prev) (rv_Generation next))
      else if rv_Digest next \<noteq> rv_Digest prev \<and> rv_Generation next \<le> rv_Generation prev
      then Some (ErrGenerationRegression (rv_Generation prev) (rv_Generation next))
      else None)"

text \<open>The revision that a distributed envelope stands for.\<close>

definition envelope_revision :: "Envelope \<Rightarrow> Revision" where
  "envelope_revision e = \<lparr>rv_Generation = pv_SourceGeneration (ev_Provenance e), rv_Digest = rf_Value (ev_Revision e)\<rparr>"

end
