(* ===== verification/Publisher.thy ===== *)
theory Publisher
  imports Envelope
begin

text \<open>
  The publisher, \<open>src/pkg/publisher/publisher.go\<close>: the write path from a route set to the routing-overlay
  ConfigMap. The API server is reached twice: a read, whose result is the argument \<open>got\<close>, and a
  server-side apply, whose outcome is the argument \<open>applied\<close>. The clock is the argument \<open>now\<close>, the RFC 3339
  text of the current time.
\<close>

datatype 'a get_result = GetOk 'a | GetNotFound | GetError string

record ConfigMap =
  cm_Labels :: str_map
  cm_Annotations :: str_map
  cm_Data :: str_map

definition DefaultName :: string where
  "DefaultName = ''routing-overlay''"

definition DefaultDataKey :: string where
  "DefaultDataKey = ''routing-overlay.json''"

definition AnnotationSourceGeneration :: string where
  "AnnotationSourceGeneration = ''inference.opendatahub.io/routing-overlay-source-generation''"

definition AnnotationContentDigest :: string where
  "AnnotationContentDigest = ''inference.opendatahub.io/routing-overlay-content-digest''"

definition labelManagedBy :: string where
  "labelManagedBy = ''app.kubernetes.io/managed-by''"

record Config =
  cfg_Namespace :: string
  cfg_Name :: string
  cfg_DataKey :: string

datatype PublishError =
    ErrNamespaceRequired
  | ErrGetConfigMap string
  | ErrNoEnvelope
  | ErrTamperedParse json_error
  | ErrTamperedWire WireError
  | ErrTamperedDigest string string
  | ErrRender EnvelopeError
  | ErrTransition EnvelopeError
  | ErrApply string

definition New :: "Config \<Rightarrow> (PublishError, Config) res" where
  "New cfg =
     (if cfg_Namespace cfg = [] then Inl ErrNamespaceRequired
      else Inr (cfg\<lparr>cfg_Name := (if cfg_Name cfg = [] then DefaultName else cfg_Name cfg),
                    cfg_DataKey := (if cfg_DataKey cfg = [] then DefaultDataKey else cfg_DataKey cfg)\<rparr>))"

record Result =
  res_Envelope :: Envelope
  res_Created :: bool
  res_Updated :: bool
  res_Unchanged :: bool

record Baseline =
  bl_prev :: Revision
  bl_data :: string
  bl_renderedAt :: string

text \<open>Reading the distributed envelope: a document that does not hash to the revision it declares is refused.\<close>

definition read_baseline :: "jcs_fn \<Rightarrow> Config \<Rightarrow> ConfigMap \<Rightarrow> (PublishError, Baseline) res" where
  "read_baseline jcs cfg cm =
     (case map_of (cm_Data cm) (cfg_DataKey cfg) of
        None \<Rightarrow> Inl ErrNoEnvelope
      | Some raw \<Rightarrow>
          (case unmarshal dec_envelope raw of
             Inl e \<Rightarrow> Inl (ErrTamperedParse e)
           | Inr env \<Rightarrow>
               (case ComputeDigestFromWire jcs raw of
                  Inl e \<Rightarrow> Inl (ErrTamperedWire e)
                | Inr hash \<Rightarrow>
                    if hash \<noteq> rf_Value (ev_Revision env)
                    then Inl (ErrTamperedDigest (rf_Value (ev_Revision env)) hash)
                    else Inr \<lparr>bl_prev = envelope_revision env, bl_data = raw,
                              bl_renderedAt = pv_RenderedAt (ev_Provenance env)\<rparr>)))"

definition stamp :: "bool \<Rightarrow> Baseline \<Rightarrow> Options \<Rightarrow> string \<Rightarrow> Envelope \<Rightarrow> Envelope" where
  "stamp found base opts now env =
     (if op_RenderedAt opts \<noteq> [] then env
      else env\<lparr>ev_Provenance := (ev_Provenance env)\<lparr>pv_RenderedAt :=
             (if found \<and> rf_Value (ev_Revision env) = rv_Digest (bl_prev base) then bl_renderedAt base else now)\<rparr>\<rparr>)"

text \<open>The object sent with server-side apply.\<close>

definition apply_config :: "Config \<Rightarrow> Envelope \<Rightarrow> ConfigMap" where
  "apply_config cfg env =
     \<lparr>cm_Labels = [(labelManagedBy, ''ai-gateway-controller'')],
      cm_Annotations = [(AnnotationSourceGeneration, format_int (pv_SourceGeneration (ev_Provenance env))),
                        (AnnotationContentDigest, rf_Value (ev_Revision env))],
      cm_Data = [(cfg_DataKey cfg, envelope_text env)]\<rparr>"

definition no_baseline :: Baseline where
  "no_baseline = \<lparr>bl_prev = \<lparr>rv_Generation = 0, rv_Digest = []\<rparr>, bl_data = [], bl_renderedAt = []\<rparr>"

text \<open>\<open>Publish\<close> as a result and the apply request it sent, if any.\<close>

definition publish_next ::
    "jcs_fn \<Rightarrow> Config \<Rightarrow> string \<Rightarrow> string option \<Rightarrow> bool \<Rightarrow> Baseline \<Rightarrow> ResolvedRouteSet option \<Rightarrow> Scope \<Rightarrow>
     Options \<Rightarrow> (PublishError, Result) res \<times> ConfigMap option" where
  "publish_next jcs cfg now applied found base routes scope opts =
     (case Render jcs routes scope (bl_prev base) opts of
        Inl e \<Rightarrow> (Inl (ErrRender e), None)
      | Inr env0 \<Rightarrow>
          (let env = stamp found base opts now env0 in
           case CheckRevisionTransition (bl_prev base) (envelope_revision env) of
             Some e \<Rightarrow> (Inl (ErrTransition e), None)
           | None \<Rightarrow>
               if found \<and> envelope_text env = bl_data base
               then (Inr \<lparr>res_Envelope = env, res_Created = False, res_Updated = False, res_Unchanged = True\<rparr>, None)
               else (case applied of
                       Some e \<Rightarrow> (Inl (ErrApply e), Some (apply_config cfg env))
                     | None \<Rightarrow> (Inr \<lparr>res_Envelope = env, res_Created = \<not> found, res_Updated = found,
                                      res_Unchanged = False\<rparr>, Some (apply_config cfg env)))))"

definition Publish ::
    "jcs_fn \<Rightarrow> Config \<Rightarrow> string \<Rightarrow> ConfigMap get_result \<Rightarrow> string option \<Rightarrow> ResolvedRouteSet option \<Rightarrow> Scope \<Rightarrow>
     Options \<Rightarrow> (PublishError, Result) res \<times> ConfigMap option" where
  "Publish jcs cfg now got applied routes scope opts =
     (case got of
        GetError e \<Rightarrow> (Inl (ErrGetConfigMap e), None)
      | GetNotFound \<Rightarrow> publish_next jcs cfg now applied False no_baseline routes scope opts
      | GetOk cm \<Rightarrow>
          (case read_baseline jcs cfg cm of
             Inl e \<Rightarrow> (Inl e, None)
           | Inr base \<Rightarrow> publish_next jcs cfg now applied True base routes scope opts))"

end
