(* ===== verification/EnvelopeCodec.thy ===== *)
theory EnvelopeCodec
  imports Envelope
begin

text \<open>
  The wire forms of the overlay document: decoding inverts encoding on every document the controller
  can hold, so the envelope read back from the ConfigMap is the envelope that was written
  (interpretation \<open>wire\<close> of the locale \<open>json_codec\<close>), and the digest recomputed from the bytes
  is the digest computed from the overlay.
\<close>

subsection \<open>Documents within the wire contract\<close>

text \<open>Strings are UTF-8, numbers fit their Go types. \<open>cr_Header\<close> never serialises, so only an empty one survives.\<close>

definition ok_secret_ref :: "SecretRef \<Rightarrow> bool" where
  "ok_secret_ref s \<longleftrightarrow> list_all valid_utf8 [sr_Name s, sr_Namespace s, sr_Key s]"

definition ok_credential :: "Credential \<Rightarrow> bool" where
  "ok_credential c \<longleftrightarrow> valid_utf8 (cr_Strategy c) \<and> cr_Header c = [] \<and> ok_secret_ref (cr_SecretRef c)"

definition ok_num :: "nat option \<Rightarrow> bool" where
  "ok_num n \<longleftrightarrow> (case n of None \<Rightarrow> True | Some i \<Rightarrow> i < 2 ^ 32)"

definition ok_candidate :: "Candidate \<Rightarrow> bool" where
  "ok_candidate c \<longleftrightarrow>
     list_all valid_utf8 [ca_Cluster c, ca_StableID c, ca_Kind c, ca_Name c, ca_Site c, ca_APIFormat c, ca_Path c,
       ca_TargetModel c]
     \<and> ok_num (ca_SelectionGroup c) \<and> ok_num (ca_TrafficWeight c)
     \<and> (case ca_Credential c of None \<Rightarrow> True | Some cr \<Rightarrow> ok_credential cr)"

definition ok_policy :: "json option \<Rightarrow> bool" where
  "ok_policy p \<longleftrightarrow> (case p of None \<Rightarrow> True | Some j \<Rightarrow> wf_json j \<and> raw_compact j = j)"

definition ok_overlay :: "Overlay \<Rightarrow> bool" where
  "ok_overlay ov \<longleftrightarrow> valid_utf8 (ov_Network ov) \<and> valid_utf8 (ov_LocalSite ov)
     \<and> list_all ok_candidate (ov_Candidates ov) \<and> ok_policy (ov_SelectionPolicy ov)"

definition ok_provenance :: "Provenance \<Rightarrow> bool" where
  "ok_provenance p \<longleftrightarrow>
     list_all valid_utf8 [pv_Producer p, pv_ProducerVersion p, pv_SourceName p, pv_SourceUID p, pv_RenderedAt p]
     \<and> min_int64 \<le> pv_SourceGeneration p \<and> pv_SourceGeneration p \<le> max_int64"

definition ok_envelope :: "Envelope \<Rightarrow> bool" where
  "ok_envelope e \<longleftrightarrow>
     list_all valid_utf8 [ev_SchemaVersion e, rf_Kind (ev_Revision e), rf_Algorithm (ev_Revision e), rf_Value (ev_Revision e),
       dg_Algorithm (ev_ContentDigest e), dg_Value (ev_ContentDigest e), sc_Network (ev_Scope e), sc_Gateway (ev_Scope e),
       sc_Namespace (ev_Scope e), sc_LocalSite (ev_Scope e)]
     \<and> ok_provenance (ev_Provenance e) \<and> ok_overlay (ev_Overlay e)"

subsection \<open>Field by field\<close>

lemma set_str_j_str [simp]: "valid_utf8 s \<Longrightarrow> set_str upd old (j_str s) = Inr (upd s)"
  by (simp add: set_str_def)

lemma ascii_keys:
  "valid_utf8 ''network''" "valid_utf8 ''gateway''" "valid_utf8 ''namespace''" "valid_utf8 ''local_site''"
  "valid_utf8 ''kind''" "valid_utf8 ''algorithm''" "valid_utf8 ''value''" "valid_utf8 ''name''" "valid_utf8 ''key''"
  "valid_utf8 ''strategy''" "valid_utf8 ''secretRef''" "valid_utf8 ''cluster''" "valid_utf8 ''stable_id''"
  "valid_utf8 ''site''" "valid_utf8 ''fresh''" "valid_utf8 ''selection_group''" "valid_utf8 ''traffic_weight''"
  "valid_utf8 ''credential''" "valid_utf8 ''api_format''" "valid_utf8 ''path''" "valid_utf8 ''target_model''"
  "valid_utf8 ''producer''" "valid_utf8 ''producer_version''" "valid_utf8 ''source_name''" "valid_utf8 ''source_uid''"
  "valid_utf8 ''source_generation''" "valid_utf8 ''rendered_at''" "valid_utf8 ''candidates''"
  "valid_utf8 ''selection_policy''" "valid_utf8 ''schema_version''" "valid_utf8 ''revision''"
  "valid_utf8 ''content_digest''" "valid_utf8 ''scope''" "valid_utf8 ''provenance''" "valid_utf8 ''overlay''"
  by (simp_all add: valid_utf8_ascii byte_def)

lemma dec_scope_enc:
  "list_all valid_utf8 [sc_Network s, sc_Gateway s, sc_Namespace s, sc_LocalSite s] \<Longrightarrow>
     dec_scope (enc_scope s) old = Inr s"
  unfolding dec_scope_def enc_scope_def
  by (subst dec_fields_j_obj) (auto simp: ascii_keys upd_scope_def)

lemma dec_revision_field_enc:
  "list_all valid_utf8 [rf_Kind r, rf_Algorithm r, rf_Value r] \<Longrightarrow> dec_revision_field (enc_revision_field r) old = Inr r"
  unfolding dec_revision_field_def enc_revision_field_def
  by (subst dec_fields_j_obj) (auto simp: ascii_keys upd_revision_field_def)

lemma dec_digest_enc:
  "list_all valid_utf8 [dg_Algorithm d, dg_Value d] \<Longrightarrow> dec_digest (enc_digest d) old = Inr d"
  unfolding dec_digest_def enc_digest_def
  by (subst dec_fields_j_obj) (auto simp: ascii_keys upd_digest_def)

lemma dec_secret_ref_enc: "ok_secret_ref s \<Longrightarrow> dec_secret_ref (enc_secret_ref s) old = Inr s"
  unfolding dec_secret_ref_def enc_secret_ref_def ok_secret_ref_def
  by (subst dec_fields_j_obj) (auto simp: ascii_keys upd_secret_ref_def)

lemma dec_credential_enc: "ok_credential c \<Longrightarrow> dec_credential (enc_credential c) zero_credential = Inr c"
  unfolding dec_credential_def enc_credential_def ok_credential_def
  by (subst dec_fields_j_obj) (auto simp: ascii_keys upd_credential_def dec_secret_ref_enc zero_credential_def)

lemma dec_provenance_enc: "ok_provenance p \<Longrightarrow> dec_provenance (enc_provenance p) old = Inr p"
  unfolding dec_provenance_def enc_provenance_def ok_provenance_def
  by (subst dec_fields_j_obj) (auto simp: ascii_keys upd_provenance_def)

lemma enc_credential_not_null: "enc_credential c \<noteq> JNull"
  by (simp add: enc_credential_def j_obj_def)

abbreviation put_candidate :: "string \<times> json \<Rightarrow> Candidate \<Rightarrow> (json_error, Candidate) res" where
  "put_candidate \<equiv> \<lambda>(k, v). upd_candidate k v"

definition opt_credential :: "Credential option \<Rightarrow> (string \<times> json) list" where
  "opt_credential cr = (case cr of None \<Rightarrow> [] | Some c \<Rightarrow> [(''credential'', enc_credential c)])"

text \<open>Each optional member, present or absent, sets its field of a candidate that still has the zero value.\<close>

lemma put_opt_members:
  "valid_utf8 s \<Longrightarrow> ca_StableID c = [] \<Longrightarrow>
     fold_res put_candidate (opt_str ''stable_id'' s @ xs) c = fold_res put_candidate xs (c\<lparr>ca_StableID := s\<rparr>)"
  "valid_utf8 s \<Longrightarrow> ca_APIFormat c = [] \<Longrightarrow>
     fold_res put_candidate (opt_str ''api_format'' s @ xs) c = fold_res put_candidate xs (c\<lparr>ca_APIFormat := s\<rparr>)"
  "valid_utf8 s \<Longrightarrow> ca_Path c = [] \<Longrightarrow>
     fold_res put_candidate (opt_str ''path'' s @ xs) c = fold_res put_candidate xs (c\<lparr>ca_Path := s\<rparr>)"
  "valid_utf8 s \<Longrightarrow> ca_TargetModel c = [] \<Longrightarrow>
     fold_res put_candidate (opt_str ''target_model'' s) c = Inr (c\<lparr>ca_TargetModel := s\<rparr>)"
  by (cases c; simp add: opt_str_def upd_candidate_def)+

lemma put_opt_numbers:
  "ok_num n \<Longrightarrow> ca_SelectionGroup c = None \<Longrightarrow>
     fold_res put_candidate (opt_num ''selection_group'' n @ xs) c = fold_res put_candidate xs (c\<lparr>ca_SelectionGroup := n\<rparr>)"
  "ok_num n \<Longrightarrow> ca_TrafficWeight c = None \<Longrightarrow>
     fold_res put_candidate (opt_num ''traffic_weight'' n @ xs) c = fold_res put_candidate xs (c\<lparr>ca_TrafficWeight := n\<rparr>)"
  by (cases c; cases n; simp add: opt_num_def upd_candidate_def ok_num_def)+

lemma put_opt_credential:
  "(case cr of None \<Rightarrow> True | Some x \<Rightarrow> ok_credential x) \<Longrightarrow> ca_Credential c = None \<Longrightarrow>
     fold_res put_candidate (opt_credential cr @ xs) c = fold_res put_candidate xs (c\<lparr>ca_Credential := cr\<rparr>)"
  by (cases c; cases cr)
    (simp_all add: opt_credential_def upd_candidate_def enc_credential_not_null dec_credential_enc)

lemma opt_keys:
  "(k, v) \<in> set (opt_str n s) \<Longrightarrow> k = n"
  "(k, v) \<in> set (opt_num n i) \<Longrightarrow> k = n"
  "(k, v) \<in> set (opt_credential cr) \<Longrightarrow> k = ''credential''"
  by (auto simp: opt_str_def opt_num_def opt_credential_def split: if_splits option.splits)

definition candidate_members :: "Candidate \<Rightarrow> (string \<times> json) list" where
  "candidate_members c =
     [(''cluster'', j_str (ca_Cluster c))] @ opt_str ''stable_id'' (ca_StableID c)
      @ [(''kind'', j_str (ca_Kind c)), (''name'', j_str (ca_Name c)), (''site'', j_str (ca_Site c)),
         (''fresh'', JBool (ca_Fresh c))]
      @ opt_num ''selection_group'' (ca_SelectionGroup c) @ opt_num ''traffic_weight'' (ca_TrafficWeight c)
      @ opt_credential (ca_Credential c) @ opt_str ''api_format'' (ca_APIFormat c) @ opt_str ''path'' (ca_Path c)
      @ opt_str ''target_model'' (ca_TargetModel c)"

lemma enc_candidate_members: "enc_candidate c = j_obj (candidate_members c)"
  by (simp add: enc_candidate_def candidate_members_def opt_credential_def)

lemma candidate_member_keys: "k \<in> set (map fst (candidate_members c)) \<Longrightarrow> k \<in> set candidate_fields \<and> valid_utf8 k"
  unfolding candidate_members_def map_append set_append Un_iff
  by (elim disjE) (auto simp: candidate_fields_def ascii_keys dest!: opt_keys)

lemma dec_candidate_enc:
  assumes "ok_candidate c"
  shows "dec_candidate (enc_candidate c) = Inr c"
proof -
  have "fold_res put_candidate (candidate_members c) zero_candidate = Inr c"
    using assms
    by (simp add: candidate_members_def ok_candidate_def put_opt_members put_opt_numbers put_opt_credential
        zero_candidate_def upd_candidate_def)
  then show ?thesis
    unfolding dec_candidate_def enc_candidate_members
    using candidate_member_keys by (subst dec_fields_j_obj) auto
qed

lemma dec_overlay_enc:
  assumes "ok_overlay ov"
  shows "dec_overlay (enc_overlay ov) zero_overlay = Inr ov"
proof -
  have cands: "dec_list dec_candidate (enc_candidates (ov_Candidates ov)) = Inr (ov_Candidates ov)"
    using assms unfolding enc_candidates_def
    by (intro dec_list_enc dec_candidate_enc) (auto simp: ok_overlay_def list_all_iff)
  show ?thesis
    unfolding dec_overlay_def enc_overlay_def
    using assms cands
    by (subst dec_fields_j_obj)
      (auto simp: ascii_keys upd_overlay_def zero_overlay_def ok_overlay_def ok_policy_def enc_policy_def split: option.splits)
qed

lemma dec_envelope_enc: "ok_envelope e \<Longrightarrow> dec_envelope (enc_envelope e) = Inr e"
  unfolding dec_envelope_def enc_envelope_def ok_envelope_def
  by (subst dec_fields_j_obj)
    (auto simp: ascii_keys upd_envelope_def zero_envelope_def dec_revision_field_enc dec_digest_enc dec_scope_enc
      dec_provenance_enc dec_overlay_enc)

subsection \<open>Encodings are documents\<close>

lemma wf_enc_parts [simp]:
  "wf_json (enc_scope s)" "wf_json (enc_revision_field r)" "wf_json (enc_secret_ref sr)"
  "wf_json (enc_credential c)" "wf_json (enc_provenance p)" "wf_json (enc_digest d)"
  by (simp_all add: enc_scope_def enc_revision_field_def enc_secret_ref_def enc_credential_def enc_provenance_def
      enc_digest_def)

lemma wf_enc_candidate [simp]: "wf_json (enc_candidate c)"
  by (auto simp: enc_candidate_def opt_str_def opt_num_def split: option.splits)

lemma wf_enc_overlay: "ok_policy (ov_SelectionPolicy ov) \<Longrightarrow> wf_json (enc_overlay ov)"
  by (auto simp: enc_overlay_def enc_candidates_def enc_policy_def ok_policy_def split: option.splits)

lemma wf_enc_envelope: "ok_policy (ov_SelectionPolicy (ev_Overlay e)) \<Longrightarrow> wf_json (enc_envelope e)"
  by (simp add: enc_envelope_def wf_enc_overlay)

interpretation wire: json_codec enc_envelope dec_envelope ok_envelope
  by unfold_locales (simp_all add: wf_enc_envelope dec_envelope_enc ok_envelope_def ok_overlay_def)

text \<open>The header of a credential never reaches the wire.\<close>

definition drop_header :: "Candidate \<Rightarrow> Candidate" where
  "drop_header c = c\<lparr>ca_Credential := map_option (\<lambda>cr. cr\<lparr>cr_Header := []\<rparr>) (ca_Credential c)\<rparr>"

definition drop_headers :: "Envelope \<Rightarrow> Envelope" where
  "drop_headers e = e\<lparr>ev_Overlay := (ev_Overlay e)\<lparr>ov_Candidates := map drop_header (ov_Candidates (ev_Overlay e))\<rparr>\<rparr>"

lemma enc_drop_header [simp]: "enc_candidate (drop_header c) = enc_candidate c"
  by (cases "ca_Credential c") (simp_all add: enc_candidate_def drop_header_def enc_credential_def)

lemma envelope_text_drop_headers: "envelope_text (drop_headers e) = envelope_text e"
  by (simp add: envelope_text_def enc_envelope_def drop_headers_def enc_overlay_def enc_candidates_def comp_def)

lemma unmarshal_envelope_text:
  "ok_envelope (drop_headers e) \<Longrightarrow> unmarshal dec_envelope (envelope_text e) = Inr (drop_headers e)"
  using wire.unmarshal_indent [of "drop_headers e"] envelope_text_drop_headers [of e] by (simp add: envelope_text_def)

subsection \<open>The digest from the bytes is the digest of the overlay\<close>

lemma raw_compact_leaves [simp]:
  "raw_compact (j_str s) = j_str s" "raw_compact (j_int i) = j_int i"
  by (simp_all add: j_str_def j_int_def)

lemma raw_compact_j_obj [simp]: "raw_compact (j_obj kvs) = j_obj (map (\<lambda>(k, v). (k, raw_compact v)) kvs)"
  by (simp add: j_obj_def case_prod_beta)

lemma raw_compact_enc_candidate [simp]: "raw_compact (enc_candidate c) = enc_candidate c"
  by (simp add: enc_candidate_def opt_str_def opt_num_def enc_credential_def enc_secret_ref_def split: option.splits)

lemma raw_compact_enc_candidates [simp]: "raw_compact (enc_candidates cs) = enc_candidates cs"
  by (simp add: enc_candidates_def)

lemma dec_raw_map_j_obj:
  "(\<And>k. k \<in> set (map fst kvs) \<Longrightarrow> valid_utf8 k) \<Longrightarrow> dec_raw_map (j_obj kvs) = Inr (rev kvs)"
proof -
  assume "\<And>k. k \<in> set (map fst kvs) \<Longrightarrow> valid_utf8 k"
  then have "map (\<lambda>(k, v). (unquote k, v)) (map (\<lambda>(k, v). (quote_body k, v)) kvs) = kvs"
    by (induction kvs) (auto simp: unquote_quote)
  then show ?thesis by (simp add: dec_raw_map_def j_obj_def)
qed

lemma overlay_members_object:
  "inner \<noteq> JNull \<Longrightarrow> overlay_members doc inner = bind_res (dec_raw_map inner) (\<lambda>kvs. Inr (kvs @ doc))"
  by (cases inner) (simp_all add: overlay_members_def)

lemma ComputeDigestFromWire_text:
  assumes ok: "ok_policy (ov_SelectionPolicy (ev_Overlay e))"
  shows "ComputeDigestFromWire jcs (envelope_text e) =
     (case ComputeDigest jcs (ev_Overlay e) of Inl _ \<Rightarrow> Inl WireCanonicalize | Inr d \<Rightarrow> Inr d)"
proof -
  let ?ov = "ev_Overlay e"
  obtain doc where "dec_raw_map (enc_envelope e) = Inr doc"
    and keys: "map_of doc ''schema_version'' \<noteq> None" "map_of doc ''overlay'' = Some (enc_overlay ?ov)"
      "map_of doc ''selection_policy'' = None"
    unfolding enc_envelope_def by (subst (asm) dec_raw_map_j_obj) (auto simp: ascii_keys)
  then have doc: "unmarshal dec_raw_map (envelope_text e) = Inr doc"
    using parse_marshal_indent [OF wf_enc_envelope [OF ok]] by (simp add: envelope_text_def unmarshal_def)
  have "dec_raw_map (enc_overlay ?ov) = Inr (rev ([(''network'', j_str (ov_Network ?ov)),
      (''local_site'', j_str (ov_LocalSite ?ov)), (''candidates'', enc_candidates (ov_Candidates ?ov))]
      @ enc_policy (ov_SelectionPolicy ?ov)))"
    unfolding enc_overlay_def by (rule dec_raw_map_j_obj) (auto simp: ascii_keys enc_policy_def split: option.splits)
  moreover have "enc_overlay ?ov \<noteq> JNull" by (simp add: enc_overlay_def j_obj_def)
  ultimately obtain m where m: "overlay_members doc (enc_overlay ?ov) = Inr m"
    and members: "map_of m ''candidates'' = Some (enc_candidates (ov_Candidates ?ov))"
      "map_of m ''local_site'' = Some (j_str (ov_LocalSite ?ov))"
      "map_of m ''network'' = Some (j_str (ov_Network ?ov))"
      "map_of m ''selection_policy'' = map_option raw_compact (ov_SelectionPolicy ?ov)"
    using keys(3) by (auto simp: overlay_members_object enc_policy_def split: option.splits)
  have "wire_filtered m = [(''candidates'', enc_candidates (ov_Candidates (ev_Overlay e))),
     (''local_site'', j_str (ov_LocalSite (ev_Overlay e))), (''network'', j_str (ov_Network (ev_Overlay e)))]
     @ enc_policy (ov_SelectionPolicy (ev_Overlay e))"
    using ok members by (auto simp: wire_filtered_def enc_policy_def ok_policy_def split: option.splits)
  then show ?thesis
    using doc keys m by (auto simp: ComputeDigestFromWire_def ComputeDigest_def digest_payload_def split: option.splits)
qed

subsection \<open>UTF-8 strings\<close>

lemma valid_utf8_append:
  "valid_utf8 s \<Longrightarrow> valid_utf8 t \<Longrightarrow> valid_utf8 (s @ t)"
proof (induction s rule: valid_utf8.induct)
  case (1 s)
  show ?case
  proof (cases "s = []")
    case False
    with 1 have len: "utf8_len s \<noteq> 0" and rest: "valid_utf8 (drop (utf8_len s) s)"
      by (auto simp: valid_utf8.simps [of s] split: if_splits)
    then have seq: "is_seq (take (utf8_len s) s)" "utf8_len s \<le> length s" using utf8_len_SomeD [of s] by simp_all
    have "utf8_len (s @ t) = utf8_len s"
      using utf8_len_seq [OF seq(1), of "drop (utf8_len s) s @ t"] seq(2)
      by (simp flip: append_assoc)
    with False len rest 1 seq show ?thesis by (simp add: valid_utf8.simps [of "s @ t"])
  qed (use 1 in simp)
qed

lemma valid_utf8_hex: "set s \<subseteq> set hex_chars \<Longrightarrow> valid_utf8 s"
  by (rule valid_utf8_ascii) (auto simp: list_all_iff hex_chars_def byte_def)

end
