(* ===== verification/ResolverCorrect.thy ===== *)
theory ResolverCorrect
  imports Resolver
begin

text \<open>
  Correctness of the resolver. The loops of \<open>resolve\<close> carry a set of active providers, a counter and
  early returns; the specification below says what each reference resolves to on its own
  (\<open>ref_spec\<close>), when a model resolves at all (\<open>model_resolves\<close>) and the route list that results. The loops
  are shown to compute it, and what routes are admitted, the order of routes, the
  relation of the serving set to the preloaded set and the shape of names and paths follow.
\<close>

subsection \<open>Specification\<close>

definition ref_spec ::
    "k8s_lib \<Rightarrow> bool \<Rightarrow> bool \<Rightarrow> (prov_key \<Rightarrow> ExternalProvider option) \<Rightarrow> ExternalModel \<Rightarrow>
     ExternalProviderRef \<Rightarrow> RefOutcome" where
  "ref_spec lib incl transl provs m ref = resolve_ref lib incl transl provs m [] ref"

fun outcome_route :: "RefOutcome \<Rightarrow> Route list" where
  "outcome_route (RefRouted r) = [r]"
| "outcome_route _ = []"

fun outcome_skip :: "RefOutcome \<Rightarrow> Skip list" where
  "outcome_skip (RefSkipped s) = [s]"
| "outcome_skip _ = []"

fun outcome_ok :: "RefOutcome \<Rightarrow> bool" where
  "outcome_ok (RefUnsupported s e) = False"
| "outcome_ok (RefFailed e) = False"
| "outcome_ok _ = True"

definition active_keys ::
    "k8s_lib \<Rightarrow> bool \<Rightarrow> bool \<Rightarrow> (prov_key \<Rightarrow> ExternalProvider option) \<Rightarrow> ExternalModel \<Rightarrow>
     ExternalProviderRef list \<Rightarrow> prov_key list" where
  "active_keys lib incl transl provs m refs =
     map (ref_key m)
       (filter (\<lambda>ref. ref_weight ref > 0 \<and> outcome_route (ref_spec lib incl transl provs m ref) \<noteq> []) refs)"

definition model_resolves ::
    "k8s_lib \<Rightarrow> bool \<Rightarrow> bool \<Rightarrow> (prov_key \<Rightarrow> ExternalProvider option) \<Rightarrow> ExternalModel \<Rightarrow> bool" where
  "model_resolves lib incl transl provs m \<longleftrightarrow>
     (\<forall>ref \<in> set (ms_ExternalProviderRefs (em_Spec m)). outcome_ok (ref_spec lib incl transl provs m ref))
     \<and> distinct (active_keys lib incl transl provs m (ms_ExternalProviderRefs (em_Spec m)))"

definition model_spec ::
    "k8s_lib \<Rightarrow> bool \<Rightarrow> bool \<Rightarrow> (prov_key \<Rightarrow> ExternalProvider option) \<Rightarrow> ExternalModel \<Rightarrow> ModelRoutes" where
  "model_spec lib incl transl provs m =
     (let os = map (ref_spec lib incl transl provs m) (ms_ExternalProviderRefs (em_Spec m)) in
      \<lparr>mr_ModelRef = model_ref m, mr_Routes = concat (map outcome_route os),
       mr_Skips = concat (map outcome_skip os)\<rparr>)"

definition set_spec ::
    "k8s_lib \<Rightarrow> bool \<Rightarrow> bool \<Rightarrow> (prov_key \<Rightarrow> ExternalProvider option) \<Rightarrow> ExternalModel option list \<Rightarrow>
     ResolvedRouteSet" where
  "set_spec lib incl transl provs ms =
     \<lparr>Models = map (model_spec lib incl transl provs) (List.map_filter id ms)\<rparr>"

subsection \<open>One reference\<close>

lemma resolve_ref_active:
  "resolve_ref lib incl transl provs m active ref =
     (if ref_weight ref > 0 \<and> ref_key m ref \<in> set active \<and> 
         (\<exists>prov. provs (ref_key m ref) = Some prov \<and> pst_Phase (ep_Status prov) = PhaseReady
            \<and> supportedProviderFormat (ps_Provider (ep_Spec prov)) (er_APIFormat ref)
            \<and> \<not> (er_APIFormat ref = ''messages'' \<and> \<not> transl \<and> ps_Provider (ep_Spec prov) = ''anthropic''))
      then RefFailed (MultipleActiveReferences (model_ref m)
             (ep_Namespace (the (provs (ref_key m ref)))) (ep_Name (the (provs (ref_key m ref)))))
      else ref_spec lib incl transl provs m ref)"
  by (auto simp: resolve_ref_def ref_spec_def Let_def split: option.splits)

text \<open>Which references route: the provider is known, Ready and qualified for the API format, the
  reference is active (or disabled references are included), translation is permitted when the
  format needs it, and the transport settings are valid.\<close>

lemma ref_spec_routed_iff:
  "ref_spec lib incl transl provs m ref = RefRouted r \<longleftrightarrow>
     (\<exists>prov t. provs (ref_key m ref) = Some prov \<and> (ref_weight ref > 0 \<or> incl)
        \<and> (er_APIFormat ref = ''messages'' \<longrightarrow> transl \<or> ps_Provider (ep_Spec prov) \<noteq> ''anthropic'')
        \<and> pst_Phase (ep_Status prov) = PhaseReady
        \<and> supportedProviderFormat (ps_Provider (ep_Spec prov)) (er_APIFormat ref)
        \<and> resolveRefTransport lib prov ref = Inr t \<and> r = build_route transl m prov ref t)"
  by (auto simp: resolve_ref_def ref_spec_def Let_def split: option.splits sum.splits if_splits)

lemma resolve_ref_step_eq:
  "resolve_ref_step lib incl transl provs m ref s = Inr s' \<longleftrightarrow>
     (let out = ref_spec lib incl transl provs m ref; keys = active_keys lib incl transl provs m [ref] in
      outcome_ok out \<and> set keys \<inter> set (ml_active s) = {}
      \<and> s' = s\<lparr>ml_mr := (ml_mr s)\<lparr>mr_Routes := mr_Routes (ml_mr s) @ outcome_route out,
                                  mr_Skips := mr_Skips (ml_mr s) @ outcome_skip out\<rparr>,
               ml_active := keys @ ml_active s,
               ml_resolved := ml_resolved s + length (outcome_route out)\<rparr>)"
proof (cases "resolve_ref lib incl transl provs m (ml_active s) ref = ref_spec lib incl transl provs m ref")
  case True
  show ?thesis
  proof (cases "ref_spec lib incl transl provs m ref")
    case (RefRouted r)
    then obtain prov where "provs (ref_key m ref) = Some prov" "pst_Phase (ep_Status prov) = PhaseReady"
      "supportedProviderFormat (ps_Provider (ep_Spec prov)) (er_APIFormat ref)"
      "er_APIFormat ref = ''messages'' \<longrightarrow> transl \<or> ps_Provider (ep_Spec prov) \<noteq> ''anthropic''"
      by (auto simp: ref_spec_routed_iff)
    then have "ref_weight ref > 0 \<Longrightarrow> ref_key m ref \<notin> set (ml_active s)"
      using True RefRouted by (auto simp: resolve_ref_active split: if_splits)
    with True RefRouted show ?thesis
      by (auto simp: resolve_ref_step_def Let_def active_keys_def add_route_def)
  qed (use True in \<open>auto simp: resolve_ref_step_def Let_def active_keys_def add_skip_def\<close>)
next
  case False
  then obtain e where e: "resolve_ref lib incl transl provs m (ml_active s) ref = RefFailed e"
    and busy: "ref_weight ref > 0" "ref_key m ref \<in> set (ml_active s)"
    and prov: "\<exists>prov. provs (ref_key m ref) = Some prov \<and> pst_Phase (ep_Status prov) = PhaseReady
            \<and> supportedProviderFormat (ps_Provider (ep_Spec prov)) (er_APIFormat ref)
            \<and> \<not> (er_APIFormat ref = ''messages'' \<and> \<not> transl \<and> ps_Provider (ep_Spec prov) = ''anthropic'')"
    by (auto simp: resolve_ref_active split: if_splits)
  from busy prov have "outcome_ok (ref_spec lib incl transl provs m ref) \<Longrightarrow>
      outcome_route (ref_spec lib incl transl provs m ref) \<noteq> []"
    by (auto simp: ref_spec_def resolve_ref_def Let_def split: sum.splits)
  with e busy show ?thesis
    by (auto simp: resolve_ref_step_def Let_def active_keys_def)
qed

subsection \<open>One model\<close>

lemma resolve_refs_eq:
  "fold_res (resolve_ref_step lib incl transl provs m) refs s = Inr s' \<longleftrightarrow>
     (let os = map (ref_spec lib incl transl provs m) refs; keys = active_keys lib incl transl provs m refs in
      (\<forall>out \<in> set os. outcome_ok out) \<and> distinct keys \<and> set keys \<inter> set (ml_active s) = {}
      \<and> s' = s\<lparr>ml_mr := (ml_mr s)\<lparr>mr_Routes := mr_Routes (ml_mr s) @ concat (map outcome_route os),
                                  mr_Skips := mr_Skips (ml_mr s) @ concat (map outcome_skip os)\<rparr>,
               ml_active := rev keys @ ml_active s,
               ml_resolved := ml_resolved s + length (concat (map outcome_route os))\<rparr>)"
proof (induction refs arbitrary: s)
  case Nil
  then show ?case by (auto simp: active_keys_def Let_def)
next
  case (Cons ref refs)
  have keys: "active_keys lib incl transl provs m (ref # refs) =
      active_keys lib incl transl provs m [ref] @ active_keys lib incl transl provs m refs"
    by (simp add: active_keys_def)
  have single: "distinct (active_keys lib incl transl provs m [ref])"
      "rev (active_keys lib incl transl provs m [ref]) = active_keys lib incl transl provs m [ref]"
    by (simp_all add: active_keys_def)
  have step: "fold_res (resolve_ref_step lib incl transl provs m) (ref # refs) s = Inr s' \<longleftrightarrow>
      (\<exists>t. resolve_ref_step lib incl transl provs m ref s = Inr t
         \<and> fold_res (resolve_ref_step lib incl transl provs m) refs t = Inr s')"
    by (auto split: sum.splits)
  show ?case
    unfolding step Cons.IH resolve_ref_step_eq Let_def keys
    using single by (auto simp: algebra_simps)
qed

lemma resolve_model_eq:
  "resolve_model lib incl transl provs m n = Inr s \<longleftrightarrow>
     model_resolves lib incl transl provs m
     \<and> s = \<lparr>ml_mr = model_spec lib incl transl provs m,
            ml_active = rev (active_keys lib incl transl provs m (ms_ExternalProviderRefs (em_Spec m))),
            ml_resolved = n + length (mr_Routes (model_spec lib incl transl provs m))\<rparr>"
  by (auto simp: resolve_model_def resolve_refs_eq model_resolves_def model_spec_def Let_def)

subsection \<open>All models\<close>

lemma resolve_model_not_ErrNoRoutes:
  "resolve_model lib incl transl provs m n = Inl ret \<Longrightarrow>
     ret \<noteq> ReturnNil ErrNoRoutes \<and> (\<forall>mr. ret \<noteq> ReturnSet mr ErrNoRoutes)"
proof -
  have "fold_res (resolve_ref_step lib incl transl provs m) refs s = Inl ret \<Longrightarrow>
     ret \<noteq> ReturnNil ErrNoRoutes \<and> (\<forall>mr. ret \<noteq> ReturnSet mr ErrNoRoutes)" for refs s
  proof (induction refs arbitrary: s)
    case (Cons ref refs)
    then show ?case
      by (auto simp: resolve_ref_step_def resolve_ref_def Let_def
          split: sum.splits RefOutcome.splits option.splits if_splits)
  qed simp
  then show "resolve_model lib incl transl provs m n = Inl ret \<Longrightarrow> ?thesis"
    by (simp add: resolve_model_def)
qed

lemma set_spec_simps [simp]:
  "set_spec lib incl transl provs [] = \<lparr>Models = []\<rparr>"
  "set_spec lib incl transl provs (None # ms) = set_spec lib incl transl provs ms"
  "Models (set_spec lib incl transl provs (Some m # ms)) =
     model_spec lib incl transl provs m # Models (set_spec lib incl transl provs ms)"
  by (simp_all add: set_spec_def List.map_filter_simps)

lemma resolve_models_eq:
  "resolve_models lib incl transl provs ms before n = (Some rs, err) \<and> err \<in> {None, Some ErrNoRoutes} \<longleftrightarrow>
     (\<forall>m \<in> set (List.map_filter id ms). model_resolves lib incl transl provs m)
     \<and> Models rs = before @ Models (set_spec lib incl transl provs ms)
     \<and> err = (if n + length (Routes (set_spec lib incl transl provs ms)) = 0 then Some ErrNoRoutes else None)"
proof (induction ms arbitrary: before n)
  case Nil
  then show ?case by (cases rs) (auto simp: Routes_def List.map_filter_simps)
next
  case (Cons mo ms)
  show ?case
  proof (cases mo)
    case None
    then show ?thesis using Cons.IH by (simp add: List.map_filter_simps)
  next
    case (Some m)
    show ?thesis
    proof (cases "resolve_model lib incl transl provs m n")
      case (Inl ret)
      then have "\<not> model_resolves lib incl transl provs m"
        using resolve_model_eq [of lib incl transl provs m n] by auto
      with Some Inl show ?thesis
        using resolve_model_not_ErrNoRoutes [OF Inl]
        by (auto simp: List.map_filter_simps split: EarlyReturn.splits)
    next
      case (Inr s)
      then have "model_resolves lib incl transl provs m"
        and s: "ml_mr s = model_spec lib incl transl provs m"
          "ml_resolved s = n + length (mr_Routes (model_spec lib incl transl provs m))"
        by (auto simp: resolve_model_eq)
      with Some Inr show ?thesis
        using Cons.IH [of "before @ [ml_mr s]" "ml_resolved s"]
        by (simp add: List.map_filter_simps Routes_def add.assoc)
    qed
  qed
qed

lemma resolve_eq:
  "resolve lib ms ps incl transl = (Some rs, err) \<and> err \<in> {None, Some ErrNoRoutes} \<longleftrightarrow>
     (\<forall>m \<in> set (List.map_filter id ms). model_resolves lib incl transl (byKey ps) m)
     \<and> rs = set_spec lib incl transl (byKey ps) ms
     \<and> err = (if Routes rs = [] then Some ErrNoRoutes else None)"
  using resolve_models_eq [of lib incl transl "byKey ps" ms "[]" 0 rs err]
  by (cases rs; cases "set_spec lib incl transl (byKey ps) ms") (auto simp: resolve_def)

lemma resolve_ok:
  assumes "resolve lib ms ps incl transl = (Some rs, None)"
  shows "\<forall>m \<in> set (List.map_filter id ms). model_resolves lib incl transl (byKey ps) m"
    and "rs = set_spec lib incl transl (byKey ps) ms" and "Routes rs \<noteq> []"
  using resolve_eq [of lib ms ps incl transl rs None] assms by (auto split: if_splits)

subsection \<open>Providers, ports and paths\<close>

lemma byKey_Some:
  assumes "byKey ps key = Some prov"
  shows "Some prov \<in> set ps \<and> (ep_Namespace prov, ep_Name prov) = key"
proof -
  have "fold (\<lambda>p acc. case p of None \<Rightarrow> acc
           | Some prov \<Rightarrow> if (ep_Namespace prov, ep_Name prov) = key then Some prov else acc) ps acc = Some prov
        \<Longrightarrow> acc = Some prov \<or> Some prov \<in> set ps \<and> (ep_Namespace prov, ep_Name prov) = key" for acc
    by (induction ps arbitrary: acc) (fastforce split: option.splits if_splits)+
  from this [of None] assms show ?thesis by (simp add: byKey_def)
qed

lemma ProviderPort_range: "ProviderPort p = Inr port \<Longrightarrow> 1 \<le> port \<and> port \<le> 65535"
  by (auto simp: ProviderPort_def defaultProviderPort_def split: option.splits if_splits)

lemma placeholders_none: "CHR ''{'' \<notin> set s \<Longrightarrow> placeholders s = []"
proof (induction s)
  case Nil
  then show ?case by (simp add: placeholders.simps)
next
  case (Cons c cs)
  then show ?case by (auto simp: placeholders.simps [of "c # cs"] Let_def)
qed

lemma resolvePath_no_placeholders: "resolvePath t tm cfg = Inr p \<Longrightarrow> placeholders p = []"
  by (auto simp: resolvePath_def Let_def placeholders_none contains_byte_iff split: if_splits)

lemma resolveRefTransportE:
  assumes "resolveRefTransport lib prov ref = Inr t"
  obtains cfg where "cfg = mergeConfig (ps_Config (ep_Spec prov)) (er_Config ref)"
    and "\<not> trust_override prov ref ''tls.caCertificates''" and "\<not> trust_override prov ref ''tls.credentialName''"
    and "ValidateProviderTrust lib cfg = None"
    and "resolvePath (er_Path ref) (er_TargetModel ref) cfg = Inr (rt_path t)"
    and "length (er_TargetModel ref) \<le> 256" and "has_prefix (rt_path t) ''/''" and "length (rt_path t) \<le> 2048"
    and "\<not> contains_any (rt_path t) [CHR ''?'', CHR ''#'', CHR 0x0D, CHR 0x0A, CHR 0x00]"
    and "ProviderPort (Some prov) = Inr (rt_port t)"
    and "rt_caCertificates t = trim_space (sm_get cfg ''tls.caCertificates'')"
    and "rt_credentialName t = trim_space (sm_get cfg ''tls.credentialName'')"
  using assms unfolding resolveRefTransport_def Let_def
  by (simp add: res_simps not_less split: option.splits if_splits) (fastforce split: if_splits)

lemma trust_not_overridden:
  "\<not> trust_override prov ref key \<Longrightarrow>
     trim_space (sm_get (mergeConfig (ps_Config (ep_Spec prov)) (er_Config ref)) key)
       = trim_space (sm_get (ps_Config (ep_Spec prov)) key)"
  by (auto simp: mergeConfig_def sm_get_append trust_override_def sm_has_def sm_get_def split: option.splits)

lemma ValidateProviderTrust_exclusive:
  "ValidateProviderTrust lib cfg = None \<Longrightarrow>
     trim_space (sm_get cfg ''tls.caCertificates'') = [] \<or> trim_space (sm_get cfg ''tls.credentialName'') = []"
  by (auto simp: ValidateProviderTrust_def Let_def split: if_splits)

lemma resolveRefTransport_ok:
  assumes "resolveRefTransport lib prov ref = Inr t"
  shows "placeholders (rt_path t) = []" and "has_prefix (rt_path t) ''/''" and "length (rt_path t) \<le> 2048"
    and "1 \<le> rt_port t \<and> rt_port t \<le> 65535" and "length (er_TargetModel ref) \<le> 256"
    and "rt_caCertificates t = [] \<or> rt_credentialName t = []"
    and "rt_caCertificates t = trim_space (sm_get (ps_Config (ep_Spec prov)) ''tls.caCertificates'')"
    and "rt_credentialName t = trim_space (sm_get (ps_Config (ep_Spec prov)) ''tls.credentialName'')"
proof -
  from assms obtain cfg where cfg: "cfg = mergeConfig (ps_Config (ep_Spec prov)) (er_Config ref)"
    and keep: "\<not> trust_override prov ref ''tls.caCertificates''" "\<not> trust_override prov ref ''tls.credentialName''"
    and trust: "ValidateProviderTrust lib cfg = None"
    and path: "resolvePath (er_Path ref) (er_TargetModel ref) cfg = Inr (rt_path t)"
    and bounds: "length (er_TargetModel ref) \<le> 256" "has_prefix (rt_path t) ''/''" "length (rt_path t) \<le> 2048"
    and port: "ProviderPort (Some prov) = Inr (rt_port t)"
    and tls: "rt_caCertificates t = trim_space (sm_get cfg ''tls.caCertificates'')"
      "rt_credentialName t = trim_space (sm_get cfg ''tls.credentialName'')"
    by (rule resolveRefTransportE)
  show "placeholders (rt_path t) = []" using path by (rule resolvePath_no_placeholders)
  show "1 \<le> rt_port t \<and> rt_port t \<le> 65535" using port by (rule ProviderPort_range)
  show "has_prefix (rt_path t) ''/''" "length (rt_path t) \<le> 2048" "length (er_TargetModel ref) \<le> 256"
    using bounds by auto
  show "rt_caCertificates t = [] \<or> rt_credentialName t = []"
    unfolding tls using trust by (rule ValidateProviderTrust_exclusive)
  show "rt_caCertificates t = trim_space (sm_get (ps_Config (ep_Spec prov)) ''tls.caCertificates'')"
    "rt_credentialName t = trim_space (sm_get (ps_Config (ep_Spec prov)) ''tls.credentialName'')"
    unfolding tls cfg using keep by (auto intro: trust_not_overridden)
qed

subsection \<open>Serving set and preloaded set\<close>

lemma ref_spec_disabled: "ref_weight ref \<le> 0 \<Longrightarrow> \<exists>s. ref_spec lib False transl provs m ref = RefSkipped s"
  by (simp add: ref_spec_def resolve_ref_def Let_def)

lemma ref_spec_enabled: "ref_weight ref > 0 \<Longrightarrow> ref_spec lib incl transl provs m ref = ref_spec lib True transl provs m ref"
  by (simp add: ref_spec_def resolve_ref_def Let_def)

lemma build_route_simps [simp]:
  "Weight (build_route transl m prov ref t) = ref_weight ref"
  "Model (build_route transl m prov ref t) = em_Name m"
  "Namespace (build_route transl m prov ref t) = em_Namespace m"
  "ClientName (build_route transl m prov ref t) = client_name m"
  "Provider (build_route transl m prov ref t) = ep_Name prov"
  "ProviderNamespace (build_route transl m prov ref t) = ep_Namespace prov"
  "ProviderType (build_route transl m prov ref t) = ps_Provider (ep_Spec prov)"
  "Port (build_route transl m prov ref t) = rt_port t"
  "Path (build_route transl m prov ref t) = rt_path t"
  "TLSCACertificates (build_route transl m prov ref t) = rt_caCertificates t"
  "TLSCredentialName (build_route transl m prov ref t) = rt_credentialName t"
  "TargetModel (build_route transl m prov ref t) = er_TargetModel ref"
  "APIFormat (build_route transl m prov ref t) = er_APIFormat ref"
  "StableID (build_route transl m prov ref t) = []"
  "APITranslationEnabled (build_route transl m prov ref t) = transl"
  by (simp_all add: build_route_def Let_def)

lemma ref_route_weight:
  "r \<in> set (outcome_route (ref_spec lib incl transl provs m ref)) \<Longrightarrow> Weight r = ref_weight ref"
  by (cases "ref_spec lib incl transl provs m ref") (auto simp: ref_spec_routed_iff)

lemma serving_outcome_route:
  "outcome_route (ref_spec lib False transl provs m ref) =
     filter (\<lambda>r. Weight r > 0) (outcome_route (ref_spec lib True transl provs m ref))"
proof (cases "ref_weight ref > 0")
  case True
  then show ?thesis
    using ref_spec_enabled [of ref lib False transl provs m] ref_route_weight [of _ lib True transl provs m ref]
    by (auto intro!: filter_True [symmetric])
next
  case False
  then show ?thesis
    using ref_spec_disabled [of ref lib transl provs m] ref_route_weight [of _ lib True transl provs m ref]
    by (auto intro!: filter_False [symmetric])
qed

lemma serving_model_routes:
  "mr_Routes (model_spec lib False transl provs m) =
     filter (\<lambda>r. Weight r > 0) (mr_Routes (model_spec lib True transl provs m))"
  by (simp add: model_spec_def Let_def filter_concat serving_outcome_route comp_def)

lemma serving_routes:
  "Routes (set_spec lib False transl provs ms) = filter (\<lambda>r. Weight r > 0) (Routes (set_spec lib True transl provs ms))"
  by (simp add: Routes_def set_spec_def filter_concat serving_model_routes comp_def)

lemma serving_model_resolves:
  assumes "model_resolves lib True transl provs m"
  shows "model_resolves lib False transl provs m"
proof -
  have "outcome_ok (ref_spec lib True transl provs m ref) \<Longrightarrow> outcome_ok (ref_spec lib False transl provs m ref)" for ref
    using ref_spec_disabled [of ref lib transl provs m] ref_spec_enabled [of ref lib False transl provs m]
    by (cases "ref_weight ref > 0") auto
  moreover have "active_keys lib False transl provs m refs = active_keys lib True transl provs m refs" for refs
    using ref_spec_enabled [of _ lib False transl provs m]
    by (auto simp: active_keys_def intro!: arg_cong [where f = "map (ref_key m)"] filter_cong)
  ultimately show ?thesis using assms by (auto simp: model_resolves_def)
qed

subsection \<open>Admitted routes\<close>

text \<open>What every resolved route satisfies with respect to the inputs of \<open>resolve\<close>.\<close>

definition route_admitted ::
    "bool \<Rightarrow> bool \<Rightarrow> ExternalModel option list \<Rightarrow> ExternalProvider option list \<Rightarrow> Route \<Rightarrow> bool" where
  "route_admitted incl transl ms ps r \<longleftrightarrow>
     (\<exists>m prov. Some m \<in> set ms \<and> Some prov \<in> set ps
        \<and> (Model r, Namespace r) = (em_Name m, em_Namespace m)
        \<and> (Provider r, ProviderNamespace r) = (ep_Name prov, ep_Namespace prov)
        \<and> pst_Phase (ep_Status prov) = PhaseReady
        \<and> supportedProviderFormat (ps_Provider (ep_Spec prov)) (APIFormat r)
        \<and> TLSCACertificates r = trim_space (sm_get (ps_Config (ep_Spec prov)) ''tls.caCertificates'')
        \<and> TLSCredentialName r = trim_space (sm_get (ps_Config (ep_Spec prov)) ''tls.credentialName'')
        \<and> ClientName r = client_name m)
     \<and> (Weight r > 0 \<or> incl) \<and> (APIFormat r = ''messages'' \<longrightarrow> transl)
     \<and> 1 \<le> Port r \<and> Port r \<le> 65535
     \<and> has_prefix (Path r) ''/'' \<and> length (Path r) \<le> 2048 \<and> placeholders (Path r) = []
     \<and> (TLSCACertificates r = [] \<or> TLSCredentialName r = [])
     \<and> Cluster r = ServiceName r \<and> StableID r = []"

lemma build_route_Cluster [simp]:
  "Cluster (build_route transl m prov ref t) = ServiceName (build_route transl m prov ref t)"
  by (simp add: build_route_def Let_def ServiceName_def CrossNamespace_def)

lemma supported_messages: "supportedProviderFormat p ''messages'' \<Longrightarrow> p = ''anthropic''"
  by (auto simp: supportedProviderFormat_def split: if_splits)

lemma map_filter_id_set: "m \<in> set (List.map_filter id ms) \<longleftrightarrow> Some m \<in> set ms"
  by (induction ms) (auto simp: List.map_filter_simps split: option.splits)

lemma Routes_set_spec:
  "r \<in> set (Routes (set_spec lib incl transl provs ms)) \<longleftrightarrow>
     (\<exists>m ref. Some m \<in> set ms \<and> ref \<in> set (ms_ExternalProviderRefs (em_Spec m))
        \<and> ref_spec lib incl transl provs m ref = RefRouted r)"
proof -
  have out: "r \<in> set (outcome_route x) \<longleftrightarrow> x = RefRouted r" for x by (cases x) auto
  show ?thesis
    by (auto simp: Routes_def set_spec_def model_spec_def Let_def map_filter_id_set out)
qed

lemma set_spec_admitted:
  assumes "r \<in> set (Routes (set_spec lib incl transl (byKey ps) ms))"
  shows "route_admitted incl transl ms ps r"
proof -
  from assms obtain m ref where m: "Some m \<in> set ms"
    and "ref_spec lib incl transl (byKey ps) m ref = RefRouted r"
    by (auto simp: Routes_set_spec)
  then obtain prov t where prov: "byKey ps (ref_key m ref) = Some prov"
    and t: "resolveRefTransport lib prov ref = Inr t" and r: "r = build_route transl m prov ref t"
    and gates: "ref_weight ref > 0 \<or> incl" "pst_Phase (ep_Status prov) = PhaseReady"
      "er_APIFormat ref = ''messages'' \<longrightarrow> transl \<or> ps_Provider (ep_Spec prov) \<noteq> ''anthropic''"
      "supportedProviderFormat (ps_Provider (ep_Spec prov)) (er_APIFormat ref)"
    by (auto simp: ref_spec_routed_iff)
  have "er_APIFormat ref = ''messages'' \<Longrightarrow> transl"
    using gates supported_messages [of "ps_Provider (ep_Spec prov)"] by auto
  with m gates byKey_Some [OF prov] resolveRefTransport_ok [OF t] show ?thesis
    unfolding route_admitted_def r by auto
qed

lemma set_spec_active_distinct:
  assumes "model_resolves lib incl transl (byKey ps) m"
  shows "distinct (map (\<lambda>r. (ProviderNamespace r, Provider r))
           (filter (\<lambda>r. Weight r > 0) (mr_Routes (model_spec lib incl transl (byKey ps) m))))"
proof -
  have "map (\<lambda>r. (ProviderNamespace r, Provider r))
           (filter (\<lambda>r. Weight r > 0) (concat (map outcome_route (map (ref_spec lib incl transl (byKey ps) m) refs))))
        = active_keys lib incl transl (byKey ps) m refs" for refs
  proof (induction refs)
    case (Cons ref refs)
    have "(ProviderNamespace r, Provider r) = ref_key m ref \<and> Weight r = ref_weight ref"
      if "ref_spec lib incl transl (byKey ps) m ref = RefRouted r" for r
      using that by (auto simp: ref_spec_routed_iff dest!: byKey_Some)
    with Cons show ?case
      by (cases "ref_spec lib incl transl (byKey ps) m ref") (auto simp: active_keys_def)
  qed (simp add: active_keys_def)
  with assms show ?thesis by (simp add: model_resolves_def model_spec_def)
qed

lemma model_spec_accounts:
  assumes "model_resolves lib incl transl provs m"
  shows "length (mr_Routes (model_spec lib incl transl provs m)) + length (mr_Skips (model_spec lib incl transl provs m))
         = length (ms_ExternalProviderRefs (em_Spec m))"
proof -
  have one: "outcome_ok x \<Longrightarrow> length (outcome_route x) + length (outcome_skip x) = 1" for x by (cases x) auto
  have "\<forall>x \<in> set xs. outcome_ok x \<Longrightarrow>
      length (concat (map outcome_route xs)) + length (concat (map outcome_skip xs)) = length xs" for xs
    by (induction xs) (use one in fastforce)+
  from this [of "map (ref_spec lib incl transl provs m) (ms_ExternalProviderRefs (em_Spec m))"] assms
  show ?thesis by (simp add: model_resolves_def model_spec_def Let_def del: length_concat)
qed

subsection \<open>Path templates as simultaneous substitution\<close>

text \<open>A template without nested braces is a sequence of literal and placeholder segments.\<close>

datatype segment = Lit string | Hole string

fun seg_text :: "segment \<Rightarrow> string" where
  "seg_text (Lit s) = s"
| "seg_text (Hole k) = brace k"

definition tmpl_text :: "segment list \<Rightarrow> string" where
  "tmpl_text segs = concat (map seg_text segs)"

definition brace_free :: "string \<Rightarrow> bool" where
  "brace_free s \<longleftrightarrow> CHR ''{'' \<notin> set s \<and> CHR ''}'' \<notin> set s"

fun seg_flat :: "segment \<Rightarrow> bool" where
  "seg_flat (Lit s) = brace_free s"
| "seg_flat (Hole k) = brace_free k"

fun fill :: "string \<Rightarrow> string \<Rightarrow> segment \<Rightarrow> segment" where
  "fill k v (Lit s) = Lit s"
| "fill k v (Hole h) = (if h = k then Lit v else Hole h)"

fun subst_seg :: "string \<Rightarrow> str_map \<Rightarrow> segment \<Rightarrow> string" where
  "subst_seg targetModel cfg (Lit s) = s"
| "subst_seg targetModel cfg (Hole k) =
     (if sm_has cfg k then sm_get cfg k else if k = ''model'' then targetModel else brace k)"

lemma replace_all_Nil [simp]: "replace_all [] old new = []"
  by (simp add: replace_all.simps)

lemma replace_all_literal:
  "brace_free s \<Longrightarrow> replace_all (s @ t) (brace k) v = s @ replace_all t (brace k) v"
proof (induction s)
  case (Cons c cs)
  then have "\<not> has_prefix (c # cs @ t) (brace k)"
    by (auto simp: has_prefix_iff brace_def brace_free_def)
  with Cons show ?case
    by (simp add: replace_all.simps [of "c # cs @ t"] brace_def brace_free_def)
qed simp

lemma replace_all_hole_eq: "replace_all (brace k @ t) (brace k) v = v @ replace_all t (brace k) v"
  by (simp add: replace_all.simps [of "brace k @ t"]) (simp add: brace_def)

lemma brace_prefix: "brace_free h \<Longrightarrow> brace_free k \<Longrightarrow> has_prefix (brace h @ t) (brace k) \<Longrightarrow> h = k"
proof -
  assume free: "brace_free h" "brace_free k" and "has_prefix (brace h @ t) (brace k)"
  then obtain u where eq: "h @ CHR ''}'' # t = k @ CHR ''}'' # u"
    by (auto simp: has_prefix_iff brace_def)
  have take: "takeWhile (\<lambda>c. c \<noteq> CHR ''}'') (x @ CHR ''}'' # y) = x" if "brace_free x" for x y
    using that by (induction x) (auto simp: brace_free_def)
  from arg_cong [where f = "takeWhile (\<lambda>c. c \<noteq> CHR ''}'')", OF eq] show "h = k"
    using take free by metis
qed

lemma replace_all_hole_neq:
  assumes "brace_free h" "brace_free k" "h \<noteq> k"
  shows "replace_all (brace h @ t) (brace k) v = brace h @ replace_all t (brace k) v"
proof -
  have "\<not> has_prefix (brace h @ t) (brace k)" using assms brace_prefix by blast
  then have "replace_all (brace h @ t) (brace k) v = CHR ''{'' # replace_all ((h @ ''}'') @ t) (brace k) v"
    by (simp add: replace_all.simps [of "brace h @ t"]) (simp add: brace_def)
  also have "replace_all ((h @ ''}'') @ t) (brace k) v = h @ replace_all (CHR ''}'' # t) (brace k) v"
    using replace_all_literal [of h "CHR ''}'' # t"] assms by simp
  also have "replace_all (CHR ''}'' # t) (brace k) v = CHR ''}'' # replace_all t (brace k) v"
    by (simp add: replace_all.simps [of "CHR ''}'' # t"] has_prefix_iff brace_def)
  finally show ?thesis by (simp add: brace_def)
qed

lemma replace_all_fill:
  "list_all seg_flat segs \<Longrightarrow> brace_free k \<Longrightarrow>
     replace_all (tmpl_text segs) (brace k) v = tmpl_text (map (fill k v) segs)"
proof (induction segs)
  case (Cons seg segs)
  then show ?case
    by (cases seg) (simp_all add: tmpl_text_def replace_all_literal replace_all_hole_eq replace_all_hole_neq)
qed (simp add: tmpl_text_def)

lemma fill_flat: "seg_flat seg \<Longrightarrow> brace_free v \<Longrightarrow> seg_flat (fill k v seg)"
  by (cases seg) auto

fun fill_all :: "string list \<Rightarrow> str_map \<Rightarrow> segment \<Rightarrow> segment" where
  "fill_all ks cfg (Lit s) = Lit s"
| "fill_all ks cfg (Hole k) = (if k \<in> set ks then Lit (sm_get cfg k) else Hole k)"

lemma fill_all_Nil [simp]: "fill_all [] cfg = id"
proof
  show "fill_all [] cfg seg = id seg" for seg by (cases seg) auto
qed

lemma fold_fill:
  assumes "list_all seg_flat segs" "\<And>k. k \<in> set ks \<Longrightarrow> brace_free k \<and> brace_free (sm_get cfg k)"
  shows "fold (\<lambda>k path. replace_all path (brace k) (sm_get cfg k)) ks (tmpl_text segs)
         = tmpl_text (map (fill_all ks cfg) segs)"
  using assms
proof (induction ks arbitrary: segs)
  case (Cons k ks)
  have "list_all seg_flat (map (fill k (sm_get cfg k)) segs)"
    using Cons.prems by (auto simp: list_all_iff fill_flat)
  moreover have "map (fill_all ks cfg) (map (fill k (sm_get cfg k)) segs) = map (fill_all (k # ks) cfg) segs"
  proof -
    have "fill_all ks cfg (fill k (sm_get cfg k) seg) = fill_all (k # ks) cfg seg" for seg by (cases seg) auto
    then show ?thesis by simp
  qed
  ultimately have "fold (\<lambda>k path. replace_all path (brace k) (sm_get cfg k)) ks
      (tmpl_text (map (fill k (sm_get cfg k)) segs)) = tmpl_text (map (fill_all (k # ks) cfg) segs)"
    using Cons.IH [of "map (fill k (sm_get cfg k)) segs"] Cons.prems(2) by (simp del: map_map)
  with Cons.prems show ?case by (simp add: replace_all_fill)
qed simp

fun seg_holes :: "segment \<Rightarrow> string list" where
  "seg_holes (Lit s) = []"
| "seg_holes (Hole k) = (if k = [] then [] else [k])"

lemma placeholders_literal: "brace_free s \<Longrightarrow> placeholders (s @ t) = placeholders t"
proof (induction s)
  case (Cons c cs)
  then show ?case by (auto simp: placeholders.simps [of "c # cs @ t"] brace_free_def Let_def)
qed simp

lemma placeholders_hole: "brace_free k \<Longrightarrow> placeholders (brace k @ t) = seg_holes (Hole k) @ placeholders t"
proof -
  assume free: "brace_free k"
  have "takeWhile (\<lambda>c. c \<noteq> CHR ''}'') (k @ CHR ''}'' # t) = k"
    "dropWhile (\<lambda>c. c \<noteq> CHR ''}'') (k @ CHR ''}'' # t) = CHR ''}'' # t"
    using free by (induction k) (auto simp: brace_free_def)
  moreover have "placeholders (CHR ''}'' # t) = placeholders t"
    by (simp add: placeholders.simps [of "CHR ''}'' # t"] Let_def)
  ultimately show ?thesis
    by (simp add: brace_def placeholders.simps [of "CHR ''{'' # k @ CHR ''}'' # t"] Let_def)
qed

lemma placeholders_flat: "list_all seg_flat segs \<Longrightarrow> placeholders (tmpl_text segs) = concat (map seg_holes segs)"
proof (induction segs)
  case Nil
  then show ?case by (simp add: tmpl_text_def placeholders.simps)
next
  case (Cons seg segs)
  then show ?case
    by (cases seg) (simp_all add: tmpl_text_def placeholders_literal placeholders_hole)
qed

definition unbound_holes :: "str_map \<Rightarrow> segment list \<Rightarrow> string list" where
  "unbound_holes cfg segs =
     filter (\<lambda>k. \<not> sm_has cfg k \<and> k \<noteq> ''model'') (concat (map seg_holes segs))"

definition config_plain :: "str_map \<Rightarrow> bool" where
  "config_plain cfg \<longleftrightarrow> list_all (\<lambda>(k, v). brace_free k \<and> brace_free v) cfg"

lemma config_plain_get: "config_plain cfg \<Longrightarrow> sm_has cfg k \<Longrightarrow> brace_free k \<and> brace_free (sm_get cfg k)"
  by (fastforce simp: config_plain_def list_all_iff sm_has_def sm_get_def dest: map_of_SomeD)

lemma set_sm_sorted_keys_has: "k \<in> set (sm_sorted_keys cfg) \<longleftrightarrow> sm_has cfg k"
  by (auto simp: sm_has_def)

lemma no_brace_template:
  "CHR ''{'' \<notin> set (tmpl_text segs) \<Longrightarrow>
     unbound_holes cfg segs = [] \<and> concat (map (subst_seg tm cfg) segs) = tmpl_text segs"
proof (induction segs)
  case (Cons seg segs)
  then show ?case by (cases seg) (simp_all add: tmpl_text_def unbound_holes_def brace_def)
qed (simp add: tmpl_text_def unbound_holes_def)

definition filled :: "string \<Rightarrow> str_map \<Rightarrow> segment \<Rightarrow> segment" where
  "filled tm cfg seg = fill ''model'' tm (fill_all (sm_sorted_keys cfg) cfg seg)"

lemma filled_seg:
  assumes "config_plain cfg" "brace_free tm" "seg_flat seg"
  shows "seg_flat (filled tm cfg seg)" "seg_flat (fill_all (sm_sorted_keys cfg) cfg seg)"
    "seg_text (filled tm cfg seg) = subst_seg tm cfg seg" "seg_holes (filled tm cfg seg) = unbound_holes cfg [seg]"
  using assms by (cases seg; auto simp: filled_def unbound_holes_def set_sm_sorted_keys_has config_plain_get
        simp del: set_sm_sorted_keys)+

lemma filled_segs:
  assumes "config_plain cfg" "brace_free tm" "list_all seg_flat segs"
  shows "list_all seg_flat (map (filled tm cfg) segs)"
    "list_all seg_flat (map (fill_all (sm_sorted_keys cfg) cfg) segs)"
    "tmpl_text (map (filled tm cfg) segs) = concat (map (subst_seg tm cfg) segs)"
    "concat (map seg_holes (map (filled tm cfg) segs)) = unbound_holes cfg segs"
  using assms(3)
  by (induction segs; auto simp: tmpl_text_def filled_seg [OF assms(1,2)]; simp add: unbound_holes_def)+

lemma resolvePath_substitutes:
  assumes flat: "list_all seg_flat segs" and cfg: "config_plain cfg" and tm: "brace_free tm"
  shows "resolvePath (tmpl_text segs) tm cfg =
     (if unbound_holes cfg segs = [] then Inr (concat (map (subst_seg tm cfg) segs))
      else Inl (PathUnresolved (tmpl_text segs) (unbound_holes cfg segs)))"
proof -
  note filled = filled_segs [OF cfg tm flat]
  have "fold (\<lambda>k path. replace_all path (brace k) (sm_get cfg k)) (sm_sorted_keys cfg) (tmpl_text segs)
      = tmpl_text (map (fill_all (sm_sorted_keys cfg) cfg) segs)"
    using flat cfg by (intro fold_fill) (simp_all add: set_sm_sorted_keys_has config_plain_get del: set_sm_sorted_keys)
  moreover have "replace_all (tmpl_text (map (fill_all (sm_sorted_keys cfg) cfg) segs)) (brace ''model'') tm
      = tmpl_text (map (filled tm cfg) segs)"
    using replace_all_fill [OF filled(2), of "''model''" tm] by (simp add: brace_free_def filled_def [abs_def] comp_def)
  moreover have "placeholders (tmpl_text (map (filled tm cfg) segs)) = unbound_holes cfg segs"
    using placeholders_flat [OF filled(1)] filled(4) by simp
  ultimately show ?thesis
    using filled(3) no_brace_template [of segs cfg tm]
    by (auto simp: resolvePath_def Let_def contains_byte_iff)
qed

subsection \<open>A concrete tenant\<close>

text \<open>Two providers in the model's namespace: one active, one disabled by weight 0. The library functions are
  instantiated by a linear search and a validation that accepts every name.\<close>

definition sample_lib :: k8s_lib where
  "sample_lib = \<lparr>FindStatusCondition = (\<lambda>cs t. List.find (\<lambda>c. co_Type c = t) cs),
     IsDNS1123Subdomain = (\<lambda>s. []), IsDNS1123Label = (\<lambda>s. [])\<rparr>"

definition sample_meta :: "string \<Rightarrow> string \<Rightarrow> ObjectMeta" where
  "sample_meta ns name = \<lparr>om_Name = name, om_Namespace = ns, om_UID = ''u'', om_Generation = 1, om_Labels = [],
     om_Annotations = [], om_Deleting = False\<rparr>"

definition sample_provider :: "string \<Rightarrow> ExternalProvider" where
  "sample_provider name = \<lparr>ep_Meta = sample_meta ''ns'' name,
     ep_Spec = \<lparr>ps_Provider = ''openai'', ps_Endpoint = ''api.openai.com'',
       ps_Auth = \<lparr>ac_Type = ''simple'', ac_SecretRef = \<lparr>nr_Name = ''key''\<rparr>\<rparr>, ps_Config = [(''v'', ''v1'')]\<rparr>,
     ep_Status = \<lparr>pst_Phase = ''Ready'', pst_ObservedGeneration = 1, pst_Conditions = []\<rparr>\<rparr>"

definition sample_ref :: "string \<Rightarrow> int option \<Rightarrow> ExternalProviderRef" where
  "sample_ref name w = \<lparr>er_Ref = \<lparr>pr_Name = name, pr_Namespace = []\<rparr>, er_TargetModel = ''gpt'',
     er_APIFormat = ''openai-chat'', er_Path = ''/{v}/chat'', er_Config = [], er_Auth = None, er_Weight = w\<rparr>"

definition sample_model :: ExternalModel where
  "sample_model = \<lparr>em_Meta = sample_meta ''ns'' ''m'',
     em_Spec = \<lparr>ms_ModelName = [], ms_ExternalProviderRefs = [sample_ref ''p'' None, sample_ref ''q'' (Some 0)],
       ms_GatewayRefs = []\<rparr>,
     em_Status = \<lparr>mst_Phase = [], mst_HTTPRouteName = [], mst_ObservedGeneration = 0, mst_OverlayDigest = [],
       mst_OverlayGeneration = 0, mst_Conditions = [], mst_Gateways = []\<rparr>\<rparr>"

definition sample_models :: "ExternalModel option list" where
  "sample_models = [None, Some sample_model]"

definition sample_providers :: "ExternalProvider option list" where
  "sample_providers = [Some (sample_provider ''p''), None, Some (sample_provider ''q'')]"

lemmas sample_defs = sample_lib_def sample_meta_def sample_provider_def sample_ref_def sample_model_def
  sample_models_def sample_providers_def

lemma sample_resolve_err: "snd (resolve sample_lib sample_models sample_providers True False) = None"
  by code_simp

lemma sample_resolve_some: "fst (resolve sample_lib sample_models sample_providers True False) \<noteq> None"
  by code_simp

definition sample_set :: ResolvedRouteSet where
  "sample_set = the (fst (resolve sample_lib sample_models sample_providers True False))"

lemma sample_resolve: "resolve sample_lib sample_models sample_providers True False = (Some sample_set, None)"
  using sample_resolve_err sample_resolve_some by (simp add: sample_set_def prod_eq_iff)

lemma sample_paths: "map Path (Routes sample_set) = [''/v1/chat'', ''/v1/chat'']"
  by code_simp

lemma sample_route: "Routes sample_set \<noteq> []"
  using sample_paths by auto

subsection \<open>Properties\<close>

text \<open>C1. The resolution loops implement the specification: \<open>resolve\<close> returns a route set, with no error or with
  \<open>ErrNoRoutes\<close>, exactly when every non-nil model resolves (no active reference is unsupported, no transport is
  invalid, no provider is active twice), and the set is then the per-reference outcomes in model and reference
  order; the error is \<open>ErrNoRoutes\<close> exactly when that set has no route.\<close>

theorem resolve_implements_spec:
  "resolve lib ms ps incl transl = (Some rs, err) \<and> err \<in> {None, Some ErrNoRoutes} \<longleftrightarrow>
     (\<forall>m \<in> set (List.map_filter id ms). model_resolves lib incl transl (byKey ps) m)
     \<and> rs = set_spec lib incl transl (byKey ps) ms
     \<and> err = (if Routes rs = [] then Some ErrNoRoutes else None)"
  by (rule resolve_eq)

theorem resolve_implements_spec_witness:
  "sample_set = set_spec sample_lib True False (byKey sample_providers) sample_models"
  using resolve_implements_spec [of sample_lib sample_models sample_providers True False sample_set None]
    sample_resolve by simp

text \<open>C2. Every route of a successful resolution is admitted: it belongs to a model and a provider of the inputs, the
  provider is Ready and qualified for the API format, TLS trust comes from the provider alone and names at most
  one source, the weight is positive unless disabled references are included, a Messages route needs
  API translation, the port is in 1..65535, and the path is absolute and free of placeholders.\<close>

theorem resolved_routes_admitted:
  assumes "resolve lib ms ps incl transl = (Some rs, None)" and "r \<in> set (Routes rs)"
  shows "route_admitted incl transl ms ps r"
  using assms resolve_ok(2) [OF assms(1)] by (simp add: set_spec_admitted)

theorem resolved_routes_admitted_witness:
  "route_admitted True False sample_models sample_providers (hd (Routes sample_set))"
  using resolved_routes_admitted [OF sample_resolve] sample_route by simp

text \<open>No provider is served twice: within each model of a successful resolution the active routes go to pairwise
  different providers, and each reference of the model is either one route or one skip.\<close>

theorem resolved_models_accounted:
  assumes "resolve lib ms ps incl transl = (Some rs, None)"
  shows "list_all2 (\<lambda>m mr. mr_ModelRef mr = model_ref m
           \<and> length (mr_Routes mr) + length (mr_Skips mr) = length (ms_ExternalProviderRefs (em_Spec m))
           \<and> distinct (map (\<lambda>r. (ProviderNamespace r, Provider r)) (filter (\<lambda>r. Weight r > 0) (mr_Routes mr))))
         (List.map_filter id ms) (Models rs)"
proof -
  from resolve_ok [OF assms] have "Models rs = map (model_spec lib incl transl (byKey ps)) (List.map_filter id ms)"
    and ok: "\<forall>m \<in> set (List.map_filter id ms). model_resolves lib incl transl (byKey ps) m"
    by (auto simp: set_spec_def)
  moreover have "mr_ModelRef (model_spec lib incl transl (byKey ps) m) = model_ref m" for m
    by (simp add: model_spec_def Let_def)
  ultimately show ?thesis
    by (simp add: list_all2_conv_all_nth model_spec_accounts set_spec_active_distinct)
qed

theorem resolved_models_accounted_witness:
  "length (Models sample_set) = 1
     \<and> length (mr_Routes (hd (Models sample_set))) + length (mr_Skips (hd (Models sample_set))) = 2"
  using resolved_models_accounted [OF sample_resolve]
  by (auto simp: list_all2_Cons1 sample_models_def sample_model_def List.map_filter_simps)

text \<open>Changing a weight never needs a new preload: whenever the complete set (\<open>ResolveAllWithAPITranslation\<close>)
  resolves, the serving set (\<open>ResolveWithAPITranslation\<close>) resolves too, to exactly the routes of
  the complete set whose weight is positive, in the same order.\<close>

theorem serving_set_is_enabled_preload:
  assumes "ResolveAllWithAPITranslation lib ms ps en = (Some full, None)"
  shows "\<exists>serving. Routes serving = filter (\<lambda>r. Weight r > 0) (Routes full)
           \<and> ResolveWithAPITranslation lib ms ps en
             = (Some serving, if Routes serving = [] then Some ErrNoRoutes else None)"
proof -
  let ?serving = "set_spec lib False en (byKey ps) ms"
  from assms have full: "resolve lib ms ps True en = (Some full, None)"
    by (simp add: ResolveAllWithAPITranslation_def)
  have "resolve lib ms ps False en = (Some ?serving, if Routes ?serving = [] then Some ErrNoRoutes else None)"
    using resolve_ok(1) [OF full] serving_model_resolves
      resolve_eq [of lib ms ps False en ?serving "if Routes ?serving = [] then Some ErrNoRoutes else None"]
    by blast
  moreover have "Routes ?serving = filter (\<lambda>r. Weight r > 0) (Routes full)"
    using resolve_ok(2) [OF full] by (simp add: serving_routes)
  ultimately show ?thesis by (auto simp: ResolveWithAPITranslation_def)
qed

lemma sample_resolve_all:
  "ResolveAllWithAPITranslation sample_lib sample_models sample_providers False = (Some sample_set, None)"
  using sample_resolve by (simp add: ResolveAllWithAPITranslation_def)

theorem serving_set_is_enabled_preload_witness:
  "\<exists>serving. Routes serving = filter (\<lambda>r. Weight r > 0) (Routes sample_set)
     \<and> ResolveWithAPITranslation sample_lib sample_models sample_providers False
       = (Some serving, if Routes serving = [] then Some ErrNoRoutes else None)"
  using serving_set_is_enabled_preload [OF sample_resolve_all] .

text \<open>Path resolution is simultaneous substitution: on a template without nested braces, with configuration keys
  and values and a target model free of braces, the loop over sorted keys followed by the \<open>{model}\<close> fallback
  replaces every bound placeholder by its value at once, and otherwise reports exactly the unbound placeholders in
  order. In particular the order of substitution does not matter.\<close>

theorem resolvePath_is_substitution:
  assumes "list_all seg_flat segs" and "config_plain cfg" and "brace_free tm"
  shows "resolvePath (tmpl_text segs) tm cfg =
     (if unbound_holes cfg segs = [] then Inr (concat (map (subst_seg tm cfg) segs))
      else Inl (PathUnresolved (tmpl_text segs) (unbound_holes cfg segs)))"
  using assms by (rule resolvePath_substitutes)

theorem resolvePath_is_substitution_witness:
  "resolvePath ''/{v}/{model}/x'' ''gpt'' [(''v'', ''v1'')] = Inr ''/v1/gpt/x''
   \<and> resolvePath ''/{v}/{region}'' ''gpt'' [(''v'', ''v1'')] = Inl (PathUnresolved ''/{v}/{region}'' [''region''])"
  using resolvePath_is_substitution [of "[Lit ''/'', Hole ''v'', Lit ''/'', Hole ''model'', Lit ''/x'']" "[(''v'', ''v1'')]" "''gpt''"]
    resolvePath_is_substitution [of "[Lit ''/'', Hole ''v'', Lit ''/'', Hole ''region'']" "[(''v'', ''v1'')]" "''gpt''"]
  by (simp add: tmpl_text_def brace_def brace_free_def config_plain_def unbound_holes_def sm_has_def sm_get_def)

text \<open>A transport Service name of a provider in another namespace fits in 63 bytes
  and ends with 12 hexadecimal digits of the provider's identity; it differs from the local
  Service name of a same-named provider whenever that name has at most 50 bytes.\<close>

theorem ServiceName_cross_namespace:
  assumes "CrossNamespace r"
  shows "length (ServiceName r) \<le> 63
    \<and> has_suffix (ServiceName r) (''-'' @ take 12 (sha256_hex (ProviderNamespace r @ ''/'' @ Provider r)))
    \<and> (length (''provider-'' @ Provider r) \<le> 50 \<longrightarrow> ServiceName r \<noteq> ''provider-'' @ Provider r)"
  using assms length_trim_right_set [of "take 50 (''provider-'' @ Provider r)" "''-.''"]
  by (auto simp: ServiceName_def Let_def sha.digest_length has_suffix_iff)

definition sample_cross_route :: Route where
  "sample_cross_route = (hd (Routes sample_set))\<lparr>Namespace := ''a'', ProviderNamespace := ''b'', Provider := ''p''\<rparr>"

theorem ServiceName_cross_namespace_witness:
  "length (ServiceName sample_cross_route) \<le> 63 \<and> ServiceName sample_cross_route \<noteq> ''provider-p''"
  using ServiceName_cross_namespace [of sample_cross_route]
  by (simp add: sample_cross_route_def CrossNamespace_def)

end
