(* ===== verification/EnvelopeCorrect.thy ===== *)
theory EnvelopeCorrect
  imports EnvelopeCodec ResolverCorrect
begin

text \<open>
  Correctness of rendering: which selection policy the data plane receives, the contract that each mode puts
  on the candidates, what each candidate carries, the revision rule, and the forms of stable identifiers.
\<close>

subsection \<open>Counting capabilities\<close>

definition client_routes :: "Route list \<Rightarrow> Route \<Rightarrow> Route list" where
  "client_routes rs r = filter (\<lambda>q. ClientName q = ClientName r) rs"

definition unequal_weights :: "Route list \<Rightarrow> bool" where
  "unequal_weights rs \<longleftrightarrow> list_ex (\<lambda>r. list_ex (\<lambda>q. Weight q \<noteq> Weight r) (client_routes rs r)) rs"

definition shared_client :: "Route list \<Rightarrow> bool" where
  "shared_client rs \<longleftrightarrow> list_ex (\<lambda>r. length (client_routes rs r) > 1) rs"

text \<open>What the first loop has recorded after the routes \<open>rs\<close>.\<close>

definition cap_spec :: "Route list \<Rightarrow> string \<Rightarrow> selectionCapability option" where
  "cap_spec rs k =
     (case filter (\<lambda>r. capability_key r = k) rs of
        [] \<Rightarrow> None
      | r # rest \<Rightarrow> Some \<lparr>sel_count = int (length (r # rest)), sel_firstWeight = Weight r,
                           sel_unequal = list_ex (\<lambda>q. Weight q \<noteq> Weight r) rest\<rparr>)"

lemma capability_key_eq [simp]: "capability_key q = capability_key r \<longleftrightarrow> ClientName q = ClientName r"
  by (simp add: capability_key_def)

lemma count_routes_ok_iff:
  "is_ok (fold_res count_route rs s) \<longleftrightarrow>
     distinct (map binding_key rs) \<and> set (map binding_key rs) \<inter> set (cs_bindings s) = {}"
  by (induction rs arbitrary: s) (auto simp: count_route_def Let_def)

lemma count_routes_caps:
  assumes "fold_res count_route rs \<lparr>cs_caps = [], cs_bindings = []\<rparr> = Inr s"
  shows "map_of (cs_caps s) = cap_spec rs \<and> distinct (map fst (cs_caps s))"
  using assms
proof (induction rs arbitrary: s rule: rev_induct)
  case Nil
  then show ?case by (auto simp: cap_spec_def)
next
  case (snoc r rs)
  then obtain t where t: "fold_res count_route rs \<lparr>cs_caps = [], cs_bindings = []\<rparr> = Inr t" and step: "count_route r t = Inr s"
    by (auto simp: fold_res_append bind_res_def split: sum.splits)
  from snoc.IH [OF t] have map: "map_of (cs_caps t) = cap_spec rs" and dist: "distinct (map fst (cs_caps t))" by auto
  have other: "cap_spec (rs @ [r]) k = cap_spec rs k" if "k \<noteq> capability_key r" for k
    using that by (simp add: cap_spec_def)
  have this_key: "cap_spec (rs @ [r]) (capability_key r) =
      Some (case cap_spec rs (capability_key r) of
          None \<Rightarrow> \<lparr>sel_count = 1, sel_firstWeight = Weight r, sel_unequal = False\<rparr>
        | Some c \<Rightarrow> c\<lparr>sel_count := sel_count c + 1, sel_unequal := sel_unequal c \<or> Weight r \<noteq> sel_firstWeight c\<rparr>)"
    by (auto simp: cap_spec_def split: list.splits)
  from step map have "map_of (cs_caps s) = (cap_spec rs)(capability_key r \<mapsto>
      (case cap_spec rs (capability_key r) of
          None \<Rightarrow> \<lparr>sel_count = 1, sel_firstWeight = Weight r, sel_unequal = False\<rparr>
        | Some c \<Rightarrow> c\<lparr>sel_count := sel_count c + 1, sel_unequal := sel_unequal c \<or> Weight r \<noteq> sel_firstWeight c\<rparr>))"
    by (auto simp: count_route_def Let_def update_conv' split: if_splits option.splits)
  moreover have "distinct (map fst (cs_caps s))"
    using step dist by (auto simp: count_route_def Let_def distinct_update split: if_splits)
  ultimately show ?case using other this_key by (auto simp: fun_eq_iff)
qed

lemma cap_spec_Some:
  "cap_spec rs k = Some c \<longleftrightarrow>
     (\<exists>r rest. filter (\<lambda>r. capability_key r = k) rs = r # rest \<and> c = \<lparr>sel_count = int (length (r # rest)),
        sel_firstWeight = Weight r, sel_unequal = list_ex (\<lambda>q. Weight q \<noteq> Weight r) rest\<rparr>)"
  by (auto simp: cap_spec_def split: list.splits)

lemma client_routes_filter: "filter (\<lambda>q. capability_key q = capability_key r) rs = client_routes rs r"
  by (simp add: client_routes_def)

lemma caps_list_ex:
  assumes "map_of caps = cap_spec rs" "distinct (map fst caps)"
  shows "list_ex (\<lambda>(_, c). P c) caps \<longleftrightarrow> (\<exists>r \<in> set rs. P (the (cap_spec rs (capability_key r))))"
proof
  assume "list_ex (\<lambda>(_, c). P c) caps"
  then obtain k c where "map_of caps k = Some c" "P c"
    using assms(2) by (auto simp: list_ex_iff map_of_eq_Some_iff)
  with assms(1) obtain r rest where "filter (\<lambda>r. capability_key r = k) rs = r # rest" "cap_spec rs k = Some c"
    by (auto simp: cap_spec_Some)
  then have "r \<in> set (filter (\<lambda>r. capability_key r = k) rs)" by simp
  then have "r \<in> set rs" "capability_key r = k" by auto
  with \<open>P c\<close> \<open>cap_spec rs k = Some c\<close> show "\<exists>r \<in> set rs. P (the (cap_spec rs (capability_key r)))"
    by (intro bexI [of _ r]) simp_all
next
  assume "\<exists>r \<in> set rs. P (the (cap_spec rs (capability_key r)))"
  then obtain r where r: "r \<in> set rs" "P (the (cap_spec rs (capability_key r)))" by auto
  have "cap_spec rs (capability_key r) \<noteq> None"
    using r(1) by (auto simp: cap_spec_def client_routes_def filter_empty_conv split: list.splits)
  with assms r have "(capability_key r, the (cap_spec rs (capability_key r))) \<in> set caps"
    by (auto simp flip: map_of_eq_Some_iff)
  with r show "list_ex (\<lambda>(_, c). P c) caps" by (auto simp: list_ex_iff)
qed

lemma cap_spec_route:
  assumes "r \<in> set rs"
  shows "sel_count (the (cap_spec rs (capability_key r))) = int (length (client_routes rs r))"
    and "sel_unequal (the (cap_spec rs (capability_key r))) \<longleftrightarrow>
         list_ex (\<lambda>q. list_ex (\<lambda>p. Weight p \<noteq> Weight q) (client_routes rs r)) (client_routes rs r)"
proof -
  from assms obtain h rest where "client_routes rs r = h # rest"
    by (cases "client_routes rs r") (auto simp: client_routes_def filter_empty_conv)
  then show "sel_count (the (cap_spec rs (capability_key r))) = int (length (client_routes rs r))"
    and "sel_unequal (the (cap_spec rs (capability_key r))) \<longleftrightarrow>
         list_ex (\<lambda>q. list_ex (\<lambda>p. Weight p \<noteq> Weight q) (client_routes rs r)) (client_routes rs r)"
    by (auto simp: cap_spec_def client_routes_def list_ex_iff) metis+
qed

lemma unequal_weights_iff:
  "unequal_weights rs \<longleftrightarrow> (\<exists>r \<in> set rs. length (client_routes rs r) > 1
     \<and> list_ex (\<lambda>q. list_ex (\<lambda>p. Weight p \<noteq> Weight q) (client_routes rs r)) (client_routes rs r))"
proof
  assume "unequal_weights rs"
  then obtain r q where rq: "r \<in> set rs" "q \<in> set (client_routes rs r)" "Weight q \<noteq> Weight r"
    by (auto simp: unequal_weights_def list_ex_iff)
  then have "r \<in> set (client_routes rs r)" by (simp add: client_routes_def)
  with rq have "length (client_routes rs r) \<noteq> 1" "length (client_routes rs r) \<noteq> 0"
    by (auto simp: length_Suc_conv)
  then have "length (client_routes rs r) > 1" by linarith
  with rq \<open>r \<in> set (client_routes rs r)\<close> show "\<exists>r \<in> set rs. length (client_routes rs r) > 1
     \<and> list_ex (\<lambda>q. list_ex (\<lambda>p. Weight p \<noteq> Weight q) (client_routes rs r)) (client_routes rs r)"
    by (auto simp: list_ex_iff)
next
  assume "\<exists>r \<in> set rs. length (client_routes rs r) > 1
     \<and> list_ex (\<lambda>q. list_ex (\<lambda>p. Weight p \<noteq> Weight q) (client_routes rs r)) (client_routes rs r)"
  then obtain r p q where "p \<in> set rs" "q \<in> set rs" "ClientName p = ClientName q" "Weight p \<noteq> Weight q"
    by (auto simp: list_ex_iff client_routes_def)
  then show "unequal_weights rs" by (auto simp: unequal_weights_def list_ex_iff client_routes_def)
qed

subsection \<open>Derived metadata\<close>

definition policy_spec :: "Route list \<Rightarrow> json option" where
  "policy_spec rs =
     (if unequal_weights rs then Some weightedRandomSelectionPolicy
      else if shared_client rs then Some randomSelectionPolicy else None)"

lemma policies_differ [simp]: "weightedRandomSelectionPolicy \<noteq> randomSelectionPolicy"
  "randomSelectionPolicy \<noteq> weightedRandomSelectionPolicy"
proof -
  have "unquote (quote_body ''random'') \<noteq> unquote (quote_body ''weightedRandom'')"
    by (simp add: unquote_quote valid_utf8_ascii byte_def)
  then have "quote_body ''random'' \<noteq> quote_body ''weightedRandom''" by metis
  then show "weightedRandomSelectionPolicy \<noteq> randomSelectionPolicy"
    "randomSelectionPolicy \<noteq> weightedRandomSelectionPolicy"
    by (auto simp: weightedRandomSelectionPolicy_def randomSelectionPolicy_def j_obj_def j_str_def)
qed

lemma derive_ok_iff: "is_ok (deriveSelectionMetadata rs) \<longleftrightarrow> distinct (map binding_key (Routes rs))"
proof -
  have "is_ok (deriveSelectionMetadata rs) \<longleftrightarrow> is_ok (fold_res count_route (Routes rs) \<lparr>cs_caps = [], cs_bindings = []\<rparr>)"
    by (cases "fold_res count_route (Routes rs) \<lparr>cs_caps = [], cs_bindings = []\<rparr>")
      (auto simp: deriveSelectionMetadata_def Let_def)
  then show ?thesis by (simp add: count_routes_ok_iff)
qed

lemma derive_state:
  assumes s: "fold_res count_route (Routes rs) \<lparr>cs_caps = [], cs_bindings = []\<rparr> = Inr s"
  shows "list_ex (\<lambda>(_, c). sel_count c > 1 \<and> sel_unequal c) (cs_caps s) \<longleftrightarrow> unequal_weights (Routes rs)"
    and "\<not> unequal_weights (Routes rs) \<Longrightarrow>
           list_ex (\<lambda>(_, c). sel_count c > 1 \<and> \<not> sel_unequal c) (cs_caps s) \<longleftrightarrow> shared_client (Routes rs)"
    and "r \<in> set (Routes rs) \<Longrightarrow> cap_count s r = int (length (client_routes (Routes rs) r))"
proof -
  note caps = count_routes_caps [OF s]
  have ex: "list_ex (\<lambda>(_, c). P c) (cs_caps s) \<longleftrightarrow> (\<exists>r \<in> set (Routes rs). P (the (cap_spec (Routes rs) (capability_key r))))"
    for P using caps by (intro caps_list_ex) auto
  show "list_ex (\<lambda>(_, c). sel_count c > 1 \<and> sel_unequal c) (cs_caps s) \<longleftrightarrow> unequal_weights (Routes rs)"
    unfolding ex unequal_weights_iff by (intro bex_cong refl) (auto simp: cap_spec_route)
  show "list_ex (\<lambda>(_, c). sel_count c > 1 \<and> \<not> sel_unequal c) (cs_caps s) \<longleftrightarrow> shared_client (Routes rs)"
    if "\<not> unequal_weights (Routes rs)"
    using that unfolding ex unfolding shared_client_def unequal_weights_iff list_ex_iff [of _ "Routes rs"]
    by (intro bex_cong refl) (auto simp: cap_spec_route)
  show "cap_count s r = int (length (client_routes (Routes rs) r))" if "r \<in> set (Routes rs)"
  proof -
    have "cap_spec (Routes rs) (capability_key r) \<noteq> None"
      using that by (auto simp: cap_spec_def filter_empty_conv split: list.splits)
    with that caps show ?thesis by (auto simp: cap_count_def simp flip: cap_spec_route(1))
  qed
qed

lemma fold_groups:
  "fold (\<lambda>(k, r) g. if P r then g(k \<mapsto> f r) else g) krs g0 k \<noteq> None
     \<longleftrightarrow> (\<exists>r. (k, r) \<in> set krs \<and> P r) \<or> g0 k \<noteq> None"
  by (induction krs arbitrary: g0) (auto split: if_splits)

lemma fold_groups_value:
  "fold (\<lambda>(k, r) g. if P r then g(k \<mapsto> f r) else g) krs g0 k = Some v \<Longrightarrow>
     (\<exists>r. (k, r) \<in> set krs \<and> P r \<and> v = f r) \<or> g0 k = Some v"
  by (induction krs arbitrary: g0) (fastforce split: if_splits)+

lemma set_keyed_routes: "(k, r) \<in> set (keyed_routes rs) \<longleftrightarrow> (\<exists>m \<in> set (Models rs). r \<in> set (mr_Routes m) \<and> k = route_key m r)"
  by (auto simp: keyed_routes_def)

lemma derive_spec:
  assumes "deriveSelectionMetadata rs = Inr sel"
  shows "sm_policy sel = policy_spec (Routes rs)"
    and "sm_weighted sel \<longleftrightarrow> unequal_weights (Routes rs)"
    and "\<not> sm_weighted sel \<Longrightarrow> sm_weights sel k = None"
    and "sm_policy sel = None \<Longrightarrow> sm_groups sel k = None"
    and "sm_weights sel k = Some w \<Longrightarrow> 1 \<le> w \<and> w \<le> 1000"
    and "sm_groups sel k = Some g \<Longrightarrow> g = 0"
    and "m \<in> set (Models rs) \<Longrightarrow> r \<in> set (mr_Routes m) \<Longrightarrow> length (client_routes (Routes rs) r) > 1 \<Longrightarrow>
           sm_groups sel (route_key m r) = Some 0"
    and "sm_weighted sel \<Longrightarrow> m \<in> set (Models rs) \<Longrightarrow> r \<in> set (mr_Routes m) \<Longrightarrow>
           sm_weights sel (route_key m r) \<noteq> None \<and> sm_groups sel (route_key m r) \<noteq> None"
proof -
  from assms obtain s where s: "fold_res count_route (Routes rs) \<lparr>cs_caps = [], cs_bindings = []\<rparr> = Inr s"
    by (auto simp: deriveSelectionMetadata_def bind_res_Inr_iff)
  note w = derive_state(1) [OF s] and sh = derive_state(2) [OF s] and cnt = derive_state(3) [OF s]
  let ?groups = "\<lambda>P. fold (\<lambda>(k, r) g. if P r then g(k \<mapsto> 0) else g) (keyed_routes rs) Map.empty"
  let ?weights = "fold (\<lambda>(k, r) w. if True then w(k \<mapsto> trafficWeightFor (Weight r)) else w) (keyed_routes rs) Map.empty"
  have sel: "sel = (if unequal_weights (Routes rs) then
         \<lparr>sm_policy = Some weightedRandomSelectionPolicy, sm_weighted = True, sm_groups = ?groups (\<lambda>_. True),
          sm_weights = ?weights\<rparr>
       else if shared_client (Routes rs) then
         \<lparr>sm_policy = Some randomSelectionPolicy, sm_weighted = False, sm_groups = ?groups (\<lambda>r. cap_count s r > 1),
          sm_weights = Map.empty\<rparr>
       else \<lparr>sm_policy = None, sm_weighted = False, sm_groups = Map.empty, sm_weights = Map.empty\<rparr>)"
    using assms w sh by (auto simp: deriveSelectionMetadata_def s Let_def)
  show "sm_policy sel = policy_spec (Routes rs)" "sm_weighted sel \<longleftrightarrow> unequal_weights (Routes rs)"
    "\<not> sm_weighted sel \<Longrightarrow> sm_weights sel k = None" "sm_policy sel = None \<Longrightarrow> sm_groups sel k = None"
    by (auto simp: sel policy_spec_def split: if_splits)
  show "sm_weights sel k = Some w \<Longrightarrow> 1 \<le> w \<and> w \<le> 1000"
    using fold_groups_value [of "\<lambda>_. True" "\<lambda>r. trafficWeightFor (Weight r)" "keyed_routes rs" Map.empty k w]
    by (auto simp: sel trafficWeightFor_def split: if_splits)
  show "sm_groups sel k = Some g \<Longrightarrow> g = 0"
    using fold_groups_value [of "\<lambda>_. True" "\<lambda>_. 0 :: nat" "keyed_routes rs" Map.empty k g]
      fold_groups_value [of "\<lambda>r. cap_count s r > 1" "\<lambda>_. 0 :: nat" "keyed_routes rs" Map.empty k g]
    by (auto simp: sel split: if_splits)
  have route: "m \<in> set (Models rs) \<Longrightarrow> r \<in> set (mr_Routes m) \<Longrightarrow> r \<in> set (Routes rs)" by (auto simp: Routes_def)
  show "sm_groups sel (route_key m r) = Some 0"
    if r: "m \<in> set (Models rs)" "r \<in> set (mr_Routes m)" "length (client_routes (Routes rs) r) > 1"
  proof -
    have "shared_client (Routes rs)" using r route by (auto simp: shared_client_def list_ex_iff)
    then have "sm_groups sel (route_key m r) \<noteq> None"
      using r route cnt [of r] fold_groups [of "\<lambda>_. True" "\<lambda>_. 0 :: nat" "keyed_routes rs" Map.empty "route_key m r"]
      by (auto simp: sel fold_groups set_keyed_routes simp del: not_None_eq)
    then show ?thesis
      using fold_groups_value [of "\<lambda>_. True" "\<lambda>_. 0 :: nat" "keyed_routes rs" Map.empty "route_key m r"]
        fold_groups_value [of "\<lambda>r. cap_count s r > 1" "\<lambda>_. 0 :: nat" "keyed_routes rs" Map.empty "route_key m r"]
      by (auto simp: sel split: if_splits)
  qed
  show "sm_weights sel (route_key m r) \<noteq> None \<and> sm_groups sel (route_key m r) \<noteq> None"
    if "sm_weighted sel" "m \<in> set (Models rs)" "r \<in> set (mr_Routes m)"
    using that fold_groups [of "\<lambda>_. True" "\<lambda>r. trafficWeightFor (Weight r)" "keyed_routes rs" Map.empty]
      fold_groups [of "\<lambda>_. True" "\<lambda>_. 0 :: nat" "keyed_routes rs" Map.empty]
    by (auto simp: sel set_keyed_routes split: if_splits simp del: not_None_eq)
qed

subsection \<open>Rendered overlays\<close>

text \<open>What Praxis requires of the candidates in each selection mode.\<close>

definition selection_contract :: "Overlay \<Rightarrow> bool" where
  "selection_contract ov \<longleftrightarrow>
     (case ov_SelectionPolicy ov of
        None \<Rightarrow> list_all (\<lambda>c. ca_SelectionGroup c = None \<and> ca_TrafficWeight c = None) (ov_Candidates ov)
      | Some p \<Rightarrow>
          if p = weightedRandomSelectionPolicy
          then list_all (\<lambda>c. ca_SelectionGroup c \<noteq> None \<and> ca_TrafficWeight c \<noteq> None) (ov_Candidates ov)
          else p = randomSelectionPolicy \<and> list_all (\<lambda>c. ca_TrafficWeight c = None) (ov_Candidates ov))"

definition weights_in_range :: "Candidate list \<Rightarrow> bool" where
  "weights_in_range cs \<longleftrightarrow>
     list_all (\<lambda>c. case ca_TrafficWeight c of None \<Rightarrow> True | Some w \<Rightarrow> 1 \<le> w \<and> w \<le> 1000) cs"

lemma render_models_ok:
  "fold_res (render_model scope opts sel) ms cs = Inr cs' \<longleftrightarrow>
     (\<forall>m \<in> set ms. ValidateModel m opts = None)
     \<and> cs' = cs @ concat (map (\<lambda>m. map (render_candidate scope opts sel m) (mr_Routes m)) ms)"
proof (induction ms arbitrary: cs)
  case (Cons m ms)
  then show ?case by (auto simp: render_model_def split: option.splits)
qed auto

lemma ValidateModel_routes:
  "ValidateModel m opts = None \<Longrightarrow> r \<in> set (mr_Routes m) \<Longrightarrow> is_ok (StrategyFor r)
     \<and> (op_KnownClusters opts = [] \<or> Cluster r \<in> set (op_KnownClusters opts))"
  by (auto simp: ValidateModel_def validate_route_def find_None_iff is_ok_def split: sum.splits option.splits if_splits
      dest!: find_Some_set)

text \<open>The last two loops of \<open>Render\<close> as one function of a candidate.\<close>

definition finish_candidate :: "bool \<Rightarrow> bool \<Rightarrow> Candidate \<Rightarrow> Candidate" where
  "finish_candidate weighted profiles c =
     (let c1 = (if weighted
                then c\<lparr>ca_SelectionGroup := Some (case ca_SelectionGroup c of None \<Rightarrow> 0 | Some g \<Rightarrow> g),
                       ca_TrafficWeight := Some (case ca_TrafficWeight c of None \<Rightarrow> 1 | Some w \<Rightarrow> w)\<rparr>
                else c)
      in if profiles then c1 else strip_profile c1)"

lemma finish_candidates:
  "(let cs1 = (if w then normalizeWeightedCandidates cs else cs) in if p then cs1 else map strip_profile cs1)
     = map (finish_candidate w p) cs"
proof -
  have "(case x of None \<Rightarrow> Some v | Some g \<Rightarrow> Some g) = Some (case x of None \<Rightarrow> v | Some g \<Rightarrow> g)"
    for x :: "nat option" and v by (cases x) auto
  then show ?thesis by (auto simp: finish_candidate_def [abs_def] Let_def normalizeWeightedCandidates_def)
qed

lemma finish_candidate_simps [simp]:
  "ca_SelectionGroup (finish_candidate w p c) =
     (if w then Some (case ca_SelectionGroup c of None \<Rightarrow> 0 | Some g \<Rightarrow> g) else ca_SelectionGroup c)"
  "ca_TrafficWeight (finish_candidate w p c) =
     (if w then Some (case ca_TrafficWeight c of None \<Rightarrow> 1 | Some v \<Rightarrow> v) else ca_TrafficWeight c)"
  "ca_Cluster (finish_candidate w p c) = ca_Cluster c" "ca_StableID (finish_candidate w p c) = ca_StableID c"
  "ca_Kind (finish_candidate w p c) = ca_Kind c" "ca_Name (finish_candidate w p c) = ca_Name c"
  "ca_Site (finish_candidate w p c) = ca_Site c" "ca_Credential (finish_candidate w p c) = ca_Credential c"
  "ca_APIFormat (finish_candidate w p c) = (if p then ca_APIFormat c else [])"
  "ca_Path (finish_candidate w p c) = (if p then ca_Path c else [])"
  "ca_TargetModel (finish_candidate w p c) = (if p then ca_TargetModel c else [])"
  by (simp_all add: finish_candidate_def Let_def strip_profile_def)

lemma render_overlayE:
  assumes "render_overlay rs scope opts = Inr ov"
  obtains derived sel cands where "deriveSelectionMetadata rs = Inr derived"
    and "sel = merge_preserved (op_PreservedCandidates opts) derived"
    and "\<forall>m \<in> set (Models rs). ValidateModel m opts = None"
    and "cands = op_PreservedCandidates opts
           @ concat (map (\<lambda>m. map (render_candidate scope opts sel m) (mr_Routes m)) (Models rs))"
    and "ov = \<lparr>ov_Network = sc_Network scope, ov_LocalSite = sc_LocalSite scope,
           ov_Candidates = map (finish_candidate (sm_weighted sel) (op_IncludeProviderProfiles opts)) cands,
           ov_SelectionPolicy = sm_policy sel\<rparr>"
proof -
  from assms obtain derived where d: "deriveSelectionMetadata rs = Inr derived"
    by (auto simp: render_overlay_def bind_res_Inr_iff)
  define sel where "sel = merge_preserved (op_PreservedCandidates opts) derived"
  define cands where "cands = op_PreservedCandidates opts
     @ concat (map (\<lambda>m. map (render_candidate scope opts sel m) (mr_Routes m)) (Models rs))"
  have "(\<forall>m \<in> set (Models rs). ValidateModel m opts = None)
    \<and> ov = \<lparr>ov_Network = sc_Network scope, ov_LocalSite = sc_LocalSite scope,
           ov_Candidates = map (finish_candidate (sm_weighted sel) (op_IncludeProviderProfiles opts)) cands,
           ov_SelectionPolicy = sm_policy sel\<rparr>"
    using assms d
    by (auto simp: render_overlay_def bind_res_Inr_iff render_models_ok Let_def sel_def [symmetric]
        cands_def [symmetric] finish_candidates [unfolded Let_def])
  with d sel_def cands_def show thesis by (intro that) auto
qed

lemma merge_preserved_weights [simp]:
  "sm_groups (merge_preserved cs sel) = sm_groups sel" "sm_weights (merge_preserved cs sel) = sm_weights sel"
  by (simp_all add: merge_preserved_def)

lemma merged_policy:
  assumes "deriveSelectionMetadata rs = Inr derived" "sel = merge_preserved pres derived"
  shows "sm_policy sel = Some weightedRandomSelectionPolicy \<and> sm_weighted sel
       \<or> sm_policy sel = Some randomSelectionPolicy \<and> \<not> sm_weighted sel
         \<and> (\<forall>c \<in> set pres. ca_TrafficWeight c = None) \<and> (\<forall>k. sm_weights sel k = None)
       \<or> sm_policy sel = None \<and> \<not> sm_weighted sel
         \<and> (\<forall>c \<in> set pres. ca_TrafficWeight c = None \<and> ca_SelectionGroup c = None)
         \<and> (\<forall>k. sm_weights sel k = None \<and> sm_groups sel k = None)"
  using derive_spec(1-4) [OF assms(1)] assms(2)
  by (auto simp: merge_preserved_def list_ex_iff policy_spec_def split: if_splits)

lemma render_candidate_sel [simp]:
  "ca_SelectionGroup (render_candidate scope opts sel m r) = sm_groups sel (route_key m r)"
  "ca_TrafficWeight (render_candidate scope opts sel m r) = sm_weights sel (route_key m r)"
  by (simp_all add: render_candidate_def Let_def)

lemma render_overlay_contract:
  assumes "render_overlay rs scope opts = Inr ov"
  shows "selection_contract ov" and "weights_in_range (op_PreservedCandidates opts) \<Longrightarrow> weights_in_range (ov_Candidates ov)"
proof -
  from assms obtain derived sel cands where d: "deriveSelectionMetadata rs = Inr derived"
    and sel: "sel = merge_preserved (op_PreservedCandidates opts) derived"
    and cands: "cands = op_PreservedCandidates opts
           @ concat (map (\<lambda>m. map (render_candidate scope opts sel m) (mr_Routes m)) (Models rs))"
    and ov: "ov = \<lparr>ov_Network = sc_Network scope, ov_LocalSite = sc_LocalSite scope,
           ov_Candidates = map (finish_candidate (sm_weighted sel) (op_IncludeProviderProfiles opts)) cands,
           ov_SelectionPolicy = sm_policy sel\<rparr>"
    by (rule render_overlayE)
  show "selection_contract ov"
    using merged_policy [OF d sel]
  proof (elim disjE conjE)
    assume p: "sm_policy sel = Some randomSelectionPolicy" "\<not> sm_weighted sel"
      "\<forall>c \<in> set (op_PreservedCandidates opts). ca_TrafficWeight c = None" "\<forall>k. sm_weights sel k = None"
    then have "\<forall>b \<in> set cands. ca_TrafficWeight b = None" by (auto simp: cands)
    with p show ?thesis by (auto simp: selection_contract_def ov list_all_iff)
  next
    assume p: "sm_policy sel = None" "\<not> sm_weighted sel"
      "\<forall>c \<in> set (op_PreservedCandidates opts). ca_TrafficWeight c = None \<and> ca_SelectionGroup c = None"
      "\<forall>k. sm_weights sel k = None \<and> sm_groups sel k = None"
    then have "\<forall>b \<in> set cands. ca_TrafficWeight b = None \<and> ca_SelectionGroup b = None" by (auto simp: cands)
    with p show ?thesis by (auto simp: selection_contract_def ov list_all_iff)
  qed (auto simp: selection_contract_def ov list_all_iff)
  assume range: "weights_in_range (op_PreservedCandidates opts)"
  have "\<forall>b \<in> set cands. \<forall>w. ca_TrafficWeight b = Some w \<longrightarrow> 1 \<le> w \<and> w \<le> 1000"
    using range derive_spec(5) [OF d] by (auto simp: cands sel weights_in_range_def list_all_iff)
  then show "weights_in_range (ov_Candidates ov)"
    by (auto simp: ov weights_in_range_def list_all_iff split: option.splits)
qed

subsection \<open>Rendered envelopes\<close>

lemma RenderE:
  assumes "Render jcs routes scope prev opts = Inr env"
  obtains rs ov digest nrev where "routes = Some rs" and "rv_Generation prev \<ge> 0"
    and "render_overlay rs scope opts = Inr ov" and "ComputeDigest jcs ov = Inr digest"
    and "next_revision prev digest = Inr nrev" and "env = build_envelope scope opts ov digest nrev"
  using assms by (auto simp: Render_def bind_res_Inr_iff split: if_splits option.splits)

lemma next_revision_ok:
  assumes "next_revision prev digest = Inr nrev" "rv_Generation prev \<ge> 0"
  shows "rv_Digest nrev = digest"
    and "rv_Generation nrev =
           (if rv_Generation prev = 0 then 1 else if rv_Digest prev = digest then rv_Generation prev else rv_Generation prev + 1)"
    and "CheckRevisionTransition prev nrev = None"
    and "rv_Generation prev \<le> max_int64 \<Longrightarrow> rv_Generation nrev \<le> max_int64"
  using assms by (auto simp: next_revision_def CheckRevisionTransition_def max_int64_def split: if_splits)

lemma build_envelope_simps [simp]:
  "envelope_revision (build_envelope scope opts ov digest nrev) = \<lparr>rv_Generation = rv_Generation nrev, rv_Digest = digest\<rparr>"
  "ev_Overlay (build_envelope scope opts ov digest nrev) = ov"
  "rf_Value (ev_Revision (build_envelope scope opts ov digest nrev)) = digest"
  by (simp_all add: build_envelope_def envelope_revision_def)

lemma ComputeDigest_hex: "ComputeDigest jcs ov = Inr d \<Longrightarrow> length d = 64 \<and> set d \<subseteq> set hex_chars"
  using sha.digest_length sha.digest_hex by (auto simp: ComputeDigest_def split: option.splits)

lemma policy_constants_ok:
  "ok_policy (Some randomSelectionPolicy)" "ok_policy (Some weightedRandomSelectionPolicy)" "ok_policy None"
  by (simp_all add: ok_policy_def randomSelectionPolicy_def weightedRandomSelectionPolicy_def)

lemma render_overlay_policy:
  assumes "render_overlay rs scope opts = Inr ov"
  shows "ok_policy (ov_SelectionPolicy ov)"
proof -
  from render_overlay_contract(1) [OF assms] have "ov_SelectionPolicy ov \<in>
      {None, Some randomSelectionPolicy, Some weightedRandomSelectionPolicy}"
    by (auto simp: selection_contract_def split: option.splits if_splits)
  then show ?thesis using policy_constants_ok by auto
qed

text \<open>The identity of the candidates: preserved ones first, then one per route in model and reference order.\<close>

definition candidate_identity :: "Candidate \<Rightarrow> string \<times> string \<times> string \<times> string" where
  "candidate_identity c = (ca_Kind c, ca_Name c, ca_StableID c, ca_Cluster c)"

definition route_identity :: "Route \<Rightarrow> string \<times> string \<times> string \<times> string" where
  "route_identity r = (''inference_model'', ClientName r, RouteStableID r, Cluster r)"

lemma candidate_identity_simps [simp]:
  "candidate_identity (finish_candidate w p c) = candidate_identity c"
  "candidate_identity (render_candidate scope opts sel m r) = route_identity r"
  by (simp_all add: candidate_identity_def route_identity_def render_candidate_def Let_def)

lemma render_overlay_identities:
  assumes "render_overlay rs scope opts = Inr ov"
  shows "map candidate_identity (ov_Candidates ov) =
     map candidate_identity (op_PreservedCandidates opts) @ map route_identity (Routes rs)"
proof -
  from assms obtain derived sel cands where
      cands: "cands = op_PreservedCandidates opts
           @ concat (map (\<lambda>m. map (render_candidate scope opts sel m) (mr_Routes m)) (Models rs))"
    and ov: "ov = \<lparr>ov_Network = sc_Network scope, ov_LocalSite = sc_LocalSite scope,
           ov_Candidates = map (finish_candidate (sm_weighted sel) (op_IncludeProviderProfiles opts)) cands,
           ov_SelectionPolicy = sm_policy sel\<rparr>"
    by (rule render_overlayE)
  have "map candidate_identity (ov_Candidates ov) = map candidate_identity cands" by (simp add: ov)
  also have "\<dots> = map candidate_identity (op_PreservedCandidates opts) @ map route_identity (Routes rs)"
    by (simp add: cands Routes_def map_concat comp_def)
  finally show ?thesis .
qed

lemma render_overlay_profiles:
  assumes "render_overlay rs scope opts = Inr ov" "\<not> op_IncludeProviderProfiles opts" "c \<in> set (ov_Candidates ov)"
  shows "ca_APIFormat c = [] \<and> ca_Path c = [] \<and> ca_TargetModel c = []"
  using assms by (elim render_overlayE) auto

lemma render_overlay_distinct:
  assumes "render_overlay rs scope opts = Inr ov"
  shows "distinct (map binding_key (Routes rs))"
  using assms derive_ok_iff [of rs] by (elim render_overlayE) auto

lemma distinct_bindings:
  "distinct (map binding_key rs) \<Longrightarrow> distinct (map (\<lambda>r. (ClientName r, ProviderNamespace r, Provider r)) rs)"
proof -
  have "inj_on binding_key (set rs) \<Longrightarrow> inj_on (\<lambda>r. (ClientName r, ProviderNamespace r, Provider r)) (set rs)"
    by (auto simp: inj_on_def binding_key_def capability_key_def)
  then show "distinct (map binding_key rs) \<Longrightarrow> ?thesis" by (simp add: distinct_map)
qed

subsection \<open>Stable identifiers\<close>

abbreviation slash_free :: "string \<Rightarrow> bool" where
  "slash_free s \<equiv> CHR ''/'' \<notin> set s"

lemma count_slash_free: "slash_free s \<Longrightarrow> count_byte (CHR ''/'') s = 0"
  by (simp add: count_byte_eq_0)

lemma CandidateStableID_slashes:
  "slash_free m \<Longrightarrow> slash_free p \<Longrightarrow> count_byte (CHR ''/'') (CandidateStableID m p) = 1"
  by (simp add: CandidateStableID_def count_slash_free)

lemma ScopedStableID_slashes:
  "list_all slash_free [mns, m, pns, p] \<Longrightarrow> count_byte (CHR ''/'') (ScopedStableID mns m pns p) \<in> {0, 3}"
  using sha.digest_no_char [of "CHR ''/''"]
  by (auto simp: ScopedStableID_def Let_def count_slash_free hex_chars_def)

lemma CandidateStableID_inj:
  assumes "slash_free m" "slash_free m'" "CandidateStableID m p = CandidateStableID m' p'"
  shows "m = m' \<and> p = p'"
proof -
  have "split_byte (CHR ''/'') (CandidateStableID n q) = n # split_byte (CHR ''/'') (''provider-'' @ q)"
    if "slash_free n" for n q
    using that split_byte_append [of "CHR ''/''" n "''provider-'' @ q"] by (simp add: CandidateStableID_def)
  with assms have "m = m'" by (metis list.inject)
  with assms show ?thesis by (simp add: CandidateStableID_def)
qed

lemma ScopedStableID_join_inj:
  assumes "list_all slash_free [a, b, c, d]" "list_all slash_free [a', b', c', d']"
    and "join_str [a, b, c, d] ''/'' = join_str [a', b', c', d'] ''/''"
  shows "[a, b, c, d] = [a', b', c', d']"
proof -
  have "split_byte (CHR ''/'') (join_str xs ''/'') = xs" if "xs \<noteq> []" "list_all slash_free xs" for xs
    using that by (intro split_join) (auto simp: list_all_iff)
  from this [of "[a, b, c, d]"] this [of "[a', b', c', d']"] assms show ?thesis by (metis list.discI)
qed

subsection \<open>Rendering succeeds\<close>

definition scope_complete :: "Scope \<Rightarrow> bool" where
  "scope_complete s \<longleftrightarrow> sc_Network s \<noteq> [] \<and> sc_Gateway s \<noteq> [] \<and> sc_Namespace s \<noteq> [] \<and> sc_LocalSite s \<noteq> []"

lemma render_overlay_ok_iff:
  "is_ok (render_overlay rs scope opts) \<longleftrightarrow>
     distinct (map binding_key (Routes rs)) \<and> (\<forall>m \<in> set (Models rs). ValidateModel m opts = None)"
proof
  assume "is_ok (render_overlay rs scope opts)"
  then show "distinct (map binding_key (Routes rs)) \<and> (\<forall>m \<in> set (Models rs). ValidateModel m opts = None)"
    by (auto simp: is_ok_iff render_overlay_distinct elim: render_overlayE)
next
  assume ok: "distinct (map binding_key (Routes rs)) \<and> (\<forall>m \<in> set (Models rs). ValidateModel m opts = None)"
  then obtain derived where "deriveSelectionMetadata rs = Inr derived"
    using derive_ok_iff [of rs] by (auto simp: is_ok_iff)
  moreover have "\<exists>cs. fold_res (render_model scope opts sel) (Models rs) pres = Inr cs" for sel pres
    using ok render_models_ok [of scope opts sel "Models rs" pres] by blast
  ultimately show "is_ok (render_overlay rs scope opts)"
    by (auto simp: render_overlay_def Let_def is_ok_iff bind_res_Inr_iff)
qed

lemma Render_succeeds:
  assumes "scope_complete scope" "0 \<le> rv_Generation prev" "rv_Generation prev < max_int64"
    and "is_ok (render_overlay rs scope opts)" and "\<And>s. jcs s \<noteq> None"
  shows "is_ok (Render jcs (Some rs) scope prev opts)"
proof -
  obtain ov where ov: "render_overlay rs scope opts = Inr ov" using assms(4) by (auto simp: is_ok_iff)
  obtain d where d: "ComputeDigest jcs ov = Inr d" using assms(5) [of "marshal (digest_payload ov)"] by (auto simp: ComputeDigest_def)
  have "\<exists>r. next_revision prev d = Inr r" using assms(3) by (auto simp: next_revision_def)
  with ov d assms(1,2) show ?thesis by (auto simp: Render_def scope_complete_def is_ok_iff)
qed

subsection \<open>A concrete overlay\<close>

text \<open>Two providers of one client model with weights 3 and 1, rendered for the first time.\<close>

definition sample_serving :: ResolvedRouteSet where
  "sample_serving = \<lparr>Models = [\<lparr>mr_ModelRef = ''ns/m'',
     mr_Routes = map (\<lambda>(p, w). \<lparr>Model = ''m'', ClientName = ''m'', Namespace = ''ns'', Provider = p, ProviderNamespace = ''ns'',
       ProviderType = ''azure'', Cluster = ''provider-'' @ p, Endpoint = ''e'', Port = 443, TLSCACertificates = [],
       TLSCredentialName = [], TargetModel = ''gpt'', APIFormat = ''openai-chat'', Path = ''/v1'', APITranslationEnabled = False,
       Weight = w, AuthType = ''apikey'', SecretName = ''key'', SecretKey = ''api-key'', StableID = [], SecretNamespace = []\<rparr>)
       [(''p'', 3), (''q'', 1)],
     mr_Skips = []\<rparr>]\<rparr>"

definition sample_scope :: Scope where
  "sample_scope = \<lparr>sc_Network = ''net'', sc_Gateway = ''gw'', sc_Namespace = ''gwns'', sc_LocalSite = ''site''\<rparr>"

definition sample_opts :: Options where
  "sample_opts = \<lparr>op_KnownClusters = [], op_SourceUID = ''uid'', op_ProducerVersion = [], op_RenderedAt = [],
     op_IncludeProviderProfiles = False, op_PreservedCandidates = []\<rparr>"

definition sample_prev :: Revision where
  "sample_prev = \<lparr>rv_Generation = 4, rv_Digest = ''old''\<rparr>"

lemma sample_overlay_ok: "is_ok (render_overlay sample_serving sample_scope sample_opts)"
  by code_simp

definition sample_env :: Envelope where
  "sample_env = the_ok zero_envelope (Render Some (Some sample_serving) sample_scope sample_prev sample_opts)"

lemma sample_render: "Render Some (Some sample_serving) sample_scope sample_prev sample_opts = Inr sample_env"
proof -
  have "is_ok (Render Some (Some sample_serving) sample_scope sample_prev sample_opts)"
    by (rule Render_succeeds [OF _ _ _ sample_overlay_ok])
      (simp_all add: scope_complete_def sample_scope_def sample_prev_def max_int64_def)
  then show ?thesis by (auto simp: is_ok_iff sample_env_def)
qed

subsection \<open>Properties\<close>

text \<open>C3. The revision rule: whatever \<open>Render\<close> returns is an admissible successor of the previous revision. The
  generation is 1 on the first distribution, stays when the digest is unchanged and grows by one when it changed,
  never leaves the \<open>int64\<close> range, and \<open>CheckRevisionTransition\<close> accepts the step. The declared digest is the
  digest of the overlay: 64 lowercase hexadecimal digits.\<close>

theorem Render_revision_rule:
  assumes "Render jcs routes scope prev opts = Inr env"
  shows "ComputeDigest jcs (ev_Overlay env) = Inr (rv_Digest (envelope_revision env))
    \<and> length (rv_Digest (envelope_revision env)) = 64
    \<and> rv_Generation (envelope_revision env) =
        (if rv_Generation prev = 0 then 1
         else if rv_Digest prev = rv_Digest (envelope_revision env) then rv_Generation prev
         else rv_Generation prev + 1)
    \<and> (rv_Generation prev \<le> max_int64 \<longrightarrow> rv_Generation (envelope_revision env) \<le> max_int64)
    \<and> CheckRevisionTransition prev (envelope_revision env) = None"
proof -
  from assms obtain rs ov digest nrev where gen: "rv_Generation prev \<ge> 0" and d: "ComputeDigest jcs ov = Inr digest"
    and n: "next_revision prev digest = Inr nrev" and env: "env = build_envelope scope opts ov digest nrev"
    by (rule RenderE)
  have "envelope_revision env = nrev" "ev_Overlay env = ov" using next_revision_ok(1) [OF n gen] by (simp_all add: env)
  with next_revision_ok [OF n gen] ComputeDigest_hex [OF d] d show ?thesis by simp
qed

theorem Render_revision_rule_witness: "rv_Generation (envelope_revision sample_env) = 5"
proof -
  have "rv_Digest (envelope_revision sample_env) \<noteq> ''old''"
    using Render_revision_rule [OF sample_render] by auto
  then show ?thesis using Render_revision_rule [OF sample_render] by (simp add: sample_prev_def)
qed



text \<open>The policy is a function of the weights: without preserved candidates the overlay is \<open>weightedRandom\<close> when two
  routes of one client model have different weights, else \<open>random\<close> when some client model has two routes, else
  it has no policy.\<close>

theorem Render_policy:
  assumes "Render jcs (Some rs) scope prev opts = Inr env" and "op_PreservedCandidates opts = []"
  shows "ov_SelectionPolicy (ev_Overlay env) =
    (if unequal_weights (Routes rs) then Some weightedRandomSelectionPolicy
     else if shared_client (Routes rs) then Some randomSelectionPolicy else None)"
proof -
  from assms(1) obtain ov where ov: "render_overlay rs scope opts = Inr ov" "ev_Overlay env = ov"
    by (elim RenderE) simp
  from ov(1) obtain derived sel where d: "deriveSelectionMetadata rs = Inr derived"
    and sel: "sel = merge_preserved (op_PreservedCandidates opts) derived" "ov_SelectionPolicy ov = sm_policy sel"
    by (elim render_overlayE) simp
  with assms(2) derive_spec(1,2) [OF d] show ?thesis
    by (simp add: ov(2) merge_preserved_def policy_spec_def)
qed

theorem Render_policy_witness: "ov_SelectionPolicy (ev_Overlay sample_env) = Some weightedRandomSelectionPolicy"
proof -
  have "unequal_weights (Routes sample_serving)" by code_simp
  then show ?thesis using Render_policy [OF sample_render] by (simp add: sample_opts_def)
qed

text \<open>Candidates mirror routes: after the preserved candidates the overlay has exactly one candidate per route,
  in order, of kind \<open>inference_model\<close>, named by the client model and identified by \<open>RouteStableID\<close>; the routes have pairwise
  different (client model, provider) bindings; and without provider profiles no candidate, preserved
  or new, carries profile fields.\<close>

theorem Render_candidates:
  assumes "Render jcs (Some rs) scope prev opts = Inr env"
  shows "map candidate_identity (ov_Candidates (ev_Overlay env)) =
      map candidate_identity (op_PreservedCandidates opts) @ map route_identity (Routes rs)
    \<and> distinct (map (\<lambda>r. (ClientName r, ProviderNamespace r, Provider r)) (Routes rs))
    \<and> (op_IncludeProviderProfiles opts
       \<or> list_all (\<lambda>c. ca_APIFormat c = [] \<and> ca_Path c = [] \<and> ca_TargetModel c = []) (ov_Candidates (ev_Overlay env)))"
  using assms
  by (elim RenderE)
    (auto simp: render_overlay_identities list_all_iff render_overlay_profiles
      intro: distinct_bindings render_overlay_distinct)

theorem Render_candidates_witness:
  "map candidate_identity (ov_Candidates (ev_Overlay sample_env)) =
     [(''inference_model'', ''m'', ''m/provider-p'', ''provider-p''), (''inference_model'', ''m'', ''m/provider-q'', ''provider-q'')]"
  using Render_candidates [OF sample_render]
  by (simp add: sample_opts_def sample_serving_def Routes_def route_identity_def RouteStableID_def CandidateStableID_def)

text \<open>The independent verifier agrees with the renderer: recomputing the digest from the bytes that the publisher
  writes for a rendered envelope yields the digest that the envelope declares, for every canonicaliser.\<close>

theorem Render_wire_digest:
  assumes "Render jcs routes scope prev opts = Inr env"
  shows "ComputeDigestFromWire jcs (envelope_text env) = Inr (rf_Value (ev_Revision env))"
proof -
  from assms obtain rs ov digest nrev where ov: "render_overlay rs scope opts = Inr ov"
    and d: "ComputeDigest jcs ov = Inr digest" and env: "env = build_envelope scope opts ov digest nrev"
    by (rule RenderE)
  show ?thesis
    using ComputeDigestFromWire_text [of env jcs] render_overlay_policy [OF ov] d by (simp add: env)
qed

theorem Render_wire_digest_witness:
  "ComputeDigestFromWire Some (envelope_text sample_env) = Inr (rf_Value (ev_Revision sample_env))"
  by (rule Render_wire_digest [OF sample_render])


text \<open>The three forms of a stable identifier never collide: the tenant-local form has one slash and the
  scoped forms have three or none, so \<open>IsScopedStableID\<close> tells them apart, and within the local form and the
  readable scoped form the identifier determines the names it was built from.\<close>

theorem stable_ids_disjoint:
  assumes "list_all slash_free [mns, m, pns, p]" and "list_all slash_free [mns', m', pns', p']"
  shows "\<not> IsScopedStableID (CandidateStableID m p) \<and> IsScopedStableID (ScopedStableID mns m pns p)
    \<and> CandidateStableID m p \<noteq> ScopedStableID mns' m' pns' p'
    \<and> (CandidateStableID m p = CandidateStableID m' p' \<longrightarrow> m = m' \<and> p = p')
    \<and> (length (join_str [mns, m, pns, p] ''/'') \<le> maxStableIDBytes \<and> length (join_str [mns', m', pns', p'] ''/'') \<le> maxStableIDBytes
       \<and> ScopedStableID mns m pns p = ScopedStableID mns' m' pns' p' \<longrightarrow> [mns, m, pns, p] = [mns', m', pns', p'])"
proof -
  have local_form: "count_byte (CHR ''/'') (CandidateStableID m p) = 1"
    using assms(1) by (simp add: CandidateStableID_slashes)
  have scoped_form: "count_byte (CHR ''/'') (ScopedStableID mns m pns p) \<in> {0, 3}"
    "count_byte (CHR ''/'') (ScopedStableID mns' m' pns' p') \<in> {0, 3}"
    using ScopedStableID_slashes [OF assms(1)] ScopedStableID_slashes [OF assms(2)] by simp_all
  have "CandidateStableID m p \<noteq> ScopedStableID mns' m' pns' p'"
    using local_form scoped_form(2) by auto
  moreover have "[mns, m, pns, p] = [mns', m', pns', p']"
    if "length (join_str [mns, m, pns, p] ''/'') \<le> maxStableIDBytes" "length (join_str [mns', m', pns', p'] ''/'') \<le> maxStableIDBytes"
      "ScopedStableID mns m pns p = ScopedStableID mns' m' pns' p'"
    using that by (intro ScopedStableID_join_inj [OF assms]) (simp add: ScopedStableID_def Let_def del: join_str.simps)
  ultimately show ?thesis
    using local_form scoped_form CandidateStableID_inj [of m m' p p'] assms
    unfolding IsScopedStableID_def by (auto simp del: join_str.simps)
qed

theorem stable_ids_disjoint_witness:
  "CandidateStableID ''m'' ''p'' \<noteq> ScopedStableID ''a'' ''m'' ''b'' ''p''
   \<and> IsScopedStableID (ScopedStableID ''a'' ''m'' ''b'' ''p'')"
  using stable_ids_disjoint [of "''a''" "''m''" "''b''" "''p''" "''a''" "''m''" "''b''" "''p''"] by simp

end
