(* ===== verification/PublisherCorrect.thy ===== *)
theory PublisherCorrect
  imports Publisher EnvelopeCorrect
begin

text \<open>
  Correctness of the publisher. The ConfigMap is the only state: the step relation \<open>publish_step\<close> covers every call
  of \<open>Publish\<close>, with any inputs, failed reads and failed writes, and the invariants hold of every ConfigMap
  reachable from an absent one. Content addressing is the contract between the publisher and its reader, stated
  as the locale \<open>revision_store\<close> and discharged for the publisher's own functions.
\<close>

subsection \<open>Inputs that the API server can deliver\<close>

text \<open>All strings are UTF-8.\<close>

definition route_utf8 :: "Route \<Rightarrow> bool" where
  "route_utf8 r \<longleftrightarrow> list_all valid_utf8 [Model r, ClientName r, Namespace r, Provider r, Cluster r, TargetModel r,
     APIFormat r, Path r, SecretName r, SecretKey r, StableID r, SecretNamespace r]"

definition scope_utf8 :: "Scope \<Rightarrow> bool" where
  "scope_utf8 s \<longleftrightarrow> list_all valid_utf8 [sc_Network s, sc_Gateway s, sc_Namespace s, sc_LocalSite s]"

definition opts_utf8 :: "Options \<Rightarrow> bool" where
  "opts_utf8 opts \<longleftrightarrow> list_all valid_utf8 [op_SourceUID opts, op_ProducerVersion opts, op_RenderedAt opts]
     \<and> list_all (\<lambda>c. ok_candidate (drop_header c)) (op_PreservedCandidates opts)"

definition inputs_utf8 :: "ResolvedRouteSet option \<Rightarrow> Scope \<Rightarrow> Options \<Rightarrow> string \<Rightarrow> bool" where
  "inputs_utf8 routes scope opts now \<longleftrightarrow>
     (case routes of None \<Rightarrow> True | Some rs \<Rightarrow> list_all route_utf8 (Routes rs))
     \<and> scope_utf8 scope \<and> opts_utf8 opts \<and> valid_utf8 now"

lemma valid_utf8_Nil [simp]: "valid_utf8 []"
  by (simp add: valid_utf8.simps)

lemma RouteStableID_utf8:
  assumes "route_utf8 r"
  shows "valid_utf8 (RouteStableID r)"
proof -
  have "valid_utf8 ''/provider-''" by (rule valid_utf8_ascii) (simp add: byte_def)
  then have "valid_utf8 (Model r @ ''/provider-'' @ Provider r)"
    using assms unfolding route_utf8_def by (intro valid_utf8_append) simp_all
  with assms show ?thesis by (simp add: route_utf8_def RouteStableID_def CandidateStableID_def)
qed

lemma StrategyFor_utf8: "StrategyFor r = Inr (s, h) \<Longrightarrow> valid_utf8 s"
proof -
  have "valid_utf8 ''bearer_token''" "valid_utf8 ''apikey''" by (auto intro!: valid_utf8_ascii simp: byte_def)
  then show "StrategyFor r = Inr (s, h) \<Longrightarrow> valid_utf8 s"
    unfolding StrategyFor_def by (auto split: if_splits simp del: valid_utf8.simps)
qed

lemma render_candidate_ok:
  assumes "route_utf8 r" "valid_utf8 (sc_LocalSite scope)" "ok_num (sm_groups sel (route_key m r))"
    and "ok_num (sm_weights sel (route_key m r))"
  shows "ok_candidate (drop_header (render_candidate scope opts sel m r))"
proof -
  have kind: "valid_utf8 ''inference_model''" by (rule valid_utf8_ascii) (simp add: byte_def)
  have "case route_credential r of None \<Rightarrow> True | Some cr \<Rightarrow> ok_credential (cr\<lparr>cr_Header := []\<rparr>)"
    using assms(1) StrategyFor_utf8 [of r]
    by (auto simp: route_credential_def ok_credential_def ok_secret_ref_def route_utf8_def SecretRefNamespace_def
        split: sum.splits option.splits if_splits)
  then show ?thesis
    using assms RouteStableID_utf8 [OF assms(1)] kind
    by (auto simp: ok_candidate_def drop_header_def render_candidate_def Let_def route_utf8_def split: option.splits)
qed

lemma finish_candidate_ok: "ok_candidate (drop_header c) \<Longrightarrow> ok_candidate (drop_header (finish_candidate w p c))"
  by (auto simp: ok_candidate_def drop_header_def ok_num_def split: option.splits)

lemma render_overlay_ok:
  assumes "render_overlay rs scope opts = Inr ov" "inputs_utf8 (Some rs) scope opts now"
  shows "valid_utf8 (ov_Network ov) \<and> valid_utf8 (ov_LocalSite ov)
    \<and> list_all (\<lambda>c. ok_candidate (drop_header c)) (ov_Candidates ov) \<and> ok_policy (ov_SelectionPolicy ov)"
proof -
  from assms(1) obtain derived sel cands where d: "deriveSelectionMetadata rs = Inr derived"
    and sel: "sel = merge_preserved (op_PreservedCandidates opts) derived"
    and cands: "cands = op_PreservedCandidates opts
           @ concat (map (\<lambda>m. map (render_candidate scope opts sel m) (mr_Routes m)) (Models rs))"
    and ov: "ov = \<lparr>ov_Network = sc_Network scope, ov_LocalSite = sc_LocalSite scope,
           ov_Candidates = map (finish_candidate (sm_weighted sel) (op_IncludeProviderProfiles opts)) cands,
           ov_SelectionPolicy = sm_policy sel\<rparr>"
    by (rule render_overlayE)
  have nums: "ok_num (sm_groups sel k)" "ok_num (sm_weights sel k)" for k
    using derive_spec(5,6) [OF d, of k] by (fastforce simp: sel ok_num_def split: option.splits)+
  have "list_all (\<lambda>c. ok_candidate (drop_header c)) cands"
    using assms(2) nums
    by (auto simp: cands list_all_iff inputs_utf8_def opts_utf8_def scope_utf8_def Routes_def intro!: render_candidate_ok)
  then have "list_all (\<lambda>c. ok_candidate (drop_header c)) (ov_Candidates ov)"
    by (auto simp: ov list_all_iff finish_candidate_ok)
  with assms render_overlay_policy [OF assms(1)] show ?thesis
    by (simp add: ov inputs_utf8_def scope_utf8_def)
qed

lemma Render_ok_envelope:
  assumes "Render jcs routes scope prev opts = Inr env" "inputs_utf8 routes scope opts now" "rv_Generation prev \<le> max_int64"
  shows "ok_envelope (drop_headers env)"
proof -
  from assms(1) obtain rs ov digest nrev where rs: "routes = Some rs" and gen: "rv_Generation prev \<ge> 0"
    and ov: "render_overlay rs scope opts = Inr ov" and d: "ComputeDigest jcs ov = Inr digest"
    and n: "next_revision prev digest = Inr nrev" and env: "env = build_envelope scope opts ov digest nrev"
    by (rule RenderE)
  have ascii: "valid_utf8 ''content_addressed''" "valid_utf8 ''sha256''" "valid_utf8 SchemaVersion" "valid_utf8 ''dev''"
      "valid_utf8 ''ai-gateway-controller''"
    by (auto simp: SchemaVersion_def byte_def intro!: valid_utf8_ascii)
  have "valid_utf8 digest" using ComputeDigest_hex [OF d] valid_utf8_hex by blast
  moreover have "min_int64 \<le> rv_Generation nrev" "rv_Generation nrev \<le> max_int64"
    using next_revision_ok [OF n gen] gen assms(3) by (auto simp: min_int64_def split: if_splits)
  ultimately show ?thesis
    using render_overlay_ok [OF ov] assms(2) ascii
    by (auto simp: rs env build_envelope_def drop_headers_def ok_envelope_def ok_provenance_def ok_overlay_def
        inputs_utf8_def scope_utf8_def opts_utf8_def list_all_iff)
qed

subsection \<open>Content-addressed storage\<close>

text \<open>What the publisher needs of a stored document: reading back what was written yields its revision.\<close>

locale revision_store =
  fixes put :: "'e \<Rightarrow> 'd"
    and load :: "'d \<Rightarrow> Revision option"
    and sound :: "'e \<Rightarrow> bool"
    and revision :: "'e \<Rightarrow> Revision"
  assumes load_put: "sound e \<Longrightarrow> load (put e) = Some (revision e)"
    and positive: "sound e \<Longrightarrow> rv_Generation (revision e) \<ge> 1"
begin

text \<open>Accepted successors never go back: the generation grows exactly when the digest changes.\<close>

lemma accepted_successor:
  assumes "sound e" "sound e'" "CheckRevisionTransition (revision e) (revision e') = None"
  shows "rv_Generation (revision e) \<le> rv_Generation (revision e')
    \<and> (rv_Digest (revision e) = rv_Digest (revision e') \<longleftrightarrow> rv_Generation (revision e) = rv_Generation (revision e'))"
proof -
  let ?g = "rv_Generation (revision e)" and ?g' = "rv_Generation (revision e')"
  have "?g > 0" using positive [OF assms(1)] by linarith
  with assms(3) have "rv_Digest (revision e') = rv_Digest (revision e) \<Longrightarrow> ?g' = ?g"
    and "rv_Digest (revision e') \<noteq> rv_Digest (revision e) \<Longrightarrow> ?g < ?g'"
    by (simp_all add: CheckRevisionTransition_def split: if_split_asm)
  then show ?thesis by fastforce
qed

lemma self_successor: "sound e \<Longrightarrow> CheckRevisionTransition (revision e) (revision e) = None"
  using positive [of e] by (simp add: CheckRevisionTransition_def)

lemma put_determines: "sound e \<Longrightarrow> sound e' \<Longrightarrow> put e = put e' \<Longrightarrow> revision e = revision e'"
  using load_put [of e] load_put [of e'] by simp

end

text \<open>An envelope that the publisher can have written.\<close>

definition sound_envelope :: "jcs_fn \<Rightarrow> Envelope \<Rightarrow> bool" where
  "sound_envelope jcs env \<longleftrightarrow> ok_envelope (drop_headers env) \<and> rv_Generation (envelope_revision env) \<ge> 1
     \<and> ComputeDigestFromWire jcs (envelope_text env) = Inr (rf_Value (ev_Revision env))"

definition document_revision :: "jcs_fn \<Rightarrow> string \<Rightarrow> Revision option" where
  "document_revision jcs raw =
     (case read_baseline jcs \<lparr>cfg_Namespace = [], cfg_Name = [], cfg_DataKey = []\<rparr>
            \<lparr>cm_Labels = [], cm_Annotations = [], cm_Data = [([], raw)]\<rparr> of
        Inl _ \<Rightarrow> None | Inr base \<Rightarrow> Some (bl_prev base))"

lemma drop_headers_simps [simp]:
  "ev_Revision (drop_headers e) = ev_Revision e" "ev_Provenance (drop_headers e) = ev_Provenance e"
  "envelope_revision (drop_headers e) = envelope_revision e"
  by (simp_all add: drop_headers_def envelope_revision_def)

lemma read_baseline_sound:
  assumes "map_of (cm_Data cm) (cfg_DataKey cfg) = Some (envelope_text env)" "sound_envelope jcs env"
  shows "read_baseline jcs cfg cm = Inr \<lparr>bl_prev = envelope_revision env, bl_data = envelope_text env,
           bl_renderedAt = pv_RenderedAt (ev_Provenance env)\<rparr>"
  using assms by (simp add: read_baseline_def sound_envelope_def unmarshal_envelope_text)

interpretation store: revision_store envelope_text "document_revision jcs" "sound_envelope jcs" envelope_revision for jcs
  by unfold_locales (simp_all add: document_revision_def read_baseline_sound sound_envelope_def)

subsection \<open>One publication\<close>

lemma stamp_simps [simp]:
  "ev_Overlay (stamp found base opts now env) = ev_Overlay env"
  "ev_Revision (stamp found base opts now env) = ev_Revision env"
  "envelope_revision (stamp found base opts now env) = envelope_revision env"
  by (simp_all add: stamp_def envelope_revision_def)

lemma stamp_ok:
  assumes "ok_envelope (drop_headers env)" "valid_utf8 now" "valid_utf8 (bl_renderedAt base)"
  shows "ok_envelope (drop_headers (stamp found base opts now env))"
  using assms by (auto simp: stamp_def drop_headers_def ok_envelope_def ok_provenance_def)

lemma stamp_sound:
  assumes "Render jcs routes scope (bl_prev base) opts = Inr env" "inputs_utf8 routes scope opts now"
    and "rv_Generation (bl_prev base) \<le> max_int64" "valid_utf8 (bl_renderedAt base)"
  shows "sound_envelope jcs (stamp found base opts now env)"
proof -
  from assms(1) obtain rs ov digest nrev where gen: "rv_Generation (bl_prev base) \<ge> 0"
    and ov: "render_overlay rs scope opts = Inr ov" and d: "ComputeDigest jcs ov = Inr digest"
    and n: "next_revision (bl_prev base) digest = Inr nrev" and env: "env = build_envelope scope opts ov digest nrev"
    by (rule RenderE)
  have "ComputeDigestFromWire jcs (envelope_text (stamp found base opts now env)) = Inr digest"
    using ComputeDigestFromWire_text [of "stamp found base opts now env" jcs] render_overlay_policy [OF ov] d
    by (simp add: env)
  moreover have "rv_Generation nrev \<ge> 1" using next_revision_ok(2) [OF n gen] gen by (simp split: if_splits)
  moreover have "ok_envelope (drop_headers (stamp found base opts now env))"
    using stamp_ok Render_ok_envelope [OF assms(1,2,3)] assms(2,4) by (auto simp: inputs_utf8_def)
  ultimately show ?thesis by (simp add: sound_envelope_def env)
qed

lemma Render_transition:
  "Render jcs routes scope prev opts = Inr env \<Longrightarrow> CheckRevisionTransition prev (envelope_revision env) = None"
proof -
  assume "Render jcs routes scope prev opts = Inr env"
  then obtain rs ov digest nrev where "rv_Generation prev \<ge> 0" "next_revision prev digest = Inr nrev"
    "env = build_envelope scope opts ov digest nrev"
    by (rule RenderE)
  then show ?thesis using next_revision_ok(1,3) by (metis (full_types) build_envelope_simps(1) Revision.surjective old.unit.exhaust)
qed

text \<open>The second guard of \<open>Publish\<close> never fires: what \<open>Render\<close> returns passes \<open>CheckRevisionTransition\<close>.\<close>

lemma publish_next_eq:
  "publish_next jcs cfg now applied found base routes scope opts =
     (case Render jcs routes scope (bl_prev base) opts of
        Inl e \<Rightarrow> (Inl (ErrRender e), None)
      | Inr env0 \<Rightarrow>
          (let env = stamp found base opts now env0 in
           if found \<and> envelope_text env = bl_data base
           then (Inr \<lparr>res_Envelope = env, res_Created = False, res_Updated = False, res_Unchanged = True\<rparr>, None)
           else (case applied of
                   Some e \<Rightarrow> (Inl (ErrApply e), Some (apply_config cfg env))
                 | None \<Rightarrow> (Inr \<lparr>res_Envelope = env, res_Created = \<not> found, res_Updated = found,
                                  res_Unchanged = False\<rparr>, Some (apply_config cfg env)))))"
  by (cases "Render jcs routes scope (bl_prev base) opts")
    (auto simp: publish_next_def Let_def Render_transition)

subsection \<open>All histories of the ConfigMap\<close>

text \<open>The API server: a read may fail, else it returns the stored object; a successful apply leaves the applied data key
  in the stored object (other fields are not constrained); a failed apply may or may not have taken effect.\<close>

definition reads :: "ConfigMap option \<Rightarrow> ConfigMap get_result \<Rightarrow> bool" where
  "reads st got \<longleftrightarrow> got = (case st of None \<Rightarrow> GetNotFound | Some cm \<Rightarrow> GetOk cm) \<or> (\<exists>e. got = GetError e)"

definition stored :: "Config \<Rightarrow> ConfigMap \<Rightarrow> ConfigMap option \<Rightarrow> bool" where
  "stored cfg req st \<longleftrightarrow> (\<exists>cm. st = Some cm \<and> map_of (cm_Data cm) (cfg_DataKey cfg) = map_of (cm_Data req) (cfg_DataKey cfg))"

inductive publish_step :: "jcs_fn \<Rightarrow> Config \<Rightarrow> ConfigMap option \<Rightarrow> ConfigMap option \<Rightarrow> bool" for jcs cfg where
  quiet: "reads st got \<Longrightarrow> snd (Publish jcs cfg now got applied routes scope opts) = None \<Longrightarrow> publish_step jcs cfg st st"
| apply_done: "reads st got \<Longrightarrow> inputs_utf8 routes scope opts now \<Longrightarrow>
    snd (Publish jcs cfg now got applied routes scope opts) = Some req \<Longrightarrow> stored cfg req st' \<Longrightarrow>
    publish_step jcs cfg st st'"
| apply_lost: "reads st got \<Longrightarrow> snd (Publish jcs cfg now got (Some e) routes scope opts) = Some req \<Longrightarrow>
    publish_step jcs cfg st st"

inductive publish_reachable :: "jcs_fn \<Rightarrow> Config \<Rightarrow> ConfigMap option \<Rightarrow> bool" for jcs cfg where
  start: "publish_reachable jcs cfg None"
| step: "publish_reachable jcs cfg st \<Longrightarrow> publish_step jcs cfg st st' \<Longrightarrow> publish_reachable jcs cfg st'"

inductive_cases publish_stepE: "publish_step jcs cfg st st'"

definition holds_sound :: "jcs_fn \<Rightarrow> Config \<Rightarrow> ConfigMap option \<Rightarrow> bool" where
  "holds_sound jcs cfg st \<longleftrightarrow>
     (\<forall>cm. st = Some cm \<longrightarrow> (\<exists>env. sound_envelope jcs env \<and> map_of (cm_Data cm) (cfg_DataKey cfg) = Some (envelope_text env)))"

lemma apply_config_text [simp]: "map_of (cm_Data (apply_config cfg env)) (cfg_DataKey cfg) = Some (envelope_text env)"
  by (simp add: apply_config_def)

lemma sound_baseline:
  assumes "sound_envelope jcs env"
  shows "rv_Generation (envelope_revision env) \<le> max_int64" "valid_utf8 (pv_RenderedAt (ev_Provenance env))"
  using assms by (simp_all add: sound_envelope_def ok_envelope_def ok_provenance_def envelope_revision_def)

text \<open>What a request of \<open>Publish\<close> carries: a sound envelope that succeeds the stored one.\<close>

lemma publish_next_request:
  assumes "snd (publish_next jcs cfg now applied found base routes scope opts) = Some req"
    and "inputs_utf8 routes scope opts now" "rv_Generation (bl_prev base) \<le> max_int64" "valid_utf8 (bl_renderedAt base)"
  shows "\<exists>env. req = apply_config cfg env \<and> sound_envelope jcs env
    \<and> CheckRevisionTransition (bl_prev base) (envelope_revision env) = None
    \<and> (\<forall>r. fst (publish_next jcs cfg now applied found base routes scope opts) = Inr r \<longrightarrow> res_Envelope r = env)"
proof -
  from assms(1) obtain env0 where r: "Render jcs routes scope (bl_prev base) opts = Inr env0"
    and req: "req = apply_config cfg (stamp found base opts now env0)"
    and res: "\<forall>x. fst (publish_next jcs cfg now applied found base routes scope opts) = Inr x \<longrightarrow>
      res_Envelope x = stamp found base opts now env0"
    by (auto simp: publish_next_eq Let_def split: sum.splits if_splits option.splits)
  show ?thesis
    using req res stamp_sound [OF r assms(2-4)] Render_transition [OF r]
    by (intro exI [of _ "stamp found base opts now env0"]) simp
qed

lemma publish_request:
  assumes "reads st got" "holds_sound jcs cfg st" "inputs_utf8 routes scope opts now"
    and "snd (Publish jcs cfg now got applied routes scope opts) = Some req"
  shows "\<exists>env. req = apply_config cfg env \<and> sound_envelope jcs env
    \<and> (\<forall>r. fst (Publish jcs cfg now got applied routes scope opts) = Inr r \<longrightarrow> res_Envelope r = env)
    \<and> (\<forall>cm base. st = Some cm \<and> read_baseline jcs cfg cm = Inr base \<longrightarrow>
         CheckRevisionTransition (bl_prev base) (envelope_revision env) = None)"
proof (cases st)
  case None
  with assms have pub: "Publish jcs cfg now got applied routes scope opts
      = publish_next jcs cfg now applied False no_baseline routes scope opts"
    by (auto simp: reads_def Publish_def)
  show ?thesis
    using publish_next_request [of jcs cfg now applied False no_baseline routes scope opts req] assms pub None
    by (auto simp: no_baseline_def max_int64_def)
next
  case (Some cm)
  with assms(2) obtain cur where cur: "sound_envelope jcs cur"
    and txt_eq: "map_of (cm_Data cm) (cfg_DataKey cfg) = Some (envelope_text cur)"
    by (auto simp: holds_sound_def)
  let ?base = "\<lparr>bl_prev = envelope_revision cur, bl_data = envelope_text cur,
           bl_renderedAt = pv_RenderedAt (ev_Provenance cur)\<rparr>"
  have base: "read_baseline jcs cfg cm = Inr ?base" using txt_eq cur by (rule read_baseline_sound)
  with assms Some have pub: "Publish jcs cfg now got applied routes scope opts
      = publish_next jcs cfg now applied True ?base routes scope opts"
    by (auto simp: reads_def Publish_def)
  show ?thesis
    using publish_next_request [of jcs cfg now applied True ?base routes scope opts req] assms pub Some base
      sound_baseline [OF cur] by auto
qed

lemma publish_step_sound:
  assumes "publish_step jcs cfg st st'" "holds_sound jcs cfg st"
  shows "holds_sound jcs cfg st'"
  using assms
proof cases
  case (apply_done got routes scope opts now applied req)
  from publish_request [OF apply_done(1) assms(2) apply_done(2,3)]
  obtain env where "req = apply_config cfg env" "sound_envelope jcs env" by blast
  with apply_done(4) show ?thesis by (auto simp: holds_sound_def stored_def)
qed simp_all

lemma publish_reachable_sound: "publish_reachable jcs cfg st \<Longrightarrow> holds_sound jcs cfg st"
proof (induction rule: publish_reachable.induct)
  case start
  then show ?case by (simp add: holds_sound_def)
next
  case (step st st')
  then show ?case using publish_step_sound by blast
qed


subsection \<open>Publishing again\<close>

lemma Render_again:
  assumes "Render jcs routes scope prev opts = Inr env"
  shows "Render jcs routes scope (envelope_revision env) opts = Inr env"
proof -
  from assms obtain rs ov digest nrev where rs: "routes = Some rs" and gen: "rv_Generation prev \<ge> 0"
    and ov: "render_overlay rs scope opts = Inr ov" and d: "ComputeDigest jcs ov = Inr digest"
    and n: "next_revision prev digest = Inr nrev" and env: "env = build_envelope scope opts ov digest nrev"
    by (rule RenderE)
  have "rv_Generation nrev \<ge> 1" and dig: "rv_Digest nrev = digest"
    using next_revision_ok(1,2) [OF n gen] gen by (auto split: if_splits)
  then have "next_revision (envelope_revision env) digest = Inr nrev"
    by (cases nrev) (simp add: next_revision_def env)
  with assms \<open>rv_Generation nrev \<ge> 1\<close> show ?thesis
    by (auto simp: Render_def rs ov d env split: if_splits)
qed

lemma stamp_again:
  assumes "op_RenderedAt opts = []" "env = stamp found base opts now env0" "bl_prev base' = envelope_revision env"
    and "bl_renderedAt base' = pv_RenderedAt (ev_Provenance env)"
  shows "stamp True base' opts now' env0 = env"
  using assms by (simp add: stamp_def envelope_revision_def)

lemma publish_next_again:
  assumes "publish_next jcs cfg now applied found base routes scope opts = (Inr r, Some req)"
    and "op_RenderedAt opts = []" and "env = res_Envelope r"
  shows "publish_next jcs cfg now' applied' True \<lparr>bl_prev = envelope_revision env, bl_data = envelope_text env,
        bl_renderedAt = pv_RenderedAt (ev_Provenance env)\<rparr> routes scope opts =
      (Inr \<lparr>res_Envelope = env, res_Created = False, res_Updated = False, res_Unchanged = True\<rparr>, None)"
proof -
  from assms(1,3) obtain env0 where r: "Render jcs routes scope (bl_prev base) opts = Inr env0"
    and env: "env = stamp found base opts now env0"
    by (auto simp: publish_next_eq Let_def split: sum.splits if_splits option.splits)
  have "Render jcs routes scope (envelope_revision env) opts = Inr env0"
    using Render_again [OF r] by (simp add: env)
  moreover have "stamp True \<lparr>bl_prev = envelope_revision env, bl_data = envelope_text env,
        bl_renderedAt = pv_RenderedAt (ev_Provenance env)\<rparr> opts now' env0 = env"
    by (rule stamp_again [OF assms(2) env]) simp_all
  ultimately show ?thesis by (simp add: publish_next_eq Let_def)
qed

subsection \<open>Properties\<close>

definition sample_cfg :: Config where
  "sample_cfg = \<lparr>cfg_Namespace = ''praxis'', cfg_Name = DefaultName, cfg_DataKey = DefaultDataKey\<rparr>"

definition sample_now :: string where
  "sample_now = ''2026-01-01T00:00:00Z''"

abbreviation sample_publish :: "ConfigMap get_result \<Rightarrow> string option \<Rightarrow> (PublishError, Result) res \<times> ConfigMap option" where
  "sample_publish got applied \<equiv> Publish Some sample_cfg sample_now got applied (Some sample_serving) sample_scope sample_opts"

definition sample_cm :: ConfigMap where
  "sample_cm = the (snd (sample_publish GetNotFound None))"

definition sample_result :: Result where
  "sample_result = the_ok undefined (fst (sample_publish GetNotFound None))"

lemma sample_first: "sample_publish GetNotFound None = (Inr sample_result, Some sample_cm)"
proof -
  have "is_ok (Render Some (Some sample_serving) sample_scope (bl_prev no_baseline) sample_opts)"
    by (rule Render_succeeds [OF _ _ _ sample_overlay_ok])
      (simp_all add: scope_complete_def sample_scope_def no_baseline_def max_int64_def)
  then show ?thesis
    by (auto simp: sample_cm_def sample_result_def Publish_def publish_next_eq Let_def is_ok_iff)
qed

lemma sample_inputs: "inputs_utf8 (Some sample_serving) sample_scope sample_opts sample_now"
  by code_simp

lemma sample_step: "publish_step Some sample_cfg None (Some sample_cm)"
  using sample_first sample_inputs
  by (intro apply_done [where got = GetNotFound and applied = None and req = sample_cm])
    (auto simp: reads_def stored_def)

lemma sample_reachable: "publish_reachable Some sample_cfg (Some sample_cm)"
  using sample_step by (auto intro: publish_reachable.intros)

text \<open>C6. The publisher can always chain from its own output: in every ConfigMap reachable by calls of \<open>Publish\<close> with
  arbitrary route sets, scopes and options, failed reads and failed or lost writes, the stored envelope parses, hashes to
  the digest it declares and has a positive generation, so it is never reported as tampered.\<close>

theorem publisher_baseline_trusted:
  assumes "publish_reachable jcs cfg (Some cm)"
  shows "\<exists>base. read_baseline jcs cfg cm = Inr base \<and> rv_Generation (bl_prev base) \<ge> 1"
proof -
  from publish_reachable_sound [OF assms] obtain env where env: "sound_envelope jcs env"
    "map_of (cm_Data cm) (cfg_DataKey cfg) = Some (envelope_text env)"
    by (auto simp: holds_sound_def)
  then show ?thesis using read_baseline_sound [OF env(2,1)] store.positive [OF env(1)] by simp
qed

theorem publisher_baseline_trusted_witness:
  "\<exists>base. read_baseline Some sample_cfg sample_cm = Inr base \<and> rv_Generation (bl_prev base) \<ge> 1"
  by (rule publisher_baseline_trusted [OF sample_reachable])




text \<open>Publishing is idempotent: after a publication that wrote the ConfigMap, publishing the same route set, scope and
  options again, at any later time, finds the bytes unchanged and sends no request, provided the caller leaves the render time
  to the publisher.\<close>

theorem Publish_idempotent:
  assumes "Publish jcs cfg now got applied routes scope opts = (Inr r, Some req)" and "op_RenderedAt opts = []"
    and "reads st got" and "holds_sound jcs cfg st" and "inputs_utf8 routes scope opts now"
    and "stored cfg req (Some cm')"
  shows "Publish jcs cfg now' (GetOk cm') applied' routes scope opts =
    (Inr \<lparr>res_Envelope = res_Envelope r, res_Created = False, res_Updated = False, res_Unchanged = True\<rparr>, None)"
proof -
  from assms(1) obtain found base where "publish_next jcs cfg now applied found base routes scope opts = (Inr r, Some req)"
    by (auto simp: Publish_def split: get_result.splits sum.splits)
  then have again: "publish_next jcs cfg now' applied' True \<lparr>bl_prev = envelope_revision (res_Envelope r),
        bl_data = envelope_text (res_Envelope r), bl_renderedAt = pv_RenderedAt (ev_Provenance (res_Envelope r))\<rparr> routes scope opts =
      (Inr \<lparr>res_Envelope = res_Envelope r, res_Created = False, res_Updated = False, res_Unchanged = True\<rparr>, None)"
    using assms(2) by (rule publish_next_again) simp
  have "snd (Publish jcs cfg now got applied routes scope opts) = Some req" using assms(1) by simp
  from publish_request [OF assms(3-5) this] assms(1)
  obtain env where req: "req = apply_config cfg env" "sound_envelope jcs env" and env: "res_Envelope r = env" by auto
  have "map_of (cm_Data cm') (cfg_DataKey cfg) = Some (envelope_text env)"
    using assms(6) req(1) by (auto simp: stored_def)
  then show ?thesis using read_baseline_sound [of cm' cfg env jcs] req(2) again by (simp add: Publish_def env)
qed

theorem Publish_idempotent_witness:
  "sample_publish (GetOk sample_cm) (Some ''conflict'') =
     (Inr \<lparr>res_Envelope = res_Envelope sample_result, res_Created = False, res_Updated = False, res_Unchanged = True\<rparr>, None)"
  by (rule Publish_idempotent [OF sample_first _ _ _ sample_inputs, where st = None])
    (simp_all add: sample_opts_def reads_def holds_sound_def stored_def)

text \<open>C8. A modified baseline is refused without a write: when the stored document does not parse, cannot be hashed or does
  not hash to the digest it declares, \<open>Publish\<close> returns an error and sends no request; and in general an error other than
  a failed apply never follows a request.\<close>

theorem Publish_refuses_tampered:
  assumes "map_of (cm_Data cm) (cfg_DataKey cfg) = Some raw"
    and "\<And>env. unmarshal dec_envelope raw = Inr env \<Longrightarrow> ComputeDigestFromWire jcs raw \<noteq> Inr (rf_Value (ev_Revision env))"
  shows "\<exists>e. Publish jcs cfg now (GetOk cm) applied routes scope opts = (Inl e, None)
    \<and> ((\<exists>x. e = ErrTamperedParse x) \<or> (\<exists>x. e = ErrTamperedWire x) \<or> (\<exists>x y. e = ErrTamperedDigest x y))"
proof (cases "unmarshal dec_envelope raw")
  case (Inl e)
  with assms(1) show ?thesis by (simp add: Publish_def read_baseline_def)
next
  case (Inr env)
  with assms show ?thesis
    by (cases "ComputeDigestFromWire jcs raw") (auto simp: Publish_def read_baseline_def)
qed

definition tampered_cm :: ConfigMap where
  "tampered_cm = \<lparr>cm_Labels = [], cm_Annotations = [], cm_Data = [(DefaultDataKey, ''{}'')]\<rparr>"

lemma tampered_parse: "json_parse ''{}'' = Some (JObj [])"
  by code_simp

theorem Publish_refuses_tampered_witness:
  "\<exists>e. Publish Some sample_cfg sample_now (GetOk tampered_cm) None (Some sample_serving) sample_scope sample_opts = (Inl e, None)
    \<and> ((\<exists>x. e = ErrTamperedParse x) \<or> (\<exists>x. e = ErrTamperedWire x) \<or> (\<exists>x y. e = ErrTamperedDigest x y))"
proof (rule Publish_refuses_tampered [where raw = "''{}''"])
  show "map_of (cm_Data tampered_cm) (cfg_DataKey sample_cfg) = Some ''{}''"
    by (simp add: tampered_cm_def sample_cfg_def)
  have "ComputeDigestFromWire Some ''{}'' = Inr (sha256_hex (marshal (j_obj [])))"
    by (simp add: ComputeDigestFromWire_def unmarshal_def tampered_parse dec_raw_map_def wire_filtered_def)
  moreover have "unmarshal dec_envelope ''{}'' = Inr zero_envelope"
    by (simp add: unmarshal_def tampered_parse dec_envelope_def dec_fields_def)
  ultimately show "ComputeDigestFromWire Some ''{}'' \<noteq> Inr (rf_Value (ev_Revision env))"
    if "unmarshal dec_envelope ''{}'' = Inr env" for env
    using that sha.digest_not_empty by (auto simp: zero_envelope_def)
qed

text \<open>Requests and outcomes agree: \<open>Publish\<close> sends a request exactly when it reports a creation, an update or a failed
  apply; an unchanged result, a failed read, a refused baseline and a failed rendering leave the ConfigMap alone. The request carries the
  envelope of the result under the configured key, and the annotations mirror its generation and digest.\<close>

theorem Publish_request_outcome:
  "(snd (Publish jcs cfg now got applied routes scope opts) \<noteq> None) =
     (case fst (Publish jcs cfg now got applied routes scope opts) of
        Inl e \<Rightarrow> (\<exists>x. e = ErrApply x)
      | Inr r \<Rightarrow> (res_Created r \<or> res_Updated r) \<and> \<not> res_Unchanged r
                 \<and> snd (Publish jcs cfg now got applied routes scope opts) = Some (apply_config cfg (res_Envelope r)))"
proof -
  have "\<And>x. read_baseline jcs cfg cm \<noteq> Inl (ErrApply x)" for cm
    by (auto simp: read_baseline_def split: option.splits sum.splits if_splits)
  then show ?thesis
    by (auto simp: Publish_def publish_next_eq Let_def split: get_result.splits sum.splits option.splits if_splits)
qed

end
