(* ===== verification/Unstructured.thy ===== *)
theory Unstructured
  imports ApiTypes
begin

text \<open>
  Objects that the controllers handle as \<open>map[string]any\<close>. A value is what decoding JSON into \<open>any\<close> yields through the API
  machinery. The access functions of the package \<open>k8s.io/apimachinery/pkg/apis/meta/v1/unstructured\<close> are not part of the
  repository: they are the fields of \<open>unstr_lib\<close>, and the definitions that use them take the record as an argument. Each returns an
  error, or the value if the path was found. What the package documents of them is \<open>nested_doc\<close>.
\<close>

datatype uval =
    UNull
  | UBool bool
  | UInt int
  | UFloat string
  | UStr string
  | UList "uval list"
  | UMap "(string \<times> uval) list"

type_synonym umap = "(string \<times> uval) list"

record unstr_lib =
  NestedSlice :: "umap \<Rightarrow> string list \<Rightarrow> (string, uval list option) res"
  NestedString :: "umap \<Rightarrow> string list \<Rightarrow> (string, string option) res"
  NestedInt64 :: "umap \<Rightarrow> string list \<Rightarrow> (string, int option) res"
  NestedBool :: "umap \<Rightarrow> string list \<Rightarrow> (string, bool option) res"
  NestedMap :: "umap \<Rightarrow> string list \<Rightarrow> (string, umap option) res"

text \<open>The value at a path; \<open>None\<close> when a step is missing, an error when a step is not a map.\<close>

fun at_path :: "umap \<Rightarrow> string list \<Rightarrow> (unit, uval option) res" where
  "at_path m [] = Inr (Some (UMap m))"
| "at_path m [k] = Inr (map_of m k)"
| "at_path m (k # k' # ks) =
     (case map_of m k of
        None \<Rightarrow> Inr None
      | Some v \<Rightarrow> (case v of UMap m' \<Rightarrow> at_path m' (k' # ks) | UNull \<Rightarrow> Inr None | _ \<Rightarrow> Inl ()))"

definition nested_typed :: "(uval \<Rightarrow> 'a option) \<Rightarrow> umap \<Rightarrow> string list \<Rightarrow> (string, 'a option) res \<Rightarrow> bool" where
  "nested_typed cast m path r \<longleftrightarrow>
     (case at_path m path of
        Inl _ \<Rightarrow> \<not> is_ok r
      | Inr None \<Rightarrow> r = Inr None
      | Inr (Some v) \<Rightarrow> (case cast v of None \<Rightarrow> \<not> is_ok r | Some x \<Rightarrow> r = Inr (Some x)))"

fun as_list :: "uval \<Rightarrow> uval list option" where
  "as_list (UList xs) = Some xs" | "as_list _ = None"

fun as_str :: "uval \<Rightarrow> string option" where
  "as_str (UStr s) = Some s" | "as_str _ = None"

fun as_int :: "uval \<Rightarrow> int option" where
  "as_int (UInt i) = Some i" | "as_int _ = None"

fun as_bool :: "uval \<Rightarrow> bool option" where
  "as_bool (UBool b) = Some b" | "as_bool _ = None"

fun as_map :: "uval \<Rightarrow> umap option" where
  "as_map (UMap m) = Some m" | "as_map _ = None"

definition nested_doc :: "unstr_lib \<Rightarrow> bool" where
  "nested_doc u \<longleftrightarrow>
     (\<forall>m p. nested_typed as_list m p (NestedSlice u m p) \<and> nested_typed as_str m p (NestedString u m p)
        \<and> nested_typed as_int m p (NestedInt64 u m p) \<and> nested_typed as_bool m p (NestedBool u m p)
        \<and> nested_typed as_map m p (NestedMap u m p))"

text \<open>Uses that drop the error: the zero value stands for a missing or mistyped field.\<close>

definition slice_or_nil :: "unstr_lib \<Rightarrow> umap \<Rightarrow> string list \<Rightarrow> uval list" where
  "slice_or_nil u m path = (case NestedSlice u m path of Inr (Some xs) \<Rightarrow> xs | _ \<Rightarrow> [])"

text \<open>\<open>for _, raw := range xs { m, ok := raw.(map[string]any); if !ok { continue } ... }\<close>\<close>

definition maps_of :: "uval list \<Rightarrow> umap list" where
  "maps_of xs = List.map_filter as_map xs"

text \<open>\<open>s, _ := m[k].(string)\<close>\<close>

definition str_or_empty :: "umap \<Rightarrow> string \<Rightarrow> string" where
  "str_or_empty m k = (case map_of m k of Some (UStr s) \<Rightarrow> s | _ \<Rightarrow> [])"

subsection \<open>An implementation of the documented behaviour\<close>

definition nested_ref :: "(uval \<Rightarrow> 'a option) \<Rightarrow> umap \<Rightarrow> string list \<Rightarrow> (string, 'a option) res" where
  "nested_ref cast m path =
     (case at_path m path of
        Inl _ \<Rightarrow> Inl ''accessor error''
      | Inr None \<Rightarrow> Inr None
      | Inr (Some v) \<Rightarrow> (case cast v of None \<Rightarrow> Inl ''accessor error'' | Some x \<Rightarrow> Inr (Some x)))"

definition ref_unstr :: unstr_lib where
  "ref_unstr = \<lparr>NestedSlice = nested_ref as_list, NestedString = nested_ref as_str, NestedInt64 = nested_ref as_int,
     NestedBool = nested_ref as_bool, NestedMap = nested_ref as_map\<rparr>"

lemma nested_ref_typed: "nested_typed cast m p (nested_ref cast m p)"
  by (auto simp: nested_typed_def nested_ref_def split: sum.splits option.splits)

lemma ref_unstr_doc: "nested_doc ref_unstr"
  by (simp add: nested_doc_def ref_unstr_def nested_ref_typed)

subsection \<open>Lookups under the documented behaviour\<close>

lemma nested_docD:
  assumes "nested_doc u"
  shows "nested_typed as_list m p (NestedSlice u m p)" "nested_typed as_str m p (NestedString u m p)"
    "nested_typed as_int m p (NestedInt64 u m p)" "nested_typed as_bool m p (NestedBool u m p)"
    "nested_typed as_map m p (NestedMap u m p)"
  using assms by (simp_all add: nested_doc_def)

lemma slice_doc: "nested_doc u \<Longrightarrow> at_path m p = Inr (Some (UList xs)) \<Longrightarrow> NestedSlice u m p = Inr (Some xs)"
  using nested_docD(1) [of u m p] by (simp add: nested_typed_def)

lemma string_doc: "nested_doc u \<Longrightarrow> at_path m p = Inr (Some (UStr s)) \<Longrightarrow> NestedString u m p = Inr (Some s)"
  using nested_docD(2) [of u m p] by (simp add: nested_typed_def)

lemma int_doc: "nested_doc u \<Longrightarrow> at_path m p = Inr (Some (UInt i)) \<Longrightarrow> NestedInt64 u m p = Inr (Some i)"
  using nested_docD(3) [of u m p] by (simp add: nested_typed_def)

lemma slice_or_nil_doc: "nested_doc u \<Longrightarrow> at_path m p = Inr (Some (UList xs)) \<Longrightarrow> slice_or_nil u m p = xs"
  by (simp add: slice_or_nil_def slice_doc)

end
