(* ===== verification/RuntimeProfiles.thy ===== *)
theory RuntimeProfiles
  imports Unstructured Envelope
begin

text \<open>
  Provider profiles retained on applied HTTPRoutes, \<open>src/pkg/tenant/runtime_inputs.go\<close>, and the runtime candidates of
  \<open>src/pkg/tenant/extproc.go\<close>. An HTTPRoute is read through the accessors of \<open>unstructured.Unstructured\<close>; \<open>hr_Controller\<close> is what
  \<open>metav1.GetControllerOf\<close> returns: kind, name and API version of the controlling owner.
\<close>

record HTTPRoute =
  hr_Name :: string
  hr_Namespace :: string
  hr_Labels :: str_map
  hr_Annotations :: str_map
  hr_Controller :: "(string \<times> string \<times> string) option"
  hr_Object :: umap

definition AnnotationHomeRuntimeRoutes :: string where
  "AnnotationHomeRuntimeRoutes = ''inference.opendatahub.io/home-runtime-routes''"

definition externalModelLabel :: string where
  "externalModelLabel = ''inference.opendatahub.io/external-model''"

datatype ProfileError =
    ErrListHomeRoutes string
  | ErrDecodeProfiles json_error
  | ErrProfileFields
  | ErrProfileMismatch
  | ErrRuntimeRoutesRequired
  | ErrRuntimeCredential string string StrategyError

subsection \<open>Decoding\<close>

definition zero_route :: Route where
  "zero_route = \<lparr>Model = [], ClientName = [], Namespace = [], Provider = [], ProviderNamespace = [], ProviderType = [],
     Cluster = [], Endpoint = [], Port = 0, TLSCACertificates = [], TLSCredentialName = [], TargetModel = [],
     APIFormat = [], Path = [], APITranslationEnabled = False, Weight = 0, AuthType = [], SecretName = [], SecretKey = [],
     StableID = [], SecretNamespace = []\<rparr>"

definition route_fields :: "string list" where
  "route_fields = [''Model'', ''ClientName'', ''Namespace'', ''Provider'', ''ProviderNamespace'', ''ProviderType'', ''Cluster'',
     ''Endpoint'', ''Port'', ''TLSCACertificates'', ''TLSCredentialName'', ''TargetModel'', ''APIFormat'', ''Path'',
     ''APITranslationEnabled'', ''Weight'', ''AuthType'', ''SecretName'', ''SecretKey'', ''StableID'', ''SecretNamespace'']"

definition upd_route :: "string \<Rightarrow> json \<Rightarrow> Route \<Rightarrow> (json_error, Route) res" where
  "upd_route k v r =
     (if k = ''Model'' then bind_res (dec_str v (Model r)) (\<lambda>x. Inr (r\<lparr>Model := x\<rparr>))
      else if k = ''ClientName'' then bind_res (dec_str v (ClientName r)) (\<lambda>x. Inr (r\<lparr>ClientName := x\<rparr>))
      else if k = ''Namespace'' then bind_res (dec_str v (Namespace r)) (\<lambda>x. Inr (r\<lparr>Namespace := x\<rparr>))
      else if k = ''Provider'' then bind_res (dec_str v (Provider r)) (\<lambda>x. Inr (r\<lparr>Provider := x\<rparr>))
      else if k = ''ProviderNamespace'' then bind_res (dec_str v (ProviderNamespace r)) (\<lambda>x. Inr (r\<lparr>ProviderNamespace := x\<rparr>))
      else if k = ''ProviderType'' then bind_res (dec_str v (ProviderType r)) (\<lambda>x. Inr (r\<lparr>ProviderType := x\<rparr>))
      else if k = ''Cluster'' then bind_res (dec_str v (Cluster r)) (\<lambda>x. Inr (r\<lparr>Cluster := x\<rparr>))
      else if k = ''Endpoint'' then bind_res (dec_str v (Endpoint r)) (\<lambda>x. Inr (r\<lparr>Endpoint := x\<rparr>))
      else if k = ''Port'' then bind_res (dec_int64 v (Port r)) (\<lambda>x. Inr (r\<lparr>Port := x\<rparr>))
      else if k = ''TLSCACertificates'' then bind_res (dec_str v (TLSCACertificates r)) (\<lambda>x. Inr (r\<lparr>TLSCACertificates := x\<rparr>))
      else if k = ''TLSCredentialName'' then bind_res (dec_str v (TLSCredentialName r)) (\<lambda>x. Inr (r\<lparr>TLSCredentialName := x\<rparr>))
      else if k = ''TargetModel'' then bind_res (dec_str v (TargetModel r)) (\<lambda>x. Inr (r\<lparr>TargetModel := x\<rparr>))
      else if k = ''APIFormat'' then bind_res (dec_str v (APIFormat r)) (\<lambda>x. Inr (r\<lparr>APIFormat := x\<rparr>))
      else if k = ''Path'' then bind_res (dec_str v (Path r)) (\<lambda>x. Inr (r\<lparr>Path := x\<rparr>))
      else if k = ''APITranslationEnabled'' then
        bind_res (dec_bool v (APITranslationEnabled r)) (\<lambda>x. Inr (r\<lparr>APITranslationEnabled := x\<rparr>))
      else if k = ''Weight'' then bind_res (dec_int64 v (Weight r)) (\<lambda>x. Inr (r\<lparr>Weight := x\<rparr>))
      else if k = ''AuthType'' then bind_res (dec_str v (AuthType r)) (\<lambda>x. Inr (r\<lparr>AuthType := x\<rparr>))
      else if k = ''SecretName'' then bind_res (dec_str v (SecretName r)) (\<lambda>x. Inr (r\<lparr>SecretName := x\<rparr>))
      else if k = ''SecretKey'' then bind_res (dec_str v (SecretKey r)) (\<lambda>x. Inr (r\<lparr>SecretKey := x\<rparr>))
      else if k = ''StableID'' then bind_res (dec_str v (StableID r)) (\<lambda>x. Inr (r\<lparr>StableID := x\<rparr>))
      else bind_res (dec_str v (SecretNamespace r)) (\<lambda>x. Inr (r\<lparr>SecretNamespace := x\<rparr>)))"

definition dec_route :: "json \<Rightarrow> (json_error, Route) res" where
  "dec_route j = dec_fields route_fields upd_route j zero_route"

definition dec_profiles :: "json \<Rightarrow> (json_error, Route list) res" where
  "dec_profiles = dec_list dec_route"

subsection \<open>Validation\<close>

definition validHomeRuntimeProfile :: "k8s_lib \<Rightarrow> Route \<Rightarrow> string \<Rightarrow> bool" where
  "validHomeRuntimeProfile lib profile namespace =
     (if IsDNS1123Subdomain lib (Model profile) \<noteq> [] \<or> IsDNS1123Subdomain lib (Provider profile) \<noteq> []
         \<or> Cluster profile \<noteq> ServiceName profile \<or> SecretNamespace profile \<noteq> [] \<and> SecretNamespace profile \<noteq> namespace
      then False
      else if StableID profile \<noteq> [] \<and> StableID profile \<noteq> CandidateStableID (Model profile) (Provider profile) then False
      else if SecretName profile \<noteq> [] \<and> IsDNS1123Subdomain lib (SecretName profile) \<noteq> [] then False
      else if SecretKey profile \<noteq> [] \<and> SecretKey profile \<noteq> ''api-key'' then False
      else if AuthType profile \<noteq> [] \<and> (SecretName profile = [] \<or> SecretKey profile \<noteq> ''api-key'') then False
      else True)"

definition matchesRuntimeIdentity :: "unstr_lib \<Rightarrow> uval list \<Rightarrow> string \<Rightarrow> bool" where
  "matchesRuntimeIdentity u matches stableID =
     list_ex (\<lambda>m. list_ex (\<lambda>header. map_of header ''name'' = Some (UStr ''X-AI-Routing-Candidate'')
                \<and> map_of header ''value'' = Some (UStr stableID) \<and> map_of header ''type'' = Some (UStr ''Exact''))
              (maps_of (slice_or_nil u m [''headers'']))) (maps_of matches)"

definition homeRouteHasRuntimeBinding :: "unstr_lib \<Rightarrow> HTTPRoute \<Rightarrow> Route \<Rightarrow> bool" where
  "homeRouteHasRuntimeBinding u route profile =
     list_ex (\<lambda>rule.
         list_ex (\<lambda>backend. map_of backend ''name'' = Some (UStr (ServiceName profile))
             \<and> matchesRuntimeIdentity u (slice_or_nil u rule [''matches'']) (RouteStableID profile))
           (maps_of (slice_or_nil u rule [''backendRefs''])))
       (maps_of (slice_or_nil u (hr_Object route) [''spec'', ''rules'']))"

definition check_profile :: "k8s_lib \<Rightarrow> unstr_lib \<Rightarrow> HTTPRoute \<Rightarrow> string \<Rightarrow> string \<Rightarrow> Route \<Rightarrow> (ProfileError, Route) res" where
  "check_profile lib u route namespace modelName profile =
     (if \<not> validHomeRuntimeProfile lib profile namespace then Inl ErrProfileFields
      else if Namespace profile \<noteq> namespace \<or> Model profile \<noteq> modelName \<or> CrossNamespace profile
          \<or> \<not> homeRouteHasRuntimeBinding u route profile
      then Inl ErrProfileMismatch
      else Inr profile)"

definition HomeRuntimeRouteProfiles :: "k8s_lib \<Rightarrow> unstr_lib \<Rightarrow> HTTPRoute \<Rightarrow> string \<Rightarrow> (ProfileError, Route list) res" where
  "HomeRuntimeRouteProfiles lib u route namespace =
     (let modelName = sm_get (hr_Labels route) externalModelLabel in
      if hr_Namespace route \<noteq> namespace \<or> sm_get (hr_Labels route) ''app.kubernetes.io/managed-by'' \<noteq> ''ai-gateway-controller''
         \<or> modelName = []
      then Inr []
      else if (case hr_Controller route of
                 None \<Rightarrow> False
               | Some (kind, name, api) \<Rightarrow>
                   kind \<noteq> ''ExternalModel'' \<or> name \<noteq> modelName \<or> api \<noteq> ''inference.opendatahub.io/v1alpha1'')
      then Inr []
      else
        (let raw = sm_get (hr_Annotations route) AnnotationHomeRuntimeRoutes in
         if raw = [] then Inr []
         else (case unmarshal dec_profiles raw of
                 Inl e \<Rightarrow> Inl (ErrDecodeProfiles e)
               | Inr profiles \<Rightarrow> mapM_res (check_profile lib u route namespace modelName) profiles)))"

subsection \<open>Runtime candidates\<close>

definition runtime_candidate :: "bool \<Rightarrow> Route \<Rightarrow> (ProfileError, Candidate) res" where
  "runtime_candidate apiTranslationEnabled route =
     (case StrategyFor route of
        Inl e \<Rightarrow> Inl (ErrRuntimeCredential (Model route) (Provider route) e)
      | Inr (strategy, header) \<Rightarrow>
          Inr \<lparr>ca_Cluster = Cluster route, ca_StableID = CandidateStableID (Model route) (Provider route),
               ca_Kind = ''inference_model'', ca_Name = ClientName route, ca_Site = [], ca_Fresh = True,
               ca_SelectionGroup = None, ca_TrafficWeight = None,
               ca_Credential = (if strategy \<noteq> [] then Some \<lparr>cr_Strategy = strategy, cr_Header = header,
                   cr_SecretRef = \<lparr>sr_Name = SecretName route, sr_Namespace = Namespace route, sr_Key = SecretKey route\<rparr>\<rparr>
                 else None),
               ca_APIFormat = (if apiTranslationEnabled then APIFormat route else []),
               ca_Path = (if apiTranslationEnabled then Path route else []),
               ca_TargetModel = (if apiTranslationEnabled then TargetModel route else [])\<rparr>)"

definition ExternalModelRuntimeCandidates :: "ResolvedRouteSet option \<Rightarrow> bool \<Rightarrow> (ProfileError, Candidate list) res" where
  "ExternalModelRuntimeCandidates routes apiTranslationEnabled =
     (case routes of
        None \<Rightarrow> Inl ErrRuntimeRoutesRequired
      | Some s \<Rightarrow> mapM_res (runtime_candidate apiTranslationEnabled) (Routes s))"

text \<open>Appending the candidates that are not yet in the list; \<open>seen\<close> of the source is the set of identifiers of the list.\<close>

definition add_unseen :: "Candidate list \<Rightarrow> Candidate list \<Rightarrow> Candidate list" where
  "add_unseen candidates result =
     fold (\<lambda>c acc. if ca_StableID c \<in> set (map ca_StableID acc) then acc else acc @ [c]) candidates result"

definition retain_profile :: "bool \<Rightarrow> Route \<Rightarrow> Candidate list \<Rightarrow> (ProfileError, Candidate list) res" where
  "retain_profile apiTranslation profile result =
     (if CandidateStableID (Model profile) (Provider profile) \<in> set (map ca_StableID result) then Inr result
      else bind_res (ExternalModelRuntimeCandidates
               (Some \<lparr>Models = [\<lparr>mr_ModelRef = [], mr_Routes = [profile], mr_Skips = []\<rparr>]\<rparr>) apiTranslation)
             (\<lambda>candidates. Inr (add_unseen candidates result)))"

definition retain_route ::
    "k8s_lib \<Rightarrow> unstr_lib \<Rightarrow> string \<Rightarrow> bool \<Rightarrow> HTTPRoute \<Rightarrow> Candidate list \<Rightarrow> (ProfileError, Candidate list) res" where
  "retain_route lib u namespace apiTranslation route result =
     bind_res (HomeRuntimeRouteProfiles lib u route namespace) (\<lambda>profiles.
       fold_res (retain_profile apiTranslation) profiles result)"

text \<open>\<open>listed\<close> is the outcome of listing the HTTPRoutes of the namespace that carry the owner label.\<close>

definition RetainHomeRuntimeCandidates ::
    "k8s_lib \<Rightarrow> unstr_lib \<Rightarrow> (string, HTTPRoute list) res \<Rightarrow> string \<Rightarrow> Candidate list \<Rightarrow> bool \<Rightarrow>
     (ProfileError, Candidate list) res" where
  "RetainHomeRuntimeCandidates lib u listed namespace current apiTranslation =
     (case listed of
        Inl e \<Rightarrow> Inl (ErrListHomeRoutes e)
      | Inr routes \<Rightarrow> fold_res (retain_route lib u namespace apiTranslation) routes current)"

subsection \<open>Correctness\<close>

text \<open>What the profiles of a route promise to the code that mounts their credentials.\<close>

definition profile_bound :: "k8s_lib \<Rightarrow> unstr_lib \<Rightarrow> HTTPRoute \<Rightarrow> string \<Rightarrow> Route \<Rightarrow> bool" where
  "profile_bound lib u route namespace p \<longleftrightarrow>
     Namespace p = namespace \<and> hr_Namespace route = namespace \<and> Model p = sm_get (hr_Labels route) externalModelLabel
     \<and> \<not> CrossNamespace p \<and> Cluster p = ''provider-'' @ Provider p \<and> SecretRefNamespace p = namespace
     \<and> RouteStableID p = CandidateStableID (Model p) (Provider p)
     \<and> IsDNS1123Subdomain lib (Provider p) = [] \<and> (SecretName p = [] \<or> IsDNS1123Subdomain lib (SecretName p) = [])
     \<and> (AuthType p = [] \<or> SecretName p \<noteq> [] \<and> SecretKey p = ''api-key'')
     \<and> homeRouteHasRuntimeBinding u route p"

lemma profiles_bound:
  assumes "HomeRuntimeRouteProfiles lib u route namespace = Inr ps"
  shows "\<forall>p \<in> set ps. profile_bound lib u route namespace p"
proof
  fix p assume "p \<in> set ps"
  with assms obtain q modelName where q: "check_profile lib u route namespace modelName q = Inr p"
    and m: "modelName = sm_get (hr_Labels route) externalModelLabel" and ns: "hr_Namespace route = namespace"
    by (auto simp: HomeRuntimeRouteProfiles_def Let_def mapM_res_Inr list_all2_conv_all_nth in_set_conv_nth
        split: if_split_asm sum.split_asm)
  then have p: "q = p" "validHomeRuntimeProfile lib p namespace" "Namespace p = namespace" "Model p = modelName"
    "\<not> CrossNamespace p" "homeRouteHasRuntimeBinding u route p"
    by (simp_all add: check_profile_def split: if_split_asm)
  then have "Cluster p = ServiceName p" and
    "StableID p = [] \<or> StableID p = CandidateStableID (Model p) (Provider p)" and
    "SecretNamespace p = [] \<or> SecretNamespace p = namespace" and
    "IsDNS1123Subdomain lib (Provider p) = []" "SecretName p = [] \<or> IsDNS1123Subdomain lib (SecretName p) = []"
    "AuthType p = [] \<or> SecretName p \<noteq> [] \<and> SecretKey p = ''api-key''"
    by (auto simp: validHomeRuntimeProfile_def split: if_split_asm)
  with p m ns show "profile_bound lib u route namespace p"
    by (auto simp: profile_bound_def ServiceName_def SecretRefNamespace_def RouteStableID_def)
qed

lemma add_unseen_append: "\<exists>new. add_unseen cs acc = acc @ new \<and> set new \<subseteq> set cs"
  unfolding add_unseen_def
proof (induction cs arbitrary: acc)
  case (Cons c cs)
  show ?case
  proof (cases "ca_StableID c \<in> set (map ca_StableID acc)")
    case True
    with Cons [of acc] show ?thesis by auto
  next
    case False
    with Cons [of "acc @ [c]"] show ?thesis by fastforce
  qed
qed simp

lemma add_unseen_distinct: "distinct (map ca_StableID acc) \<Longrightarrow> distinct (map ca_StableID (add_unseen cs acc))"
  unfolding add_unseen_def by (induction cs arbitrary: acc) auto

text \<open>What holds of the result while it grows: the current candidates come first, identifiers stay unique, and every new
  candidate comes from a profile of one of the listed routes.\<close>

definition retained :: "k8s_lib \<Rightarrow> unstr_lib \<Rightarrow> string \<Rightarrow> HTTPRoute list \<Rightarrow> bool \<Rightarrow> Candidate list \<Rightarrow> Candidate list \<Rightarrow> bool" where
  "retained lib u namespace routes tr current result \<longleftrightarrow>
     (\<exists>new. result = current @ new
        \<and> (\<forall>c \<in> set new. \<exists>route \<in> set routes. \<exists>p. profile_bound lib u route namespace p \<and> runtime_candidate tr p = Inr c))
     \<and> (distinct (map ca_StableID current) \<longrightarrow> distinct (map ca_StableID result))"

lemma retain_profile_keeps:
  assumes "retain_profile tr p acc = Inr acc'" "retained lib u ns routes tr cur acc" "route \<in> set routes"
    and "profile_bound lib u route ns p"
  shows "retained lib u ns routes tr cur acc'"
proof (cases "acc' = acc")
  case True
  with assms(2) show ?thesis by simp
next
  case False
  with assms(1) obtain cs where cs: "mapM_res (runtime_candidate tr) [p] = Inr cs" and acc': "acc' = add_unseen cs acc"
    by (auto simp: retain_profile_def ExternalModelRuntimeCandidates_def Routes_def bind_res_def
        split: if_split_asm sum.split_asm)
  from cs have origin: "\<forall>c \<in> set cs. runtime_candidate tr p = Inr c" by (auto split: sum.split_asm)
  obtain new where new: "acc' = acc @ new" "set new \<subseteq> set cs" using add_unseen_append acc' by metis
  from assms(2) obtain old where old: "acc = cur @ old"
    "\<forall>c \<in> set old. \<exists>route \<in> set routes. \<exists>p. profile_bound lib u route ns p \<and> runtime_candidate tr p = Inr c"
    unfolding retained_def by blast
  have "\<forall>c \<in> set (old @ new). \<exists>route \<in> set routes. \<exists>p. profile_bound lib u route ns p \<and> runtime_candidate tr p = Inr c"
    unfolding set_append using old(2) new(2) origin assms(3,4) by blast
  moreover have "distinct (map ca_StableID cur) \<longrightarrow> distinct (map ca_StableID acc')"
    using assms(2) add_unseen_distinct acc' unfolding retained_def by blast
  ultimately show ?thesis unfolding retained_def using old(1) new(1) by auto
qed

lemma retain_route_keeps:
  assumes "retain_route lib u ns tr route acc = Inr acc'" "retained lib u ns routes tr cur acc" "route \<in> set routes"
  shows "retained lib u ns routes tr cur acc'"
proof -
  from assms(1) obtain ps where ps: "HomeRuntimeRouteProfiles lib u route ns = Inr ps"
    and f: "fold_res (retain_profile tr) ps acc = Inr acc'"
    by (auto simp: retain_route_def bind_res_def split: sum.split_asm)
  show ?thesis
    using f assms(2)
    by (rule fold_res_invariant) (use retain_profile_keeps assms(3) profiles_bound [OF ps] in blast)
qed

lemma RetainHomeRuntimeCandidates_retained:
  assumes "RetainHomeRuntimeCandidates lib u (Inr routes) ns current tr = Inr result"
  shows "retained lib u ns routes tr current result"
proof -
  from assms have "fold_res (retain_route lib u ns tr) routes current = Inr result"
    by (simp add: RetainHomeRuntimeCandidates_def)
  moreover have "retained lib u ns routes tr current current" by (simp add: retained_def)
  ultimately show ?thesis by (rule fold_res_invariant) (use retain_route_keeps in blast)
qed

subsection \<open>Properties\<close>

definition sample_lib :: k8s_lib where
  "sample_lib = \<lparr>FindStatusCondition = (\<lambda>cs t. List.find (\<lambda>c. co_Type c = t) cs), IsDNS1123Subdomain = (\<lambda>_. []),
     IsDNS1123Label = (\<lambda>_. [])\<rparr>"

definition sample_rule :: uval where
  "sample_rule = UMap [(''matches'', UList [UMap [(''path'', UMap [(''value'', UStr ''/ns/gpt'')]), (''headers'', UList [UMap
       [(''name'', UStr ''X-AI-Routing-Candidate''), (''type'', UStr ''Exact''), (''value'', UStr ''m/provider-p'')]])]]),
     (''filters'', UList [UMap [(''urlRewrite'', UMap [(''hostname'', UStr ''api.example.com'')])]]),
     (''backendRefs'', UList [UMap [(''name'', UStr ''provider-p''), (''port'', UInt 80)]])]"

definition sample_httproute :: HTTPRoute where
  "sample_httproute = \<lparr>hr_Name = ''m'', hr_Namespace = ''ns'',
     hr_Labels = [(''app.kubernetes.io/managed-by'', ''ai-gateway-controller''), (externalModelLabel, ''m'')],
     hr_Annotations = [(AnnotationHomeRuntimeRoutes,
       ''[{\"Model\":\"m\",\"ClientName\":\"gpt\",\"namespace\":\"ns\",\"Provider\":\"p\",\"Cluster\":\"provider-p\"}]'')],
     hr_Controller = None, hr_Object = [(''spec'', UMap [(''rules'', UList [sample_rule])])]\<rparr>"

text \<open>C12. Retained runtime candidates: when \<open>RetainHomeRuntimeCandidates\<close> succeeds, the current candidates stay first and
  unchanged, identifiers stay unique if they were, and each added candidate comes from a profile that is bound to a listed route:
  same namespace and model, the provider's own Service, no foreign Secret namespace, an API key whenever it authenticates, and a
  rule of the route that routes exactly its identifier to exactly its Service.\<close>

theorem retained_candidates_bound:
  assumes "RetainHomeRuntimeCandidates lib u (Inr routes) namespace current apiTranslation = Inr result"
  shows "retained lib u namespace routes apiTranslation current result"
  using assms by (rule RetainHomeRuntimeCandidates_retained)

theorem retained_candidates_bound_witness:
  "\<exists>c. RetainHomeRuntimeCandidates sample_lib ref_unstr (Inr [sample_httproute]) ''ns'' [] False = Inr [c]
     \<and> ca_StableID c = ''m/provider-p'' \<and> retained sample_lib ref_unstr ''ns'' [sample_httproute] False [] [c]"
proof -
  have "case RetainHomeRuntimeCandidates sample_lib ref_unstr (Inr [sample_httproute]) ''ns'' [] False of
      Inr [c] \<Rightarrow> ca_StableID c = ''m/provider-p'' | _ \<Rightarrow> False"
    by code_simp
  then obtain c where "RetainHomeRuntimeCandidates sample_lib ref_unstr (Inr [sample_httproute]) ''ns'' [] False = Inr [c]"
    "ca_StableID c = ''m/provider-p''"
    by (auto split: sum.split_asm list.split_asm)
  then show ?thesis using retained_candidates_bound by blast
qed

end
