(* ===== verification/GoTime.thy ===== *)
theory GoTime
  imports JsonDecode
begin

text \<open>
  The part of Go's \<open>time\<close> package that persists instants: a \<open>time.Time\<close> in UTC is the number of nanoseconds since the Unix
  epoch, written by \<open>MarshalJSON\<close> in RFC 3339 with a fraction that has no trailing zero, and read back by \<open>UnmarshalJSON\<close>.
  A \<open>time.Duration\<close> is a signed 64-bit number of nanoseconds; \<open>Sub\<close> saturates at its bounds and other arithmetic wraps.
\<close>

subsection \<open>Calendar\<close>

definition leap :: "nat \<Rightarrow> bool" where
  "leap y \<longleftrightarrow> y mod 4 = 0 \<and> (y mod 100 \<noteq> 0 \<or> y mod 400 = 0)"

definition year_days :: "nat \<Rightarrow> nat" where
  "year_days y = (if leap y then 366 else 365)"

definition month_days :: "nat \<Rightarrow> nat list" where
  "month_days y = [31, if leap y then 29 else 28, 31, 30, 31, 30, 31, 31, 30, 31, 30, 31]"

text \<open>Days are counted from 1 January of year 0.\<close>

definition days_before_year :: "nat \<Rightarrow> nat" where
  "days_before_year y = sum_list (map year_days [0..<y])"

fun split_days :: "nat \<Rightarrow> nat \<Rightarrow> nat \<Rightarrow> nat \<times> nat" where
  "split_days 0 y d = (y, d)"
| "split_days (Suc fuel) y d = (if d < year_days y then (y, d) else split_days fuel (Suc y) (d - year_days y))"

text \<open>The year and the day within it; ten thousand steps cover every year of four digits.\<close>

definition year_of_days :: "nat \<Rightarrow> nat \<times> nat" where
  "year_of_days d = split_days 10000 0 d"

fun split_months :: "nat list \<Rightarrow> nat \<Rightarrow> nat \<Rightarrow> nat \<times> nat" where
  "split_months [] m d = (m, d)"
| "split_months (l # ls) m d = (if d < l then (m, d) else split_months ls (Suc m) (d - l))"

definition days_before_month :: "nat \<Rightarrow> nat \<Rightarrow> nat" where
  "days_before_month y m = sum_list (take (m - 1) (month_days y))"

definition days_of_date :: "nat \<Rightarrow> nat \<Rightarrow> nat \<Rightarrow> nat" where
  "days_of_date y m d = days_before_year y + days_before_month y m + (d - 1)"

subsection \<open>Instants as text\<close>

definition epoch_days :: nat where
  "epoch_days = 719528"

definition second :: int where
  "second = 1000000000"

definition day_nanos :: int where
  "day_nanos = 86400 * second"

fun pad :: "nat \<Rightarrow> nat \<Rightarrow> string" where
  "pad 0 n = []"
| "pad (Suc k) n = pad k (n div 10) @ [char_of (48 + n mod 10)]"

definition trim_zeros :: "string \<Rightarrow> string" where
  "trim_zeros s = rev (dropWhile (\<lambda>c. c = CHR ''0'') (rev s))"

text \<open>\<open>t.UTC().Format(time.RFC3339Nano)\<close> for years 0 to 9999.\<close>

definition format_rfc3339 :: "int \<Rightarrow> string" where
  "format_rfc3339 t =
     (let days = nat (t div day_nanos + int epoch_days);
          (y, yd) = year_of_days days;
          (m, d) = split_months (month_days y) 1 yd;
          secs = nat (t mod day_nanos div second);
          frac = trim_zeros (pad 9 (nat (t mod second)))
      in pad 4 y @ ''-'' @ pad 2 m @ ''-'' @ pad 2 (d + 1) @ ''T'' @ pad 2 (secs div 3600) @ '':''
         @ pad 2 (secs div 60 mod 60) @ '':'' @ pad 2 (secs mod 60) @ (if frac = [] then [] else ''.'' @ frac) @ ''Z'')"

text \<open>Fixed-width digits at the head of the text.\<close>

definition take_digits :: "nat \<Rightarrow> string \<Rightarrow> (nat \<times> string) option" where
  "take_digits n s = (if length s < n then None else map_option (\<lambda>v. (v, drop n s)) (digits_val 0 (take n s)))"

definition take_char :: "char \<Rightarrow> string \<Rightarrow> string option" where
  "take_char c s = (case s of [] \<Rightarrow> None | x # xs \<Rightarrow> if x = c then Some xs else None)"

text \<open>A fraction of a second: a period and digits, of which the first nine count.\<close>

definition take_frac :: "string \<Rightarrow> (nat \<times> string) option" where
  "take_frac s =
     (case take_char (CHR ''.'') s of
        None \<Rightarrow> Some (0, s)
      | Some r \<Rightarrow>
          (let ds = takeWhile is_digit r; nine = take 9 (ds @ replicate 9 (CHR ''0''))
           in if ds = [] then None else map_option (\<lambda>v. (v, dropWhile is_digit r)) (digits_val 0 nine)))"

text \<open>The zone: \<open>Z\<close> or a signed offset in hours and minutes, in seconds.\<close>

definition parse_zone :: "string \<Rightarrow> int option" where
  "parse_zone s =
     (if s = ''Z'' then Some 0
      else (case s of
              sg # r \<Rightarrow>
                if sg = CHR ''+'' \<or> sg = CHR ''-'' then
                  Option.bind (take_digits 2 r) (\<lambda>(h, r). Option.bind (take_char (CHR '':'') r) (\<lambda>r.
                    Option.bind (take_digits 2 r) (\<lambda>(mi, r).
                      if r = [] \<and> h < 24 \<and> mi < 60
                      then Some ((if sg = CHR ''-'' then - 1 else 1) * int (3600 * h + 60 * mi)) else None)))
                else None
            | [] \<Rightarrow> None))"

definition parse_rfc3339 :: "string \<Rightarrow> int option" where
  "parse_rfc3339 s =
     Option.bind (take_digits 4 s) (\<lambda>(y, s). Option.bind (take_char (CHR ''-'') s) (\<lambda>s.
     Option.bind (take_digits 2 s) (\<lambda>(m, s). Option.bind (take_char (CHR ''-'') s) (\<lambda>s.
     Option.bind (take_digits 2 s) (\<lambda>(d, s). Option.bind (take_char (CHR ''T'') s) (\<lambda>s.
     Option.bind (take_digits 2 s) (\<lambda>(h, s). Option.bind (take_char (CHR '':'') s) (\<lambda>s.
     Option.bind (take_digits 2 s) (\<lambda>(mi, s). Option.bind (take_char (CHR '':'') s) (\<lambda>s.
     Option.bind (take_digits 2 s) (\<lambda>(sec, s). Option.bind (take_frac s) (\<lambda>(ns, s).
     Option.bind (parse_zone s) (\<lambda>zone.
       if 1 \<le> m \<and> m \<le> 12 \<and> 1 \<le> d \<and> d \<le> month_days y ! (m - 1) \<and> h < 24 \<and> mi < 60 \<and> sec < 60
       then Some ((int (days_of_date y m d) - int epoch_days) * day_nanos
                  + (int (3600 * h + 60 * mi + sec) - zone) * second + int ns)
       else None)))))))))))))"

text \<open>1 January of year 1, the zero value of \<open>time.Time\<close>.\<close>

definition zero_time :: int where
  "zero_time = (366 - int epoch_days) * day_nanos"

text \<open>The instants that RFC 3339 can write: years 0 to 9999.\<close>

definition in_rfc3339 :: "int \<Rightarrow> bool" where
  "in_rfc3339 t \<longleftrightarrow> - int epoch_days * day_nanos \<le> t \<and> t < (int (days_before_year 10000) - int epoch_days) * day_nanos"

subsection \<open>Durations\<close>

definition wrap_int64 :: "int \<Rightarrow> int" where
  "wrap_int64 i = (i - min_int64) mod 18446744073709551616 + min_int64"

text \<open>\<open>t.Sub(u)\<close> saturates.\<close>

definition time_sub :: "int \<Rightarrow> int \<Rightarrow> int" where
  "time_sub t u = max min_int64 (min max_int64 (t - u))"

lemma wrap_int64_id: "min_int64 \<le> i \<Longrightarrow> i \<le> max_int64 \<Longrightarrow> wrap_int64 i = i"
  by (simp add: wrap_int64_def min_int64_def max_int64_def)

subsection \<open>Reading back what was written\<close>

lemma days_before_year_Suc: "days_before_year (Suc y) = days_before_year y + year_days y"
  by (simp add: days_before_year_def)

lemma split_days_sum:
  "split_days fuel y d = (y', d') \<Longrightarrow> days_before_year y + d = days_before_year y' + d'"
proof (induction fuel arbitrary: y d)
  case (Suc fuel)
  then show ?case
    using Suc.IH [of "Suc y" "d - year_days y"] by (auto simp: days_before_year_Suc split: if_splits)
qed simp

lemma split_days_bound:
  "split_days fuel y d = (y', d') \<Longrightarrow> days_before_year y + d < days_before_year (y + fuel) \<Longrightarrow>
     d' < year_days y' \<and> y' < y + fuel"
proof (induction fuel arbitrary: y d)
  case (Suc fuel)
  then show ?case
    using Suc.IH [of "Suc y" "d - year_days y"] by (auto simp: days_before_year_Suc split: if_splits)
qed simp

lemma split_months_sum:
  "split_months ls m d = (m', d') \<Longrightarrow> d < sum_list ls \<Longrightarrow>
     m \<le> m' \<and> m' - m < length ls \<and> d' < ls ! (m' - m) \<and> d = sum_list (take (m' - m) ls) + d'"
proof (induction ls arbitrary: m d)
  case (Cons l ls)
  show ?case
  proof (cases "d < l")
    case False
    with Cons.prems have step: "split_months ls (Suc m) (d - l) = (m', d')" and bnd: "d - l < sum_list ls" by auto
    from Cons.IH [OF step bnd] have ih: "Suc m \<le> m'" "m' - Suc m < length ls" "d' < ls ! (m' - Suc m)"
      "d - l = sum_list (take (m' - Suc m) ls) + d'" by auto
    then have "m' - m = Suc (m' - Suc m)" by simp
    with ih False show ?thesis by simp
  qed (use Cons in auto)
qed simp

lemma sum_month_days: "sum_list (month_days y) = year_days y"
  by (simp add: month_days_def year_days_def)

lemma length_month_days: "length (month_days y) = 12"
  by (simp add: month_days_def)

lemma pad_length [simp]: "length (pad k n) = k"
  by (induction k arbitrary: n) auto

lemma digits_val_pad: "digits_val 0 (pad k n) = Some (n mod 10 ^ k)"
proof (induction k arbitrary: n)
  case (Suc k)
  have "digit_val (char_of (48 + n mod 10)) = Some (n mod 10)" by (simp add: digit_val_char)
  moreover have "10 * (n div 10 mod 10 ^ k) + n mod 10 = n mod 10 ^ Suc k"
    by (simp add: mod_mult2_eq)
  ultimately show ?case using Suc by (simp add: digits_val_append)
qed simp

lemma take_digits_pad: "n < 10 ^ k \<Longrightarrow> take_digits k (pad k n @ s) = Some (n, s)"
  by (simp add: take_digits_def digits_val_pad)

lemma take_char_Cons [simp]: "take_char c (c # s) = Some s"
  by (simp add: take_char_def)

lemma pad_digits: "list_all is_digit (pad k n)"
proof (induction k arbitrary: n)
  case (Suc k)
  have "is_digit (char_of (48 + n mod 10))"
  proof -
    have "(of_char (char_of (48 + n mod 10)) :: nat) = 48 + n mod 10" by (simp add: of_char_of)
    moreover have "of_char (CHR ''0'') = (48 :: nat)" "of_char (CHR ''9'') = (57 :: nat)" by simp_all
    ultimately show ?thesis by (simp add: is_digit_def less_eq_char_def)
  qed
  with Suc show ?case by simp
qed simp

lemma trim_zeros_append: "\<exists>k. s = trim_zeros s @ replicate k (CHR ''0'')"
proof -
  have "rev s = takeWhile (\<lambda>c. c = CHR ''0'') (rev s) @ dropWhile (\<lambda>c. c = CHR ''0'') (rev s)" by simp
  then have "s = trim_zeros s @ rev (takeWhile (\<lambda>c. c = CHR ''0'') (rev s))"
    by (metis rev_append rev_rev_ident trim_zeros_def)
  moreover have "takeWhile (\<lambda>c. c = CHR ''0'') (rev s) = replicate (length (takeWhile (\<lambda>c. c = CHR ''0'') (rev s))) (CHR ''0'')"
    by (rule replicate_eqI) (auto dest: set_takeWhileD)
  ultimately show ?thesis by (metis rev_replicate)
qed

lemma take_frac_trim:
  assumes "n < 10 ^ 9"
  shows "take_frac ((if trim_zeros (pad 9 n) = [] then [] else ''.'' @ trim_zeros (pad 9 n)) @ ''Z'') = Some (n, ''Z'')"
proof -
  obtain k where k: "pad 9 n = trim_zeros (pad 9 n) @ replicate k (CHR ''0'')" using trim_zeros_append by blast
  have nine: "take 9 (trim_zeros (pad 9 n) @ replicate 9 (CHR ''0'')) = pad 9 n"
  proof -
    have len: "length (trim_zeros (pad 9 n)) + k = 9" using arg_cong [OF k, of length] by simp
    then have "take 9 (trim_zeros (pad 9 n) @ replicate 9 (CHR ''0'')) = trim_zeros (pad 9 n) @ replicate k (CHR ''0'')"
      by (simp add: min_def)
    with k show ?thesis by simp
  qed
  have digits: "list_all is_digit (trim_zeros (pad 9 n))"
    using pad_digits [of 9 n] k by (metis list_all_append)
  have notd: "\<not> is_digit (CHR ''Z'')" by (simp add: is_digit_def less_eq_char_def)
  have val: "digits_val 0 (pad 9 n) = Some n" using assms by (simp add: digits_val_pad)
  show ?thesis
  proof (cases "trim_zeros (pad 9 n) = []")
    case True
    then have "pad 9 n = replicate 9 (CHR ''0'')" using nine by simp
    moreover have "digits_val 0 (replicate 9 (CHR ''0'')) = Some 0" by code_simp
    ultimately have "n = 0" using val by simp
    with True show ?thesis by (simp add: take_frac_def take_char_def)
  next
    case False
    have "takeWhile is_digit (trim_zeros (pad 9 n) @ ''Z'') = trim_zeros (pad 9 n)"
      "dropWhile is_digit (trim_zeros (pad 9 n) @ ''Z'') = ''Z''"
      using digits notd by (simp_all add: list_all_iff)
    with False nine val show ?thesis by (simp add: take_frac_def)
  qed
qed

lemma date_roundtrip:
  assumes "days < days_before_year 10000" "year_of_days days = (y, yd)" "split_months (month_days y) 1 yd = (m, d)"
  shows "y < 10000" "1 \<le> m" "m \<le> 12" "d + 1 \<le> month_days y ! (m - 1)" "days_of_date y m (d + 1) = days" "d + 1 < 100"
proof -
  have y: "y < 10000" "yd < year_days y" and sum: "days = days_before_year y + yd"
    using split_days_bound [of 10000 0 days y yd] split_days_sum [of 10000 0 days y yd] assms(1,2)
    by (auto simp: year_of_days_def days_before_year_def [of 0])
  have m: "1 \<le> m" "m - 1 < 12" "d < month_days y ! (m - 1)" "yd = days_before_month y m + d"
    using split_months_sum [OF assms(3)] y(2) by (auto simp: sum_month_days length_month_days days_before_month_def)
  then have "month_days y ! (m - 1) \<in> set (month_days y)" by (simp add: length_month_days)
  then have "month_days y ! (m - 1) \<le> 31" by (auto simp: month_days_def split: if_splits)
  with y sum m show "y < 10000" "1 \<le> m" "m \<le> 12" "d + 1 \<le> month_days y ! (m - 1)" "days_of_date y m (d + 1) = days" "d + 1 < 100"
    by (auto simp: days_of_date_def)
qed

lemma time_parts: "t = t div day_nanos * day_nanos + int (nat (t mod day_nanos div second)) * second + int (nat (t mod second))"
proof -
  have "t mod second = t mod day_nanos mod second"
    by (simp add: day_nanos_def mod_mod_cancel)
  moreover have "t mod day_nanos = t mod day_nanos div second * second + t mod day_nanos mod second" by simp
  moreover have "0 \<le> t mod day_nanos" "0 \<le> t mod second" by (simp_all add: day_nanos_def second_def)
  moreover have "0 \<le> t mod day_nanos div second"
    using \<open>0 \<le> t mod day_nanos\<close> by (simp add: second_def pos_imp_zdiv_nonneg_iff)
  moreover have "t = t div day_nanos * day_nanos + t mod day_nanos" by simp
  ultimately show ?thesis by (metis (no_types) add.assoc int_nat_eq)
qed

lemma int_div_less:
  assumes "0 < (c :: int)" "t < q * c"
  shows "t div c < q"
proof (rule ccontr)
  assume "\<not> t div c < q"
  then have "q * c \<le> t div c * c" using assms(1) by (simp add: mult_right_mono)
  also have "\<dots> \<le> t" using assms(1) by (metis div_mult_mod_eq le_add_same_cancel1 pos_mod_sign)
  finally show False using assms(2) by simp
qed

lemma int_le_div: "0 < (c :: int) \<Longrightarrow> q * c \<le> t \<Longrightarrow> q \<le> t div c"
  using zdiv_mono1 [of "q * c" t c] by simp

theorem parse_format_rfc3339:
  assumes "in_rfc3339 t"
  shows "parse_rfc3339 (format_rfc3339 t) = Some t"
proof -
  define days where "days = nat (t div day_nanos + int epoch_days)"
  obtain y yd where y: "year_of_days days = (y, yd)" by fastforce
  obtain m d where m: "split_months (month_days y) 1 yd = (m, d)" by fastforce
  define secs where "secs = nat (t mod day_nanos div second)"
  define ns where "ns = nat (t mod second)"
  have day: "0 < day_nanos" by (simp add: day_nanos_def second_def)
  have "- int epoch_days \<le> t div day_nanos"
    using assms by (intro int_le_div [OF day]) (simp add: in_rfc3339_def)
  moreover have "t div day_nanos < int (days_before_year 10000) - int epoch_days"
    using assms by (intro int_div_less [OF day]) (simp add: in_rfc3339_def)
  ultimately have days: "days < days_before_year 10000" "int days = t div day_nanos + int epoch_days"
    by (simp_all add: days_def)
  note date = date_roundtrip [OF days(1) y m]
  have "t mod day_nanos < 86400 * second" using day by (simp add: day_nanos_def second_def)
  then have "t mod day_nanos div second < 86400" by (intro int_div_less) (simp_all add: second_def)
  then have secs: "secs < 86400" by (simp add: secs_def)
  have ns: "ns < 10 ^ 9" by (simp add: ns_def second_def nat_less_iff)
  define tail where "tail = (if trim_zeros (pad 9 ns) = [] then [] else ''.'' @ trim_zeros (pad 9 ns)) @ ''Z''"
  have fmt: "format_rfc3339 t = pad 4 y @ ''-'' @ pad 2 m @ ''-'' @ pad 2 (d + 1) @ ''T'' @ pad 2 (secs div 3600) @ '':''
         @ pad 2 (secs div 60 mod 60) @ '':'' @ pad 2 (secs mod 60)
         @ tail"
    by (simp add: tail_def format_rfc3339_def Let_def days_def [symmetric] secs_def [symmetric] ns_def [symmetric] y m del: One_nat_def)
  have split: "3600 * (secs div 3600) + 60 * (secs div 60 mod 60) + secs mod 60 = secs"
  proof -
    have "secs div 3600 = secs div 60 div 60" by (simp add: div_mult2_eq [symmetric])
    moreover have "60 * (secs div 60) + secs mod 60 = secs" by (rule mult_div_mod_eq)
    moreover have "60 * (secs div 60 div 60) + secs div 60 mod 60 = secs div 60" by (rule mult_div_mod_eq)
    ultimately show ?thesis by linarith
  qed
  have "(int (days_of_date y m (d + 1)) - int epoch_days) * day_nanos + int secs * second + int ns = t"
    using time_parts [of t] days(2) date(5) by (simp add: secs_def ns_def)
  moreover have "take_frac tail = Some (ns, ''Z'')"
    unfolding tail_def by (rule take_frac_trim [OF ns])
  moreover have "secs div 3600 < 24" using secs by simp
  ultimately show ?thesis
    unfolding parse_rfc3339_def fmt
    using date secs split
    by (simp add: take_digits_pad parse_zone_def [of "''Z''"] del: pad.simps)
qed

end
