(* ===== verification/TenantNaming.thy ===== *)
theory TenantNaming
  imports GoStrings
begin

text \<open>
  Names of the per-tenant resources, \<open>src/pkg/tenant/naming.go\<close>. The default tenant has the empty identifier and keeps the base
  names; any other tenant's resources are named by \<open>kmeta.ChildName\<close> of knative, which is the parameter
  \<open>child\<close>: it documents the concatenation of parent and suffix, shortened with a hash when that exceeds 63 bytes.
\<close>

type_synonym child_name = "string \<Rightarrow> string \<Rightarrow> string"

definition DefaultAITenantName :: string where
  "DefaultAITenantName = ''models-as-a-service''"

definition PayloadProcessingName :: string where
  "PayloadProcessingName = ''payload-processing''"

definition PayloadProcessingExternalModelName :: string where
  "PayloadProcessingExternalModelName = ''payload-processing-external-model''"

definition PayloadPreProcessingName :: string where
  "PayloadPreProcessingName = ''payload-pre-processing''"

definition PayloadProcessingPluginsConfigMapName :: string where
  "PayloadProcessingPluginsConfigMapName = ''payload-processing-plugins''"

definition PayloadProcessingReaderClusterRoleBindingName :: string where
  "PayloadProcessingReaderClusterRoleBindingName = ''payload-processing-reader''"

definition PayloadProcessingMetricsAuthName :: string where
  "PayloadProcessingMetricsAuthName = ''payload-processing-metrics-auth''"

definition PayloadProcessingMetricsServiceName :: string where
  "PayloadProcessingMetricsServiceName = ''payload-processing-metrics''"

definition PayloadProcessingMetricsMonitorName :: string where
  "PayloadProcessingMetricsMonitorName = ''payload-processing-metrics''"

definition PayloadProcessingExternalModelFilterName :: string where
  "PayloadProcessingExternalModelFilterName = ''payload-processing-external-model-filters''"

definition ID :: "string \<Rightarrow> string" where
  "ID aitenantName = (if aitenantName = DefaultAITenantName then [] else aitenantName)"

definition ResourceName :: "child_name \<Rightarrow> string \<Rightarrow> string \<Rightarrow> string" where
  "ResourceName child base tenantID = (if tenantID = [] then base else child (base @ ''-'') tenantID)"

definition PayloadProcessingDeploymentName :: "child_name \<Rightarrow> string \<Rightarrow> string" where
  "PayloadProcessingDeploymentName child tenantID = ResourceName child PayloadProcessingName tenantID"

definition PayloadPreProcessingDeploymentName :: "child_name \<Rightarrow> string \<Rightarrow> string" where
  "PayloadPreProcessingDeploymentName child tenantID = ResourceName child PayloadPreProcessingName tenantID"

definition PayloadProcessingServiceName :: "child_name \<Rightarrow> string \<Rightarrow> string" where
  "PayloadProcessingServiceName child tenantID = ResourceName child PayloadProcessingName tenantID"

definition PayloadProcessingTLSSecretName :: "child_name \<Rightarrow> string \<Rightarrow> string" where
  "PayloadProcessingTLSSecretName child tenantID = PayloadProcessingServiceName child tenantID @ ''-tls''"

definition PayloadPreProcessingServiceName :: "child_name \<Rightarrow> string \<Rightarrow> string" where
  "PayloadPreProcessingServiceName child tenantID = ResourceName child PayloadPreProcessingName tenantID"

definition PayloadPreProcessingTLSSecretName :: "child_name \<Rightarrow> string \<Rightarrow> string" where
  "PayloadPreProcessingTLSSecretName child tenantID = PayloadPreProcessingServiceName child tenantID @ ''-tls''"

definition PayloadProcessingServiceAccountName :: "child_name \<Rightarrow> string \<Rightarrow> string" where
  "PayloadProcessingServiceAccountName child tenantID = ResourceName child PayloadProcessingName tenantID"

definition PayloadProcessingPostServiceAccountName :: "child_name \<Rightarrow> string \<Rightarrow> string" where
  "PayloadProcessingPostServiceAccountName child tenantID = ResourceName child (PayloadProcessingName @ ''-post'') tenantID"

definition PayloadProcessingExternalModelServiceAccountName :: "child_name \<Rightarrow> string \<Rightarrow> string" where
  "PayloadProcessingExternalModelServiceAccountName child tenantID = ResourceName child PayloadProcessingExternalModelName tenantID"

definition PayloadProcessingExternalModelDeploymentName :: "child_name \<Rightarrow> string \<Rightarrow> string" where
  "PayloadProcessingExternalModelDeploymentName child tenantID = ResourceName child PayloadProcessingExternalModelName tenantID"

definition PayloadProcessingExternalModelServiceName :: "child_name \<Rightarrow> string \<Rightarrow> string" where
  "PayloadProcessingExternalModelServiceName child tenantID = ResourceName child PayloadProcessingExternalModelName tenantID"

definition PayloadProcessingExternalModelTLSSecretName :: "child_name \<Rightarrow> string \<Rightarrow> string" where
  "PayloadProcessingExternalModelTLSSecretName child tenantID = PayloadProcessingExternalModelServiceName child tenantID @ ''-tls''"

definition PayloadProcessingExternalModelPluginsConfigMapForTenant :: "child_name \<Rightarrow> string \<Rightarrow> string" where
  "PayloadProcessingExternalModelPluginsConfigMapForTenant child tenantID = ResourceName child (PayloadProcessingExternalModelName @ ''-plugins'') tenantID"

definition PayloadProcessingNetworkPolicyName :: "child_name \<Rightarrow> string \<Rightarrow> string" where
  "PayloadProcessingNetworkPolicyName child tenantID = ResourceName child PayloadProcessingName tenantID"

definition PayloadProcessingEnvoyFilterName :: "child_name \<Rightarrow> string \<Rightarrow> string" where
  "PayloadProcessingEnvoyFilterName child tenantID = ResourceName child PayloadProcessingName tenantID"

definition PayloadProcessingHPAName :: "child_name \<Rightarrow> string \<Rightarrow> string" where
  "PayloadProcessingHPAName child tenantID = ResourceName child PayloadProcessingName tenantID"

definition PayloadPreProcessingHPAName :: "child_name \<Rightarrow> string \<Rightarrow> string" where
  "PayloadPreProcessingHPAName child tenantID = ResourceName child PayloadPreProcessingName tenantID"

definition PayloadProcessingExternalModelEnvoyFilterName :: "child_name \<Rightarrow> string \<Rightarrow> string" where
  "PayloadProcessingExternalModelEnvoyFilterName child tenantID = ResourceName child (PayloadProcessingExternalModelName @ ''-routes'') tenantID"

definition PayloadProcessingExternalModelFilterNameForTenant :: "child_name \<Rightarrow> string \<Rightarrow> string" where
  "PayloadProcessingExternalModelFilterNameForTenant child tenantID = ResourceName child PayloadProcessingExternalModelFilterName tenantID"

definition PayloadProcessingPluginsConfigMapForTenant :: "child_name \<Rightarrow> string \<Rightarrow> string" where
  "PayloadProcessingPluginsConfigMapForTenant child tenantID = ResourceName child PayloadProcessingPluginsConfigMapName tenantID"

definition PayloadProcessingReaderClusterRoleBindingNameForTenant :: "child_name \<Rightarrow> string \<Rightarrow> string" where
  "PayloadProcessingReaderClusterRoleBindingNameForTenant child tenantID = ResourceName child PayloadProcessingReaderClusterRoleBindingName tenantID"

definition PayloadProcessingReaderClusterRoleBindingPostNameForTenant :: "child_name \<Rightarrow> string \<Rightarrow> string" where
  "PayloadProcessingReaderClusterRoleBindingPostNameForTenant child tenantID = ResourceName child (PayloadProcessingReaderClusterRoleBindingName @ ''-post'') tenantID"

definition PayloadProcessingMetricsAuthClusterRoleBindingNameForTenant :: "child_name \<Rightarrow> string \<Rightarrow> string" where
  "PayloadProcessingMetricsAuthClusterRoleBindingNameForTenant child tenantID = ResourceName child PayloadProcessingMetricsAuthName tenantID"

definition PayloadProcessingMetricsServiceNameForTenant :: "child_name \<Rightarrow> string \<Rightarrow> string" where
  "PayloadProcessingMetricsServiceNameForTenant child tenantID = ResourceName child PayloadProcessingMetricsServiceName tenantID"

definition PayloadProcessingMetricsMonitorNameForTenant :: "child_name \<Rightarrow> string \<Rightarrow> string" where
  "PayloadProcessingMetricsMonitorNameForTenant child tenantID = ResourceName child PayloadProcessingMetricsMonitorName tenantID"

text \<open>The documented behaviour of \<open>kmeta.ChildName\<close> on names that need no shortening.\<close>

definition child_name_doc :: "child_name \<Rightarrow> bool" where
  "child_name_doc child \<longleftrightarrow> (\<forall>p s. length (p @ s) \<le> 63 \<longrightarrow> child p s = p @ s) \<and> (\<forall>p s. length (child p s) \<le> 63 \<or> length (p @ s) \<le> 63)"

lemma ID_inj: "ID a = ID b \<Longrightarrow> a \<noteq> [] \<Longrightarrow> b \<noteq> [] \<Longrightarrow> a = b"
  by (auto simp: ID_def split: if_splits)

lemma ResourceName_inj:
  assumes "child_name_doc child" "length (base @ ''-'' @ t) \<le> 63" "length (base @ ''-'' @ t') \<le> 63"
    and "ResourceName child base t = ResourceName child base t'"
  shows "t = t'"
proof -
  have "x \<noteq> [] \<Longrightarrow> length (base @ ''-'' @ x) \<le> 63 \<Longrightarrow> ResourceName child base x = base @ ''-'' @ x" for x
    using assms(1) unfolding child_name_doc_def ResourceName_def by (metis append.assoc)
  with assms show ?thesis by (cases "t = []"; cases "t' = []") (auto simp: ResourceName_def)
qed

end
