(* ===== verification/RolloutSafety.thy ===== *)
theory RolloutSafety
  imports Publisher GoTime TenantNaming "HOL-Library.AList"
begin

text \<open>
  The proof that a withdrawn provider no longer serves, \<open>src/pkg/controller/withdrawal.go\<close> from \<open>externalModelRolloutSafe\<close>
  to \<open>patchWithdrawalDrainState\<close>: the Deployment, its ReplicaSets and pods, the EndpointSlices and the pod logs must all show
  the published overlay revision, and that must hold for the whole drain interval.

  The uncached reader of the API server is the record \<open>api_reader\<close>; its functions return what the call returned, and
  \<open>metav1.GetControllerOf\<close> is the field \<open>*_Controller\<close>, the UID of the controlling owner. The nil reader and the nil log reader of
  the source are \<open>None\<close>.
\<close>

subsection \<open>Cluster objects\<close>

record Deployment =
  dp_UID :: string
  dp_Generation :: int
  dp_Labels :: str_map
  dp_TemplateAnnotations :: str_map
  dp_SpecReplicas :: "int option"
  dp_SelectorMatchLabels :: "str_map option"
  dp_ObservedGeneration :: int
  dp_Replicas :: int
  dp_UpdatedReplicas :: int
  dp_ReadyReplicas :: int
  dp_AvailableReplicas :: int
  dp_UnavailableReplicas :: int
  dp_TerminatingReplicas :: "int option"

record ReplicaSet =
  rset_UID :: string
  rset_Controller :: "string option"
  rset_Annotations :: str_map
  rset_TemplateAnnotations :: str_map
  rset_Replicas :: int
  rset_ReadyReplicas :: int
  rset_AvailableReplicas :: int

datatype PodPhase = PodPending | PodRunning | PodSucceeded | PodFailed | PodUnknown

record Pod =
  pod_Namespace :: string
  pod_Name :: string
  pod_UID :: string
  pod_Controller :: "string option"
  pod_Phase :: PodPhase
  pod_Deleting :: bool
  pod_Conditions :: "(string \<times> ConditionStatus) list"

record Endpoint =
  en_Ready :: "bool option"
  en_Serving :: "bool option"
  en_TargetRef :: "(string \<times> string) option"

record api_reader =
  rd_Deployment :: "string \<Rightarrow> string \<Rightarrow> Deployment get_result"
  rd_ConfigMap :: "string \<Rightarrow> string \<Rightarrow> ConfigMap get_result"
  rd_ReplicaSets :: "string \<Rightarrow> str_map \<Rightarrow> (string, ReplicaSet list) res"
  rd_Pods :: "string \<Rightarrow> str_map \<Rightarrow> (string, Pod list) res"
  rd_EndpointSlices :: "string \<Rightarrow> string \<Rightarrow> (string, Endpoint list list) res"
  rd_PodLogs :: "(string \<Rightarrow> string \<Rightarrow> string \<Rightarrow> (string, string) res) option"

datatype WithdrawalError =
    ErrReaderRequired
  | ErrLogReaderRequired
  | ErrRead string
  | ErrNotOwned
  | ErrOverlayNoEnvelope
  | ErrOverlayTampered
  | ErrServingRevisionUnknown
  | ErrDrainTime
  | ErrPatch string

abbreviation managed_by_us :: "str_map \<Rightarrow> bool" where
  "managed_by_us labels \<equiv> sm_get labels ''app.kubernetes.io/managed-by'' = ''ai-gateway-controller''"

definition extprocConfigHashAnnotation :: string where
  "extprocConfigHashAnnotation = ''ai-gateway-controller.opendatahub.io/extproc-config-sha256''"

definition externalModelExtProcContainer :: string where
  "externalModelExtProcContainer = ''payload-processing''"

definition withdrawalDrainAnnotation :: string where
  "withdrawalDrainAnnotation = ''inference.opendatahub.io/provider-withdrawal-drain''"

definition withdrawalDrainDuration :: int where
  "withdrawalDrainDuration = (300 + 10) * second"

definition withdrawalRequeueInterval :: int where
  "withdrawalRequeueInterval = 5 * second"

subsection \<open>The published overlay\<close>

definition readPublishedEnvelope ::
    "jcs_fn \<Rightarrow> api_reader option \<Rightarrow> string \<Rightarrow> string \<Rightarrow> (WithdrawalError, Envelope option) res" where
  "readPublishedEnvelope jcs reader namespace cmName =
     (case reader of
        None \<Rightarrow> Inl ErrReaderRequired
      | Some rd \<Rightarrow>
          (case rd_ConfigMap rd namespace cmName of
             GetNotFound \<Rightarrow> Inr None
           | GetError e \<Rightarrow> Inl (ErrRead e)
           | GetOk cm \<Rightarrow>
               if \<not> managed_by_us (cm_Labels cm) then Inl ErrNotOwned
               else
                 (let raw = sm_get (cm_Data cm) DefaultDataKey in
                  if raw = [] then Inl ErrOverlayNoEnvelope
                  else (case unmarshal dec_envelope raw of
                          Inl _ \<Rightarrow> Inl ErrOverlayTampered
                        | Inr env \<Rightarrow>
                            (case ComputeDigestFromWire jcs raw of
                               Inl _ \<Rightarrow> Inl ErrOverlayTampered
                             | Inr digest \<Rightarrow>
                                 if digest \<noteq> rf_Value (ev_Revision env) then Inl ErrOverlayTampered
                                 else Inr (Some env))))))"

subsection \<open>Deployment\<close>

definition externalModelDeploymentSafe ::
    "child_name \<Rightarrow> api_reader option \<Rightarrow> string \<Rightarrow> string \<Rightarrow> string \<Rightarrow>
     (WithdrawalError, (Deployment \<times> int) option) res" where
  "externalModelDeploymentSafe child reader namespace tenantID expectedConfigHash =
     (case reader of
        None \<Rightarrow> Inl ErrReaderRequired
      | Some rd \<Rightarrow>
          (case rd_Deployment rd namespace (PayloadProcessingExternalModelDeploymentName child tenantID) of
             GetNotFound \<Rightarrow> Inr None
           | GetError e \<Rightarrow> Inl (ErrRead e)
           | GetOk d \<Rightarrow>
               if \<not> managed_by_us (dp_Labels d) \<or> sm_get (dp_Labels d) ''app'' \<noteq> PayloadProcessingExternalModelName
               then Inr None
               else if expectedConfigHash = [] \<or> sm_get (dp_TemplateAnnotations d) extprocConfigHashAnnotation \<noteq> expectedConfigHash
               then Inr None
               else
                 (case rd_ConfigMap rd namespace (PayloadProcessingExternalModelPluginsConfigMapForTenant child tenantID) of
                    GetNotFound \<Rightarrow> Inr None
                  | GetError e \<Rightarrow> Inl (ErrRead e)
                  | GetOk cm \<Rightarrow>
                      if \<not> managed_by_us (cm_Labels cm) then Inr None
                      else
                        (let extprocConfig = sm_get (cm_Data cm) ''extproc.yaml'' in
                         if extprocConfig = [] then Inr None
                         else if sha256_hex extprocConfig \<noteq> expectedConfigHash then Inr None
                         else if dp_ObservedGeneration d \<noteq> dp_Generation d then Inr None
                         else
                           (let replicas = (case dp_SpecReplicas d of None \<Rightarrow> 1 | Some n \<Rightarrow> n) in
                            if replicas \<le> 0 \<or> dp_Replicas d \<noteq> replicas \<or> dp_UpdatedReplicas d \<noteq> replicas
                               \<or> dp_ReadyReplicas d \<noteq> replicas \<or> dp_AvailableReplicas d \<noteq> replicas
                               \<or> dp_UnavailableReplicas d \<noteq> 0
                            then Inr None
                            else if (case dp_TerminatingReplicas d of None \<Rightarrow> False | Some n \<Rightarrow> n \<noteq> 0) then Inr None
                            else if (case dp_SelectorMatchLabels d of None \<Rightarrow> True | Some m \<Rightarrow> m = []) then Inr None
                            else Inr (Some (d, replicas)))))))"

subsection \<open>Revisions in pod logs\<close>

text \<open>\<open>terminalEscapePattern\<close>: an escape, an opening bracket, parameter bytes, intermediate bytes and a final byte. The three
  byte classes are disjoint, so the greedy match is unique.\<close>

definition csi_end :: "string \<Rightarrow> string option" where
  "csi_end s =
     (if has_prefix s [CHR 0x1B, CHR 0x5B] then
        (let r = dropWhile (\<lambda>c. 0x20 \<le> byte c \<and> byte c \<le> 0x2F) (dropWhile (\<lambda>c. 0x30 \<le> byte c \<and> byte c \<le> 0x3F) (drop 2 s)) in
         case r of
           [] \<Rightarrow> None
         | c # cs \<Rightarrow> if 0x40 \<le> byte c \<and> byte c \<le> 0x7E then Some cs else None)
      else None)"

lemma csi_end_length: "csi_end s = Some t \<Longrightarrow> length t < length s"
proof -
  assume "csi_end s = Some t"
  then obtain c where "c # t = dropWhile (\<lambda>c. 0x20 \<le> byte c \<and> byte c \<le> 0x2F)
      (dropWhile (\<lambda>c. 0x30 \<le> byte c \<and> byte c \<le> 0x3F) (drop 2 s))"
    by (auto simp: csi_end_def Let_def split: if_splits list.splits)
  then have "length (c # t) \<le> length (drop 2 s)" by (metis length_dropWhile_le le_trans)
  then show ?thesis by simp
qed

function strip_escapes :: "string \<Rightarrow> string" where
  "strip_escapes s =
     (case s of
        [] \<Rightarrow> []
      | c # cs \<Rightarrow> (case csi_end s of Some t \<Rightarrow> strip_escapes t | None \<Rightarrow> c # strip_escapes cs))"
  by pat_completeness auto
termination
  by (relation "measure length") (auto dest: csi_end_length)

declare strip_escapes.simps [simp del]

definition re_space :: "char \<Rightarrow> bool" where
  "re_space c \<longleftrightarrow> c \<in> set [CHR 0x09, CHR 0x0A, CHR 0x0C, CHR 0x0D, CHR 0x20]"

definition re_word :: "char \<Rightarrow> bool" where
  "re_word c \<longleftrightarrow> is_digit c \<or> byte c \<in> set [0x41..<0x5B] \<or> byte c \<in> set [0x61..<0x7B] \<or> byte c = 0x5F"

text \<open>A revision: 64 hexadecimal digits in quotes, or unquoted and followed by white space or the end.\<close>

definition take_revision :: "string \<Rightarrow> (string \<times> string) option" where
  "take_revision s =
     (let quoted = (s \<noteq> [] \<and> hd s = dquote);
          body = (if quoted then tl s else s);
          rv = take 64 body; rest = drop 64 body in
      if length rv = 64 \<and> list_all (\<lambda>c. c \<in> set hex_chars) rv then
        (if quoted then (if rest \<noteq> [] \<and> hd rest = dquote then Some (rv, tl rest) else None)
         else if rest = [] then Some (rv, [])
         else if re_space (hd rest) then Some (rv, tl rest) else None)
      else None)"

text \<open>The lazy search for the serving revision, from the left; \<open>b\<close> says that a word boundary precedes the text.\<close>

fun find_serving :: "bool \<Rightarrow> string \<Rightarrow> string option" where
  "find_serving b [] = None"
| "find_serving b (c # cs) =
     (case (if b \<and> has_prefix (c # cs) ''serving_revision=''
            then take_revision (drop (length ''serving_revision='') (c # cs)) else None) of
        Some (rv, _) \<Rightarrow> Some rv
      | None \<Rightarrow> find_serving (\<not> re_word c) cs)"

text \<open>\<open>extprocServingRevisionPattern.FindStringSubmatch\<close>: the accepted and serving revision of the leftmost match.
  \<open>b\<close> says that the text is at the start of the line or after white space.\<close>

fun find_revisions :: "bool \<Rightarrow> string \<Rightarrow> (string \<times> string) option" where
  "find_revisions b [] = None"
| "find_revisions b (c # cs) =
     (case (if b \<and> has_prefix (c # cs) ''accepted_revision=''
            then Option.bind (take_revision (drop (length ''accepted_revision='') (c # cs)))
                   (\<lambda>(accepted, rest). map_option (\<lambda>serving. (accepted, serving)) (find_serving True rest))
            else None) of
        Some m \<Rightarrow> Some m
      | None \<Rightarrow> find_revisions (re_space c) cs)"

definition line_verdict :: "string \<Rightarrow> string \<Rightarrow> (WithdrawalError, bool) res option" where
  "line_verdict expectedRevision raw =
     (let line = strip_escapes raw in
      if \<not> contains_str line ''accepted_revision'' then None
      else (case find_revisions True line of
              None \<Rightarrow> Some (Inl ErrServingRevisionUnknown)
            | Some (accepted, serving) \<Rightarrow> Some (Inr (accepted = expectedRevision \<and> serving = expectedRevision))))"

fun last_verdict :: "string \<Rightarrow> string list \<Rightarrow> (WithdrawalError, bool) res" where
  "last_verdict expectedRevision [] = Inl ErrServingRevisionUnknown"
| "last_verdict expectedRevision (l # ls) =
     (case line_verdict expectedRevision l of Some v \<Rightarrow> v | None \<Rightarrow> last_verdict expectedRevision ls)"

definition podServesOverlayRevision ::
    "(string \<Rightarrow> string \<Rightarrow> string \<Rightarrow> (string, string) res) \<Rightarrow> Pod \<Rightarrow> string \<Rightarrow> (WithdrawalError, bool) res" where
  "podServesOverlayRevision logs pod expectedRevision =
     (case logs (pod_Namespace pod) (pod_Name pod) externalModelExtProcContainer of
        Inl _ \<Rightarrow> Inl ErrServingRevisionUnknown
      | Inr out \<Rightarrow> last_verdict expectedRevision (rev (split_byte (CHR 0x0A) out)))"

subsection \<open>ReplicaSets and pods\<close>

definition podReady :: "Pod \<Rightarrow> bool" where
  "podReady pod = list_ex (\<lambda>(t, s). t = ''Ready'' \<and> s = ConditionTrue) (pod_Conditions pod)"

text \<open>The value that \<open>strconv.ParseInt\<close> returns beside its error, which the code drops: 0 for a syntax error, the nearest bound for
  a number out of range.\<close>

definition parse_int64_value :: "string \<Rightarrow> int" where
  "parse_int64_value s =
     (let neg = (s \<noteq> [] \<and> hd s = CHR ''-'');
          body = (if s \<noteq> [] \<and> (hd s = CHR ''-'' \<or> hd s = CHR ''+'') then tl s else s)
      in case parse_nat body of
           None \<Rightarrow> 0
         | Some n \<Rightarrow> max min_int64 (min max_int64 (if neg then - int n else int n)))"

definition rset_revision :: "ReplicaSet \<Rightarrow> int" where
  "rset_revision rs = parse_int64_value (sm_get (rset_Annotations rs) ''deployment.kubernetes.io/revision'')"

text \<open>The first owned ReplicaSet with the greatest revision above -1.\<close>

definition current_rset :: "ReplicaSet list \<Rightarrow> ReplicaSet option" where
  "current_rset owned =
     snd (fold (\<lambda>rs (best, cur). if rset_revision rs > best then (rset_revision rs, Some rs) else (best, cur)) owned (- 1, None))"

definition check_pod ::
    "(string \<Rightarrow> string \<Rightarrow> string \<Rightarrow> (string, string) res) \<Rightarrow> ReplicaSet list \<Rightarrow> ReplicaSet \<Rightarrow> string \<Rightarrow> Pod \<Rightarrow>
     string list \<Rightarrow> (WithdrawalError option, string list) res" where
  "check_pod logs owned current expectedOverlayRevision pod currentPods =
     (if pod_Phase pod = PodFailed \<or> pod_Phase pod = PodSucceeded then Inr currentPods
      else (case pod_Controller pod of
              None \<Rightarrow> Inl None
            | Some owner \<Rightarrow>
                (case List.find (\<lambda>rs. rset_UID rs = owner) owned of
                   None \<Rightarrow> Inl None
                 | Some rs \<Rightarrow>
                     if rset_UID rs \<noteq> rset_UID current \<or> pod_Deleting pod \<or> \<not> podReady pod then Inl None
                     else (case podServesOverlayRevision logs pod expectedOverlayRevision of
                             Inl e \<Rightarrow> Inl (Some e)
                           | Inr serves \<Rightarrow> if serves then Inr (List.insert (pod_UID pod) currentPods) else Inl None))))"

text \<open>The set of UIDs is a list without repetitions. \<open>Inl None\<close> of the loop is the early "not safe" return.\<close>

definition externalModelPodsSafe ::
    "api_reader \<Rightarrow> string \<Rightarrow> Deployment \<Rightarrow> int \<Rightarrow> string \<Rightarrow> string \<Rightarrow> (WithdrawalError, string list option) res" where
  "externalModelPodsSafe rd namespace deployment replicas expectedConfigHash expectedOverlayRevision =
     (let selector = (case dp_SelectorMatchLabels deployment of None \<Rightarrow> [] | Some m \<Rightarrow> m) in
      case rd_ReplicaSets rd namespace selector of
        Inl e \<Rightarrow> Inl (ErrRead e)
      | Inr rsets \<Rightarrow>
          (let owned = filter (\<lambda>rs. rset_Controller rs = Some (dp_UID deployment)) rsets in
           case current_rset owned of
             None \<Rightarrow> Inr None
           | Some current \<Rightarrow>
               if sm_get (rset_TemplateAnnotations current) extprocConfigHashAnnotation \<noteq> expectedConfigHash
                  \<or> rset_Replicas current \<noteq> replicas \<or> rset_ReadyReplicas current \<noteq> replicas
                  \<or> rset_AvailableReplicas current \<noteq> replicas
               then Inr None
               else if list_ex (\<lambda>rs. rset_UID rs \<noteq> rset_UID current
                      \<and> (rset_Replicas rs \<noteq> 0 \<or> rset_ReadyReplicas rs \<noteq> 0 \<or> rset_AvailableReplicas rs \<noteq> 0)) owned
               then Inr None
               else
                 (case rd_Pods rd namespace selector of
                    Inl e \<Rightarrow> Inl (ErrRead e)
                  | Inr pods \<Rightarrow>
                      (case rd_PodLogs rd of
                         None \<Rightarrow> Inl ErrLogReaderRequired
                       | Some logs \<Rightarrow>
                           (case fold_res (check_pod logs owned current expectedOverlayRevision) pods [] of
                              Inl (Some e) \<Rightarrow> Inl e
                            | Inl None \<Rightarrow> Inr None
                            | Inr currentPods \<Rightarrow>
                                if int (length currentPods) \<noteq> replicas then Inr None else Inr (Some currentPods))))))"

subsection \<open>Endpoints\<close>

definition endpoint_serves :: "Endpoint \<Rightarrow> bool" where
  "endpoint_serves ep \<longleftrightarrow>
     (case en_Ready ep of None \<Rightarrow> True | Some b \<Rightarrow> b) \<or> (case en_Serving ep of None \<Rightarrow> False | Some b \<Rightarrow> b)"

definition check_endpoint :: "string list \<Rightarrow> Endpoint \<Rightarrow> string list \<Rightarrow> (unit, string list) res" where
  "check_endpoint currentPods ep servingPods =
     (if \<not> endpoint_serves ep then Inr servingPods
      else (case en_TargetRef ep of
              None \<Rightarrow> Inl ()
            | Some (kind, uid) \<Rightarrow>
                if kind \<noteq> ''Pod'' \<or> uid = [] \<or> uid \<notin> set currentPods then Inl ()
                else Inr (List.insert uid servingPods)))"

definition externalModelEndpointsSafe ::
    "child_name \<Rightarrow> api_reader \<Rightarrow> string \<Rightarrow> string \<Rightarrow> string list \<Rightarrow> (WithdrawalError, bool) res" where
  "externalModelEndpointsSafe child rd namespace tenantID currentPods =
     (case rd_EndpointSlices rd namespace (PayloadProcessingExternalModelServiceName child tenantID) of
        Inl e \<Rightarrow> Inl (ErrRead e)
      | Inr slices \<Rightarrow>
          if slices = [] then Inr False
          else (case fold_res (check_endpoint currentPods) (concat slices) [] of
                  Inl _ \<Rightarrow> Inr False
                | Inr servingPods \<Rightarrow> Inr (length servingPods = length currentPods)))"

definition externalModelRolloutSafe ::
    "jcs_fn \<Rightarrow> child_name \<Rightarrow> api_reader option \<Rightarrow> string \<Rightarrow> string \<Rightarrow> string \<Rightarrow> string \<Rightarrow> (WithdrawalError, bool) res" where
  "externalModelRolloutSafe jcs child reader cmName namespace tenantID expectedConfigHash =
     (case reader of
        None \<Rightarrow> Inl ErrReaderRequired
      | Some rd \<Rightarrow>
          if rd_PodLogs rd = None then Inl ErrLogReaderRequired
          else
            bind_res (readPublishedEnvelope jcs reader namespace cmName) (\<lambda>envo.
              case envo of
                None \<Rightarrow> Inr False
              | Some env \<Rightarrow>
                  if rf_Value (ev_Revision env) = [] then Inr False
                  else
                    bind_res (externalModelDeploymentSafe child reader namespace tenantID expectedConfigHash) (\<lambda>dep.
                      case dep of
                        None \<Rightarrow> Inr False
                      | Some (deployment, replicas) \<Rightarrow>
                          bind_res (externalModelPodsSafe rd namespace deployment replicas expectedConfigHash
                              (rf_Value (ev_Revision env))) (\<lambda>pods.
                            case pods of
                              None \<Rightarrow> Inr False
                            | Some currentPods \<Rightarrow> externalModelEndpointsSafe child rd namespace tenantID currentPods))))"

subsection \<open>Drain state\<close>

record withdrawalDrainState =
  ds_Revision :: string
  ds_StartedAt :: int

definition enc_drain :: "withdrawalDrainState \<Rightarrow> json" where
  "enc_drain s = j_obj [(''revision'', j_str (ds_Revision s)), (''startedAt'', j_str (format_rfc3339 (ds_StartedAt s)))]"

text \<open>\<open>time.Time.UnmarshalJSON\<close> reads the bytes between the quotes of the lexeme; null leaves the value alone.\<close>

definition dec_time :: "json \<Rightarrow> int \<Rightarrow> (json_error, int) res" where
  "dec_time j old =
     (case j of
        JNull \<Rightarrow> Inr old
      | JStr l \<Rightarrow> (case parse_rfc3339 l of Some t \<Rightarrow> Inr t | None \<Rightarrow> Inl JsonType)
      | _ \<Rightarrow> Inl JsonType)"

definition upd_drain :: "string \<Rightarrow> json \<Rightarrow> withdrawalDrainState \<Rightarrow> (json_error, withdrawalDrainState) res" where
  "upd_drain k v s =
     (if k = ''revision'' then bind_res (dec_str v (ds_Revision s)) (\<lambda>x. Inr (s\<lparr>ds_Revision := x\<rparr>))
      else bind_res (dec_time v (ds_StartedAt s)) (\<lambda>x. Inr (s\<lparr>ds_StartedAt := x\<rparr>)))"

definition dec_drain :: "json \<Rightarrow> (json_error, withdrawalDrainState) res" where
  "dec_drain j = dec_fields [''revision'', ''startedAt''] upd_drain j \<lparr>ds_Revision = [], ds_StartedAt = zero_time\<rparr>"

text \<open>The state that the annotation holds, \<open>None\<close> when it is absent, does not parse or is incomplete.\<close>

definition drain_state :: "ConfigMap \<Rightarrow> withdrawalDrainState option" where
  "drain_state cm =
     (let raw = sm_get (cm_Annotations cm) withdrawalDrainAnnotation in
      if raw = [] then None
      else (case unmarshal dec_drain raw of
              Inl _ \<Rightarrow> None
            | Inr s \<Rightarrow> if ds_Revision s \<noteq> [] \<and> ds_StartedAt s \<noteq> zero_time then Some s else None))"

text \<open>The object that the patch makes of \<open>cm\<close>.\<close>

definition patchWithdrawalDrainState :: "ConfigMap \<Rightarrow> string \<Rightarrow> ConfigMap" where
  "patchWithdrawalDrainState cm value =
     cm\<lparr>cm_Annotations :=
          (if value = [] then AList.delete withdrawalDrainAnnotation (cm_Annotations cm)
           else AList.update withdrawalDrainAnnotation value (cm_Annotations cm))\<rparr>"

text \<open>The result and the patched object, if a patch was sent; \<open>patched\<close> is the error of the patch, if it fails.\<close>

definition withdrawalDrainRemaining ::
    "ConfigMap get_result \<Rightarrow> string option \<Rightarrow> string \<Rightarrow> bool \<Rightarrow> int \<Rightarrow>
     (WithdrawalError, int) res \<times> ConfigMap option" where
  "withdrawalDrainRemaining got patched revision safe now =
     (case got of
        GetNotFound \<Rightarrow> (Inl (ErrRead ''not found''), None)
      | GetError e \<Rightarrow> (Inl (ErrRead e), None)
      | GetOk cm \<Rightarrow>
          if \<not> managed_by_us (cm_Labels cm) then (Inl ErrNotOwned, None)
          else
            (let patch = (\<lambda>value after. case patched of
                             Some e \<Rightarrow> (Inl (ErrPatch e), Some (patchWithdrawalDrainState cm value))
                           | None \<Rightarrow> (Inr after, Some (patchWithdrawalDrainState cm value))) in
             if \<not> safe then
               (if drain_state cm \<noteq> None then patch [] withdrawalRequeueInterval
                else (Inr withdrawalRequeueInterval, None))
             else
               (case drain_state cm of
                  Some state \<Rightarrow>
                    if ds_Revision state = revision then
                      (let remaining = wrap_int64 (withdrawalDrainDuration - time_sub now (ds_StartedAt state))
                       in (Inr (if remaining > 0 then remaining else 0), None))
                    else if \<not> in_rfc3339 now then (Inl ErrDrainTime, None)
                    else patch (marshal (enc_drain \<lparr>ds_Revision = revision, ds_StartedAt = now\<rparr>)) withdrawalDrainDuration
                | None \<Rightarrow>
                    if \<not> in_rfc3339 now then (Inl ErrDrainTime, None)
                    else patch (marshal (enc_drain \<lparr>ds_Revision = revision, ds_StartedAt = now\<rparr>)) withdrawalDrainDuration)))"

definition clearWithdrawalDrainState ::
    "ConfigMap get_result \<Rightarrow> string option \<Rightarrow> WithdrawalError option \<times> ConfigMap option" where
  "clearWithdrawalDrainState got patched =
     (case got of
        GetNotFound \<Rightarrow> (None, None)
      | GetError e \<Rightarrow> (Some (ErrRead e), None)
      | GetOk cm \<Rightarrow>
          if sm_get (cm_Annotations cm) withdrawalDrainAnnotation = [] then (None, None)
          else if \<not> managed_by_us (cm_Labels cm) then (Some ErrNotOwned, None)
          else (map_option ErrPatch patched, Some (patchWithdrawalDrainState cm [])))"

end
