(* ===== verification/WithdrawalRoutes.thy ===== *)
theory WithdrawalRoutes
  imports RuntimeProfiles RolloutSafety
begin

text \<open>
  Staging of withdrawn routes, \<open>src/pkg/controller/withdrawal.go\<close> from \<open>transportRoutesForPublication\<close> to \<open>routeClientName\<close>: the
  routes that stay programmed while a withdrawn provider drains are the desired ones, those found in applied HTTPRoutes and those
  restored from the previous overlay.

  The client's reads are the fields of \<open>cluster_view\<close>. A Go map that is only looked up or ranged over is an association list; the
  theorems hold for every order of the applied routes, since Go does not fix the order of a range over a map.
\<close>

definition providerServicePrefix :: string where
  "providerServicePrefix = ''provider-''"

definition providerSelectionSinkPrefix :: string where
  "providerSelectionSinkPrefix = ''provider-selection-required-''"

definition selectedProviderHeader :: string where
  "selectedProviderHeader = ''X-AI-Routing-Candidate''"

record cluster_view =
  cv_Model :: "string \<Rightarrow> string \<Rightarrow> ExternalModel get_result"
  cv_Provider :: "string \<Rightarrow> string \<Rightarrow> ExternalProvider get_result"
  cv_Models :: "(string, ExternalModel list) res"
  cv_Providers :: "(string, ExternalProvider list) res"
  cv_HTTPRoutes :: "string \<Rightarrow> (string, HTTPRoute list) res"

datatype StageError =
    ErrListRoutes string
  | ErrReadRules string
  | ErrProfiles ProfileError
  | ErrNotThisTenant string
  | ErrNoStableID string
  | ErrStageStale string string
  | ErrReadModel string
  | ErrReadProvider "string option"
  | ErrListProviders string
  | ErrListModels string
  | ErrNoProviderNamespace string string
  | ErrWithdrawnProviderGone string string
  | ErrPortRead string
  | ErrPortRange int

subsection \<open>Identifiers\<close>

definition splitCandidateStableID :: "string \<Rightarrow> (string \<times> string) option" where
  "splitCandidateStableID stableID =
     (case last_index stableID ''/provider-'' of
        None \<Rightarrow> None
      | Some index \<Rightarrow>
          if index = 0 \<or> index + length ''/provider-'' \<ge> length stableID then None
          else Some (take index stableID, drop (index + length ''/provider-'') stableID))"

text \<open>Model, provider namespace and provider, and whether the candidate belongs to the tenant. For an identifier that does not, the
  names are empty.\<close>

definition splitTenantWithdrawalStableID :: "string \<Rightarrow> string \<Rightarrow> string \<times> string \<times> string \<times> bool" where
  "splitTenantWithdrawalStableID stableID namespace =
     (if \<not> IsScopedStableID stableID then
        (case splitCandidateStableID stableID of
           None \<Rightarrow> ([], [], [], False)
         | Some (model, provider) \<Rightarrow> (model, [], provider, True))
      else (case split_byte (CHR ''/'') stableID of
              [p0, p1, p2, p3] \<Rightarrow> if p0 \<noteq> namespace then ([], [], [], False) else (p1, p2, p3, True)
            | _ \<Rightarrow> ([], [], [], False)))"

definition desiredCandidateIDs :: "Route \<Rightarrow> string list" where
  "desiredCandidateIDs route =
     [RouteStableID route, CandidateStableID (Model route) (Provider route)]
     @ (if CrossNamespace route
        then [ScopedStableID (Namespace route) (Model route) (ProviderNamespace route) (Provider route)] else [])"

subsection \<open>Provider namespaces\<close>

definition probe_route :: "string \<Rightarrow> string \<Rightarrow> string \<Rightarrow> string \<Rightarrow> Route" where
  "probe_route modelNamespace modelName providerName providerNamespace =
     zero_route\<lparr>Model := modelName, Namespace := modelNamespace, Provider := providerName, ProviderNamespace := providerNamespace\<rparr>"

definition providerNamespaceForService ::
    "cluster_view \<Rightarrow> string \<Rightarrow> string \<Rightarrow> string \<Rightarrow> string \<Rightarrow> (StageError, string option) res" where
  "providerNamespaceForService cv modelNamespace modelName providerName serviceName =
     (if serviceName = providerServicePrefix @ providerName then Inr (Some modelNamespace)
      else (case cv_Providers cv of
              Inl e \<Rightarrow> Inl (ErrListProviders e)
            | Inr providers \<Rightarrow>
                Inr (map_option ep_Namespace
                  (List.find (\<lambda>p. ep_Name p = providerName
                      \<and> ServiceName (probe_route modelNamespace modelName providerName (ep_Namespace p)) = serviceName) providers))))"

subsection \<open>Rebuilding a withdrawn route\<close>

definition withdrawn_namespace ::
    "cluster_view \<Rightarrow> string \<Rightarrow> Candidate \<Rightarrow> string \<Rightarrow> string \<Rightarrow> string \<Rightarrow> (StageError, string) res" where
  "withdrawn_namespace cv namespace candidate modelName providerNamespace providerName =
     (let pns = (if providerNamespace = namespace then [] else providerNamespace) in
      bind_res
        (if pns = [] \<and> ca_Cluster candidate \<noteq> providerServicePrefix @ providerName then
           (case providerNamespaceForService cv namespace modelName providerName (ca_Cluster candidate) of
              Inl e \<Rightarrow> Inl e
            | Inr None \<Rightarrow> Inl (ErrNoProviderNamespace (ca_StableID candidate) (ca_Cluster candidate))
            | Inr (Some resolved) \<Rightarrow> Inr resolved)
         else Inr pns)
        (\<lambda>pns. Inr (if pns = [] then namespace else pns)))"

text \<open>The route of a candidate without an applied HTTPRoute; a missing ExternalModel counts as one without a model name.\<close>

definition withdrawn_base ::
    "cluster_view \<Rightarrow> string \<Rightarrow> Candidate \<Rightarrow> string \<Rightarrow> string \<Rightarrow> string \<Rightarrow> bool \<Rightarrow> (StageError, Route) res" where
  "withdrawn_base cv namespace candidate modelName providerNamespace providerName apiTranslationEnabled =
     bind_res
       (case cv_Model cv namespace modelName of
          GetError e \<Rightarrow> Inl (ErrReadModel e)
        | GetNotFound \<Rightarrow> Inr []
        | GetOk model \<Rightarrow> Inr (ms_ModelName (em_Spec model)))
       (\<lambda>specName.
          bind_res (withdrawn_namespace cv namespace candidate modelName providerNamespace providerName) (\<lambda>pns.
            let clientName = (if ca_Name candidate \<noteq> [] then ca_Name candidate
                              else if specName \<noteq> [] then specName else modelName)
            in Inr (zero_route\<lparr>Model := modelName, ClientName := clientName, Namespace := namespace, Provider := providerName,
                      ProviderNamespace := pns, APITranslationEnabled := apiTranslationEnabled,
                      StableID := ca_StableID candidate\<rparr>)))"

text \<open>What the provider and the candidate add; the candidate's credential wins over the provider's.\<close>

definition withdrawn_fill :: "ExternalProvider \<Rightarrow> Candidate \<Rightarrow> string \<Rightarrow> bool \<Rightarrow> bool \<Rightarrow> Route \<Rightarrow> Route" where
  "withdrawn_fill provider candidate providerName appliedRoute apiTranslationEnabled route0 =
     (let route1 = (if ca_APIFormat candidate \<noteq> [] \<or> \<not> appliedRoute
                    then route0\<lparr>APIFormat := ca_APIFormat candidate, Path := ca_Path candidate,
                                TargetModel := ca_TargetModel candidate\<rparr> else route0);
          route2 = route1\<lparr>APITranslationEnabled := apiTranslationEnabled, ProviderType := ps_Provider (ep_Spec provider),
                     TLSCACertificates := trim_space (sm_get (ps_Config (ep_Spec provider)) ''tls.caCertificates'')\<rparr>;
          route3 = (if Cluster route2 = []
                    then route2\<lparr>Cluster := (if ca_Cluster candidate = [] then providerServicePrefix @ providerName
                                            else ca_Cluster candidate)\<rparr> else route2);
          route4 = (if Endpoint route3 = [] then route3\<lparr>Endpoint := ps_Endpoint (ep_Spec provider)\<rparr> else route3);
          route5 = (case ca_Credential candidate of
                      Some credential \<Rightarrow>
                        route4\<lparr>AuthType := ''apikey'', SecretName := sr_Name (cr_SecretRef credential),
                               SecretNamespace := sr_Namespace (cr_SecretRef credential),
                               SecretKey := sr_Key (cr_SecretRef credential)\<rparr>
                    | None \<Rightarrow>
                        route4\<lparr>AuthType := ac_Type (ps_Auth (ep_Spec provider)),
                               SecretName := nr_Name (ac_SecretRef (ps_Auth (ep_Spec provider))),
                               SecretNamespace := ep_Namespace provider, SecretKey := ''api-key''\<rparr>)
      in route5\<lparr>StableID := ca_StableID candidate\<rparr>)"

definition routeForWithdrawnCandidate ::
    "cluster_view \<Rightarrow> string \<Rightarrow> Candidate \<Rightarrow> string \<Rightarrow> string \<Rightarrow> string \<Rightarrow> (string \<times> Route) list \<Rightarrow> bool \<Rightarrow>
     (StageError, Route) res" where
  "routeForWithdrawnCandidate cv namespace candidate modelName providerNamespace providerName applied apiTranslationEnabled =
     (let appliedRoute = (map_of applied (ca_StableID candidate) \<noteq> None) in
      bind_res
        (case map_of applied (ca_StableID candidate) of
           Some route \<Rightarrow> Inr (route\<lparr>ClientName := ca_Name candidate, Cluster := ca_Cluster candidate\<rparr>)
         | None \<Rightarrow> withdrawn_base cv namespace candidate modelName providerNamespace providerName apiTranslationEnabled)
        (\<lambda>route.
           case cv_Provider cv (ProviderNamespace route) providerName of
             GetOk provider \<Rightarrow> Inr (withdrawn_fill provider candidate providerName appliedRoute apiTranslationEnabled route)
           | GetError e \<Rightarrow> Inl (ErrReadProvider (Some e))
           | GetNotFound \<Rightarrow>
               if \<not> appliedRoute then Inl (ErrWithdrawnProviderGone (ProviderNamespace route) providerName)
               else if ProviderType route \<noteq> [] \<or> ca_Credential candidate = None
               then Inr (route\<lparr>APITranslationEnabled := apiTranslationEnabled, StableID := ca_StableID candidate\<rparr>)
               else Inl (ErrReadProvider None)))"

subsection \<open>Reading applied HTTPRoutes\<close>

text \<open>\<open>strings.EqualFold\<close> with the selection header, whose letters have no folding outside ASCII.\<close>

definition is_selected_header :: "string \<Rightarrow> bool" where
  "is_selected_header name \<longleftrightarrow> map ascii_upper name = map ascii_upper selectedProviderHeader"

definition providerStableIDFromRule :: "unstr_lib \<Rightarrow> umap \<Rightarrow> string" where
  "providerStableIDFromRule u rule =
     (case List.find (\<lambda>header. is_selected_header (str_or_empty header ''name''))
             (concat (map (\<lambda>m. maps_of (slice_or_nil u m [''headers''])) (maps_of (slice_or_nil u rule [''matches''])))) of
        None \<Rightarrow> []
      | Some header \<Rightarrow> str_or_empty header ''value'')"

definition filter_host :: "unstr_lib \<Rightarrow> umap \<Rightarrow> string option" where
  "filter_host u flt =
     (case NestedString u flt [''urlRewrite'', ''hostname''] of
        Inr (Some h) \<Rightarrow> if h \<noteq> [] then Some h else None
      | _ \<Rightarrow> None)"

definition join_host_port :: "string \<Rightarrow> string \<Rightarrow> string" where
  "join_host_port host port =
     (if CHR '':'' \<in> set host then ''['' @ host @ '']:'' @ port else host @ '':'' @ port)"

definition providerEndpointFromRule :: "unstr_lib \<Rightarrow> umap \<Rightarrow> umap \<Rightarrow> (StageError, string) res" where
  "providerEndpointFromRule u rule backend =
     (case List.map_filter (filter_host u) (maps_of (slice_or_nil u rule [''filters''])) of
        [] \<Rightarrow> Inr []
      | host # _ \<Rightarrow>
          (case NestedInt64 u backend [''port''] of
             Inl e \<Rightarrow> Inl (ErrPortRead e)
           | Inr found \<Rightarrow>
               (let port = (case found of None \<Rightarrow> 443 | Some p \<Rightarrow> p) in
                if port < 1 \<or> port > 65535 then Inl (ErrPortRange port)
                else if port = 443 then Inr host
                else Inr (join_host_port (trim_set host ''[]'') (format_int port)))))"

definition routeClientName :: "unstr_lib \<Rightarrow> uval list \<Rightarrow> string \<Rightarrow> string \<Rightarrow> string" where
  "routeClientName u rules namespace model =
     (let prefix = ''/'' @ namespace @ ''/'';
          path_of = (\<lambda>m. case NestedString u m [''path'', ''value''] of
                           Inr (Some path) \<Rightarrow> if has_prefix path prefix then Some (trim_prefix path prefix) else None
                         | _ \<Rightarrow> None)
      in case List.map_filter path_of (concat (map (\<lambda>rule. maps_of (slice_or_nil u rule [''matches''])) (maps_of rules))) of
           [] \<Rightarrow> model
         | name # _ \<Rightarrow> name)"

text \<open>One rule of an applied route: the identifier and the route it stands for, \<open>None\<close> when the rule is passed over.\<close>

definition applied_namespace ::
    "cluster_view \<Rightarrow> string \<Rightarrow> string \<Rightarrow> string \<Rightarrow> string \<Rightarrow> string \<Rightarrow> (StageError, string option) res" where
  "applied_namespace cv namespace modelName providerName providerNamespace serviceName =
     (if providerNamespace \<noteq> [] then
        Inr (if ServiceName (probe_route namespace modelName providerName providerNamespace) = serviceName
             then Some providerNamespace else None)
      else providerNamespaceForService cv namespace modelName providerName serviceName)"

definition applied_rule ::
    "cluster_view \<Rightarrow> unstr_lib \<Rightarrow> string \<Rightarrow> string \<Rightarrow> string \<Rightarrow> (string \<times> Route) list \<Rightarrow> umap \<Rightarrow>
     (StageError, (string \<times> Route) option) res" where
  "applied_rule cv u namespace modelName clientName profileByID rule =
     (let stableID = providerStableIDFromRule u rule;
          refs = slice_or_nil u rule [''backendRefs''] in
      if stableID = [] \<or> refs = [] then Inr None
      else (case as_map (hd refs) of
              None \<Rightarrow> Inr None
            | Some backend \<Rightarrow>
                (let serviceName = str_or_empty backend ''name'' in
                 if \<not> has_prefix serviceName providerServicePrefix \<or> has_prefix serviceName providerSelectionSinkPrefix
                 then Inr None
                 else (case splitTenantWithdrawalStableID stableID namespace of
                         (candidateModel, providerNamespace, providerName, belongsToTenant) \<Rightarrow>
                           if \<not> belongsToTenant \<or> candidateModel \<noteq> modelName \<or> providerName = [] then Inr None
                           else
                             bind_res (applied_namespace cv namespace modelName providerName providerNamespace serviceName)
                               (\<lambda>found. case found of
                                  None \<Rightarrow> Inr None
                                | Some resolvedNamespace \<Rightarrow>
                                    bind_res (providerEndpointFromRule u rule backend) (\<lambda>endpoint.
                                      if endpoint = [] then Inr None
                                      else
                                        (let resolvedRoute =
                                           (case map_of profileByID stableID of
                                              Some profile \<Rightarrow> profile\<lparr>Endpoint := endpoint, Cluster := serviceName\<rparr>
                                            | None \<Rightarrow> (probe_route namespace modelName providerName resolvedNamespace)
                                                \<lparr>ClientName := clientName, Cluster := serviceName, Endpoint := endpoint\<rparr>)
                                         in Inr (Some (stableID, resolvedRoute)))))))))"

definition add_rule ::
    "cluster_view \<Rightarrow> unstr_lib \<Rightarrow> string \<Rightarrow> string \<Rightarrow> string \<Rightarrow> (string \<times> Route) list \<Rightarrow> umap \<Rightarrow> (string \<times> Route) list \<Rightarrow>
     (StageError, (string \<times> Route) list) res" where
  "add_rule cv u namespace modelName clientName profileByID rule result =
     bind_res (applied_rule cv u namespace modelName clientName profileByID rule) (\<lambda>r.
       case r of None \<Rightarrow> Inr result | Some (stableID, route) \<Rightarrow> Inr (AList.update stableID route result))"

definition applied_route ::
    "cluster_view \<Rightarrow> k8s_lib \<Rightarrow> unstr_lib \<Rightarrow> string \<Rightarrow> HTTPRoute \<Rightarrow> (string \<times> Route) list \<Rightarrow>
     (StageError, (string \<times> Route) list) res" where
  "applied_route cv lib u namespace route result =
     (let modelName = sm_get (hr_Labels route) externalModelLabel in
      if modelName = [] then Inr result
      else (case NestedSlice u (hr_Object route) [''spec'', ''rules''] of
              Inl e \<Rightarrow> Inl (ErrReadRules e)
            | Inr found \<Rightarrow>
                (let rules = (case found of None \<Rightarrow> [] | Some xs \<Rightarrow> xs) in
                 case HomeRuntimeRouteProfiles lib u route namespace of
                   Inl e \<Rightarrow> Inl (ErrProfiles e)
                 | Inr profiles \<Rightarrow>
                     fold_res (add_rule cv u namespace modelName (routeClientName u rules namespace modelName)
                         (rev (map (\<lambda>p. (RouteStableID p, p)) profiles))) (maps_of rules) result)))"

definition readAppliedModelRoutes ::
    "cluster_view \<Rightarrow> k8s_lib \<Rightarrow> unstr_lib \<Rightarrow> string \<Rightarrow> (StageError, (string \<times> Route) list) res" where
  "readAppliedModelRoutes cv lib u namespace =
     (case cv_HTTPRoutes cv namespace of
        Inl e \<Rightarrow> Inl (ErrListRoutes e)
      | Inr routes \<Rightarrow> fold_res (applied_route cv lib u namespace) routes [])"

subsection \<open>The union of desired and withdrawn routes\<close>

text \<open>The state of both loops: \<open>byID\<close> and the union so far.\<close>

type_synonym stage = "(string \<times> Route) list \<times> Route list"

definition previous_candidates :: "Envelope option \<Rightarrow> (string \<times> Candidate) list" where
  "previous_candidates previous =
     (case previous of
        None \<Rightarrow> []
      | Some env \<Rightarrow> rev (map (\<lambda>c. (ca_StableID c, c))
          (filter (\<lambda>c. ca_Kind c = ''inference_model'' \<and> ca_StableID c \<noteq> []) (ov_Candidates (ev_Overlay env)))))"

definition stage_restored :: "string \<Rightarrow> (StageError, Route) res \<Rightarrow> stage \<Rightarrow> (StageError, stage) res" where
  "stage_restored ident restored st =
     (case restored of
        Inl (ErrWithdrawnProviderGone _ _) \<Rightarrow> Inr st
      | Inl e \<Rightarrow> Inl e
      | Inr route \<Rightarrow> Inr ((ident, route) # fst st, snd st @ [route]))"

definition stage_applied ::
    "cluster_view \<Rightarrow> string \<Rightarrow> (string \<times> Candidate) list \<Rightarrow> (string \<times> Route) list \<Rightarrow> bool \<Rightarrow> string \<times> Route \<Rightarrow> stage \<Rightarrow>
     (StageError, stage) res" where
  "stage_applied cv namespace previousCandidates transportRoutes apiTranslationEnabled entry st =
     (case entry of (ident, route) \<Rightarrow>
        if map_of (fst st) ident \<noteq> None then Inr st
        else (case map_of previousCandidates ident of
                None \<Rightarrow> Inr ((ident, route) # fst st, snd st @ [route])
              | Some candidate \<Rightarrow>
                  (case splitTenantWithdrawalStableID ident namespace of
                     (modelName, providerNamespace, providerName, belongsToTenant) \<Rightarrow>
                       if \<not> belongsToTenant then Inl (ErrNotThisTenant ident)
                       else stage_restored ident (routeForWithdrawnCandidate cv namespace candidate modelName providerNamespace
                              providerName transportRoutes apiTranslationEnabled) st)))"

definition stage_candidate ::
    "cluster_view \<Rightarrow> string \<Rightarrow> (string \<times> Route) list \<Rightarrow> bool \<Rightarrow> Candidate \<Rightarrow> stage \<Rightarrow> (StageError, stage) res" where
  "stage_candidate cv namespace transportRoutes apiTranslationEnabled candidate st =
     (if ca_Kind candidate \<noteq> ''inference_model'' then Inr st
      else if ca_StableID candidate = [] then Inl (ErrNoStableID (ca_Cluster candidate))
      else (case splitTenantWithdrawalStableID (ca_StableID candidate) namespace of
              (modelName, providerNamespace, providerName, belongsToTenant) \<Rightarrow>
                if IsScopedStableID (ca_StableID candidate) \<and> \<not> belongsToTenant then Inr st
                else if map_of (fst st) (ca_StableID candidate) \<noteq> None then Inr st
                else if modelName = [] \<or> providerName = [] \<or> ca_Cluster candidate = []
                then Inl (ErrStageStale (ca_StableID candidate) (ca_Cluster candidate))
                else stage_restored (ca_StableID candidate)
                       (routeForWithdrawnCandidate cv namespace candidate modelName providerNamespace providerName
                          transportRoutes apiTranslationEnabled) st))"

text \<open>\<open>transportRoutes\<close> is the outcome of \<open>readAppliedModelRoutes\<close>, in the order in which the range statement visits it.\<close>

definition transportRoutesForPublication ::
    "cluster_view \<Rightarrow> (StageError, (string \<times> Route) list) res \<Rightarrow> string \<Rightarrow> Route list \<Rightarrow> Envelope option \<Rightarrow> bool \<Rightarrow>
     (StageError, Route list \<times> bool) res" where
  "transportRoutesForPublication cv transportRoutes namespace desired previous apiTranslationEnabled =
     bind_res transportRoutes (\<lambda>applied.
       let desiredIDs = concat (map (\<lambda>route. map (\<lambda>ident. (ident, route)) (desiredCandidateIDs route)) desired);
           candidates = (case previous of None \<Rightarrow> [] | Some env \<Rightarrow> ov_Candidates (ev_Overlay env))
       in bind_res (fold_res (stage_applied cv namespace (previous_candidates previous) applied apiTranslationEnabled) applied
                      (rev desiredIDs, desired)) (\<lambda>st.
          bind_res (fold_res (stage_candidate cv namespace applied apiTranslationEnabled) candidates st) (\<lambda>(byID, union).
            Inr (union, list_ex (\<lambda>(ident, _). ident \<notin> set (map fst desiredIDs)) byID))))"

subsection \<open>Messages and copies\<close>

datatype WaitMessage = WaitForModels "string list" | WaitForRollout

definition model_references :: "string \<Rightarrow> string \<Rightarrow> ExternalModel \<Rightarrow> bool" where
  "model_references namespace providerName model =
     list_ex (\<lambda>ref. (if pr_Namespace (er_Ref ref) = [] then em_Namespace model else pr_Namespace (er_Ref ref)) = namespace
                \<and> pr_Name (er_Ref ref) = providerName) (ms_ExternalProviderRefs (em_Spec model))"

definition providerWithdrawalWaitMessage :: "cluster_view \<Rightarrow> string \<Rightarrow> string \<Rightarrow> (StageError, WaitMessage) res" where
  "providerWithdrawalWaitMessage cv namespace providerName =
     (case cv_Models cv of
        Inl e \<Rightarrow> Inl (ErrListModels e)
      | Inr models \<Rightarrow>
          (let references = sort (map (\<lambda>m. em_Namespace m @ ''/'' @ em_Name m) (filter (model_references namespace providerName) models))
           in Inr (if references \<noteq> [] then WaitForModels references else WaitForRollout)))"

end
