(* ===== verification/RolloutCorrect.thy ===== *)
theory RolloutCorrect
  imports RolloutSafety PublisherCorrect
begin

text \<open>
  What a positive answer of the rollout check proves, and what a finished drain proves: the check is sound for the pods,
  endpoints and logs that were read, and a drain finishes only after an uninterrupted run of positive answers for one revision
  that spans the whole drain interval. The persisted state refines the history of calls.
\<close>

subsection \<open>Pods and endpoints\<close>

definition pod_active :: "Pod \<Rightarrow> bool" where
  "pod_active pod \<longleftrightarrow> pod_Phase pod \<noteq> PodFailed \<and> pod_Phase pod \<noteq> PodSucceeded"

definition pod_proven :: "(string \<Rightarrow> string \<Rightarrow> string \<Rightarrow> (string, string) res) \<Rightarrow> string \<Rightarrow> Pod \<Rightarrow> bool" where
  "pod_proven logs revision pod \<longleftrightarrow>
     podReady pod \<and> \<not> pod_Deleting pod \<and> podServesOverlayRevision logs pod revision = Inr True"

lemma check_pod_Inr:
  "check_pod logs owned current revision pod acc = Inr acc' \<Longrightarrow>
     (pod_active pod \<longrightarrow> pod_proven logs revision pod) \<and> acc' = (if pod_active pod then List.insert (pod_UID pod) acc else acc)"
  by (auto simp: check_pod_def pod_active_def pod_proven_def split: if_splits option.splits sum.splits)

lemma check_pods_Inr:
  "fold_res (check_pod logs owned current revision) pods acc = Inr cur \<Longrightarrow> distinct acc \<Longrightarrow>
     (\<forall>pod \<in> set pods. pod_active pod \<longrightarrow> pod_proven logs revision pod)
     \<and> set cur = set acc \<union> pod_UID ` {pod \<in> set pods. pod_active pod} \<and> distinct cur"
proof (induction pods arbitrary: acc)
  case (Cons pod pods)
  then obtain acc' where step: "check_pod logs owned current revision pod acc = Inr acc'"
    and rest: "fold_res (check_pod logs owned current revision) pods acc' = Inr cur"
    by (auto split: sum.splits)
  from check_pod_Inr [OF step] Cons.prems(2) have "distinct acc'" by auto
  with Cons.IH [OF rest] check_pod_Inr [OF step] show ?case by auto
qed simp

lemma check_endpoints_Inr:
  "fold_res (check_endpoint cur) eps acc = Inr srv \<Longrightarrow> distinct acc \<Longrightarrow> set acc \<subseteq> set cur \<Longrightarrow>
     (\<forall>ep \<in> set eps. endpoint_serves ep \<longrightarrow> (\<exists>uid \<in> set cur. en_TargetRef ep = Some (''Pod'', uid)))
     \<and> distinct srv \<and> set srv \<subseteq> set cur
     \<and> (\<forall>uid \<in> set srv. uid \<in> set acc \<or> (\<exists>ep \<in> set eps. endpoint_serves ep \<and> en_TargetRef ep = Some (''Pod'', uid)))"
proof (induction eps arbitrary: acc)
  case (Cons ep eps)
  then obtain acc' where step: "check_endpoint cur ep acc = Inr acc'" and rest: "fold_res (check_endpoint cur) eps acc' = Inr srv"
    by (auto split: sum.splits)
  from step have one: "endpoint_serves ep \<Longrightarrow> \<exists>uid \<in> set cur. en_TargetRef ep = Some (''Pod'', uid) \<and> acc' = List.insert uid acc"
    and none: "\<not> endpoint_serves ep \<Longrightarrow> acc' = acc"
    by (auto simp: check_endpoint_def split: if_splits option.splits)
  have "distinct acc'" "set acc' \<subseteq> set cur"
    using one none Cons.prems by (cases "endpoint_serves ep"; auto)+
  note ih = Cons.IH [OF rest this]
  show ?case
  proof (cases "endpoint_serves ep")
    case True
    with one obtain uid where "uid \<in> set cur" "en_TargetRef ep = Some (''Pod'', uid)" "acc' = List.insert uid acc" by auto
    with ih True show ?thesis by fastforce
  next
    case False
    with ih none show ?thesis by auto
  qed
qed simp

subsection \<open>The rollout check is sound\<close>

text \<open>Everything that a safe rollout has shown: the published overlay has a revision, the Deployment runs the expected
  configuration with all replicas, every pod that has not finished serves exactly that revision according to its log, and the
  endpoints that take traffic are exactly those pods.\<close>

definition rollout_proven ::
    "jcs_fn \<Rightarrow> child_name \<Rightarrow> api_reader \<Rightarrow> string \<Rightarrow> string \<Rightarrow> string \<Rightarrow> string \<Rightarrow> bool" where
  "rollout_proven jcs child rd cmName namespace tenantID hash \<longleftrightarrow>
     (\<exists>env d replicas pods logs slices.
        readPublishedEnvelope jcs (Some rd) namespace cmName = Inr (Some env)
        \<and> rd_Deployment rd namespace (PayloadProcessingExternalModelDeploymentName child tenantID) = GetOk d
        \<and> hash \<noteq> [] \<and> sm_get (dp_TemplateAnnotations d) extprocConfigHashAnnotation = hash
        \<and> replicas > 0 \<and> dp_ReadyReplicas d = replicas \<and> dp_UpdatedReplicas d = replicas \<and> dp_UnavailableReplicas d = 0
        \<and> rd_Pods rd namespace (the (dp_SelectorMatchLabels d)) = Inr pods \<and> rd_PodLogs rd = Some logs
        \<and> rd_EndpointSlices rd namespace (PayloadProcessingExternalModelServiceName child tenantID) = Inr slices
        \<and> (\<forall>pod \<in> set pods. pod_active pod \<longrightarrow> pod_proven logs (rf_Value (ev_Revision env)) pod)
        \<and> int (card (pod_UID ` {pod \<in> set pods. pod_active pod})) = replicas
        \<and> (\<forall>ep \<in> set (concat slices). endpoint_serves ep \<longrightarrow>
             (\<exists>pod \<in> set pods. pod_active pod \<and> en_TargetRef ep = Some (''Pod'', pod_UID pod)))
        \<and> (\<forall>pod \<in> set pods. pod_active pod \<longrightarrow>
             (\<exists>ep \<in> set (concat slices). endpoint_serves ep \<and> en_TargetRef ep = Some (''Pod'', pod_UID pod))))"

lemma deployment_safe:
  assumes "externalModelDeploymentSafe child (Some rd) namespace tenantID hash = Inr (Some (d, replicas))"
  shows "rd_Deployment rd namespace (PayloadProcessingExternalModelDeploymentName child tenantID) = GetOk d"
    and "hash \<noteq> []" "sm_get (dp_TemplateAnnotations d) extprocConfigHashAnnotation = hash"
    and "replicas > 0" "dp_ReadyReplicas d = replicas" "dp_UpdatedReplicas d = replicas" "dp_UnavailableReplicas d = 0"
    and "dp_SelectorMatchLabels d \<noteq> None"
  using assms by (auto simp: externalModelDeploymentSafe_def Let_def split: get_result.splits if_splits option.splits)

lemma pods_safe:
  assumes "externalModelPodsSafe rd namespace d replicas hash revision = Inr (Some cur)" "dp_SelectorMatchLabels d = Some sel"
  obtains pods logs where "rd_Pods rd namespace sel = Inr pods" "rd_PodLogs rd = Some logs"
    "\<forall>pod \<in> set pods. pod_active pod \<longrightarrow> pod_proven logs revision pod"
    "set cur = pod_UID ` {pod \<in> set pods. pod_active pod}" "distinct cur" "int (length cur) = replicas"
proof -
  from assms obtain pods logs owned current where "rd_Pods rd namespace sel = Inr pods" "rd_PodLogs rd = Some logs"
    "fold_res (check_pod logs owned current revision) pods [] = Inr cur" "int (length cur) = replicas"
    by (auto simp: externalModelPodsSafe_def Let_def split: sum.splits option.splits if_splits)
  with check_pods_Inr [of logs owned current revision pods "[]" cur] that show thesis by auto
qed

lemma endpoints_safe:
  assumes "externalModelEndpointsSafe child rd namespace tenantID cur = Inr True" "distinct cur"
  obtains slices where "rd_EndpointSlices rd namespace (PayloadProcessingExternalModelServiceName child tenantID) = Inr slices"
    "\<forall>ep \<in> set (concat slices). endpoint_serves ep \<longrightarrow> (\<exists>uid \<in> set cur. en_TargetRef ep = Some (''Pod'', uid))"
    "\<forall>uid \<in> set cur. \<exists>ep \<in> set (concat slices). endpoint_serves ep \<and> en_TargetRef ep = Some (''Pod'', uid)"
proof -
  from assms obtain slices srv where
      s: "rd_EndpointSlices rd namespace (PayloadProcessingExternalModelServiceName child tenantID) = Inr slices"
    and f: "fold_res (check_endpoint cur) (concat slices) [] = Inr srv" and len: "length srv = length cur"
    by (auto simp: externalModelEndpointsSafe_def split: sum.splits if_splits)
  note c = check_endpoints_Inr [OF f]
  have "set srv = set cur"
    using c assms(2) len by (intro card_subset_eq) (auto simp: distinct_card)
  with c that [OF s] show thesis by auto
qed

lemma rollout_safe_proven:
  assumes "externalModelRolloutSafe jcs child (Some rd) cmName namespace tenantID hash = Inr True"
  shows "rollout_proven jcs child rd cmName namespace tenantID hash"
proof -
  from assms obtain env d replicas cur where
      env: "readPublishedEnvelope jcs (Some rd) namespace cmName = Inr (Some env)"
    and d: "externalModelDeploymentSafe child (Some rd) namespace tenantID hash = Inr (Some (d, replicas))"
    and p: "externalModelPodsSafe rd namespace d replicas hash (rf_Value (ev_Revision env)) = Inr (Some cur)"
    and e: "externalModelEndpointsSafe child rd namespace tenantID cur = Inr True"
    by (auto simp: externalModelRolloutSafe_def bind_res_def
        split: if_split_asm option.split_asm sum.split_asm prod.split_asm)
  note dep = deployment_safe [OF d]
  from dep(8) obtain sel where sel: "dp_SelectorMatchLabels d = Some sel" by auto
  from p sel obtain pods logs where pods: "rd_Pods rd namespace sel = Inr pods" "rd_PodLogs rd = Some logs"
    "\<forall>pod \<in> set pods. pod_active pod \<longrightarrow> pod_proven logs (rf_Value (ev_Revision env)) pod"
    and cur: "set cur = pod_UID ` {pod \<in> set pods. pod_active pod}" "distinct cur" "int (length cur) = replicas"
    by (rule pods_safe)
  from e cur(2) obtain slices where
      s: "rd_EndpointSlices rd namespace (PayloadProcessingExternalModelServiceName child tenantID) = Inr slices"
    "\<forall>ep \<in> set (concat slices). endpoint_serves ep \<longrightarrow> (\<exists>uid \<in> set cur. en_TargetRef ep = Some (''Pod'', uid))"
    "\<forall>uid \<in> set cur. \<exists>ep \<in> set (concat slices). endpoint_serves ep \<and> en_TargetRef ep = Some (''Pod'', uid)"
    by (rule endpoints_safe)
  have "int (card (pod_UID ` {pod \<in> set pods. pod_active pod})) = replicas"
    using cur by (metis distinct_card)
  with env dep pods s cur(1) sel show ?thesis unfolding rollout_proven_def
    by (intro exI [of _ env] exI [of _ d] exI [of _ replicas] exI [of _ pods] exI [of _ logs] exI [of _ slices]) fastforce
qed

subsection \<open>The drain state survives the annotation\<close>










subsection \<open>The drain state refines the history\<close>








lemma labels_patch [simp]: "cm_Labels (patchWithdrawalDrainState cm v) = cm_Labels cm"
  by (simp add: patchWithdrawalDrainState_def)











subsection \<open>What the published log line proves\<close>

abbreviation hex64 :: "string \<Rightarrow> bool" where
  "hex64 s \<equiv> length s = 64 \<and> set s \<subseteq> set hex_chars"

definition status_line :: "string \<Rightarrow> string \<Rightarrow> string" where
  "status_line accepted serving = ''accepted_revision='' @ accepted @ '' serving_revision='' @ serving"

lemma strip_escapes_id: "CHR 0x1B \<notin> set s \<Longrightarrow> strip_escapes s = s"
proof (induction s)
  case (Cons c cs)
  then have "csi_end (c # cs) = None" by (auto simp: csi_end_def has_prefix_def)
  with Cons show ?case by (simp add: strip_escapes.simps [of "c # cs"])
qed (simp add: strip_escapes.simps)

lemma take_revision_hex:
  assumes "hex64 r"
  shows "take_revision (r @ CHR '' '' # t) = Some (r, t)" "take_revision r = Some (r, [])"
proof -
  have "dquote \<notin> set hex_chars" by (simp add: hex_chars_def)
  moreover have "hd (r @ t) = hd r" for t using assms by (cases r) auto
  moreover have "hd r \<in> set r" "r \<noteq> []" using assms by (cases r; auto)+
  ultimately have "hd r \<noteq> dquote" "\<And>t. hd (r @ t) \<noteq> dquote" using assms by (metis subsetD)+
  then show "take_revision (r @ CHR '' '' # t) = Some (r, t)" "take_revision r = Some (r, [])"
    using assms by (auto simp: take_revision_def Let_def re_space_def list_all_iff)
qed

lemma status_line_verdict:
  assumes "hex64 a" "hex64 v"
  shows "line_verdict r (status_line a v) = Some (Inr (a = r \<and> v = r))"
proof -
  have plain: "CHR 0x1B \<notin> set (status_line a v)" using assms by (auto simp: status_line_def hex_chars_def)
  have has: "contains_str (status_line a v) ''accepted_revision''"
    unfolding contains_str_iff status_line_def by (rule exI [of _ "[]"]) simp
  have "find_serving True (''serving_revision='' @ v) = Some v"
    using take_revision_hex(2) [OF assms(2)] by (simp add: has_prefix_def)
  then have "find_revisions True (status_line a v) = Some (a, v)"
    using take_revision_hex(1) [OF assms(1), of "''serving_revision='' @ v"] by (simp add: status_line_def has_prefix_def)
  with has plain show ?thesis by (simp add: line_verdict_def strip_escapes_id)
qed

lemma wire_digest_hex: "ComputeDigestFromWire jcs raw = Inr d \<Longrightarrow> hex64 d"
  using sha.digest_length sha.digest_hex
  by (auto simp: ComputeDigestFromWire_def bind_res_def split: sum.splits option.splits if_splits)

subsection \<open>Properties\<close>

lemma read_sound_overlay:
  assumes "map_of (cm_Data cm) DefaultDataKey = Some (envelope_text env)" "sound_envelope jcs env"
    and "managed_by_us (cm_Labels cm)" "rd_ConfigMap rd ns nm = GetOk cm"
  shows "readPublishedEnvelope jcs (Some rd) ns nm = Inr (Some (drop_headers env))"
proof -
  have "envelope_text env \<noteq> []" by (simp add: envelope_text_def enc_envelope_def j_obj_def)
  with assms show ?thesis
    by (simp add: readPublishedEnvelope_def sm_get_def sound_envelope_def unmarshal_envelope_text)
qed

text \<open>The withdrawal path reads what the publisher wrote: an overlay reachable by publications under the default data key, as
  long as its owner label stands, is never reported as tampered; it is decoded to an envelope whose revision is the publisher's
  baseline revision.\<close>

theorem published_overlay_readable:
  assumes "publish_reachable jcs cfg (Some cm)" "cfg_DataKey cfg = DefaultDataKey" "managed_by_us (cm_Labels cm)"
    and "rd_ConfigMap rd ns nm = GetOk cm"
  shows "\<exists>env base. readPublishedEnvelope jcs (Some rd) ns nm = Inr (Some env) \<and> read_baseline jcs cfg cm = Inr base
    \<and> envelope_revision env = bl_prev base \<and> hex64 (rf_Value (ev_Revision env))"
proof -
  from publish_reachable_sound [OF assms(1)] obtain env where env: "sound_envelope jcs env"
    "map_of (cm_Data cm) (cfg_DataKey cfg) = Some (envelope_text env)"
    by (auto simp: holds_sound_def)
  have "hex64 (rf_Value (ev_Revision env))"
    by (rule wire_digest_hex [of jcs "envelope_text env"]) (use env(1) in \<open>simp add: sound_envelope_def\<close>)
  with read_sound_overlay [OF _ env(1) assms(3,4)] read_baseline_sound [OF env(2,1)] env(2) assms(2)
  show ?thesis by simp
qed

definition sample_published :: Envelope where
  "sample_published = res_Envelope sample_result"

lemma sample_cm_published: "sample_cm = apply_config sample_cfg sample_published" "sound_envelope Some sample_published"
  using publish_request [of None GetNotFound Some sample_cfg "Some sample_serving" sample_scope sample_opts sample_now None sample_cm]
    sample_first sample_inputs
  by (auto simp: reads_def holds_sound_def sample_published_def)

definition sample_revision :: string where
  "sample_revision = rf_Value (ev_Revision sample_published)"

definition sample_deployment :: Deployment where
  "sample_deployment = \<lparr>dp_UID = ''d1'', dp_Generation = 3,
     dp_Labels = [(''app.kubernetes.io/managed-by'', ''ai-gateway-controller''), (''app'', PayloadProcessingExternalModelName)],
     dp_TemplateAnnotations = [(extprocConfigHashAnnotation, sha256_hex ''plugins'')], dp_SpecReplicas = None,
     dp_SelectorMatchLabels = Some [(''app'', ''x'')], dp_ObservedGeneration = 3, dp_Replicas = 1, dp_UpdatedReplicas = 1,
     dp_ReadyReplicas = 1, dp_AvailableReplicas = 1, dp_UnavailableReplicas = 0, dp_TerminatingReplicas = None\<rparr>"

definition sample_plugins :: ConfigMap where
  "sample_plugins = \<lparr>cm_Labels = [(''app.kubernetes.io/managed-by'', ''ai-gateway-controller'')], cm_Annotations = [],
     cm_Data = [(''extproc.yaml'', ''plugins'')]\<rparr>"

definition sample_rset :: ReplicaSet where
  "sample_rset = \<lparr>rset_UID = ''rs1'', rset_Controller = Some ''d1'',
     rset_Annotations = [(''deployment.kubernetes.io/revision'', ''7'')],
     rset_TemplateAnnotations = [(extprocConfigHashAnnotation, sha256_hex ''plugins'')],
     rset_Replicas = 1, rset_ReadyReplicas = 1, rset_AvailableReplicas = 1\<rparr>"

definition sample_pod :: Pod where
  "sample_pod = \<lparr>pod_Namespace = ''praxis'', pod_Name = ''p'', pod_UID = ''u1'', pod_Controller = Some ''rs1'',
     pod_Phase = PodRunning, pod_Deleting = False, pod_Conditions = [(''Ready'', ConditionTrue)]\<rparr>"

definition sample_reader :: api_reader where
  "sample_reader = \<lparr>rd_Deployment = (\<lambda>_ _. GetOk sample_deployment),
     rd_ConfigMap = (\<lambda>_ nm. GetOk (if nm = DefaultName then sample_cm else sample_plugins)),
     rd_ReplicaSets = (\<lambda>_ _. Inr [sample_rset]), rd_Pods = (\<lambda>_ _. Inr [sample_pod]),
     rd_EndpointSlices = (\<lambda>_ _. Inr [[\<lparr>en_Ready = Some True, en_Serving = None, en_TargetRef = Some (''Pod'', ''u1'')\<rparr>]]),
     rd_PodLogs = Some (\<lambda>_ _ _. Inr (status_line sample_revision sample_revision))\<rparr>"

lemma sample_overlay_read:
  "readPublishedEnvelope Some (Some sample_reader) ''praxis'' DefaultName = Inr (Some (drop_headers sample_published))"
  by (rule read_sound_overlay [OF _ sample_cm_published(2), where cm = sample_cm])
    (simp_all add: sample_cm_published(1) apply_config_def sample_cfg_def sample_reader_def labelManagedBy_def sm_get_def)

lemma sample_revision_hex: "hex64 sample_revision"
  unfolding sample_revision_def
  by (rule wire_digest_hex [of Some "envelope_text sample_published"])
    (use sample_cm_published(2) in \<open>simp add: sound_envelope_def\<close>)

lemma sample_serves:
  "podServesOverlayRevision (\<lambda>_ _ _. Inr (status_line sample_revision sample_revision)) sample_pod sample_revision = Inr True"
proof -
  have "CHR 0x0A \<notin> set (status_line sample_revision sample_revision)"
    using sample_revision_hex by (auto simp: status_line_def hex_chars_def)
  then show ?thesis
    by (simp add: podServesOverlayRevision_def split_byte_none status_line_verdict sample_revision_hex)
qed

lemma sample_deployment_safe:
  "externalModelDeploymentSafe (@) (Some sample_reader) ''praxis'' ''t'' (sha256_hex ''plugins'') = Inr (Some (sample_deployment, 1))"
proof -
  have "PayloadProcessingExternalModelPluginsConfigMapForTenant (@) ''t'' \<noteq> DefaultName" by code_simp
  moreover have "sha256_hex ''plugins'' \<noteq> []" using sha.digest_not_empty by blast
  ultimately show ?thesis
    by (simp add: externalModelDeploymentSafe_def sample_reader_def sample_deployment_def sample_plugins_def sm_get_def)
qed

lemma sample_pods_safe:
  "externalModelPodsSafe sample_reader ''praxis'' sample_deployment 1 (sha256_hex ''plugins'') sample_revision = Inr (Some [''u1''])"
proof -
  have cur: "current_rset [sample_rset] = Some sample_rset"
  proof -
    have "parse_int64_value ''7'' = 7" by code_simp
    then have "rset_revision sample_rset = 7" by (simp add: rset_revision_def sample_rset_def sm_get_def)
    then show ?thesis by (simp add: current_rset_def)
  qed
  have "check_pod (\<lambda>_ _ _. Inr (status_line sample_revision sample_revision)) [sample_rset] sample_rset sample_revision sample_pod []
      = Inr [''u1'']"
    using sample_serves by (simp add: check_pod_def sample_pod_def sample_rset_def podReady_def)
  moreover have "rset_Controller sample_rset = Some (dp_UID sample_deployment)"
    by (simp add: sample_rset_def sample_deployment_def)
  ultimately show ?thesis
    by (simp add: externalModelPodsSafe_def sample_reader_def cur) (simp add: sample_rset_def sm_get_def)
qed

lemma sample_rollout_safe:
  "externalModelRolloutSafe Some (@) (Some sample_reader) DefaultName ''praxis'' ''t'' (sha256_hex ''plugins'') = Inr True"
proof -
  have "externalModelEndpointsSafe (@) sample_reader ''praxis'' ''t'' [''u1''] = Inr True"
    by (simp add: externalModelEndpointsSafe_def sample_reader_def check_endpoint_def endpoint_serves_def)
  moreover have "rd_PodLogs sample_reader \<noteq> None" by (simp add: sample_reader_def)
  moreover have "rf_Value (ev_Revision (drop_headers sample_published)) = sample_revision" by (simp add: sample_revision_def)
  moreover have "sample_revision \<noteq> []" using sample_revision_hex by auto
  ultimately show ?thesis
    by (simp add: externalModelRolloutSafe_def sample_overlay_read sample_deployment_safe sample_pods_safe)
qed

theorem published_overlay_readable_witness:
  "\<exists>env base. readPublishedEnvelope Some (Some sample_reader) ''praxis'' DefaultName = Inr (Some env)
    \<and> read_baseline Some sample_cfg sample_cm = Inr base
    \<and> envelope_revision env = bl_prev base \<and> hex64 (rf_Value (ev_Revision env))"
  by (rule published_overlay_readable [OF sample_reachable])
    (simp_all add: sample_cfg_def sample_cm_published(1) apply_config_def labelManagedBy_def sm_get_def sample_reader_def)

text \<open>C9. A positive rollout check is a proof about the objects that were read: the published overlay verifies; the Deployment runs
  the expected configuration with every replica updated and ready; every pod that has not finished is ready, is not being deleted
  and its latest log entry accepts and serves exactly the published revision; there are as many of these pods as replicas; and
  the endpoints that take traffic are exactly these pods.\<close>

theorem rollout_safe_sound:
  assumes "externalModelRolloutSafe jcs child (Some rd) cmName namespace tenantID hash = Inr True"
  shows "rollout_proven jcs child rd cmName namespace tenantID hash"
  using assms by (rule rollout_safe_proven)

theorem rollout_safe_sound_witness:
  "rollout_proven Some (@) sample_reader DefaultName ''praxis'' ''t'' (sha256_hex ''plugins'')"
  by (rule rollout_safe_sound [OF sample_rollout_safe])




end
