(* ===== verification/Guardrail.thy ===== *)
theory Guardrail
  imports Unstructured Publisher GoTime
begin

text \<open>
  The AIGuardrail API type, \<open>src/api/aigateway/v1alpha1/aiguardrail_types.go\<close>, and the questions that \<open>src/pkg/guardrail\<close> asks of a
  policy and of its NemoGuardrails provider: identity of checks, acceptance, configurations, permission, endpoint. Every answer is
  computed from objects already read.

  \<open>guard_lib\<close> holds the functions of apimachinery that the package calls: \<open>SetStatusCondition\<close>, the conversion and evaluation of label
  selectors, the accessor for string slices, the wire form of a LabelSelector, and the quoting verb of \<open>fmt\<close>, whose
  Unicode tables are not reproduced.
\<close>

subsection \<open>API type\<close>

datatype GuardrailPhase = PhaseInput | PhaseOutput

record AIGuardrailNamespacedReference =
  gr_Name :: string
  gr_Namespace :: string

record AIGuardrailNemoProvider =
  gp_Ref :: AIGuardrailNamespacedReference

record AIGuardrailProvider =
  gp_Nemo :: AIGuardrailNemoProvider
  gp_Timeout :: int

record AIGuardrailCheck =
  gc_Name :: string
  gc_ConfigID :: string
  gc_Phases :: "GuardrailPhase list"

record AIGuardrailSpec =
  gs_Provider :: AIGuardrailProvider
  gs_Checks :: "AIGuardrailCheck list"

record AIGuardrailStatus =
  gst_ObservedGeneration :: int
  gst_ProviderEndpoint :: string
  gst_BindingRevision :: string
  gst_Conditions :: "Condition list"

record AIGuardrail =
  ag_Meta :: ObjectMeta
  ag_Spec :: AIGuardrailSpec
  ag_Status :: AIGuardrailStatus

abbreviation ag_Namespace :: "AIGuardrail \<Rightarrow> string" where
  "ag_Namespace g \<equiv> om_Namespace (ag_Meta g)"

abbreviation ag_Generation :: "AIGuardrail \<Rightarrow> int" where
  "ag_Generation g \<equiv> om_Generation (ag_Meta g)"

text \<open>A NemoGuardrails object as \<open>unstructured.Unstructured\<close>.\<close>

record Nemo =
  nm_UID :: string
  nm_Namespace :: string
  nm_Name :: string
  nm_Annotations :: str_map
  nm_Object :: umap

record LabelSelector =
  ls_MatchLabels :: str_map
  ls_MatchExpressions :: "(string \<times> string \<times> string list) list"

record guard_lib =
  gl_k8s :: k8s_lib
  gl_unstr :: unstr_lib
  SetStatusCondition :: "Condition list \<Rightarrow> Condition \<Rightarrow> Condition list \<times> bool"
  NestedStringSlice :: "umap \<Rightarrow> string list \<Rightarrow> (string, string list option) res"
  FromUnstructured :: "umap \<Rightarrow> (string, LabelSelector) res"
  SelectorMatches :: "LabelSelector \<Rightarrow> str_map \<Rightarrow> (string, bool) res"
  enc_LabelSelector :: "LabelSelector \<Rightarrow> json"
  go_quote :: "string \<Rightarrow> string"

text \<open>\<open>apimeta.SetStatusCondition\<close> documents that it updates the condition of that type or appends it, keeps the others and
  reports whether anything changed; \<open>FindStatusCondition\<close> finds a condition by type.\<close>

definition status_condition_doc :: "guard_lib \<Rightarrow> bool" where
  "status_condition_doc gl \<longleftrightarrow>
     (\<forall>cs c t. FindStatusCondition (gl_k8s gl) (fst (SetStatusCondition gl cs c)) t =
        (if t = co_Type c then Some c else FindStatusCondition (gl_k8s gl) cs t))
     \<and> (\<forall>cs c. snd (SetStatusCondition gl cs c) \<longleftrightarrow> FindStatusCondition (gl_k8s gl) cs (co_Type c) \<noteq> Some c)"

subsection \<open>Constants\<close>

definition ConditionAccepted :: string where "ConditionAccepted = ''Accepted''"
definition ConditionResolvedRefs :: string where "ConditionResolvedRefs = ''ResolvedRefs''"
definition ConditionProviderReady :: string where "ConditionProviderReady = ''ProviderReady''"
definition ConditionCompatible :: string where "ConditionCompatible = ''Compatible''"

definition reasonReferencesAuthorized :: string where "reasonReferencesAuthorized = ''ReferencesAuthorized''"
definition reasonProviderNotFound :: string where "reasonProviderNotFound = ''ProviderNotFound''"
definition reasonInvalidPolicy :: string where "reasonInvalidPolicy = ''InvalidAllowedConsumers''"
definition reasonConsumerNotAuthorized :: string where "reasonConsumerNotAuthorized = ''ConsumerNotAuthorized''"
definition reasonProviderCRDNotInstalled :: string where "reasonProviderCRDNotInstalled = ''ProviderCRDNotInstalled''"
definition reasonProviderAvailable :: string where "reasonProviderAvailable = ''ProviderAvailable''"
definition reasonEndpointDiscoveryUnavailable :: string where
  "reasonEndpointDiscoveryUnavailable = ''EndpointDiscoveryUnavailable''"
definition reasonProviderNotReady :: string where "reasonProviderNotReady = ''ProviderNotReady''"
definition reasonChecksSatisfiable :: string where "reasonChecksSatisfiable = ''ChecksSatisfiable''"
definition reasonUnknownCheckConfig :: string where "reasonUnknownCheckConfig = ''UnknownCheckConfig''"
definition reasonProviderConfigsUnavailable :: string where "reasonProviderConfigsUnavailable = ''ProviderConfigsUnavailable''"
definition reasonInvalidProviderConfigs :: string where "reasonInvalidProviderConfigs = ''InvalidProviderConfigs''"
definition reasonPolicyAccepted :: string where "reasonPolicyAccepted = ''PolicyAccepted''"
definition reasonTimeoutBelowMinimum :: string where "reasonTimeoutBelowMinimum = ''TimeoutBelowMinimum''"
definition reasonOutputChecksUnsupported :: string where "reasonOutputChecksUnsupported = ''OutputChecksUnsupported''"

lemmas condition_defs = ConditionAccepted_def ConditionResolvedRefs_def ConditionProviderReady_def ConditionCompatible_def

subsection \<open>Checks, timeouts and acceptance\<close>

definition checkHeaderPrefix :: string where
  "checkHeaderPrefix = ''x-aigateway-guardrail-''"

definition CheckID :: "string \<Rightarrow> string \<Rightarrow> string \<Rightarrow> string" where
  "CheckID namespace guardrailName checkName = sha256_hex (namespace @ '':'' @ guardrailName @ '':'' @ checkName)"

definition CheckHeaderName :: "string \<Rightarrow> string \<Rightarrow> string \<Rightarrow> string" where
  "CheckHeaderName namespace guardrailName checkName = checkHeaderPrefix @ CheckID namespace guardrailName checkName"

definition millisecond :: int where
  "millisecond = 1000000"

definition ProviderTimeoutTooFine :: "int \<Rightarrow> bool" where
  "ProviderTimeoutTooFine d \<longleftrightarrow> d > 0 \<and> d < millisecond"

definition acceptedCondition :: "guard_lib \<Rightarrow> AIGuardrail option \<Rightarrow> Condition option" where
  "acceptedCondition gl policy =
     (case policy of
        None \<Rightarrow> None
      | Some p \<Rightarrow>
          if om_Deleting (ag_Meta p) then None
          else (case FindStatusCondition (gl_k8s gl) (gst_Conditions (ag_Status p)) ConditionAccepted of
                  None \<Rightarrow> None
                | Some c \<Rightarrow> if co_Status c \<noteq> ConditionTrue then None else Some c))"

definition BindingAccepted :: "guard_lib \<Rightarrow> AIGuardrail \<Rightarrow> bool" where
  "BindingAccepted gl policy \<longleftrightarrow>
     (case acceptedCondition gl (Some policy) of
        None \<Rightarrow> False
      | Some c \<Rightarrow> co_ObservedGeneration c = ag_Generation policy \<and> gst_BindingRevision (ag_Status policy) \<noteq> [])"

definition BindingStale :: "guard_lib \<Rightarrow> AIGuardrail \<Rightarrow> bool" where
  "BindingStale gl policy \<longleftrightarrow>
     (case acceptedCondition gl (Some policy) of
        None \<Rightarrow> False
      | Some c \<Rightarrow> co_ObservedGeneration c \<noteq> ag_Generation policy)"

subsection \<open>Is the provider's CRD installed\<close>

datatype mapping_result = MappingOk | MappingNoMatch | MappingError string

definition providerCRDInstalled :: "mapping_result \<Rightarrow> (string, bool) res" where
  "providerCRDInstalled m =
     (case m of MappingOk \<Rightarrow> Inr True | MappingNoMatch \<Rightarrow> Inr False | MappingError e \<Rightarrow> Inl e)"

text \<open>\<open>discovered\<close> is what discovery returned for the group and version: the kinds it serves.\<close>

definition providerCRDServed :: "string list get_result \<Rightarrow> (string, bool) res" where
  "providerCRDServed discovered =
     (case discovered of
        GetNotFound \<Rightarrow> Inr False
      | GetError e \<Rightarrow> Inl e
      | GetOk kinds \<Rightarrow> Inr (list_ex (\<lambda>k. k = ''NemoGuardrails'') kinds))"

subsection \<open>Endpoint\<close>

definition NemoChecksPath :: string where
  "NemoChecksPath = ''/v1/checks''"

definition NemoInfraNamespaces :: "string list" where
  "NemoInfraNamespaces = [''odh-ai-gateway-infra'', ''redhat-ai-gateway-infra'']"

definition IsNemoInfraNamespace :: "string \<Rightarrow> bool" where
  "IsNemoInfraNamespace namespace \<longleftrightarrow> namespace \<in> set NemoInfraNamespaces"

record NemoService =
  ns_Namespace :: string
  ns_Name :: string
  ns_Authenticated :: bool

definition URL :: "NemoService \<Rightarrow> string" where
  "URL s = (if ns_Authenticated s then ''https'' else ''http'') @ ''://'' @ ns_Name s @ ''.'' @ ns_Namespace s @ ''.svc.cluster.local''"

datatype EndpointError =
    NotInfraNamespace string
  | NoServiceName string string string
  | NotPlainURL
  | NotInCluster string
  | HostError string EndpointError
  | NotServiceOf string string string string
  | WrongPort string string
  | WrongScheme string
  | WrongPath

definition NemoServiceFor :: "k8s_lib \<Rightarrow> string \<Rightarrow> string \<Rightarrow> string \<Rightarrow> (EndpointError, NemoService) res" where
  "NemoServiceFor lib infraNamespace providerNamespace providerName =
     (if \<not> IsNemoInfraNamespace infraNamespace then Inl (NotInfraNamespace infraNamespace)
      else
        (let name = (if providerNamespace \<noteq> infraNamespace then providerNamespace @ ''-'' @ providerName else providerName) in
         if providerNamespace = [] \<or> providerName = [] \<or> IsDNS1123Label lib name \<noteq> []
         then Inl (NoServiceName providerNamespace providerName infraNamespace)
         else Inr \<lparr>ns_Namespace = infraNamespace, ns_Name = name, ns_Authenticated = False\<rparr>))"

record nemoReadiness =
  rd_Ready :: bool
  rd_Endpoint :: string
  rd_Reason :: string
  rd_Message :: string

definition nemoAuthAnnotation :: string where
  "nemoAuthAnnotation = ''security.opendatahub.io/enable-auth''"

definition infra_list :: string where
  "infra_list = ''['' @ join_str NemoInfraNamespaces '' '' @ '']''"

fun endpoint_error_text :: "guard_lib \<Rightarrow> EndpointError \<Rightarrow> string" where
  "endpoint_error_text gl (NotInfraNamespace ns) =
     ''namespace '' @ go_quote gl ns @ '' is not an AI Gateway infrastructure namespace '' @ infra_list"
| "endpoint_error_text gl (NoServiceName pns pn ns) =
     ''NemoGuardrails '' @ pns @ ''/'' @ pn @ '' has no valid Service name in '' @ go_quote gl ns"
| "endpoint_error_text gl _ = []"

definition ready_refuse :: "string \<Rightarrow> nemoReadiness" where
  "ready_refuse message =
     \<lparr>rd_Ready = False, rd_Endpoint = [], rd_Reason = reasonEndpointDiscoveryUnavailable,
      rd_Message = message @ '', so no supported checks endpoint could be discovered''\<rparr>"

text \<open>\<open>strings.EqualFold\<close> with \<open>"true"\<close>, whose letters have no folding outside ASCII.\<close>

definition fold_true :: "string \<Rightarrow> bool" where
  "fold_true s \<longleftrightarrow> map ascii_upper s = ''TRUE''"

definition evaluateNemoReady :: "guard_lib \<Rightarrow> Nemo option \<Rightarrow> nemoReadiness" where
  "evaluateNemoReady gl nemo =
     (case nemo of
        None \<Rightarrow> ready_refuse ''the referenced NemoGuardrails provider publishes no status.workloadNamespace''
      | Some n \<Rightarrow>
          (let workloadNamespace = (case NestedString (gl_unstr gl) (nm_Object n) [''status'', ''workloadNamespace''] of
                                      Inr (Some s) \<Rightarrow> s | _ \<Rightarrow> []) in
           if workloadNamespace = [] then
             ready_refuse ''the referenced NemoGuardrails provider publishes no status.workloadNamespace''
           else if \<not> IsNemoInfraNamespace workloadNamespace then
             ready_refuse (''the referenced NemoGuardrails provider runs its workload in namespace '' @ go_quote gl workloadNamespace
               @ '', not an AI Gateway infrastructure namespace '' @ infra_list)
           else (case NemoServiceFor (gl_k8s gl) workloadNamespace (nm_Namespace n) (nm_Name n) of
                   Inl e \<Rightarrow> ready_refuse (''the referenced NemoGuardrails provider's Service cannot be derived (''
                              @ endpoint_error_text gl e @ '')'')
                 | Inr service \<Rightarrow>
                     (let auth = fold_true (sm_get (nm_Annotations n) nemoAuthAnnotation) in
                      \<lparr>rd_Ready = True, rd_Endpoint = URL (service\<lparr>ns_Authenticated := auth\<rparr>), rd_Reason = reasonProviderAvailable,
                       rd_Message = (if auth then
                           ''referenced NemoGuardrails provider is reachable through its authenticated in-cluster Service; ''
                             @ ''this confirms discovery, not that the server is serving''
                         else ''referenced NemoGuardrails provider is reachable through its in-cluster http Service; ''
                             @ ''this confirms discovery, not that the server is serving'')\<rparr>))))"

subsection \<open>Configurations\<close>

datatype ConfigsError =
    ConfigsMalformed string
  | ConfigNotObject nat
  | ConfigNameMalformed nat string
  | ConfigMapsMalformed nat string

definition parse_config ::
    "guard_lib \<Rightarrow> nat \<times> uval \<Rightarrow> (string \<times> string list) list \<Rightarrow> (ConfigsError, (string \<times> string list) list) res" where
  "parse_config gl entry configs =
     (case as_map (snd entry) of
        None \<Rightarrow> Inl (ConfigNotObject (fst entry))
      | Some config \<Rightarrow>
          (case NestedString (gl_unstr gl) config [''name''] of
             Inl e \<Rightarrow> Inl (ConfigNameMalformed (fst entry) e)
           | Inr name \<Rightarrow>
               (case NestedStringSlice gl config [''configMaps''] of
                  Inl e \<Rightarrow> Inl (ConfigMapsMalformed (fst entry) e)
                | Inr configMaps \<Rightarrow>
                    Inr (AList.update (case name of None \<Rightarrow> [] | Some s \<Rightarrow> s)
                           (case configMaps of None \<Rightarrow> [] | Some xs \<Rightarrow> xs) configs))))"

definition parseNemoConfigs :: "guard_lib \<Rightarrow> Nemo \<Rightarrow> (ConfigsError, (string \<times> string list) list) res" where
  "parseNemoConfigs gl nemo =
     (case NestedSlice (gl_unstr gl) (nm_Object nemo) [''spec'', ''nemoConfigs''] of
        Inl e \<Rightarrow> Inl (ConfigsMalformed e)
      | Inr None \<Rightarrow> Inr []
      | Inr (Some entries) \<Rightarrow> fold_res (parse_config gl) (List.enumerate 0 entries) [])"

record compatibility =
  cp_Compatible :: bool
  cp_Reason :: string
  cp_Message :: string
  cp_Configs :: "(string \<times> string list) list"
  cp_Err :: "ConfigsError option"

text \<open>The unknown configurations in the order of the checks, each once.\<close>

definition unknown_configs :: "(string \<times> string list) list \<Rightarrow> AIGuardrailCheck list \<Rightarrow> string list" where
  "unknown_configs configs checks =
     fold (\<lambda>check unknown. if map_of configs (gc_ConfigID check) \<noteq> None \<or> gc_ConfigID check \<in> set unknown then unknown
                           else unknown @ [gc_ConfigID check]) checks []"

definition evaluateCompatible :: "guard_lib \<Rightarrow> AIGuardrail \<Rightarrow> Nemo \<Rightarrow> compatibility" where
  "evaluateCompatible gl guardrail nemo =
     (case parseNemoConfigs gl nemo of
        Inl e \<Rightarrow> \<lparr>cp_Compatible = False, cp_Reason = reasonInvalidProviderConfigs,
                  cp_Message = ''referenced NemoGuardrails provider has malformed configurations in spec.nemoConfigs'',
                  cp_Configs = [], cp_Err = Some e\<rparr>
      | Inr configs \<Rightarrow>
          if configs = [] then
            \<lparr>cp_Compatible = False, cp_Reason = reasonProviderConfigsUnavailable,
             cp_Message = ''referenced NemoGuardrails provider declares no configurations in spec.nemoConfigs'',
             cp_Configs = [], cp_Err = None\<rparr>
          else
            (let unknown = unknown_configs configs (gs_Checks (ag_Spec guardrail)) in
             if unknown = [] then
               \<lparr>cp_Compatible = True, cp_Reason = reasonChecksSatisfiable,
                cp_Message = ''every check selects a configuration declared by the provider'', cp_Configs = configs, cp_Err = None\<rparr>
             else
               \<lparr>cp_Compatible = False, cp_Reason = reasonUnknownCheckConfig,
                cp_Message = ''referenced NemoGuardrails provider does not declare configId(s): '' @ join_str (sort unknown) '', '',
                cp_Configs = configs, cp_Err = None\<rparr>))"

subsection \<open>Permission\<close>

datatype consumerMode = consumerModeSame | consumerModeSelector | consumerModeAll

record allowedConsumers =
  al_Mode :: consumerMode
  al_Selector :: "LabelSelector option"

datatype ConsumersError =
    NamespacesMalformed string
  | FromMalformed string
  | SelectorMalformed string
  | SelectorForbidden string
  | SelectorRequired
  | SelectorEmpty
  | UnknownFrom string
  | SelectorInvalid string

definition parseAllowedConsumers :: "guard_lib \<Rightarrow> Nemo \<Rightarrow> (ConsumersError, allowedConsumers) res" where
  "parseAllowedConsumers gl nemo =
     (case NestedMap (gl_unstr gl) (nm_Object nemo) [''spec'', ''allowedConsumers'', ''namespaces''] of
        Inl e \<Rightarrow> Inl (NamespacesMalformed e)
      | Inr None \<Rightarrow> Inr \<lparr>al_Mode = consumerModeSame, al_Selector = None\<rparr>
      | Inr (Some namespaces) \<Rightarrow>
          (case NestedString (gl_unstr gl) namespaces [''from''] of
             Inl e \<Rightarrow> Inl (FromMalformed e)
           | Inr fromo \<Rightarrow>
               (let from = (case fromo of None \<Rightarrow> ''Same'' | Some s \<Rightarrow> if s = [] then ''Same'' else s) in
                case NestedMap (gl_unstr gl) namespaces [''selector''] of
                  Inl e \<Rightarrow> Inl (SelectorMalformed e)
                | Inr selectorRaw \<Rightarrow>
                    if from = ''Same'' \<or> from = ''All'' then
                      (if selectorRaw \<noteq> None then Inl (SelectorForbidden from)
                       else Inr \<lparr>al_Mode = (if from = ''Same'' then consumerModeSame else consumerModeAll), al_Selector = None\<rparr>)
                    else if from = ''Selector'' then
                      (case selectorRaw of
                         None \<Rightarrow> Inl SelectorRequired
                       | Some raw \<Rightarrow>
                           (case FromUnstructured gl raw of
                              Inl e \<Rightarrow> Inl (SelectorMalformed e)
                            | Inr selector \<Rightarrow>
                                if ls_MatchLabels selector = [] \<and> ls_MatchExpressions selector = [] then Inl SelectorEmpty
                                else Inr \<lparr>al_Mode = consumerModeSelector, al_Selector = Some selector\<rparr>))
                    else Inl (UnknownFrom from))))"

text \<open>The consumer's Namespace is its labels, \<open>None\<close> when it does not exist. \<open>Selector\<close> is set in Selector mode by every
  value that \<open>parseAllowedConsumers\<close> returns; \<open>LabelSelectorAsSelector\<close> documents that a nil selector matches nothing.\<close>

definition allows :: "guard_lib \<Rightarrow> allowedConsumers \<Rightarrow> string \<Rightarrow> string \<Rightarrow> str_map option \<Rightarrow> (ConsumersError, bool) res" where
  "allows gl a consumerNamespace providerNamespace consumerNS =
     (case al_Mode a of
        consumerModeAll \<Rightarrow> Inr True
      | consumerModeSame \<Rightarrow> Inr (consumerNamespace = providerNamespace)
      | consumerModeSelector \<Rightarrow>
          (case consumerNS of
             None \<Rightarrow> Inr False
           | Some labels \<Rightarrow>
               (case al_Selector a of
                  None \<Rightarrow> Inr False
                | Some selector \<Rightarrow>
                    (case SelectorMatches gl selector labels of Inl e \<Rightarrow> Inl (SelectorInvalid e) | Inr b \<Rightarrow> Inr b))))"

end
