(* ===== verification/GuardrailReconcile.thy ===== *)
theory GuardrailReconcile
  imports Guardrail
begin

text \<open>
  The binding revision, \<open>src/pkg/guardrail/bindingrevision.go\<close>, and the reconciler of AIGuardrail policies,
  \<open>src/pkg/guardrail/reconciler.go\<close>. A reconcile is a function of what its reads return; its outcome is the returned result, the
  object of the status patch and the event. Event listing and watches map objects to requests.
\<close>

subsection \<open>Binding revision\<close>

record declaredConfig =
  dcf_Name :: string
  dcf_ConfigMaps :: "string list"

record bindingInputs =
  bi_ProviderUID :: string
  bi_ProviderNamespace :: string
  bi_ProviderName :: string
  bi_ProviderEndpoint :: string
  bi_ConsumerMode :: consumerMode
  bi_Selector :: "LabelSelector option"
  bi_ConsumerLabels :: "(string \<times> string option) list"
  bi_DeclaredConfigs :: "declaredConfig list"

fun mode_string :: "consumerMode \<Rightarrow> string" where
  "mode_string consumerModeSame = ''Same''"
| "mode_string consumerModeSelector = ''Selector''"
| "mode_string consumerModeAll = ''All''"

definition enc_declared :: "declaredConfig \<Rightarrow> json" where
  "enc_declared d = j_obj ([(''name'', j_str (dcf_Name d))]
     @ (if dcf_ConfigMaps d = [] then [] else [(''configMaps'', JArr (map j_str (dcf_ConfigMaps d)))]))"

text \<open>\<open>json.Marshal\<close> writes a map in the order of its keys, and a nil pointer as null.\<close>

definition enc_labels :: "(string \<times> string option) list \<Rightarrow> json" where
  "enc_labels m = j_obj (map (\<lambda>k. (k, case map_of m k of Some (Some v) \<Rightarrow> j_str v | _ \<Rightarrow> JNull)) (sort (remdups (map fst m))))"

definition enc_inputs :: "guard_lib \<Rightarrow> bindingInputs \<Rightarrow> json" where
  "enc_inputs gl b = j_obj (
     [(''providerUID'', j_str (bi_ProviderUID b)), (''providerNamespace'', j_str (bi_ProviderNamespace b)),
      (''providerName'', j_str (bi_ProviderName b)), (''providerEndpoint'', j_str (bi_ProviderEndpoint b)),
      (''consumerMode'', j_str (mode_string (bi_ConsumerMode b)))]
     @ (case bi_Selector b of None \<Rightarrow> [] | Some s \<Rightarrow> [(''selector'', enc_LabelSelector gl s)])
     @ (if bi_ConsumerLabels b = [] then [] else [(''consumerLabels'', enc_labels (bi_ConsumerLabels b))])
     @ [(''declaredConfigs'', JArr (map enc_declared (bi_DeclaredConfigs b)))])"

definition selectorLabels :: "LabelSelector option \<Rightarrow> str_map option \<Rightarrow> (string \<times> string option) list" where
  "selectorLabels selector consumerNS =
     (case selector of
        None \<Rightarrow> []
      | Some s \<Rightarrow>
          (let keys = remdups (map fst (ls_MatchLabels s) @ map fst (ls_MatchExpressions s));
               namespaceLabels = (case consumerNS of None \<Rightarrow> [] | Some labels \<Rightarrow> labels)
           in map (\<lambda>k. (k, map_of namespaceLabels k)) keys))"

definition binding_inputs ::
    "Nemo \<Rightarrow> (string \<times> string list) list \<Rightarrow> string \<Rightarrow> allowedConsumers \<Rightarrow> str_map option \<Rightarrow> bindingInputs" where
  "binding_inputs nemo configs endpoint policy consumerNS =
     \<lparr>bi_ProviderUID = nm_UID nemo, bi_ProviderNamespace = nm_Namespace nemo, bi_ProviderName = nm_Name nemo,
      bi_ProviderEndpoint = endpoint, bi_ConsumerMode = al_Mode policy, bi_Selector = al_Selector policy,
      bi_ConsumerLabels = selectorLabels (al_Selector policy) consumerNS,
      bi_DeclaredConfigs = sort_key dcf_Name (map (\<lambda>(name, cms). \<lparr>dcf_Name = name, dcf_ConfigMaps = cms\<rparr>) configs)\<rparr>"

definition computeBindingRevision ::
    "jcs_fn \<Rightarrow> guard_lib \<Rightarrow> Nemo \<Rightarrow> (string \<times> string list) list \<Rightarrow> string \<Rightarrow> allowedConsumers \<Rightarrow> str_map option \<Rightarrow> string option" where
  "computeBindingRevision jcs gl nemo configs endpoint policy consumerNS =
     map_option sha256_hex (jcs (marshal (enc_inputs gl (binding_inputs nemo configs endpoint policy consumerNS))))"

subsection \<open>References and watches\<close>

definition providerRef :: "AIGuardrail \<Rightarrow> string \<times> string" where
  "providerRef guardrail =
     (let ref = gp_Ref (gp_Nemo (gs_Provider (ag_Spec guardrail))) in
      (if gr_Namespace ref = [] then ag_Namespace guardrail else gr_Namespace ref, gr_Name ref))"

definition key_string :: "string \<times> string \<Rightarrow> string" where
  "key_string k = fst k @ ''/'' @ snd k"

definition indexGuardrailByProvider :: "AIGuardrail \<Rightarrow> string list" where
  "indexGuardrailByProvider guardrail = [key_string (providerRef guardrail)]"

definition guardrailRequests :: "AIGuardrail list \<Rightarrow> (string \<times> string) list" where
  "guardrailRequests guardrails = map (\<lambda>g. (ag_Namespace g, om_Name (ag_Meta g))) guardrails"

text \<open>\<open>listed\<close> is the cached list that the index or the namespace selects from; \<open>None\<close> when listing failed.\<close>

definition guardrailsForProvider :: "AIGuardrail list option \<Rightarrow> Nemo \<Rightarrow> (string \<times> string) list" where
  "guardrailsForProvider listed nemo =
     (case listed of
        None \<Rightarrow> []
      | Some gs \<Rightarrow> guardrailRequests
          (filter (\<lambda>g. key_string (nm_Namespace nemo, nm_Name nemo) \<in> set (indexGuardrailByProvider g)) gs))"

definition guardrailsInNamespace :: "AIGuardrail list option \<Rightarrow> string \<Rightarrow> (string \<times> string) list" where
  "guardrailsInNamespace listed namespace =
     (case listed of
        None \<Rightarrow> []
      | Some gs \<Rightarrow> guardrailRequests (filter (\<lambda>g. ag_Namespace g = namespace) gs))"

definition guardrailsBesideTenantConfig :: "AIGuardrail list option \<Rightarrow> string \<Rightarrow> (string \<times> string) list" where
  "guardrailsBesideTenantConfig listed configNamespace = guardrailsInNamespace listed configNamespace"

subsection \<open>Reconcile\<close>

datatype ReconcileError =
    ErrGetGuardrail string
  | ErrMapping string
  | ErrOutputChecks string
  | ErrReadNemo string
  | ErrDiscovery string
  | ErrReadNamespace string
  | ErrBindingRevision
  | ErrStatusPatch string

datatype ctrl_result = ResultDone | ResultRequeue | ResultRequeueAfter int

datatype patch_result = PatchOk | PatchConflict | PatchFailed string

text \<open>What the reads and the patch of one reconcile return.\<close>

record guard_world =
  gw_Guardrail :: "AIGuardrail get_result"
  gw_Mapping :: mapping_result
  gw_OutputUnsupported :: "(string \<Rightarrow> (string, string) res) option"
  gw_Nemo :: "string \<times> string \<Rightarrow> Nemo get_result"
  gw_Discovered :: "string list get_result"
  gw_Namespace :: "string \<Rightarrow> str_map get_result"
  gw_Patch :: patch_result
  gw_Resync :: int

record guard_outcome =
  go_Result :: "(ReconcileError, ctrl_result) res"
  go_Patched :: "AIGuardrail option"
  go_Event :: "(string \<times> string) option"

abbreviation quiet_outcome :: "(ReconcileError, ctrl_result) res \<Rightarrow> guard_outcome" where
  "quiet_outcome r \<equiv> \<lparr>go_Result = r, go_Patched = None, go_Event = None\<rparr>"

definition set_condition :: "guard_lib \<Rightarrow> string \<Rightarrow> ConditionStatus \<Rightarrow> string \<Rightarrow> string \<Rightarrow> AIGuardrail \<Rightarrow> AIGuardrail \<times> bool" where
  "set_condition gl t status reason message g =
     (case SetStatusCondition gl (gst_Conditions (ag_Status g))
             \<lparr>co_Type = t, co_Status = status, co_ObservedGeneration = ag_Generation g, co_Reason = reason, co_Message = message\<rparr> of
        (cs, changed) \<Rightarrow> (g\<lparr>ag_Status := (ag_Status g)\<lparr>gst_Conditions := cs\<rparr>\<rparr>, changed))"

definition refuse :: "guard_lib \<Rightarrow> guard_world \<Rightarrow> AIGuardrail \<Rightarrow> string \<Rightarrow> string \<Rightarrow> guard_outcome" where
  "refuse gl w guardrail reason message =
     (case set_condition gl ConditionAccepted ConditionFalse reason message
             (guardrail\<lparr>ag_Status := (ag_Status guardrail)\<lparr>gst_BindingRevision := [], gst_ProviderEndpoint := []\<rparr>\<rparr>) of
        (g, changed) \<Rightarrow>
          (case gw_Patch w of
             PatchConflict \<Rightarrow> \<lparr>go_Result = Inr ResultRequeue, go_Patched = Some g, go_Event = None\<rparr>
           | PatchFailed e \<Rightarrow> \<lparr>go_Result = Inl (ErrStatusPatch e), go_Patched = Some g, go_Event = None\<rparr>
           | PatchOk \<Rightarrow> \<lparr>go_Result = Inr (ResultRequeueAfter (gw_Resync w)), go_Patched = Some g,
                        go_Event = (if changed then Some (reason, message) else None)\<rparr>))"

definition denyBinding :: "guard_lib \<Rightarrow> guard_world \<Rightarrow> AIGuardrail \<Rightarrow> string \<Rightarrow> string \<Rightarrow> guard_outcome" where
  "denyBinding gl w guardrail reason message =
     refuse gl w
       (fold (\<lambda>t g. fst (set_condition gl t ConditionUnknown reason (''not evaluated: '' @ message) g))
          [ConditionCompatible, ConditionProviderReady]
          (fst (set_condition gl ConditionResolvedRefs ConditionFalse reason message guardrail)))
       reason message"

definition hasOutputCheck :: "AIGuardrail \<Rightarrow> bool" where
  "hasOutputCheck guardrail = list_ex (\<lambda>check. PhaseOutput \<in> set (gc_Phases check)) (gs_Checks (ag_Spec guardrail))"

definition bool_status :: "bool \<Rightarrow> ConditionStatus" where
  "bool_status b = (if b then ConditionTrue else ConditionFalse)"

definition crdMessage :: string where
  "crdMessage = ''TrustyAI's NemoGuardrails CRD is not installed on this cluster, so no guardrail provider can be resolved''"

text \<open>From the authorised reference on: compatibility, readiness and the accepted binding.\<close>

definition publish_verdict ::
    "jcs_fn \<Rightarrow> guard_lib \<Rightarrow> guard_world \<Rightarrow> Nemo \<Rightarrow> allowedConsumers \<Rightarrow> str_map option \<Rightarrow> AIGuardrail \<Rightarrow> guard_outcome" where
  "publish_verdict jcs gl w nemo policy consumerNS g0 =
     (let g1 = fst (set_condition gl ConditionResolvedRefs ConditionTrue reasonReferencesAuthorized
                      ''referenced NemoGuardrails provider resolved and authorized'' g0);
          compat = evaluateCompatible gl g1 nemo;
          g2 = fst (set_condition gl ConditionCompatible (bool_status (cp_Compatible compat)) (cp_Reason compat) (cp_Message compat) g1);
          readiness = evaluateNemoReady gl (Some nemo);
          g3 = fst (set_condition gl ConditionProviderReady (bool_status (rd_Ready readiness)) (rd_Reason readiness)
                      (rd_Message readiness) g2)
      in if \<not> cp_Compatible compat then refuse gl w g3 (cp_Reason compat) (cp_Message compat)
         else if \<not> rd_Ready readiness then refuse gl w g3 reasonProviderNotReady (rd_Message readiness)
         else (case computeBindingRevision jcs gl nemo (cp_Configs compat) (rd_Endpoint readiness) policy consumerNS of
                 None \<Rightarrow> quiet_outcome (Inl ErrBindingRevision)
               | Some revision \<Rightarrow>
                   (let g4 = fst (set_condition gl ConditionAccepted ConditionTrue reasonPolicyAccepted
                          ''policy resolved, authorized and satisfiable by a ready provider''
                          (g3\<lparr>ag_Status := (ag_Status g3)\<lparr>gst_BindingRevision := revision,
                                 gst_ProviderEndpoint := rd_Endpoint readiness\<rparr>\<rparr>))
                    in case gw_Patch w of
                         PatchConflict \<Rightarrow> \<lparr>go_Result = Inr ResultRequeue, go_Patched = Some g4, go_Event = None\<rparr>
                       | PatchFailed e \<Rightarrow> \<lparr>go_Result = Inl (ErrStatusPatch e), go_Patched = Some g4, go_Event = None\<rparr>
                       | PatchOk \<Rightarrow> \<lparr>go_Result = Inr (ResultRequeueAfter (gw_Resync w)), go_Patched = Some g4, go_Event = None\<rparr>)))"

text \<open>The provider has been read: its permission rule, and the consumer's Namespace in Selector mode.\<close>

definition authorize :: "jcs_fn \<Rightarrow> guard_lib \<Rightarrow> guard_world \<Rightarrow> Nemo \<Rightarrow> AIGuardrail \<Rightarrow> guard_outcome" where
  "authorize jcs gl w nemo g0 =
     (case parseAllowedConsumers gl nemo of
        Inl _ \<Rightarrow> denyBinding gl w g0 reasonInvalidPolicy ''referenced NemoGuardrails provider has an invalid allowedConsumers policy''
      | Inr policy \<Rightarrow>
          (case (if al_Mode policy = consumerModeSelector
                 then (case gw_Namespace w (ag_Namespace g0) of
                         GetOk labels \<Rightarrow> Inr (Some labels) | GetNotFound \<Rightarrow> Inr None | GetError e \<Rightarrow> Inl e)
                 else Inr None) of
             Inl e \<Rightarrow> quiet_outcome (Inl (ErrReadNamespace e))
           | Inr consumerNS \<Rightarrow>
               (case allows gl policy (ag_Namespace g0) (nm_Namespace nemo) consumerNS of
                  Inl _ \<Rightarrow> denyBinding gl w g0 reasonInvalidPolicy
                            ''referenced NemoGuardrails provider has an invalid allowedConsumers policy''
                | Inr allowed \<Rightarrow>
                    if \<not> allowed then denyBinding gl w g0 reasonConsumerNotAuthorized
                      ''referenced NemoGuardrails provider does not authorize this namespace''
                    else publish_verdict jcs gl w nemo policy consumerNS g0)))"

definition resolve_provider :: "jcs_fn \<Rightarrow> guard_lib \<Rightarrow> guard_world \<Rightarrow> AIGuardrail \<Rightarrow> guard_outcome" where
  "resolve_provider jcs gl w g0 =
     (case gw_Nemo w (providerRef g0) of
        GetError e \<Rightarrow> quiet_outcome (Inl (ErrReadNemo e))
      | GetNotFound \<Rightarrow>
          (case providerCRDServed (gw_Discovered w) of
             Inl e \<Rightarrow> quiet_outcome (Inl (ErrDiscovery e))
           | Inr served \<Rightarrow>
               if \<not> served then denyBinding gl w g0 reasonProviderCRDNotInstalled crdMessage
               else denyBinding gl w g0 reasonProviderNotFound ''referenced NemoGuardrails provider does not exist'')
      | GetOk nemo \<Rightarrow> authorize jcs gl w nemo g0)"

definition Reconcile :: "jcs_fn \<Rightarrow> guard_lib \<Rightarrow> guard_world \<Rightarrow> guard_outcome" where
  "Reconcile jcs gl w =
     (case gw_Guardrail w of
        GetNotFound \<Rightarrow> quiet_outcome (Inr ResultDone)
      | GetError e \<Rightarrow> quiet_outcome (Inl (ErrGetGuardrail e))
      | GetOk guardrail \<Rightarrow>
          (let g0 = guardrail\<lparr>ag_Status := (ag_Status guardrail)\<lparr>gst_ObservedGeneration := ag_Generation guardrail\<rparr>\<rparr> in
           case providerCRDInstalled (gw_Mapping w) of
             Inl e \<Rightarrow> quiet_outcome (Inl (ErrMapping e))
           | Inr installed \<Rightarrow>
               if \<not> installed then denyBinding gl w g0 reasonProviderCRDNotInstalled crdMessage
               else if ProviderTimeoutTooFine (gp_Timeout (gs_Provider (ag_Spec g0))) then
                 refuse gl w g0 reasonTimeoutBelowMinimum
                   ''timeout must be at least 1ms; Praxis records provider timeouts in whole milliseconds and rejects zero''
               else
                 (case (case gw_OutputUnsupported w of
                          Some f \<Rightarrow> if hasOutputCheck g0 then f (ag_Namespace g0) else Inr []
                        | None \<Rightarrow> Inr []) of
                    Inl e \<Rightarrow> quiet_outcome (Inl (ErrOutputChecks e))
                  | Inr why \<Rightarrow>
                      if why \<noteq> [] then refuse gl w g0 reasonOutputChecksUnsupported (''Output-phase checks cannot be enforced: '' @ why)
                      else resolve_provider jcs gl w g0)))"

end
