(* ===== verification/GuardrailResolver.thy ===== *)
theory GuardrailResolver
  imports Guardrail
begin

text \<open>
  Resolution of check selections, \<open>src/pkg/guardrail/resolver.go\<close> and \<open>policy_reader.go\<close>. The Go interface \<open>PolicyReader\<close> is the locale
  \<open>policy_reader\<close>: its laws are the interface's contract, the resolver's guarantees are proved from them, and \<open>GetPolicy\<close> over an API
  server that returns the object asked for is an instance.
\<close>

subsection \<open>Definitions\<close>

datatype PolicyError =
    ErrPolicyNotFound string string
  | ErrReadFailure string string string
  | ErrNotAccepted string
  | ErrStaleGeneration string int int
  | ErrBindingUnavailable string
  | ErrUnknownCheck string string
  | ErrDuplicateCheck string string

record Attachment =
  at_Name :: string
  at_Checks :: "string list"

record Check =
  ck_Name :: string
  ck_Phases :: "GuardrailPhase list"
  ck_SpecIndex :: nat

record PolicyCondition =
  pc_Type :: string
  pc_Status :: bool
  pc_ObservedGeneration :: int

record Policy =
  po_Namespace :: string
  po_Name :: string
  po_UID :: string
  po_Generation :: int
  po_BindingRevision :: string
  po_Conditions :: "PolicyCondition list"
  po_Checks :: "Check list"

record ResolvedPolicy =
  rp_Namespace :: string
  rp_Name :: string
  rp_UID :: string
  rp_Generation :: int
  rp_BindingRevision :: string
  rp_Checks :: "Check list"

type_synonym policy_get = "string \<Rightarrow> string \<Rightarrow> (PolicyError, Policy) res"

definition findCondition :: "PolicyCondition list \<Rightarrow> string \<Rightarrow> PolicyCondition option" where
  "findCondition conditions conditionType = List.find (\<lambda>c. pc_Type c = conditionType) conditions"

definition checkAccepted :: "Policy \<Rightarrow> PolicyError option" where
  "checkAccepted policy =
     (case findCondition (po_Conditions policy) ConditionAccepted of
        None \<Rightarrow> Some (ErrNotAccepted (po_Name policy))
      | Some condition \<Rightarrow>
          if pc_ObservedGeneration condition \<noteq> po_Generation policy
          then Some (ErrStaleGeneration (po_Name policy) (pc_ObservedGeneration condition) (po_Generation policy))
          else if \<not> pc_Status condition then Some (ErrNotAccepted (po_Name policy))
          else if po_BindingRevision policy = [] then Some (ErrBindingUnavailable (po_Name policy))
          else None)"

text \<open>\<open>cloneCheck\<close> and \<open>copyChecks\<close> copy values, which are immutable here.\<close>

definition cloneCheck :: "Check \<Rightarrow> Check" where
  "cloneCheck check = \<lparr>ck_Name = ck_Name check, ck_Phases = ck_Phases check, ck_SpecIndex = ck_SpecIndex check\<rparr>"

definition copyChecks :: "Check list \<Rightarrow> Check list" where
  "copyChecks checks = map cloneCheck checks"

definition want_check :: "Policy \<Rightarrow> string \<Rightarrow> string list \<Rightarrow> (PolicyError, string list) res" where
  "want_check policy name wanted =
     (if name \<notin> set (map ck_Name (po_Checks policy)) then Inl (ErrUnknownCheck (po_Name policy) name)
      else if name \<in> set wanted then Inl (ErrDuplicateCheck (po_Name policy) name)
      else Inr (name # wanted))"

definition selectChecks :: "Policy \<Rightarrow> string list \<Rightarrow> (PolicyError, Check list) res" where
  "selectChecks policy requested =
     (if requested = [] then Inr (copyChecks (po_Checks policy))
      else (case fold_res (want_check policy) requested [] of
              Inl e \<Rightarrow> Inl e
            | Inr wanted \<Rightarrow> Inr (map cloneCheck (filter (\<lambda>c. ck_Name c \<in> set wanted) (po_Checks policy)))))"

text \<open>The interface promises a policy on success, so the nil case of the source is not represented.\<close>

definition ResolveAttachment :: "policy_get \<Rightarrow> string \<Rightarrow> Attachment \<Rightarrow> (PolicyError, ResolvedPolicy) res" where
  "ResolveAttachment reader targetNamespace attachment =
     bind_res (reader targetNamespace (at_Name attachment)) (\<lambda>policy.
       case checkAccepted policy of
         Some e \<Rightarrow> Inl e
       | None \<Rightarrow> bind_res (selectChecks policy (at_Checks attachment)) (\<lambda>selected.
           Inr \<lparr>rp_Namespace = po_Namespace policy, rp_Name = po_Name policy, rp_UID = po_UID policy,
                rp_Generation = po_Generation policy, rp_BindingRevision = po_BindingRevision policy, rp_Checks = selected\<rparr>))"

definition ResolveAttachments :: "policy_get \<Rightarrow> string \<Rightarrow> Attachment list \<Rightarrow> (PolicyError, ResolvedPolicy list) res" where
  "ResolveAttachments reader targetNamespace attachments = mapM_res (ResolveAttachment reader targetNamespace) attachments"

definition policyFromAIGuardrail :: "AIGuardrail \<Rightarrow> Policy" where
  "policyFromAIGuardrail guardrail =
     \<lparr>po_Namespace = ag_Namespace guardrail, po_Name = om_Name (ag_Meta guardrail), po_UID = om_UID (ag_Meta guardrail),
      po_Generation = ag_Generation guardrail, po_BindingRevision = gst_BindingRevision (ag_Status guardrail),
      po_Conditions = map (\<lambda>c. \<lparr>pc_Type = co_Type c, pc_Status = (co_Status c = ConditionTrue),
                                pc_ObservedGeneration = co_ObservedGeneration c\<rparr>) (gst_Conditions (ag_Status guardrail)),
      po_Checks = map (\<lambda>(i, c). \<lparr>ck_Name = gc_Name c, ck_Phases = gc_Phases c, ck_SpecIndex = i\<rparr>)
                    (List.enumerate 0 (gs_Checks (ag_Spec guardrail)))\<rparr>"

definition GetPolicy :: "(string \<Rightarrow> string \<Rightarrow> AIGuardrail get_result) \<Rightarrow> policy_get" where
  "GetPolicy client namespace name =
     (case client namespace name of
        GetNotFound \<Rightarrow> Inl (ErrPolicyNotFound namespace name)
      | GetError e \<Rightarrow> Inl (ErrReadFailure namespace name e)
      | GetOk guardrail \<Rightarrow> Inr (policyFromAIGuardrail guardrail))"

subsection \<open>Selection\<close>

lemma want_fold:
  "fold_res (want_check p) names acc = Inr w \<longleftrightarrow>
     w = rev names @ acc \<and> distinct names \<and> set names \<inter> set acc = {} \<and> set names \<subseteq> set (map ck_Name (po_Checks p))"
  by (induction names arbitrary: acc) (auto simp: want_check_def split: sum.splits)

lemma cloneCheck_id [simp]: "cloneCheck c = c"
  by (simp add: cloneCheck_def)

lemma map_cloneCheck [simp]: "map cloneCheck cs = cs"
  by (induction cs) simp_all

text \<open>A selection succeeds exactly for distinct known names, and keeps the order of the policy.\<close>

lemma selectChecks_Inr:
  "selectChecks p req = Inr cs \<longleftrightarrow>
     cs = (if req = [] then po_Checks p else filter (\<lambda>c. ck_Name c \<in> set req) (po_Checks p))
     \<and> distinct req \<and> set req \<subseteq> set (map ck_Name (po_Checks p))"
proof (cases "req = []")
  case False
  have ok: "(\<exists>w. fold_res (want_check p) req [] = Inr w \<and> P (set w)) \<longleftrightarrow>
      P (set req) \<and> distinct req \<and> set req \<subseteq> set (map ck_Name (po_Checks p))" for P
    using want_fold [of p req "[]"] by auto
  have "selectChecks p req = Inr cs \<longleftrightarrow>
      (\<exists>w. fold_res (want_check p) req [] = Inr w \<and> cs = filter (\<lambda>c. ck_Name c \<in> set w) (po_Checks p))"
    using False by (cases "fold_res (want_check p) req []") (auto simp: selectChecks_def)
  also have "\<dots> \<longleftrightarrow> cs = filter (\<lambda>c. ck_Name c \<in> set req) (po_Checks p) \<and> distinct req
      \<and> set req \<subseteq> set (map ck_Name (po_Checks p))"
    by (rule ok)
  finally show ?thesis using False by simp
qed (auto simp: selectChecks_def copyChecks_def)

subsection \<open>The PolicyReader contract\<close>

definition read_error :: "string \<Rightarrow> string \<Rightarrow> PolicyError \<Rightarrow> bool" where
  "read_error ns n e \<longleftrightarrow> e = ErrPolicyNotFound ns n \<or> (\<exists>m. e = ErrReadFailure ns n m)"

locale policy_reader =
  fixes reader :: policy_get
  assumes exact: "reader ns n = Inr p \<Longrightarrow> po_Namespace p = ns \<and> po_Name p = n"
    and errors: "reader ns n = Inl e \<Longrightarrow> read_error ns n e"
    and indexed: "reader ns n = Inr p \<Longrightarrow> map ck_SpecIndex (po_Checks p) = [0..<length (po_Checks p)]"
begin

text \<open>What a resolved policy is a snapshot of.\<close>

lemma resolve_snapshot:
  assumes "ResolveAttachment reader ns a = Inr r"
  shows "\<exists>p. reader ns (at_Name a) = Inr p \<and> rp_Namespace r = ns \<and> rp_Name r = at_Name a \<and> checkAccepted p = None
    \<and> rp_UID r = po_UID p \<and> rp_Generation r = po_Generation p \<and> rp_BindingRevision r = po_BindingRevision p
    \<and> selectChecks p (at_Checks a) = Inr (rp_Checks r)"
  using assms exact
  by (fastforce simp: ResolveAttachment_def bind_res_def split: sum.split_asm option.split_asm)

lemma select_sorted:
  assumes "ResolveAttachment reader ns a = Inr r"
  shows "sorted_wrt (<) (map ck_SpecIndex (rp_Checks r))"
proof -
  from resolve_snapshot [OF assms] obtain p where p: "reader ns (at_Name a) = Inr p" "selectChecks p (at_Checks a) = Inr (rp_Checks r)"
    by blast
  have "sorted_wrt (<) (map ck_SpecIndex (po_Checks p))" using indexed [OF p(1)] by simp
  moreover from p(2) have "rp_Checks r = po_Checks p \<or> rp_Checks r = filter (\<lambda>c. ck_Name c \<in> set (at_Checks a)) (po_Checks p)"
    by (simp add: selectChecks_Inr split: if_split_asm)
  ultimately show ?thesis by (auto simp: sorted_wrt_map sorted_wrt_filter)
qed

end

lemma policyFromAIGuardrail_indexed:
  "map ck_SpecIndex (po_Checks (policyFromAIGuardrail g)) = [0..<length (po_Checks (policyFromAIGuardrail g))]"
proof -
  have "map ck_SpecIndex (po_Checks (policyFromAIGuardrail g)) = map fst (List.enumerate 0 (gs_Checks (ag_Spec g)))"
    by (simp add: policyFromAIGuardrail_def comp_def case_prod_beta)
  then show ?thesis by (simp add: policyFromAIGuardrail_def)
qed

text \<open>An API server that returns the object with the name that was asked for.\<close>

definition server_exact :: "(string \<Rightarrow> string \<Rightarrow> AIGuardrail get_result) \<Rightarrow> bool" where
  "server_exact client \<longleftrightarrow> (\<forall>ns n g. client ns n = GetOk g \<longrightarrow> ag_Namespace g = ns \<and> om_Name (ag_Meta g) = n)"

definition exact_client :: "(string \<Rightarrow> string \<Rightarrow> AIGuardrail get_result) \<Rightarrow> string \<Rightarrow> string \<Rightarrow> AIGuardrail get_result" where
  "exact_client client ns n =
     (case client ns n of
        GetOk g \<Rightarrow> if ag_Namespace g = ns \<and> om_Name (ag_Meta g) = n then GetOk g else GetNotFound
      | r \<Rightarrow> r)"

lemma exact_client_id: "server_exact client \<Longrightarrow> exact_client client = client"
  by (auto simp: exact_client_def server_exact_def fun_eq_iff split: get_result.split)

interpretation api: policy_reader "GetPolicy (exact_client client)" for client
proof
  fix ns n p e
  show "GetPolicy (exact_client client) ns n = Inr p \<Longrightarrow> po_Namespace p = ns \<and> po_Name p = n"
    by (auto simp: GetPolicy_def exact_client_def policyFromAIGuardrail_def split: get_result.split_asm if_split_asm)
  show "GetPolicy (exact_client client) ns n = Inl e \<Longrightarrow> read_error ns n e"
    by (auto simp: GetPolicy_def read_error_def split: get_result.split_asm)
  show "GetPolicy (exact_client client) ns n = Inr p \<Longrightarrow> map ck_SpecIndex (po_Checks p) = [0..<length (po_Checks p)]"
    by (auto simp: GetPolicy_def policyFromAIGuardrail_indexed split: get_result.split_asm)
qed

end
