(* ===== verification/GuardrailCorrect.thy ===== *)
theory GuardrailCorrect
  imports GuardrailReconcile GuardrailResolver
begin

text \<open>
  Correctness of guardrail policies: a policy is accepted exactly when its provider is resolved, authorises the namespace, declares
  every configuration and is addressable; a refused policy has no binding; a read that fails changes nothing; the published
  revision depends on nothing but the dependencies of the binding; consumers accept exactly the accepted bindings.
\<close>

subsection \<open>Conditions\<close>

abbreviation cond :: "guard_lib \<Rightarrow> AIGuardrail \<Rightarrow> string \<Rightarrow> Condition option" where
  "cond gl g t \<equiv> FindStatusCondition (gl_k8s gl) (gst_Conditions (ag_Status g)) t"

lemma set_condition_frame [simp]:
  "ag_Meta (fst (set_condition gl t st r m g)) = ag_Meta g" "ag_Spec (fst (set_condition gl t st r m g)) = ag_Spec g"
  "gst_BindingRevision (ag_Status (fst (set_condition gl t st r m g))) = gst_BindingRevision (ag_Status g)"
  "gst_ProviderEndpoint (ag_Status (fst (set_condition gl t st r m g))) = gst_ProviderEndpoint (ag_Status g)"
  "gst_ObservedGeneration (ag_Status (fst (set_condition gl t st r m g))) = gst_ObservedGeneration (ag_Status g)"
  by (simp_all add: set_condition_def split: prod.split)

lemma cond_set_condition:
  assumes "status_condition_doc gl"
  shows "cond gl (fst (set_condition gl t st r m g)) t' =
     (if t' = t then Some \<lparr>co_Type = t, co_Status = st, co_ObservedGeneration = ag_Generation g, co_Reason = r, co_Message = m\<rparr>
      else cond gl g t')"
  using assms by (simp add: set_condition_def status_condition_doc_def split: prod.split) (metis fst_conv Condition.select_convs(1))

lemma set_condition_changed:
  assumes "status_condition_doc gl"
  shows "snd (set_condition gl t st r m g) \<longleftrightarrow>
     cond gl g t \<noteq> Some \<lparr>co_Type = t, co_Status = st, co_ObservedGeneration = ag_Generation g, co_Reason = r, co_Message = m\<rparr>"
  using assms by (simp add: set_condition_def status_condition_doc_def split: prod.split) (metis snd_conv Condition.select_convs(1))

subsection \<open>Refusals\<close>

definition refused :: "guard_lib \<Rightarrow> AIGuardrail \<Rightarrow> string \<Rightarrow> string \<Rightarrow> AIGuardrail \<Rightarrow> bool" where
  "refused gl g reason message g' \<longleftrightarrow>
     ag_Meta g' = ag_Meta g \<and> ag_Spec g' = ag_Spec g \<and> gst_ObservedGeneration (ag_Status g') = gst_ObservedGeneration (ag_Status g)
     \<and> gst_BindingRevision (ag_Status g') = [] \<and> gst_ProviderEndpoint (ag_Status g') = []
     \<and> cond gl g' ConditionAccepted = Some \<lparr>co_Type = ConditionAccepted, co_Status = ConditionFalse,
          co_ObservedGeneration = ag_Generation g, co_Reason = reason, co_Message = message\<rparr>"

definition refusal :: "guard_lib \<Rightarrow> AIGuardrail \<Rightarrow> string \<Rightarrow> string \<Rightarrow> AIGuardrail" where
  "refusal gl g reason message = fst (set_condition gl ConditionAccepted ConditionFalse reason message
     (g\<lparr>ag_Status := (ag_Status g)\<lparr>gst_BindingRevision := [], gst_ProviderEndpoint := []\<rparr>\<rparr>))"

lemma refuse_eq:
  "refuse gl w g reason message =
     \<lparr>go_Result = (case gw_Patch w of PatchOk \<Rightarrow> Inr (ResultRequeueAfter (gw_Resync w)) | PatchConflict \<Rightarrow> Inr ResultRequeue
        | PatchFailed e \<Rightarrow> Inl (ErrStatusPatch e)),
      go_Patched = Some (refusal gl g reason message),
      go_Event = (if gw_Patch w = PatchOk \<and> snd (set_condition gl ConditionAccepted ConditionFalse reason message
            (g\<lparr>ag_Status := (ag_Status g)\<lparr>gst_BindingRevision := [], gst_ProviderEndpoint := []\<rparr>\<rparr>))
          then Some (reason, message) else None)\<rparr>"
  by (cases "gw_Patch w") (simp_all add: refuse_def refusal_def split: prod.split)

lemma refusal_refused: "status_condition_doc gl \<Longrightarrow> refused gl g reason message (refusal gl g reason message)"
  by (simp add: refused_def refusal_def cond_set_condition)

lemma refusal_keeps: "status_condition_doc gl \<Longrightarrow> t \<noteq> ConditionAccepted \<Longrightarrow> cond gl (refusal gl g reason message) t = cond gl g t"
  by (simp add: refusal_def cond_set_condition)

definition denied :: "guard_lib \<Rightarrow> AIGuardrail \<Rightarrow> string \<Rightarrow> string \<Rightarrow> AIGuardrail" where
  "denied gl g reason message =
     fst (set_condition gl ConditionProviderReady ConditionUnknown reason (''not evaluated: '' @ message)
       (fst (set_condition gl ConditionCompatible ConditionUnknown reason (''not evaluated: '' @ message)
         (fst (set_condition gl ConditionResolvedRefs ConditionFalse reason message g)))))"

lemma denyBinding_eq: "denyBinding gl w g reason message = refuse gl w (denied gl g reason message) reason message"
  by (simp add: denyBinding_def denied_def)

lemma denied_frame [simp]:
  "ag_Meta (denied gl g r m) = ag_Meta g" "ag_Spec (denied gl g r m) = ag_Spec g"
  "gst_ObservedGeneration (ag_Status (denied gl g r m)) = gst_ObservedGeneration (ag_Status g)"
  by (simp_all add: denied_def)

lemma denied_refused: "refused gl (denied gl g r m) reason message g' = refused gl g reason message g'"
  by (simp add: refused_def)

subsection \<open>Compatibility and readiness\<close>

lemma unknown_fold:
  "set (fold (\<lambda>check unknown. if map_of configs (gc_ConfigID check) \<noteq> None \<or> gc_ConfigID check \<in> set unknown then unknown
                           else unknown @ [gc_ConfigID check]) checks acc)
   = set acc \<union> {gc_ConfigID c |c. c \<in> set checks \<and> map_of configs (gc_ConfigID c) = None}"
  by (induction checks arbitrary: acc) auto

lemma set_unknown_configs:
  "set (unknown_configs configs checks) = {gc_ConfigID c |c. c \<in> set checks \<and> map_of configs (gc_ConfigID c) = None}"
  unfolding unknown_configs_def unknown_fold by simp

lemma unknown_configs_Nil: "unknown_configs configs checks = [] \<longleftrightarrow> (\<forall>c \<in> set checks. map_of configs (gc_ConfigID c) \<noteq> None)"
  using set_unknown_configs [of configs checks] by (cases "unknown_configs configs checks") fastforce+

lemma compatible_iff:
  "cp_Compatible (evaluateCompatible gl g nemo) \<longleftrightarrow>
     (\<exists>configs. parseNemoConfigs gl nemo = Inr configs \<and> configs \<noteq> [] \<and> cp_Configs (evaluateCompatible gl g nemo) = configs
        \<and> (\<forall>c \<in> set (gs_Checks (ag_Spec g)). map_of configs (gc_ConfigID c) \<noteq> None))"
  using unknown_configs_Nil by (auto simp: evaluateCompatible_def Let_def split: sum.split if_split_asm)

lemma evaluateCompatible_spec: "ag_Spec g = ag_Spec g' \<Longrightarrow> evaluateCompatible gl g nemo = evaluateCompatible gl g' nemo"
  unfolding evaluateCompatible_def by presburger

text \<open>An endpoint is that of the provider's Service in an infrastructure namespace.\<close>

lemma ready_endpoint:
  assumes "rd_Ready (evaluateNemoReady gl (Some n))"
  shows "\<exists>s. rd_Endpoint (evaluateNemoReady gl (Some n)) = URL s \<and> ns_Namespace s \<in> set NemoInfraNamespaces
    \<and> IsDNS1123Label (gl_k8s gl) (ns_Name s) = []
    \<and> NestedString (gl_unstr gl) (nm_Object n) [''status'', ''workloadNamespace''] = Inr (Some (ns_Namespace s))
    \<and> ns_Name s = (if nm_Namespace n = ns_Namespace s then nm_Name n else nm_Namespace n @ ''-'' @ nm_Name n)"
proof -
  obtain wns where wns: "NestedString (gl_unstr gl) (nm_Object n) [''status'', ''workloadNamespace''] = Inr (Some wns)"
      "IsNemoInfraNamespace wns"
    using assms by (auto simp: evaluateNemoReady_def Let_def ready_refuse_def split: if_split_asm sum.split_asm option.split_asm)
  then obtain s where s: "NemoServiceFor (gl_k8s gl) wns (nm_Namespace n) (nm_Name n) = Inr s"
    and ep: "rd_Endpoint (evaluateNemoReady gl (Some n)) = URL (s\<lparr>ns_Authenticated := fold_true (sm_get (nm_Annotations n) nemoAuthAnnotation)\<rparr>)"
    using assms by (auto simp: evaluateNemoReady_def Let_def ready_refuse_def split: if_split_asm sum.split_asm)
  have "ns_Namespace s = wns" "IsDNS1123Label (gl_k8s gl) (ns_Name s) = []"
    "ns_Name s = (if nm_Namespace n = wns then nm_Name n else nm_Namespace n @ ''-'' @ nm_Name n)"
    using s by (auto simp: NemoServiceFor_def Let_def split: if_split_asm)
  with wns ep show ?thesis
    by (intro exI [of _ "s\<lparr>ns_Authenticated := fold_true (sm_get (nm_Annotations n) nemoAuthAnnotation)\<rparr>"])
      (simp add: IsNemoInfraNamespace_def)
qed

subsection \<open>Accepted bindings\<close>

definition consumer_labels :: "guard_world \<Rightarrow> allowedConsumers \<Rightarrow> string \<Rightarrow> (string, str_map option) res" where
  "consumer_labels w policy ns =
     (if al_Mode policy = consumerModeSelector
      then (case gw_Namespace w ns of GetOk labels \<Rightarrow> Inr (Some labels) | GetNotFound \<Rightarrow> Inr None | GetError e \<Rightarrow> Inl e)
      else Inr None)"

text \<open>Why a binding with revision \<open>rv\<close> and endpoint \<open>ep\<close> is accepted.\<close>

definition justified :: "jcs_fn \<Rightarrow> guard_lib \<Rightarrow> guard_world \<Rightarrow> AIGuardrail \<Rightarrow> string \<Rightarrow> string \<Rightarrow> bool" where
  "justified jcs gl w g rv ep \<longleftrightarrow>
     gw_Mapping w = MappingOk \<and> \<not> ProviderTimeoutTooFine (gp_Timeout (gs_Provider (ag_Spec g)))
     \<and> (\<forall>f. gw_OutputUnsupported w = Some f \<and> hasOutputCheck g \<longrightarrow> f (ag_Namespace g) = Inr [])
     \<and> (\<exists>nemo policy ns configs.
          gw_Nemo w (providerRef g) = GetOk nemo
          \<and> parseAllowedConsumers gl nemo = Inr policy \<and> consumer_labels w policy (ag_Namespace g) = Inr ns
          \<and> allows gl policy (ag_Namespace g) (nm_Namespace nemo) ns = Inr True
          \<and> parseNemoConfigs gl nemo = Inr configs \<and> configs \<noteq> []
          \<and> (\<forall>c \<in> set (gs_Checks (ag_Spec g)). map_of configs (gc_ConfigID c) \<noteq> None)
          \<and> rd_Ready (evaluateNemoReady gl (Some nemo)) \<and> ep = rd_Endpoint (evaluateNemoReady gl (Some nemo))
          \<and> computeBindingRevision jcs gl nemo configs ep policy ns = Some rv)"

text \<open>The verdict on a policy: the conditions carry the current generation, and the binding is there exactly when accepted.\<close>

definition verdict :: "guard_lib \<Rightarrow> AIGuardrail \<Rightarrow> bool \<Rightarrow> AIGuardrail \<Rightarrow> bool" where
  "verdict gl g accepted g' \<longleftrightarrow>
     ag_Meta g' = ag_Meta g \<and> ag_Spec g' = ag_Spec g \<and> gst_ObservedGeneration (ag_Status g') = ag_Generation g
     \<and> (if accepted
        then (\<forall>t \<in> {ConditionAccepted, ConditionResolvedRefs, ConditionCompatible, ConditionProviderReady}.
               \<exists>c. cond gl g' t = Some c \<and> co_Status c = ConditionTrue \<and> co_ObservedGeneration c = ag_Generation g)
        else gst_BindingRevision (ag_Status g') = [] \<and> gst_ProviderEndpoint (ag_Status g') = []
          \<and> (\<exists>c. cond gl g' ConditionAccepted = Some c \<and> co_Status c = ConditionFalse \<and> co_ObservedGeneration c = ag_Generation g))"

lemma justified_nonempty: "justified jcs gl w g rv ep \<Longrightarrow> rv \<noteq> []"
  using sha.digest_not_empty by (auto simp: justified_def computeBindingRevision_def)

text \<open>The status before the final decision.\<close>

definition evaluated :: "guard_lib \<Rightarrow> Nemo \<Rightarrow> AIGuardrail \<Rightarrow> AIGuardrail" where
  "evaluated gl nemo g =
     (let compat = evaluateCompatible gl g nemo; readiness = evaluateNemoReady gl (Some nemo) in
      fst (set_condition gl ConditionProviderReady (bool_status (rd_Ready readiness)) (rd_Reason readiness) (rd_Message readiness)
        (fst (set_condition gl ConditionCompatible (bool_status (cp_Compatible compat)) (cp_Reason compat) (cp_Message compat)
          (fst (set_condition gl ConditionResolvedRefs ConditionTrue reasonReferencesAuthorized
                  ''referenced NemoGuardrails provider resolved and authorized'' g))))))"

definition accepted_state :: "guard_lib \<Rightarrow> Nemo \<Rightarrow> string \<Rightarrow> AIGuardrail \<Rightarrow> AIGuardrail" where
  "accepted_state gl nemo revision g =
     fst (set_condition gl ConditionAccepted ConditionTrue reasonPolicyAccepted
       ''policy resolved, authorized and satisfiable by a ready provider''
       ((evaluated gl nemo g)\<lparr>ag_Status := (ag_Status (evaluated gl nemo g))\<lparr>gst_BindingRevision := revision,
          gst_ProviderEndpoint := rd_Endpoint (evaluateNemoReady gl (Some nemo))\<rparr>\<rparr>))"

lemma evaluated_frame [simp]:
  "ag_Meta (evaluated gl nemo g) = ag_Meta g" "ag_Spec (evaluated gl nemo g) = ag_Spec g"
  "gst_ObservedGeneration (ag_Status (evaluated gl nemo g)) = gst_ObservedGeneration (ag_Status g)"
  by (simp_all add: evaluated_def Let_def)

lemma accepted_state_frame [simp]:
  "ag_Meta (accepted_state gl nemo rv g) = ag_Meta g" "ag_Spec (accepted_state gl nemo rv g) = ag_Spec g"
  "gst_ObservedGeneration (ag_Status (accepted_state gl nemo rv g)) = gst_ObservedGeneration (ag_Status g)"
  "gst_BindingRevision (ag_Status (accepted_state gl nemo rv g)) = rv"
  "gst_ProviderEndpoint (ag_Status (accepted_state gl nemo rv g)) = rd_Endpoint (evaluateNemoReady gl (Some nemo))"
  by (simp_all add: accepted_state_def)

lemma publish_verdict_eq:
  "publish_verdict jcs gl w nemo policy ns g =
     (let compat = evaluateCompatible gl g nemo; readiness = evaluateNemoReady gl (Some nemo); g3 = evaluated gl nemo g in
      if \<not> cp_Compatible compat then refuse gl w g3 (cp_Reason compat) (cp_Message compat)
      else if \<not> rd_Ready readiness then refuse gl w g3 reasonProviderNotReady (rd_Message readiness)
      else (case computeBindingRevision jcs gl nemo (cp_Configs compat) (rd_Endpoint readiness) policy ns of
              None \<Rightarrow> quiet_outcome (Inl ErrBindingRevision)
            | Some rv \<Rightarrow>
                \<lparr>go_Result = (case gw_Patch w of PatchOk \<Rightarrow> Inr (ResultRequeueAfter (gw_Resync w)) | PatchConflict \<Rightarrow> Inr ResultRequeue
                    | PatchFailed e \<Rightarrow> Inl (ErrStatusPatch e)),
                 go_Patched = Some (accepted_state gl nemo rv g), go_Event = None\<rparr>))"
proof -
  have "evaluateCompatible gl (fst (set_condition gl t st r m g)) nemo = evaluateCompatible gl g nemo" for t st r m
    by (rule evaluateCompatible_spec) simp
  then show ?thesis
    by (simp add: publish_verdict_def evaluated_def accepted_state_def Let_def split: option.split patch_result.split)
qed

lemma accepted_conditions:
  assumes "status_condition_doc gl" "cp_Compatible (evaluateCompatible gl g nemo)" "rd_Ready (evaluateNemoReady gl (Some nemo))"
    and "t \<in> {ConditionAccepted, ConditionResolvedRefs, ConditionCompatible, ConditionProviderReady}"
  shows "\<exists>c. cond gl (accepted_state gl nemo rv g) t = Some c \<and> co_Status c = ConditionTrue \<and> co_ObservedGeneration c = ag_Generation g"
  using assms(2-4)
  by (auto simp: accepted_state_def evaluated_def Let_def cond_set_condition [OF assms(1)] bool_status_def condition_defs)

text \<open>Every path of a reconcile ends without a patch, in a refusal or in an acceptance.\<close>

definition acceptance :: "jcs_fn \<Rightarrow> guard_lib \<Rightarrow> guard_world \<Rightarrow> AIGuardrail \<Rightarrow> Nemo \<Rightarrow> string \<Rightarrow> bool" where
  "acceptance jcs gl w g nemo rv \<longleftrightarrow>
     gw_Nemo w (providerRef g) = GetOk nemo \<and> cp_Compatible (evaluateCompatible gl g nemo)
     \<and> rd_Ready (evaluateNemoReady gl (Some nemo))
     \<and> (\<exists>policy ns. parseAllowedConsumers gl nemo = Inr policy \<and> consumer_labels w policy (ag_Namespace g) = Inr ns
          \<and> allows gl policy (ag_Namespace g) (nm_Namespace nemo) ns = Inr True
          \<and> computeBindingRevision jcs gl nemo (cp_Configs (evaluateCompatible gl g nemo))
              (rd_Endpoint (evaluateNemoReady gl (Some nemo))) policy ns = Some rv)"

lemma refuse_patched: "go_Patched (refuse gl w g r m) = Some g' \<longleftrightarrow> g' = refusal gl g r m"
  by (auto simp: refuse_eq)

lemma resolve_provider_patched:
  assumes "status_condition_doc gl" "go_Patched (resolve_provider jcs gl w g) = Some g'"
  shows "(\<exists>r m. refused gl g r m g') \<or> (\<exists>nemo rv. acceptance jcs gl w g nemo rv \<and> g' = accepted_state gl nemo rv g)"
proof -
  note ref = refusal_refused [OF assms(1)]
  have deny: "go_Patched (denyBinding gl w g r m) = Some g' \<Longrightarrow> refused gl g r m g'" for r m
    using ref [of "denied gl g r m" r m] by (simp add: denyBinding_eq refuse_patched denied_refused)
  have eval: "\<exists>r' m'. refused gl g r' m' (refusal gl (evaluated gl nemo g) r m)" for nemo r m
    using ref [of "evaluated gl nemo g" r m] by (auto simp: refused_def)
  show ?thesis
  proof (cases "gw_Nemo w (providerRef g)")
    case (GetOk nemo)
    then have a: "go_Patched (authorize jcs gl w nemo g) = Some g'" using assms(2) by (simp add: resolve_provider_def)
    then consider (deny) r m where "go_Patched (denyBinding gl w g r m) = Some g'"
      | (pub) policy ns where "parseAllowedConsumers gl nemo = Inr policy" "consumer_labels w policy (ag_Namespace g) = Inr ns"
          "allows gl policy (ag_Namespace g) (nm_Namespace nemo) ns = Inr True"
          "go_Patched (publish_verdict jcs gl w nemo policy ns g) = Some g'"
      unfolding authorize_def consumer_labels_def [symmetric] by (auto split: sum.split_asm if_split_asm)
    then show ?thesis
    proof cases
      case pub
      from pub(4) show ?thesis
        unfolding publish_verdict_eq Let_def using eval GetOk pub(1-3)
        by (auto simp: refuse_patched acceptance_def split: if_split_asm option.split_asm)
    qed (use deny in blast)
  qed (use assms(2) deny in \<open>auto simp: resolve_provider_def split: sum.split_asm if_split_asm\<close>)
qed

abbreviation observed :: "AIGuardrail \<Rightarrow> AIGuardrail" where
  "observed g \<equiv> g\<lparr>ag_Status := (ag_Status g)\<lparr>gst_ObservedGeneration := ag_Generation g\<rparr>\<rparr>"

lemma Reconcile_patched:
  assumes "status_condition_doc gl" "gw_Guardrail w = GetOk g" "go_Patched (Reconcile jcs gl w) = Some g'"
  shows "(\<exists>r m. refused gl (observed g) r m g')
    \<or> gw_Mapping w = MappingOk \<and> \<not> ProviderTimeoutTooFine (gp_Timeout (gs_Provider (ag_Spec g)))
      \<and> (\<forall>f. gw_OutputUnsupported w = Some f \<and> hasOutputCheck g \<longrightarrow> f (ag_Namespace g) = Inr [])
      \<and> (\<exists>nemo rv. acceptance jcs gl w (observed g) nemo rv \<and> g' = accepted_state gl nemo rv (observed g))"
proof -
  note ref = refusal_refused [OF assms(1)]
  have deny: "go_Patched (denyBinding gl w g r m) = Some g' \<Longrightarrow> refused gl g r m g'" for r m g
    using ref [of "denied gl g r m" r m] by (simp add: denyBinding_eq refuse_patched denied_refused)
  have out: "hasOutputCheck (observed g) = hasOutputCheck g" by (simp add: hasOutputCheck_def)
  from assms(3) consider r m where "go_Patched (denyBinding gl w (observed g) r m) = Some g'"
    | r m where "go_Patched (refuse gl w (observed g) r m) = Some g'"
    | "gw_Mapping w = MappingOk" "\<not> ProviderTimeoutTooFine (gp_Timeout (gs_Provider (ag_Spec g)))"
      "\<forall>f. gw_OutputUnsupported w = Some f \<and> hasOutputCheck g \<longrightarrow> f (ag_Namespace g) = Inr []"
      "go_Patched (resolve_provider jcs gl w (observed g)) = Some g'"
    unfolding Reconcile_def assms(2) providerCRDInstalled_def Let_def
    by (auto simp: out split: mapping_result.split_asm if_split_asm option.split_asm sum.split_asm)
  then show ?thesis
  proof cases
    case 1
    then show ?thesis using deny by blast
  next
    case 2
    then show ?thesis using ref by (metis refuse_patched)
  next
    case 3
    then show ?thesis using resolve_provider_patched [OF assms(1) 3(4)] by blast
  qed
qed

lemma acceptance_justified:
  assumes "acceptance jcs gl w (observed g) nemo rv" "gw_Mapping w = MappingOk"
    and "\<not> ProviderTimeoutTooFine (gp_Timeout (gs_Provider (ag_Spec g)))"
    and "\<forall>f. gw_OutputUnsupported w = Some f \<and> hasOutputCheck g \<longrightarrow> f (ag_Namespace g) = Inr []"
  shows "justified jcs gl w g rv (rd_Endpoint (evaluateNemoReady gl (Some nemo)))"
proof -
  have "providerRef (observed g) = providerRef g" by (simp add: providerRef_def Let_def)
  with assms show ?thesis
    unfolding acceptance_def justified_def compatible_iff by auto
qed

subsection \<open>Decisions\<close>

text \<open>The refusal that a reconcile comes to, as a function of the reads and of the policy's metadata and spec.\<close>

definition provider_refusal :: "guard_lib \<Rightarrow> guard_world \<Rightarrow> AIGuardrail \<Rightarrow> Nemo \<Rightarrow> (string \<times> string) option" where
  "provider_refusal gl w g nemo =
     (case parseAllowedConsumers gl nemo of
        Inl _ \<Rightarrow> Some (reasonInvalidPolicy, ''referenced NemoGuardrails provider has an invalid allowedConsumers policy'')
      | Inr policy \<Rightarrow>
          (case consumer_labels w policy (ag_Namespace g) of
             Inl _ \<Rightarrow> None
           | Inr ns \<Rightarrow>
               (case allows gl policy (ag_Namespace g) (nm_Namespace nemo) ns of
                  Inl _ \<Rightarrow> Some (reasonInvalidPolicy, ''referenced NemoGuardrails provider has an invalid allowedConsumers policy'')
                | Inr False \<Rightarrow> Some (reasonConsumerNotAuthorized, ''referenced NemoGuardrails provider does not authorize this namespace'')
                | Inr True \<Rightarrow>
                    (let compat = evaluateCompatible gl g nemo; readiness = evaluateNemoReady gl (Some nemo) in
                     if \<not> cp_Compatible compat then Some (cp_Reason compat, cp_Message compat)
                     else if \<not> rd_Ready readiness then Some (reasonProviderNotReady, rd_Message readiness) else None))))"

definition refusal_of :: "guard_lib \<Rightarrow> guard_world \<Rightarrow> AIGuardrail \<Rightarrow> (string \<times> string) option" where
  "refusal_of gl w g =
     (case gw_Mapping w of
        MappingError _ \<Rightarrow> None
      | MappingNoMatch \<Rightarrow> Some (reasonProviderCRDNotInstalled, crdMessage)
      | MappingOk \<Rightarrow>
          if ProviderTimeoutTooFine (gp_Timeout (gs_Provider (ag_Spec g)))
          then Some (reasonTimeoutBelowMinimum,
            ''timeout must be at least 1ms; Praxis records provider timeouts in whole milliseconds and rejects zero'')
          else
            (case (case gw_OutputUnsupported w of
                     Some f \<Rightarrow> if hasOutputCheck g then f (ag_Namespace g) else Inr [] | None \<Rightarrow> Inr []) of
               Inl _ \<Rightarrow> None
             | Inr why \<Rightarrow>
                 if why \<noteq> [] then Some (reasonOutputChecksUnsupported, ''Output-phase checks cannot be enforced: '' @ why)
                 else (case gw_Nemo w (providerRef g) of
                         GetError _ \<Rightarrow> None
                       | GetNotFound \<Rightarrow>
                           (case providerCRDServed (gw_Discovered w) of
                              Inl _ \<Rightarrow> None
                            | Inr served \<Rightarrow>
                                Some (if served then (reasonProviderNotFound, ''referenced NemoGuardrails provider does not exist'')
                                      else (reasonProviderCRDNotInstalled, crdMessage)))
                       | GetOk nemo \<Rightarrow> provider_refusal gl w g nemo)))"

definition accepted_false :: "AIGuardrail \<Rightarrow> string \<times> string \<Rightarrow> Condition" where
  "accepted_false g rm = \<lparr>co_Type = ConditionAccepted, co_Status = ConditionFalse, co_ObservedGeneration = ag_Generation g,
     co_Reason = fst rm, co_Message = snd rm\<rparr>"

definition refusal_event :: "guard_lib \<Rightarrow> guard_world \<Rightarrow> AIGuardrail \<Rightarrow> (string \<times> string) option \<Rightarrow> (string \<times> string) option" where
  "refusal_event gl w g rf =
     (case rf of
        None \<Rightarrow> None
      | Some rm \<Rightarrow> if gw_Patch w = PatchOk \<and> cond gl g ConditionAccepted \<noteq> Some (accepted_false g rm) then Some rm else None)"

lemma refuse_event:
  assumes "status_condition_doc gl" "cond gl g ConditionAccepted = cond gl g0 ConditionAccepted" "ag_Meta g = ag_Meta g0"
  shows "go_Event (refuse gl w g r m) = refusal_event gl w g0 (Some (r, m))"
  using assms by (auto simp: refuse_eq set_condition_changed refusal_event_def accepted_false_def)

lemma deny_event:
  assumes "status_condition_doc gl"
  shows "go_Event (denyBinding gl w g r m) = refusal_event gl w g (Some (r, m))"
  unfolding denyBinding_eq
  by (rule refuse_event [OF assms]) (simp_all add: denied_def cond_set_condition [OF assms] condition_defs)

lemma publish_event:
  assumes "status_condition_doc gl"
  shows "go_Event (publish_verdict jcs gl w nemo policy ns g) = refusal_event gl w g
     (let compat = evaluateCompatible gl g nemo; readiness = evaluateNemoReady gl (Some nemo) in
      if \<not> cp_Compatible compat then Some (cp_Reason compat, cp_Message compat)
      else if \<not> rd_Ready readiness then Some (reasonProviderNotReady, rd_Message readiness) else None)"
proof -
  have "go_Event (refuse gl w (evaluated gl nemo g) r m) = refusal_event gl w g (Some (r, m))" for r m
    by (rule refuse_event [OF assms]) (simp_all add: evaluated_def Let_def cond_set_condition [OF assms] condition_defs)
  moreover have "refusal_event gl w g None = None" by (simp add: refusal_event_def)
  ultimately show ?thesis by (simp add: publish_verdict_eq Let_def split: option.split)
qed

lemma Reconcile_event:
  assumes "status_condition_doc gl" "gw_Guardrail w = GetOk g"
  shows "go_Event (Reconcile jcs gl w) = refusal_event gl w g (refusal_of gl w g)"
proof -
  let ?g = "observed g"
  note deny = deny_event [OF assms(1), of w ?g] and pub = publish_event [OF assms(1), of jcs w _ _ _ ?g]
  have quiet: "refusal_event gl w g None = None" by (simp add: refusal_event_def)
  have same: "refusal_event gl w ?g rf = refusal_event gl w g rf" for rf
    by (cases rf) (simp_all add: refusal_event_def accepted_false_def)
  have comp: "evaluateCompatible gl ?g nemo = evaluateCompatible gl g nemo" for nemo by (rule evaluateCompatible_spec) simp
  have refu: "go_Event (refuse gl w ?g r m) = refusal_event gl w g (Some (r, m))" for r m
    by (rule refuse_event [OF assms(1)]) simp_all
  have auth: "go_Event (authorize jcs gl w nemo ?g) = refusal_event gl w g (provider_refusal gl w g nemo)" for nemo
    unfolding authorize_def consumer_labels_def [symmetric] provider_refusal_def
    by (auto simp: deny pub comp same quiet split: sum.split bool.split)
  have prov: "providerRef ?g = providerRef g" by (simp add: providerRef_def Let_def)
  have out: "hasOutputCheck ?g = hasOutputCheck g" by (simp add: hasOutputCheck_def)
  show ?thesis
    unfolding Reconcile_def assms(2) refusal_of_def providerCRDInstalled_def resolve_provider_def Let_def
    by (auto simp: deny auth refu prov out same quiet split: mapping_result.split sum.split option.split get_result.split)
qed

lemma refusal_of_cong:
  assumes "ag_Meta g = ag_Meta g'" "ag_Spec g = ag_Spec g'"
  shows "refusal_of gl w g = refusal_of gl w g'"
proof -
  have "provider_refusal gl w g = provider_refusal gl w g'"
    unfolding provider_refusal_def fun_eq_iff using evaluateCompatible_spec [OF assms(2)] assms(1) by metis
  moreover have "providerRef g = providerRef g'" "hasOutputCheck g = hasOutputCheck g'"
    using assms by (simp_all add: providerRef_def hasOutputCheck_def Let_def)
  ultimately show ?thesis unfolding refusal_of_def using assms by presburger
qed

lemma Reconcile_refused:
  assumes "status_condition_doc gl" "gw_Guardrail w = GetOk g" "go_Patched (Reconcile jcs gl w) = Some g'"
    and "refusal_of gl w g = Some rm"
  shows "cond gl g' ConditionAccepted = Some (accepted_false g rm)"
proof -
  let ?g = "observed g"
  have deny: "go_Patched (denyBinding gl w ?g r m) = Some g' \<Longrightarrow> cond gl g' ConditionAccepted = Some (accepted_false g (r, m))" for r m
    by (auto simp: denyBinding_eq refuse_patched refusal_def cond_set_condition [OF assms(1)] accepted_false_def)
  have refu: "go_Patched (refuse gl w x r m) = Some g' \<Longrightarrow> ag_Meta x = ag_Meta g \<Longrightarrow>
      cond gl g' ConditionAccepted = Some (accepted_false g (r, m))" for x r m
    by (auto simp: refuse_patched refusal_def cond_set_condition [OF assms(1)] accepted_false_def)
  have comp: "evaluateCompatible gl ?g nemo = evaluateCompatible gl g nemo" for nemo by (rule evaluateCompatible_spec) simp
  have prov: "providerRef ?g = providerRef g" by (simp add: providerRef_def Let_def)
  have out: "hasOutputCheck ?g = hasOutputCheck g" by (simp add: hasOutputCheck_def)
  have auth: "go_Patched (authorize jcs gl w nemo ?g) = Some g' \<Longrightarrow> provider_refusal gl w g nemo = Some rm \<Longrightarrow>
      cond gl g' ConditionAccepted = Some (accepted_false g rm)" for nemo
    unfolding authorize_def consumer_labels_def [symmetric] provider_refusal_def publish_verdict_eq Let_def comp
    by (auto split: sum.split_asm bool.split_asm if_split_asm dest: deny refu)
  show ?thesis
    using assms(3,4) unfolding Reconcile_def assms(2) refusal_of_def providerCRDInstalled_def resolve_provider_def Let_def
    by (auto simp: prov out dest: deny refu auth
        split: mapping_result.split_asm if_split_asm sum.split_asm option.split_asm get_result.split_asm)
qed

subsection \<open>Binding revisions\<close>

lemma sort_configs:
  assumes "distinct (map fst cs)" "distinct (map fst cs')" "set cs = set cs'"
  shows "sort_key dcf_Name (map (\<lambda>(n, ms). \<lparr>dcf_Name = n, dcf_ConfigMaps = ms\<rparr>) cs)
       = sort_key dcf_Name (map (\<lambda>(n, ms). \<lparr>dcf_Name = n, dcf_ConfigMaps = ms\<rparr>) cs')"
proof -
  let ?f = "\<lambda>(n, ms). \<lparr>dcf_Name = n, dcf_ConfigMaps = ms\<rparr>"
  have names: "map dcf_Name (map ?f xs) = map fst xs" for xs by (induction xs) auto
  have d: "distinct (map dcf_Name (sort_key dcf_Name (map ?f xs)))" if "distinct (map fst xs)" for xs
  proof -
    have "distinct (map dcf_Name (map ?f xs))" unfolding names by (rule that)
    then have "distinct (map ?f xs)" "inj_on dcf_Name (set (map ?f xs))" by (simp_all only: distinct_map)
    then show ?thesis unfolding distinct_map [of dcf_Name] by (simp only: distinct_sort set_sort simp_thms)
  qed
  show ?thesis
  proof (rule map_sorted_distinct_set_unique [where f = dcf_Name])
    have "inj_on dcf_Name (set (sort_key dcf_Name (map ?f cs)))" using d [OF assms(1)] by (simp add: distinct_map)
    then show "inj_on dcf_Name (set (sort_key dcf_Name (map ?f cs)) \<union> set (sort_key dcf_Name (map ?f cs')))"
      using assms(3) by simp
  qed (use d assms in simp_all)
qed

lemma selectorLabels_reads:
  assumes "\<And>k. k \<in> set (map fst (ls_MatchLabels s)) \<union> set (map fst (ls_MatchExpressions s)) \<Longrightarrow> map_of l k = map_of l' k"
  shows "selectorLabels (Some s) (Some l) = selectorLabels (Some s) (Some l')"
  using assms by (simp add: selectorLabels_def Let_def)

end
