(* ===== verification/GoUrl.thy ===== *)
theory GoUrl
  imports JsonDecode
begin

text \<open>
  The part of Go's \<open>net/url\<close> that checks endpoints: \<open>Parse\<close> with its escapes, authorities and ports, and the accessors \<open>Hostname\<close> and
  \<open>Port\<close>, as of Go 1.26, the version of \<open>src/go.mod\<close>: a host outside brackets has at most one colon, and only an IPv6 address
  may stand in brackets. Of the user information the callers only ask whether there is any. Both error kinds of the
  package are one value, since every caller tests for nil only.
\<close>

record go_url =
  url_Scheme :: string
  url_Opaque :: string
  url_User :: bool
  url_Host :: string
  url_Path :: string
  url_RawQuery :: string
  url_ForceQuery :: bool
  url_Fragment :: string

definition empty_url :: go_url where
  "empty_url = \<lparr>url_Scheme = [], url_Opaque = [], url_User = False, url_Host = [], url_Path = [], url_RawQuery = [],
     url_ForceQuery = False, url_Fragment = []\<rparr>"

subsection \<open>Cutting\<close>

text \<open>\<open>strings.Cut\<close> at a byte: what stands before the first occurrence, and what stands after it if there is one.\<close>

fun cut_byte :: "char \<Rightarrow> string \<Rightarrow> string \<times> string option" where
  "cut_byte c [] = ([], None)"
| "cut_byte c (x # xs) = (if x = c then ([], Some xs) else (case cut_byte c xs of (a, r) \<Rightarrow> (x # a, r)))"

definition after_cut :: "string option \<Rightarrow> string" where
  "after_cut r = (case r of None \<Rightarrow> [] | Some s \<Rightarrow> s)"

text \<open>\<open>strings.LastIndex\<close> of a byte, as the parts before and after it.\<close>

definition cut_last :: "char \<Rightarrow> string \<Rightarrow> (string \<times> string) option" where
  "cut_last c s =
     (case cut_byte c (rev s) of (_, None) \<Rightarrow> None | (b, Some a) \<Rightarrow> Some (rev a, rev b))"

subsection \<open>Escapes\<close>

definition is_lower :: "char \<Rightarrow> bool" where "is_lower c \<longleftrightarrow> of_char c \<in> {97..122::nat}"
definition is_upper :: "char \<Rightarrow> bool" where "is_upper c \<longleftrightarrow> of_char c \<in> {65..90::nat}"
definition digit_char :: "char \<Rightarrow> bool" where "digit_char c \<longleftrightarrow> of_char c \<in> {48..57::nat}"

definition is_alnum :: "char \<Rightarrow> bool" where
  "is_alnum c \<longleftrightarrow> is_lower c \<or> is_upper c \<or> digit_char c"

datatype url_mode = EncodePath | EncodeHost | EncodeZone | EncodeUserPassword | EncodeFragment

text \<open>\<open>shouldEscape\<close> in the modes of a host and of a zone, the only ones in which \<open>unescape\<close> asks.\<close>

definition host_char :: "char \<Rightarrow> bool" where
  "host_char c \<longleftrightarrow> is_alnum c \<or> c \<in> set ''!$&()*+,;=:[]<>-_.~'' \<or> of_char c \<in> {34, 39 :: nat}"

definition escape_ok :: "url_mode \<Rightarrow> char \<Rightarrow> char \<Rightarrow> nat \<Rightarrow> nat \<Rightarrow> bool" where
  "escape_ok mode c d h l \<longleftrightarrow>
     (mode = EncodeHost \<longrightarrow> h \<ge> 8 \<or> (c = CHR ''2'' \<and> d = CHR ''5''))
     \<and> (mode = EncodeZone \<longrightarrow> (c = CHR ''2'' \<and> d = CHR ''5'') \<or> 16 * h + l = 32 \<or> host_char (char_of (16 * h + l)))"

fun unescape :: "url_mode \<Rightarrow> string \<Rightarrow> string option" where
  "unescape mode [] = Some []"
| "unescape mode (x # xs) =
     (if x = CHR ''%'' then
        (case xs of
           c # d # rest \<Rightarrow>
             (case (hex_val c, hex_val d) of
                (Some h, Some l) \<Rightarrow>
                  if escape_ok mode c d h l then map_option ((#) (char_of (16 * h + l))) (unescape mode rest) else None
              | _ \<Rightarrow> None)
         | _ \<Rightarrow> None)
      else if (mode = EncodeHost \<or> mode = EncodeZone) \<and> of_char x < (128 :: nat) \<and> \<not> host_char x then None
      else map_option ((#) x) (unescape mode xs))"

subsection \<open>IPv6 addresses\<close>

text \<open>\<open>netip.ParseAddr\<close>, as far as it accepts an IPv6 address. \<open>take_hex\<close> splits off the leading hexadecimal digits.\<close>

fun take_hex :: "string \<Rightarrow> string \<times> string" where
  "take_hex [] = ([], [])"
| "take_hex (x # xs) = (if hex_val x = None then ([], x # xs) else (case take_hex xs of (a, r) \<Rightarrow> (x # a, r)))"

lemma take_hex_length: "length (snd (take_hex s)) \<le> length s"
  by (induction s) (auto split: prod.splits)

definition ipv4_field :: "string \<Rightarrow> bool" where
  "ipv4_field s \<longleftrightarrow> (case parse_nat s of None \<Rightarrow> False | Some n \<Rightarrow> n \<le> 255 \<and> (length s > 1 \<longrightarrow> hd s \<noteq> CHR ''0''))"

definition ipv4_fields :: "string \<Rightarrow> bool" where
  "ipv4_fields s \<longleftrightarrow> length (split_byte (CHR ''.'') s) = 4 \<and> list_all ipv4_field (split_byte (CHR ''.'') s)"

text \<open>The loop of \<open>parseIPv6\<close>: \<open>i\<close> bytes are filled, \<open>ell\<close> tells whether an ellipsis was seen. The result is the
  number of bytes filled and whether there was an ellipsis, with the whole string used.\<close>

function ipv6_groups :: "nat \<Rightarrow> bool \<Rightarrow> string \<Rightarrow> (nat \<times> bool) option" where
  "ipv6_groups i ell s =
     (if i \<ge> 16 then (if s = [] then Some (i, ell) else None)
      else (case take_hex s of (digits, rest) \<Rightarrow>
        if digits = [] \<or> length digits > 4 then None
        else (case rest of
                [] \<Rightarrow> Some (i + 2, ell)
              | x # tail1 \<Rightarrow>
                  if x = CHR ''.'' then
                    (if (\<not> ell \<and> i \<noteq> 12) \<or> i + 4 > 16 \<or> \<not> ipv4_fields s then None else Some (i + 4, ell))
                  else if x \<noteq> CHR '':'' then None
                  else (case tail1 of
                          [] \<Rightarrow> None
                        | y # tail2 \<Rightarrow>
                            if y = CHR '':'' then
                              (if ell then None else if tail2 = [] then Some (i + 2, True) else ipv6_groups (i + 2) True tail2)
                            else ipv6_groups (i + 2) ell tail1))))"
  by pat_completeness auto
termination
  by (relation "measure (\<lambda>(i, _, _). 16 - i)") auto

definition ipv6_ok :: "(nat \<times> bool) option \<Rightarrow> bool" where
  "ipv6_ok r \<longleftrightarrow> (case r of None \<Rightarrow> False | Some (i, ell) \<Rightarrow> if i < 16 then ell else \<not> ell)"

definition parse_ipv6 :: "string \<Rightarrow> bool" where
  "parse_ipv6 full =
     (case cut_byte (CHR ''%'') full of (s, zone) \<Rightarrow>
        zone \<noteq> Some [] \<and>
        (if has_prefix s ''::'' then drop 2 s = [] \<or> ipv6_ok (ipv6_groups 0 True (drop 2 s)) else ipv6_ok (ipv6_groups 0 False s)))"

text \<open>The first of dot, colon and percent sign decides the family; an IPv4 address is not accepted in brackets.\<close>

definition bracket_addr :: "string \<Rightarrow> bool" where
  "bracket_addr s \<longleftrightarrow> (case List.find (\<lambda>c. c \<in> set ''.:%'') s of Some c \<Rightarrow> c = CHR '':'' \<and> parse_ipv6 s | None \<Rightarrow> False)"

subsection \<open>Authorities\<close>

definition validOptionalPort :: "string \<Rightarrow> bool" where
  "validOptionalPort port = (case port of [] \<Rightarrow> True | c # ds \<Rightarrow> c = CHR '':'' \<and> list_all digit_char ds)"

text \<open>\<open>strings.Index(hostname, "%25")\<close>: the part before the zone marker, and the zone from the marker on.\<close>

fun cut_zone :: "string \<Rightarrow> string \<times> string option" where
  "cut_zone [] = ([], None)"
| "cut_zone (x # xs) =
     (if has_prefix (x # xs) ''%25'' then ([], Some (x # xs)) else (case cut_zone xs of (a, r) \<Rightarrow> (x # a, r)))"

definition unescape_bracketed :: "string \<Rightarrow> string option" where
  "unescape_bracketed hostname =
     (case cut_zone hostname of
        (h, None) \<Rightarrow> unescape EncodeHost h
      | (h, Some z) \<Rightarrow>
          (case (unescape EncodeHost h, unescape EncodeZone z) of
             (Some h', Some z') \<Rightarrow> Some (h' @ z')
           | _ \<Rightarrow> None))"

definition parseHost :: "string \<Rightarrow> string option" where
  "parseHost host =
     (case cut_last (CHR ''['') host of
        Some (front, inner) \<Rightarrow>
          if front \<noteq> [] then None
          else (case cut_last (CHR '']'') inner of
                  None \<Rightarrow> None
                | Some (hostname, colonPort) \<Rightarrow>
                    if \<not> validOptionalPort colonPort then None
                    else (case (unescape EncodeHost colonPort, unescape_bracketed hostname) of
                            (Some cp, Some h) \<Rightarrow> if bracket_addr h then Some (''['' @ h @ '']'' @ cp) else None
                          | _ \<Rightarrow> None))
      | None \<Rightarrow>
          (case cut_byte (CHR '':'') host of
             (_, Some port) \<Rightarrow> if validOptionalPort (CHR '':'' # port) then unescape EncodeHost host else None
           | (_, None) \<Rightarrow> unescape EncodeHost host))"

definition userinfo_char :: "char \<Rightarrow> bool" where
  "userinfo_char c \<longleftrightarrow> is_alnum c \<or> c \<in> set ''-._:~!$&()*+,;=%@'' \<or> of_char c = (39 :: nat)"

definition userinfo_ok :: "string \<Rightarrow> bool" where
  "userinfo_ok s \<longleftrightarrow> list_all userinfo_char s \<and>
     (case cut_byte (CHR '':'') s of (user, pass) \<Rightarrow>
        unescape EncodeUserPassword user \<noteq> None \<and> unescape EncodeUserPassword (after_cut pass) \<noteq> None)"

definition parseAuthority :: "string \<Rightarrow> (bool \<times> string) option" where
  "parseAuthority authority =
     (case cut_last (CHR ''@'') authority of
        None \<Rightarrow> map_option (\<lambda>h. (False, h)) (parseHost authority)
      | Some (userinfo, host) \<Rightarrow>
          (case parseHost host of None \<Rightarrow> None | Some h \<Rightarrow> if userinfo_ok userinfo then Some (True, h) else None))"

subsection \<open>Parse\<close>

text \<open>\<open>getScheme\<close>: the scheme and the rest; \<open>None\<close> is the error of a missing scheme. The first argument is what was read.\<close>

fun scheme_from :: "string \<Rightarrow> string \<Rightarrow> (string \<times> string) option" where
  "scheme_from acc [] = Some ([], rev acc)"
| "scheme_from acc (c # cs) =
     (if is_lower c \<or> is_upper c then scheme_from (c # acc) cs
      else if digit_char c \<or> c \<in> set ''+-.'' then (if acc = [] then Some ([], c # cs) else scheme_from (c # acc) cs)
      else if c = CHR '':'' then (if acc = [] then None else Some (rev acc, cs))
      else Some ([], rev acc @ c # cs))"

definition getScheme :: "string \<Rightarrow> (string \<times> string) option" where
  "getScheme s = scheme_from [] s"

definition ascii_lower :: "char \<Rightarrow> char" where
  "ascii_lower c = (if is_upper c then char_of (of_char c + 32 :: nat) else c)"

definition is_ctl :: "char \<Rightarrow> bool" where
  "is_ctl c \<longleftrightarrow> of_char c < (32 :: nat) \<or> of_char c = (127 :: nat)"

definition set_path :: "string \<Rightarrow> go_url \<Rightarrow> go_url option" where
  "set_path p u = map_option (\<lambda>q. u\<lparr>url_Path := q\<rparr>) (unescape EncodePath p)"

text \<open>What follows the scheme and the query.\<close>

definition parse_hier :: "go_url \<Rightarrow> string \<Rightarrow> go_url option" where
  "parse_hier u rest =
     (if \<not> has_prefix rest ''/'' \<and> url_Scheme u \<noteq> [] then Some (u\<lparr>url_Opaque := rest\<rparr>)
      else if \<not> has_prefix rest ''/'' \<and> CHR '':'' \<in> set (fst (cut_byte (CHR ''/'') rest)) then None
      else if (url_Scheme u \<noteq> [] \<or> \<not> has_prefix rest ''///'') \<and> has_prefix rest ''//'' then
        (case cut_byte (CHR ''/'') (drop 2 rest) of (authority, slash) \<Rightarrow>
           (case parseAuthority authority of
              None \<Rightarrow> None
            | Some (user, host) \<Rightarrow>
                set_path (case slash of None \<Rightarrow> [] | Some p \<Rightarrow> CHR ''/'' # p) (u\<lparr>url_User := user, url_Host := host\<rparr>)))
      else set_path rest u)"

definition parse_url :: "string \<Rightarrow> go_url option" where
  "parse_url raw =
     (if list_ex is_ctl raw then None
      else if raw = ''*'' then Some (empty_url\<lparr>url_Path := ''*''\<rparr>)
      else (case getScheme raw of
              None \<Rightarrow> None
            | Some (scheme, rest) \<Rightarrow>
                (let u = empty_url\<lparr>url_Scheme := map ascii_lower scheme\<rparr> in
                 if has_suffix rest ''?'' \<and> count_byte (CHR ''?'') rest = 1
                 then parse_hier (u\<lparr>url_ForceQuery := True\<rparr>) (take (length rest - 1) rest)
                 else (case cut_byte (CHR ''?'') rest of (r, q) \<Rightarrow> parse_hier (u\<lparr>url_RawQuery := after_cut q\<rparr>) r))))"

definition Parse :: "string \<Rightarrow> go_url option" where
  "Parse rawURL =
     (case cut_byte (CHR ''#'') rawURL of (s, frag) \<Rightarrow>
        (case parse_url s of
           None \<Rightarrow> None
         | Some u \<Rightarrow> if after_cut frag = [] then Some u
                     else map_option (\<lambda>f. u\<lparr>url_Fragment := f\<rparr>) (unescape EncodeFragment (after_cut frag))))"

definition splitHostPort :: "string \<Rightarrow> string \<times> string" where
  "splitHostPort hostPort =
     (case (case cut_last (CHR '':'') hostPort of
              Some (h, p) \<Rightarrow> if validOptionalPort (CHR '':'' # p) then (h, p) else (hostPort, [])
            | None \<Rightarrow> (hostPort, [])) of
        (host, port) \<Rightarrow>
          (if has_prefix host ''['' \<and> has_suffix host '']'' then take (length host - 2) (drop 1 host) else host, port))"

definition Hostname :: "go_url \<Rightarrow> string" where
  "Hostname u = fst (splitHostPort (url_Host u))"

definition UrlPort :: "go_url \<Rightarrow> string" where
  "UrlPort u = snd (splitHostPort (url_Host u))"

subsection \<open>Cutting and plain hosts\<close>

lemma cut_byte_none: "c \<notin> set s \<Longrightarrow> cut_byte c s = (s, None)"
  by (induction s) auto

lemma cut_byte_append: "c \<notin> set a \<Longrightarrow> cut_byte c (a @ c # b) = (a, Some b)"
  by (induction a) auto

lemma cut_byte_NoneD: "cut_byte c s = (a, None) \<Longrightarrow> a = s \<and> c \<notin> set s"
  by (induction s arbitrary: a) (auto split: if_split_asm prod.splits)

lemma cut_byte_SomeD: "cut_byte c s = (a, Some b) \<Longrightarrow> s = a @ c # b \<and> c \<notin> set a"
  by (induction s arbitrary: a) (auto split: if_split_asm prod.splits)

lemma cut_last_none: "c \<notin> set s \<Longrightarrow> cut_last c s = None"
  by (simp add: cut_last_def cut_byte_none)

lemma cut_last_append: "c \<notin> set b \<Longrightarrow> cut_last c (a @ c # b) = Some (a, b)"
  using cut_byte_append [of c "rev b" "rev a"] by (simp add: cut_last_def)

text \<open>A host of letters, digits, dots and dashes, and a port, pass through \<open>Parse\<close> unchanged.\<close>

definition dns_char :: "char \<Rightarrow> bool" where
  "dns_char c \<longleftrightarrow> is_alnum c \<or> c = CHR ''-'' \<or> c = CHR ''.''"

definition plain_port :: "string \<Rightarrow> bool" where
  "plain_port p \<longleftrightarrow> p = [] \<or> (\<exists>ds. p = CHR '':'' # ds \<and> ds \<noteq> [] \<and> list_all digit_char ds)"

lemma dns_char_host: "dns_char c \<Longrightarrow> host_char c"
  by (auto simp: dns_char_def host_char_def)

lemma special_not_dns:
  assumes "c \<in> set ''%:[]@/?# _''"
  shows "\<not> dns_char c"
proof -
  have "list_all (\<lambda>c. \<not> dns_char c) ''%:[]@/?# _''" by code_simp
  then show ?thesis using assms unfolding list_all_iff by blast
qed

lemma unescape_plain: "list_all (\<lambda>c. host_char c \<and> c \<noteq> CHR ''%'') s \<Longrightarrow> unescape EncodeHost s = Some s"
  by (induction s) auto

lemma plain_absent: "list_all dns_char h \<Longrightarrow> c \<in> set ''%:[]@/?# _'' \<Longrightarrow> c \<notin> set h"
  using special_not_dns by (metis list_all_iff)

lemma digit_dns_char: "digit_char c \<Longrightarrow> dns_char c"
  by (simp add: dns_char_def is_alnum_def)

lemma plain_port_absent: "plain_port p \<Longrightarrow> c \<in> set ''%[]@/?# _'' \<Longrightarrow> c \<notin> set p"
  using plain_absent [of "tl p" c] digit_dns_char by (auto simp: plain_port_def list_all_iff)

lemma parseHost_plain:
  assumes h: "list_all dns_char h" and p: "plain_port p"
  shows "parseHost (h @ p) = Some (h @ p)"
proof -
  have no_bracket: "CHR ''['' \<notin> set (h @ p)" using plain_absent [OF h] plain_port_absent [OF p] by simp
  have no_percent: "CHR ''%'' \<notin> set (h @ p)" using plain_absent [OF h] plain_port_absent [OF p] by simp
  have "list_all host_char (h @ p)"
  proof -
    have "host_char (CHR '':'')" by code_simp
    then show ?thesis using h p dns_char_host digit_dns_char by (auto simp: plain_port_def list_all_iff)
  qed
  then have un: "unescape EncodeHost (h @ p) = Some (h @ p)"
    using no_percent by (intro unescape_plain) (auto simp: list_all_iff)
  have "cut_byte (CHR '':'') (h @ p) = (case p of [] \<Rightarrow> (h, None) | _ # ds \<Rightarrow> (h, Some ds))"
    using plain_absent [OF h, of "CHR '':''"] p by (auto simp: plain_port_def cut_byte_none cut_byte_append)
  moreover have "p \<noteq> [] \<Longrightarrow> validOptionalPort (CHR '':'' # tl p)"
    using p by (auto simp: plain_port_def validOptionalPort_def)
  ultimately show ?thesis
    using un unfolding parseHost_def cut_last_none [OF no_bracket] by (cases p) simp_all
qed

lemma splitHostPort_plain:
  assumes h: "list_all dns_char h" and p: "plain_port p"
  shows "splitHostPort (h @ p) = (h, drop 1 p)"
proof -
  have nb: "\<not> has_prefix h ''[''" using plain_absent [OF h, of "CHR ''[''"] by (cases h) (auto simp: has_prefix_def)
  show ?thesis
  proof (cases p)
    case Nil
    then have "cut_last (CHR '':'') (h @ p) = None" using plain_absent [OF h, of "CHR '':''"] by (simp add: cut_last_none)
    then show ?thesis using nb by (simp add: splitHostPort_def Nil)
  next
    case (Cons c ds)
    then have ds: "c = CHR '':''" "list_all digit_char ds" using p by (auto simp: plain_port_def)
    have "list_all dns_char ds" using ds(2) digit_dns_char by (simp add: list_all_iff)
    then have "CHR '':'' \<notin> set ds" by (rule plain_absent) simp
    then have "cut_last (CHR '':'') (h @ p) = Some (h, ds)" by (simp add: Cons ds(1) cut_last_append)
    then show ?thesis using nb ds by (simp add: splitHostPort_def Cons validOptionalPort_def)
  qed
qed

text \<open>An absolute URL with such an authority and path, under one of the two schemes that are accepted.\<close>

definition plain_path :: "string \<Rightarrow> bool" where
  "plain_path p \<longleftrightarrow> p = [] \<or> (hd p = CHR ''/'' \<and> list_all (\<lambda>c. \<not> is_ctl c \<and> c \<notin> set ''%?#'') p)"

lemma unescape_path: "CHR ''%'' \<notin> set p \<Longrightarrow> unescape EncodePath p = Some p"
  by (induction p) auto

lemma plain_not_ctl: "dns_char c \<Longrightarrow> \<not> is_ctl c"
  by (auto simp: dns_char_def is_alnum_def is_lower_def is_upper_def digit_char_def is_ctl_def)

lemma parseAuthority_plain:
  assumes "list_all dns_char h" "plain_port p"
  shows "parseAuthority (h @ p) = Some (False, h @ p)"
proof -
  have at: "CHR ''@'' \<notin> set (h @ p)" using plain_absent [OF assms(1)] plain_port_absent [OF assms(2)] by simp
  show ?thesis unfolding parseAuthority_def cut_last_none [OF at] parseHost_plain [OF assms] by simp
qed

lemma parse_hier_plain:
  assumes "list_all dns_char h" "plain_port p" "plain_path path" "url_Scheme u \<noteq> []"
  shows "parse_hier u (''//'' @ h @ p @ path) = Some (u\<lparr>url_User := False, url_Host := h @ p, url_Path := path\<rparr>)"
proof -
  have "CHR ''/'' \<notin> set (h @ p)" using plain_absent [OF assms(1)] plain_port_absent [OF assms(2)] by simp
  then have "cut_byte (CHR ''/'') (drop 2 (''//'' @ h @ p @ path)) = (h @ p, if path = [] then None else Some (tl path))"
    using assms(3) cut_byte_none [of _ "h @ p"] cut_byte_append [of _ "h @ p"] by (cases path) (auto simp: plain_path_def)
  moreover have "unescape EncodePath path = Some path"
    using assms(3) by (intro unescape_path) (auto simp: plain_path_def list_all_iff)
  moreover have "path \<noteq> [] \<Longrightarrow> CHR ''/'' # tl path = path" using assms(3) by (cases path) (auto simp: plain_path_def)
  ultimately show ?thesis
    using assms(4) parseAuthority_plain [OF assms(1,2)]
    by (auto simp: parse_hier_def has_prefix_def set_path_def)
qed

lemma has_suffix_last: "has_suffix s [c] \<longleftrightarrow> s \<noteq> [] \<and> last s = c"
  by (cases s rule: rev_cases) (auto simp: has_suffix_def)

lemma Parse_plain:
  assumes "list_all dns_char h" "plain_port p" "plain_path path"
  shows "Parse ((if b then ''https'' else ''http'') @ ''://'' @ h @ p @ path) =
    Some (empty_url\<lparr>url_Scheme := if b then ''https'' else ''http'', url_Host := h @ p, url_Path := path\<rparr>)"
proof -
  let ?s = "if b then ''https'' else ''http''" and ?rest = "''//'' @ h @ p @ path"
  have scheme: "getScheme (?s @ ''://'' @ h @ p @ path) = Some (?s, ?rest)"
    by (cases b) (simp_all add: getScheme_def is_lower_def is_upper_def digit_char_def)
  have low: "map ascii_lower ?s = ?s" by (cases b) (simp_all add: ascii_lower_def is_upper_def)
  have path_chars: "\<not> is_ctl c \<and> c \<notin> set ''%?#''" if "c \<in> set path" for c
    using that assms(3) by (auto simp: plain_path_def list_all_iff)
  have absent: "c \<notin> set ?rest" if "c \<in> set ''?#''" for c
    using that path_chars plain_absent [OF assms(1), of c] plain_port_absent [OF assms(2), of c] by auto
  have "is_ctl c \<longrightarrow> c \<notin> set (?s @ ''://'' @ h @ p @ path)" for c
    using path_chars plain_not_ctl assms(1,2) digit_dns_char
    by (auto simp: list_all_iff plain_port_def is_ctl_def split: if_split_asm)
  then have ctl: "\<not> list_ex is_ctl (?s @ ''://'' @ h @ p @ path)" by (auto simp only: list_ex_iff)
  have "\<not> has_suffix ?rest ''?''" using absent [of "CHR ''?''"] last_in_set [of ?rest] by (auto simp: has_suffix_last)
  moreover have "cut_byte (CHR ''?'') ?rest = (?rest, None)" using absent by (intro cut_byte_none) simp
  moreover have "?s @ ''://'' @ h @ p @ path \<noteq> ''*''" by (cases b) simp_all
  ultimately have "parse_url (?s @ ''://'' @ h @ p @ path) = Some (empty_url\<lparr>url_Scheme := ?s, url_Host := h @ p, url_Path := path\<rparr>)"
    using ctl scheme low parse_hier_plain [OF assms, of "empty_url\<lparr>url_Scheme := ?s, url_RawQuery := []\<rparr>"]
    by (simp add: parse_url_def Let_def after_cut_def empty_url_def)
  moreover have "CHR ''#'' \<notin> set (?s @ ''://'' @ h @ p @ path)" using absent [of "CHR ''#''"] by auto
  ultimately show ?thesis unfolding Parse_def by (simp add: cut_byte_none after_cut_def)
qed

end
