(* ===== verification/GuardrailProperties.thy ===== *)
theory GuardrailProperties
  imports GuardrailCorrect GoUrl
begin

text \<open>The properties of the guardrail controller and resolver, with a sample cluster for the witnesses.\<close>

subsection \<open>A sample cluster\<close>

definition upsert_condition :: "Condition list \<Rightarrow> Condition \<Rightarrow> Condition list" where
  "upsert_condition cs c =
     (if list_ex (\<lambda>x. co_Type x = co_Type c) cs then map (\<lambda>x. if co_Type x = co_Type c then c else x) cs else cs @ [c])"

definition find_condition :: "Condition list \<Rightarrow> string \<Rightarrow> Condition option" where
  "find_condition cs t = List.find (\<lambda>c. co_Type c = t) cs"

definition as_strings :: "uval \<Rightarrow> string list option" where
  "as_strings v = (case v of
     UList xs \<Rightarrow> (if list_all (\<lambda>x. as_str x \<noteq> None) xs then Some (map (\<lambda>x. the (as_str x)) xs) else None) | _ \<Rightarrow> None)"

definition label_errors :: "string \<Rightarrow> string list" where
  "label_errors s = (if s \<noteq> [] \<and> list_all (\<lambda>c. is_lower c \<or> digit_char c \<or> c = CHR ''-'') s then [] else [''invalid label''])"

definition sample_guard_lib :: guard_lib where
  "sample_guard_lib =
     \<lparr>gl_k8s = \<lparr>FindStatusCondition = find_condition, IsDNS1123Subdomain = (\<lambda>_. []), IsDNS1123Label = label_errors\<rparr>,
      gl_unstr = ref_unstr,
      SetStatusCondition = (\<lambda>cs c. (upsert_condition cs c, find_condition cs (co_Type c) \<noteq> Some c)),
      NestedStringSlice = nested_ref as_strings,
      FromUnstructured = (\<lambda>m. Inr \<lparr>ls_MatchLabels = [], ls_MatchExpressions = [(str_or_empty m ''key'', ''Exists'', [])]\<rparr>),
      SelectorMatches = (\<lambda>s ls. Inr (list_all (\<lambda>e. map_of ls (fst e) \<noteq> None) (ls_MatchExpressions s))),
      enc_LabelSelector = (\<lambda>_. JNull), go_quote = (\<lambda>s. s)\<rparr>"

lemma find_upsert: "find_condition (upsert_condition cs c) t = (if t = co_Type c then Some c else find_condition cs t)"
proof -
  have "List.find (\<lambda>x. co_Type x = t) (map (\<lambda>x. if co_Type x = co_Type c then c else x) cs)
      = (if t = co_Type c then (if list_ex (\<lambda>x. co_Type x = co_Type c) cs then Some c else None)
         else List.find (\<lambda>x. co_Type x = t) cs)"
    by (induction cs) auto
  moreover have "\<not> list_ex (\<lambda>x. co_Type x = co_Type c) cs \<Longrightarrow>
      List.find (\<lambda>x. co_Type x = t) (cs @ [c]) = (if t = co_Type c then Some c else List.find (\<lambda>x. co_Type x = t) cs)"
    by (induction cs) auto
  ultimately show ?thesis unfolding find_condition_def upsert_condition_def by (cases "list_ex (\<lambda>x. co_Type x = co_Type c) cs") auto
qed

lemma sample_doc: "status_condition_doc sample_guard_lib"
  by (simp add: status_condition_doc_def sample_guard_lib_def find_upsert)

definition sample_guardrail :: AIGuardrail where
  "sample_guardrail =
     \<lparr>ag_Meta = \<lparr>om_Name = ''policy'', om_Namespace = ''team'', om_UID = ''u'', om_Generation = 4, om_Labels = [],
        om_Annotations = [], om_Deleting = False\<rparr>,
      ag_Spec = \<lparr>gs_Provider = \<lparr>gp_Nemo = \<lparr>gp_Ref = \<lparr>gr_Name = ''nemo'', gr_Namespace = []\<rparr>\<rparr>, gp_Timeout = 2 * millisecond\<rparr>,
        gs_Checks = [\<lparr>gc_Name = ''pii'', gc_ConfigID = ''pii-v1'', gc_Phases = [PhaseInput]\<rparr>,
                     \<lparr>gc_Name = ''toxic'', gc_ConfigID = ''pii-v1'', gc_Phases = [PhaseInput]\<rparr>]\<rparr>,
      ag_Status = \<lparr>gst_ObservedGeneration = 0, gst_ProviderEndpoint = [], gst_BindingRevision = [], gst_Conditions = []\<rparr>\<rparr>"

definition sample_nemo :: Nemo where
  "sample_nemo =
     \<lparr>nm_UID = ''n'', nm_Namespace = ''team'', nm_Name = ''nemo'', nm_Annotations = [(nemoAuthAnnotation, ''True'')],
      nm_Object = [(''spec'', UMap [(''nemoConfigs'', UList [UMap [(''name'', UStr ''pii-v1''), (''configMaps'', UList [UStr ''cm''])]])]),
                   (''status'', UMap [(''workloadNamespace'', UStr ''odh-ai-gateway-infra'')])]\<rparr>"

definition sample_guard_world :: guard_world where
  "sample_guard_world =
     \<lparr>gw_Guardrail = GetOk sample_guardrail, gw_Mapping = MappingOk, gw_OutputUnsupported = None,
      gw_Nemo = (\<lambda>k. if k = (''team'', ''nemo'') then GetOk sample_nemo else GetNotFound), gw_Discovered = GetOk [''NemoGuardrails''],
      gw_Namespace = (\<lambda>_. GetNotFound), gw_Patch = PatchOk, gw_Resync = 300\<rparr>"

definition sample_binding :: string where
  "sample_binding = sha256_hex (marshal (enc_inputs sample_guard_lib (binding_inputs sample_nemo [(''pii-v1'', [''cm''])]
     ''https://team-nemo.odh-ai-gateway-infra.svc.cluster.local'' \<lparr>al_Mode = consumerModeSame, al_Selector = None\<rparr> None)))"

lemma sample_justified:
  "justified Some sample_guard_lib sample_guard_world sample_guardrail sample_binding
     ''https://team-nemo.odh-ai-gateway-infra.svc.cluster.local''"
proof -
  have mode: "parseAllowedConsumers sample_guard_lib sample_nemo = Inr \<lparr>al_Mode = consumerModeSame, al_Selector = None\<rparr>" by code_simp
  have labels: "consumer_labels sample_guard_world \<lparr>al_Mode = consumerModeSame, al_Selector = None\<rparr> (ag_Namespace sample_guardrail) = Inr None"
    by (simp add: consumer_labels_def)
  have allowed: "allows sample_guard_lib \<lparr>al_Mode = consumerModeSame, al_Selector = None\<rparr> (ag_Namespace sample_guardrail)
      (nm_Namespace sample_nemo) None = Inr True"
    by code_simp
  have configs: "parseNemoConfigs sample_guard_lib sample_nemo = Inr [(''pii-v1'', [''cm''])]" by code_simp
  have checks: "list_all (\<lambda>c. map_of [(''pii-v1'', [''cm''])] (gc_ConfigID c) \<noteq> None) (gs_Checks (ag_Spec sample_guardrail))" by code_simp
  have ready: "rd_Ready (evaluateNemoReady sample_guard_lib (Some sample_nemo))"
    "rd_Endpoint (evaluateNemoReady sample_guard_lib (Some sample_nemo)) = ''https://team-nemo.odh-ai-gateway-infra.svc.cluster.local''"
    by code_simp+
  have pre: "gw_Mapping sample_guard_world = MappingOk"
    "\<not> ProviderTimeoutTooFine (gp_Timeout (gs_Provider (ag_Spec sample_guardrail)))" "gw_OutputUnsupported sample_guard_world = None"
    "gw_Nemo sample_guard_world (providerRef sample_guardrail) = GetOk sample_nemo"
    by (simp_all add: sample_guard_world_def sample_guardrail_def ProviderTimeoutTooFine_def providerRef_def millisecond_def)
  show ?thesis
    unfolding justified_def sample_binding_def
    using mode labels allowed configs checks ready pre by (auto simp: list_all_iff computeBindingRevision_def)
qed

subsection \<open>Verdicts\<close>

text \<open>C13. A policy fails closed. Whenever a reconcile writes the status of a policy, the status carries the current generation, and the
  policy is accepted, with all four conditions true, exactly when its published binding is justified: the provider exists, its rule
  authorises the policy's namespace (the consumer Namespace read live in Selector mode), it declares every configuration that a check
  selects, its endpoint was discovered, the timeout and the Output checks can be enforced, and revision and endpoint are those of
  that provider. Otherwise Accepted is False and revision and endpoint are cleared. Metadata and spec are never changed.\<close>

theorem guardrail_fails_closed:
  assumes "status_condition_doc gl" "gw_Guardrail w = GetOk g" "go_Patched (Reconcile jcs gl w) = Some g'"
  shows "verdict gl g (justified jcs gl w g (gst_BindingRevision (ag_Status g')) (gst_ProviderEndpoint (ag_Status g'))) g'"
  using Reconcile_patched [OF assms]
proof
  assume "\<exists>r m. refused gl (observed g) r m g'"
  then obtain r m where ref: "refused gl (observed g) r m g'" by blast
  then have "gst_BindingRevision (ag_Status g') = []" by (simp add: refused_def)
  then have "\<not> justified jcs gl w g (gst_BindingRevision (ag_Status g')) (gst_ProviderEndpoint (ag_Status g'))"
    using justified_nonempty by metis
  with ref show ?thesis by (simp add: verdict_def refused_def)
next
  assume "gw_Mapping w = MappingOk \<and> \<not> ProviderTimeoutTooFine (gp_Timeout (gs_Provider (ag_Spec g)))
      \<and> (\<forall>f. gw_OutputUnsupported w = Some f \<and> hasOutputCheck g \<longrightarrow> f (ag_Namespace g) = Inr [])
      \<and> (\<exists>nemo rv. acceptance jcs gl w (observed g) nemo rv \<and> g' = accepted_state gl nemo rv (observed g))"
  then obtain nemo rv where acc: "acceptance jcs gl w (observed g) nemo rv" "g' = accepted_state gl nemo rv (observed g)"
    and j: "justified jcs gl w g rv (rd_Endpoint (evaluateNemoReady gl (Some nemo)))"
    using acceptance_justified by blast
  have "cp_Compatible (evaluateCompatible gl (observed g) nemo)" "rd_Ready (evaluateNemoReady gl (Some nemo))"
    using acc(1) by (simp_all add: acceptance_def)
  from accepted_conditions [OF assms(1) this] j acc(2) show ?thesis by (simp add: verdict_def)
qed

lemma Reconcile_justified:
  assumes "status_condition_doc gl" "gw_Guardrail w = GetOk g" "justified jcs gl w g rv ep"
  shows "\<exists>g'. go_Patched (Reconcile jcs gl w) = Some g' \<and> verdict gl g True g'
    \<and> gst_BindingRevision (ag_Status g') = rv \<and> gst_ProviderEndpoint (ag_Status g') = ep
    \<and> go_Event (Reconcile jcs gl w) = None
    \<and> (gw_Patch w = PatchOk \<longrightarrow> go_Result (Reconcile jcs gl w) = Inr (ResultRequeueAfter (gw_Resync w)))"
proof -
  let ?g = "observed g"
  from assms(3) obtain nemo policy ns configs where pre: "gw_Mapping w = MappingOk"
      "\<not> ProviderTimeoutTooFine (gp_Timeout (gs_Provider (ag_Spec g)))"
      "\<forall>f. gw_OutputUnsupported w = Some f \<and> hasOutputCheck g \<longrightarrow> f (ag_Namespace g) = Inr []"
    and nemo: "gw_Nemo w (providerRef g) = GetOk nemo" and policy: "parseAllowedConsumers gl nemo = Inr policy"
      "consumer_labels w policy (ag_Namespace g) = Inr ns" "allows gl policy (ag_Namespace g) (nm_Namespace nemo) ns = Inr True"
    and configs: "parseNemoConfigs gl nemo = Inr configs" "configs \<noteq> []"
      "\<forall>c \<in> set (gs_Checks (ag_Spec g)). map_of configs (gc_ConfigID c) \<noteq> None"
    and ready: "rd_Ready (evaluateNemoReady gl (Some nemo))" "ep = rd_Endpoint (evaluateNemoReady gl (Some nemo))"
    and rv: "computeBindingRevision jcs gl nemo configs ep policy ns = Some rv"
    unfolding justified_def by blast
  have out: "(case gw_OutputUnsupported w of Some f \<Rightarrow> if hasOutputCheck ?g then f (ag_Namespace ?g) else Inr [] | None \<Rightarrow> Inr []) = Inr []"
    using pre(3) by (auto simp: hasOutputCheck_def split: option.split)
  have prov: "providerRef ?g = providerRef g" by (simp add: providerRef_def Let_def)
  have comp: "cp_Compatible (evaluateCompatible gl ?g nemo)" "cp_Configs (evaluateCompatible gl ?g nemo) = configs"
    using configs unknown_configs_Nil [of configs "gs_Checks (ag_Spec g)"] by (auto simp: evaluateCompatible_def)
  have "Reconcile jcs gl w = resolve_provider jcs gl w ?g"
    using pre(1,2) out by (simp add: Reconcile_def assms(2) providerCRDInstalled_def)
  also have "\<dots> = authorize jcs gl w nemo ?g" using nemo prov by (simp add: resolve_provider_def)
  also have "\<dots> = publish_verdict jcs gl w nemo policy ns ?g"
    unfolding authorize_def consumer_labels_def [symmetric] using policy by simp
  finally have "Reconcile jcs gl w = publish_verdict jcs gl w nemo policy ns ?g" .
  then have eq: "go_Patched (Reconcile jcs gl w) = Some (accepted_state gl nemo rv ?g)" "go_Event (Reconcile jcs gl w) = None"
    "gw_Patch w = PatchOk \<longrightarrow> go_Result (Reconcile jcs gl w) = Inr (ResultRequeueAfter (gw_Resync w))"
    using comp ready rv by (simp_all add: publish_verdict_eq)
  then show ?thesis using accepted_conditions [OF assms(1) comp(1) ready(1)] ready(2) by (simp add: verdict_def)
qed

text \<open>C15. Acceptance is live: when the binding of a policy is justified, the next reconcile that reads this state accepts the policy
  with that revision and endpoint, and requeues on the resync interval if the patch succeeds.\<close>

theorem guardrail_accepts:
  assumes "status_condition_doc gl" "gw_Guardrail w = GetOk g" "justified jcs gl w g rv ep"
  shows "\<exists>g'. go_Patched (Reconcile jcs gl w) = Some g' \<and> verdict gl g True g'
    \<and> gst_BindingRevision (ag_Status g') = rv \<and> gst_ProviderEndpoint (ag_Status g') = ep
    \<and> go_Event (Reconcile jcs gl w) = None
    \<and> (gw_Patch w = PatchOk \<longrightarrow> go_Result (Reconcile jcs gl w) = Inr (ResultRequeueAfter (gw_Resync w)))"
  by (rule Reconcile_justified [OF assms])

definition sample_accepted :: AIGuardrail where
  "sample_accepted = the (go_Patched (Reconcile Some sample_guard_lib sample_guard_world))"

lemma sample_guardrail_read: "gw_Guardrail sample_guard_world = GetOk sample_guardrail"
  by (simp add: sample_guard_world_def)

theorem guardrail_accepts_witness:
  "gst_BindingRevision (ag_Status sample_accepted) = sample_binding
   \<and> gst_ProviderEndpoint (ag_Status sample_accepted) = ''https://team-nemo.odh-ai-gateway-infra.svc.cluster.local''"
  using guardrail_accepts [OF sample_doc sample_guardrail_read sample_justified] by (auto simp: sample_accepted_def)

definition orphan_world :: guard_world where
  "orphan_world = sample_guard_world\<lparr>gw_Nemo := (\<lambda>_. GetNotFound)\<rparr>"

definition orphan_guardrail :: AIGuardrail where
  "orphan_guardrail = the (go_Patched (Reconcile Some sample_guard_lib orphan_world))"

lemma orphan_patched: "go_Patched (Reconcile Some sample_guard_lib orphan_world) = Some orphan_guardrail"
proof -
  have "go_Patched (Reconcile Some sample_guard_lib orphan_world) \<noteq> None" by code_simp
  then show ?thesis by (auto simp: orphan_guardrail_def)
qed

lemma orphan_read: "gw_Guardrail orphan_world = GetOk sample_guardrail"
  by (simp add: orphan_world_def sample_guard_world_def)

theorem guardrail_fails_closed_witness:
  "verdict sample_guard_lib sample_guardrail False orphan_guardrail"
proof -
  have "\<not> justified Some sample_guard_lib orphan_world sample_guardrail rv ep" for rv ep
    by (simp add: justified_def orphan_world_def)
  then show ?thesis using guardrail_fails_closed [OF sample_doc orphan_read orphan_patched] by simp
qed

subsection \<open>Errors and events\<close>

lemma refuse_result: "go_Result (refuse gl w g r m) = Inl e \<Longrightarrow> \<exists>x. e = ErrStatusPatch x"
  by (auto simp: refuse_eq split: patch_result.split_asm)

lemma publish_result:
  "go_Result (publish_verdict jcs gl w nemo policy ns g) = Inl e \<Longrightarrow>
     (\<exists>x. e = ErrStatusPatch x) \<or> go_Patched (publish_verdict jcs gl w nemo policy ns g) = None \<and> go_Event (publish_verdict jcs gl w nemo policy ns g) = None"
  by (auto simp: publish_verdict_eq Let_def dest: refuse_result split: if_split_asm option.split_asm patch_result.split_asm)

lemma resolve_result:
  "go_Result (resolve_provider jcs gl w g) = Inl e \<Longrightarrow>
     (\<exists>x. e = ErrStatusPatch x) \<or> go_Patched (resolve_provider jcs gl w g) = None \<and> go_Event (resolve_provider jcs gl w g) = None"
  by (auto simp: resolve_provider_def authorize_def denyBinding_eq dest!: refuse_result publish_result
      split: get_result.split_asm sum.split_asm if_split_asm)

text \<open>A read that fails is not a verdict: when a reconcile returns an error other than that of its status patch, it has sent no
  patch and no event, so the last verdict stands; a conflict on the patch requeues without an error.\<close>

theorem guardrail_errors_keep_status:
  assumes "go_Result (Reconcile jcs gl w) = Inl e"
  shows "(\<exists>x. e = ErrStatusPatch x \<and> gw_Patch w = PatchFailed x)
    \<or> go_Patched (Reconcile jcs gl w) = None \<and> go_Event (Reconcile jcs gl w) = None"
proof -
  have patch: "go_Result (refuse gl w g r m) = Inl (ErrStatusPatch x) \<Longrightarrow> gw_Patch w = PatchFailed x" for g r m x
    by (auto simp: refuse_eq split: patch_result.split_asm)
  have "go_Result (Reconcile jcs gl w) = Inl (ErrStatusPatch x) \<Longrightarrow> gw_Patch w = PatchFailed x" for x
    by (auto simp: Reconcile_def resolve_provider_def authorize_def denyBinding_eq publish_verdict_eq Let_def dest!: patch
        split: get_result.split_asm sum.split_asm if_split_asm option.split_asm patch_result.split_asm)
  moreover have "(\<exists>x. e = ErrStatusPatch x) \<or> go_Patched (Reconcile jcs gl w) = None \<and> go_Event (Reconcile jcs gl w) = None"
    using assms
    by (auto simp: Reconcile_def denyBinding_eq Let_def dest!: refuse_result resolve_result
        split: get_result.split_asm sum.split_asm if_split_asm option.split_asm)
  ultimately show ?thesis using assms by blast
qed

theorem guardrail_errors_keep_status_witness:
  "go_Patched (Reconcile Some sample_guard_lib (sample_guard_world\<lparr>gw_Nemo := (\<lambda>_. GetError ''timeout'')\<rparr>)) = None"
proof -
  have "go_Result (Reconcile Some sample_guard_lib (sample_guard_world\<lparr>gw_Nemo := (\<lambda>_. GetError ''timeout'')\<rparr>)) = Inl (ErrReadNemo ''timeout'')"
    by code_simp
  from guardrail_errors_keep_status [OF this] show ?thesis by simp
qed

text \<open>One event per transition: a Warning event is sent only for a refusal, after the patch succeeded, when the stored Accepted
  condition differs; reconciling the written object again in the same world sends no event.\<close>

theorem guardrail_event_once:
  assumes "status_condition_doc gl" "gw_Guardrail w = GetOk g" "go_Patched (Reconcile jcs gl w) = Some g'"
  shows "go_Event (Reconcile jcs gl (w\<lparr>gw_Guardrail := GetOk g'\<rparr>)) = None
    \<and> (\<forall>r m. go_Event (Reconcile jcs gl w) = Some (r, m) \<longrightarrow> gw_Patch w = PatchOk
        \<and> cond gl g' ConditionAccepted = Some (accepted_false g (r, m)) \<and> cond gl g ConditionAccepted \<noteq> Some (accepted_false g (r, m)))"
proof
  have same: "ag_Meta g' = ag_Meta g" "ag_Spec g' = ag_Spec g"
    using Reconcile_patched [OF assms] by (auto simp: refused_def)
  let ?w = "w\<lparr>gw_Guardrail := GetOk g'\<rparr>"
  have reads: "gw_Mapping ?w = gw_Mapping w" "gw_OutputUnsupported ?w = gw_OutputUnsupported w" "gw_Nemo ?w = gw_Nemo w"
    "gw_Discovered ?w = gw_Discovered w" "gw_Namespace ?w = gw_Namespace w" by simp_all
  have "refusal_of gl ?w x = refusal_of gl w x" for x
    unfolding refusal_of_def provider_refusal_def consumer_labels_def reads by (rule refl)
  then have rf: "refusal_of gl (w\<lparr>gw_Guardrail := GetOk g'\<rparr>) g' = refusal_of gl w g"
    using refusal_of_cong [OF same] by simp
  show "go_Event (Reconcile jcs gl (w\<lparr>gw_Guardrail := GetOk g'\<rparr>)) = None"
  proof (cases "refusal_of gl w g")
    case None
    then show ?thesis using Reconcile_event [OF assms(1), of "w\<lparr>gw_Guardrail := GetOk g'\<rparr>" g' jcs] rf by (simp add: refusal_event_def)
  next
    case (Some rm)
    have "accepted_false g' rm = accepted_false g rm" by (simp add: accepted_false_def same)
    with Reconcile_refused [OF assms Some] show ?thesis
      using Reconcile_event [OF assms(1), of "w\<lparr>gw_Guardrail := GetOk g'\<rparr>" g' jcs] rf Some by (simp add: refusal_event_def)
  qed
  show "\<forall>r m. go_Event (Reconcile jcs gl w) = Some (r, m) \<longrightarrow> gw_Patch w = PatchOk
        \<and> cond gl g' ConditionAccepted = Some (accepted_false g (r, m)) \<and> cond gl g ConditionAccepted \<noteq> Some (accepted_false g (r, m))"
    using Reconcile_event [OF assms(1,2), of jcs] Reconcile_refused [OF assms]
    by (auto simp: refusal_event_def split: option.split_asm if_split_asm)
qed

theorem guardrail_event_once_witness:
  "go_Event (Reconcile Some sample_guard_lib orphan_world) = Some (reasonProviderNotFound, ''referenced NemoGuardrails provider does not exist'')
   \<and> go_Event (Reconcile Some sample_guard_lib (orphan_world\<lparr>gw_Guardrail := GetOk orphan_guardrail\<rparr>)) = None"
proof -
  have "go_Event (Reconcile Some sample_guard_lib orphan_world)
      = Some (reasonProviderNotFound, ''referenced NemoGuardrails provider does not exist'')"
    by code_simp
  with guardrail_event_once [OF sample_doc orphan_read orphan_patched] show ?thesis by blast
qed

subsection \<open>Dependencies\<close>

text \<open>The binding revision is a digest of the binding's dependencies only: it does not depend on the order in which the provider's
  configurations are visited, nor on labels of the consumer Namespace that the selector does not read, and it does not exist unless
  the canonicaliser accepts the document.\<close>

theorem binding_revision_dependencies:
  assumes "distinct (map fst configs)" "distinct (map fst configs')" "set configs = set configs'"
    and "al_Selector policy = Some s" "\<forall>k \<in> fst ` set (ls_MatchLabels s) \<union> fst ` set (ls_MatchExpressions s). map_of l k = map_of l' k"
  shows "computeBindingRevision jcs gl nemo configs endpoint policy (Some l) = computeBindingRevision jcs gl nemo configs' endpoint policy (Some l')"
proof -
  have "selectorLabels (Some s) (Some l) = selectorLabels (Some s) (Some l')" by (rule selectorLabels_reads) (use assms(5) in simp)
  with sort_configs [OF assms(1-3)] assms(4) show ?thesis by (simp add: computeBindingRevision_def binding_inputs_def)
qed

theorem binding_revision_dependencies_witness:
  "computeBindingRevision Some sample_guard_lib sample_nemo [(''a'', []), (''b'', [''cm''])] ''e''
     \<lparr>al_Mode = consumerModeSelector, al_Selector = Some \<lparr>ls_MatchLabels = [(''team'', ''x'')], ls_MatchExpressions = []\<rparr>\<rparr> (Some [(''team'', ''x'')])
   = computeBindingRevision Some sample_guard_lib sample_nemo [(''b'', [''cm'']), (''a'', [])] ''e''
     \<lparr>al_Mode = consumerModeSelector, al_Selector = Some \<lparr>ls_MatchLabels = [(''team'', ''x'')], ls_MatchExpressions = []\<rparr>\<rparr>
     (Some [(''istio-injection'', ''enabled''), (''team'', ''x'')])"
  by (rule binding_revision_dependencies [where s = "\<lparr>ls_MatchLabels = [(''team'', ''x'')], ls_MatchExpressions = []\<rparr>"]) auto

text \<open>Permission is never widened by omission: if a provider's rule allows a consumer, the rule names All explicitly, or it defaults
  to or names Same without a selector and the namespaces are equal, or it names Selector with a selector that is not empty and
  that matches the labels of a Namespace that exists.\<close>

theorem allowed_consumers_explicit:
  assumes "nested_doc (gl_unstr gl)" "parseAllowedConsumers gl nemo = Inr policy"
    and "allows gl policy consumer (nm_Namespace nemo) labels = Inr True"
  shows "(case at_path (nm_Object nemo) [''spec'', ''allowedConsumers'', ''namespaces''] of
      Inr (Some (UMap m)) \<Rightarrow>
        map_of m ''from'' = Some (UStr ''All'') \<and> map_of m ''selector'' = None
        \<or> (map_of m ''from'' = None \<or> map_of m ''from'' = Some (UStr []) \<or> map_of m ''from'' = Some (UStr ''Same''))
          \<and> map_of m ''selector'' = None \<and> consumer = nm_Namespace nemo
        \<or> map_of m ''from'' = Some (UStr ''Selector'')
          \<and> (\<exists>raw sel ls. map_of m ''selector'' = Some (UMap raw) \<and> FromUnstructured gl raw = Inr sel
               \<and> (ls_MatchLabels sel \<noteq> [] \<or> ls_MatchExpressions sel \<noteq> []) \<and> labels = Some ls \<and> SelectorMatches gl sel ls = Inr True)
    | Inr None \<Rightarrow> consumer = nm_Namespace nemo
    | _ \<Rightarrow> False)"
proof -
  let ?u = "gl_unstr gl" and ?p = "[''spec'', ''allowedConsumers'', ''namespaces'']"
  have map_at: "NestedMap ?u m p = Inr (Some x) \<Longrightarrow> at_path m p = Inr (Some (UMap x))"
    and map_none: "NestedMap ?u m p = Inr None \<Longrightarrow> at_path m p = Inr None" for m p x
    using nested_docD(5) [OF assms(1), of m p]
    by (auto simp: nested_typed_def split: sum.split_asm option.split_asm elim!: as_map.elims)
  have str_at: "NestedString ?u m [k] = Inr (Some x) \<Longrightarrow> map_of m k = Some (UStr x)"
    and str_none: "NestedString ?u m [k] = Inr None \<Longrightarrow> map_of m k = None" for m k x
    using nested_docD(2) [OF assms(1), of m "[k]"]
    by (auto simp: nested_typed_def split: option.split_asm elim!: as_str.elims)
  show ?thesis
  proof (cases "NestedMap ?u (nm_Object nemo) ?p")
    case (Inr found)
    show ?thesis
    proof (cases found)
      case None
      then have "policy = \<lparr>al_Mode = consumerModeSame, al_Selector = None\<rparr>" using assms(2) Inr by (simp add: parseAllowedConsumers_def)
      then show ?thesis using assms(3) map_none [OF Inr [unfolded None]] by (simp add: allows_def)
    next
      case (Some m)
      note at = map_at [OF Inr [unfolded Some]]
      have "map_of m ''from'' = Some (UStr ''All'') \<and> map_of m ''selector'' = None
        \<or> (map_of m ''from'' = None \<or> map_of m ''from'' = Some (UStr []) \<or> map_of m ''from'' = Some (UStr ''Same''))
          \<and> map_of m ''selector'' = None \<and> consumer = nm_Namespace nemo
        \<or> map_of m ''from'' = Some (UStr ''Selector'')
          \<and> (\<exists>raw sel ls. map_of m ''selector'' = Some (UMap raw) \<and> FromUnstructured gl raw = Inr sel
               \<and> (ls_MatchLabels sel \<noteq> [] \<or> ls_MatchExpressions sel \<noteq> []) \<and> labels = Some ls \<and> SelectorMatches gl sel ls = Inr True)"
        using assms(2,3) map_at [of m "[''selector'']"] map_none [of m "[''selector'']"]
        by (auto simp: parseAllowedConsumers_def Inr Some Let_def allows_def dest!: str_at str_none
            split: sum.split_asm option.split_asm if_split_asm)
      then show ?thesis by (simp only: at sum.case option.case uval.case)
    qed
  qed (use assms(2) in \<open>simp add: parseAllowedConsumers_def\<close>)
qed

theorem allowed_consumers_explicit_witness:
  "\<exists>policy. parseAllowedConsumers sample_guard_lib sample_nemo = Inr policy
     \<and> allows sample_guard_lib policy ''team'' (nm_Namespace sample_nemo) None = Inr True \<and> ''team'' = nm_Namespace sample_nemo"
proof -
  have parse: "parseAllowedConsumers sample_guard_lib sample_nemo = Inr \<lparr>al_Mode = consumerModeSame, al_Selector = None\<rparr>" by code_simp
  have allow: "allows sample_guard_lib \<lparr>al_Mode = consumerModeSame, al_Selector = None\<rparr> ''team'' (nm_Namespace sample_nemo) None = Inr True"
    by code_simp
  have doc: "nested_doc (gl_unstr sample_guard_lib)" by (simp add: sample_guard_lib_def ref_unstr_doc)
  have "at_path (nm_Object sample_nemo) [''spec'', ''allowedConsumers'', ''namespaces''] = Inr None" by code_simp
  with allowed_consumers_explicit [OF doc parse allow] parse allow show ?thesis by simp
qed

subsection \<open>Consumers of policies\<close>

lemma find_doc_eq:
  assumes "find_status_condition_doc lib" "distinct (map co_Type cs)"
  shows "FindStatusCondition lib cs t = List.find (\<lambda>c. co_Type c = t) cs"
proof (cases "FindStatusCondition lib cs t")
  case None
  have "case FindStatusCondition lib cs t of None \<Rightarrow> \<forall>c \<in> set cs. co_Type c \<noteq> t | Some c \<Rightarrow> c \<in> set cs \<and> co_Type c = t"
    using assms(1) by (simp add: find_status_condition_doc_def)
  with None show ?thesis using find_None_iff [of "\<lambda>c. co_Type c = t" cs] by auto
next
  case (Some c)
  have "case FindStatusCondition lib cs t of None \<Rightarrow> \<forall>c \<in> set cs. co_Type c \<noteq> t | Some c \<Rightarrow> c \<in> set cs \<and> co_Type c = t"
    using assms(1) by (simp add: find_status_condition_doc_def)
  with Some have c: "c \<in> set cs" "co_Type c = t" by simp_all
  obtain d where d: "List.find (\<lambda>c. co_Type c = t) cs = Some d"
    using c find_None_iff [of "\<lambda>c. co_Type c = t" cs] by (cases "List.find (\<lambda>c. co_Type c = t) cs") auto
  then have "d \<in> set cs" "co_Type d = t" by (auto dest: find_Some_set)
  moreover have "inj_on co_Type (set cs)" using assms(2) by (simp add: distinct_map)
  ultimately have "d = c" using c by (auto dest: inj_onD)
  with d Some show ?thesis by simp
qed

text \<open>The two notions of acceptance in the package agree on policies that are not being deleted.\<close>

lemma acceptance_equivalence:
  assumes "find_status_condition_doc (gl_k8s gl)" "distinct (map co_Type (gst_Conditions (ag_Status g)))" "\<not> om_Deleting (ag_Meta g)"
  shows "checkAccepted (policyFromAIGuardrail g) = None \<longleftrightarrow> BindingAccepted gl g"
proof -
  have "List.find (\<lambda>c. pc_Type c = t) (map (\<lambda>c. \<lparr>pc_Type = co_Type c, pc_Status = (co_Status c = ConditionTrue),
          pc_ObservedGeneration = co_ObservedGeneration c\<rparr>) cs)
      = map_option (\<lambda>c. \<lparr>pc_Type = co_Type c, pc_Status = (co_Status c = ConditionTrue),
          pc_ObservedGeneration = co_ObservedGeneration c\<rparr>) (List.find (\<lambda>c. co_Type c = t) cs)" for t cs
    by (induction cs) auto
  then have f: "findCondition (po_Conditions (policyFromAIGuardrail g)) ConditionAccepted
      = map_option (\<lambda>c. \<lparr>pc_Type = co_Type c, pc_Status = (co_Status c = ConditionTrue),
          pc_ObservedGeneration = co_ObservedGeneration c\<rparr>) (cond gl g ConditionAccepted)"
    by (simp add: findCondition_def policyFromAIGuardrail_def find_doc_eq [OF assms(1,2)])
  show ?thesis
    unfolding checkAccepted_def f BindingAccepted_def acceptedCondition_def
    using assms(3) by (cases "cond gl g ConditionAccepted") (simp_all add: policyFromAIGuardrail_def)
qed

lemma policy_check_names: "map ck_Name (po_Checks (policyFromAIGuardrail g)) = map gc_Name (gs_Checks (ag_Spec g))"
proof -
  have "map ck_Name (po_Checks (policyFromAIGuardrail g)) = map (gc_Name \<circ> snd) (List.enumerate 0 (gs_Checks (ag_Spec g)))"
    by (simp add: policyFromAIGuardrail_def comp_def case_prod_beta)
  then show ?thesis by (metis map_map map_snd_enumerate)
qed

lemma policy_fields:
  "po_Generation (policyFromAIGuardrail g) = ag_Generation g"
  "po_BindingRevision (policyFromAIGuardrail g) = gst_BindingRevision (ag_Status g)"
  by (simp_all add: policyFromAIGuardrail_def)

text \<open>Attachments resolve to accepted snapshots or not at all: when \<open>ResolveAll\<close> succeeds, it returns one policy per attachment, in
  order; each is the policy that the API server returned for that name in the target namespace, accepted at its current
  generation with a binding revision; its checks are all checks of the policy, or exactly the requested ones, each once, in the order
  of the policy's spec.\<close>

theorem attachments_resolved:
  assumes "server_exact client" "ResolveAttachments (GetPolicy client) ns attachments = Inr policies"
  shows "list_all2 (\<lambda>a r. \<exists>g. client ns (at_Name a) = GetOk g \<and> rp_Namespace r = ns \<and> rp_Name r = at_Name a
      \<and> rp_Generation r = ag_Generation g \<and> rp_BindingRevision r = gst_BindingRevision (ag_Status g)
      \<and> checkAccepted (policyFromAIGuardrail g) = None
      \<and> distinct (at_Checks a) \<and> set (at_Checks a) \<subseteq> set (map gc_Name (gs_Checks (ag_Spec g)))
      \<and> map ck_Name (rp_Checks r) = filter (\<lambda>n. at_Checks a = [] \<or> n \<in> set (at_Checks a)) (map gc_Name (gs_Checks (ag_Spec g)))
      \<and> sorted_wrt (<) (map ck_SpecIndex (rp_Checks r))) attachments policies"
proof -
  have client: "exact_client client = client" by (rule exact_client_id [OF assms(1)])
  have "\<exists>g. client ns (at_Name a) = GetOk g \<and> rp_Namespace r = ns \<and> rp_Name r = at_Name a
      \<and> rp_Generation r = ag_Generation g \<and> rp_BindingRevision r = gst_BindingRevision (ag_Status g)
      \<and> checkAccepted (policyFromAIGuardrail g) = None
      \<and> distinct (at_Checks a) \<and> set (at_Checks a) \<subseteq> set (map gc_Name (gs_Checks (ag_Spec g)))
      \<and> map ck_Name (rp_Checks r) = filter (\<lambda>n. at_Checks a = [] \<or> n \<in> set (at_Checks a)) (map gc_Name (gs_Checks (ag_Spec g)))
      \<and> sorted_wrt (<) (map ck_SpecIndex (rp_Checks r))"
    if "ResolveAttachment (GetPolicy client) ns a = Inr r" for a r
  proof -
    note snap = api.resolve_snapshot [of client, unfolded client, OF that] and sorted = api.select_sorted [of client, unfolded client, OF that]
    from snap obtain p where p: "GetPolicy client ns (at_Name a) = Inr p" "rp_Namespace r = ns" "rp_Name r = at_Name a"
      "checkAccepted p = None" "rp_Generation r = po_Generation p" "rp_BindingRevision r = po_BindingRevision p"
      "selectChecks p (at_Checks a) = Inr (rp_Checks r)" by blast
    then obtain g where g: "client ns (at_Name a) = GetOk g" "p = policyFromAIGuardrail g"
      by (auto simp: GetPolicy_def split: get_result.split_asm)
    have "map ck_Name (rp_Checks r) = filter (\<lambda>n. at_Checks a = [] \<or> n \<in> set (at_Checks a)) (map ck_Name (po_Checks p))"
      using p(7) by (auto simp: selectChecks_Inr filter_map comp_def split: if_split_asm)
    moreover have "distinct (at_Checks a)" "set (at_Checks a) \<subseteq> set (map ck_Name (po_Checks p))"
      using p(7) by (simp_all add: selectChecks_Inr)
    ultimately show ?thesis
      using p g sorted by (intro exI [of _ g]) (simp only: policy_check_names policy_fields simp_thms)
  qed
  then show ?thesis using assms(2) by (auto simp: ResolveAttachments_def mapM_res_Inr elim!: list_all2_mono)
qed

definition accepted_guardrail :: AIGuardrail where
  "accepted_guardrail = sample_guardrail\<lparr>ag_Status := \<lparr>gst_ObservedGeneration = 4, gst_ProviderEndpoint = ''e'', gst_BindingRevision = ''r'',
     gst_Conditions = [\<lparr>co_Type = ConditionAccepted, co_Status = ConditionTrue, co_ObservedGeneration = 4,
       co_Reason = reasonPolicyAccepted, co_Message = []\<rparr>]\<rparr>\<rparr>"

definition sample_server :: "string \<Rightarrow> string \<Rightarrow> AIGuardrail get_result" where
  "sample_server ns n = (if ns = ''team'' \<and> n = ''policy'' then GetOk accepted_guardrail else GetNotFound)"

theorem attachments_resolved_witness:
  "\<exists>r. ResolveAttachments (GetPolicy sample_server) ''team'' [\<lparr>at_Name = ''policy'', at_Checks = [''toxic'']\<rparr>] = Inr [r]
     \<and> map ck_Name (rp_Checks r) = [''toxic'']"
proof -
  have exact: "server_exact sample_server"
    by (auto simp: server_exact_def sample_server_def accepted_guardrail_def sample_guardrail_def split: if_split_asm)
  have "is_ok (ResolveAttachments (GetPolicy sample_server) ''team'' [\<lparr>at_Name = ''policy'', at_Checks = [''toxic'']\<rparr>])" by code_simp
  then obtain rs where rs: "ResolveAttachments (GetPolicy sample_server) ''team'' [\<lparr>at_Name = ''policy'', at_Checks = [''toxic'']\<rparr>] = Inr rs"
    by (auto simp: is_ok_iff)
  from attachments_resolved [OF exact rs] obtain r g where r: "rs = [r]" and g: "sample_server ''team'' ''policy'' = GetOk g"
      "map ck_Name (rp_Checks r) = filter (\<lambda>n. n \<in> set [''toxic'']) (map gc_Name (gs_Checks (ag_Spec g)))"
    by (auto simp: list_all2_Cons1)
  have "sample_server ''team'' ''policy'' = GetOk accepted_guardrail" by (simp add: sample_server_def)
  then have eq: "g = accepted_guardrail" using g(1) by (simp only: get_result.inject)
  have "map ck_Name (rp_Checks r) = filter (\<lambda>n. n \<in> set [''toxic'']) (map gc_Name (gs_Checks (ag_Spec accepted_guardrail)))"
    by (rule g(2) [unfolded eq])
  also have "map gc_Name (gs_Checks (ag_Spec accepted_guardrail)) = [''pii'', ''toxic'']"
    by (simp add: accepted_guardrail_def sample_guardrail_def)
  also have "filter (\<lambda>n. n \<in> set [''toxic'']) [''pii'', ''toxic''] = [''toxic'']" by simp
  finally have "map ck_Name (rp_Checks r) = [''toxic'']" .
  then show ?thesis using rs unfolding r by (intro exI [of _ r] conjI)
qed

text \<open>C14. From reconcile to enforcement: after a reconcile has written a policy that is not being deleted, selecting checks that the policy
  defines resolves exactly when the binding is justified. So a policy whose provider or permission is gone cannot be
  compiled into a tenant's catalog.\<close>

theorem guardrail_end_to_end:
  assumes "status_condition_doc gl" "find_status_condition_doc (gl_k8s gl)" "gw_Guardrail w = GetOk g"
    and "go_Patched (Reconcile jcs gl w) = Some g'" "\<not> om_Deleting (ag_Meta g)"
    and "distinct (map co_Type (gst_Conditions (ag_Status g')))" "client (ag_Namespace g) (at_Name a) = GetOk g'"
    and "distinct (at_Checks a)" "set (at_Checks a) \<subseteq> set (map gc_Name (gs_Checks (ag_Spec g)))"
  shows "is_ok (ResolveAttachment (GetPolicy client) (ag_Namespace g) a) \<longleftrightarrow>
     justified jcs gl w g (gst_BindingRevision (ag_Status g')) (gst_ProviderEndpoint (ag_Status g'))"
proof -
  have same: "ag_Meta g' = ag_Meta g" "ag_Spec g' = ag_Spec g" using Reconcile_patched [OF assms(1,3,4)] by (auto simp: refused_def)
  have "selectChecks (policyFromAIGuardrail g') (at_Checks a) = Inr
      (if at_Checks a = [] then po_Checks (policyFromAIGuardrail g')
       else filter (\<lambda>c. ck_Name c \<in> set (at_Checks a)) (po_Checks (policyFromAIGuardrail g')))"
    unfolding selectChecks_Inr policy_check_names using assms(8,9) same(2) by simp
  then have "is_ok (ResolveAttachment (GetPolicy client) (ag_Namespace g) a) \<longleftrightarrow> checkAccepted (policyFromAIGuardrail g') = None"
    using assms(7) by (auto simp: ResolveAttachment_def GetPolicy_def split: option.split)
  also have "\<dots> \<longleftrightarrow> BindingAccepted gl g'"
    by (rule acceptance_equivalence [OF assms(2,6)]) (simp add: same assms(5))
  also have "\<dots> \<longleftrightarrow> justified jcs gl w g (gst_BindingRevision (ag_Status g')) (gst_ProviderEndpoint (ag_Status g'))"
    using Reconcile_patched [OF assms(1,3,4)]
  proof
    assume "\<exists>r m. refused gl (observed g) r m g'"
    then have "\<not> BindingAccepted gl g'" "gst_BindingRevision (ag_Status g') = []"
      by (auto simp: refused_def BindingAccepted_def acceptedCondition_def split: option.split)
    then show ?thesis using justified_nonempty by metis
  next
    assume "gw_Mapping w = MappingOk \<and> \<not> ProviderTimeoutTooFine (gp_Timeout (gs_Provider (ag_Spec g)))
      \<and> (\<forall>f. gw_OutputUnsupported w = Some f \<and> hasOutputCheck g \<longrightarrow> f (ag_Namespace g) = Inr [])
      \<and> (\<exists>nemo rv. acceptance jcs gl w (observed g) nemo rv \<and> g' = accepted_state gl nemo rv (observed g))"
    then obtain nemo rv where acc: "acceptance jcs gl w (observed g) nemo rv" "g' = accepted_state gl nemo rv (observed g)"
      and j: "justified jcs gl w g rv (rd_Endpoint (evaluateNemoReady gl (Some nemo)))"
      using acceptance_justified by blast
    have "cp_Compatible (evaluateCompatible gl (observed g) nemo)" "rd_Ready (evaluateNemoReady gl (Some nemo))"
      using acc(1) by (simp_all add: acceptance_def)
    from accepted_conditions [OF assms(1) this, of ConditionAccepted rv] obtain c where
      "cond gl g' ConditionAccepted = Some c" "co_Status c = ConditionTrue" "co_ObservedGeneration c = ag_Generation g"
      using acc(2) by auto
    then have "BindingAccepted gl g'"
      using acc(2) assms(5) justified_nonempty [OF j] same by (simp add: BindingAccepted_def acceptedCondition_def)
    with j acc(2) show ?thesis by simp
  qed
  finally show ?thesis .
qed

theorem guardrail_end_to_end_witness:
  "\<not> is_ok (ResolveAttachment (GetPolicy (\<lambda>_ _. GetOk orphan_guardrail)) ''team'' \<lparr>at_Name = ''policy'', at_Checks = []\<rparr>)"
proof -
  have find: "find_status_condition_doc (gl_k8s sample_guard_lib)"
    by (auto simp: find_status_condition_doc_def sample_guard_lib_def find_condition_def find_None_iff dest: find_Some_set split: option.split)
  have live: "\<not> om_Deleting (ag_Meta sample_guardrail)" "ag_Namespace sample_guardrail = ''team''" by (simp_all add: sample_guardrail_def)
  have types: "distinct (map co_Type (gst_Conditions (ag_Status orphan_guardrail)))" by code_simp
  have "\<not> justified Some sample_guard_lib orphan_world sample_guardrail rv ep" for rv ep
    by (simp add: justified_def orphan_world_def)
  then show ?thesis
    using guardrail_end_to_end [OF sample_doc find orphan_read orphan_patched live(1) types,
        where client = "\<lambda>_ _. GetOk orphan_guardrail" and a = "\<lparr>at_Name = ''policy'', at_Checks = []\<rparr>"] live(2)
    by simp
qed

text \<open>A provider event wakes exactly the policies whose reconcile reads that provider: with names and namespaces free of slashes, a
  listed policy is requested if and only if the reference that \<open>Reconcile\<close> resolves is that provider.\<close>

theorem provider_watch_complete:
  assumes "CHR ''/'' \<notin> set (nm_Namespace nemo)"
    and "\<forall>g \<in> set listed. CHR ''/'' \<notin> set (fst (providerRef g))"
  shows "guardrailsForProvider (Some listed) nemo =
     guardrailRequests (filter (\<lambda>g. providerRef g = (nm_Namespace nemo, nm_Name nemo)) listed)"
proof -
  have key: "key_string k = key_string k' \<longleftrightarrow> k = k'" if "CHR ''/'' \<notin> set (fst k)" "CHR ''/'' \<notin> set (fst k')" for k k'
  proof
    assume eq: "key_string k = key_string k'"
    have all: "\<forall>c \<in> set (fst k). c \<noteq> CHR ''/''" "\<forall>c \<in> set (fst k'). c \<noteq> CHR ''/''" using that by auto
    have "takeWhile (\<lambda>c. c \<noteq> CHR ''/'') (key_string k) = fst k" "takeWhile (\<lambda>c. c \<noteq> CHR ''/'') (key_string k') = fst k'"
      unfolding key_string_def using all by (subst takeWhile_append2; simp)+
    then have "fst k = fst k'" using eq by simp
    with eq show "k = k'" by (simp add: key_string_def prod_eq_iff)
  qed simp
  have "filter (\<lambda>g. key_string (nm_Namespace nemo, nm_Name nemo) \<in> set (indexGuardrailByProvider g)) listed
      = filter (\<lambda>g. providerRef g = (nm_Namespace nemo, nm_Name nemo)) listed"
    using assms key [of "(nm_Namespace nemo, nm_Name nemo)"] by (intro filter_cong refl) (auto simp: indexGuardrailByProvider_def)
  then show ?thesis by (simp add: guardrailsForProvider_def)
qed

theorem provider_watch_complete_witness:
  "guardrailsForProvider (Some [sample_guardrail]) sample_nemo = [(''team'', ''policy'')]"
proof -
  have "guardrailsForProvider (Some [sample_guardrail]) sample_nemo
      = guardrailRequests (filter (\<lambda>g. providerRef g = (nm_Namespace sample_nemo, nm_Name sample_nemo)) [sample_guardrail])"
    by (rule provider_watch_complete) (simp_all add: sample_nemo_def sample_guardrail_def providerRef_def)
  then show ?thesis by (simp add: guardrailRequests_def sample_nemo_def sample_guardrail_def providerRef_def)
qed

end
