(* ===== verification/NemoEndpoint.thy ===== *)
theory NemoEndpoint
  imports GuardrailProperties
begin

text \<open>
  \<open>ParseNemoEndpoint\<close> of \<open>src/pkg/guardrail/nemoendpoint.go\<close>, with which the tenant compiler reads the endpoint that the guardrail
  reconciler published, and the agreement of both: a published endpoint is read back as the Service it was made from, and no
  endpoint leads to a Service other than the provider's own in an infrastructure namespace.
\<close>

subsection \<open>Definition\<close>

definition check_port :: "string \<Rightarrow> string \<Rightarrow> go_url \<Rightarrow> 'a \<Rightarrow> (EndpointError, 'a) res" where
  "check_port scheme port parsed r =
     (if UrlPort parsed \<noteq> [] \<and> UrlPort parsed \<noteq> port then Inl (WrongPort scheme (UrlPort parsed)) else Inr r)"

definition check_scheme :: "go_url \<Rightarrow> NemoService \<Rightarrow> (EndpointError, NemoService) res" where
  "check_scheme parsed service =
     (if url_Scheme parsed = ''http'' then check_port ''http'' ''80'' parsed service
      else if url_Scheme parsed = ''https'' then check_port ''https'' ''443'' parsed (service\<lparr>ns_Authenticated := True\<rparr>)
      else Inl (WrongScheme (url_Scheme parsed)))"

definition ParseNemoEndpoint :: "k8s_lib \<Rightarrow> string \<Rightarrow> string \<Rightarrow> string \<Rightarrow> (EndpointError, NemoService) res" where
  "ParseNemoEndpoint lib endpoint providerNamespace providerName =
     (case Parse endpoint of
        None \<Rightarrow> Inl NotPlainURL
      | Some parsed \<Rightarrow>
          if url_Host parsed = [] \<or> url_User parsed \<or> url_RawQuery parsed \<noteq> [] \<or> url_ForceQuery parsed \<or> url_Fragment parsed \<noteq> []
          then Inl NotPlainURL
          else
            (let host = trim_suffix (Hostname parsed) ''.cluster.local'';
                 serviceHost = trim_suffix host ''.svc''
             in case last_index serviceHost ''.'' of
                  None \<Rightarrow> Inl (NotInCluster (Hostname parsed))
                | Some dot \<Rightarrow>
                    if \<not> has_suffix host ''.svc'' then Inl (NotInCluster (Hostname parsed))
                    else (case NemoServiceFor lib (drop (dot + 1) serviceHost) providerNamespace providerName of
                            Inl e \<Rightarrow> Inl (HostError (Hostname parsed) e)
                          | Inr service \<Rightarrow>
                              if take dot serviceHost \<noteq> ns_Name service
                              then Inl (NotServiceOf (Hostname parsed) (ns_Name service) providerNamespace providerName)
                              else bind_res (check_scheme parsed service) (\<lambda>service.
                                     if trim_suffix (url_Path parsed) ''/'' \<in> {[], NemoChecksPath} then Inr service
                                     else Inl WrongPath))))"

subsection \<open>Reading back\<close>

text \<open>What \<open>validation.IsDNS1123Label\<close> documents of an accepted value: letters, digits and dashes.\<close>

definition dns_label_doc :: "k8s_lib \<Rightarrow> bool" where
  "dns_label_doc lib \<longleftrightarrow>
     (\<forall>s. IsDNS1123Label lib s = [] \<longrightarrow> s \<noteq> [] \<and> list_all (\<lambda>c. is_lower c \<or> digit_char c \<or> c = CHR ''-'') s)"

lemma label_plain:
  assumes "dns_label_doc lib" "IsDNS1123Label lib s = []"
  shows "list_all dns_char s" "CHR ''.'' \<notin> set s"
proof -
  have chars: "list_all (\<lambda>c. is_lower c \<or> digit_char c \<or> c = CHR ''-'') s" using assms by (simp add: dns_label_doc_def)
  then show "list_all dns_char s" by (auto simp: list_all_iff dns_char_def is_alnum_def)
  have "\<not> is_lower (CHR ''.'')" "\<not> digit_char (CHR ''.'')" by code_simp+
  with chars show "CHR ''.'' \<notin> set s" by (auto simp: list_all_iff)
qed

lemma infra_plain:
  assumes "IsNemoInfraNamespace ns"
  shows "list_all dns_char ns" "CHR ''.'' \<notin> set ns" "\<not> has_suffix ns ''.svc''"
proof -
  have "list_all (\<lambda>ns. list_all dns_char ns \<and> CHR ''.'' \<notin> set ns \<and> \<not> has_suffix ns ''.svc'') NemoInfraNamespaces" by code_simp
  then show "list_all dns_char ns" "CHR ''.'' \<notin> set ns" "\<not> has_suffix ns ''.svc''"
    using assms unfolding IsNemoInfraNamespace_def list_all_iff by blast+
qed

lemma trim_suffix_append: "trim_suffix (s @ t) t = s"
  by (simp add: trim_suffix_def has_suffix_def)

lemma trim_suffix_split: "has_suffix s t \<Longrightarrow> trim_suffix s t @ t = s"
  by (auto simp: has_suffix_iff trim_suffix_append)

lemma last_dot: "CHR ''.'' \<notin> set b \<Longrightarrow> last_index (a @ ''.'' @ b) ''.'' = Some (length a)"
proof (induction a)
  case Nil
  have "last_index b ''.'' = None" using Nil by (induction b) (auto simp: has_prefix_def)
  then show ?case by (simp add: has_prefix_def)
qed simp

lemma parse_derived:
  assumes "dns_label_doc lib" "NemoServiceFor lib infra pns pn = Inr s"
  shows "ParseNemoEndpoint lib (URL (s\<lparr>ns_Authenticated := auth\<rparr>)) pns pn = Inr (s\<lparr>ns_Authenticated := auth\<rparr>)"
proof -
  have infra: "IsNemoInfraNamespace infra" "ns_Namespace s = infra" "IsDNS1123Label lib (ns_Name s) = []" "\<not> ns_Authenticated s"
    using assms(2) by (auto simp: NemoServiceFor_def Let_def split: if_split_asm)
  let ?host = "ns_Name s @ ''.'' @ infra @ ''.svc.cluster.local''"
  have plain: "list_all dns_char ?host"
  proof -
    have "list_all dns_char ''.svc.cluster.local''" by code_simp
    then show ?thesis using label_plain(1) [OF assms(1) infra(3)] infra_plain(1) [OF infra(1)]
      by (simp add: dns_char_def)
  qed
  let ?u = "empty_url\<lparr>url_Scheme := if auth then ''https'' else ''http'', url_Host := ?host, url_Path := []\<rparr>"
  have parsed: "Parse (URL (s\<lparr>ns_Authenticated := auth\<rparr>)) = Some ?u"
    using Parse_plain [OF plain, of "[]" "[]" auth] infra(2) by (simp add: URL_def plain_port_def plain_path_def)
  have split: "splitHostPort ?host = (?host, [])"
    using splitHostPort_plain [OF plain, of "[]"] by (simp add: plain_port_def)
  then have hp: "Hostname ?u = ?host" "UrlPort ?u = []" by (simp_all add: Hostname_def UrlPort_def)
  have host: "trim_suffix ?host ''.cluster.local'' = ns_Name s @ ''.'' @ infra @ ''.svc''"
    using trim_suffix_append [of "ns_Name s @ ''.'' @ infra @ ''.svc''" "''.cluster.local''"] by simp
  have svc: "trim_suffix (ns_Name s @ ''.'' @ infra @ ''.svc'') ''.svc'' = ns_Name s @ ''.'' @ infra"
    using trim_suffix_append [of "ns_Name s @ ''.'' @ infra" "''.svc''"] by simp
  have suffix: "has_suffix (ns_Name s @ ''.'' @ infra @ ''.svc'') ''.svc''" by (simp add: has_suffix_def)
  have dot: "last_index (ns_Name s @ ''.'' @ infra) ''.'' = Some (length (ns_Name s))"
    by (rule last_dot) (rule infra_plain(2) [OF infra(1)])
  have fields: "url_Host ?u \<noteq> []" "\<not> url_User ?u" "url_RawQuery ?u = []" "\<not> url_ForceQuery ?u" "url_Fragment ?u = []"
    "url_Path ?u = []" "url_Scheme ?u = (if auth then ''https'' else ''http'')" by (simp_all add: empty_url_def)
  have scheme: "check_scheme ?u s = Inr (s\<lparr>ns_Authenticated := auth\<rparr>)"
    using infra(4) unfolding check_scheme_def check_port_def fields(7) hp(2) by (cases auth) simp_all
  show ?thesis
    unfolding ParseNemoEndpoint_def parsed option.case Let_def hp host svc dot
    using fields suffix scheme assms(2) by (simp add: trim_suffix_def has_suffix_def)
qed

lemma ready_service:
  assumes "rd_Ready (evaluateNemoReady gl (Some n))"
  shows "\<exists>s. rd_Endpoint (evaluateNemoReady gl (Some n)) = URL (s\<lparr>ns_Authenticated := fold_true (sm_get (nm_Annotations n) nemoAuthAnnotation)\<rparr>)
    \<and> NemoServiceFor (gl_k8s gl) (ns_Namespace s) (nm_Namespace n) (nm_Name n) = Inr s
    \<and> NestedString (gl_unstr gl) (nm_Object n) [''status'', ''workloadNamespace''] = Inr (Some (ns_Namespace s))"
proof -
  obtain wns where wns: "NestedString (gl_unstr gl) (nm_Object n) [''status'', ''workloadNamespace''] = Inr (Some wns)"
      "IsNemoInfraNamespace wns"
    using assms by (auto simp: evaluateNemoReady_def Let_def ready_refuse_def split: if_split_asm sum.split_asm option.split_asm)
  then obtain s where s: "NemoServiceFor (gl_k8s gl) wns (nm_Namespace n) (nm_Name n) = Inr s"
    and ep: "rd_Endpoint (evaluateNemoReady gl (Some n)) = URL (s\<lparr>ns_Authenticated := fold_true (sm_get (nm_Annotations n) nemoAuthAnnotation)\<rparr>)"
    using assms by (auto simp: evaluateNemoReady_def Let_def ready_refuse_def split: if_split_asm sum.split_asm)
  have "ns_Namespace s = wns" using s by (auto simp: NemoServiceFor_def Let_def split: if_split_asm)
  with wns s ep show ?thesis by blast
qed

text \<open>Every accepted endpoint names the provider's own Service in an infrastructure namespace.\<close>

lemma check_scheme_Inr:
  "check_scheme u s = Inr s' \<longleftrightarrow>
     (url_Scheme u = ''http'' \<and> UrlPort u \<in> {[], ''80''} \<and> s' = s)
     \<or> (url_Scheme u = ''https'' \<and> UrlPort u \<in> {[], ''443''} \<and> s' = s\<lparr>ns_Authenticated := True\<rparr>)"
  by (auto simp: check_scheme_def check_port_def)

lemma parse_accepted:
  assumes "ParseNemoEndpoint lib endpoint pns pn = Inr s"
  shows "NemoServiceFor lib (ns_Namespace s) pns pn = Inr (s\<lparr>ns_Authenticated := False\<rparr>)"
    and "\<exists>u. Parse endpoint = Some u \<and> \<not> url_User u \<and> url_Scheme u = (if ns_Authenticated s then ''https'' else ''http'')
      \<and> UrlPort u \<in> {[], if ns_Authenticated s then ''443'' else ''80''}
      \<and> Hostname u \<in> {ns_Name s @ ''.'' @ ns_Namespace s @ ''.svc'', ns_Name s @ ''.'' @ ns_Namespace s @ ''.svc.cluster.local''}"
proof -
  obtain u service dot where u: "Parse endpoint = Some u" "\<not> url_User u"
    and svc: "NemoServiceFor lib (drop (dot + 1) (trim_suffix (trim_suffix (Hostname u) ''.cluster.local'') ''.svc'')) pns pn = Inr service"
    and dot: "last_index (trim_suffix (trim_suffix (Hostname u) ''.cluster.local'') ''.svc'') ''.'' = Some dot"
    and suf: "has_suffix (trim_suffix (Hostname u) ''.cluster.local'') ''.svc''"
    and name: "take dot (trim_suffix (trim_suffix (Hostname u) ''.cluster.local'') ''.svc'') = ns_Name service"
    and scheme: "check_scheme u service = Inr s"
    using assms unfolding ParseNemoEndpoint_def Let_def
    by (auto split: option.split_asm sum.split_asm if_split_asm simp: bind_res_Inr_iff)
  let ?sh = "trim_suffix (trim_suffix (Hostname u) ''.cluster.local'') ''.svc''"
  have service: "\<not> ns_Authenticated service" "ns_Namespace service = drop (dot + 1) ?sh"
    using svc by (auto simp: NemoServiceFor_def Let_def split: if_split_asm)
  show "NemoServiceFor lib (ns_Namespace s) pns pn = Inr (s\<lparr>ns_Authenticated := False\<rparr>)"
    using svc scheme service by (auto simp: check_scheme_Inr)
  obtain v w where "?sh = v @ ''.'' @ w" "length v = dot" using last_index_Some [OF dot] by blast
  then have "?sh = ns_Name service @ ''.'' @ ns_Namespace service" using name service(2) by simp
  moreover have "trim_suffix (Hostname u) ''.cluster.local'' = ?sh @ ''.svc''" by (rule trim_suffix_split [OF suf, symmetric])
  moreover have "Hostname u \<in> {trim_suffix (Hostname u) ''.cluster.local'', trim_suffix (Hostname u) ''.cluster.local'' @ ''.cluster.local''}"
    using trim_suffix_split [of "Hostname u" "''.cluster.local''"] by (simp add: trim_suffix_def)
  ultimately have "Hostname u \<in> {ns_Name service @ ''.'' @ ns_Namespace service @ ''.svc'', ns_Name service @ ''.'' @ ns_Namespace service @ ''.svc.cluster.local''}"
    by auto
  then show "\<exists>u. Parse endpoint = Some u \<and> \<not> url_User u \<and> url_Scheme u = (if ns_Authenticated s then ''https'' else ''http'')
      \<and> UrlPort u \<in> {[], if ns_Authenticated s then ''443'' else ''80''}
      \<and> Hostname u \<in> {ns_Name s @ ''.'' @ ns_Namespace s @ ''.svc'', ns_Name s @ ''.'' @ ns_Namespace s @ ''.svc.cluster.local''}"
    using u scheme service(1) by (intro exI [of _ u]) (auto simp: check_scheme_Inr)
qed

subsection \<open>Properties\<close>

text \<open>C16. The endpoint contract between the two controllers: every endpoint that a reconcile publishes on a policy is read back by the
  compiler as the Service it was derived from, authenticated exactly when the endpoint is https. The API server is assumed to return
  the provider that was asked for.\<close>

theorem published_endpoint_readable:
  assumes "status_condition_doc gl" "dns_label_doc (gl_k8s gl)" "gw_Guardrail w = GetOk g" "go_Patched (Reconcile jcs gl w) = Some g'"
    and "gst_ProviderEndpoint (ag_Status g') \<noteq> []" "\<And>key n. gw_Nemo w key = GetOk n \<Longrightarrow> (nm_Namespace n, nm_Name n) = key"
  shows "\<exists>s nemo. gw_Nemo w (providerRef g) = GetOk nemo \<and> gst_ProviderEndpoint (ag_Status g') = URL s
    \<and> NestedString (gl_unstr gl) (nm_Object nemo) [''status'', ''workloadNamespace''] = Inr (Some (ns_Namespace s))
    \<and> ns_Authenticated s = fold_true (sm_get (nm_Annotations nemo) nemoAuthAnnotation)
    \<and> ParseNemoEndpoint (gl_k8s gl) (gst_ProviderEndpoint (ag_Status g')) (fst (providerRef g)) (snd (providerRef g)) = Inr s"
proof -
  have "\<not> (\<exists>r m. refused gl (observed g) r m g')" using assms(5) by (auto simp: refused_def)
  then obtain nemo rv where acc: "acceptance jcs gl w (observed g) nemo rv" "g' = accepted_state gl nemo rv (observed g)"
    and j: "justified jcs gl w g rv (rd_Endpoint (evaluateNemoReady gl (Some nemo)))"
    using Reconcile_patched [OF assms(1,3,4)] acceptance_justified by blast
  have comp: "cp_Compatible (evaluateCompatible gl (observed g) nemo)" and ready: "rd_Ready (evaluateNemoReady gl (Some nemo))"
    and nemo: "gw_Nemo w (providerRef (observed g)) = GetOk nemo" using acc(1) by (simp_all add: acceptance_def)
  have nemo: "gw_Nemo w (providerRef g) = GetOk nemo" using nemo by (simp add: providerRef_def Let_def cong: if_cong)
  have ep: "gst_ProviderEndpoint (ag_Status g') = rd_Endpoint (evaluateNemoReady gl (Some nemo))"
    using accepted_conditions [OF assms(1) comp ready] acc(2) by simp
  obtain s where s: "rd_Endpoint (evaluateNemoReady gl (Some nemo)) = URL (s\<lparr>ns_Authenticated := fold_true (sm_get (nm_Annotations nemo) nemoAuthAnnotation)\<rparr>)"
    and svc: "NemoServiceFor (gl_k8s gl) (ns_Namespace s) (nm_Namespace nemo) (nm_Name nemo) = Inr s"
    and wns: "NestedString (gl_unstr gl) (nm_Object nemo) [''status'', ''workloadNamespace''] = Inr (Some (ns_Namespace s))"
    using ready_service [OF ready] by blast
  have key: "providerRef g = (nm_Namespace nemo, nm_Name nemo)" using assms(6) [OF nemo] by simp
  show ?thesis
    using parse_derived [OF assms(2) svc, of "fold_true (sm_get (nm_Annotations nemo) nemoAuthAnnotation)"] nemo ep s wns key
    by (intro exI [of _ "s\<lparr>ns_Authenticated := fold_true (sm_get (nm_Annotations nemo) nemoAuthAnnotation)\<rparr>"] exI [of _ nemo]) simp
qed

theorem published_endpoint_readable_witness:
  "ParseNemoEndpoint (gl_k8s sample_guard_lib) (gst_ProviderEndpoint (ag_Status sample_accepted)) ''team'' ''nemo''
     = Inr \<lparr>ns_Namespace = ''odh-ai-gateway-infra'', ns_Name = ''team-nemo'', ns_Authenticated = True\<rparr>"
proof -
  have dns: "dns_label_doc (gl_k8s sample_guard_lib)"
    by (simp add: dns_label_doc_def sample_guard_lib_def label_errors_def)
  obtain g' where g': "go_Patched (Reconcile Some sample_guard_lib sample_guard_world) = Some g'"
    and ep: "gst_ProviderEndpoint (ag_Status g') = ''https://team-nemo.odh-ai-gateway-infra.svc.cluster.local''"
    using Reconcile_justified [OF sample_doc sample_guardrail_read sample_justified] by blast
  have exact: "\<And>key n. gw_Nemo sample_guard_world key = GetOk n \<Longrightarrow> (nm_Namespace n, nm_Name n) = key"
    by (auto simp: sample_guard_world_def sample_nemo_def split: if_split_asm)
  have key: "providerRef sample_guardrail = (''team'', ''nemo'')" by code_simp
  have nonempty: "gst_ProviderEndpoint (ag_Status g') \<noteq> []" by (simp add: ep)
  from published_endpoint_readable [OF sample_doc dns sample_guardrail_read g' nonempty exact]
  obtain s where s: "ParseNemoEndpoint (gl_k8s sample_guard_lib) (gst_ProviderEndpoint (ag_Status g')) ''team'' ''nemo'' = Inr s"
    unfolding key fst_conv snd_conv by blast
  moreover have "ParseNemoEndpoint (gl_k8s sample_guard_lib) ''https://team-nemo.odh-ai-gateway-infra.svc.cluster.local'' ''team'' ''nemo''
     = Inr \<lparr>ns_Namespace = ''odh-ai-gateway-infra'', ns_Name = ''team-nemo'', ns_Authenticated = True\<rparr>" by code_simp
  ultimately show ?thesis by (simp add: sample_accepted_def g' ep)
qed

text \<open>C17. No endpoint leads the compiler elsewhere: whatever string is accepted, the Service is the one derived for this very provider in
  an infrastructure namespace, the host is that Service's name, the scheme and the port are those of its authentication, and the URL
  carries no credentials.\<close>

theorem nemo_endpoint_confined:
  assumes "ParseNemoEndpoint lib endpoint providerNamespace providerName = Inr s"
  shows "IsNemoInfraNamespace (ns_Namespace s)
    \<and> NemoServiceFor lib (ns_Namespace s) providerNamespace providerName = Inr (s\<lparr>ns_Authenticated := False\<rparr>)
    \<and> (\<exists>u. Parse endpoint = Some u \<and> \<not> url_User u \<and> url_Scheme u = (if ns_Authenticated s then ''https'' else ''http'')
      \<and> UrlPort u \<in> {[], if ns_Authenticated s then ''443'' else ''80''}
      \<and> Hostname u \<in> {ns_Name s @ ''.'' @ ns_Namespace s @ ''.svc'', ns_Name s @ ''.'' @ ns_Namespace s @ ''.svc.cluster.local''})"
  using parse_accepted [OF assms] by (auto simp: NemoServiceFor_def split: if_split_asm)

theorem nemo_endpoint_confined_witness:
  "IsNemoInfraNamespace ''odh-ai-gateway-infra''
   \<and> ParseNemoEndpoint (gl_k8s sample_guard_lib) ''http://nemo.odh-ai-gateway-infra.svc:80/v1/checks/'' ''odh-ai-gateway-infra'' ''nemo''
     = Inr \<lparr>ns_Namespace = ''odh-ai-gateway-infra'', ns_Name = ''nemo'', ns_Authenticated = False\<rparr>"
proof -
  have parsed: "ParseNemoEndpoint (gl_k8s sample_guard_lib) ''http://nemo.odh-ai-gateway-infra.svc:80/v1/checks/'' ''odh-ai-gateway-infra'' ''nemo''
     = Inr \<lparr>ns_Namespace = ''odh-ai-gateway-infra'', ns_Name = ''nemo'', ns_Authenticated = False\<rparr>" by code_simp
  show ?thesis using nemo_endpoint_confined [OF parsed] parsed by simp
qed

end
