(* ===== verification/Transport.thy ===== *)
theory Transport
  imports WithdrawalRoutes GoUrl
begin

text \<open>
  Transport of a route: the endpoint grammar of \<open>src/pkg/controller/provider_endpoint.go\<close> and the objects that
  \<open>src/pkg/controller/reconciler.go\<close> renders from routes (from \<open>modelRouteName\<close> on): the provider's Service, ServiceEntry and DestinationRule,
  the HTTPRoute of a model with one pair of rules per provider, and the selection sink.

  A rendered object is its \<open>map[string]any\<close>. The validation of Service names by apimachinery is the parameter \<open>dns1035\<close>. Object names are
  ASCII in Kubernetes, so \<open>strings.ToLower\<close> maps ASCII letters only.
\<close>

subsection \<open>Endpoints\<close>

record providerEndpoint =
  pe_authority :: string
  pe_host :: string
  pe_port :: int

datatype EndpointFault =
    EndpointRequired
  | EndpointNotHost string
  | EndpointBadPort string

definition endpoint_separators :: string where
  "endpoint_separators = '' /'' @ [CHR 0x09, CHR 0x0D, CHR 0x0A]"

text \<open>The port of a parsed endpoint, 443 when it has none. \<open>fmt.Sscanf\<close> with \<open>%d\<close> reads the digits as a decimal number; a number that
  does not fit \<open>int\<close> is an error, and out of range as well.\<close>

definition endpoint_port :: "string \<Rightarrow> int option" where
  "endpoint_port port =
     (if port = [] then Some 443
      else (case parse_nat port of
              None \<Rightarrow> None
            | Some n \<Rightarrow> if n < 1 \<or> n > 65535 then None else Some (int n)))"

definition parseProviderEndpoint :: "string \<Rightarrow> (EndpointFault, providerEndpoint) res" where
  "parseProviderEndpoint raw =
     (let endpoint = trim_space raw in
      if endpoint = [] then Inl EndpointRequired
      else if contains_any endpoint endpoint_separators \<or> contains_str endpoint ''://'' then Inl (EndpointNotHost endpoint)
      else (case Parse (''https://'' @ endpoint) of
              None \<Rightarrow> Inl (EndpointNotHost endpoint)
            | Some parsed \<Rightarrow>
                if url_User parsed \<or> Hostname parsed = [] \<or> url_Path parsed \<noteq> [] \<or> url_RawQuery parsed \<noteq> [] \<or> url_Fragment parsed \<noteq> []
                then Inl (EndpointNotHost endpoint)
                else (case endpoint_port (UrlPort parsed) of
                        None \<Rightarrow> Inl (EndpointBadPort endpoint)
                      | Some port \<Rightarrow> Inr \<lparr>pe_authority = url_Host parsed, pe_host = Hostname parsed, pe_port = port\<rparr>)))"

definition validateProviderEndpoint :: "string \<Rightarrow> EndpointFault option" where
  "validateProviderEndpoint endpoint = (case parseProviderEndpoint endpoint of Inl e \<Rightarrow> Some e | Inr _ \<Rightarrow> None)"

definition providerEndpointForRoute :: "Route \<Rightarrow> providerEndpoint" where
  "providerEndpointForRoute route =
     (case parseProviderEndpoint (Endpoint route) of
        Inl _ \<Rightarrow> \<lparr>pe_authority = Endpoint route, pe_host = Endpoint route, pe_port = 443\<rparr>
      | Inr endpoint \<Rightarrow> if Port route \<noteq> 0 then endpoint\<lparr>pe_port := Port route\<rparr> else endpoint)"

definition providerPort :: "Route \<Rightarrow> int" where
  "providerPort route = pe_port (providerEndpointForRoute route)"

subsection \<open>Names and metadata\<close>

definition modelRoutePrefix :: string where
  "modelRoutePrefix = ''external-model-''"

definition lower_dashed :: "string \<Rightarrow> string" where
  "lower_dashed model = map ascii_lower (replace_all model ''/'' ''-'')"

definition modelRouteName :: "string \<Rightarrow> string" where
  "modelRouteName model = modelRoutePrefix @ lower_dashed model"

definition shortHash :: "string list \<Rightarrow> string" where
  "shortHash parts = take 12 (sha256_hex (join_str parts ''/''))"

definition providerSelectionSinkName :: "(string \<Rightarrow> string list) \<Rightarrow> string \<Rightarrow> string" where
  "providerSelectionSinkName dns1035 model =
     (let name = providerSelectionSinkPrefix @ lower_dashed model in
      if dns1035 name = [] then name
      else
        (let hash = shortHash [model];
             base = replace_all (trim_prefix name providerSelectionSinkPrefix) ''.'' ''-'';
             limit = 63 - length providerSelectionSinkPrefix - length hash - 2;
             base' = (if length base > limit then trim_right_set (take limit base) ''-'' else base)
         in providerSelectionSinkPrefix @ ''-'' @ base' @ ''-'' @ hash))"

definition managedBy :: "string \<times> uval" where
  "managedBy = (''app.kubernetes.io/managed-by'', UStr ''ai-gateway-controller'')"

definition labelledMetadata :: "string \<Rightarrow> string \<Rightarrow> string \<Rightarrow> string \<Rightarrow> umap" where
  "labelledMetadata name namespace key v =
     [(''name'', UStr name), (''namespace'', UStr namespace), (''labels'', UMap [managedBy, (key, UStr v)])]"

definition externalProviderLabel :: string where
  "externalProviderLabel = ''inference.opendatahub.io/external-provider''"

definition labelProviderNamespace :: string where
  "labelProviderNamespace = ''inference.opendatahub.io/external-provider-namespace''"

definition annotationAttachmentIdentity :: string where
  "annotationAttachmentIdentity = ''inference.opendatahub.io/attachment-identity''"

definition providerIdentity :: "Route \<Rightarrow> string" where
  "providerIdentity route = ProviderNamespace route @ ''/'' @ Provider route"

definition providerTransportMetadata :: "Route \<Rightarrow> string \<Rightarrow> umap" where
  "providerTransportMetadata route ns =
     (if \<not> CrossNamespace route then labelledMetadata (ServiceName route) ns externalProviderLabel (Provider route)
      else labelledMetadata (ServiceName route) ns labelProviderNamespace (ProviderNamespace route)
        @ [(''annotations'', UMap [(annotationAttachmentIdentity, UStr (providerIdentity route))])])"

subsection \<open>Provider objects\<close>

definition providerService :: "Route \<Rightarrow> string \<Rightarrow> umap" where
  "providerService route ns =
     (let endpoint = providerEndpointForRoute route in
      [(''apiVersion'', UStr ''v1''), (''kind'', UStr ''Service''), (''metadata'', UMap (providerTransportMetadata route ns)),
       (''spec'', UMap [(''type'', UStr ''ExternalName''), (''externalName'', UStr (pe_host endpoint)),
          (''ports'', UList [UMap [(''name'', UStr ''https''), (''port'', UInt (pe_port endpoint)), (''targetPort'', UInt (pe_port endpoint))]])])])"

definition providerServiceEntry :: "Route \<Rightarrow> string \<Rightarrow> umap" where
  "providerServiceEntry route ns =
     (let endpoint = providerEndpointForRoute route in
      [(''apiVersion'', UStr ''networking.istio.io/v1''), (''kind'', UStr ''ServiceEntry''),
       (''metadata'', UMap (providerTransportMetadata route ns)),
       (''spec'', UMap [(''hosts'', UList [UStr (pe_host endpoint)]), (''location'', UStr ''MESH_EXTERNAL''), (''resolution'', UStr ''DNS''),
          (''ports'', UList [UMap [(''name'', UStr ''https''), (''number'', UInt (pe_port endpoint)), (''protocol'', UStr ''HTTPS'')]])])])"

definition ownershipTenantID :: "string \<Rightarrow> string" where
  "ownershipTenantID tenantID = (if tenantID = [] then DefaultAITenantName else tenantID)"

definition providerDestinationRuleAtGateway :: "Route \<Rightarrow> string \<Rightarrow> string \<Rightarrow> string \<Rightarrow> umap" where
  "providerDestinationRuleAtGateway route gatewayName ns tenantID =
     (let endpoint = providerEndpointForRoute route;
          tls = [(''mode'', UStr ''SIMPLE''), (''sni'', UStr (pe_host endpoint))]
                @ (if TLSCACertificates route \<noteq> [] then [(''caCertificates'', UStr (TLSCACertificates route))] else [])
                @ (if TLSCredentialName route \<noteq> [] then [(''credentialName'', UStr (TLSCredentialName route))] else []);
          name = providerServicePrefix @ Provider route
                @ (if tenantID \<noteq> [] \<and> tenantID \<noteq> ''models-as-a-service'' then ''-'' @ tenantID else []);
          labels = [managedBy, (externalProviderLabel, UStr (Provider route)),
                    (''inference.opendatahub.io/external-tenant'', UStr (Namespace route)),
                    (''inference.opendatahub.io/external-tenant-id'', UStr (ownershipTenantID tenantID)),
                    (''inference.opendatahub.io/external-gateway'', UStr gatewayName),
                    (''inference.opendatahub.io/external-gateway-namespace'', UStr ns)]
      in [(''apiVersion'', UStr ''networking.istio.io/v1''), (''kind'', UStr ''DestinationRule''),
          (''metadata'', UMap [(''name'', UStr name), (''namespace'', UStr ns), (''labels'', UMap labels)]),
          (''spec'', UMap [(''exportTo'', UList [UStr ''*'']), (''host'', UStr (pe_host endpoint)),
             (''trafficPolicy'', UMap [(''tls'', UMap tls)])])])"

definition providerDestinationRuleForTenant :: "Route \<Rightarrow> string \<Rightarrow> string \<Rightarrow> umap" where
  "providerDestinationRuleForTenant route ns tenantID = providerDestinationRuleAtGateway route [] ns tenantID"

definition providerDestinationRule :: "Route \<Rightarrow> string \<Rightarrow> umap" where
  "providerDestinationRule route ns = providerDestinationRuleForTenant route ns []"

definition providerSelectionSink :: "(string \<Rightarrow> string list) \<Rightarrow> Route \<Rightarrow> string \<Rightarrow> umap" where
  "providerSelectionSink dns1035 route namespace =
     [(''apiVersion'', UStr ''v1''), (''kind'', UStr ''Service''),
      (''metadata'', UMap (labelledMetadata (providerSelectionSinkName dns1035 (Model route)) namespace externalModelLabel (Model route))),
      (''spec'', UMap [(''ports'', UList [UMap [(''name'', UStr ''https''), (''port'', UInt 443), (''targetPort'', UInt 443)]])])]"

subsection \<open>HTTPRoutes\<close>

definition withdrawalRequestTimeoutSeconds :: int where
  "withdrawalRequestTimeoutSeconds = 300"

definition requestTimeout :: "string \<times> uval" where
  "requestTimeout = (''timeouts'', UMap [(''request'', UStr (format_int withdrawalRequestTimeoutSeconds @ ''s''))])"

definition providerURLRewrite :: "providerEndpoint \<Rightarrow> umap" where
  "providerURLRewrite endpoint =
     [(''type'', UStr ''URLRewrite''),
      (''urlRewrite'', UMap [(''hostname'', UStr (pe_host endpoint)),
         (''path'', UMap [(''type'', UStr ''ReplacePrefixMatch''), (''replacePrefixMatch'', UStr ''/'')])])]"

definition providerHostnameRewrite :: "providerEndpoint \<Rightarrow> umap" where
  "providerHostnameRewrite endpoint =
     [(''type'', UStr ''URLRewrite''), (''urlRewrite'', UMap [(''hostname'', UStr (pe_host endpoint))])]"

definition removeInternalRoutingHeaders :: umap where
  "removeInternalRoutingHeaders =
     [(''type'', UStr ''RequestHeaderModifier''),
      (''requestHeaderModifier'', UMap [(''remove'', UList [UStr ''x-ai-routing-candidate'', UStr ''x-ai-routing-request-id'',
         UStr ''x-ai-routing-revision''])])]"

definition exact_header :: "string \<Rightarrow> string \<Rightarrow> uval" where
  "exact_header name v = UMap [(''name'', UStr name), (''type'', UStr ''Exact''), (''value'', UStr v)]"

definition path_match :: "string \<Rightarrow> string \<Rightarrow> string \<times> uval" where
  "path_match kind v = (''path'', UMap [(''type'', UStr kind), (''value'', UStr v)])"

definition backend_refs :: "string \<Rightarrow> int \<Rightarrow> string \<times> uval" where
  "backend_refs name port = (''backendRefs'', UList [UMap [(''name'', UStr name), (''port'', UInt port)]])"

definition provider_rule :: "uval list \<Rightarrow> Route \<Rightarrow> umap \<Rightarrow> umap" where
  "provider_rule matches candidate rewrite =
     [(''matches'', UList matches), backend_refs (ServiceName candidate) (providerPort candidate),
      (''filters'', UList [UMap rewrite, UMap removeInternalRoutingHeaders]), requestTimeout]"

definition body_matches :: "string \<Rightarrow> Route \<Rightarrow> uval list" where
  "body_matches clientName candidate =
     (let stableID = RouteStableID candidate in
      UMap [(''headers'', UList [exact_header ''X-Gateway-Model-Name'' clientName, exact_header selectedProviderHeader stableID])]
      # (if APITranslationEnabled candidate \<and> Path candidate \<noteq> []
         then [UMap [path_match ''Exact'' (Path candidate), (''headers'', UList [exact_header selectedProviderHeader stableID])]] else []))"

definition candidate_rules :: "string \<Rightarrow> string \<Rightarrow> Route \<Rightarrow> umap list" where
  "candidate_rules path clientName candidate =
     [provider_rule [UMap [path_match ''PathPrefix'' path,
         (''headers'', UList [exact_header selectedProviderHeader (RouteStableID candidate)])]]
        candidate (providerURLRewrite (providerEndpointForRoute candidate)),
      provider_rule (body_matches clientName candidate) candidate (providerHostnameRewrite (providerEndpointForRoute candidate))]"

text \<open>\<open>seenProviders\<close>: the first route of every Service.\<close>

definition add_provider :: "Route \<Rightarrow> Route list \<Rightarrow> Route list" where
  "add_provider candidate acc = (if ServiceName candidate \<in> set (map ServiceName acc) then acc else acc @ [candidate])"

definition seen_providers :: "Route list \<Rightarrow> Route list" where
  "seen_providers routes = fold add_provider routes []"

definition sink_rules :: "string \<Rightarrow> string \<Rightarrow> string \<Rightarrow> umap list" where
  "sink_rules sinkName path clientName =
     [[(''matches'', UList [UMap [path_match ''PathPrefix'' path]]), backend_refs sinkName 443, requestTimeout],
      [(''matches'', UList [UMap [(''headers'', UList [exact_header ''X-Gateway-Model-Name'' clientName])]]), backend_refs sinkName 443,
       requestTimeout]]"

definition route_rules :: "(string \<Rightarrow> string list) \<Rightarrow> Route list \<Rightarrow> string \<Rightarrow> umap list" where
  "route_rules dns1035 routes ns =
     (let route = hd routes; path = ''/'' @ ns @ ''/'' @ ClientName route in
      concat (map (candidate_rules path (ClientName route)) (seen_providers routes))
      @ sink_rules (providerSelectionSinkName dns1035 (Model route)) path (ClientName route))"

text \<open>The JSON form of a route: every field under its Go name, in the order of the struct.\<close>

definition route_members :: "Route \<Rightarrow> (string \<times> json) list" where
  "route_members r =
     [(''Model'', j_str (Model r)), (''ClientName'', j_str (ClientName r)), (''Namespace'', j_str (Namespace r)),
      (''Provider'', j_str (Provider r)), (''ProviderNamespace'', j_str (ProviderNamespace r)), (''ProviderType'', j_str (ProviderType r)),
      (''Cluster'', j_str (Cluster r)), (''Endpoint'', j_str (Endpoint r)), (''Port'', j_int (Port r)),
      (''TLSCACertificates'', j_str (TLSCACertificates r)), (''TLSCredentialName'', j_str (TLSCredentialName r)),
      (''TargetModel'', j_str (TargetModel r)), (''APIFormat'', j_str (APIFormat r)), (''Path'', j_str (Path r)),
      (''APITranslationEnabled'', JBool (APITranslationEnabled r)), (''Weight'', j_int (Weight r)), (''AuthType'', j_str (AuthType r)),
      (''SecretName'', j_str (SecretName r)), (''SecretKey'', j_str (SecretKey r)), (''StableID'', j_str (StableID r)),
      (''SecretNamespace'', j_str (SecretNamespace r))]"

definition enc_route :: "Route \<Rightarrow> json" where
  "enc_route r = j_obj (route_members r)"

definition profiles_text :: "Route list \<Rightarrow> string" where
  "profiles_text routes = marshal (JArr (map enc_route (filter (\<lambda>r. \<not> CrossNamespace r) routes)))"

definition modelHTTPRouteSet :: "(string \<Rightarrow> string list) \<Rightarrow> Route list \<Rightarrow> string \<Rightarrow> string \<Rightarrow> string \<Rightarrow> umap" where
  "modelHTTPRouteSet dns1035 routes ns gateway gatewayNS =
     (if routes = [] then []
      else
        (let route = hd routes;
             parent = (''name'', UStr gateway) # (if gatewayNS \<noteq> [] \<and> gatewayNS \<noteq> ns then [(''namespace'', UStr gatewayNS)] else [])
         in [(''apiVersion'', UStr ''gateway.networking.k8s.io/v1''), (''kind'', UStr ''HTTPRoute''),
             (''metadata'', UMap (labelledMetadata (modelRouteName (Model route)) ns externalModelLabel (Model route)
                @ [(''annotations'', UMap [(AnnotationHomeRuntimeRoutes, UStr (profiles_text routes))])])),
             (''spec'', UMap [(''parentRefs'', UList [UMap parent]), (''rules'', UList (map UMap (route_rules dns1035 routes ns)))])]))"

definition modelHTTPRoute :: "(string \<Rightarrow> string list) \<Rightarrow> Route \<Rightarrow> string \<Rightarrow> string \<Rightarrow> string \<Rightarrow> umap" where
  "modelHTTPRoute dns1035 route ns gateway gatewayNS = modelHTTPRouteSet dns1035 [route] ns gateway gatewayNS"

text \<open>The number of rules, counted without rendering them: the pair of a Service, and the visited Services.\<close>

definition count_provider :: "Route \<Rightarrow> nat \<times> string list \<Rightarrow> nat \<times> string list" where
  "count_provider route st =
     (case st of (n, seenProviders) \<Rightarrow>
        if ServiceName route \<in> set seenProviders then st else (n + 2, ServiceName route # seenProviders))"

definition modelHTTPRouteRuleCount :: "Route list \<Rightarrow> nat" where
  "modelHTTPRouteRuleCount routes = (if routes = [] then 0 else fst (fold count_provider routes (2, [])))"

definition routesNeedTranslation :: "Route list \<Rightarrow> bool" where
  "routesNeedTranslation routes = list_ex (\<lambda>route. APIFormat route = ''messages'') routes"

end
