(* ===== verification/Admission.thy ===== *)
theory Admission
  imports Transport
begin

text \<open>
  What the controller accepts before it publishes: validation of providers and credentials, exclusion of models that cannot be rendered,
  and the explanation of models without a route, \<open>src/pkg/controller/reconciler.go\<close>.

  Secrets are read through \<open>secret_reader\<close>: the live reader of the API server, \<open>None\<close> for a nil reader. The validation of label values
  by apimachinery and the decoding of PEM certificates by \<open>crypto/x509\<close> are parameters.
\<close>

subsection \<open>Reads\<close>

type_synonym secret_data = "(string \<times> string) list"

type_synonym secret_reader = "(string \<Rightarrow> string \<Rightarrow> secret_data get_result) option"

datatype CredentialFault =
    CredNoReader
  | CredNotFound string string
  | CredRead string
  | CredMissingKey string string string
  | CredUnsupported string string string
  | CredIncomplete string string
  | CaNotReady

text \<open>\<open>transientReadError\<close>: an API read that failed for a reason other than the object being absent. \<open>retriable\<close> tells whether the error of a
  read is an API status, a URL error or a cancelled context; absent objects and missing keys are not errors of the read.\<close>

definition transientReadError :: "(string \<Rightarrow> bool) \<Rightarrow> CredentialFault option \<Rightarrow> bool" where
  "transientReadError retriable err = (case err of Some (CredRead e) \<Rightarrow> retriable e | _ \<Rightarrow> False)"

subsection \<open>Providers\<close>

text \<open>\<open>strings.ToLower\<close> as far as the result can be ASCII: besides the ASCII letters, U+0130 becomes i and U+212A becomes k.\<close>

fun to_lower :: "string \<Rightarrow> string" where
  "to_lower [] = []"
| "to_lower (c # cs) =
     (if has_prefix (c # cs) [CHR 0xC4, CHR 0xB0] then CHR ''i'' # to_lower (drop 1 cs)
      else if has_prefix (c # cs) [CHR 0xE2, CHR 0x84, CHR 0xAA] then CHR ''k'' # to_lower (drop 2 cs)
      else ascii_lower c # to_lower cs)"

datatype ProviderFault =
    FaultEndpoint EndpointFault
  | FaultPort TransportError
  | FaultTLS TlsError
  | FaultAuthRequired
  | FaultAuthUnsupported string
  | FaultSecretRequired
  | FaultTrust TrustError

definition validateProvider :: "k8s_lib \<Rightarrow> ExternalProvider \<Rightarrow> ProviderFault option" where
  "validateProvider lib p =
     (case validateProviderEndpoint (ps_Endpoint (ep_Spec p)) of
        Some e \<Rightarrow> Some (FaultEndpoint e)
      | None \<Rightarrow>
          (case ProviderPort (Some p) of
             Inl e \<Rightarrow> Some (FaultPort e)
           | Inr _ \<Rightarrow>
               (case ValidateProviderTLS (Some p) of
                  Some e \<Rightarrow> Some (FaultTLS e)
                | None \<Rightarrow>
                    (let authType = AuthTypeOf (to_lower (trim_space (ac_Type (ps_Auth (ep_Spec p))))) in
                     if authType \<noteq> ''apikey'' then
                       Some (if authType = [] then FaultAuthRequired else FaultAuthUnsupported (ac_Type (ps_Auth (ep_Spec p))))
                     else if nr_Name (ac_SecretRef (ps_Auth (ep_Spec p))) = [] then Some FaultSecretRequired
                     else map_option FaultTrust (ValidateProviderTrust lib (ps_Config (ep_Spec p)))))))"

definition istioCASuffix :: string where
  "istioCASuffix = ''-cacert''"

definition validateProviderCACredential ::
    "(string \<Rightarrow> bool) \<Rightarrow> secret_reader \<Rightarrow> ExternalProvider \<Rightarrow> string \<Rightarrow> CredentialFault option" where
  "validateProviderCACredential pem reader p gatewayNamespace =
     (let name = trim_space (sm_get (ps_Config (ep_Spec p)) ''tls.credentialName'') in
      if name = [] then None
      else (case reader of
              None \<Rightarrow> Some CredNoReader
            | Some get \<Rightarrow>
                (case (case get gatewayNamespace (name @ istioCASuffix) of GetNotFound \<Rightarrow> get gatewayNamespace name | r \<Rightarrow> r) of
                   GetNotFound \<Rightarrow> Some CaNotReady
                 | GetError e \<Rightarrow> Some (CredRead e)
                 | GetOk secret \<Rightarrow>
                     (let ca = (if sm_get secret ''cacert'' = [] then sm_get secret ''ca.crt'' else sm_get secret ''cacert'')
                      in if pem ca then None else Some CaNotReady))))"

definition validateProviderCredential :: "secret_reader \<Rightarrow> ExternalProvider \<Rightarrow> CredentialFault option" where
  "validateProviderCredential reader p =
     (case reader of
        None \<Rightarrow> Some CredNoReader
      | Some get \<Rightarrow>
          (let name = nr_Name (ac_SecretRef (ps_Auth (ep_Spec p))) in
           case get (ep_Namespace p) name of
             GetNotFound \<Rightarrow> Some (CredNotFound (ep_Namespace p) name)
           | GetError e \<Rightarrow> Some (CredRead e)
           | GetOk secret \<Rightarrow>
               if sm_has secret ''api-key'' then None else Some (CredMissingKey (ep_Namespace p) name ''api-key'')))"

subsection \<open>Resolved credentials\<close>

text \<open>One route; the state is the list of Secrets already read.\<close>

definition check_credential ::
    "(string \<Rightarrow> string \<Rightarrow> secret_data get_result) \<Rightarrow> Route \<Rightarrow> (string \<times> string) list \<Rightarrow> (CredentialFault, (string \<times> string) list) res" where
  "check_credential get route seen =
     (if AuthType route = [] then Inr seen
      else if AuthType route \<noteq> ''apikey'' then Inl (CredUnsupported (Model route) (Provider route) (AuthType route))
      else if SecretName route = [] \<or> SecretKey route = [] then Inl (CredIncomplete (Model route) (Provider route))
      else
        (let key = (SecretRefNamespace route, SecretName route) in
         if key \<in> set seen then Inr seen
         else (case get (SecretRefNamespace route) (SecretName route) of
                 GetNotFound \<Rightarrow> Inl (CredNotFound (SecretRefNamespace route) (SecretName route))
               | GetError e \<Rightarrow> Inl (CredRead e)
               | GetOk secret \<Rightarrow>
                   if sm_has secret (SecretKey route) then Inr (key # seen)
                   else Inl (CredMissingKey (SecretRefNamespace route) (SecretName route) (SecretKey route)))))"

definition validateResolvedCredentials :: "secret_reader \<Rightarrow> Route list \<Rightarrow> CredentialFault option" where
  "validateResolvedCredentials reader routes =
     (case reader of
        None \<Rightarrow> Some CredNoReader
      | Some get \<Rightarrow> (case fold_res (check_credential get) routes [] of Inl e \<Rightarrow> Some e | Inr _ \<Rightarrow> None))"

datatype RouteSetFault = FaultCredential CredentialFault | FaultSelection EnvelopeError

definition validateResolvedRouteSet :: "secret_reader \<Rightarrow> ResolvedRouteSet \<Rightarrow> RouteSetFault option" where
  "validateResolvedRouteSet reader rs =
     (case validateResolvedCredentials reader (Routes rs) of
        Some e \<Rightarrow> Some (FaultCredential e)
      | None \<Rightarrow> map_option FaultSelection (ValidateSelectionMetadata (Some rs)))"

subsection \<open>Models that cannot be rendered\<close>

definition maxHTTPRouteRules :: nat where
  "maxHTTPRouteRules = 16"

datatype Rejection =
    InvalidModelName string "string list"
  | TooManyRules nat
  | RepeatsProvider string

definition validateModelName :: "(string \<Rightarrow> string list) \<Rightarrow> string \<Rightarrow> Rejection option" where
  "validateModelName label name = (if label name \<noteq> [] then Some (InvalidModelName name (label name)) else None)"

definition reasonInvalidName :: string where "reasonInvalidName = ''InvalidName''"
definition reasonReconcileFailed :: string where "reasonReconcileFailed = ''ReconcileFailed''"

definition rejectionReason :: "Rejection \<Rightarrow> string" where
  "rejectionReason err = (case err of InvalidModelName _ _ \<Rightarrow> reasonInvalidName | _ \<Rightarrow> reasonReconcileFailed)"

definition provider_binding :: "Route \<Rightarrow> string" where
  "provider_binding route = ClientName route @ [CHR 0x00] @ ProviderNamespace route @ ''/'' @ Provider route"

text \<open>The first loop: rejections by name and by number of rules; then the bindings seen and the client names with a repeated provider.\<close>

definition reject_shape :: "(string \<Rightarrow> string list) \<Rightarrow> ModelRoutes \<Rightarrow> (string \<times> Rejection) list \<Rightarrow> (string \<times> Rejection) list" where
  "reject_shape label model rejected =
     (let rejected1 = (case mr_Routes model of
                         [] \<Rightarrow> rejected
                       | route # _ \<Rightarrow>
                           (case validateModelName label (Model route) of
                              Some e \<Rightarrow> AList.update (mr_ModelRef model) e rejected
                            | None \<Rightarrow> rejected));
          count = modelHTTPRouteRuleCount (mr_Routes model)
      in if count > maxHTTPRouteRules then AList.update (mr_ModelRef model) (TooManyRules count) rejected1 else rejected1)"

definition note_binding :: "Route \<Rightarrow> string list \<times> string list \<Rightarrow> string list \<times> string list" where
  "note_binding route st =
     (case st of (bindings, duplicateProviders) \<Rightarrow>
        (provider_binding route # bindings,
         if provider_binding route \<in> set bindings then ClientName route # duplicateProviders else duplicateProviders))"

text \<open>The second loop: the valid models and the final rejections.\<close>

definition admit_model ::
    "string list \<Rightarrow> ModelRoutes \<Rightarrow> ModelRoutes list \<times> (string \<times> Rejection) list \<Rightarrow> ModelRoutes list \<times> (string \<times> Rejection) list" where
  "admit_model duplicateProviders model st =
     (case st of (valid, rejected) \<Rightarrow>
        (let rejected' = (case List.find (\<lambda>route. ClientName route \<in> set duplicateProviders) (mr_Routes model) of
                            None \<Rightarrow> rejected
                          | Some route \<Rightarrow> AList.update (mr_ModelRef model) (RepeatsProvider (ClientName route)) rejected)
         in (if map_of rejected' (mr_ModelRef model) = None then valid @ [model] else valid, rejected')))"

definition excludeUnsupportedModelSelection ::
    "(string \<Rightarrow> string list) \<Rightarrow> ResolvedRouteSet \<Rightarrow> ResolvedRouteSet \<times> (string \<times> Rejection) list" where
  "excludeUnsupportedModelSelection label rs =
     (let rejected = fold (reject_shape label) (Models rs) [];
          duplicateProviders = snd (fold note_binding (Routes rs) ([], []))
      in case fold (admit_model duplicateProviders) (Models rs) ([], rejected) of
           (valid, rejected') \<Rightarrow> (\<lparr>Models = valid\<rparr>, rejected'))"

subsection \<open>Models without a route\<close>

definition only_skipped :: "SkipReason \<Rightarrow> ResolvedRouteSet option \<Rightarrow> string list" where
  "only_skipped reason rs =
     (case rs of
        None \<Rightarrow> []
      | Some s \<Rightarrow> remdups (map mr_ModelRef (filter (\<lambda>m. mr_Routes m = [] \<and> mr_Skips m \<noteq> []
          \<and> list_all (\<lambda>k. sk_Reason k = reason) (mr_Skips m)) (Models s))))"

text \<open>Both loops build a set of model references, here a list without repetitions.\<close>

definition translationPolicyExcludedModels :: "ResolvedRouteSet option \<Rightarrow> string list" where
  "translationPolicyExcludedModels rs = only_skipped SkipTranslationDisabled rs"

definition explicitlyWeightDisabledModels :: "ResolvedRouteSet option \<Rightarrow> string list" where
  "explicitlyWeightDisabledModels rs = only_skipped SkipWeightDisabled rs"

definition all_models :: "ResolvedRouteSet option \<Rightarrow> string list \<Rightarrow> bool" where
  "all_models rs excluded = (case rs of None \<Rightarrow> False | Some s \<Rightarrow> Models s \<noteq> [] \<and> length excluded = length (Models s))"

definition allRoutesExcludedByPolicy :: "ResolvedRouteSet option \<Rightarrow> bool" where
  "allRoutesExcludedByPolicy rs = all_models rs (translationPolicyExcludedModels rs)"

definition allRoutesExplicitlyWeightDisabled :: "ResolvedRouteSet option \<Rightarrow> bool" where
  "allRoutesExplicitlyWeightDisabled rs = all_models rs (explicitlyWeightDisabledModels rs)"

definition reasonRefNotPermitted :: string where "reasonRefNotPermitted = ''RefNotPermitted''"
definition reasonTranslationDisabled :: string where "reasonTranslationDisabled = ''APITranslationDisabled''"
definition reasonModelProviderNotReady :: string where "reasonModelProviderNotReady = ''ProviderNotReady''"

text \<open>The reason, and the provider and message of every skip, from which the status message is joined.\<close>

definition unroutedStatus :: "ResolvedRouteSet option \<Rightarrow> string \<Rightarrow> (string \<times> (string \<times> SkipMessage) list) option" where
  "unroutedStatus rs modelRef =
     (case rs of
        None \<Rightarrow> None
      | Some s \<Rightarrow>
          (case List.find (\<lambda>m. mr_ModelRef m = modelRef) (Models s) of
             None \<Rightarrow> None
           | Some m \<Rightarrow>
               if mr_Routes m \<noteq> [] \<or> mr_Skips m = [] then None
               else Some (if modelRef \<in> set (translationPolicyExcludedModels rs) then reasonTranslationDisabled
                          else if list_ex (\<lambda>k. sk_Reason k = SkipRefNotPermitted) (mr_Skips m) then reasonRefNotPermitted
                          else reasonModelProviderNotReady,
                          map (\<lambda>k. (sk_ProviderRef k, sk_Message k)) (mr_Skips m))))"

definition namespaceAllowed :: "string \<Rightarrow> string \<Rightarrow> bool" where
  "namespaceAllowed controllerNamespace namespace \<longleftrightarrow>
     namespace \<noteq> [] \<and> (controllerNamespace = [] \<or> controllerNamespace = namespace)"

definition ServedByTenantGateway :: "ExternalModel \<Rightarrow> string \<Rightarrow> string \<Rightarrow> bool" where
  "ServedByTenantGateway model gatewayName gatewayNamespace \<longleftrightarrow>
     ms_GatewayRefs (em_Spec model) = []
     \<or> \<lparr>no_Name = gatewayName, no_Namespace = gatewayNamespace\<rparr> \<in> set (ms_GatewayRefs (em_Spec model))"

definition homeModelInputs :: "ExternalModel list \<Rightarrow> string \<Rightarrow> string \<Rightarrow> ExternalModel list \<times> (string \<times> ExternalModel) list" where
  "homeModelInputs models gatewayName gatewayNamespace =
     (let served = filter (\<lambda>m. \<not> om_Deleting (em_Meta m) \<and> ServedByTenantGateway m gatewayName gatewayNamespace) models
      in (served, rev (map (\<lambda>m. (em_Name m, m)) served)))"

text \<open>The names are unique within the namespace that was listed, so it does not matter that \<open>slices.SortFunc\<close> is not stable.\<close>

definition sortModelsByName :: "ExternalModel list \<Rightarrow> ExternalModel list" where
  "sortModelsByName models = sort_key em_Name models"

end
