(* ===== verification/TransportCorrect.thy ===== *)
theory TransportCorrect
  imports Transport WithdrawalCorrect
begin

text \<open>
  What was rendered is what is read: the withdrawal path finds in an applied HTTPRoute the routes it was rendered from, so rendering
  them again changes no rule, and the rules counted by admission are the rules rendered.
\<close>

subsection \<open>Endpoints\<close>

text \<open>An endpoint that names a host, and possibly a port in range.\<close>

definition plain_endpoint :: "string \<Rightarrow> string \<Rightarrow> int \<Rightarrow> bool" where
  "plain_endpoint e h n \<longleftrightarrow>
     (\<exists>p. e = h @ p \<and> h \<noteq> [] \<and> list_all dns_char h \<and> plain_port p \<and> endpoint_port (drop 1 p) = Some n)"

lemma endpoint_chars:
  assumes "list_all dns_char h" "plain_port p" "c \<in> set (h @ p)"
  shows "dns_char c \<or> c = CHR '':''"
  using assms digit_dns_char by (auto simp: list_all_iff plain_port_def)

lemma ascii_no_space: "list_all (\<lambda>w. list_ex (\<lambda>c. \<not> dns_char c \<and> c \<noteq> CHR '':'') w) ws_runes"
  by code_simp

lemma trim_space_endpoint:
  assumes "\<And>c. c \<in> set s \<Longrightarrow> dns_char c \<or> c = CHR '':''"
  shows "trim_space s = s"
proof (rule trim_space_id, intro ballI conjI notI)
  fix w assume "w \<in> set ws_runes"
  with ascii_no_space obtain c where c: "c \<in> set w" "\<not> dns_char c" "c \<noteq> CHR '':''" by (auto simp: list_all_iff list_ex_iff)
  show False if "has_prefix s w"
     using that c assms [of c] by (auto simp: has_prefix_iff)
  show False if "has_suffix s w"
     using that c assms [of c] by (auto simp: has_suffix_iff)
qed

lemma parse_plain_endpoint:
  assumes "plain_endpoint e h n"
  shows "\<exists>a. parseProviderEndpoint e = Inr \<lparr>pe_authority = a, pe_host = h, pe_port = n\<rparr>"
proof -
  from assms obtain p where e: "e = h @ p" "h \<noteq> []" "list_all dns_char h" "plain_port p" "endpoint_port (drop 1 p) = Some n"
    by (auto simp: plain_endpoint_def)
  have chars: "dns_char c \<or> c = CHR '':''" if "c \<in> set e" for c using endpoint_chars [OF e(3,4)] that e(1) by simp
  have trim: "trim_space e = e" by (rule trim_space_endpoint) (rule chars)
  have seps: "list_all (\<lambda>c. \<not> dns_char c \<and> c \<noteq> CHR '':'') endpoint_separators" by code_simp
  then have "\<not> contains_any e endpoint_separators" using chars by (auto simp: contains_any_def list_ex_iff list_all_iff)
  moreover have "\<not> contains_str e ''://''"
  proof
    assume "contains_str e ''://''"
    then have "CHR ''/'' \<in> set e" by (auto simp: contains_str_iff)
    then show False using chars special_not_dns [of "CHR ''/''"] by auto
  qed
  moreover have "Parse (''https://'' @ e) = Some (empty_url\<lparr>url_Scheme := ''https'', url_Host := e, url_Path := []\<rparr>)"
    using Parse_plain [OF e(3,4), of "[]" True] by (simp add: plain_path_def e(1))
  moreover have "splitHostPort e = (h, drop 1 p)" using splitHostPort_plain [OF e(3,4)] by (simp add: e(1))
  moreover have "e \<noteq> []" using e(1,2) by simp
  ultimately show ?thesis
    using e(2,5) by (simp add: parseProviderEndpoint_def trim Let_def Hostname_def UrlPort_def empty_url_def)
qed

lemma endpoint_port_range: "endpoint_port p = Some n \<Longrightarrow> 1 \<le> n \<and> n \<le> 65535"
  by (auto simp: endpoint_port_def split: if_split_asm option.split_asm)

lemma route_endpoint:
  assumes "plain_endpoint (Endpoint r) h n"
  shows "pe_host (providerEndpointForRoute r) = h"
    "pe_port (providerEndpointForRoute r) = (if Port r \<noteq> 0 then Port r else n)"
  using parse_plain_endpoint [OF assms] by (auto simp: providerEndpointForRoute_def)

text \<open>The endpoint that the withdrawal path writes for a host and a port is such an endpoint.\<close>

definition written_endpoint :: "string \<Rightarrow> int \<Rightarrow> string" where
  "written_endpoint h n = (if n = 443 then h else join_host_port (trim_set h ''[]'') (format_int n))"

lemma dropWhile_absent: "(\<And>x. x \<in> set s \<Longrightarrow> \<not> P x) \<Longrightarrow> dropWhile P s = s"
  by (cases s) auto

lemma trim_set_absent:
  assumes "\<And>c. c \<in> set s \<Longrightarrow> c \<notin> set cuts"
  shows "trim_set s cuts = s"
  using dropWhile_absent [of s "\<lambda>c. c \<in> set cuts"] dropWhile_absent [of "rev s" "\<lambda>c. c \<in> set cuts"] assms
  by (simp add: trim_set_def trim_right_set_def)

lemma written_plain:
  assumes "h \<noteq> []" "list_all dns_char h" "1 \<le> n" "n \<le> 65535"
  shows "plain_endpoint (written_endpoint h n) h n"
proof (cases "n = 443")
  case True
  with assms show ?thesis by (auto simp: plain_endpoint_def written_endpoint_def plain_port_def endpoint_port_def intro!: exI [of _ "[]"])
next
  case False
  have no_bracket: "c \<notin> set h" if "c \<in> set ''[]:''" for c using plain_absent [OF assms(2), of c] that by auto
  then have "trim_set h ''[]'' = h" by (intro trim_set_absent) auto
  then have "written_endpoint h n = h @ CHR '':'' # format_nat (nat n)"
    using False no_bracket assms(3) by (simp add: written_endpoint_def join_host_port_def format_int_def)
  moreover have "list_all digit_char (format_nat (nat n))" using format_nat_digits by (auto simp: list_all_iff digit_char_def)
  moreover have "endpoint_port (format_nat (nat n)) = Some n" using assms by (simp add: endpoint_port_def format_nat_not_Nil)
  ultimately show ?thesis
    using assms format_nat_not_Nil unfolding plain_endpoint_def plain_port_def
    by (intro exI [of _ "CHR '':'' # format_nat (nat n)"]) simp
qed

subsection \<open>Profiles\<close>

definition ok_route :: "Route \<Rightarrow> bool" where
  "ok_route r \<longleftrightarrow>
     list_all valid_utf8 [Model r, ClientName r, Namespace r, Provider r, ProviderNamespace r, ProviderType r, Cluster r, Endpoint r,
       TLSCACertificates r, TLSCredentialName r, TargetModel r, APIFormat r, Path r, AuthType r, SecretName r, SecretKey r, StableID r,
       SecretNamespace r]
     \<and> min_int64 \<le> Port r \<and> Port r \<le> max_int64 \<and> min_int64 \<le> Weight r \<and> Weight r \<le> max_int64"

lemma route_keys_utf8: "list_all valid_utf8 route_fields"
  by code_simp

lemma route_member_keys: "map fst (route_members r) = route_fields"
  unfolding route_members_def route_fields_def list.map fst_conv ..

lemma upd_route_simps:
  "upd_route ''Model'' v r = bind_res (dec_str v (Model r)) (\<lambda>x. Inr (r\<lparr>Model := x\<rparr>))"
  "upd_route ''ClientName'' v r = bind_res (dec_str v (ClientName r)) (\<lambda>x. Inr (r\<lparr>ClientName := x\<rparr>))"
  "upd_route ''Namespace'' v r = bind_res (dec_str v (Namespace r)) (\<lambda>x. Inr (r\<lparr>Namespace := x\<rparr>))"
  "upd_route ''Provider'' v r = bind_res (dec_str v (Provider r)) (\<lambda>x. Inr (r\<lparr>Provider := x\<rparr>))"
  "upd_route ''ProviderNamespace'' v r = bind_res (dec_str v (ProviderNamespace r)) (\<lambda>x. Inr (r\<lparr>ProviderNamespace := x\<rparr>))"
  "upd_route ''ProviderType'' v r = bind_res (dec_str v (ProviderType r)) (\<lambda>x. Inr (r\<lparr>ProviderType := x\<rparr>))"
  "upd_route ''Cluster'' v r = bind_res (dec_str v (Cluster r)) (\<lambda>x. Inr (r\<lparr>Cluster := x\<rparr>))"
  "upd_route ''Endpoint'' v r = bind_res (dec_str v (Endpoint r)) (\<lambda>x. Inr (r\<lparr>Endpoint := x\<rparr>))"
  "upd_route ''Port'' v r = bind_res (dec_int64 v (Port r)) (\<lambda>x. Inr (r\<lparr>Port := x\<rparr>))"
  "upd_route ''TLSCACertificates'' v r = bind_res (dec_str v (TLSCACertificates r)) (\<lambda>x. Inr (r\<lparr>TLSCACertificates := x\<rparr>))"
  "upd_route ''TLSCredentialName'' v r = bind_res (dec_str v (TLSCredentialName r)) (\<lambda>x. Inr (r\<lparr>TLSCredentialName := x\<rparr>))"
  "upd_route ''TargetModel'' v r = bind_res (dec_str v (TargetModel r)) (\<lambda>x. Inr (r\<lparr>TargetModel := x\<rparr>))"
  "upd_route ''APIFormat'' v r = bind_res (dec_str v (APIFormat r)) (\<lambda>x. Inr (r\<lparr>APIFormat := x\<rparr>))"
  "upd_route ''Path'' v r = bind_res (dec_str v (Path r)) (\<lambda>x. Inr (r\<lparr>Path := x\<rparr>))"
  "upd_route ''APITranslationEnabled'' v r = bind_res (dec_bool v (APITranslationEnabled r)) (\<lambda>x. Inr (r\<lparr>APITranslationEnabled := x\<rparr>))"
  "upd_route ''Weight'' v r = bind_res (dec_int64 v (Weight r)) (\<lambda>x. Inr (r\<lparr>Weight := x\<rparr>))"
  "upd_route ''AuthType'' v r = bind_res (dec_str v (AuthType r)) (\<lambda>x. Inr (r\<lparr>AuthType := x\<rparr>))"
  "upd_route ''SecretName'' v r = bind_res (dec_str v (SecretName r)) (\<lambda>x. Inr (r\<lparr>SecretName := x\<rparr>))"
  "upd_route ''SecretKey'' v r = bind_res (dec_str v (SecretKey r)) (\<lambda>x. Inr (r\<lparr>SecretKey := x\<rparr>))"
  "upd_route ''StableID'' v r = bind_res (dec_str v (StableID r)) (\<lambda>x. Inr (r\<lparr>StableID := x\<rparr>))"
  "upd_route ''SecretNamespace'' v r = bind_res (dec_str v (SecretNamespace r)) (\<lambda>x. Inr (r\<lparr>SecretNamespace := x\<rparr>))"
  by (simp_all add: upd_route_def)

lemma dec_route_enc:
  assumes "ok_route r"
  shows "dec_route (enc_route r) = Inr r"
proof -
  have keys: "k \<in> set route_fields \<Longrightarrow> k \<in> set route_fields \<and> valid_utf8 k" for k using route_keys_utf8 by (simp only: list_all_iff)
  have "dec_route (enc_route r) = fold_res (\<lambda>(k, v). upd_route k v) (route_members r) zero_route"
    unfolding dec_route_def enc_route_def by (rule dec_fields_j_obj) (rule keys, simp only: route_member_keys)
  also have "\<dots> = Inr r"
    using assms by (simp add: route_members_def upd_route_simps ok_route_def zero_route_def)
  finally show ?thesis .
qed

interpretation profiles: json_codec "\<lambda>rs. JArr (map enc_route rs)" dec_profiles "list_all ok_route"
  by unfold_locales (auto simp: enc_route_def route_members_def dec_profiles_def list_all_iff intro!: dec_list_enc dec_route_enc)

subsection \<open>Rendered rules\<close>

lemma slice_field: "nested_doc u \<Longrightarrow> map_of m k = Some (UList xs) \<Longrightarrow> slice_or_nil u m [k] = xs"
  by (rule slice_or_nil_doc) simp_all

lemma slice_missing: "nested_doc u \<Longrightarrow> map_of m k = None \<Longrightarrow> slice_or_nil u m [k] = []"
  using nested_docD(1) [of u m "[k]"] by (simp add: slice_or_nil_def nested_typed_def)

lemma maps_of_UMap [simp]: "maps_of (map UMap ms) = ms" "maps_of [] = []" "maps_of (UMap m # vs) = m # maps_of vs"
  by (induction ms) (simp_all add: maps_of_def map_filter_simps)

lemma selected_header [simp]: "is_selected_header selectedProviderHeader" "\<not> is_selected_header ''X-Gateway-Model-Name''"
  by code_simp+

definition header_map :: "string \<Rightarrow> string \<Rightarrow> umap" where
  "header_map name v = [(''name'', UStr name), (''type'', UStr ''Exact''), (''value'', UStr v)]"

lemma header_map_simps [simp]:
  "exact_header name v = UMap (header_map name v)" "str_or_empty (header_map name v) ''name'' = name"
  "str_or_empty (header_map name v) ''value'' = v"
  by (simp_all add: exact_header_def header_map_def str_or_empty_def)

definition match_headers :: "unstr_lib \<Rightarrow> umap \<Rightarrow> umap list" where
  "match_headers u m = maps_of (slice_or_nil u m [''headers''])"

lemma match_headers_simps [simp]:
  assumes "nested_doc u"
  shows "match_headers u [(''headers'', UList hs)] = maps_of hs" "match_headers u [path_match k v, (''headers'', UList hs)] = maps_of hs"
    "match_headers u [path_match k v] = []"
  using assms by (simp_all add: match_headers_def slice_field slice_missing path_match_def)

lemma provider_rule_fields:
  assumes "nested_doc u"
  shows "slice_or_nil u (provider_rule ms c rw) [''matches''] = ms"
    "slice_or_nil u (provider_rule ms c rw) [''backendRefs''] = [UMap [(''name'', UStr (ServiceName c)), (''port'', UInt (providerPort c))]]"
    "slice_or_nil u (provider_rule ms c rw) [''filters''] = [UMap rw, UMap removeInternalRoutingHeaders]"
  using assms by (simp_all add: slice_field provider_rule_def backend_refs_def)

lemma stable_id_of_rule:
  "providerStableIDFromRule u rule =
     (case List.find (\<lambda>h. is_selected_header (str_or_empty h ''name''))
        (concat (map (match_headers u) (maps_of (slice_or_nil u rule [''matches''])))) of
        None \<Rightarrow> [] | Some h \<Rightarrow> str_or_empty h ''value'')"
  by (simp only: providerStableIDFromRule_def match_headers_def [abs_def])

lemma candidate_rules_id:
  assumes "nested_doc u" "rule \<in> set (candidate_rules path client c)"
  shows "providerStableIDFromRule u rule = RouteStableID c"
  using assms(2) unfolding candidate_rules_def
  by (auto simp: stable_id_of_rule provider_rule_fields [OF assms(1)] match_headers_simps [OF assms(1)] body_matches_def Let_def)

lemma sink_rules_id:
  assumes "nested_doc u" "rule \<in> set (sink_rules sink path client)"
  shows "providerStableIDFromRule u rule = []"
proof -
  have "slice_or_nil u rule [''matches''] \<in> {[UMap [path_match ''PathPrefix'' path]],
      [UMap [(''headers'', UList [exact_header ''X-Gateway-Model-Name'' client])]]}"
    using assms by (auto simp: sink_rules_def slice_field [OF assms(1)])
  then show ?thesis
    by (auto simp: stable_id_of_rule match_headers_simps [OF assms(1)])
qed

lemma rewrite_host:
  assumes "nested_doc u" "pe_host e \<noteq> []" "rw \<in> {providerURLRewrite e, providerHostnameRewrite e}"
  shows "filter_host u rw = Some (pe_host e)"
proof -
  have "NestedString u rw [''urlRewrite'', ''hostname''] = Inr (Some (pe_host e))"
    using assms(3) by (intro string_doc [OF assms(1)]) (auto simp: providerURLRewrite_def providerHostnameRewrite_def)
  then show ?thesis using assms(2) by (simp add: filter_host_def)
qed

lemma candidate_rules_endpoint:
  assumes "nested_doc u" "rule \<in> set (candidate_rules path client c)" "pe_host (providerEndpointForRoute c) \<noteq> []"
    and "1 \<le> providerPort c" "providerPort c \<le> 65535"
  shows "providerEndpointFromRule u rule [(''name'', UStr (ServiceName c)), (''port'', UInt (providerPort c))] =
    Inr (written_endpoint (pe_host (providerEndpointForRoute c)) (providerPort c))"
proof -
  obtain ms rw where rule: "rule = provider_rule ms c rw"
    and rw: "rw \<in> {providerURLRewrite (providerEndpointForRoute c), providerHostnameRewrite (providerEndpointForRoute c)}"
    using assms(2) by (auto simp: candidate_rules_def)
  have port: "NestedInt64 u [(''name'', UStr (ServiceName c)), (''port'', UInt (providerPort c))] [''port''] = Inr (Some (providerPort c))"
    by (rule int_doc [OF assms(1)]) simp
  show ?thesis
    using assms(4,5) by (simp add: providerEndpointFromRule_def rule provider_rule_fields [OF assms(1)] map_filter_simps
        rewrite_host [OF assms(1,3) rw] port written_endpoint_def)
qed

subsection \<open>Reading a rendered HTTPRoute\<close>

text \<open>A rendered object as the API server returns it, with its controlling owner.\<close>

definition str_at :: "umap \<Rightarrow> string list \<Rightarrow> string" where
  "str_at obj path = (case at_path obj path of Inr (Some (UStr s)) \<Rightarrow> s | _ \<Rightarrow> [])"

definition str_map_at :: "umap \<Rightarrow> string list \<Rightarrow> str_map" where
  "str_map_at obj path =
     (case at_path obj path of
        Inr (Some (UMap m)) \<Rightarrow> map (\<lambda>(k, v). (k, case v of UStr s \<Rightarrow> s | _ \<Rightarrow> [])) m
      | _ \<Rightarrow> [])"

definition stored_route :: "(string \<times> string \<times> string) option \<Rightarrow> umap \<Rightarrow> HTTPRoute" where
  "stored_route owner obj =
     \<lparr>hr_Name = str_at obj [''metadata'', ''name''], hr_Namespace = str_at obj [''metadata'', ''namespace''],
      hr_Labels = str_map_at obj [''metadata'', ''labels''], hr_Annotations = str_map_at obj [''metadata'', ''annotations''],
      hr_Controller = owner, hr_Object = obj\<rparr>"

definition model_owner :: "string \<Rightarrow> (string \<times> string \<times> string) option \<Rightarrow> bool" where
  "model_owner m owner \<longleftrightarrow> owner = None \<or> owner = Some (''ExternalModel'', m, ''inference.opendatahub.io/v1alpha1'')"

text \<open>A route of the tenant's own namespace, as the resolver builds it from validated objects.\<close>

definition home_route :: "k8s_lib \<Rightarrow> string \<Rightarrow> string \<Rightarrow> Route \<Rightarrow> bool" where
  "home_route lib ns m r \<longleftrightarrow>
     Model r = m \<and> Namespace r = ns \<and> \<not> CrossNamespace r \<and> validHomeRuntimeProfile lib r ns \<and> ok_route r
     \<and> Provider r \<noteq> [] \<and> slash_free (Provider r) \<and> \<not> has_prefix (Provider r) ''selection-required-''
     \<and> (\<exists>h n. plain_endpoint (Endpoint r) h n) \<and> 0 \<le> Port r \<and> Port r \<le> 65535"

lemma home_routeD:
  assumes "home_route lib ns m r" "m \<noteq> []" "slash_free m"
  shows "RouteStableID r = CandidateStableID m (Provider r)" "ServiceName r = providerServicePrefix @ Provider r"
    "Cluster r = ServiceName r" "splitTenantWithdrawalStableID (RouteStableID r) ns = (m, [], Provider r, True)"
    "pe_host (providerEndpointForRoute r) \<noteq> []" "list_all dns_char (pe_host (providerEndpointForRoute r))"
    "1 \<le> providerPort r" "providerPort r \<le> 65535"
proof -
  have r: "Model r = m" "\<not> CrossNamespace r" "validHomeRuntimeProfile lib r ns" "Provider r \<noteq> []" "slash_free (Provider r)"
    using assms(1) by (simp_all add: home_route_def)
  show sid: "RouteStableID r = CandidateStableID m (Provider r)"
    using r by (auto simp: validHomeRuntimeProfile_def RouteStableID_def split: if_split_asm)
  show "ServiceName r = providerServicePrefix @ Provider r" using r(2) by (simp add: ServiceName_def providerServicePrefix_def)
  show "Cluster r = ServiceName r" using r(3) by (auto simp: validHomeRuntimeProfile_def split: if_split_asm)
  show "splitTenantWithdrawalStableID (RouteStableID r) ns = (m, [], Provider r, True)"
    using candidate_not_scoped [OF assms(3) r(5)] split_candidate [OF assms(2) r(4,5)]
    by (simp add: splitTenantWithdrawalStableID_def sid)
  obtain h n where hn: "plain_endpoint (Endpoint r) h n" using assms(1) by (auto simp: home_route_def)
  then have "h \<noteq> []" "list_all dns_char h" "1 \<le> n" "n \<le> 65535" using endpoint_port_range by (auto simp: plain_endpoint_def)
  with route_endpoint [OF hn] assms(1)
  show "pe_host (providerEndpointForRoute r) \<noteq> []" "list_all dns_char (pe_host (providerEndpointForRoute r))"
    "1 \<le> providerPort r" "providerPort r \<le> 65535"
    by (auto simp: home_route_def providerPort_def)
qed

text \<open>What the withdrawal path makes of a rendered route, and that it renders to the same rules.\<close>

definition reread :: "Route \<Rightarrow> Route" where
  "reread r = r\<lparr>Endpoint := written_endpoint (pe_host (providerEndpointForRoute r)) (providerPort r), Cluster := ServiceName r\<rparr>"

lemma ServiceName_update: "ServiceName (r\<lparr>Endpoint := e, Cluster := c\<rparr>) = ServiceName r"
  unfolding ServiceName_def CrossNamespace_def Let_def by (simp cong: if_cong)

lemma reread_simps [simp]:
  "Model (reread r) = Model r" "ClientName (reread r) = ClientName r" "ServiceName (reread r) = ServiceName r"
  "RouteStableID (reread r) = RouteStableID r" "APITranslationEnabled (reread r) = APITranslationEnabled r" "Path (reread r) = Path r"
  by (simp_all add: reread_def ServiceName_update RouteStableID_def)

lemma reread_endpoint:
  assumes "home_route lib ns m r" "m \<noteq> []" "slash_free m"
  shows "pe_host (providerEndpointForRoute (reread r)) = pe_host (providerEndpointForRoute r)" "providerPort (reread r) = providerPort r"
proof -
  note d = home_routeD [OF assms]
  have "plain_endpoint (Endpoint (reread r)) (pe_host (providerEndpointForRoute r)) (providerPort r)"
    using written_plain [OF d(5-8)] by (simp add: reread_def)
  from route_endpoint [OF this] show "pe_host (providerEndpointForRoute (reread r)) = pe_host (providerEndpointForRoute r)" by simp
  obtain h n where "plain_endpoint (Endpoint r) h n" using assms(1) by (auto simp: home_route_def)
  from route_endpoint(2) [OF this]
  have "Port r \<noteq> 0 \<Longrightarrow> providerPort r = Port r" by (simp add: providerPort_def)
  moreover have "Port (reread r) = Port r" by (simp add: reread_def)
  ultimately show "providerPort (reread r) = providerPort r"
    using route_endpoint(2) [OF \<open>plain_endpoint (Endpoint (reread r)) (pe_host (providerEndpointForRoute r)) (providerPort r)\<close>]
    by (auto simp: providerPort_def)
qed

lemma reread_rules:
  assumes "home_route lib ns m r" "m \<noteq> []" "slash_free m"
  shows "candidate_rules path client (reread r) = candidate_rules path client r"
  using reread_endpoint [OF assms]
  by (simp add: candidate_rules_def provider_rule_def body_matches_def providerURLRewrite_def providerHostnameRewrite_def Let_def cong: if_cong)

lemma seen_providers_distinct: "distinct (map ServiceName routes) \<Longrightarrow> seen_providers routes = routes"
proof -
  have "distinct (map ServiceName (acc @ routes)) \<Longrightarrow> fold add_provider routes acc = acc @ routes" for acc
  proof (induction routes arbitrary: acc)
    case (Cons r rs)
    from Cons.IH [of "acc @ [r]"] Cons.prems show ?case by (simp add: add_provider_def)
  qed simp
  then show "distinct (map ServiceName routes) \<Longrightarrow> seen_providers routes = routes" by (simp add: seen_providers_def)
qed

lemma route_rules_reread:
  assumes "routes \<noteq> []" "\<And>r. r \<in> set routes \<Longrightarrow> home_route lib ns m r" "m \<noteq> []" "slash_free m" "distinct (map ServiceName routes)"
  shows "route_rules dns1035 (map reread routes) ns = route_rules dns1035 routes ns"
proof -
  have "distinct (map ServiceName (map reread routes))" using assms(5) by (simp add: comp_def)
  moreover have "map (candidate_rules path client) (map reread routes) = map (candidate_rules path client) routes" for path client
    using reread_rules [OF assms(2) assms(3,4)] by simp
  moreover have "ClientName (hd (map reread routes)) = ClientName (hd routes)" "Model (hd (map reread routes)) = Model (hd routes)"
    using assms(1) by (simp_all add: hd_map)
  ultimately show ?thesis
    using seen_providers_distinct [OF assms(5)] seen_providers_distinct [of "map reread routes"]
    unfolding route_rules_def Let_def by presburger
qed

subsection \<open>The rules of a model, read back\<close>

lemma sink_not_provider: "\<not> has_prefix p ''selection-required-'' \<Longrightarrow> \<not> has_prefix (providerServicePrefix @ p) providerSelectionSinkPrefix"
  by (auto simp: has_prefix_iff providerServicePrefix_def providerSelectionSinkPrefix_def)

lemma applied_rule_candidate:
  assumes "nested_doc u" "home_route lib ns m c" "m \<noteq> []" "slash_free m" "rule \<in> set (candidate_rules path client c)"
    and "map_of profiles (RouteStableID c) = Some c"
  shows "applied_rule cv u ns m clientName profiles rule = Inr (Some (RouteStableID c, reread c))"
proof -
  note d = home_routeD [OF assms(2-4)]
  let ?backend = "[(''name'', UStr (ServiceName c)), (''port'', UInt (providerPort c))]"
  obtain ms rw where rule: "rule = provider_rule ms c rw" using assms(5) by (auto simp: candidate_rules_def)
  have refs: "slice_or_nil u rule [''backendRefs''] = [UMap ?backend]" by (simp add: rule provider_rule_fields [OF assms(1)])
  have name: "str_or_empty ?backend ''name'' = ServiceName c" by (simp add: str_or_empty_def)
  have prefixes: "has_prefix (ServiceName c) providerServicePrefix" "\<not> has_prefix (ServiceName c) providerSelectionSinkPrefix"
    using sink_not_provider assms(2) by (simp_all add: d(2) home_route_def has_prefix_append)
  have ns: "applied_namespace cv ns m (Provider c) [] (ServiceName c) = Inr (Some ns)"
    by (simp add: applied_namespace_def providerNamespaceForService_def d(2))
  have nonempty: "RouteStableID c \<noteq> []" "Provider c \<noteq> []" using assms(2) by (simp_all add: d(1) CandidateStableID_def home_route_def)
  have written: "written_endpoint (pe_host (providerEndpointForRoute c)) (providerPort c) \<noteq> []"
    using d(5) by (simp add: written_endpoint_def join_host_port_def)
  show ?thesis
    unfolding applied_rule_def Let_def candidate_rules_id [OF assms(1,5)] refs list.sel as_map.simps option.case name d(4) prod.case ns
      bind_res_simps candidate_rules_endpoint [OF assms(1,5) d(5,7,8)] assms(6)
    using nonempty prefixes written by (simp add: reread_def)
qed

lemma applied_rule_sink:
  assumes "nested_doc u" "rule \<in> set (sink_rules sink path client)"
  shows "applied_rule cv u ns m clientName profiles rule = Inr None"
  by (simp add: applied_rule_def sink_rules_id [OF assms] Let_def)

definition overlay_map :: "Route list \<Rightarrow> (string \<rightharpoonup> Route) \<Rightarrow> string \<rightharpoonup> Route" where
  "overlay_map cs = fold (\<lambda>c g. g(RouteStableID c \<mapsto> reread c)) cs"

lemma overlay_map_lookup:
  "distinct (map RouteStableID cs) \<Longrightarrow>
     overlay_map cs g k = (case List.find (\<lambda>c. RouteStableID c = k) cs of Some c \<Rightarrow> Some (reread c) | None \<Rightarrow> g k)"
proof (induction cs arbitrary: g)
  case (Cons c cs)
  from Cons.prems have "List.find (\<lambda>d. RouteStableID d = RouteStableID c) cs = None" by (auto simp: find_None_iff) (metis image_eqI)
  with Cons show ?case by (auto simp: overlay_map_def split: option.split)
qed (simp add: overlay_map_def)

lemma add_candidate_rules:
  assumes "nested_doc u" "\<And>c. c \<in> set cs \<Longrightarrow> home_route lib ns m c \<and> map_of profiles (RouteStableID c) = Some c" "m \<noteq> []" "slash_free m"
  shows "\<exists>res. fold_res (add_rule cv u ns m clientName profiles) (concat (map (candidate_rules path client) cs)) acc = Inr res
    \<and> map_of res = overlay_map cs (map_of acc)"
  using assms(2)
proof (induction cs arbitrary: acc)
  case (Cons c cs)
  have c: "home_route lib ns m c" "map_of profiles (RouteStableID c) = Some c" using Cons.prems by auto
  have step: "add_rule cv u ns m clientName profiles rule acc = Inr (AList.update (RouteStableID c) (reread c) acc)"
    if "rule \<in> set (candidate_rules path client c)" for rule acc
    using applied_rule_candidate [OF assms(1) c(1) assms(3,4) that c(2)] by (simp add: add_rule_def)
  obtain r1 r2 where rules: "candidate_rules path client c = [r1, r2]" by (simp add: candidate_rules_def)
  let ?acc = "AList.update (RouteStableID c) (reread c) (AList.update (RouteStableID c) (reread c) acc)"
  have "fold_res (add_rule cv u ns m clientName profiles) (concat (map (candidate_rules path client) (c # cs))) acc =
      fold_res (add_rule cv u ns m clientName profiles) (concat (map (candidate_rules path client) cs)) ?acc"
    using step by (simp add: rules)
  moreover have "map_of ?acc = (map_of acc)(RouteStableID c \<mapsto> reread c)" by (simp add: AList.update_conv')
  moreover have "overlay_map (c # cs) (map_of acc) = overlay_map cs ((map_of acc)(RouteStableID c \<mapsto> reread c))"
    by (simp add: overlay_map_def)
  moreover have "\<And>d. d \<in> set cs \<Longrightarrow> home_route lib ns m d \<and> map_of profiles (RouteStableID d) = Some d" using Cons.prems by simp
  ultimately show ?case using Cons.IH [of ?acc] by presburger
qed (simp add: overlay_map_def)

lemma add_sink_rules:
  assumes "nested_doc u"
  shows "fold_res (add_rule cv u ns m clientName profiles) (sink_rules sink path client) acc = Inr acc"
proof -
  obtain r1 r2 where rules: "sink_rules sink path client = [r1, r2]" by (simp add: sink_rules_def)
  then show ?thesis using applied_rule_sink [OF assms, of _ sink path client] by (simp add: add_rule_def)
qed

lemma map_of_ids:
  assumes "distinct (map f xs)" "c \<in> set xs"
  shows "map_of (rev (map (\<lambda>p. (f p, p)) xs)) (f c) = Some c"
  using assms by (intro map_of_is_SomeI) (auto simp: comp_def rev_map [symmetric])

lemma find_distinct_key: "distinct (map f xs) \<Longrightarrow> r \<in> set xs \<Longrightarrow> List.find (\<lambda>c. f c = f r) xs = Some r"
  by (induction xs) auto

subsection \<open>The whole object\<close>

lemma stored_fields:
  fixes dns ns gw gwns owner
  assumes "routes \<noteq> []"
  defines "obj \<equiv> modelHTTPRouteSet dns routes ns gw gwns"
  shows "hr_Namespace (stored_route owner obj) = ns"
    "sm_get (hr_Labels (stored_route owner obj)) externalModelLabel = Model (hd routes)"
    "sm_get (hr_Labels (stored_route owner obj)) ''app.kubernetes.io/managed-by'' = ''ai-gateway-controller''"
    "sm_get (hr_Annotations (stored_route owner obj)) AnnotationHomeRuntimeRoutes = profiles_text routes"
    "hr_Controller (stored_route owner obj) = owner"
    "at_path (hr_Object (stored_route owner obj)) [''spec'', ''rules''] = Inr (Some (UList (map UMap (route_rules dns routes ns))))"
  using assms(1)
  by (simp_all add: obj_def modelHTTPRouteSet_def stored_route_def str_at_def str_map_at_def labelledMetadata_def managedBy_def sm_get_def
      externalModelLabel_def AnnotationHomeRuntimeRoutes_def Let_def)

lemma candidate_binding:
  assumes "nested_doc u" "at_path (hr_Object route) [''spec'', ''rules''] = Inr (Some (UList (map UMap rules)))"
    and "set (candidate_rules path client r) \<subseteq> set rules"
  shows "homeRouteHasRuntimeBinding u route r"
proof -
  let ?rule = "hd (candidate_rules path client r)"
  have rule: "?rule = provider_rule [UMap [path_match ''PathPrefix'' path,
         (''headers'', UList [exact_header selectedProviderHeader (RouteStableID r)])]] r (providerURLRewrite (providerEndpointForRoute r))"
    by (simp add: candidate_rules_def)
  have "matchesRuntimeIdentity u (slice_or_nil u ?rule [''matches'']) (RouteStableID r)"
    unfolding rule provider_rule_fields [OF assms(1)] matchesRuntimeIdentity_def match_headers_def [symmetric]
    by (simp add: match_headers_simps [OF assms(1)] header_map_def selectedProviderHeader_def)
  moreover have "?rule \<in> set rules" using assms(3) by (simp add: candidate_rules_def)
  moreover have "maps_of (slice_or_nil u ?rule [''backendRefs'']) = [[(''name'', UStr (ServiceName r)), (''port'', UInt (providerPort r))]]"
    unfolding rule by (simp add: provider_rule_fields [OF assms(1)])
  ultimately show ?thesis
    unfolding homeRouteHasRuntimeBinding_def slice_or_nil_doc [OF assms(1,2)] maps_of_UMap list_ex_iff
    by - (rule bexI [of _ ?rule], simp_all)
qed

definition home_set :: "k8s_lib \<Rightarrow> string \<Rightarrow> string \<Rightarrow> Route list \<Rightarrow> bool" where
  "home_set lib ns m routes \<longleftrightarrow>
     routes \<noteq> [] \<and> m \<noteq> [] \<and> slash_free m \<and> distinct (map Provider routes) \<and> (\<forall>r \<in> set routes. home_route lib ns m r)"

lemma home_setD:
  assumes "home_set lib ns m routes"
  shows "routes \<noteq> []" "m \<noteq> []" "slash_free m" "\<And>r. r \<in> set routes \<Longrightarrow> home_route lib ns m r" "Model (hd routes) = m"
    "distinct (map ServiceName routes)" "distinct (map RouteStableID routes)" "seen_providers routes = routes"
    "filter (\<lambda>r. \<not> CrossNamespace r) routes = routes"
proof -
  show base: "routes \<noteq> []" "m \<noteq> []" "slash_free m" and home: "\<And>r. r \<in> set routes \<Longrightarrow> home_route lib ns m r"
    using assms by (auto simp: home_set_def)
  note d = home_routeD [OF home base(2,3)]
  show "Model (hd routes) = m" using home base(1) by (auto simp: home_route_def)
  have inj: "inj_on Provider (set routes)" "distinct routes" using assms by (auto simp: home_set_def distinct_map)
  show "distinct (map ServiceName routes)"
    using inj d(2) unfolding distinct_map inj_on_def by (metis same_append_eq)
  then show "seen_providers routes = routes" by (rule seen_providers_distinct)
  show "distinct (map RouteStableID routes)"
    using inj d(1) CandidateStableID_inj [OF base(3) base(3)] unfolding distinct_map inj_on_def by metis
  show "filter (\<lambda>r. \<not> CrossNamespace r) routes = routes" using home by (simp add: home_route_def)
qed

lemma profiles_readback:
  assumes "nested_doc u" "home_set lib ns m routes" "model_owner m owner"
  shows "HomeRuntimeRouteProfiles lib u (stored_route owner (modelHTTPRouteSet dns1035 routes ns gw gwns)) ns = Inr routes"
proof -
  let ?route = "stored_route owner (modelHTTPRouteSet dns1035 routes ns gw gwns)"
  note h = home_setD [OF assms(2)] and f = stored_fields [OF home_setD(1) [OF assms(2)], where dns = dns1035 and ns = ns and gw = gw and gwns = gwns and owner = owner]
  have "unmarshal dec_profiles (profiles_text routes) = Inr routes"
    unfolding profiles_text_def h(9) using h(4) by (intro profiles.unmarshal_compact) (auto simp: list_all_iff home_route_def)
  moreover have "profiles_text routes \<noteq> []" by (simp add: profiles_text_def)
  moreover have "check_profile lib u ?route ns m r = Inr r" if r: "r \<in> set routes" for r
  proof -
    have "set (candidate_rules (''/'' @ ns @ ''/'' @ ClientName (hd routes)) (ClientName (hd routes)) r) \<subseteq> set (route_rules dns1035 routes ns)"
      using r h(8) by (auto simp: route_rules_def Let_def)
    then have "homeRouteHasRuntimeBinding u ?route r" by (rule candidate_binding [OF assms(1) f(6)])
    with h(4) [OF r] show ?thesis by (simp add: check_profile_def home_route_def)
  qed
  then have "mapM_res (check_profile lib u ?route ns m) routes = Inr routes" by (simp add: mapM_res_Inr list_all2_same)
  ultimately show ?thesis
    using assms(3) h(2) unfolding HomeRuntimeRouteProfiles_def f h(5) Let_def by (auto simp: model_owner_def)
qed

lemma applied_readback:
  assumes "nested_doc u" "home_set lib ns m routes" "model_owner m owner"
    and "cv_HTTPRoutes cv ns = Inr [stored_route owner (modelHTTPRouteSet dns1035 routes ns gw gwns)]"
  shows "\<exists>applied. readAppliedModelRoutes cv lib u ns = Inr applied \<and> map_of applied = overlay_map routes Map.empty"
proof -
  let ?route = "stored_route owner (modelHTTPRouteSet dns1035 routes ns gw gwns)"
  let ?rules = "route_rules dns1035 routes ns" and ?path = "''/'' @ ns @ ''/'' @ ClientName (hd routes)" and ?client = "ClientName (hd routes)"
  let ?profiles = "rev (map (\<lambda>p. (RouteStableID p, p)) routes)"
  note h = home_setD [OF assms(2)] and f = stored_fields [OF home_setD(1) [OF assms(2)], where dns = dns1035 and ns = ns and gw = gw and gwns = gwns and owner = owner]
  have rules: "NestedSlice u (hr_Object ?route) [''spec'', ''rules''] = Inr (Some (map UMap ?rules))"
    by (rule slice_doc [OF assms(1) f(6)])
  define name where "name = routeClientName u (map UMap ?rules) ns m"
  obtain res where "fold_res (add_rule cv u ns m name ?profiles) (concat (map (candidate_rules ?path ?client) routes)) [] = Inr res"
    and res: "map_of res = overlay_map routes (map_of [])"
    using add_candidate_rules [OF assms(1) _ h(2,3), of routes lib ns ?profiles cv name ?path ?client "[]"] h(4) map_of_ids [OF h(7)] by blast
  then have "fold_res (add_rule cv u ns m name ?profiles) ?rules [] = Inr res"
    using add_sink_rules [OF assms(1), of cv ns m name ?profiles "providerSelectionSinkName dns1035 (Model (hd routes))" ?path ?client res]
    by (simp add: route_rules_def Let_def h(8) fold_res_append)
  then have "applied_route cv lib u ns ?route [] = Inr res"
    unfolding applied_route_def f h(5) Let_def profiles_readback [OF assms(1-3)] name_def using rules h(2) by (simp add: f)
  then show ?thesis using res by (simp add: readAppliedModelRoutes_def assms(4))
qed

subsection \<open>Counting rules\<close>

lemma count_providers:
  "fold count_provider rs (2 + 2 * length acc, rev (map ServiceName acc)) =
     (2 + 2 * length (fold add_provider rs acc), rev (map ServiceName (fold add_provider rs acc)))"
proof (induction rs arbitrary: acc)
  case (Cons r rs)
  show ?case
  proof (cases "ServiceName r \<in> set (map ServiceName acc)")
    case True
    then show ?thesis using Cons.IH [of acc] by (simp add: count_provider_def add_provider_def)
  next
    case False
    then show ?thesis using Cons.IH [of "acc @ [r]"] by (simp add: count_provider_def add_provider_def)
  qed
qed simp

lemma length_route_rules: "length (route_rules dns routes ns) = 2 + 2 * length (seen_providers routes)"
proof -
  have "length (concat (map (candidate_rules p c) rs)) = 2 * length rs" for p c rs
    by (induction rs) (simp_all add: candidate_rules_def)
  then show ?thesis by (simp add: route_rules_def sink_rules_def Let_def)
qed

subsection \<open>Properties\<close>

text \<open>C18. What was rendered is read back. When the HTTPRoute of a model was rendered from its home routes, the profiles in its annotation
  decode to exactly these routes and pass their validation, the withdrawal path reads one route per candidate from its rules, under
  exactly the identifiers of the routes, and rendering what it read gives the same rules again: a withdrawn candidate keeps its host,
  port and matches while it drains. Hosts are DNS names or IPv4 addresses; a provider name that starts with selection-required- is
  excluded, since its Service is taken for a selection sink.\<close>

theorem rendered_routes_readback:
  assumes "nested_doc u" "home_set lib ns m routes" "model_owner m owner"
    and "cv_HTTPRoutes cv ns = Inr [stored_route owner (modelHTTPRouteSet dns1035 routes ns gateway gatewayNS)]"
  shows "HomeRuntimeRouteProfiles lib u (stored_route owner (modelHTTPRouteSet dns1035 routes ns gateway gatewayNS)) ns = Inr routes
    \<and> (\<exists>applied. readAppliedModelRoutes cv lib u ns = Inr applied \<and> dom (map_of applied) = RouteStableID ` set routes
      \<and> route_rules dns1035 (map (\<lambda>r. the (map_of applied (RouteStableID r))) routes) ns = route_rules dns1035 routes ns)"
proof -
  note h = home_setD [OF assms(2)]
  obtain applied where applied: "readAppliedModelRoutes cv lib u ns = Inr applied" "map_of applied = overlay_map routes Map.empty"
    using applied_readback [OF assms] by blast
  have hit: "map_of applied (RouteStableID r) = Some (reread r)" if "r \<in> set routes" for r
  proof -
    have "List.find (\<lambda>c. RouteStableID c = RouteStableID r) routes = Some r"
      using find_distinct_key [OF h(7) that] .
    then show ?thesis by (simp add: applied(2) overlay_map_lookup [OF h(7)])
  qed
  have miss: "map_of applied k = None" if "k \<notin> RouteStableID ` set routes" for k
  proof -
    have "List.find (\<lambda>c. RouteStableID c = k) routes = None" using that by (auto simp: find_None_iff)
    then show ?thesis by (simp add: applied(2) overlay_map_lookup [OF h(7)])
  qed
  have "k \<in> dom (map_of applied) \<longleftrightarrow> k \<in> RouteStableID ` set routes" for k
    using hit miss by (cases "k \<in> RouteStableID ` set routes") auto
  then have dom: "dom (map_of applied) = RouteStableID ` set routes" by (rule set_eqI)
  have again: "map (\<lambda>r. the (map_of applied (RouteStableID r))) routes = map reread routes" using hit by simp
  show ?thesis
    using profiles_readback [OF assms(1-3)] applied(1) dom route_rules_reread [OF h(1,4,2,3,6)] unfolding again [symmetric] by blast
qed

definition sample_home :: "string \<Rightarrow> string \<Rightarrow> Route" where
  "sample_home p e = zero_route\<lparr>Model := ''m'', ClientName := ''gpt'', Namespace := ''ns'', Provider := p, Cluster := ''provider-'' @ p,
     Endpoint := e, Weight := 1\<rparr>"

definition sample_home_view :: cluster_view where
  "sample_home_view = \<lparr>cv_Model = (\<lambda>_ _. GetNotFound), cv_Provider = (\<lambda>_ _. GetNotFound), cv_Models = Inr [], cv_Providers = Inr [],
     cv_HTTPRoutes = (\<lambda>_. Inr [stored_route None (modelHTTPRouteSet (\<lambda>_. []) [sample_home ''p'' ''api.example.com'', sample_home ''q'' ''10.0.0.1:80'']
       ''ns'' ''gw'' [])])\<rparr>"

theorem rendered_routes_readback_witness:
  "\<exists>applied. readAppliedModelRoutes sample_home_view sample_lib ref_unstr ''ns'' = Inr applied
     \<and> dom (map_of applied) = {''m/provider-p'', ''m/provider-q''}"
proof -
  let ?routes = "[sample_home ''p'' ''api.example.com'', sample_home ''q'' ''10.0.0.1:80'']"
  have chars: "list_all dns_char ''api.example.com''" "list_all dns_char ''10.0.0.1''" "list_all digit_char ''80''" by code_simp+
  have ports: "endpoint_port [] = Some 443" "endpoint_port ''80'' = Some 80"
    by (simp_all add: endpoint_port_def parse_nat_def digit_val_def)
  have "plain_endpoint ''api.example.com'' ''api.example.com'' 443"
    unfolding plain_endpoint_def plain_port_def using chars ports by (intro exI [of _ "[]"]) simp
  moreover have "plain_endpoint ''10.0.0.1:80'' ''10.0.0.1'' 80"
    unfolding plain_endpoint_def plain_port_def using chars ports by (intro exI [of _ "'':80''"]) simp
  moreover have "list_all (\<lambda>r. Model r = ''m'' \<and> Namespace r = ''ns'' \<and> \<not> CrossNamespace r \<and> validHomeRuntimeProfile sample_lib r ''ns'' \<and> ok_route r
     \<and> Provider r \<noteq> [] \<and> slash_free (Provider r) \<and> \<not> has_prefix (Provider r) ''selection-required-'' \<and> 0 \<le> Port r \<and> Port r \<le> 65535) ?routes"
    by code_simp
  ultimately have "home_set sample_lib ''ns'' ''m'' ?routes"
    by (auto simp: home_set_def home_route_def) (auto simp: sample_home_def)
  moreover have "model_owner ''m'' None" by (simp add: model_owner_def)
  moreover have "cv_HTTPRoutes sample_home_view ''ns'' = Inr [stored_route None (modelHTTPRouteSet (\<lambda>_. []) ?routes ''ns'' ''gw'' [])]"
    by (simp add: sample_home_view_def)
  moreover have "RouteStableID ` set ?routes = {''m/provider-p'', ''m/provider-q''}"
    by (simp add: RouteStableID_def sample_home_def zero_route_def CandidateStableID_def)
  ultimately show ?thesis using rendered_routes_readback [OF ref_unstr_doc] by metis
qed

text \<open>C19. Admission counts the rules that are rendered: \<open>modelHTTPRouteRuleCount\<close>, which is compared with the limit of the Gateway API before
  anything is applied, is the number of rules of the HTTPRoute rendered for the same routes.\<close>

theorem rule_count_exact:
  assumes "nested_doc u"
  shows "modelHTTPRouteRuleCount routes = length (slice_or_nil u (modelHTTPRouteSet dns1035 routes ns gateway gatewayNS) [''spec'', ''rules''])"
proof (cases "routes = []")
  case True
  then show ?thesis using nested_docD(1) [OF assms, of "[]" "[''spec'', ''rules'']"]
    by (simp add: modelHTTPRouteRuleCount_def modelHTTPRouteSet_def slice_or_nil_def nested_typed_def)
next
  case False
  have "slice_or_nil u (modelHTTPRouteSet dns1035 routes ns gateway gatewayNS) [''spec'', ''rules''] = map UMap (route_rules dns1035 routes ns)"
    using False by (intro slice_or_nil_doc [OF assms]) (simp add: modelHTTPRouteSet_def Let_def)
  then show ?thesis
    using False count_providers [of routes "[]"] by (simp add: modelHTTPRouteRuleCount_def length_route_rules seen_providers_def)
qed

theorem rule_count_exact_witness:
  "modelHTTPRouteRuleCount [sample_home ''p'' ''a'', sample_home ''q'' ''b'', sample_home ''p'' ''c''] = 6
   \<and> length (slice_or_nil ref_unstr (modelHTTPRouteSet (\<lambda>_. []) [sample_home ''p'' ''a'', sample_home ''q'' ''b'', sample_home ''p'' ''c''] ''ns'' ''gw'' [])
       [''spec'', ''rules'']) = 6"
proof -
  have "modelHTTPRouteRuleCount [sample_home ''p'' ''a'', sample_home ''q'' ''b'', sample_home ''p'' ''c''] = 6" by code_simp
  then show ?thesis
    using rule_count_exact [OF ref_unstr_doc, of "[sample_home ''p'' ''a'', sample_home ''q'' ''b'', sample_home ''p'' ''c'']" "\<lambda>_. []" "''ns''" "''gw''" "[]"]
    by (simp only: simp_thms)
qed

end
