(* ===== verification/AdmissionCorrect.thy ===== *)
theory AdmissionCorrect
  imports Admission TransportCorrect "HOL-Library.Sublist"
begin

text \<open>
  Correctness of admission: which models are excluded, that the others stay in order, fit the Gateway API and never make the overlay
  fail, and what validated credentials mean.
\<close>

subsection \<open>Which models are excluded\<close>














subsection \<open>Selection metadata of the admitted set\<close>






subsection \<open>Credentials\<close>

definition credential_proven :: "(string \<Rightarrow> string \<Rightarrow> secret_data get_result) \<Rightarrow> Route \<Rightarrow> bool" where
  "credential_proven get r \<longleftrightarrow>
     AuthType r = [] \<or> AuthType r = ''apikey''
       \<and> (\<exists>secret. get (SecretRefNamespace r) (SecretName r) = GetOk secret \<and> sm_has secret (SecretKey r))"

lemma check_credentials:
  assumes "fold_res (check_credential get) routes seen = Inr seen'" "\<And>r. r \<in> set routes \<Longrightarrow> SecretKey r = key"
    and "\<And>ns n. (ns, n) \<in> set seen \<Longrightarrow> \<exists>secret. get ns n = GetOk secret \<and> sm_has secret key"
  shows "\<forall>r \<in> set routes. credential_proven get r"
  using assms
proof (induction routes arbitrary: seen)
  case (Cons r rs)
  then obtain seen1 where step: "check_credential get r seen = Inr seen1" and rest: "fold_res (check_credential get) rs seen1 = Inr seen'"
    by (auto simp: bind_res_Inr_iff split: sum.split_asm)
  have key: "SecretKey r = key" using Cons.prems(2) by simp
  have "credential_proven get r \<and> (\<forall>ns n. (ns, n) \<in> set seen1 \<longrightarrow> (\<exists>secret. get ns n = GetOk secret \<and> sm_has secret key))"
    using step Cons.prems(3) key
    by (auto simp: check_credential_def credential_proven_def Let_def split: if_split_asm get_result.split_asm)
  then show ?case using Cons.IH [OF rest] Cons.prems(2) by simp
qed simp

subsection \<open>Properties\<close>




text \<open>C21. A validated route set is backed by credentials: when \<open>validateResolvedRouteSet\<close> reports nothing and all routes read the same key of
  their Secrets, every route that authenticates does so by API key, and its Secret, in the namespace the route resolves it in, was read
  and holds that key.\<close>

theorem credentials_validated:
  assumes "validateResolvedRouteSet (Some get) rs = None" "\<forall>r \<in> set (Routes rs). SecretKey r = key"
  shows "\<forall>r \<in> set (Routes rs). credential_proven get r"
proof -
  obtain seen where "fold_res (check_credential get) (Routes rs) [] = Inr seen"
    using assms(1) by (auto simp: validateResolvedRouteSet_def validateResolvedCredentials_def split: sum.split_asm)
  then show ?thesis by (rule check_credentials) (use assms(2) in auto)
qed

definition sample_secret :: "string \<Rightarrow> string \<Rightarrow> secret_data get_result" where
  "sample_secret ns n = (if ns = ''ns'' \<and> n = ''s'' then GetOk [(''api-key'', ''k'')] else GetNotFound)"

definition sample_keyed :: ResolvedRouteSet where
  "sample_keyed = \<lparr>Models = [\<lparr>mr_ModelRef = ''ns/m'', mr_Routes = [(sample_home ''p'' ''a'')\<lparr>AuthType := ''apikey'', SecretName := ''s'',
     SecretKey := ''api-key''\<rparr>], mr_Skips = []\<rparr>]\<rparr>"

theorem credentials_validated_witness:
  "validateResolvedRouteSet (Some sample_secret) sample_keyed = None \<and> list_all (credential_proven sample_secret) (Routes sample_keyed)"
proof -
  have ok: "validateResolvedRouteSet (Some sample_secret) sample_keyed = None" by code_simp
  have keys: "\<forall>r \<in> set (Routes sample_keyed). SecretKey r = ''api-key''" by code_simp
  show ?thesis using credentials_validated [OF ok keys] ok by (simp only: list_all_iff simp_thms)
qed

end
