(* ===== verification/ReferenceGrants.thy ===== *)
theory ReferenceGrants
  imports Admission
begin

text \<open>
  References to providers of other namespaces, \<open>src/pkg/controller/referencegrant.go\<close>: which ones a ReferenceGrant permits, what becomes of a
  route whose inherited credential is not ready, which published candidates lost their permission, and the shared transport of such
  providers.

  Reads of the API server are the fields of \<open>ref_view\<close>. The loop over \<open>refs\<close>, a Go map, visits its entries in an order that Go leaves open:
  the sequence of visited entries is an argument, and the theorems hold for every such sequence.
\<close>

type_synonym nname = "string \<times> string"

record ref_view =
  rv_Grants :: "string \<Rightarrow> (string, umap list) res"
  rv_Provider :: "nname \<Rightarrow> ExternalProvider get_result"
  rv_Secrets :: secret_reader
  rv_Retriable :: "string \<Rightarrow> bool"
  rv_Pem :: "string \<Rightarrow> bool"

datatype RefError =
    ErrListGrants string string
  | ErrGetProvider nname string
  | ErrTransientRead CredentialFault

definition inferenceGroup :: string where
  "inferenceGroup = ''inference.opendatahub.io''"

text \<open>A value that is not a map is read as the nil map.\<close>

definition as_nil_map :: "uval \<Rightarrow> umap" where
  "as_nil_map v = (case as_map v of Some m \<Rightarrow> m | None \<Rightarrow> [])"

definition grants_from :: "string \<Rightarrow> uval \<Rightarrow> bool" where
  "grants_from modelNamespace raw \<longleftrightarrow>
     (let f = as_nil_map raw in
      map_of f ''group'' = Some (UStr inferenceGroup) \<and> map_of f ''kind'' = Some (UStr ''ExternalModel'')
      \<and> map_of f ''namespace'' = Some (UStr modelNamespace))"

definition grants_to :: "string \<Rightarrow> uval \<Rightarrow> bool" where
  "grants_to provider raw \<longleftrightarrow>
     (let t = as_nil_map raw in
      map_of t ''group'' = Some (UStr inferenceGroup) \<and> map_of t ''kind'' = Some (UStr ''ExternalProvider'')
      \<and> (str_or_empty t ''name'' = [] \<or> str_or_empty t ''name'' = provider))"

definition grant_permits :: "unstr_lib \<Rightarrow> string \<Rightarrow> string \<Rightarrow> umap \<Rightarrow> bool" where
  "grant_permits u modelNamespace provider grant \<longleftrightarrow>
     list_ex (grants_from modelNamespace) (slice_or_nil u grant [''spec'', ''from''])
     \<and> list_ex (grants_to provider) (slice_or_nil u grant [''spec'', ''to''])"

definition referencePermitted :: "unstr_lib \<Rightarrow> ref_view \<Rightarrow> string \<Rightarrow> nname \<Rightarrow> (RefError, bool) res" where
  "referencePermitted u rv modelNamespace provider =
     (case rv_Grants rv (fst provider) of
        Inl e \<Rightarrow> Inl (ErrListGrants (fst provider) e)
      | Inr grants \<Rightarrow> Inr (list_ex (grant_permits u modelNamespace (snd provider)) grants))"

subsection \<open>Providers of other namespaces\<close>

text \<open>The referenced providers, each with whether some reference inherits its authentication.\<close>

definition note_ref :: "string \<Rightarrow> ExternalProviderRef \<Rightarrow> (nname \<times> bool) list \<Rightarrow> (nname \<times> bool) list" where
  "note_ref modelNamespace ref refs =
     (if pr_Namespace (er_Ref ref) \<noteq> [] \<and> pr_Namespace (er_Ref ref) \<noteq> modelNamespace
      then (let key = (pr_Namespace (er_Ref ref), pr_Name (er_Ref ref))
            in AList.update key (map_of refs key = Some True \<or> er_Auth ref = None) refs)
      else refs)"

definition foreign_refs :: "string \<Rightarrow> ExternalModel list \<Rightarrow> (nname \<times> bool) list" where
  "foreign_refs modelNamespace models =
     fold (note_ref modelNamespace) (concat (map (\<lambda>m. ms_ExternalProviderRefs (em_Spec m)) models)) []"

definition providerPhaseFailed :: string where
  "providerPhaseFailed = ''Failed''"

definition with_phase :: "string \<Rightarrow> ExternalProvider \<Rightarrow> ExternalProvider" where
  "with_phase phase p = p\<lparr>ep_Status := (ep_Status p)\<lparr>pst_Phase := phase\<rparr>\<rparr>"

text \<open>The verdict on a provider that was read: its phase and whether its own credential is unready.\<close>

definition judge_foreign ::
    "k8s_lib \<Rightarrow> ref_view \<Rightarrow> string \<Rightarrow> bool \<Rightarrow> ExternalProvider \<Rightarrow> (RefError, ExternalProvider \<times> bool) res" where
  "judge_foreign lib rv gatewayNamespace inherited provider =
     (if validateProvider lib provider \<noteq> None then Inr (with_phase providerPhaseFailed provider, False)
      else
        (let ca = validateProviderCACredential (rv_Pem rv) (rv_Secrets rv) provider gatewayNamespace in
         if transientReadError (rv_Retriable rv) ca then Inl (ErrTransientRead (the ca))
         else if ca \<noteq> None then Inr (with_phase providerPhaseFailed provider, False)
         else if inherited then
           (let own = validateProviderCredential (rv_Secrets rv) provider in
            if transientReadError (rv_Retriable rv) own then Inl (ErrTransientRead (the own))
            else Inr (with_phase PhaseReady provider, own \<noteq> None))
         else Inr (with_phase PhaseReady provider, False)))"

definition foreign_step ::
    "k8s_lib \<Rightarrow> unstr_lib \<Rightarrow> ref_view \<Rightarrow> string \<Rightarrow> string \<Rightarrow> nname \<times> bool \<Rightarrow> ExternalProvider list \<times> nname list \<Rightarrow>
     (RefError, ExternalProvider list \<times> nname list) res" where
  "foreign_step lib u rv modelNamespace gatewayNamespace entry st =
     (case entry of (key, inherited) \<Rightarrow>
        bind_res (referencePermitted u rv modelNamespace key) (\<lambda>permitted.
          if \<not> permitted then Inr st
          else (case rv_Provider rv key of
                  GetNotFound \<Rightarrow> Inr st
                | GetError e \<Rightarrow> Inl (ErrGetProvider key e)
                | GetOk provider \<Rightarrow>
                    if om_Deleting (ep_Meta provider) then Inr st
                    else bind_res (judge_foreign lib rv gatewayNamespace inherited provider) (\<lambda>(p, unready).
                           Inr (fst st @ [p], if unready then key # snd st else snd st)))))"

definition foreignProviders ::
    "k8s_lib \<Rightarrow> unstr_lib \<Rightarrow> ref_view \<Rightarrow> string \<Rightarrow> string \<Rightarrow> string \<Rightarrow> (nname \<times> bool) list \<Rightarrow>
     (RefError, ExternalProvider list \<times> nname list) res" where
  "foreignProviders lib u rv controllerNamespace modelNamespace gatewayNamespace visited =
     (if controllerNamespace \<noteq> [] then Inr ([], [])
      else fold_res (foreign_step lib u rv modelNamespace gatewayNamespace) visited ([], []))"

subsection \<open>Routes without a credential\<close>

definition inherits_unready :: "nname list \<Rightarrow> Route \<Rightarrow> bool" where
  "inherits_unready unready route \<longleftrightarrow>
     (ProviderNamespace route, Provider route) \<in> set unready \<and> SecretRefNamespace route = ProviderNamespace route"

definition unready_skip :: "string \<Rightarrow> Route \<Rightarrow> Skip" where
  "unready_skip modelRef route =
     \<lparr>sk_ModelRef = modelRef, sk_ProviderRef = Provider route, sk_Reason = SkipProviderNotReady,
      sk_Message = MsgCredentialNotReady (ProviderNamespace route) (Provider route)\<rparr>"

definition skip_unready_model :: "nname list \<Rightarrow> ModelRoutes \<Rightarrow> ModelRoutes" where
  "skip_unready_model unready m =
     m\<lparr>mr_Routes := filter (\<lambda>r. \<not> inherits_unready unready r) (mr_Routes m),
       mr_Skips := mr_Skips m @ map (unready_skip (mr_ModelRef m)) (filter (inherits_unready unready) (mr_Routes m))\<rparr>"

text \<open>Models left without a route, with the message of their last such skip.\<close>

definition unserved_entry :: "nname list \<Rightarrow> ModelRoutes \<Rightarrow> (string \<times> SkipMessage) option" where
  "unserved_entry unready m =
     (let skipped = filter (inherits_unready unready) (mr_Routes m) in
      if skipped \<noteq> [] \<and> mr_Routes (skip_unready_model unready m) = []
      then Some (mr_ModelRef m, sk_Message (unready_skip (mr_ModelRef m) (last skipped))) else None)"

definition skipUnreadyCredentials ::
    "ResolvedRouteSet option \<Rightarrow> ResolveError option \<Rightarrow> nname list \<Rightarrow>
     ResolvedRouteSet option \<times> (string \<times> SkipMessage) list \<times> ResolveError option" where
  "skipUnreadyCredentials rs err unready =
     (case rs of
        None \<Rightarrow> (None, [], err)
      | Some s \<Rightarrow>
          if unready = [] \<or> (err \<noteq> None \<and> err \<noteq> Some ErrNoRoutes) then (Some s, [], err)
          else
            (let s' = s\<lparr>Models := map (skip_unready_model unready) (Models s)\<rparr>;
                 unserved = List.map_filter (unserved_entry unready) (Models s)
             in (Some s', unserved, if Routes s' = [] then Some ErrNoRoutes else err)))"

subsection \<open>Denied references\<close>

definition deniedReferences :: "ResolvedRouteSet option \<Rightarrow> (string \<times> SkipMessage) list" where
  "deniedReferences rs =
     (case rs of
        None \<Rightarrow> []
      | Some s \<Rightarrow>
          fold (\<lambda>(modelRef, k) denied.
                  if map_of denied modelRef = None \<and> sk_Reason k = SkipRefNotPermitted then denied @ [(modelRef, sk_Message k)] else denied)
            (concat (map (\<lambda>m. map (\<lambda>k. (mr_ModelRef m, k)) (mr_Skips m)) (Models s))) [])"

definition denied_ids :: "string \<Rightarrow> ExternalModel list \<Rightarrow> nname list \<Rightarrow> string list" where
  "denied_ids namespace models permitted =
     concat (map (\<lambda>m. map (\<lambda>ref. ScopedStableID namespace (em_Name m) (pr_Namespace (er_Ref ref)) (pr_Name (er_Ref ref)))
       (filter (\<lambda>ref. pr_Namespace (er_Ref ref) \<noteq> [] \<and> pr_Namespace (er_Ref ref) \<noteq> namespace
            \<and> (pr_Namespace (er_Ref ref), pr_Name (er_Ref ref)) \<notin> set permitted) (ms_ExternalProviderRefs (em_Spec m)))) models)"

text \<open>\<open>published\<close> is what \<open>ownOverlayCandidates\<close> returned; it is asked only when some reference is denied.\<close>

definition servesDeniedReference ::
    "string \<Rightarrow> ExternalModel list \<Rightarrow> ExternalProvider list \<Rightarrow> (string, Candidate list) res \<Rightarrow> (string, bool) res" where
  "servesDeniedReference namespace models permitted published =
     (let denied = denied_ids namespace models (map (\<lambda>p. (ep_Namespace p, ep_Name p)) permitted) in
      if denied = [] then Inr False
      else bind_res published (\<lambda>candidates. Inr (list_ex (\<lambda>c. ca_StableID c \<in> set denied) candidates)))"

definition referenceGrantModels :: "string \<Rightarrow> ExternalModel list option \<Rightarrow> string \<Rightarrow> nname list" where
  "referenceGrantModels controllerNamespace listed grantNamespace =
     (case listed of
        None \<Rightarrow> []
      | Some models \<Rightarrow>
          map (\<lambda>m. (em_Namespace m, em_Name m))
            (filter (\<lambda>m. em_Namespace m \<noteq> grantNamespace \<and> namespaceAllowed controllerNamespace (em_Namespace m)
               \<and> list_ex (\<lambda>ref. pr_Namespace (er_Ref ref) = grantNamespace) (ms_ExternalProviderRefs (em_Spec m))) models))"

subsection \<open>Shared transport\<close>

record transport_object =
  to_Kind :: string
  to_Namespace :: string
  to_Name :: string
  to_Annotations :: str_map

datatype TransportFault =
    ErrGetTransport string string string string
  | ErrOtherIdentity string string string
  | ErrListTransport string
  | ErrListModelRoutes string
  | ErrDeleteTransport string string
  | ErrReleaseProviders string

abbreviation to_identity :: "str_map \<Rightarrow> string" where
  "to_identity annotations \<equiv> sm_get annotations annotationAttachmentIdentity"

definition verify_object ::
    "(string \<Rightarrow> string \<Rightarrow> string \<Rightarrow> str_map get_result) \<Rightarrow> transport_object \<Rightarrow> TransportFault option" where
  "verify_object existing t =
     (case existing (to_Kind t) (to_Namespace t) (to_Name t) of
        GetNotFound \<Rightarrow> None
      | GetError e \<Rightarrow> Some (ErrGetTransport (to_Kind t) (to_Namespace t) (to_Name t) e)
      | GetOk annotations \<Rightarrow>
          if to_identity annotations \<noteq> to_identity (to_Annotations t)
          then Some (ErrOtherIdentity (to_Kind t) (to_Namespace t) (to_Name t)) else None)"

definition verifyProviderTransport ::
    "(string \<Rightarrow> string \<Rightarrow> string \<Rightarrow> str_map get_result) \<Rightarrow> transport_object list \<Rightarrow> TransportFault option" where
  "verifyProviderTransport existing resources =
     (case List.map_filter (verify_object existing) resources of [] \<Rightarrow> None | e # _ \<Rightarrow> Some e)"

text \<open>The Services that some rule of the namespace's HTTPRoutes uses, and the transport that is left over.\<close>

definition used_backends :: "unstr_lib \<Rightarrow> umap list \<Rightarrow> string list" where
  "used_backends u routes =
     concat (map (\<lambda>route. concat (map (\<lambda>rule. map (\<lambda>backend.
         case NestedString u (as_nil_map backend) [''name''] of Inr (Some name) \<Rightarrow> name | _ \<Rightarrow> [])
       (slice_or_nil u (as_nil_map rule) [''backendRefs''])) (slice_or_nil u route [''spec'', ''rules'']))) routes)"

definition delete_transport :: "(transport_object \<Rightarrow> string option) \<Rightarrow> transport_object \<Rightarrow> transport_object list \<Rightarrow> (TransportFault, transport_object list) res" where
  "delete_transport del t deleted =
     (case del t of Some e \<Rightarrow> Inl (ErrDeleteTransport (to_Name t) e) | None \<Rightarrow> Inr (deleted @ [t]))"

text \<open>\<open>services\<close> and \<open>entries\<close> are the labelled Services and ServiceEntries, \<open>routes\<close> the HTTPRoutes read live, \<open>release\<close> the outcome of
  \<open>releaseUnusedAttachmentProviders\<close>. The result is the transport that was deleted.\<close>

definition collectProviderTransport ::
    "unstr_lib \<Rightarrow> (string, transport_object list) res \<Rightarrow> (string, transport_object list) res \<Rightarrow> (string, umap list) res \<Rightarrow>
     (transport_object \<Rightarrow> string option) \<Rightarrow> string option \<Rightarrow> (TransportFault, transport_object list) res" where
  "collectProviderTransport u services entries routes del release =
     (let finish = (\<lambda>deleted. case release of Some e \<Rightarrow> Inl (ErrReleaseProviders e) | None \<Rightarrow> Inr deleted) in
      case services of
        Inl e \<Rightarrow> Inl (ErrListTransport e)
      | Inr ss \<Rightarrow>
          (case entries of
             Inl e \<Rightarrow> Inl (ErrListTransport e)
           | Inr es \<Rightarrow>
               if ss @ es = [] then finish []
               else (case routes of
                       Inl e \<Rightarrow> Inl (ErrListModelRoutes e)
                     | Inr rs \<Rightarrow>
                         bind_res (fold_res (delete_transport del)
                           (filter (\<lambda>t. to_Name t \<notin> set (used_backends u rs) \<and> to_identity (to_Annotations t) \<noteq> []) (ss @ es)) []) finish)))"

subsection \<open>References stay within what is permitted\<close>

lemma in_update: "x \<in> set (AList.update k v kvs) \<Longrightarrow> x \<in> set kvs \<or> x = (k, v)"
  by (induction kvs) (auto split: if_split_asm)

lemma note_ref_in:
  "x \<in> set (note_ref modelNamespace ref refs) \<Longrightarrow>
     x \<in> set refs \<or> fst x = (pr_Namespace (er_Ref ref), pr_Name (er_Ref ref)) \<and> fst (fst x) \<noteq> modelNamespace"
  by (auto simp: note_ref_def Let_def split: if_split_asm dest!: in_update)

lemma foreign_refs_sound:
  assumes "(key, inherited) \<in> set (foreign_refs modelNamespace models)"
  shows "fst key \<noteq> modelNamespace \<and> (\<exists>m \<in> set models. \<exists>ref \<in> set (ms_ExternalProviderRefs (em_Spec m)).
    key = (pr_Namespace (er_Ref ref), pr_Name (er_Ref ref)))"
proof -
  have "fst key \<noteq> modelNamespace \<and> (\<exists>ref \<in> set rs. key = (pr_Namespace (er_Ref ref), pr_Name (er_Ref ref)))"
    if "(key, inherited) \<in> set (fold (note_ref modelNamespace) rs [])" for rs
    using that
  proof (induction rs arbitrary: key inherited rule: rev_induct)
    case (snoc ref rs)
    have "(key, inherited) \<in> set (fold (note_ref modelNamespace) rs [])
        \<or> key = (pr_Namespace (er_Ref ref), pr_Name (er_Ref ref)) \<and> fst key \<noteq> modelNamespace"
      using note_ref_in [of "(key, inherited)" modelNamespace ref] snoc.prems by simp
    then show ?case
    proof
      assume "(key, inherited) \<in> set (fold (note_ref modelNamespace) rs [])"
      from snoc.IH [OF this] show ?thesis by auto
    qed auto
  qed simp
  with assms show ?thesis unfolding foreign_refs_def by fastforce
qed

text \<open>How a provider is returned: it was visited, permitted, found and not deleted; it counts as Ready only with valid settings and a
  readable CA, and a credential of its own that some reference inherits is valid or reported.\<close>

definition foreign_ok ::
    "k8s_lib \<Rightarrow> unstr_lib \<Rightarrow> ref_view \<Rightarrow> string \<Rightarrow> string \<Rightarrow> nname list \<Rightarrow> nname \<times> bool \<Rightarrow> ExternalProvider \<Rightarrow> bool" where
  "foreign_ok lib u rv modelNamespace gatewayNamespace unready entry p \<longleftrightarrow>
     (\<exists>p0. referencePermitted u rv modelNamespace (fst entry) = Inr True \<and> rv_Provider rv (fst entry) = GetOk p0
        \<and> \<not> om_Deleting (ep_Meta p0)
        \<and> (p = with_phase providerPhaseFailed p0
           \<or> p = with_phase PhaseReady p0 \<and> validateProvider lib p0 = None
             \<and> validateProviderCACredential (rv_Pem rv) (rv_Secrets rv) p0 gatewayNamespace = None
             \<and> (snd entry \<longrightarrow> fst entry \<in> set unready \<or> validateProviderCredential (rv_Secrets rv) p0 = None)))"

lemma foreign_step_cases:
  assumes "foreign_step lib u rv mns gns entry (ps, unready) = Inr (ps', unready')"
  shows "set unready \<subseteq> set unready' \<and>
    (ps' = ps \<and> \<not> (referencePermitted u rv mns (fst entry) = Inr True \<and> (\<exists>p0. rv_Provider rv (fst entry) = GetOk p0 \<and> \<not> om_Deleting (ep_Meta p0)))
     \<or> (\<exists>p. ps' = ps @ [p] \<and> foreign_ok lib u rv mns gns unready' entry p))"
proof -
  obtain key inherited where entry: "entry = (key, inherited)" by fastforce
  obtain permitted where perm: "referencePermitted u rv mns key = Inr permitted"
    using assms by (auto simp: foreign_step_def entry bind_res_Inr_iff)
  show ?thesis
  proof (cases "permitted \<and> (\<exists>p0. rv_Provider rv key = GetOk p0 \<and> \<not> om_Deleting (ep_Meta p0))")
    case False
    then show ?thesis using assms perm by (auto simp: foreign_step_def entry split: get_result.split_asm if_split_asm)
  next
    case True
    then obtain p0 where p0: "permitted" "rv_Provider rv key = GetOk p0" "\<not> om_Deleting (ep_Meta p0)" by blast
    then obtain p b where judge: "judge_foreign lib rv gns inherited p0 = Inr (p, b)"
      and eq: "ps' = ps @ [p]" "unready' = (if b then key # unready else unready)"
      using assms perm by (auto simp: foreign_step_def entry bind_res_Inr_iff)
    have "p = with_phase providerPhaseFailed p0
        \<or> p = with_phase PhaseReady p0 \<and> validateProvider lib p0 = None
          \<and> validateProviderCACredential (rv_Pem rv) (rv_Secrets rv) p0 gns = None
          \<and> (inherited \<longrightarrow> b \<or> validateProviderCredential (rv_Secrets rv) p0 = None)"
      using judge by (auto simp: judge_foreign_def Let_def split: if_split_asm)
    with p0 perm eq show ?thesis by (auto simp: foreign_ok_def entry)
  qed
qed

lemma foreign_ok_mono: "foreign_ok lib u rv mns gns unready entry p \<Longrightarrow> set unready \<subseteq> set unready' \<Longrightarrow> foreign_ok lib u rv mns gns unready' entry p"
  by (auto simp: foreign_ok_def)

lemma foreign_fold:
  assumes "fold_res (foreign_step lib u rv mns gns) visited (ps, unready) = Inr (ps', unready')"
  shows "set unready \<subseteq> set unready' \<and> set ps \<subseteq> set ps'
    \<and> (\<forall>p \<in> set ps'. p \<in> set ps \<or> (\<exists>entry \<in> set visited. foreign_ok lib u rv mns gns unready' entry p))
    \<and> (\<forall>entry \<in> set visited. \<forall>p0. referencePermitted u rv mns (fst entry) = Inr True \<and> rv_Provider rv (fst entry) = GetOk p0
          \<and> \<not> om_Deleting (ep_Meta p0) \<longrightarrow> (\<exists>p \<in> set ps'. foreign_ok lib u rv mns gns unready' entry p))"
  using assms
proof (induction visited arbitrary: ps unready)
  case (Cons entry visited)
  then obtain ps1 unready1 where step: "foreign_step lib u rv mns gns entry (ps, unready) = Inr (ps1, unready1)"
    and rest: "fold_res (foreign_step lib u rv mns gns) visited (ps1, unready1) = Inr (ps', unready')"
    by (auto simp: bind_res_Inr_iff split: sum.split_asm)
  note ih = Cons.IH [OF rest] and cases = foreign_step_cases [OF step]
  have mono: "set unready1 \<subseteq> set unready'" using ih by blast
  from cases show ?case
  proof (elim conjE disjE exE)
    assume a: "set unready \<subseteq> set unready1" "ps1 = ps"
      "\<not> (referencePermitted u rv mns (fst entry) = Inr True \<and> (\<exists>p0. rv_Provider rv (fst entry) = GetOk p0 \<and> \<not> om_Deleting (ep_Meta p0)))"
    show ?thesis using ih a by (simp only: set_simps ball_simps bex_simps) blast
  next
    fix p assume a: "set unready \<subseteq> set unready1" "ps1 = ps @ [p]" "foreign_ok lib u rv mns gns unready1 entry p"
    then have "foreign_ok lib u rv mns gns unready' entry p" using foreign_ok_mono mono by blast
    moreover have "p \<in> set ps'" using ih a(2) by auto
    ultimately show ?thesis using ih a(1,2) by (auto 0 3)
  qed
qed simp

text \<open>Providers that are not permitted do not influence the outcome.\<close>

lemma foreign_fold_secret:
  assumes "\<And>key. referencePermitted u rv mns key = Inr True \<Longrightarrow> f key = rv_Provider rv key"
  shows "fold_res (foreign_step lib u (rv\<lparr>rv_Provider := f\<rparr>) mns gns) visited st = fold_res (foreign_step lib u rv mns gns) visited st"
proof -
  have perm: "referencePermitted u (rv\<lparr>rv_Provider := f\<rparr>) mns key = referencePermitted u rv mns key" for key
    by (simp add: referencePermitted_def)
  have judge: "judge_foreign lib (rv\<lparr>rv_Provider := f\<rparr>) gns inherited p = judge_foreign lib rv gns inherited p" for inherited p
    unfolding judge_foreign_def Let_def by (simp cong: if_cong)
  have "foreign_step lib u (rv\<lparr>rv_Provider := f\<rparr>) mns gns entry st = foreign_step lib u rv mns gns entry st" for entry st
  proof -
    obtain key inherited where entry: "entry = (key, inherited)" by fastforce
    show ?thesis
      using assms [of key] unfolding foreign_step_def entry perm judge
      by (cases "referencePermitted u rv mns key") auto
  qed
  then have "foreign_step lib u (rv\<lparr>rv_Provider := f\<rparr>) mns gns = foreign_step lib u rv mns gns" by (intro ext)
  then show ?thesis by simp
qed

text \<open>C22. References across namespaces stay within what the owner permits. Whatever order the references are visited in, every provider
  returned is referenced by a model of the set, lives in another namespace, is permitted there by a ReferenceGrant, exists and is not
  being deleted; it is Ready only with valid settings and a readable CA, and a credential of its own that a reference inherits is valid
  or reported as unready. No such provider is lost. A provider without permission discloses nothing: its existence and content, or
  the failure to read it, cannot change the outcome.\<close>

theorem foreign_providers_confined:
  assumes "foreignProviders lib u rv [] modelNamespace gatewayNamespace visited = Inr (ps, unready)"
    and "set visited = set (foreign_refs modelNamespace models)"
  shows "(\<forall>p \<in> set ps. \<exists>entry. foreign_ok lib u rv modelNamespace gatewayNamespace unready entry p \<and> fst (fst entry) \<noteq> modelNamespace
      \<and> (\<exists>m \<in> set models. \<exists>ref \<in> set (ms_ExternalProviderRefs (em_Spec m)). fst entry = (pr_Namespace (er_Ref ref), pr_Name (er_Ref ref))))
    \<and> (\<forall>entry \<in> set visited. \<forall>p0. referencePermitted u rv modelNamespace (fst entry) = Inr True \<and> rv_Provider rv (fst entry) = GetOk p0
          \<and> \<not> om_Deleting (ep_Meta p0) \<longrightarrow> (\<exists>p \<in> set ps. foreign_ok lib u rv modelNamespace gatewayNamespace unready entry p))
    \<and> (\<forall>f. (\<forall>key. referencePermitted u rv modelNamespace key = Inr True \<longrightarrow> f key = rv_Provider rv key) \<longrightarrow>
          foreignProviders lib u (rv\<lparr>rv_Provider := f\<rparr>) [] modelNamespace gatewayNamespace visited = Inr (ps, unready))"
proof (intro conjI)
  have run: "fold_res (foreign_step lib u rv modelNamespace gatewayNamespace) visited ([], []) = Inr (ps, unready)"
    using assms(1) by (simp add: foreignProviders_def)
  note all = foreign_fold [OF run]
  show "\<forall>p \<in> set ps. \<exists>entry. foreign_ok lib u rv modelNamespace gatewayNamespace unready entry p \<and> fst (fst entry) \<noteq> modelNamespace
      \<and> (\<exists>m \<in> set models. \<exists>ref \<in> set (ms_ExternalProviderRefs (em_Spec m)). fst entry = (pr_Namespace (er_Ref ref), pr_Name (er_Ref ref)))"
  proof
    fix p assume "p \<in> set ps"
    then obtain key inherited where entry: "(key, inherited) \<in> set visited" "foreign_ok lib u rv modelNamespace gatewayNamespace unready (key, inherited) p"
      using all by auto
    show "\<exists>entry. foreign_ok lib u rv modelNamespace gatewayNamespace unready entry p \<and> fst (fst entry) \<noteq> modelNamespace
      \<and> (\<exists>m \<in> set models. \<exists>ref \<in> set (ms_ExternalProviderRefs (em_Spec m)). fst entry = (pr_Namespace (er_Ref ref), pr_Name (er_Ref ref)))"
      using foreign_refs_sound [of key inherited modelNamespace models] entry assms(2)
      by (intro exI [of _ "(key, inherited)"]) simp
  qed
  show "\<forall>entry \<in> set visited. \<forall>p0. referencePermitted u rv modelNamespace (fst entry) = Inr True \<and> rv_Provider rv (fst entry) = GetOk p0
          \<and> \<not> om_Deleting (ep_Meta p0) \<longrightarrow> (\<exists>p \<in> set ps. foreign_ok lib u rv modelNamespace gatewayNamespace unready entry p)"
    using all by blast
  show "\<forall>f. (\<forall>key. referencePermitted u rv modelNamespace key = Inr True \<longrightarrow> f key = rv_Provider rv key) \<longrightarrow>
          foreignProviders lib u (rv\<lparr>rv_Provider := f\<rparr>) [] modelNamespace gatewayNamespace visited = Inr (ps, unready)"
  proof (intro allI impI)
    fix f assume "\<forall>key. referencePermitted u rv modelNamespace key = Inr True \<longrightarrow> f key = rv_Provider rv key"
    then have agree: "\<And>key. referencePermitted u rv modelNamespace key = Inr True \<Longrightarrow> f key = rv_Provider rv key" by blast
    show "foreignProviders lib u (rv\<lparr>rv_Provider := f\<rparr>) [] modelNamespace gatewayNamespace visited = Inr (ps, unready)"
      using run by (simp add: foreignProviders_def foreign_fold_secret [OF agree])
  qed
qed

definition granted_provider :: ExternalProvider where
  "granted_provider =
     \<lparr>ep_Meta = \<lparr>om_Name = ''p'', om_Namespace = ''shared'', om_UID = ''u'', om_Generation = 1, om_Labels = [], om_Annotations = [], om_Deleting = False\<rparr>,
      ep_Spec = \<lparr>ps_Provider = ''openai'', ps_Endpoint = ''api.example.com'',
        ps_Auth = \<lparr>ac_Type = ''simple'', ac_SecretRef = \<lparr>nr_Name = ''s''\<rparr>\<rparr>, ps_Config = []\<rparr>,
      ep_Status = \<lparr>pst_Phase = [], pst_ObservedGeneration = 0, pst_Conditions = []\<rparr>\<rparr>"

definition grant_sample :: umap where
  "grant_sample = [(''spec'', UMap
     [(''from'', UList [UMap [(''group'', UStr inferenceGroup), (''kind'', UStr ''ExternalModel''), (''namespace'', UStr ''team'')]]),
      (''to'', UList [UMap [(''group'', UStr inferenceGroup), (''kind'', UStr ''ExternalProvider''), (''name'', UStr ''p'')]])])]"

definition granted_view :: ref_view where
  "granted_view =
     \<lparr>rv_Grants = (\<lambda>ns. if ns = ''shared'' then Inr [grant_sample] else Inr []),
      rv_Provider = (\<lambda>key. if key = (''shared'', ''p'') then GetOk granted_provider else GetError ''forbidden''),
      rv_Secrets = Some (\<lambda>_ _. GetNotFound), rv_Retriable = (\<lambda>_. True), rv_Pem = (\<lambda>_. True)\<rparr>"

definition granted_model :: ExternalModel where
  "granted_model =
     \<lparr>em_Meta = (ep_Meta granted_provider)\<lparr>om_Name := ''m'', om_Namespace := ''team''\<rparr>,
      em_Spec = \<lparr>ms_ModelName = [], ms_ExternalProviderRefs =
        map (\<lambda>n. \<lparr>er_Ref = \<lparr>pr_Name = n, pr_Namespace = ''shared''\<rparr>, er_TargetModel = [], er_APIFormat = [], er_Path = [], er_Config = [],
          er_Auth = None, er_Weight = None\<rparr>) [''p'', ''hidden''], ms_GatewayRefs = []\<rparr>,
      em_Status = \<lparr>mst_Phase = [], mst_HTTPRouteName = [], mst_ObservedGeneration = 0, mst_OverlayDigest = [], mst_OverlayGeneration = 0,
        mst_Conditions = [], mst_Gateways = []\<rparr>\<rparr>"

theorem foreign_providers_confined_witness:
  "foreignProviders sample_lib ref_unstr granted_view [] ''team'' ''gw'' (foreign_refs ''team'' [granted_model])
     = Inr ([with_phase PhaseReady granted_provider], [(''shared'', ''p'')])
   \<and> foreignProviders sample_lib ref_unstr (granted_view\<lparr>rv_Provider := (\<lambda>key. if key = (''shared'', ''p'') then GetOk granted_provider else GetNotFound)\<rparr>)
       [] ''team'' ''gw'' (foreign_refs ''team'' [granted_model])
     = Inr ([with_phase PhaseReady granted_provider], [(''shared'', ''p'')])"
proof -
  let ?f = "\<lambda>key. if key = (''shared'', ''p'') then GetOk granted_provider else GetNotFound"
  have endpoint: "validateProvider sample_lib granted_provider = None" by code_simp
  have run: "foreignProviders sample_lib ref_unstr granted_view [] ''team'' ''gw'' (foreign_refs ''team'' [granted_model])
     = Inr ([with_phase PhaseReady granted_provider], [(''shared'', ''p'')])" by code_simp
  have only: "key = (''shared'', ''p'')" if "referencePermitted ref_unstr granted_view ''team'' key = Inr True" for key
  proof -
    obtain ns n where key: "key = (ns, n)" by fastforce
    have slices: "slice_or_nil ref_unstr grant_sample [''spec'', ''to''] =
        [UMap [(''group'', UStr inferenceGroup), (''kind'', UStr ''ExternalProvider''), (''name'', UStr ''p'')]]"
      by (rule slice_or_nil_doc [OF ref_unstr_doc]) (simp add: grant_sample_def)
    have "ns = ''shared''" "grant_permits ref_unstr ''team'' n grant_sample"
      using that by (simp_all add: referencePermitted_def granted_view_def key split: if_split_asm)
    then show ?thesis unfolding grant_permits_def slices by (simp add: key grants_to_def as_nil_map_def str_or_empty_def)
  qed
  then have agree: "\<forall>key. referencePermitted ref_unstr granted_view ''team'' key = Inr True \<longrightarrow> ?f key = rv_Provider granted_view key"
    by (simp add: granted_view_def)
  have "foreignProviders sample_lib ref_unstr (granted_view\<lparr>rv_Provider := ?f\<rparr>) [] ''team'' ''gw'' (foreign_refs ''team'' [granted_model])
     = Inr ([with_phase PhaseReady granted_provider], [(''shared'', ''p'')])"
    by (rule foreign_providers_confined [OF run refl, THEN conjunct2, THEN conjunct2, THEN spec, THEN mp, OF agree])
  with run show ?thesis by blast
qed

end
