(* ===== verification/Effects.thy ===== *)
theory Effects
  imports Prelude
begin

text \<open>
  Reconciles that read and write the cluster. A function of the program that calls the API server is a state transformer with an
  error result over a world \<open>'w\<close>, which holds what the calls change and a log of what happened. A world is given to the
  program by an environment, which may change it before every call. \<open>wp\<close> is the weakest precondition: it holds of a world
  when running the program from there ends in a value or an error for which the given condition holds. \<open>keeps\<close> says that an
  invariant survives a program, whatever its result.
\<close>

named_theorems wp_simps \<open>weakest preconditions of the combinators\<close>
named_theorems keeps_intros \<open>programs that keep an invariant\<close>

type_synonym ('w, 'e, 'a) io = "'w \<Rightarrow> 'w \<times> ('e, 'a) res"

definition return_io :: "'a \<Rightarrow> ('w, 'e, 'a) io" where
  "return_io x w = (w, Inr x)"

definition fail_io :: "'e \<Rightarrow> ('w, 'e, 'a) io" where
  "fail_io e w = (w, Inl e)"

definition bind_io :: "('w, 'e, 'a) io \<Rightarrow> ('a \<Rightarrow> ('w, 'e, 'b) io) \<Rightarrow> ('w, 'e, 'b) io" where
  "bind_io m f w = (case m w of (w', Inl e) \<Rightarrow> (w', Inl e) | (w', Inr x) \<Rightarrow> f x w')"

text \<open>\<open>x, err := f()\<close> with the error inspected by the caller.\<close>

definition attempt :: "('w, 'e, 'a) io \<Rightarrow> ('w, 'f, ('e, 'a) res) io" where
  "attempt m w = (case m w of (w', r) \<Rightarrow> (w', Inr r))"

text \<open>\<open>fmt.Errorf("...: %w", err)\<close>\<close>

definition wrap_io :: "('e \<Rightarrow> 'f) \<Rightarrow> ('w, 'e, 'a) io \<Rightarrow> ('w, 'f, 'a) io" where
  "wrap_io g m w = (case m w of (w', Inl e) \<Rightarrow> (w', Inl (g e)) | (w', Inr x) \<Rightarrow> (w', Inr x))"

definition res_io :: "('e, 'a) res \<Rightarrow> ('w, 'e, 'a) io" where
  "res_io r w = (w, r)"

text \<open>A loop that returns on the first error.\<close>

fun for_io :: "('a \<Rightarrow> ('w, 'e, unit) io) \<Rightarrow> 'a list \<Rightarrow> ('w, 'e, unit) io" where
  "for_io f [] = return_io ()"
| "for_io f (x # xs) = bind_io (f x) (\<lambda>_. for_io f xs)"

text \<open>A loop with an accumulator.\<close>

fun fold_io :: "('a \<Rightarrow> 's \<Rightarrow> ('w, 'e, 's) io) \<Rightarrow> 'a list \<Rightarrow> 's \<Rightarrow> ('w, 'e, 's) io" where
  "fold_io f [] s = return_io s"
| "fold_io f (x # xs) s = bind_io (f x s) (fold_io f xs)"

subsection \<open>Laws of the combinators\<close>

lemma bind_return_io [simp]: "bind_io (return_io x) f = f x"
  by (simp add: bind_io_def return_io_def fun_eq_iff)

lemma return_bind_io: "bind_io m return_io = m"
  by (auto simp: bind_io_def return_io_def fun_eq_iff split: prod.split sum.split)

lemma bind_assoc_io: "bind_io (bind_io m f) g = bind_io m (\<lambda>x. bind_io (f x) g)"
  by (auto simp: bind_io_def fun_eq_iff split: prod.split sum.split)

lemma bind_fail_io [simp]: "bind_io (fail_io e) f = fail_io e"
  by (simp add: bind_io_def fail_io_def fun_eq_iff)

lemma for_io_append: "for_io f (xs @ ys) = bind_io (for_io f xs) (\<lambda>_. for_io f ys)"
  by (induction xs) (simp_all add: bind_assoc_io)

subsection \<open>Weakest preconditions\<close>

definition wp :: "('w, 'e, 'a) io \<Rightarrow> ('a \<Rightarrow> 'w \<Rightarrow> bool) \<Rightarrow> ('e \<Rightarrow> 'w \<Rightarrow> bool) \<Rightarrow> 'w \<Rightarrow> bool" where
  "wp m Q E w = (case m w of (w', Inl e) \<Rightarrow> E e w' | (w', Inr x) \<Rightarrow> Q x w')"

lemma wp_basic [wp_simps]:
  "wp (return_io x) Q E = Q x"
  "wp (fail_io e) Q E = E e"
  "wp (bind_io m f) Q E = wp m (\<lambda>x. wp (f x) Q E) E"
  "wp (attempt n) Q' E' = wp n (\<lambda>x. Q' (Inr x)) (\<lambda>e. Q' (Inl e))"
  "wp (wrap_io g n) Q'' E'' = wp n Q'' (\<lambda>e. E'' (g e))"
  "wp (res_io r) Q E = (case r of Inl e \<Rightarrow> E e | Inr x \<Rightarrow> Q x)"
  by (auto simp: wp_def fun_eq_iff return_io_def fail_io_def bind_io_def attempt_def wrap_io_def res_io_def split: prod.split sum.split)

lemma wp_if [wp_simps]: "wp (if b then m else n) Q E = (if b then wp m Q E else wp n Q E)"
  by simp

lemma wp_mono:
  assumes "wp m Q E w" "\<And>x w. Q x w \<Longrightarrow> Q' x w" "\<And>e w. E e w \<Longrightarrow> E' e w"
  shows "wp m Q' E' w"
  using assms by (auto simp: wp_def split: prod.split sum.split)

lemma wp_bindI:
  assumes "wp m P E w" "\<And>x w. P x w \<Longrightarrow> wp (f x) Q E w"
  shows "wp (bind_io m f) Q E w"
  using assms by (simp add: wp_simps) (erule wp_mono)

lemma wp_conj: "wp m (\<lambda>x w. P x w \<and> Q x w) (\<lambda>e w. D e w \<and> E e w) w \<longleftrightarrow> wp m P D w \<and> wp m Q E w"
  by (auto simp: wp_def split: prod.split sum.split)

lemma wp_for:
  assumes "I w" "\<And>x w. x \<in> set xs \<Longrightarrow> I w \<Longrightarrow> wp (f x) (\<lambda>_. I) E w"
  shows "wp (for_io f xs) (\<lambda>_. I) E w"
  using assms
proof (induction xs arbitrary: w)
  case (Cons x xs)
  have "wp (f x) (\<lambda>_. I) E w" using Cons.prems by simp
  then have "wp (f x) (\<lambda>_. wp (for_io f xs) (\<lambda>_. I) E) E w"
    by (rule wp_mono) (use Cons.IH Cons.prems(2) in simp_all)
  then show ?case by (simp add: wp_simps)
qed (simp add: wp_simps)

text \<open>What an iteration establishes and later ones keep holds of all elements after the loop.\<close>

lemma wp_for_covers:
  assumes "I w"
    and est: "\<And>x w. x \<in> set xs \<Longrightarrow> I w \<Longrightarrow> wp (f x) (\<lambda>_ w. I w \<and> R x w) E w"
    and kept: "\<And>x y w. y \<in> set xs \<Longrightarrow> I w \<Longrightarrow> R x w \<Longrightarrow> wp (f y) (\<lambda>_. R x) (\<lambda>_ _. True) w"
  shows "wp (for_io f xs) (\<lambda>_ w. I w \<and> (\<forall>x \<in> set xs. R x w)) E w"
proof -
  have "wp (for_io f ys) (\<lambda>_ w. I w \<and> (\<forall>x \<in> set ys. R x w)) E w" if "set ys \<subseteq> set xs" "I w" for ys w
    using that
  proof (induction ys arbitrary: w)
    case (Cons y ys w)
    have rest: "wp (for_io f ys) (\<lambda>_ u. I u \<and> R y u \<and> (\<forall>z \<in> set ys. R z u)) E v" if v: "I v" "R y v" for v
    proof -
      have "wp (for_io f ys) (\<lambda>_ u. I u \<and> R y u) (\<lambda>_ _. True) v"
      proof (rule wp_for)
        fix x u
        assume "x \<in> set ys" "I u \<and> R y u"
        then show "wp (f x) (\<lambda>_ u. I u \<and> R y u) (\<lambda>_ _. True) u"
          using est [of x u] kept [of x u y] Cons.prems(1) by (auto simp: wp_def split: prod.splits sum.splits)
      qed (use v in simp)
      moreover have "wp (for_io f ys) (\<lambda>_ w. I w \<and> (\<forall>z \<in> set ys. R z w)) E v"
        using Cons.IH [of v] Cons.prems v by simp
      ultimately show ?thesis by (auto simp: wp_def split: prod.split sum.split)
    qed
    have "wp (f y) (\<lambda>_ w. I w \<and> R y w) E w" using est Cons.prems by simp
    then have "wp (f y) (\<lambda>_. wp (for_io f ys) (\<lambda>_ u. I u \<and> R y u \<and> (\<forall>z \<in> set ys. R z u)) E) E w"
      by (rule wp_mono) (simp_all add: rest)
    then show ?case by (simp add: wp_simps)
  qed (simp add: wp_simps)
  then show ?thesis using assms(1) by simp
qed

subsection \<open>Invariants\<close>

definition keeps :: "('w \<Rightarrow> bool) \<Rightarrow> ('w, 'e, 'a) io \<Rightarrow> bool" where
  "keeps I m \<longleftrightarrow> (\<forall>w. I w \<longrightarrow> I (fst (m w)))"

lemma keeps_wp: "keeps I m \<longleftrightarrow> (\<forall>w. I w \<longrightarrow> wp m (\<lambda>_. I) (\<lambda>_. I) w)"
  by (auto simp: keeps_def wp_def split_beta split: sum.split)

lemma keeps_wpI: "keeps I m \<Longrightarrow> I w \<Longrightarrow> wp m (\<lambda>_. I) (\<lambda>_. I) w"
  by (simp add: keeps_wp)

lemma keeps_basic [keeps_intros]:
  "keeps I (return_io x)"
  "keeps I (fail_io e)"
  "keeps I (res_io r)"
  by (simp_all add: keeps_def return_io_def fail_io_def res_io_def)

lemma keeps_bind [keeps_intros]:
  assumes "keeps I m" "\<And>x. keeps I (f x)"
  shows "keeps I (bind_io m f)"
  using assms by (simp add: keeps_wp wp_simps) (blast intro: wp_mono)

lemma keeps_attempt [keeps_intros]: "keeps I m \<Longrightarrow> keeps I (attempt m)"
  by (simp add: keeps_wp wp_simps)

lemma keeps_wrap [keeps_intros]: "keeps I m \<Longrightarrow> keeps I (wrap_io g m)"
  by (simp add: keeps_wp wp_simps)

lemma keeps_if [keeps_intros]: "keeps I m \<Longrightarrow> keeps I n \<Longrightarrow> keeps I (if b then m else n)"
  by simp

lemma keeps_option [keeps_intros]:
  "keeps I m \<Longrightarrow> (\<And>x. keeps I (f x)) \<Longrightarrow> keeps I (case v of None \<Rightarrow> m | Some x \<Rightarrow> f x)"
  by (cases v) simp_all

lemma keeps_sum [keeps_intros]:
  "(\<And>e. keeps I (g e)) \<Longrightarrow> (\<And>x. keeps I (f x)) \<Longrightarrow> keeps I (case v of Inl e \<Rightarrow> g e | Inr x \<Rightarrow> f x)"
  by (cases v) simp_all

lemma keeps_pair [keeps_intros]: "(\<And>x y. keeps I (f x y)) \<Longrightarrow> keeps I (case v of (x, y) \<Rightarrow> f x y)"
  by (cases v) simp

lemma keeps_let [keeps_intros]: "(\<And>x. keeps I (f x)) \<Longrightarrow> keeps I (Let v f)"
  by simp

lemma keeps_for [keeps_intros]: "(\<And>x. keeps I (f x)) \<Longrightarrow> keeps I (for_io f xs)"
  by (induction xs) (auto intro: keeps_intros)

lemma keeps_fold [keeps_intros]: "(\<And>x s. keeps I (f x s)) \<Longrightarrow> keeps I (fold_io f xs s)"
  by (induction xs arbitrary: s) (auto intro: keeps_intros)

lemma keeps_conj: "keeps I m \<Longrightarrow> keeps J m \<Longrightarrow> keeps (\<lambda>w. I w \<and> J w) m"
  by (simp add: keeps_def)

end
