(* ===== verification/TenantConfig.thy ===== *)
theory TenantConfig
  imports Unstructured Publisher TenantNaming "HOL-Library.AList" "HOL-Library.Sublist"
begin

text \<open>
  The objects that a tenant is configured with, \<open>src/pkg/tenant/aitenant.go\<close> and \<open>src/pkg/tenant/maastenantconfig.go\<close>: an AITenant and
  its MaasTenantConfig, both owned by another controller and read as unstructured objects.

  An \<open>Unstructured\<close> is the record \<open>uobject\<close>: what the accessors \<open>GetKind\<close>, \<open>GetName\<close>, \<open>GetNamespace\<close>, \<open>GetGeneration\<close>, \<open>GetLabels\<close> and
  \<open>GetAnnotations\<close> return, and its content. The functions of the package \<open>unstructured\<close> beyond \<open>unstr_lib\<close> are the record \<open>obj_lib\<close>, with the
  conversion of a floating-point number to \<open>int64\<close>, which needs the number's value. What they document is \<open>edit_doc\<close>.
\<close>

record uobject =
  uo_Kind :: string
  uo_Name :: string
  uo_Namespace :: string
  uo_Generation :: int
  uo_Labels :: str_map
  uo_Annotations :: str_map
  uo_Object :: umap

record obj_lib =
  ol_unstr :: unstr_lib
  NestedFieldNoCopy :: "umap \<Rightarrow> string list \<Rightarrow> (string, uval option) res"
  NestedStringMap :: "umap \<Rightarrow> string list \<Rightarrow> (string, str_map option) res"
  SetNestedField :: "umap \<Rightarrow> uval \<Rightarrow> string list \<Rightarrow> (string, umap) res"
  RemoveNestedField :: "umap \<Rightarrow> string list \<Rightarrow> umap"
  float_int64 :: "string \<Rightarrow> int"

text \<open>\<open>s, _, _ := unstructured.NestedString(...)\<close>\<close>

definition nested_str :: "unstr_lib \<Rightarrow> umap \<Rightarrow> string list \<Rightarrow> string" where
  "nested_str u m path = (case NestedString u m path of Inr (Some s) \<Rightarrow> s | _ \<Rightarrow> [])"

definition nestedInt64 :: "obj_lib \<Rightarrow> umap \<Rightarrow> string \<Rightarrow> int option" where
  "nestedInt64 l m key =
     (case map_of m key of
        Some (UInt v) \<Rightarrow> Some v
      | Some (UFloat v) \<Rightarrow> Some (float_int64 l v)
      | _ \<Rightarrow> None)"

subsection \<open>Writing into an object\<close>

text \<open>What is documented of \<open>SetNestedField\<close>, \<open>SetNestedSlice\<close>, \<open>SetNestedMap\<close> and \<open>SetNestedStringMap\<close>: the value is stored at
  the path, maps are created on the way, and an error is returned when a step of the path holds something else. Nothing else changes.\<close>

fun set_path_at :: "umap \<Rightarrow> uval \<Rightarrow> string list \<Rightarrow> (string, umap) res" where
  "set_path_at m v [] = Inl ''no fields''"
| "set_path_at m v [k] = Inr (AList.update k v m)"
| "set_path_at m v (k # k' # ks) =
     (case map_of m k of
        None \<Rightarrow> bind_res (set_path_at [] v (k' # ks)) (\<lambda>m'. Inr (AList.update k (UMap m') m))
      | Some (UMap n) \<Rightarrow> bind_res (set_path_at n v (k' # ks)) (\<lambda>m'. Inr (AList.update k (UMap m') m))
      | Some _ \<Rightarrow> Inl ''not a map'')"

text \<open>Go does not order the keys of a map: two contents are the same when every lookup agrees, at every depth.\<close>

fun look :: "uval \<Rightarrow> string list \<Rightarrow> uval option" where
  "look v [] = Some v"
| "look (UMap m) (k # ks) = (case map_of m k of None \<Rightarrow> None | Some v \<Rightarrow> look v ks)"
| "look _ (k # ks) = None"

definition divergent :: "string list \<Rightarrow> string list \<Rightarrow> bool" where
  "divergent p q \<longleftrightarrow> \<not> prefix p q \<and> \<not> prefix q p"

definition edit_doc :: "obj_lib \<Rightarrow> bool" where
  "edit_doc l \<longleftrightarrow> nested_doc (ol_unstr l)
     \<and> (\<forall>m v p m'. SetNestedField l m v p = Inr m' \<longrightarrow>
          look (UMap m') p = Some v \<and> (\<forall>q. divergent p q \<longrightarrow> look (UMap m') q = look (UMap m) q))"

definition str_map_val :: "str_map \<Rightarrow> uval" where
  "str_map_val m = UMap (map (\<lambda>(k, v). (k, UStr v)) m)"

fun as_str_map :: "uval \<Rightarrow> str_map option" where
  "as_str_map (UMap m) = (if list_all (\<lambda>(k, v). as_str v \<noteq> None) m then Some (map (\<lambda>(k, v). (k, the (as_str v))) m) else None)"
| "as_str_map _ = None"

definition ref_obj_lib :: obj_lib where
  "ref_obj_lib = \<lparr>ol_unstr = ref_unstr, NestedFieldNoCopy = nested_ref Some, NestedStringMap = nested_ref as_str_map,
     SetNestedField = set_path_at, RemoveNestedField = (\<lambda>m p. case p of [k] \<Rightarrow> AList.delete k m | _ \<Rightarrow> m), float_int64 = (\<lambda>_. 0)\<rparr>"

subsection \<open>AITenant\<close>

definition AITenantConditionReady :: string where "AITenantConditionReady = ''Ready''"

definition AITenantPhaseFailed :: string where "AITenantPhaseFailed = ''Failed''"

definition GatewayRef :: "unstr_lib \<Rightarrow> uobject \<Rightarrow> (string \<times> string) option" where
  "GatewayRef u aitenant =
     (let name = nested_str u (uo_Object aitenant) [''status'', ''gatewayRef'', ''name''];
          namespace = nested_str u (uo_Object aitenant) [''status'', ''gatewayRef'', ''namespace'']
      in if name \<noteq> [] \<and> namespace \<noteq> [] then Some (name, namespace) else None)"

definition Phase :: "unstr_lib \<Rightarrow> uobject \<Rightarrow> string" where
  "Phase u aitenant = nested_str u (uo_Object aitenant) [''status'', ''phase'']"

definition IsFailed :: "unstr_lib \<Rightarrow> uobject \<Rightarrow> bool" where
  "IsFailed u aitenant \<longleftrightarrow> Phase u aitenant = AITenantPhaseFailed"

definition StatusIsCurrent :: "obj_lib \<Rightarrow> uobject \<Rightarrow> bool" where
  "StatusIsCurrent l aitenant =
     (case List.find (\<lambda>c. nested_str (ol_unstr l) c [''type''] = AITenantConditionReady)
             (maps_of (slice_or_nil (ol_unstr l) (uo_Object aitenant) [''status'', ''conditions''])) of
        None \<Rightarrow> False
      | Some condition \<Rightarrow> nestedInt64 l condition ''observedGeneration'' = Some (uo_Generation aitenant))"

definition DeployReady :: "obj_lib \<Rightarrow> uobject \<Rightarrow> bool" where
  "DeployReady l aitenant \<longleftrightarrow> StatusIsCurrent l aitenant \<and> \<not> IsFailed (ol_unstr l) aitenant"

subsection \<open>MaasTenantConfig\<close>

definition MaasTenantConfigInstanceName :: string where "MaasTenantConfigInstanceName = ''default-tenant''"

definition AnnotationPayloadProcessingType :: string where
  "AnnotationPayloadProcessingType = ''maas.opendatahub.io/payload-processing-type''"

definition PayloadProcessingBackendIPP :: string where "PayloadProcessingBackendIPP = ''ipp''"

definition AnnotationAITenantName :: string where "AnnotationAITenantName = ''maas.opendatahub.io/aitenant-name''"

definition AnnotationAITenantNamespace :: string where
  "AnnotationAITenantNamespace = ''maas.opendatahub.io/aitenant-namespace''"

definition LabelManagedByAITenant :: string where "LabelManagedByAITenant = ''maas.opendatahub.io/managed-by-aitenant''"

definition LabelTenantName :: string where "LabelTenantName = ''maas.opendatahub.io/tenant-name''"

definition PayloadProcessingType :: "uobject \<Rightarrow> string" where
  "PayloadProcessingType mtc = sm_get (uo_Annotations mtc) AnnotationPayloadProcessingType"

definition UsesPraxis :: "uobject \<Rightarrow> bool" where
  "UsesPraxis mtc \<longleftrightarrow> PayloadProcessingType mtc \<noteq> PayloadProcessingBackendIPP"

datatype TranslationError =
    TranslationNoConfig
  | TranslationRead string
  | TranslationNotObject
  | TranslationNotBoolean

definition APITranslationEnabled_config :: "obj_lib \<Rightarrow> uobject option \<Rightarrow> (TranslationError, bool) res" where
  "APITranslationEnabled_config l config =
     (case config of
        None \<Rightarrow> Inl TranslationNoConfig
      | Some mtc \<Rightarrow>
          (case NestedFieldNoCopy l (uo_Object mtc) [''spec'', ''apiTranslation''] of
             Inl e \<Rightarrow> Inl (TranslationRead e)
           | Inr None \<Rightarrow> Inr False
           | Inr (Some (UMap settings)) \<Rightarrow>
               (case map_of settings ''enabled'' of
                  None \<Rightarrow> Inr False
                | Some (UBool flag) \<Rightarrow> Inr flag
                | Some _ \<Rightarrow> Inl TranslationNotBoolean)
           | Inr (Some _) \<Rightarrow> Inl TranslationNotObject))"

datatype OutputChecksError =
    OutputGetConfig string
  | OutputTranslation TranslationError

definition outputUnsupportedMessage :: string where
  "outputUnsupportedMessage =
     ''API translation is enabled for this tenant, so its ExtProc streams responses, which the current '' @
     ''Praxis release does not check; use Input-phase checks only, or disable API translation''"

definition OutputChecksUnsupported :: "obj_lib \<Rightarrow> uobject get_result \<Rightarrow> (OutputChecksError, string) res" where
  "OutputChecksUnsupported l got =
     (case got of
        GetNotFound \<Rightarrow> Inr []
      | GetError e \<Rightarrow> Inl (OutputGetConfig e)
      | GetOk mtc \<Rightarrow>
          (case APITranslationEnabled_config l (Some mtc) of
             Inl e \<Rightarrow> Inl (OutputTranslation e)
           | Inr translated \<Rightarrow> Inr (if translated then outputUnsupportedMessage else [])))"

definition IdentifierFor :: "uobject \<Rightarrow> string" where
  "IdentifierFor mtc =
     (if sm_get (uo_Labels mtc) LabelManagedByAITenant \<noteq> ''true'' then []
      else if sm_get (uo_Labels mtc) LabelTenantName = DefaultAITenantName then []
      else sm_get (uo_Labels mtc) LabelTenantName)"

definition OwningAITenantRef :: "uobject \<Rightarrow> (string \<times> string) option" where
  "OwningAITenantRef mtc =
     (let name = sm_get (uo_Annotations mtc) AnnotationAITenantName;
          namespace = sm_get (uo_Annotations mtc) AnnotationAITenantNamespace
      in if name \<noteq> [] \<and> namespace \<noteq> [] then Some (name, namespace) else None)"

definition ConfigNamespace :: "unstr_lib \<Rightarrow> uobject \<Rightarrow> string" where
  "ConfigNamespace u aitenant = nested_str u (uo_Object aitenant) [''status'', ''tenantNamespace'']"

subsection \<open>The reference implementation meets the documented behaviour\<close>

lemma set_path_at_cons:
  assumes "set_path_at m v (k # p) = Inr m'"
  obtains (leaf) "p = []" "m' = AList.update k v m"
    | (node) n n' where "p \<noteq> []" "map_of m k = Some (UMap n) \<or> map_of m k = None \<and> n = []"
        "set_path_at n v p = Inr n'" "m' = AList.update k (UMap n') m"
  using assms by (cases p) (auto simp: bind_res_Inr_iff split: option.split_asm uval.split_asm)

lemma look_set_path: "set_path_at m v p = Inr m' \<Longrightarrow> look (UMap m') p = Some v"
proof (induction p arbitrary: m m')
  case (Cons k p)
  from Cons.prems show ?case
    by (cases rule: set_path_at_cons) (auto simp: update_conv' dest: Cons.IH)
qed simp

lemma look_set_other:
  assumes "set_path_at m v p = Inr m'" "divergent p q"
  shows "look (UMap m') q = look (UMap m) q"
  using assms
proof (induction p arbitrary: m m' q)
  case (Cons k p)
  obtain j q' where q: "q = j # q'" using Cons.prems(2) by (cases q) (auto simp: divergent_def)
  from Cons.prems(1) show ?case
  proof (cases rule: set_path_at_cons)
    case leaf
    then show ?thesis using Cons.prems(2) by (auto simp: q update_conv' divergent_def)
  next
    case (node n n')
    show ?thesis
    proof (cases "j = k")
      case True
      then have d: "divergent p q'" using Cons.prems(2) by (simp add: q divergent_def)
      then have "q' \<noteq> []" by (auto simp: divergent_def)
      then show ?thesis using node(2,4) Cons.IH [OF node(3) d] True by (cases q') (auto simp: q update_conv')
    qed (auto simp: q node update_conv')
  qed
qed simp

lemma ref_obj_lib_doc: "edit_doc ref_obj_lib"
  by (simp add: edit_doc_def ref_obj_lib_def ref_unstr_doc look_set_path look_set_other)

end
