(* ===== verification/NemoCatalog.thy ===== *)
theory NemoCatalog
  imports TenantConfig Guardrail "HOL-Library.Product_Lexorder"
begin

text \<open>
  Which guardrail checks a tenant runs and in which order, \<open>src/pkg/tenant/catalog.go\<close>. Attachments stand on the owning AITenant, the
  MaasTenantConfig, subscriptions, models and the model entries of subscriptions. An entry that cannot be read is not an
  error of the whole: it is the reference \<open>unreadableRef\<close>, which attaches every policy, beside a problem that is reported.

  The reads are the fields of \<open>catalog_reader\<close>. A CRD that is not installed lists as empty, and \<open>rd_ModelRef\<close> answers \<open>GetNotFound\<close> for it, as
  both are treated alike. \<open>sort.Slice\<close> runs on objects with different keys, where every sorting algorithm gives the same order.
\<close>

subsection \<open>Callouts\<close>

record nemoCheck =
  nk_name :: string
  nk_configID :: string
  nk_header :: string
  nk_request :: bool
  nk_response :: bool
  nk_closed :: bool

record nemoCallout =
  nc_name :: string
  nc_endpoint :: string
  nc_serviceNamespace :: string
  nc_serviceName :: string
  nc_podLabels :: str_map
  nc_authenticated :: bool
  nc_closed :: bool
  nc_timeout :: int
  nc_checks :: "nemoCheck list"

subsection \<open>Attachments\<close>

record attachmentRef =
  ar_namespace :: string
  ar_name :: string
  ar_checks :: "string list"
  ar_unreadable :: bool

definition unreadableRef :: attachmentRef where
  "unreadableRef = \<lparr>ar_namespace = [], ar_name = [], ar_checks = [], ar_unreadable = True\<rparr>"

datatype ChecksFault = ChecksNotList | ChecksEntryNotString

datatype AttachmentProblem =
    EntryNotObject string nat
  | EntryNoName string nat
  | EntryChecks string nat ChecksFault
  | ListUnreadable string string string
  | ModelRefsUnreadable string string
  | ModelRefNotObject string nat
  | ModelRefListNotList string nat
  | OwnerGone string string
  | OwnerMismatch string string string string

datatype CatalogError =
    CatalogGetConfig string string
  | CatalogGetAITenant string string string
  | CatalogList string string string
  | CatalogGetModelRef "string \<times> string" string

type_synonym attachments = "attachmentRef list \<times> AttachmentProblem list"

definition inTenant :: "attachmentRef \<Rightarrow> string \<Rightarrow> bool" where
  "inTenant ref tenantNamespace \<longleftrightarrow> \<not> ar_unreadable ref \<and> (ar_namespace ref = [] \<or> ar_namespace ref = tenantNamespace)"

definition attachedPolicies :: "attachmentRef list \<Rightarrow> string \<Rightarrow> string list \<times> bool" where
  "attachedPolicies refs tenantNamespace =
     (map ar_name (filter (\<lambda>ref. inTenant ref tenantNamespace) refs), list_ex ar_unreadable refs)"

definition stringList :: "uval option \<Rightarrow> (ChecksFault, string list) res" where
  "stringList v =
     (case v of
        None \<Rightarrow> Inr []
      | Some UNull \<Rightarrow> Inr []
      | Some (UList raw) \<Rightarrow> mapM_res (\<lambda>item. case as_str item of None \<Rightarrow> Inl ChecksEntryNotString | Some s \<Rightarrow> Inr s) raw
      | Some _ \<Rightarrow> Inl ChecksNotList)"

text \<open>One entry of a guardrails list: its reference and the problem with it, if any. \<open>ref, _ := entry["ref"].(map[string]any)\<close> leaves
  a nil map, whose lookups are nil.\<close>

definition parseGuardrailRef :: "string \<Rightarrow> nat \<Rightarrow> uval \<Rightarrow> attachments" where
  "parseGuardrailRef owner i item =
     (case item of
        UMap entry \<Rightarrow>
          (let ref = (case map_of entry ''ref'' of Some (UMap m) \<Rightarrow> m | _ \<Rightarrow> []);
               name = str_or_empty ref ''name''
           in if name = [] then ([unreadableRef], [EntryNoName owner i])
              else (case stringList (map_of entry ''checks'') of
                      Inl e \<Rightarrow> ([\<lparr>ar_namespace = str_or_empty ref ''namespace'', ar_name = name, ar_checks = [], ar_unreadable = False\<rparr>],
                                [EntryChecks owner i e])
                    | Inr checks \<Rightarrow>
                        ([\<lparr>ar_namespace = str_or_empty ref ''namespace'', ar_name = name, ar_checks = checks, ar_unreadable = False\<rparr>], [])))
      | _ \<Rightarrow> ([unreadableRef], [EntryNotObject owner i]))"

definition join_attachments :: "attachments list \<Rightarrow> attachments" where
  "join_attachments xs = (concat (map fst xs), concat (map snd xs))"

definition parseGuardrailRefs :: "string \<Rightarrow> uval list \<Rightarrow> attachments" where
  "parseGuardrailRefs owner raw = join_attachments (map (\<lambda>(i, item). parseGuardrailRef owner i item) (enumerate 0 raw))"

definition owner_of :: "uobject \<Rightarrow> string" where
  "owner_of obj = uo_Kind obj @ ''/'' @ uo_Name obj"

definition guardrailRefs :: "unstr_lib \<Rightarrow> uobject \<Rightarrow> attachments" where
  "guardrailRefs u obj =
     (case NestedSlice u (uo_Object obj) [''spec'', ''guardrails''] of
        Inl e \<Rightarrow> ([unreadableRef], [ListUnreadable (uo_Kind obj) (uo_Name obj) e])
      | Inr None \<Rightarrow> ([], [])
      | Inr (Some raw) \<Rightarrow> parseGuardrailRefs (owner_of obj) raw)"

definition modelRefGuardrail :: "string \<Rightarrow> nat \<Rightarrow> uval \<Rightarrow> attachments" where
  "modelRefGuardrail owner i entry =
     (case entry of
        UMap object \<Rightarrow>
          (case map_of object ''guardrails'' of
             None \<Rightarrow> ([], [])
           | Some UNull \<Rightarrow> ([], [])
           | Some (UList list) \<Rightarrow> parseGuardrailRefs owner list
           | Some _ \<Rightarrow> ([unreadableRef], [ModelRefListNotList owner i]))
      | _ \<Rightarrow> ([unreadableRef], [ModelRefNotObject owner i]))"

definition modelRefGuardrails :: "unstr_lib \<Rightarrow> uobject \<Rightarrow> attachments" where
  "modelRefGuardrails u subscription =
     (case NestedSlice u (uo_Object subscription) [''spec'', ''modelRefs''] of
        Inl e \<Rightarrow> ([unreadableRef], [ModelRefsUnreadable (uo_Name subscription) e])
      | Inr None \<Rightarrow> ([], [])
      | Inr (Some entries) \<Rightarrow>
          join_attachments (map (\<lambda>(i, entry). modelRefGuardrail (owner_of subscription) i entry) (enumerate 0 entries)))"

definition subscriptionModelRefKeys :: "unstr_lib \<Rightarrow> uobject \<Rightarrow> (string \<times> string) list" where
  "subscriptionModelRefKeys u subscription =
     (case NestedSlice u (uo_Object subscription) [''spec'', ''modelRefs''] of
        Inr (Some entries) \<Rightarrow>
          map (\<lambda>object. (let ns = str_or_empty object ''namespace'' in if ns = [] then uo_Namespace subscription else ns,
                         str_or_empty object ''name''))
            (filter (\<lambda>object. str_or_empty object ''name'' \<noteq> []) (maps_of entries))
      | _ \<Rightarrow> [])"

definition subscriptionNamesModel :: "unstr_lib \<Rightarrow> uobject \<Rightarrow> string \<Rightarrow> string \<Rightarrow> bool" where
  "subscriptionNamesModel u subscription namespace name \<longleftrightarrow> (namespace, name) \<in> set (subscriptionModelRefKeys u subscription)"

subsection \<open>Reading the catalog\<close>

datatype list_result = ListOk "uobject list" | ListNoMatch | ListError string

record catalog_reader =
  rd_Config :: "string \<Rightarrow> uobject get_result"
  rd_AITenant :: "string \<Rightarrow> string \<Rightarrow> uobject get_result"
  rd_List :: "string \<Rightarrow> string \<Rightarrow> list_result"
  rd_ModelRef :: "string \<times> string \<Rightarrow> uobject get_result"
  rd_Policies :: "string \<Rightarrow> (string, AIGuardrail list) res"
  rd_Policy :: "string \<Rightarrow> string \<Rightarrow> AIGuardrail get_result"
  rd_Selector :: "string \<Rightarrow> string \<Rightarrow> str_map get_result"

definition listUnstructured :: "catalog_reader \<Rightarrow> string \<Rightarrow> string \<Rightarrow> (CatalogError, uobject list) res" where
  "listUnstructured rd kind namespace =
     (case rd_List rd kind namespace of
        ListOk items \<Rightarrow> Inr items
      | ListNoMatch \<Rightarrow> Inr []
      | ListError e \<Rightarrow> Inl (CatalogList kind (if namespace = [] then ''all namespaces'' else namespace) e))"

definition object_key :: "uobject \<Rightarrow> string \<times> string" where
  "object_key obj = (uo_Namespace obj, uo_Name obj)"

definition sortResources :: "uobject list \<Rightarrow> uobject list" where
  "sortResources items = sort_key object_key items"

definition aiTenantGuardrails :: "unstr_lib \<Rightarrow> catalog_reader \<Rightarrow> uobject \<Rightarrow> string \<Rightarrow> (CatalogError, attachments) res" where
  "aiTenantGuardrails u rd mtc tenantNamespace =
     (case OwningAITenantRef mtc of
        None \<Rightarrow> Inr ([], [])
      | Some (name, namespace) \<Rightarrow>
          (case rd_AITenant rd namespace name of
             GetNotFound \<Rightarrow> Inr ([unreadableRef], [OwnerGone namespace name])
           | GetError e \<Rightarrow> Inl (CatalogGetAITenant namespace name e)
           | GetOk aitenant \<Rightarrow>
               (let got = ConfigNamespace u aitenant in
                if got = [] \<or> got \<noteq> tenantNamespace
                then Inr ([unreadableRef], [OwnerMismatch namespace name got tenantNamespace])
                else Inr (guardrailRefs u aitenant))))"

definition add_model_ref ::
    "catalog_reader \<Rightarrow> string \<Rightarrow> string \<times> string \<Rightarrow> uobject list \<times> (string \<times> string) list \<Rightarrow>
     (CatalogError, uobject list \<times> (string \<times> string) list) res" where
  "add_model_ref rd tenantNamespace key st =
     (case st of (models, seen) \<Rightarrow>
        if fst key = [] \<or> fst key = tenantNamespace \<or> key \<in> set seen then Inr st
        else (case rd_ModelRef rd key of
                GetNotFound \<Rightarrow> Inr (models, key # seen)
              | GetError e \<Rightarrow> Inl (CatalogGetModelRef key e)
              | GetOk model \<Rightarrow> Inr (models @ [model], key # seen)))"

definition modelRefsForTenant ::
    "unstr_lib \<Rightarrow> catalog_reader \<Rightarrow> string \<Rightarrow> uobject list \<Rightarrow> (CatalogError, uobject list) res" where
  "modelRefsForTenant u rd tenantNamespace subscriptions =
     bind_res (listUnstructured rd ''MaaSModelRef'' tenantNamespace) (\<lambda>models.
       bind_res (fold_res (add_model_ref rd tenantNamespace) (concat (map (subscriptionModelRefKeys u) subscriptions))
                   (models, map object_key models))
         (\<lambda>(models, seen). Inr models))"

text \<open>The lists from the broadest to the narrowest. Problems with entries are collected; only a failing read ends the function.\<close>

definition configGuardrails :: "unstr_lib \<Rightarrow> catalog_reader \<Rightarrow> string \<Rightarrow> (CatalogError, attachments) res" where
  "configGuardrails u rd tenantNamespace =
     (case rd_Config rd tenantNamespace of
        GetNotFound \<Rightarrow> Inr ([], [])
      | GetError e \<Rightarrow> Inl (CatalogGetConfig tenantNamespace e)
      | GetOk mtc \<Rightarrow>
          bind_res (aiTenantGuardrails u rd mtc tenantNamespace) (\<lambda>tenantRefs.
            Inr (join_attachments [tenantRefs, guardrailRefs u mtc])))"

definition catalogAttachments :: "unstr_lib \<Rightarrow> catalog_reader \<Rightarrow> string \<Rightarrow> (CatalogError, attachments) res" where
  "catalogAttachments u rd tenantNamespace =
     bind_res (configGuardrails u rd tenantNamespace) (\<lambda>configRefs.
     bind_res (listUnstructured rd ''MaaSSubscription'' tenantNamespace) (\<lambda>listed.
       let subscriptions = sortResources listed in
       bind_res (modelRefsForTenant u rd tenantNamespace subscriptions) (\<lambda>models.
         Inr (join_attachments
           (configRefs # map (guardrailRefs u) subscriptions @ map (guardrailRefs u) (sortResources models)
            @ map (modelRefGuardrails u) subscriptions)))))"

subsection \<open>Order of the checks\<close>

text \<open>The checks that one attachment takes from a policy. \<open>used\<close> holds the keys of the checks taken so far.\<close>

definition check_key :: "string \<Rightarrow> string \<Rightarrow> string" where
  "check_key callout check = callout @ ''/'' @ check"

fun take_checks :: "string \<Rightarrow> string list \<Rightarrow> nemoCheck list \<Rightarrow> string list \<Rightarrow> nemoCheck list \<times> string list" where
  "take_checks policy wanted [] used = ([], used)"
| "take_checks policy wanted (check # checks) used =
     (if wanted \<noteq> [] \<and> nk_name check \<notin> set wanted then take_checks policy wanted checks used
      else if check_key policy (nk_name check) \<in> set used then take_checks policy wanted checks used
      else (case take_checks policy wanted checks (check_key policy (nk_name check) # used) of
              (selected, used') \<Rightarrow> (check # selected, used')))"

definition selectCalloutChecks :: "nemoCallout \<Rightarrow> string list \<Rightarrow> string list \<Rightarrow> nemoCheck list \<times> string list" where
  "selectCalloutChecks callout wanted used = take_checks (nc_name callout) wanted (nc_checks callout) used"

definition add_callout :: "nemoCallout \<Rightarrow> string list \<Rightarrow> nemoCallout list \<times> string list \<Rightarrow> nemoCallout list \<times> string list" where
  "add_callout src checks st =
     (case st of (ordered, used) \<Rightarrow>
        (case selectCalloutChecks src checks used of
           (selected, used') \<Rightarrow> (if selected = [] then ordered else ordered @ [src\<lparr>nc_checks := selected\<rparr>], used')))"

definition byName :: "nemoCallout list \<Rightarrow> string \<Rightarrow> nemoCallout option" where
  "byName callouts = map_of (rev (map (\<lambda>c. (nc_name c, c)) callouts))"

definition add_ref :: "nemoCallout list \<Rightarrow> string \<Rightarrow> attachmentRef \<Rightarrow> nemoCallout list \<times> string list \<Rightarrow> nemoCallout list \<times> string list" where
  "add_ref callouts tenantNamespace ref st =
     (if inTenant ref tenantNamespace
      then (case byName callouts (ar_name ref) of None \<Rightarrow> st | Some src \<Rightarrow> add_callout src (ar_checks ref) st)
      else st)"

definition add_name :: "nemoCallout list \<Rightarrow> string \<Rightarrow> nemoCallout list \<times> string list \<Rightarrow> nemoCallout list \<times> string list" where
  "add_name callouts name st = (case byName callouts name of None \<Rightarrow> st | Some src \<Rightarrow> add_callout src [] st)"

definition applyAttachmentOrder :: "nemoCallout list \<Rightarrow> attachmentRef list \<Rightarrow> string \<Rightarrow> nemoCallout list" where
  "applyAttachmentOrder callouts refs tenantNamespace =
     (let st = fold (add_ref callouts tenantNamespace) refs ([], []) in
      fst (if snd (attachedPolicies refs tenantNamespace)
           then fold (add_name callouts) (sort (remdups (map nc_name callouts))) st
           else st))"

subsection \<open>Tenants of a subscription or a model\<close>

definition subscriptionNamespacesNaming ::
    "unstr_lib \<Rightarrow> catalog_reader \<Rightarrow> string \<Rightarrow> string \<Rightarrow> (CatalogError, string list) res" where
  "subscriptionNamespacesNaming u rd namespace name =
     bind_res (listUnstructured rd ''MaaSSubscription'' []) (\<lambda>subscriptions.
       Inr (rev (remdups (rev (map uo_Namespace (filter (\<lambda>s. subscriptionNamesModel u s namespace name) subscriptions))))))"

definition ownNamespace :: "uobject \<Rightarrow> string list" where
  "ownNamespace obj = (if uo_Namespace obj = [] then [] else [uo_Namespace obj])"

text \<open>On an error the namespaces already found are returned with it.\<close>

definition ModelRefTenants :: "unstr_lib \<Rightarrow> catalog_reader \<Rightarrow> uobject \<Rightarrow> string list \<times> CatalogError option" where
  "ModelRefTenants u rd obj =
     (let own = (if uo_Namespace obj \<noteq> [] \<and> rd_Config rd (uo_Namespace obj) \<noteq> GetNotFound then [uo_Namespace obj] else []) in
      case subscriptionNamespacesNaming u rd (uo_Namespace obj) (uo_Name obj) of
        Inl e \<Rightarrow> (own, Some e)
      | Inr naming \<Rightarrow> (own @ filter (\<lambda>ns. ns \<noteq> [] \<and> ns \<notin> set own) naming, None))"

end
