(* ===== verification/NemoCaller.thy ===== *)
theory NemoCaller
  imports NemoCatalog NemoEndpoint
begin

text \<open>
  Compilation of a tenant's guardrail checks into the configuration of its post-auth ExtProc, \<open>src/pkg/tenant/nemocaller.go\<close> and
  \<open>src/pkg/tenant/nemoauth.go\<close>. Accepted policies become callouts, every other attached policy a closed callout, whose checks reject the
  requests that select them. Callouts become filters in \<open>extproc.yaml\<close>, egress rules, and Roles that let the pod call the provider.

  Errors of single policies and entries are reported beside the callouts (\<open>soft_errors\<close>); a failing read or a stale acceptance ends
  the compilation. Reading and writing YAML belongs to a library: the record \<open>yaml_lib\<close>. A policy's phases are the two values its CRD
  admits, so the branch for other values has no counterpart. Rendered objects are edited through \<open>obj_lib\<close>.
\<close>

subsection \<open>Accepted policies\<close>

datatype CompileError =
    TimeoutTooFine string string int
  | EndpointRejected string string EndpointError
  | EmptyConfigID string string string
  | NoCompilablePhase string string string
  | NoCompilableChecks string string
  | OutputNotEnforced string string

datatype CalloutError =
    CalloutCatalog CatalogError
  | CalloutList string string
  | StaleBinding string string

record soft_errors =
  sf_malformed :: "AttachmentProblem list"
  sf_rejected :: "CompileError list"

abbreviation ag_Name :: "AIGuardrail \<Rightarrow> string" where
  "ag_Name g \<equiv> om_Name (ag_Meta g)"

definition check_header :: "AIGuardrail \<Rightarrow> AIGuardrailCheck \<Rightarrow> string" where
  "check_header policy check = CheckHeaderName (ag_Namespace policy) (ag_Name policy) (gc_Name check)"

definition compile_check :: "AIGuardrail \<Rightarrow> AIGuardrailCheck \<Rightarrow> (CompileError, nemoCheck) res" where
  "compile_check policy check =
     (if gc_ConfigID check = [] then Inl (EmptyConfigID (ag_Namespace policy) (ag_Name policy) (gc_Name check))
      else
        (let request = PhaseInput \<in> set (gc_Phases check);
             response = PhaseOutput \<in> set (gc_Phases check)
         in if \<not> request \<and> \<not> response then Inl (NoCompilablePhase (ag_Namespace policy) (ag_Name policy) (gc_Name check))
            else Inr \<lparr>nk_name = gc_Name check, nk_configID = gc_ConfigID check, nk_header = check_header policy check,
                      nk_request = request, nk_response = response, nk_closed = False\<rparr>))"

definition provider_namespace :: "AIGuardrail \<Rightarrow> string" where
  "provider_namespace policy =
     (let ref = gp_Ref (gp_Nemo (gs_Provider (ag_Spec policy)))
      in if gr_Namespace ref = [] then ag_Namespace policy else gr_Namespace ref)"

definition provider_service :: "k8s_lib \<Rightarrow> AIGuardrail \<Rightarrow> (EndpointError, NemoService) res" where
  "provider_service lib policy =
     ParseNemoEndpoint lib (gst_ProviderEndpoint (ag_Status policy)) (provider_namespace policy)
       (gr_Name (gp_Ref (gp_Nemo (gs_Provider (ag_Spec policy)))))"

definition nemoCalloutFrom :: "k8s_lib \<Rightarrow> AIGuardrail \<Rightarrow> (CompileError, nemoCallout) res" where
  "nemoCalloutFrom lib policy =
     (let timeout = gp_Timeout (gs_Provider (ag_Spec policy)) in
      if ProviderTimeoutTooFine timeout then Inl (TimeoutTooFine (ag_Namespace policy) (ag_Name policy) timeout)
      else (case provider_service lib policy of
              Inl e \<Rightarrow> Inl (EndpointRejected (ag_Namespace policy) (ag_Name policy) e)
            | Inr service \<Rightarrow>
                bind_res (mapM_res (compile_check policy) (gs_Checks (ag_Spec policy))) (\<lambda>checks.
                  if checks = [] then Inl (NoCompilableChecks (ag_Namespace policy) (ag_Name policy))
                  else Inr \<lparr>nc_name = ag_Name policy, nc_endpoint = gst_ProviderEndpoint (ag_Status policy),
                            nc_serviceNamespace = ns_Namespace service, nc_serviceName = ns_Name service, nc_podLabels = [],
                            nc_authenticated = ns_Authenticated service, nc_closed = False, nc_timeout = timeout,
                            nc_checks = checks\<rparr>)))"

definition closedCheck :: "string \<Rightarrow> string \<Rightarrow> nemoCheck" where
  "closedCheck name header =
     \<lparr>nk_name = name, nk_configID = [], nk_header = header, nk_request = True, nk_response = False, nk_closed = True\<rparr>"

definition closed_with :: "string \<Rightarrow> nemoCheck list \<Rightarrow> nemoCallout" where
  "closed_with name checks =
     \<lparr>nc_name = name, nc_endpoint = [], nc_serviceNamespace = [], nc_serviceName = [], nc_podLabels = [],
      nc_authenticated = False, nc_closed = True, nc_timeout = 0, nc_checks = checks\<rparr>"

definition closedCallout :: "AIGuardrail \<Rightarrow> nemoCallout option" where
  "closedCallout policy =
     (let checks = map (\<lambda>check. closedCheck (gc_Name check) (check_header policy check))
                     (filter (\<lambda>check. gc_Name check \<noteq> []) (gs_Checks (ag_Spec policy)))
      in if checks = [] then None else Some (closed_with (ag_Name policy) checks))"

definition close_policy :: "AIGuardrail \<Rightarrow> nemoCallout list" where
  "close_policy policy = (case closedCallout policy of None \<Rightarrow> [] | Some c \<Rightarrow> [c])"

text \<open>One policy that an attachment names: its callout, and the error when an accepted policy could not be compiled.\<close>

definition compile_policy :: "guard_lib \<Rightarrow> bool \<Rightarrow> AIGuardrail \<Rightarrow> (CalloutError, nemoCallout list \<times> CompileError list) res" where
  "compile_policy gl outputUnsupported policy =
     (if BindingStale gl policy then Inl (StaleBinding (ag_Namespace policy) (ag_Name policy))
      else if \<not> BindingAccepted gl policy \<or> gst_ProviderEndpoint (ag_Status policy) = [] then Inr (close_policy policy, [])
      else (case (case nemoCalloutFrom (gl_k8s gl) policy of
                    Inl e \<Rightarrow> Inl e
                  | Inr callout \<Rightarrow>
                      if outputUnsupported \<and> list_ex nk_response (nc_checks callout)
                      then Inl (OutputNotEnforced (ag_Namespace policy) (ag_Name policy)) else Inr callout) of
              Inl e \<Rightarrow> Inr (close_policy policy, [e])
            | Inr callout \<Rightarrow> Inr ([callout], [])))"

definition compile_policies ::
    "guard_lib \<Rightarrow> bool \<Rightarrow> AIGuardrail list \<Rightarrow> (CalloutError, nemoCallout list \<times> CompileError list) res" where
  "compile_policies gl outputUnsupported policies =
     bind_res (mapM_res (compile_policy gl outputUnsupported) policies) (\<lambda>rs.
       Inr (concat (map fst rs), concat (map snd rs)))"

definition acceptedNemoCallouts ::
    "guard_lib \<Rightarrow> catalog_reader \<Rightarrow> string \<Rightarrow> bool \<Rightarrow> (CalloutError, nemoCallout list \<times> soft_errors) res" where
  "acceptedNemoCallouts gl rd tenantNamespace outputUnsupported =
     (case catalogAttachments (gl_unstr gl) rd tenantNamespace of
        Inl e \<Rightarrow> Inl (CalloutCatalog e)
      | Inr (refs, malformed) \<Rightarrow>
          (case attachedPolicies refs tenantNamespace of (attached, all) \<Rightarrow>
             if \<not> all \<and> attached = [] then Inr ([], \<lparr>sf_malformed = malformed, sf_rejected = []\<rparr>)
             else (case rd_Policies rd tenantNamespace of
                     Inl e \<Rightarrow> Inl (CalloutList tenantNamespace e)
                   | Inr policies \<Rightarrow>
                       bind_res (compile_policies gl outputUnsupported
                           (filter (\<lambda>policy. all \<or> ag_Name policy \<in> set attached) policies)) (\<lambda>(callouts, rejected).
                         Inr (applyAttachmentOrder callouts refs tenantNamespace,
                              \<lparr>sf_malformed = malformed, sf_rejected = rejected\<rparr>)))))"

definition hasNemoCallouts :: "guard_lib \<Rightarrow> catalog_reader \<Rightarrow> string \<Rightarrow> (CalloutError, bool) res" where
  "hasNemoCallouts gl rd tenantNamespace =
     (case acceptedNemoCallouts gl rd tenantNamespace False of
        Inl (StaleBinding _ _) \<Rightarrow> Inr True
      | Inl e \<Rightarrow> Inl e
      | Inr (callouts, soft) \<Rightarrow> Inr (callouts \<noteq> []))"

definition HasPostAuthFilters :: "guard_lib \<Rightarrow> catalog_reader \<Rightarrow> string \<Rightarrow> (CalloutError, bool) res" where
  "HasPostAuthFilters gl rd tenantNamespace = hasNemoCallouts gl rd tenantNamespace"

record nemoCalloutInputs =
  ni_generation :: int
  ni_deleting :: bool
  ni_accepted :: bool
  ni_revision :: string
  ni_endpoint :: string

definition calloutInputs :: "guard_lib \<Rightarrow> AIGuardrail \<Rightarrow> nemoCalloutInputs" where
  "calloutInputs gl policy =
     \<lparr>ni_generation = ag_Generation policy, ni_deleting = om_Deleting (ag_Meta policy), ni_accepted = BindingAccepted gl policy,
      ni_revision = gst_BindingRevision (ag_Status policy), ni_endpoint = gst_ProviderEndpoint (ag_Status policy)\<rparr>"

text \<open>The predicate on updates; an object of another type is \<open>None\<close>.\<close>

definition nemoCalloutChanged :: "guard_lib \<Rightarrow> AIGuardrail option \<Rightarrow> AIGuardrail option \<Rightarrow> bool" where
  "nemoCalloutChanged gl old_obj new_obj =
     (case (old_obj, new_obj) of
        (Some old, Some new) \<Rightarrow> calloutInputs gl old \<noteq> calloutInputs gl new
      | _ \<Rightarrow> True)"

subsection \<open>Confinement to the tenant's infrastructure\<close>

definition stays_open :: "string \<Rightarrow> nemoCallout \<Rightarrow> bool" where
  "stays_open infraNamespace callout \<longleftrightarrow> nc_closed callout \<or> infraNamespace \<noteq> [] \<and> nc_serviceNamespace callout = infraNamespace"

definition pin_callout :: "string \<Rightarrow> nemoCallout \<Rightarrow> nemoCallout" where
  "pin_callout infraNamespace callout =
     (if stays_open infraNamespace callout then callout
      else closed_with (nc_name callout) (map (\<lambda>check. closedCheck (nk_name check) (nk_header check)) (nc_checks callout)))"

definition pinNemoCalloutsToInfra :: "nemoCallout list \<Rightarrow> string \<Rightarrow> nemoCallout list \<times> nemoCallout list" where
  "pinNemoCalloutsToInfra callouts infraNamespace =
     (map (pin_callout infraNamespace) callouts,
      filter (\<lambda>c. \<not> stays_open infraNamespace c \<and> infraNamespace \<noteq> []) callouts)"

definition outside_message :: "guard_lib \<Rightarrow> string \<Rightarrow> nemoCallout \<Rightarrow> string" where
  "outside_message gl infraNamespace callout =
     ''NeMo Service '' @ nc_serviceNamespace callout @ ''/'' @ nc_serviceName callout
     @ '' is not in the infrastructure namespace '' @ go_quote gl infraNamespace
     @ '', so this tenant rejects requests that select the checks of AIGuardrail '' @ nc_name callout"

text \<open>The set reported last per tenant is state of the reconciler. The value is the new state and the Events, each for a policy.\<close>

definition reportNemoOutsideInfra ::
    "guard_lib \<Rightarrow> catalog_reader \<Rightarrow> bool \<Rightarrow> string \<Rightarrow> string \<Rightarrow> nemoCallout list \<Rightarrow> (string \<rightharpoonup> string) \<Rightarrow>
     (string \<rightharpoonup> string) \<times> (AIGuardrail \<times> string) list" where
  "reportNemoOutsideInfra gl rd recorder tenantNamespace infraNamespace outside reported =
     (let messages = map (outside_message gl infraNamespace) outside;
          key = join_str messages [CHR 0x0A]
      in if reported tenantNamespace = Some key \<or> (reported tenantNamespace = None \<and> key = []) then (reported, [])
         else if key = [] then (reported(tenantNamespace := None), [])
         else (reported(tenantNamespace \<mapsto> key),
               if \<not> recorder then []
               else List.map_filter (\<lambda>(callout, message).
                      case rd_Policy rd tenantNamespace (nc_name callout) of GetOk policy \<Rightarrow> Some (policy, message) | _ \<Rightarrow> None)
                      (zip outside messages)))"

definition selector_labels :: "str_map get_result \<Rightarrow> str_map" where
  "selector_labels got = (case got of GetOk s \<Rightarrow> s | _ \<Rightarrow> [])"

definition bind_selector ::
    "catalog_reader \<Rightarrow> nemoCallout \<Rightarrow> nemoCallout list \<times> (string \<times> str_map) list \<Rightarrow> nemoCallout list \<times> (string \<times> str_map) list" where
  "bind_selector rd callout st =
     (case st of (done, seen) \<Rightarrow>
        if nc_serviceName callout = [] \<or> nc_serviceNamespace callout = [] then (done @ [callout], seen)
        else
          (let key = nc_serviceNamespace callout @ ''/'' @ nc_serviceName callout in
           case map_of seen key of
             Some labels \<Rightarrow> (done @ [callout\<lparr>nc_podLabels := labels\<rparr>], seen)
           | None \<Rightarrow>
               (let labels = selector_labels (rd_Selector rd (nc_serviceNamespace callout) (nc_serviceName callout))
                in (done @ [callout\<lparr>nc_podLabels := labels\<rparr>], (key, labels) # seen))))"

definition bindNemoPodSelectors :: "catalog_reader option \<Rightarrow> nemoCallout list \<Rightarrow> nemoCallout list" where
  "bindNemoPodSelectors reader callouts =
     (case reader of None \<Rightarrow> callouts | Some rd \<Rightarrow> fst (fold (bind_selector rd) callouts ([], [])))"

end
