(* ===== verification/NemoFilters.thy ===== *)
theory NemoFilters
  imports NemoCaller
begin

text \<open>
  The configuration rendered for a tenant's callouts, the second half of \<open>src/pkg/tenant/nemocaller.go\<close> and \<open>src/pkg/tenant/nemoauth.go\<close>: the
  filters of \<open>extproc.yaml\<close>, the egress rules of the NetworkPolicy, the mounted credentials, and the Roles next to the providers.
\<close>

subsection \<open>Endpoints\<close>

text \<open>\<open>(*url.URL).String\<close> for the URLs the compiler prints. Their endpoint passed \<open>ParseNemoEndpoint\<close>, so they have a host and neither
  user information nor a fragment; \<open>escape_host\<close> is \<open>escape\<close> in the mode of a host.\<close>

definition upper_hex :: "nat \<Rightarrow> char" where
  "upper_hex n = ''0123456789ABCDEF'' ! (n mod 16)"

definition escape_host :: "string \<Rightarrow> string" where
  "escape_host s = concat (map (\<lambda>c. if host_char c then [c]
     else [CHR ''%'', upper_hex (of_char c div 16), upper_hex (of_char c)]) s)"

definition url_string :: "go_url \<Rightarrow> string" where
  "url_string u =
     (if url_Scheme u = [] then [] else url_Scheme u @ '':'') @ ''//'' @ escape_host (url_Host u) @ url_Path u
     @ (if url_ForceQuery u \<or> url_RawQuery u \<noteq> [] then ''?'' @ url_RawQuery u else [])"

definition checksEndpoint :: "string \<Rightarrow> string option" where
  "checksEndpoint endpoint =
     (case Parse endpoint of None \<Rightarrow> None | Some parsed \<Rightarrow> Some (url_string (parsed\<lparr>url_Path := NemoChecksPath\<rparr>)))"

subsection \<open>Filters\<close>

record nemoFilter =
  nf_endpoint :: string
  nf_configID :: string
  nf_header :: string
  nf_authenticated :: bool
  nf_timeout :: int
  nf_request :: bool
  nf_response :: bool
  nf_closed :: bool

datatype ExtprocError =
    BadEndpoint string
  | NoChecksCompiled
  | ParseYaml string
  | NoRequestID
  | WriteYaml string
  | DeploymentMissing string
  | ConfigMapMissing string
  | ReadConfigMap "string option"
  | WriteConfigMap string
  | ReadEgress string
  | WriteEgress string
  | WriteConfigHash string
  | MountRead string "string option"
  | MountContainer
  | MountWrite string string

definition closed_filter :: "nemoCheck \<Rightarrow> nemoFilter" where
  "closed_filter check =
     \<lparr>nf_endpoint = [], nf_configID = [], nf_header = nk_header check, nf_authenticated = False, nf_timeout = 0,
      nf_request = True, nf_response = False, nf_closed = True\<rparr>"

definition call_filter :: "nemoCallout \<Rightarrow> string \<Rightarrow> nemoCheck \<Rightarrow> bool \<Rightarrow> bool \<Rightarrow> nemoFilter" where
  "call_filter callout endpoint check request response =
     \<lparr>nf_endpoint = endpoint, nf_configID = nk_configID check, nf_header = nk_header check,
      nf_authenticated = nc_authenticated callout, nf_timeout = nc_timeout callout,
      nf_request = request, nf_response = response, nf_closed = False\<rparr>"

definition expand_check ::
    "nemoCallout \<Rightarrow> string \<Rightarrow> nemoCheck \<Rightarrow> nemoFilter list \<times> nemoFilter list \<Rightarrow> nemoFilter list \<times> nemoFilter list" where
  "expand_check callout endpoint check st =
     (case st of (forward, out) \<Rightarrow>
        (if nk_request check then forward @ [call_filter callout endpoint check True False] else forward,
         if nk_response check then out @ [call_filter callout endpoint check False True] else out))"

definition expand_callout ::
    "nemoCallout \<Rightarrow> nemoFilter list \<times> nemoFilter list \<Rightarrow> (ExtprocError, nemoFilter list \<times> nemoFilter list) res" where
  "expand_callout callout st =
     (if nc_closed callout then Inr (fst st @ map closed_filter (nc_checks callout), snd st)
      else (case checksEndpoint (nc_endpoint callout) of
              None \<Rightarrow> Inl (BadEndpoint (nc_name callout))
            | Some endpoint \<Rightarrow> Inr (fold (expand_check callout endpoint) (nc_checks callout) st)))"

definition expandNemoChecks :: "nemoCallout list \<Rightarrow> (ExtprocError, nemoFilter list) res" where
  "expandNemoChecks callouts =
     bind_res (fold_res expand_callout callouts ([], [])) (\<lambda>(forward, out).
       if forward @ rev out = [] then Inl NoChecksCompiled else Inr (forward @ rev out))"

definition nemoAuthMountPath :: string where "nemoAuthMountPath = ''/var/run/secrets/nemo''"
definition nemoTokenFile :: string where "nemoTokenFile = nemoAuthMountPath @ ''/token''"
definition nemoServiceCAFile :: string where "nemoServiceCAFile = nemoAuthMountPath @ ''/service-ca.crt''"

text \<open>\<open>time.Duration.Milliseconds\<close> divides towards zero.\<close>

definition Milliseconds :: "int \<Rightarrow> int" where
  "Milliseconds d = (if d \<ge> 0 then d div 1000000 else - ((- d) div 1000000))"

definition header_condition :: "nemoFilter \<Rightarrow> uval" where
  "header_condition f =
     UList [UMap [(''when'', UMap [(''headers'', UMap [(nf_header f, UStr ''true'')])])]]"

definition nemoFilterEntry :: "nemoFilter \<Rightarrow> umap" where
  "nemoFilterEntry f =
     (if nf_closed f then
        [(''filter'', UStr ''static_response''), (''status'', UInt 403),
         (''body'', UStr (''{'' @ [CHR 34] @ ''error'' @ [CHR 34] @ '':'' @ [CHR 34] @ ''guardrail_unavailable'' @ [CHR 34] @ ''}'')),
         (''conditions'', header_condition f)]
      else
        [(''filter'', UStr ''ai_guardrails''), (''conditions'', header_condition f),
         (''provider'', UMap
            ([(''type'', UStr ''nemo''), (''endpoint'', UStr (nf_endpoint f)),
              (''guardrails'', UMap [(''config_ids'', UList [UStr (nf_configID f)])])]
             @ (if nf_authenticated f
                then [(''token_file'', UStr nemoTokenFile), (''tls'', UMap [(''ca_file'', UStr nemoServiceCAFile)])] else [])
             @ (if Milliseconds (nf_timeout f) > 0 then [(''timeout_ms'', UInt (Milliseconds (nf_timeout f)))] else []))),
         (''phase'', UMap [(''request'', UBool (nf_request f)), (''response'', UBool (nf_response f))])])"

definition filter_headers :: "nemoFilter list \<Rightarrow> string list" where
  "filter_headers filters = rev (remdups (rev (map nf_header filters)))"

definition compiled_entries :: "nemoFilter list \<Rightarrow> uval list" where
  "compiled_entries filters =
     map (\<lambda>f. UMap (nemoFilterEntry f)) filters
     @ [UMap [(''filter'', UStr ''headers''), (''request_remove'', UList (map UStr (filter_headers filters)))]]"

subsection \<open>Insertion into the document\<close>

record yaml_lib =
  yaml_Unmarshal :: "string \<Rightarrow> (string, umap) res"
  yaml_Marshal :: "umap \<Rightarrow> (string, string) res"

definition is_request_id :: "uval \<Rightarrow> bool" where
  "is_request_id f = (case f of UMap entry \<Rightarrow> map_of entry ''filter'' = Some (UStr ''request_id'') | _ \<Rightarrow> False)"

fun insert_after :: "(uval \<Rightarrow> bool) \<Rightarrow> uval list \<Rightarrow> uval list \<Rightarrow> uval list option" where
  "insert_after P entries [] = None"
| "insert_after P entries (x # xs) =
     (if P x then Some (x # entries @ xs) else map_option ((#) x) (insert_after P entries xs))"

text \<open>The first chain with a \<open>request_id\<close> filter; items that are no maps are passed over.\<close>

fun insert_in_chains :: "uval list \<Rightarrow> uval list \<Rightarrow> uval list option" where
  "insert_in_chains entries [] = None"
| "insert_in_chains entries (item # items) =
     (case (case item of
              UMap chain \<Rightarrow>
                map_option (\<lambda>filters. UMap (AList.update ''filters'' (UList filters) chain))
                  (insert_after is_request_id entries (case map_of chain ''filters'' of Some (UList fs) \<Rightarrow> fs | _ \<Rightarrow> []))
            | _ \<Rightarrow> None) of
        Some item' \<Rightarrow> Some (item' # items)
      | None \<Rightarrow> map_option ((#) item) (insert_in_chains entries items))"

definition insertAfterRequestID :: "umap \<Rightarrow> uval list \<Rightarrow> umap option" where
  "insertAfterRequestID doc entries =
     map_option (\<lambda>chains. AList.update ''filter_chains'' (UList chains) doc)
       (insert_in_chains entries (case map_of doc ''filter_chains'' of Some (UList cs) \<Rightarrow> cs | _ \<Rightarrow> []))"

definition allow_private :: "umap \<Rightarrow> umap" where
  "allow_private doc =
     (let insecure = (case map_of doc ''insecure_options'' of Some (UMap m) \<Rightarrow> m | _ \<Rightarrow> [])
      in AList.update ''insecure_options'' (UMap (AList.update ''allow_private_upstreams'' (UBool True) insecure)) doc)"

definition compileNemoExtproc :: "yaml_lib \<Rightarrow> string \<Rightarrow> nemoCallout list \<Rightarrow> (ExtprocError, string) res" where
  "compileNemoExtproc y config callouts =
     (if callouts = [] then Inr config
      else bind_res (expandNemoChecks callouts) (\<lambda>filters.
        (case yaml_Unmarshal y config of
           Inl e \<Rightarrow> Inl (ParseYaml e)
         | Inr doc \<Rightarrow>
             (case insertAfterRequestID doc (compiled_entries filters) of
                None \<Rightarrow> Inl NoRequestID
              | Some doc' \<Rightarrow>
                  (case yaml_Marshal y (allow_private doc') of Inl e \<Rightarrow> Inl (WriteYaml e) | Inr out \<Rightarrow> Inr out)))))"

subsection \<open>Egress\<close>

definition nemoServerPort :: int where "nemoServerPort = 8000"
definition nemoProxyPort :: int where "nemoProxyPort = 8443"

record nemoEgressPeer =
  ep_namespace :: string
  ep_labels :: str_map

definition peer_key :: "nemoEgressPeer \<Rightarrow> string" where
  "peer_key p =
     join_str (ep_namespace p # map (\<lambda>key. key @ ''='' @ sm_get (ep_labels p) key) (sm_sorted_keys (ep_labels p))) ''|''"

definition peer_object :: "nemoEgressPeer \<Rightarrow> uval" where
  "peer_object p =
     UMap ((''namespaceSelector'', UMap [(''matchLabels'', UMap [(''kubernetes.io/metadata.name'', UStr (ep_namespace p))])])
       # (if ep_labels p = [] then [] else [(''podSelector'', UMap [(''matchLabels'', str_map_val (ep_labels p))])]))"

definition callout_port :: "nemoCallout \<Rightarrow> int" where
  "callout_port callout = (if nc_authenticated callout then nemoProxyPort else nemoServerPort)"

text \<open>The peers of one port by key, the last callout with a key winning, in the order of the keys.\<close>

definition egress_peers :: "nemoCallout list \<Rightarrow> int \<Rightarrow> nemoEgressPeer list" where
  "egress_peers callouts port =
     (let peers = map (\<lambda>c. \<lparr>ep_namespace = nc_serviceNamespace c, ep_labels = nc_podLabels c\<rparr>)
                    (filter (\<lambda>c. nc_serviceNamespace c \<noteq> [] \<and> callout_port c = port) callouts);
          grouped = map_of (rev (map (\<lambda>p. (peer_key p, p)) peers))
      in map (\<lambda>k. the (grouped k)) (sort (remdups (map peer_key peers))))"

definition egress_rules :: "nemoCallout list \<Rightarrow> uval list" where
  "egress_rules callouts =
     concat (map (\<lambda>port. let peers = egress_peers callouts port in
       if peers = [] then []
       else [UMap [(''to'', UList (map peer_object peers)),
                   (''ports'', UList [UMap [(''protocol'', UStr ''TCP''), (''port'', UInt port)]])]])
       [nemoServerPort, nemoProxyPort])"

fun find_index :: "('a \<Rightarrow> bool) \<Rightarrow> 'a list \<Rightarrow> nat option" where
  "find_index P [] = None"
| "find_index P (x # xs) = (if P x then Some 0 else map_option Suc (find_index P xs))"

text \<open>A resource of the list, by its position: the code keeps a pointer into the slice and edits it in place.\<close>

definition findResource :: "uobject list \<Rightarrow> string \<Rightarrow> string \<Rightarrow> string \<Rightarrow> nat option" where
  "findResource resources kind name namespace =
     find_index (\<lambda>r. uo_Kind r = kind \<and> uo_Name r = name \<and> uo_Namespace r = namespace) resources"

definition ensureNemoEgress ::
    "child_name \<Rightarrow> obj_lib \<Rightarrow> uobject list \<Rightarrow> string \<Rightarrow> string \<Rightarrow> nemoCallout list \<Rightarrow> (ExtprocError, uobject list) res" where
  "ensureNemoEgress cn l resources tenantID gatewayNamespace callouts =
     (case findResource resources ''NetworkPolicy'' (PayloadProcessingNetworkPolicyName cn tenantID) gatewayNamespace of
        None \<Rightarrow> Inr resources
      | Some i \<Rightarrow>
          (case NestedSlice (ol_unstr l) (uo_Object (resources ! i)) [''spec'', ''egress''] of
             Inl e \<Rightarrow> Inl (ReadEgress e)
           | Inr egress \<Rightarrow>
               (case SetNestedField l (uo_Object (resources ! i))
                       (UList ((case egress of None \<Rightarrow> [] | Some xs \<Rightarrow> xs) @ egress_rules callouts)) [''spec'', ''egress''] of
                  Inl e \<Rightarrow> Inl (WriteEgress e)
                | Inr obj \<Rightarrow> Inr (resources[i := (resources ! i)\<lparr>uo_Object := obj\<rparr>]))))"

subsection \<open>Credentials of the caller\<close>

definition nemoAuthVolumeName :: string where "nemoAuthVolumeName = ''nemo-auth''"
definition nemoTokenExpirationSeconds :: int where "nemoTokenExpirationSeconds = 3600"
definition openShiftServiceCAConfigMap :: string where "openShiftServiceCAConfigMap = ''openshift-service-ca.crt''"
definition openShiftServiceCAKey :: string where "openShiftServiceCAKey = ''service-ca.crt''"

definition named_item :: "string \<Rightarrow> uval \<Rightarrow> bool" where
  "named_item name item = (case item of UMap m \<Rightarrow> map_of m ''name'' = Some (UStr name) | _ \<Rightarrow> False)"

definition appendOrReplaceNamedVolume :: "uval list \<Rightarrow> string \<Rightarrow> umap \<Rightarrow> uval list" where
  "appendOrReplaceNamedVolume items name v =
     (case find_index (named_item name) items of None \<Rightarrow> items @ [UMap v] | Some i \<Rightarrow> items[i := UMap v])"

definition nemo_auth_volume :: umap where
  "nemo_auth_volume =
     [(''name'', UStr nemoAuthVolumeName),
      (''projected'', UMap [(''sources'', UList
         [UMap [(''serviceAccountToken'', UMap [(''path'', UStr ''token''), (''expirationSeconds'', UInt nemoTokenExpirationSeconds)])],
          UMap [(''configMap'', UMap [(''name'', UStr openShiftServiceCAConfigMap),
            (''items'', UList [UMap [(''key'', UStr openShiftServiceCAKey), (''path'', UStr ''service-ca.crt'')]])])]])])]"

definition nemo_auth_mount :: umap where
  "nemo_auth_mount = [(''name'', UStr nemoAuthVolumeName), (''mountPath'', UStr nemoAuthMountPath), (''readOnly'', UBool True)]"

definition pod_volumes :: "string list" where "pod_volumes = [''spec'', ''template'', ''spec'', ''volumes'']"
definition pod_containers :: "string list" where "pod_containers = [''spec'', ''template'', ''spec'', ''containers'']"

definition slice_of :: "uval list option \<Rightarrow> uval list" where
  "slice_of xs = (case xs of None \<Rightarrow> [] | Some ys \<Rightarrow> ys)"

definition map_err :: "('e \<Rightarrow> 'f) \<Rightarrow> ('e, 'a) res \<Rightarrow> ('f, 'a) res" where
  "map_err f r = (case r of Inl e \<Rightarrow> Inl (f e) | Inr x \<Rightarrow> Inr x)"

definition mount_container :: "obj_lib \<Rightarrow> uval \<Rightarrow> (ExtprocError, uval) res" where
  "mount_container l c =
     (case c of
        UMap container \<Rightarrow>
          bind_res (map_err (MountRead ''volumeMounts'' \<circ> Some) (NestedSlice (ol_unstr l) container [''volumeMounts''])) (\<lambda>mounts.
          bind_res (map_err (MountWrite ''volumeMounts'')
              (SetNestedField l container (UList (appendOrReplaceNamedVolume (slice_of mounts) nemoAuthVolumeName nemo_auth_mount)) [''volumeMounts'']))
            (\<lambda>container'. Inr (UMap container')))
      | _ \<Rightarrow> Inl MountContainer)"

definition mountNemoAuth :: "obj_lib \<Rightarrow> uobject \<Rightarrow> (ExtprocError, uobject) res" where
  "mountNemoAuth l deployment =
     bind_res (map_err (MountRead ''volumes'' \<circ> Some) (NestedSlice (ol_unstr l) (uo_Object deployment) pod_volumes)) (\<lambda>volumes.
     bind_res (map_err (MountWrite ''volumes'') (SetNestedField l (uo_Object deployment)
         (UList (appendOrReplaceNamedVolume (slice_of volumes) nemoAuthVolumeName nemo_auth_volume)) pod_volumes)) (\<lambda>obj.
     bind_res (map_err (MountRead ''containers'' \<circ> Some) (NestedSlice (ol_unstr l) obj pod_containers)) (\<lambda>found.
       (case slice_of found of
          [] \<Rightarrow> Inl (MountRead ''containers'' None)
        | c # cs \<Rightarrow>
            bind_res (mount_container l c) (\<lambda>c'.
            bind_res (map_err (MountWrite ''containers'') (SetNestedField l obj (UList (c' # cs)) pod_containers)) (\<lambda>obj'.
              Inr (deployment\<lparr>uo_Object := obj'\<rparr>)))))))"

subsection \<open>Grants next to the providers\<close>

definition LabelManagedBy :: string where "LabelManagedBy = ''app.kubernetes.io/managed-by''"
definition ManagedByAIGatewayController :: string where "ManagedByAIGatewayController = ''ai-gateway-controller''"
definition labelNemoCallerTenant :: string where "labelNemoCallerTenant = ''aigateway.opendatahub.io/nemo-caller-tenant''"

definition nemoCallerName :: "string \<Rightarrow> string \<Rightarrow> string \<Rightarrow> string" where
  "nemoCallerName gatewayNamespace serviceAccount service =
     ''nemo-caller.'' @ gatewayNamespace @ ''.'' @ serviceAccount @ ''.'' @ service"

definition nemoCallerLabels :: "string \<Rightarrow> str_map" where
  "nemoCallerLabels tenantNamespace =
     [(LabelManagedBy, ManagedByAIGatewayController), (labelNemoCallerTenant, tenantNamespace)]"

definition caller_targets :: "nemoCallout list \<Rightarrow> (string \<times> string) list" where
  "caller_targets callouts =
     sort (remdups (map (\<lambda>c. (nc_serviceNamespace c, nc_serviceName c))
       (filter (\<lambda>c. nc_authenticated c \<and> nc_serviceNamespace c \<noteq> [] \<and> nc_serviceName c \<noteq> []) callouts)))"

definition caller_object :: "string \<Rightarrow> string \<Rightarrow> string \<Rightarrow> string \<Rightarrow> umap \<Rightarrow> uobject" where
  "caller_object kind name namespace tenantNamespace content =
     \<lparr>uo_Kind = kind, uo_Name = name, uo_Namespace = namespace, uo_Generation = 0, uo_Labels = nemoCallerLabels tenantNamespace,
      uo_Annotations = [], uo_Object = (''apiVersion'', UStr ''rbac.authorization.k8s.io/v1'') # content\<rparr>"

definition caller_role :: "string \<Rightarrow> string \<Rightarrow> string \<Rightarrow> string \<times> string \<Rightarrow> uobject list" where
  "caller_role tenantNamespace gatewayNamespace serviceAccount t =
     (let name = nemoCallerName gatewayNamespace serviceAccount (snd t) in
      [caller_object ''Role'' name (fst t) tenantNamespace
         [(''rules'', UList [UMap [(''apiGroups'', UList [UStr []]), (''resources'', UList [UStr ''services'']),
            (''resourceNames'', UList [UStr (snd t)]), (''verbs'', UList [UStr ''get''])]])],
       caller_object ''RoleBinding'' name (fst t) tenantNamespace
         [(''subjects'', UList [UMap [(''kind'', UStr ''ServiceAccount''), (''name'', UStr serviceAccount), (''namespace'', UStr gatewayNamespace)]]),
          (''roleRef'', UMap [(''apiGroup'', UStr ''rbac.authorization.k8s.io''), (''kind'', UStr ''Role''), (''name'', UStr name)])]])"

definition nemoCallerRBAC :: "nemoCallout list \<Rightarrow> string \<Rightarrow> string \<Rightarrow> string \<Rightarrow> uobject list" where
  "nemoCallerRBAC callouts tenantNamespace gatewayNamespace serviceAccount =
     concat (map (caller_role tenantNamespace gatewayNamespace serviceAccount) (caller_targets callouts))"

text \<open>Pruning: the objects found by label are the answer of the list per kind, and \<open>deleted\<close> the answer of each delete, \<open>None\<close> for success
  or an object already gone. The value is the error, if any, and what was deleted so far.\<close>

datatype PruneError = PruneList string string | PruneDelete string string string string

definition object_id :: "uobject \<Rightarrow> string" where
  "object_id obj = uo_Kind obj @ ''/'' @ uo_Namespace obj @ ''/'' @ uo_Name obj"

fun prune_items :: "(uobject \<Rightarrow> string option) \<Rightarrow> string \<Rightarrow> string list \<Rightarrow> uobject list \<Rightarrow> PruneError option \<times> uobject list" where
  "prune_items deleted kind wanted [] = (None, [])"
| "prune_items deleted kind wanted (item # items) =
     (if kind @ ''/'' @ uo_Namespace item @ ''/'' @ uo_Name item \<in> set wanted then prune_items deleted kind wanted items
      else (case deleted item of
              Some e \<Rightarrow> (Some (PruneDelete kind (uo_Namespace item) (uo_Name item) e), [])
            | None \<Rightarrow> (case prune_items deleted kind wanted items of (e, gone) \<Rightarrow> (e, item # gone))))"

definition prune_kind ::
    "(string \<Rightarrow> str_map \<Rightarrow> (string, uobject list) res) \<Rightarrow> (uobject \<Rightarrow> string option) \<Rightarrow> string \<Rightarrow> string list \<Rightarrow> string \<Rightarrow>
     PruneError option \<times> uobject list" where
  "prune_kind listed deleted tenantNamespace wanted kind =
     (case listed kind (nemoCallerLabels tenantNamespace) of
        Inl e \<Rightarrow> (Some (PruneList kind e), [])
      | Inr items \<Rightarrow> prune_items deleted kind wanted items)"

definition pruneNemoCallerRBAC ::
    "(string \<Rightarrow> str_map \<Rightarrow> (string, uobject list) res) \<Rightarrow> (uobject \<Rightarrow> string option) \<Rightarrow> string \<Rightarrow> uobject list \<Rightarrow>
     PruneError option \<times> uobject list" where
  "pruneNemoCallerRBAC listed deleted tenantNamespace keep =
     (case prune_kind listed deleted tenantNamespace (map object_id keep) ''RoleBinding'' of
        (Some e, gone) \<Rightarrow> (Some e, gone)
      | (None, gone) \<Rightarrow>
          (case prune_kind listed deleted tenantNamespace (map object_id keep) ''Role'' of (e, gone') \<Rightarrow> (e, gone @ gone')))"

subsection \<open>The rendered resources\<close>

definition nemoCalloutConfigAnnotation :: string where
  "nemoCalloutConfigAnnotation = ''aigateway.opendatahub.io/nemo-callouts-sha256''"

definition write_compiled :: "yaml_lib \<Rightarrow> obj_lib \<Rightarrow> uobject \<Rightarrow> nemoCallout list \<Rightarrow> (ExtprocError, string \<times> uobject) res" where
  "write_compiled y l configMap callouts =
     (case NestedStringMap l (uo_Object configMap) [''data''] of
        Inl e \<Rightarrow> Inl (ReadConfigMap (Some e))
      | Inr None \<Rightarrow> Inl (ReadConfigMap None)
      | Inr (Some data) \<Rightarrow>
          bind_res (compileNemoExtproc y (sm_get data ''extproc.yaml'') callouts) (\<lambda>compiled.
          bind_res (map_err WriteConfigMap
              (SetNestedField l (uo_Object configMap) (str_map_val (AList.update ''extproc.yaml'' compiled data)) [''data'']))
            (\<lambda>obj. Inr (compiled, configMap\<lparr>uo_Object := obj\<rparr>))))"

definition configureNemoCallouts ::
    "child_name \<Rightarrow> yaml_lib \<Rightarrow> obj_lib \<Rightarrow> uobject list \<Rightarrow> string \<Rightarrow> string \<Rightarrow> string \<Rightarrow> nemoCallout list \<Rightarrow>
     (ExtprocError, uobject list) res" where
  "configureNemoCallouts cn y l resources tenantID gatewayNamespace tenantNamespace callouts =
     (if callouts = [] then Inr resources
      else
        (let deploymentName = PayloadProcessingDeploymentName cn tenantID;
             configMapName = PayloadProcessingPluginsConfigMapForTenant cn tenantID in
         case findResource resources ''Deployment'' deploymentName gatewayNamespace of
           None \<Rightarrow> Inl (DeploymentMissing deploymentName)
         | Some d \<Rightarrow>
             (case findResource resources ''ConfigMap'' configMapName gatewayNamespace of
                None \<Rightarrow> Inl (ConfigMapMissing configMapName)
              | Some c \<Rightarrow>
                  bind_res (write_compiled y l (resources ! c) callouts) (\<lambda>(compiled, configMap).
                  bind_res (ensureNemoEgress cn l (resources[c := configMap]) tenantID gatewayNamespace callouts) (\<lambda>rs.
                  bind_res (map_err WriteConfigHash (SetNestedField l (uo_Object (rs ! d)) (UStr (sha256_hex compiled))
                      [''spec'', ''template'', ''metadata'', ''annotations'', nemoCalloutConfigAnnotation])) (\<lambda>obj.
                    let deployment = (rs ! d)\<lparr>uo_Object := obj\<rparr> in
                    if \<not> list_ex nc_authenticated callouts then Inr (rs[d := deployment])
                    else bind_res (mountNemoAuth l deployment) (\<lambda>mounted.
                      Inr (rs[d := mounted]
                        @ nemoCallerRBAC callouts tenantNamespace gatewayNamespace (PayloadProcessingPostServiceAccountName cn tenantID)))))))))"

end
