(* ===== verification/TenantHandoff.thy ===== *)
theory TenantHandoff
  imports Effects NemoFilters
begin

text \<open>
  Ownership of a tenant's data plane: \<open>src/pkg/tenant/migration.go\<close>, \<open>ownership.go\<close> and \<open>plugins_migration.go\<close>, and the world in which the tenant
  reconciler runs.

  Two controllers deploy the data plane of a tenant under the same names: this one and the legacy one of maas-controller. The
  annotation \<open>payload-processing-type\<close> of the MaasTenantConfig selects one of them, the annotation \<open>payload-processing-status\<close> passes the
  ownership: absent while the legacy one serves, \<open>cleanup-complete\<close> when the names are free, \<open>steady\<close> once this controller has claimed them.

  The world \<open>tenant_world\<close> holds the MaasTenantConfig with its resource version and finalizer, the objects of the cluster by key, what the
  reconciler remembers, and a log. The environment \<open>tenant_env\<close> acts before every call: \<open>te_moves\<close> are the moves of users and of
  maas-controller, \<open>te_fault\<close> makes a call fail before or after it took effect, \<open>te_stale\<close> answers a cached read of the
  configuration with an old copy, and the other fields answer reads of objects that this reconciler does not write. The moves of
  maas-controller follow the protocol that \<open>src/pkg/tenant/constants.go\<close> documents for it.
\<close>

subsection \<open>The handshake annotation\<close>

definition AnnotationPayloadProcessingStatus :: string where
  "AnnotationPayloadProcessingStatus = ''maas.opendatahub.io/payload-processing-status''"

definition PayloadProcessingStatusCleanupComplete :: string where
  "PayloadProcessingStatusCleanupComplete = ''cleanup-complete''"

definition PayloadProcessingStatusSteady :: string where "PayloadProcessingStatusSteady = ''steady''"

definition PayloadProcessingStatus :: "uobject \<Rightarrow> string" where
  "PayloadProcessingStatus mtc = sm_get (uo_Annotations mtc) AnnotationPayloadProcessingStatus"

definition LegacyServes :: "uobject \<Rightarrow> bool" where
  "LegacyServes mtc \<longleftrightarrow> \<not> UsesPraxis mtc \<or> PayloadProcessingStatus mtc = []"

definition setPayloadProcessingStatus :: "uobject \<Rightarrow> string \<Rightarrow> uobject" where
  "setPayloadProcessingStatus mtc v =
     mtc\<lparr>uo_Annotations := (if v = [] then AList.delete AnnotationPayloadProcessingStatus (uo_Annotations mtc)
                           else AList.update AnnotationPayloadProcessingStatus v (uo_Annotations mtc))\<rparr>"

subsection \<open>Ownership of objects\<close>

definition FieldOwner :: string where "FieldOwner = ''ai-gateway-controller''"

definition AnnotationManaged :: string where "AnnotationManaged = ''opendatahub.io/managed''"

definition maasControllerFieldOwner :: string where "maasControllerFieldOwner = ''maas-controller''"

definition isManagedFalse :: "uobject \<Rightarrow> bool" where
  "isManagedFalse obj \<longleftrightarrow> sm_get (uo_Annotations obj) AnnotationManaged = ''false''"

definition hasSSAFieldManager :: "unstr_lib \<Rightarrow> uobject \<Rightarrow> string \<Rightarrow> bool" where
  "hasSSAFieldManager u obj manager =
     list_ex (\<lambda>field. nested_str u field [''manager''] = manager)
       (maps_of (slice_or_nil u (uo_Object obj) [''metadata'', ''managedFields'']))"

definition shouldDeletePraxisResource :: "unstr_lib \<Rightarrow> uobject \<Rightarrow> bool" where
  "shouldDeletePraxisResource u obj =
     (let managedBy = sm_get (uo_Labels obj) LabelManagedBy in
      if managedBy = maasControllerFieldOwner then False
      else if hasSSAFieldManager u obj maasControllerFieldOwner \<and> \<not> hasSSAFieldManager u obj FieldOwner
              \<and> managedBy \<noteq> ManagedByAIGatewayController then False
      else if isManagedFalse obj then True
      else managedBy = ManagedByAIGatewayController \<or> hasSSAFieldManager u obj FieldOwner)"

definition isReleasedPluginConfigMap :: "uobject \<Rightarrow> bool" where
  "isReleasedPluginConfigMap obj \<longleftrightarrow>
     uo_Name obj = PayloadProcessingPluginsConfigMapName \<or> prefix (PayloadProcessingPluginsConfigMapName @ ''-'') (uo_Name obj)"

subsection \<open>Overwriting a legacy configuration\<close>

definition AnnotationForcePayloadProcessingMigration :: string where
  "AnnotationForcePayloadProcessingMigration = ''maas.opendatahub.io/force-payload-processing-migration''"

definition ippPreProcessingConfigKey :: string where "ippPreProcessingConfigKey = ''custom-pre-processing-ipp-config.yaml''"

definition ippProcessingConfigKey :: string where "ippProcessingConfigKey = ''custom-ipp-config.yaml''"

definition forcePayloadProcessingMigration :: "uobject option \<Rightarrow> bool" where
  "forcePayloadProcessingMigration config =
     (case config of None \<Rightarrow> False
      | Some mtc \<Rightarrow> sm_get (uo_Annotations mtc) AnnotationForcePayloadProcessingMigration = ''true'')"

definition isIPPPluginsConfigMapData :: "str_map \<Rightarrow> bool" where
  "isIPPPluginsConfigMapData data \<longleftrightarrow> sm_has data ippPreProcessingConfigKey \<or> sm_has data ippProcessingConfigKey"

subsection \<open>The world\<close>

text \<open>A copy of the MaasTenantConfig: its content, resource version, whether it carries \<open>PraxisCleanupFinalizer\<close>, and its
  deletion time.\<close>

record mtc_copy =
  mc_obj :: uobject
  mc_rv :: nat
  mc_finalizer :: bool
  mc_deleted :: "int option"

record live_object =
  lo_obj :: uobject
  lo_UID :: string
  lo_Deleting :: bool

type_synonym objkey = "string \<times> string \<times> string"

definition key_of :: "uobject \<Rightarrow> objkey" where
  "key_of obj = (uo_Kind obj, uo_Namespace obj, uo_Name obj)"

text \<open>\<open>EvApplied\<close> records what was true at the moment of the write: the MaasTenantConfig, the owner as it was last read live, and the
  object that stood under the key. \<open>EvSettled\<close> ends the clean-up of one key and records what stands under it then.\<close>

datatype tenant_event =
    EvFinalizerAdded
  | EvFinalizerRemoved
  | EvClaimed
  | EvSignalled
  | EvApplied uobject mtc_copy "live_object option" "live_object option"
  | EvSettled objkey "live_object option"
  | EvPruned "uobject list"
  | EvWarned "(AIGuardrail \<times> string) list"
  | EvCleaned
  | EvLegacyDeployed objkey bool

record tenant_world =
  tw_tick :: nat
  tw_mtc :: mtc_copy
  tw_store :: "objkey \<Rightarrow> live_object option"
  tw_owner :: "live_object option"
  tw_serving :: bool
  tw_reported :: "string \<rightharpoonup> string"
  tw_log :: "tenant_event list"

text \<open>Moves of the others. A user selects a backend. maas-controller removes its objects and then signals when this controller is
  selected and no status is set; it claims a signal when it is selected; it deploys only while no status is set.\<close>

datatype tenant_move =
    SelectBackend string
  | LegacyRemove objkey
  | LegacySignal
  | LegacyClaim
  | LegacyDeploy live_object

definition legacy_owned :: "live_object option \<Rightarrow> bool" where
  "legacy_owned found =
     (case found of None \<Rightarrow> False | Some x \<Rightarrow> sm_get (uo_Labels (lo_obj x)) LabelManagedBy = maasControllerFieldOwner)"

definition set_config :: "(uobject \<Rightarrow> uobject) \<Rightarrow> mtc_copy \<Rightarrow> mtc_copy" where
  "set_config f c = c\<lparr>mc_obj := f (mc_obj c), mc_rv := Suc (mc_rv c)\<rparr>"

definition set_backend :: "string \<Rightarrow> uobject \<Rightarrow> uobject" where
  "set_backend v obj = obj\<lparr>uo_Annotations := AList.update AnnotationPayloadProcessingType v (uo_Annotations obj)\<rparr>"

definition log_event :: "tenant_event \<Rightarrow> tenant_world \<Rightarrow> tenant_world" where
  "log_event ev w = w\<lparr>tw_log := tw_log w @ [ev]\<rparr>"

fun make_move :: "tenant_move \<Rightarrow> tenant_world \<Rightarrow> tenant_world" where
  "make_move (SelectBackend v) w = w\<lparr>tw_mtc := set_config (set_backend v) (tw_mtc w)\<rparr>"
| "make_move (LegacyRemove k) w =
     (if UsesPraxis (mc_obj (tw_mtc w)) \<and> PayloadProcessingStatus (mc_obj (tw_mtc w)) = [] \<and> legacy_owned (tw_store w k)
      then w\<lparr>tw_store := (tw_store w)(k := None)\<rparr> else w)"
| "make_move LegacySignal w =
     (if UsesPraxis (mc_obj (tw_mtc w)) \<and> PayloadProcessingStatus (mc_obj (tw_mtc w)) = []
      then w\<lparr>tw_mtc := set_config (\<lambda>obj. setPayloadProcessingStatus obj PayloadProcessingStatusCleanupComplete) (tw_mtc w)\<rparr> else w)"
| "make_move LegacyClaim w =
     (if \<not> UsesPraxis (mc_obj (tw_mtc w)) \<and> PayloadProcessingStatus (mc_obj (tw_mtc w)) = PayloadProcessingStatusCleanupComplete
      then w\<lparr>tw_mtc := set_config (\<lambda>obj. setPayloadProcessingStatus obj []) (tw_mtc w)\<rparr> else w)"
| "make_move (LegacyDeploy x) w =
     (if PayloadProcessingStatus (mc_obj (tw_mtc w)) = [] \<and> legacy_owned (Some x)
      then log_event (EvLegacyDeployed (key_of (lo_obj x)) (tw_serving w))
             (w\<lparr>tw_store := (tw_store w)(key_of (lo_obj x) := Some x)\<rparr>)
      else w)"

subsection \<open>Calls\<close>

datatype api_fault = Conflict | ApiFault string

datatype call_fault = NoFault | FaultBefore string | FaultAfter string

record tenant_env =
  te_moves :: "nat \<Rightarrow> tenant_move list"
  te_fault :: "nat \<Rightarrow> call_fault"
  te_gone :: "nat \<Rightarrow> bool"
  te_stale :: "nat \<Rightarrow> mtc_copy option"
  te_owner :: "nat \<Rightarrow> string \<Rightarrow> string \<Rightarrow> live_object option"
  te_live_owner :: "nat \<Rightarrow> string \<Rightarrow> string \<Rightarrow> live_object option"
  te_gateway :: "nat \<Rightarrow> string \<Rightarrow> string \<Rightarrow> bool"
  te_no_match :: "nat \<Rightarrow> string \<Rightarrow> bool"
  te_plugins :: "nat \<Rightarrow> string \<Rightarrow> string \<Rightarrow> str_map option"
  te_catalog :: "nat \<Rightarrow> catalog_reader"
  te_listed :: "nat \<Rightarrow> string \<Rightarrow> string \<Rightarrow> str_map \<Rightarrow> live_object list"
  te_roles :: "nat \<Rightarrow> string \<Rightarrow> str_map \<Rightarrow> (string, uobject list) res"
  te_role_deleted :: "nat \<Rightarrow> uobject \<Rightarrow> string option"
  te_merge :: "live_object option \<Rightarrow> uobject \<Rightarrow> live_object"
  te_now :: "nat \<Rightarrow> int"

type_synonym 'a api = "(tenant_world, api_fault, 'a) io"

definition interfere :: "tenant_env \<Rightarrow> tenant_world \<Rightarrow> tenant_world" where
  "interfere env w = (fold make_move (te_moves env (tw_tick w)) w)\<lparr>tw_tick := Suc (tw_tick w)\<rparr>"

definition call :: "tenant_env \<Rightarrow> (nat \<Rightarrow> tenant_world \<Rightarrow> tenant_world \<times> (api_fault, 'a) res) \<Rightarrow> 'a api" where
  "call env f w =
     (let n = tw_tick w; v = interfere env w in
      case te_fault env n of
        NoFault \<Rightarrow> f n v
      | FaultBefore e \<Rightarrow> (v, Inl (ApiFault e))
      | FaultAfter e \<Rightarrow> (fst (f n v), Inl (ApiFault e)))"

definition read_call :: "tenant_env \<Rightarrow> (nat \<Rightarrow> tenant_world \<Rightarrow> 'a) \<Rightarrow> 'a api" where
  "read_call env f = call env (\<lambda>n w. (w, Inr (f n w)))"

definition get_config :: "tenant_env \<Rightarrow> mtc_copy option api" where
  "get_config env = read_call env (\<lambda>n w.
     if te_gone env n then None else Some (case te_stale env n of None \<Rightarrow> tw_mtc w | Some c \<Rightarrow> c))"

definition get_live_owner :: "tenant_env \<Rightarrow> string \<Rightarrow> string \<Rightarrow> live_object option api" where
  "get_live_owner env namespace name =
     call env (\<lambda>n w. let found = te_live_owner env n namespace name in (w\<lparr>tw_owner := found\<rparr>, Inr found))"

text \<open>A patch or update that names the resource version it is based on.\<close>

definition locked_write :: "tenant_env \<Rightarrow> mtc_copy \<Rightarrow> (mtc_copy \<Rightarrow> mtc_copy) \<Rightarrow> tenant_event \<Rightarrow> mtc_copy api" where
  "locked_write env c f ev = call env (\<lambda>n w.
     if mc_rv (tw_mtc w) \<noteq> mc_rv c then (w, Inl Conflict)
     else (let s = (f (tw_mtc w))\<lparr>mc_rv := Suc (mc_rv (tw_mtc w))\<rparr> in (log_event ev (w\<lparr>tw_mtc := s\<rparr>), Inr s)))"

text \<open>An object of a kind that is not installed is not in the store, and the callers treat both answers alike.\<close>

definition get_object :: "tenant_env \<Rightarrow> objkey \<Rightarrow> live_object option api" where
  "get_object env k = read_call env (\<lambda>n w. tw_store w k)"

definition delete_object :: "tenant_env \<Rightarrow> live_object \<Rightarrow> unit api" where
  "delete_object env x = call env (\<lambda>n w.
     case tw_store w (key_of (lo_obj x)) of
       None \<Rightarrow> (w, Inr ())
     | Some y \<Rightarrow> if lo_UID x \<noteq> [] \<and> lo_UID y \<noteq> lo_UID x then (w, Inl Conflict)
                else (w\<lparr>tw_store := (tw_store w)(key_of (lo_obj x) := None)\<rparr>, Inr ()))"

definition apply_object :: "tenant_env \<Rightarrow> uobject \<Rightarrow> unit api" where
  "apply_object env obj = call env (\<lambda>n w.
     (log_event (EvApplied obj (tw_mtc w) (tw_owner w) (tw_store w (key_of obj)))
        (w\<lparr>tw_store := (tw_store w)(key_of obj := Some (te_merge env (tw_store w (key_of obj)) obj)), tw_serving := True\<rparr>), Inr ()))"

subsection \<open>Claiming and signalling\<close>

datatype ClaimError = ClaimGet api_fault | ClaimGone | ClaimUpdate api_fault

definition claimPraxisSteady :: "tenant_env \<Rightarrow> mtc_copy \<Rightarrow> (tenant_world, ClaimError, bool \<times> mtc_copy) io" where
  "claimPraxisSteady env mtc =
     bind_io (wrap_io ClaimGet (get_config env)) (\<lambda>found.
     case found of
       None \<Rightarrow> fail_io ClaimGone
     | Some latest \<Rightarrow>
         if \<not> UsesPraxis (mc_obj latest) \<or> PayloadProcessingStatus (mc_obj latest) \<noteq> PayloadProcessingStatusCleanupComplete
         then return_io (False, mtc)
         else bind_io (attempt (locked_write env latest
                (\<lambda>c. c\<lparr>mc_obj := setPayloadProcessingStatus (mc_obj c) PayloadProcessingStatusSteady\<rparr>) EvClaimed)) (\<lambda>updated.
              case updated of
                Inl Conflict \<Rightarrow> return_io (False, mtc)
              | Inl e \<Rightarrow> fail_io (ClaimUpdate e)
              | Inr _ \<Rightarrow> return_io (True, mtc\<lparr>mc_obj := setPayloadProcessingStatus (mc_obj mtc) PayloadProcessingStatusSteady\<rparr>)))"

definition EnsurePraxisMayDeploy :: "tenant_env \<Rightarrow> mtc_copy \<Rightarrow> (tenant_world, ClaimError, bool \<times> mtc_copy) io" where
  "EnsurePraxisMayDeploy env mtc =
     (if PayloadProcessingStatus (mc_obj mtc) = PayloadProcessingStatusSteady then return_io (True, mtc)
      else if PayloadProcessingStatus (mc_obj mtc) = PayloadProcessingStatusCleanupComplete then claimPraxisSteady env mtc
      else return_io (False, mtc))"

text \<open>A merge patch without a resource version: it writes the one annotation into whatever the server holds. The value is the
  object the server returned.\<close>

definition MarkPayloadProcessingCleanupComplete :: "tenant_env \<Rightarrow> mtc_copy \<Rightarrow> mtc_copy api" where
  "MarkPayloadProcessingCleanupComplete env mtc =
     (if PayloadProcessingStatus (mc_obj mtc) = PayloadProcessingStatusCleanupComplete then return_io mtc
      else call env (\<lambda>n w.
        let s = set_config (\<lambda>obj. setPayloadProcessingStatus obj PayloadProcessingStatusCleanupComplete) (tw_mtc w)
        in (log_event EvSignalled (w\<lparr>tw_mtc := s\<rparr>), Inr s)))"

definition ensurePluginsConfigMapMigrationAllowed ::
    "tenant_env \<Rightarrow> child_name \<Rightarrow> mtc_copy \<Rightarrow> string \<Rightarrow> string \<Rightarrow> bool api" where
  "ensurePluginsConfigMapMigrationAllowed env cn mtc gatewayNamespace tenantID =
     (if forcePayloadProcessingMigration (Some (mc_obj mtc)) then return_io True
      else bind_io (read_call env (\<lambda>n w. te_plugins env n gatewayNamespace (PayloadProcessingPluginsConfigMapForTenant cn tenantID)))
        (\<lambda>found. return_io (case found of None \<Rightarrow> True | Some data \<Rightarrow> \<not> isIPPPluginsConfigMapData data)))"

end
