(* ===== verification/TenantReconcile.thy ===== *)
theory TenantReconcile
  imports TenantHandoff
begin

text \<open>
  The tenant reconciler, \<open>src/pkg/tenant/reconciler.go\<close>: it claims the data plane of a tenant, renders it, compiles the guardrail checks into it,
  applies it behind the checks that nobody else owns it, and removes it when the tenant is deleted or selects the legacy one.

  Rendering the manifests with Kustomize, renaming and splitting them and writing the settings of the data plane into
  them are the stages \<open>stages\<close>, functions of what they read; every call of this file that changes the cluster is modelled. Errors keep the
  step they come from. Logging is dropped.
\<close>

datatype TenantError =
    ErrGetConfig api_fault
  | ErrFinalizer api_fault
  | ErrGetOwner string string api_fault
  | ErrSpoofedOwner string string string string
  | ErrMayDeploy ClaimError
  | ErrStage string
  | ErrTranslation TranslationError
  | ErrCleanup TenantError
  | ErrListAttachments api_fault
  | ErrGetObject objkey api_fault
  | ErrDeleteObject objkey api_fault
  | ErrCallouts CalloutError
  | ErrReadCatalog api_fault
  | ErrCompile ExtprocError
  | ErrProbe objkey api_fault
  | ErrReadOwner string string api_fault
  | ErrApply objkey api_fault
  | ErrPrune PruneError
  | ErrPruneCall api_fault
  | ErrListState string api_fault
  | ErrSignal api_fault

datatype tenant_result = Finished | RetrySoon | Resync

record stages =
  sg_render :: "mtc_copy \<Rightarrow> string \<Rightarrow> string \<Rightarrow> string \<Rightarrow> string \<Rightarrow> (string, uobject list option) res"
  sg_shared :: "mtc_copy \<Rightarrow> uobject list \<Rightarrow> string \<Rightarrow> string \<Rightarrow> bool \<Rightarrow> (string, uobject list) res"
  sg_candidates :: "nat \<Rightarrow> string \<Rightarrow> string \<Rightarrow> string \<Rightarrow> bool \<Rightarrow> (string, Candidate list \<times> bool \<times> bool) res"
  sg_configure :: "mtc_copy \<Rightarrow> uobject list \<Rightarrow> string \<Rightarrow> string \<Rightarrow> bool \<Rightarrow> Candidate list \<Rightarrow> bool \<Rightarrow> (string, uobject list) res"
  sg_autoscaling :: "mtc_copy \<Rightarrow> bool \<times> bool"

record tenant_lib =
  tl_guard :: guard_lib
  tl_obj :: obj_lib
  tl_yaml :: yaml_lib
  tl_child :: child_name
  tl_stages :: stages
  tl_deletionTimeout :: int
  tl_recorder :: bool

type_synonym 'a tenant = "(tenant_world, TenantError, 'a) io"

abbreviation tl_unstr :: "tenant_lib \<Rightarrow> unstr_lib" where
  "tl_unstr l \<equiv> ol_unstr (tl_obj l)"

abbreviation mc_Namespace :: "mtc_copy \<Rightarrow> string" where
  "mc_Namespace mtc \<equiv> uo_Namespace (mc_obj mtc)"

subsection \<open>Finalizer and owner\<close>

definition ensureFinalizer :: "tenant_env \<Rightarrow> mtc_copy \<Rightarrow> mtc_copy api" where
  "ensureFinalizer env mtc =
     (if mc_finalizer mtc then return_io mtc else locked_write env mtc (\<lambda>c. c\<lparr>mc_finalizer := True\<rparr>) EvFinalizerAdded)"

definition removeFinalizer :: "tenant_env \<Rightarrow> mtc_copy \<Rightarrow> mtc_copy api" where
  "removeFinalizer env mtc =
     (if \<not> mc_finalizer mtc then return_io mtc else locked_write env mtc (\<lambda>c. c\<lparr>mc_finalizer := False\<rparr>) EvFinalizerRemoved)"

definition resolveOwnedAITenant :: "tenant_lib \<Rightarrow> tenant_env \<Rightarrow> mtc_copy \<Rightarrow> live_object option tenant" where
  "resolveOwnedAITenant l env mtc =
     (case OwningAITenantRef (mc_obj mtc) of
        None \<Rightarrow> return_io None
      | Some (name, namespace) \<Rightarrow>
          bind_io (wrap_io (ErrGetOwner namespace name) (read_call env (\<lambda>n w. te_owner env n namespace name))) (\<lambda>found.
          case found of
            None \<Rightarrow> return_io None
          | Some aitenant \<Rightarrow>
              (let owned = ConfigNamespace (tl_unstr l) (lo_obj aitenant) in
               if owned = [] \<or> owned \<noteq> mc_Namespace mtc then fail_io (ErrSpoofedOwner namespace name owned (mc_Namespace mtc))
               else return_io (Some aitenant))))"

definition resolveOwningAITenant :: "tenant_lib \<Rightarrow> tenant_env \<Rightarrow> mtc_copy \<Rightarrow> (live_object option \<times> bool) tenant" where
  "resolveOwningAITenant l env mtc =
     bind_io (resolveOwnedAITenant l env mtc) (\<lambda>owner. return_io (owner,
       case owner of None \<Rightarrow> False | Some aitenant \<Rightarrow> DeployReady (tl_obj l) (lo_obj aitenant)))"

text \<open>The live re-read right before the apply.\<close>

definition owner_valid :: "tenant_lib \<Rightarrow> mtc_copy \<Rightarrow> string \<Rightarrow> int \<Rightarrow> string \<Rightarrow> string \<Rightarrow> live_object \<Rightarrow> bool" where
  "owner_valid l mtc wantUID wantGeneration wantGatewayName wantGatewayNamespace aitenant \<longleftrightarrow>
     \<not> lo_Deleting aitenant \<and> lo_UID aitenant = wantUID
     \<and> (wantGeneration = 0 \<or> uo_Generation (lo_obj aitenant) = wantGeneration)
     \<and> ConfigNamespace (tl_unstr l) (lo_obj aitenant) \<noteq> []
     \<and> ConfigNamespace (tl_unstr l) (lo_obj aitenant) = mc_Namespace mtc
     \<and> GatewayRef (tl_unstr l) (lo_obj aitenant) = Some (wantGatewayName, wantGatewayNamespace)
     \<and> DeployReady (tl_obj l) (lo_obj aitenant)"

definition aiTenantStillValidForApply ::
    "tenant_lib \<Rightarrow> tenant_env \<Rightarrow> mtc_copy \<Rightarrow> string \<Rightarrow> int \<Rightarrow> string \<Rightarrow> string \<Rightarrow> bool tenant" where
  "aiTenantStillValidForApply l env mtc wantUID wantGeneration wantGatewayName wantGatewayNamespace =
     (if wantUID = [] then return_io True
      else (case OwningAITenantRef (mc_obj mtc) of
              None \<Rightarrow> return_io False
            | Some (name, namespace) \<Rightarrow>
                bind_io (wrap_io (ErrReadOwner namespace name) (get_live_owner env namespace name)) (\<lambda>found.
                  return_io (case found of
                    None \<Rightarrow> False
                  | Some aitenant \<Rightarrow> owner_valid l mtc wantUID wantGeneration wantGatewayName wantGatewayNamespace aitenant))))"

text \<open>\<open>None\<close> stands for a result with a requeue.\<close>

definition preparePraxisOwnerForApply ::
    "tenant_lib \<Rightarrow> tenant_env \<Rightarrow> mtc_copy \<Rightarrow> (mtc_copy \<times> live_object \<times> string \<times> string) option tenant" where
  "preparePraxisOwnerForApply l env mtc =
     bind_io (wrap_io ErrFinalizer (ensureFinalizer env mtc)) (\<lambda>mtc.
     bind_io (resolveOwningAITenant l env mtc) (\<lambda>(owner, ready).
     case owner of
       None \<Rightarrow> return_io None
     | Some aitenant \<Rightarrow>
         if \<not> ready then return_io None
         else (case GatewayRef (tl_unstr l) (lo_obj aitenant) of
                 None \<Rightarrow> return_io None
               | Some (gatewayName, gatewayNamespace) \<Rightarrow>
                   bind_io (attempt (read_call env (\<lambda>n w. te_gateway env n gatewayNamespace gatewayName))) (\<lambda>found.
                   if found \<noteq> Inr True then return_io None
                   else bind_io (wrap_io ErrMayDeploy (EnsurePraxisMayDeploy env mtc)) (\<lambda>(may, mtc).
                     return_io (if may then Some (mtc, aitenant, gatewayName, gatewayNamespace) else None))))))"

subsection \<open>Deleting objects\<close>

definition deleteResourceIfOwned :: "tenant_lib \<Rightarrow> tenant_env \<Rightarrow> objkey \<Rightarrow> unit tenant" where
  "deleteResourceIfOwned l env k =
     bind_io (wrap_io (ErrGetObject k) (get_object env k)) (\<lambda>found.
     bind_io (case found of
                None \<Rightarrow> return_io ()
              | Some obj \<Rightarrow>
                  if \<not> shouldDeletePraxisResource (tl_unstr l) (lo_obj obj) then return_io ()
                  else wrap_io (ErrDeleteObject k) (delete_object env obj))
       (\<lambda>_ w. (log_event (EvSettled k (tw_store w k)) w, Inr ())))"

definition praxisDeploymentName :: string where "praxisDeploymentName = ''praxis''"
definition praxisServiceName :: string where "praxisServiceName = ''praxis''"
definition praxisConfigMapName :: string where "praxisConfigMapName = ''praxis-config''"
definition praxisServiceAccount :: string where "praxisServiceAccount = ''praxis''"

definition standalone_targets :: "child_name \<Rightarrow> string \<Rightarrow> string \<Rightarrow> objkey list" where
  "standalone_targets cn tenantID tenantNamespace =
     [(''ServiceAccount'', tenantNamespace, ResourceName cn praxisServiceAccount tenantID),
      (''ConfigMap'', tenantNamespace, ResourceName cn praxisConfigMapName tenantID),
      (''Service'', tenantNamespace, ResourceName cn praxisServiceName tenantID),
      (''Deployment'', tenantNamespace, ResourceName cn praxisDeploymentName tenantID)]"

definition deleteStandalonePraxis :: "tenant_lib \<Rightarrow> tenant_env \<Rightarrow> string \<Rightarrow> string \<Rightarrow> unit tenant" where
  "deleteStandalonePraxis l env tenantID tenantNamespace =
     for_io (deleteResourceIfOwned l env) (standalone_targets (tl_child l) tenantID tenantNamespace)"

definition external_model_targets :: "child_name \<Rightarrow> string \<Rightarrow> string \<Rightarrow> string \<Rightarrow> objkey list" where
  "external_model_targets cn tenantID gatewayNamespace tenantNamespace =
     [(''Deployment'', tenantNamespace, PayloadProcessingExternalModelDeploymentName cn tenantID),
      (''Service'', tenantNamespace, PayloadProcessingExternalModelServiceName cn tenantID),
      (''ConfigMap'', tenantNamespace, PayloadProcessingExternalModelPluginsConfigMapForTenant cn tenantID),
      (''ServiceAccount'', tenantNamespace, PayloadProcessingExternalModelServiceAccountName cn tenantID),
      (''DestinationRule'', tenantNamespace, PayloadProcessingExternalModelServiceName cn tenantID),
      (''DestinationRule'', gatewayNamespace, PayloadProcessingExternalModelServiceName cn tenantID),
      (''EnvoyFilter'', gatewayNamespace, PayloadProcessingExternalModelFilterNameForTenant cn tenantID),
      (''EnvoyFilter'', gatewayNamespace, PayloadProcessingExternalModelEnvoyFilterName cn tenantID)]"

definition LabelAttachmentTenant :: string where "LabelAttachmentTenant = ''inference.opendatahub.io/attachment-tenant''"

definition attachment_labels :: "string \<Rightarrow> str_map" where
  "attachment_labels tenantNamespace = [(LabelManagedBy, ManagedByAIGatewayController), (LabelAttachmentTenant, tenantNamespace)]"

definition cleanupExternalModelResources :: "tenant_lib \<Rightarrow> tenant_env \<Rightarrow> string \<Rightarrow> string \<Rightarrow> string \<Rightarrow> unit tenant" where
  "cleanupExternalModelResources l env tenantID gatewayNamespace tenantNamespace =
     bind_io (wrap_io ErrListAttachments (read_call env (\<lambda>n w. te_listed env n ''HTTPRoute'' [] (attachment_labels tenantNamespace)))) (\<lambda>attachments.
       for_io (\<lambda>k. if attachments \<noteq> [] \<and> fst k = ''EnvoyFilter'' \<and> snd (snd k) = PayloadProcessingExternalModelEnvoyFilterName (tl_child l) tenantID
                   then return_io () else deleteResourceIfOwned l env k)
         (external_model_targets (tl_child l) tenantID gatewayNamespace tenantNamespace))"

definition prune_callers :: "tenant_env \<Rightarrow> string \<Rightarrow> uobject list \<Rightarrow> unit tenant" where
  "prune_callers env tenantNamespace keep =
     bind_io (wrap_io ErrPruneCall (call env (\<lambda>n w.
       case pruneNemoCallerRBAC (te_roles env n) (te_role_deleted env n) tenantNamespace keep of
         (e, gone) \<Rightarrow> (log_event (EvPruned gone) w, Inr e)))) (\<lambda>e.
       case e of None \<Rightarrow> return_io () | Some err \<Rightarrow> fail_io (ErrPrune err))"

definition LabelCredentialCopy :: string where "LabelCredentialCopy = ''inference.opendatahub.io/credential-copy''"

definition copy_labels :: str_map where
  "copy_labels = [(LabelManagedBy, ManagedByAIGatewayController), (LabelCredentialCopy, ''true'')]"

definition delete_listed :: "tenant_env \<Rightarrow> string \<Rightarrow> string \<Rightarrow> str_map \<Rightarrow> unit tenant" where
  "delete_listed env kind namespace labels =
     bind_io (wrap_io (ErrListState kind) (read_call env (\<lambda>n w. te_listed env n kind namespace labels)))
       (for_io (\<lambda>x. wrap_io (ErrDeleteObject (key_of (lo_obj x))) (delete_object env x)))"

definition cleanupAttachmentState :: "tenant_env \<Rightarrow> string \<Rightarrow> unit tenant" where
  "cleanupAttachmentState env tenantNamespace =
     bind_io (delete_listed env ''Secret'' tenantNamespace copy_labels) (\<lambda>_.
       delete_listed env ''DestinationRule'' [] (attachment_labels tenantNamespace))"

definition cleanup_targets :: "child_name \<Rightarrow> string \<Rightarrow> string \<Rightarrow> string \<Rightarrow> objkey list" where
  "cleanup_targets cn tenantID gatewayNamespace tenantNamespace =
     [(''Deployment'', gatewayNamespace, PayloadProcessingDeploymentName cn tenantID),
      (''Deployment'', gatewayNamespace, PayloadPreProcessingDeploymentName cn tenantID),
      (''Deployment'', tenantNamespace, PayloadProcessingDeploymentName cn tenantID),
      (''Deployment'', tenantNamespace, PayloadProcessingExternalModelDeploymentName cn tenantID),
      (''Service'', gatewayNamespace, PayloadProcessingServiceName cn tenantID),
      (''Service'', gatewayNamespace, PayloadPreProcessingServiceName cn tenantID),
      (''Service'', tenantNamespace, PayloadProcessingServiceName cn tenantID),
      (''Service'', tenantNamespace, PayloadProcessingExternalModelServiceName cn tenantID),
      (''ConfigMap'', gatewayNamespace, PayloadProcessingPluginsConfigMapForTenant cn tenantID),
      (''ConfigMap'', tenantNamespace, PayloadProcessingPluginsConfigMapForTenant cn tenantID),
      (''ConfigMap'', tenantNamespace, PayloadProcessingExternalModelPluginsConfigMapForTenant cn tenantID),
      (''ServiceAccount'', gatewayNamespace, PayloadProcessingServiceAccountName cn tenantID),
      (''ServiceAccount'', tenantNamespace, PayloadProcessingServiceAccountName cn tenantID),
      (''ServiceAccount'', gatewayNamespace, PayloadProcessingPostServiceAccountName cn tenantID),
      (''ServiceAccount'', tenantNamespace, PayloadProcessingPostServiceAccountName cn tenantID),
      (''ServiceAccount'', tenantNamespace, PayloadProcessingExternalModelServiceAccountName cn tenantID),
      (''NetworkPolicy'', gatewayNamespace, PayloadProcessingNetworkPolicyName cn tenantID),
      (''NetworkPolicy'', tenantNamespace, PayloadProcessingNetworkPolicyName cn tenantID),
      (''EnvoyFilter'', gatewayNamespace, PayloadProcessingEnvoyFilterName cn tenantID),
      (''EnvoyFilter'', gatewayNamespace, PayloadProcessingExternalModelFilterNameForTenant cn tenantID),
      (''EnvoyFilter'', gatewayNamespace, PayloadProcessingExternalModelEnvoyFilterName cn tenantID),
      (''DestinationRule'', gatewayNamespace, PayloadProcessingServiceName cn tenantID),
      (''DestinationRule'', gatewayNamespace, PayloadPreProcessingServiceName cn tenantID),
      (''DestinationRule'', tenantNamespace, PayloadProcessingServiceName cn tenantID),
      (''DestinationRule'', gatewayNamespace, PayloadProcessingExternalModelServiceName cn tenantID),
      (''DestinationRule'', tenantNamespace, PayloadProcessingExternalModelServiceName cn tenantID),
      (''ClusterRoleBinding'', [], PayloadProcessingReaderClusterRoleBindingNameForTenant cn tenantID),
      (''ClusterRoleBinding'', [], PayloadProcessingReaderClusterRoleBindingPostNameForTenant cn tenantID),
      (''ClusterRoleBinding'', [], PayloadProcessingMetricsAuthClusterRoleBindingNameForTenant cn tenantID),
      (''Service'', gatewayNamespace, PayloadProcessingMetricsServiceNameForTenant cn tenantID),
      (''ServiceMonitor'', gatewayNamespace, PayloadProcessingMetricsMonitorNameForTenant cn tenantID),
      (''HorizontalPodAutoscaler'', gatewayNamespace, PayloadProcessingHPAName cn tenantID),
      (''HorizontalPodAutoscaler'', gatewayNamespace, PayloadPreProcessingHPAName cn tenantID)]"

definition cleanup :: "tenant_lib \<Rightarrow> tenant_env \<Rightarrow> string \<Rightarrow> string \<Rightarrow> string \<Rightarrow> unit tenant" where
  "cleanup l env tenantID gatewayNamespace tenantNamespace =
     bind_io (for_io (deleteResourceIfOwned l env) (cleanup_targets (tl_child l) tenantID gatewayNamespace tenantNamespace)) (\<lambda>_.
     bind_io (prune_callers env tenantNamespace []) (\<lambda>_.
     bind_io (\<lambda>w. (w\<lparr>tw_reported := (tw_reported w)(tenantNamespace := None)\<rparr>, Inr ())) (\<lambda>_.
     cleanupAttachmentState env tenantNamespace)))"

text \<open>Both callers remove the standalone data plane of earlier releases as well. The last line notes in the log that the
  removal is complete.\<close>

definition remove_data_plane :: "tenant_lib \<Rightarrow> tenant_env \<Rightarrow> mtc_copy \<Rightarrow> live_object \<Rightarrow> string \<Rightarrow> string \<Rightarrow> unit tenant" where
  "remove_data_plane l env mtc aitenant tenantID gatewayNamespace =
     bind_io (wrap_io ErrCleanup (cleanup l env tenantID gatewayNamespace (mc_Namespace mtc))) (\<lambda>_.
     bind_io (let tenantNamespace = ConfigNamespace (tl_unstr l) (lo_obj aitenant) in
              if tenantNamespace = [] then return_io ()
              else wrap_io ErrCleanup (deleteStandalonePraxis l env tenantID tenantNamespace))
       (\<lambda>_ w. (log_event EvCleaned (w\<lparr>tw_serving := False\<rparr>), Inr ())))"

subsection \<open>Rendering and applying\<close>

definition label_managed :: "uobject \<Rightarrow> uobject" where
  "label_managed obj = obj\<lparr>uo_Labels := AList.update LabelManagedBy FieldOwner (uo_Labels obj)\<rparr>"

text \<open>The resources of the tenant before guardrails, and whether the ExternalModel data plane is part of them. \<open>Inl\<close> ends the
  reconcile with that result.\<close>

definition render_resources ::
    "tenant_lib \<Rightarrow> tenant_env \<Rightarrow> mtc_copy \<Rightarrow> string \<Rightarrow> string \<Rightarrow> string \<Rightarrow> string \<Rightarrow> (tenant_result + uobject list \<times> bool) tenant" where
  "render_resources l env mtc tenantID gatewayName gatewayNamespace infraNamespace =
     bind_io (res_io (map_err ErrStage (sg_render (tl_stages l) mtc gatewayName gatewayNamespace infraNamespace tenantID))) (\<lambda>rendered.
     case rendered of
       None \<Rightarrow> return_io (Inl Finished)
     | Some resources \<Rightarrow>
         bind_io (res_io (map_err ErrTranslation (APITranslationEnabled_config (tl_obj l) (Some (mc_obj mtc))))) (\<lambda>apiTranslation.
         bind_io (res_io (map_err ErrStage (sg_shared (tl_stages l) mtc resources tenantID gatewayNamespace apiTranslation))) (\<lambda>resources.
         bind_io (wrap_io ErrReadCatalog (read_call env (\<lambda>n w.
             sg_candidates (tl_stages l) n (mc_Namespace mtc) gatewayName gatewayNamespace apiTranslation))) (\<lambda>candidates.
         case candidates of
           Inl e \<Rightarrow> fail_io (ErrStage e)
         | Inr (runtimeCandidates, serving, overlayReady) \<Rightarrow>
             if \<not> overlayReady then return_io (Inl RetrySoon)
             else bind_io (if serving then return_io ()
                           else wrap_io ErrCleanup (cleanupExternalModelResources l env tenantID gatewayNamespace (mc_Namespace mtc))) (\<lambda>_.
                  bind_io (res_io (map_err ErrStage
                      (sg_configure (tl_stages l) mtc resources tenantID gatewayNamespace serving runtimeCandidates apiTranslation))) (\<lambda>resources.
                    return_io (Inr (map label_managed resources, apiTranslation))))))))"

definition add_guardrails ::
    "tenant_lib \<Rightarrow> tenant_env \<Rightarrow> mtc_copy \<Rightarrow> string \<Rightarrow> string \<Rightarrow> string \<Rightarrow> uobject list \<Rightarrow> bool \<Rightarrow> uobject list option tenant" where
  "add_guardrails l env mtc tenantID gatewayNamespace infraNamespace resources apiTranslation =
     bind_io (wrap_io ErrReadCatalog (read_call env (\<lambda>n w. te_catalog env n))) (\<lambda>rd.
     case acceptedNemoCallouts (tl_guard l) rd (mc_Namespace mtc) apiTranslation of
       Inl (StaleBinding namespace name) \<Rightarrow> return_io None
     | Inl e \<Rightarrow> fail_io (ErrCallouts e)
     | Inr (callouts, soft) \<Rightarrow>
         (case pinNemoCalloutsToInfra callouts infraNamespace of (pinned, outside) \<Rightarrow>
            bind_io (\<lambda>w. case reportNemoOutsideInfra (tl_guard l) rd (tl_recorder l) (mc_Namespace mtc) infraNamespace outside (tw_reported w) of
                (reported, warned) \<Rightarrow> (log_event (EvWarned warned) (w\<lparr>tw_reported := reported\<rparr>), Inr ())) (\<lambda>_.
              bind_io (res_io (map_err ErrCompile (configureNemoCallouts (tl_child l) (tl_yaml l) (tl_obj l) resources tenantID gatewayNamespace
                  (mc_Namespace mtc) (bindNemoPodSelectors (Some rd) pinned)))) (\<lambda>resources. return_io (Some resources)))))"

text \<open>ServiceMonitor is the one kind that may be missing; its API is probed once.\<close>

definition optionalInstallKinds :: "string list" where "optionalInstallKinds = [''ServiceMonitor'']"

definition omit_step :: "tenant_env \<Rightarrow> uobject \<Rightarrow> uobject list \<times> (string \<times> bool) list \<Rightarrow> (uobject list \<times> (string \<times> bool) list) tenant" where
  "omit_step env desired st =
     (case st of (out, available) \<Rightarrow>
        if uo_Kind desired \<notin> set optionalInstallKinds then return_io (out @ [desired], available)
        else (case map_of available (uo_Kind desired) of
                Some ok \<Rightarrow> return_io (if ok then out @ [desired] else out, available)
              | None \<Rightarrow>
                  bind_io (wrap_io (ErrProbe (key_of desired)) (read_call env (\<lambda>n w. \<not> te_no_match env n (uo_Kind desired)))) (\<lambda>ok.
                    return_io (if ok then out @ [desired] else out, (uo_Kind desired, ok) # available))))"

definition omitOptionalUnavailableResources :: "tenant_env \<Rightarrow> uobject list \<Rightarrow> uobject list tenant" where
  "omitOptionalUnavailableResources env resources =
     bind_io (fold_io (omit_step env) resources ([], [])) (\<lambda>(out, available). return_io out)"

datatype ForeignError = ForeignInspect objkey api_fault | ForeignManaged objkey string

definition check_owner :: "tenant_env \<Rightarrow> uobject \<Rightarrow> (tenant_world, ForeignError, unit) io" where
  "check_owner env desired =
     bind_io (wrap_io (ForeignInspect (key_of desired)) (get_object env (key_of desired))) (\<lambda>found.
     case found of
       None \<Rightarrow> return_io ()
     | Some current \<Rightarrow>
         if isReleasedPluginConfigMap desired \<and> sm_get (uo_Annotations (lo_obj current)) ''opendatahub.io/managed'' = ''false''
         then return_io ()
         else if sm_get (uo_Labels (lo_obj current)) LabelManagedBy \<noteq> FieldOwner
         then fail_io (ForeignManaged (key_of desired) (sm_get (uo_Labels (lo_obj current)) LabelManagedBy))
         else return_io ())"

definition waitForForeignOwnership :: "tenant_env \<Rightarrow> uobject list \<Rightarrow> (tenant_world, ForeignError, unit) io" where
  "waitForForeignOwnership env resources = for_io (check_owner env) resources"

definition apply_form :: "obj_lib \<Rightarrow> uobject \<Rightarrow> uobject" where
  "apply_form l obj =
     obj\<lparr>uo_Object := RemoveNestedField l (RemoveNestedField l (RemoveNestedField l (uo_Object obj)
       [''metadata'', ''managedFields'']) [''metadata'', ''resourceVersion'']) [''status'']\<rparr>"

definition Apply :: "tenant_lib \<Rightarrow> tenant_env \<Rightarrow> uobject list \<Rightarrow> unit tenant" where
  "Apply l env resources =
     for_io (\<lambda>r. wrap_io (ErrApply (key_of r)) (apply_object env (apply_form (tl_obj l) r))) resources"

definition cleanupOrphanedIPPHPAs :: "tenant_lib \<Rightarrow> tenant_env \<Rightarrow> mtc_copy \<Rightarrow> string \<Rightarrow> string \<Rightarrow> unit tenant" where
  "cleanupOrphanedIPPHPAs l env mtc tenantID gatewayNamespace =
     (case sg_autoscaling (tl_stages l) mtc of (processing, preProcessing) \<Rightarrow>
        bind_io (if processing then return_io ()
                 else deleteResourceIfOwned l env (''HorizontalPodAutoscaler'', gatewayNamespace, PayloadProcessingHPAName (tl_child l) tenantID)) (\<lambda>_.
          if preProcessing then return_io ()
          else deleteResourceIfOwned l env (''HorizontalPodAutoscaler'', gatewayNamespace, PayloadPreProcessingHPAName (tl_child l) tenantID)))"

definition after_apply :: "tenant_lib \<Rightarrow> tenant_env \<Rightarrow> mtc_copy \<Rightarrow> string \<Rightarrow> string \<Rightarrow> uobject list \<Rightarrow> unit tenant" where
  "after_apply l env mtc tenantID gatewayNamespace resources =
     bind_io (cleanupOrphanedIPPHPAs l env mtc tenantID gatewayNamespace) (\<lambda>_.
     bind_io (prune_callers env (mc_Namespace mtc) resources) (\<lambda>_.
     bind_io (deleteStandalonePraxis l env tenantID (mc_Namespace mtc)) (\<lambda>_.
       for_io (deleteResourceIfOwned l env)
         [(''ClusterRoleBinding'', [], PayloadProcessingReaderClusterRoleBindingNameForTenant (tl_child l) tenantID),
          (''ClusterRoleBinding'', [], PayloadProcessingReaderClusterRoleBindingPostNameForTenant (tl_child l) tenantID)])))"

definition write_tenant :: "tenant_lib \<Rightarrow> tenant_env \<Rightarrow> mtc_copy \<Rightarrow> string \<Rightarrow> string \<Rightarrow> string \<Rightarrow> uobject list \<Rightarrow> tenant_result tenant" where
  "write_tenant l env mtc tenantID gatewayNamespace infraNamespace resources =
     bind_io (Apply l env resources) (\<lambda>_.
     bind_io (after_apply l env mtc tenantID gatewayNamespace resources) (\<lambda>_.
       return_io (if infraNamespace = [] then RetrySoon else Resync)))"

definition fence_tenant ::
    "tenant_lib \<Rightarrow> tenant_env \<Rightarrow> mtc_copy \<Rightarrow> live_object \<Rightarrow> string \<Rightarrow> string \<Rightarrow> string \<Rightarrow> string \<Rightarrow> uobject list \<Rightarrow> tenant_result tenant" where
  "fence_tenant l env mtc aitenant tenantID gatewayName gatewayNamespace infraNamespace resources =
     bind_io (aiTenantStillValidForApply l env mtc (lo_UID aitenant) (uo_Generation (lo_obj aitenant)) gatewayName gatewayNamespace) (\<lambda>valid.
       if \<not> valid then return_io RetrySoon else write_tenant l env mtc tenantID gatewayNamespace infraNamespace resources)"

definition gate_tenant ::
    "tenant_lib \<Rightarrow> tenant_env \<Rightarrow> mtc_copy \<Rightarrow> live_object \<Rightarrow> string \<Rightarrow> string \<Rightarrow> string \<Rightarrow> string \<Rightarrow> uobject list \<Rightarrow> tenant_result tenant" where
  "gate_tenant l env mtc aitenant tenantID gatewayName gatewayNamespace infraNamespace resources =
     bind_io (attempt (ensurePluginsConfigMapMigrationAllowed env (tl_child l) mtc gatewayNamespace tenantID)) (\<lambda>allowed.
       if allowed \<noteq> Inr True then return_io RetrySoon
       else fence_tenant l env mtc aitenant tenantID gatewayName gatewayNamespace infraNamespace resources)"

definition apply_tenant ::
    "tenant_lib \<Rightarrow> tenant_env \<Rightarrow> mtc_copy \<Rightarrow> live_object \<Rightarrow> string \<Rightarrow> string \<Rightarrow> string \<Rightarrow> string \<Rightarrow> uobject list \<Rightarrow> tenant_result tenant" where
  "apply_tenant l env mtc aitenant tenantID gatewayName gatewayNamespace infraNamespace resources =
     bind_io (attempt (waitForForeignOwnership env resources)) (\<lambda>free.
       if free \<noteq> Inr () then return_io RetrySoon
       else gate_tenant l env mtc aitenant tenantID gatewayName gatewayNamespace infraNamespace resources)"

definition reconcilePraxis :: "tenant_lib \<Rightarrow> tenant_env \<Rightarrow> mtc_copy \<Rightarrow> string \<Rightarrow> tenant_result tenant" where
  "reconcilePraxis l env mtc tenantID =
     bind_io (preparePraxisOwnerForApply l env mtc) (\<lambda>prepared.
     case prepared of
       None \<Rightarrow> return_io RetrySoon
     | Some (mtc, aitenant, gatewayName, gatewayNamespace) \<Rightarrow>
         (let infraNamespace = nested_str (tl_unstr l) (uo_Object (mc_obj mtc)) [''status'', ''infraNamespace''] in
          bind_io (render_resources l env mtc tenantID gatewayName gatewayNamespace infraNamespace) (\<lambda>rendered.
          case rendered of
            Inl result \<Rightarrow> return_io result
          | Inr (resources, apiTranslation) \<Rightarrow>
              bind_io (add_guardrails l env mtc tenantID gatewayNamespace infraNamespace resources apiTranslation) (\<lambda>guarded.
              case guarded of
                None \<Rightarrow> return_io RetrySoon
              | Some resources \<Rightarrow>
                  bind_io (omitOptionalUnavailableResources env resources)
                    (apply_tenant l env mtc aitenant tenantID gatewayName gatewayNamespace infraNamespace)))))"

subsection \<open>Switching away and deletion\<close>

definition reconcileNotPraxis :: "tenant_lib \<Rightarrow> tenant_env \<Rightarrow> mtc_copy \<Rightarrow> string \<Rightarrow> tenant_result tenant" where
  "reconcileNotPraxis l env mtc tenantID =
     (if \<not> mc_finalizer mtc then return_io Finished
      else bind_io (resolveOwnedAITenant l env mtc) (\<lambda>owner.
        case owner of
          None \<Rightarrow> return_io RetrySoon
        | Some aitenant \<Rightarrow>
            (case GatewayRef (tl_unstr l) (lo_obj aitenant) of
               None \<Rightarrow> return_io RetrySoon
             | Some (gatewayName, gatewayNamespace) \<Rightarrow>
                 bind_io (remove_data_plane l env mtc aitenant tenantID gatewayNamespace) (\<lambda>_.
                 bind_io (wrap_io ErrSignal (MarkPayloadProcessingCleanupComplete env mtc)) (\<lambda>mtc.
                 bind_io (wrap_io ErrFinalizer (removeFinalizer env mtc)) (\<lambda>_. return_io Finished))))))"

definition deletion_expired :: "tenant_lib \<Rightarrow> int \<Rightarrow> mtc_copy \<Rightarrow> bool" where
  "deletion_expired l now mtc \<longleftrightarrow>
     tl_deletionTimeout l > 0 \<and> (case mc_deleted mtc of None \<Rightarrow> False | Some since \<Rightarrow> now - since \<ge> tl_deletionTimeout l)"

definition reconcileDelete :: "tenant_lib \<Rightarrow> tenant_env \<Rightarrow> mtc_copy \<Rightarrow> string \<Rightarrow> tenant_result tenant" where
  "reconcileDelete l env mtc tenantID =
     (if \<not> mc_finalizer mtc then return_io Finished
      else bind_io (\<lambda>w. (w, Inr (te_now env (tw_tick w)))) (\<lambda>now.
        if deletion_expired l now mtc then bind_io (wrap_io ErrFinalizer (removeFinalizer env mtc)) (\<lambda>_. return_io Finished)
        else bind_io (resolveOwnedAITenant l env mtc) (\<lambda>owner.
          case owner of
            None \<Rightarrow> return_io RetrySoon
          | Some aitenant \<Rightarrow>
              (case GatewayRef (tl_unstr l) (lo_obj aitenant) of
                 None \<Rightarrow> return_io RetrySoon
               | Some (gatewayName, gatewayNamespace) \<Rightarrow>
                   bind_io (remove_data_plane l env mtc aitenant tenantID gatewayNamespace) (\<lambda>_.
                   bind_io (wrap_io ErrFinalizer (removeFinalizer env mtc)) (\<lambda>_. return_io Finished))))))"

definition ReconcileTenant :: "tenant_lib \<Rightarrow> tenant_env \<Rightarrow> tenant_result tenant" where
  "ReconcileTenant l env =
     bind_io (wrap_io ErrGetConfig (get_config env)) (\<lambda>found.
     case found of
       None \<Rightarrow> return_io Finished
     | Some mtc \<Rightarrow>
         (let tenantID = IdentifierFor (mc_obj mtc) in
          if mc_deleted mtc \<noteq> None then reconcileDelete l env mtc tenantID
          else if \<not> UsesPraxis (mc_obj mtc) then reconcileNotPraxis l env mtc tenantID
          else reconcilePraxis l env mtc tenantID))"

text \<open>The queue runs one reconcile of a tenant at a time, each after the one before. Errors are retried by the queue.\<close>

fun reconciles :: "tenant_lib \<Rightarrow> tenant_env \<Rightarrow> nat \<Rightarrow> tenant_world \<Rightarrow> tenant_world" where
  "reconciles l env 0 w = w"
| "reconciles l env (Suc n) w = reconciles l env n (fst (ReconcileTenant l env w))"

end
