(* ===== verification/TenantReconcileCorrect.thy ===== *)
theory TenantReconcileCorrect
  imports TenantReconcile
begin

text \<open>
  Correctness of the tenant reconciler for every environment: whatever users, maas-controller and a failing API server do between two calls,
  the data plane is applied only while this controller holds the claim, and what it holds is given up only after it was removed.

  \<open>tenant_invariant\<close> is the contract of an invariant that the parts of the reconciler which do not touch the configuration keep;
  \<open>cleanup_invariant\<close> adds the deletions of a clean-up. Both are interpreted for the invariant of the handshake and, inside a claim, for the
  claim itself.
\<close>

subsection \<open>Rules for calls\<close>

lemma wp_call:
  assumes "\<And>e. E (ApiFault e) (interfere env w)"
    and "\<And>w' r e. f (tw_tick w) (interfere env w) = (w', r) \<Longrightarrow> E (ApiFault e) w'"
    and "\<And>w' x. f (tw_tick w) (interfere env w) = (w', Inr x) \<Longrightarrow> Q x w'"
    and "\<And>w' e. f (tw_tick w) (interfere env w) = (w', Inl e) \<Longrightarrow> E e w'"
  shows "wp (call env f) Q E w"
  using assms by (cases "f (tw_tick w) (interfere env w)") (auto simp: wp_def call_def Let_def split: call_fault.split sum.split)

lemma wp_read:
  assumes "\<And>e. E (ApiFault e) (interfere env w)" "Q (f (tw_tick w) (interfere env w)) (interfere env w)"
  shows "wp (read_call env f) Q E w"
  unfolding read_call_def by (rule wp_call) (use assms in auto)

lemma keeps_call:
  assumes "\<And>w. I w \<Longrightarrow> I (interfere env w)" "\<And>n w. I w \<Longrightarrow> I (fst (f n w))"
  shows "keeps I (call env f)"
  unfolding keeps_wp by (intro allI impI wp_call) (use assms in \<open>auto, metis fst_conv, metis fst_conv, metis fst_conv\<close>)

lemma keeps_read: "(\<And>w. I w \<Longrightarrow> I (interfere env w)) \<Longrightarrow> keeps I (read_call env f)"
  unfolding read_call_def by (rule keeps_call) auto

lemma interfere_induct:
  assumes "I w" "\<And>m w. I w \<Longrightarrow> I (make_move m w)" "\<And>w n. I w \<Longrightarrow> I (w\<lparr>tw_tick := n\<rparr>)"
  shows "I (interfere env w)"
proof -
  have "I (fold make_move ms w)" if "I w" for ms w
    using that by (induction ms arbitrary: w) (simp_all add: assms(2))
  then show ?thesis using assms(1,3) by (simp add: interfere_def)
qed

subsection \<open>Invariants of the parts\<close>

locale tenant_invariant =
  fixes l :: tenant_lib and env :: tenant_env and I :: "tenant_world \<Rightarrow> bool"
  assumes interference: "I w \<Longrightarrow> I (interfere env w)"
    and deletes: "keeps I (deleteResourceIfOwned l env k)"
    and pruned: "I w \<Longrightarrow> I (log_event (EvPruned xs) w)"
    and warned: "I w \<Longrightarrow> I (log_event (EvWarned ys) (w\<lparr>tw_reported := r\<rparr>))"
begin

lemma reads: "keeps I (read_call env f)"
  by (rule keeps_read) (rule interference)

lemma keeps_prune: "keeps I (prune_callers env ns xs)"
  unfolding prune_callers_def
  by (intro keeps_intros keeps_call interference) (auto simp: pruned split: prod.split)

lemma keeps_external_models: "keeps I (cleanupExternalModelResources l env tid gns ns)"
  unfolding cleanupExternalModelResources_def by (intro keeps_intros reads deletes)

lemma keeps_standalone: "keeps I (deleteStandalonePraxis l env tid ns)"
  unfolding deleteStandalonePraxis_def by (intro keeps_intros deletes)

lemma keeps_render: "keeps I (render_resources l env mtc tid gn gns infra)"
  unfolding render_resources_def by (intro keeps_intros reads keeps_external_models)

lemma keeps_report: "keeps I (\<lambda>w. case reportNemoOutsideInfra gl rd rec ns infra outside (tw_reported w) of
    (reported, ws) \<Rightarrow> (log_event (EvWarned ws) (w\<lparr>tw_reported := reported\<rparr>), Inr ()))"
  by (auto simp: keeps_def warned split: prod.split)

lemma keeps_callout_error:
  "keeps I (case e of CalloutCatalog c \<Rightarrow> fail_io (f c) | CalloutList a b \<Rightarrow> fail_io (g a b) | StaleBinding a b \<Rightarrow> return_io None)"
  by (cases e) (simp_all add: keeps_basic)

lemma keeps_guardrails: "keeps I (add_guardrails l env mtc tid gns infra resources translated)"
  unfolding add_guardrails_def
  by (intro keeps_intros keeps_callout_error reads keeps_report)

lemma keeps_omit: "keeps I (omitOptionalUnavailableResources env resources)"
  unfolding omitOptionalUnavailableResources_def omit_step_def by (intro keeps_intros reads)

lemma keeps_foreign: "keeps I (waitForForeignOwnership env resources)"
  unfolding waitForForeignOwnership_def check_owner_def get_object_def by (intro keeps_intros reads)

lemma keeps_plugins: "keeps I (ensurePluginsConfigMapMigrationAllowed env cn mtc gns tid)"
  unfolding ensurePluginsConfigMapMigrationAllowed_def by (intro keeps_intros reads)

lemma keeps_after_apply: "keeps I (after_apply l env mtc tid gns resources)"
  unfolding after_apply_def cleanupOrphanedIPPHPAs_def
  by (intro keeps_intros deletes keeps_prune keeps_standalone)

lemma keeps_owned: "keeps I (resolveOwnedAITenant l env mtc)"
  unfolding resolveOwnedAITenant_def by (intro keeps_intros reads)

lemma keeps_owning: "keeps I (resolveOwningAITenant l env mtc)"
  unfolding resolveOwningAITenant_def by (intro keeps_intros keeps_owned)

end

locale cleanup_invariant = tenant_invariant +
  assumes listed: "keeps I (delete_object env x)"
    and forgotten: "I w \<Longrightarrow> I (w\<lparr>tw_reported := r\<rparr>)"
begin

lemma keeps_listed: "keeps I (delete_listed env kind ns labels)"
  unfolding delete_listed_def by (intro keeps_intros reads listed)

lemma keeps_cleanup_rest:
  "keeps I (bind_io (prune_callers env ns []) (\<lambda>_. bind_io (\<lambda>w. (w\<lparr>tw_reported := (tw_reported w)(ns := None)\<rparr>, Inr ())) (\<lambda>_.
     cleanupAttachmentState env ns)))"
proof -
  have "keeps I (\<lambda>w. (w\<lparr>tw_reported := (tw_reported w)(ns := None)\<rparr>, Inr ()))" by (simp add: keeps_def forgotten)
  then show ?thesis
    unfolding cleanupAttachmentState_def by (intro keeps_bind keeps_prune keeps_listed)
qed

lemma keeps_cleanup: "keeps I (cleanup l env tid gns ns)"
  unfolding cleanup_def by (rule keeps_bind [OF keeps_for [OF deletes] keeps_cleanup_rest])

end

subsection \<open>The invariant of the handshake\<close>

abbreviation config_status :: "tenant_world \<Rightarrow> string" where
  "config_status w \<equiv> PayloadProcessingStatus (mc_obj (tw_mtc w))"

abbreviation config_ns :: "tenant_world \<Rightarrow> string" where
  "config_ns w \<equiv> uo_Namespace (mc_obj (tw_mtc w))"

definition managed :: "uobject \<Rightarrow> bool" where
  "managed obj \<longleftrightarrow> sm_get (uo_Labels obj) LabelManagedBy = FieldOwner"

text \<open>The one object that is taken over from the legacy data plane: a plugins ConfigMap that maas-controller has released.\<close>

definition released :: "uobject \<Rightarrow> live_object option \<Rightarrow> bool" where
  "released desired found \<longleftrightarrow> isReleasedPluginConfigMap desired
     \<and> (case found of None \<Rightarrow> False | Some x \<Rightarrow> sm_get (uo_Annotations (lo_obj x)) ''opendatahub.io/managed'' = ''false'')"

definition owner_ready :: "tenant_lib \<Rightarrow> string \<Rightarrow> live_object option \<Rightarrow> bool" where
  "owner_ready l ns owner =
     (case owner of None \<Rightarrow> False
      | Some a \<Rightarrow> \<not> lo_Deleting a \<and> ConfigNamespace (tl_unstr l) (lo_obj a) = ns \<and> GatewayRef (tl_unstr l) (lo_obj a) \<noteq> None
                 \<and> DeployReady (tl_obj l) (lo_obj a))"

fun event_ok :: "tenant_lib \<Rightarrow> tenant_event \<Rightarrow> bool" where
  "event_ok l (EvLegacyDeployed k serving) = (\<not> serving)"
| "event_ok l (EvApplied obj m owner found) =
     (PayloadProcessingStatus (mc_obj m) = PayloadProcessingStatusSteady \<and> mc_finalizer m \<and> managed obj
      \<and> (legacy_owned found \<longrightarrow> released obj found) \<and> owner_ready l (uo_Namespace (mc_obj m)) owner)"
| "event_ok l (EvSettled k found) = (case found of None \<Rightarrow> True | Some x \<Rightarrow> \<not> shouldDeletePraxisResource (tl_unstr l) (lo_obj x))"
| "event_ok l _ = True"

definition keyed :: "tenant_world \<Rightarrow> bool" where
  "keyed w \<longleftrightarrow> (\<forall>k x. tw_store w k = Some x \<longrightarrow> key_of (lo_obj x) = k)"

definition handoff_inv :: "tenant_lib \<Rightarrow> tenant_world \<Rightarrow> bool" where
  "handoff_inv l w \<longleftrightarrow> list_all (event_ok l) (tw_log w) \<and> keyed w
     \<and> (tw_serving w \<longrightarrow> config_status w = PayloadProcessingStatusSteady)"

text \<open>Inside a claim. \<open>c\<close> is the copy of the configuration that the reconcile works with.\<close>

definition claimed :: "tenant_lib \<Rightarrow> mtc_copy \<Rightarrow> tenant_world \<Rightarrow> bool" where
  "claimed l c w \<longleftrightarrow> handoff_inv l w \<and> config_status w = PayloadProcessingStatusSteady \<and> mc_finalizer (tw_mtc w)
     \<and> config_ns w = mc_Namespace c"

text \<open>Before the claim: what the copy says of the status and the finalizer still holds of the object when it says \<open>steady\<close> or yes.\<close>

definition linked :: "tenant_lib \<Rightarrow> mtc_copy \<Rightarrow> tenant_world \<Rightarrow> bool" where
  "linked l c w \<longleftrightarrow> handoff_inv l w \<and> config_ns w = mc_Namespace c
     \<and> (PayloadProcessingStatus (mc_obj c) = PayloadProcessingStatusSteady \<longrightarrow> config_status w = PayloadProcessingStatusSteady)
     \<and> (mc_finalizer c \<longrightarrow> mc_finalizer (tw_mtc w))"

lemma status_set [simp]: "PayloadProcessingStatus (setPayloadProcessingStatus obj v) = v"
  by (auto simp: PayloadProcessingStatus_def setPayloadProcessingStatus_def sm_get_def update_conv' delete_conv')

lemma status_backend [simp]: "PayloadProcessingStatus (set_backend v obj) = PayloadProcessingStatus obj"
  by (simp add: PayloadProcessingStatus_def set_backend_def sm_get_def update_conv' AnnotationPayloadProcessingStatus_def
      AnnotationPayloadProcessingType_def)

lemma namespace_writes [simp]:
  "uo_Namespace (setPayloadProcessingStatus obj v) = uo_Namespace obj"
  "uo_Namespace (set_backend v obj) = uo_Namespace obj"
  by (simp_all add: setPayloadProcessingStatus_def set_backend_def)

lemma set_config_fields [simp]:
  "mc_obj (set_config f c) = f (mc_obj c)" "mc_finalizer (set_config f c) = mc_finalizer c"
  by (simp_all add: set_config_def)

lemma status_constants [simp]:
  "PayloadProcessingStatusSteady \<noteq> []" "PayloadProcessingStatusCleanupComplete \<noteq> []"
  "PayloadProcessingStatusCleanupComplete \<noteq> PayloadProcessingStatusSteady"
  "PayloadProcessingStatusSteady \<noteq> PayloadProcessingStatusCleanupComplete"
  by (simp_all add: PayloadProcessingStatusSteady_def PayloadProcessingStatusCleanupComplete_def)

lemma log_event_fields [simp]:
  "tw_mtc (log_event ev w) = tw_mtc w" "tw_store (log_event ev w) = tw_store w" "tw_owner (log_event ev w) = tw_owner w"
  "tw_serving (log_event ev w) = tw_serving w" "tw_log (log_event ev w) = tw_log w @ [ev]"
  "tw_tick (log_event ev w) = tw_tick w" "tw_reported (log_event ev w) = tw_reported w"
  by (simp_all add: log_event_def)

lemma handoff_log: "handoff_inv l (log_event ev w) \<longleftrightarrow> handoff_inv l w \<and> event_ok l ev"
  by (auto simp: handoff_inv_def keyed_def)

lemma handoff_other [simp]:
  "handoff_inv l (w\<lparr>tw_tick := n\<rparr>) = handoff_inv l w"
  "handoff_inv l (w\<lparr>tw_reported := r\<rparr>) = handoff_inv l w"
  "handoff_inv l (w\<lparr>tw_owner := a\<rparr>) = handoff_inv l w"
  by (simp_all add: handoff_inv_def keyed_def)

lemma handoff_removed: "handoff_inv l w \<Longrightarrow> handoff_inv l (w\<lparr>tw_store := (tw_store w)(k := None)\<rparr>)"
  by (auto simp: handoff_inv_def keyed_def)

text \<open>No move of the others breaks the invariant, and inside a claim no move but a change of the backend does anything.\<close>

lemma handoff_move: "handoff_inv l w \<Longrightarrow> handoff_inv l (make_move m w)"
  by (cases m) (auto simp: handoff_inv_def keyed_def)

lemma steady_move:
  assumes "config_status w = PayloadProcessingStatusSteady"
  shows "tw_store (make_move m w) = tw_store w \<and> config_status (make_move m w) = PayloadProcessingStatusSteady
    \<and> tw_log (make_move m w) = tw_log w"
  using assms by (cases m) auto

lemma move_fields [simp]:
  "mc_finalizer (tw_mtc (make_move m w)) = mc_finalizer (tw_mtc w)" "config_ns (make_move m w) = config_ns w"
  "tw_owner (make_move m w) = tw_owner w" "tw_serving (make_move m w) = tw_serving w"
  by (cases m; simp)+

lemma handoff_interfere: "handoff_inv l w \<Longrightarrow> handoff_inv l (interfere env w)"
  by (erule interfere_induct) (simp_all add: handoff_move)

lemma claimed_interfere: "claimed l c w \<Longrightarrow> claimed l c (interfere env w)"
  by (erule interfere_induct) (auto simp: claimed_def handoff_move steady_move)

lemma linked_interfere: "linked l c w \<Longrightarrow> linked l c (interfere env w)"
  by (erule interfere_induct) (auto simp: linked_def handoff_move steady_move)

lemma idle_interfere: "\<not> tw_serving w \<Longrightarrow> \<not> tw_serving (interfere env w)"
  by (erule interfere_induct) simp_all

lemma claimed_store: "claimed l c w \<Longrightarrow> tw_store (interfere env w) = tw_store w"
  using interfere_induct [of "\<lambda>v. claimed l c v \<and> tw_store v = tw_store w" w env]
  by (auto simp: claimed_def handoff_move steady_move)

lemma owner_interfere: "tw_owner (interfere env w) = tw_owner w"
  by (rule interfere_induct) simp_all

subsection \<open>The parts keep the invariant\<close>

lemma keeps_delete_object:
  assumes "\<And>w. J w \<Longrightarrow> J (interfere env w)" "\<And>w k. J w \<Longrightarrow> J (w\<lparr>tw_store := (tw_store w)(k := None)\<rparr>)"
  shows "keeps J (delete_object env x)"
  unfolding delete_object_def by (rule keeps_call) (use assms in \<open>auto split: option.split\<close>)

lemma delete_object_gone:
  "wp (delete_object env x) (\<lambda>_ w. tw_store w (key_of (lo_obj x)) = None) (\<lambda>_ _. True) w"
  unfolding delete_object_def by (rule wp_call) (auto split: option.split_asm if_split_asm)

lemma keeps_delete_owned:
  assumes interference: "\<And>w. J w \<Longrightarrow> J (interfere env w)"
    and removed: "\<And>w k. J w \<Longrightarrow> J (w\<lparr>tw_store := (tw_store w)(k := None)\<rparr>)"
    and settled: "\<And>w k. J w \<Longrightarrow> event_ok l (EvSettled k (tw_store w k)) \<Longrightarrow> J (log_event (EvSettled k (tw_store w k)) w)"
    and keys: "\<And>w. J w \<Longrightarrow> keyed w"
  shows "keeps J (deleteResourceIfOwned l env k)"
proof -
  define Q where "Q w \<longleftrightarrow> J w \<and> event_ok l (EvSettled k (tw_store w k))" for w
  define step where "step found = (case found of None \<Rightarrow> return_io ()
     | Some x \<Rightarrow> if \<not> shouldDeletePraxisResource (tl_unstr l) (lo_obj x) then return_io ()
       else wrap_io (ErrDeleteObject k) (delete_object env x))" for found :: "live_object option"
  have step: "wp (step (tw_store w k)) (\<lambda>_. Q) (\<lambda>_. J) w" if J: "J w" for w
  proof (cases "tw_store w k")
    case None
    then show ?thesis using J by (simp add: step_def wp_simps Q_def)
  next
    case (Some x)
    have key: "key_of (lo_obj x) = k" using keys [OF J] Some unfolding keyed_def by blast
    have "wp (delete_object env x) (\<lambda>_ w. J w \<and> tw_store w k = None) (\<lambda>_. J) w"
      using keeps_wpI [OF keeps_delete_object [of J env x, OF interference removed] J] delete_object_gone [of env x w] key
      by (auto simp: wp_def split: prod.splits sum.splits)
    then have "wp (delete_object env x) (\<lambda>_. Q) (\<lambda>_. J) w"
      by (rule wp_mono) (simp_all add: Q_def)
    then show ?thesis using Some J by (simp add: step_def wp_simps Q_def)
  qed
  have "wp (deleteResourceIfOwned l env k) (\<lambda>_. J) (\<lambda>_. J) w" if J: "J w" for w
  proof -
    have after: "wp (\<lambda>w. (log_event (EvSettled k (tw_store w k)) w, Inr ())) (\<lambda>_. J) (\<lambda>_. J) v" if "Q v" for v
      using that settled by (simp add: wp_def Q_def)
    have "wp (read_call env (\<lambda>n w. tw_store w k)) (\<lambda>found. wp (step found) (\<lambda>_. Q) (\<lambda>_. J)) (\<lambda>_. J) w"
      using interference [OF J] by (intro wp_read step)
    then show ?thesis
      unfolding deleteResourceIfOwned_def get_object_def step_def [symmetric]
      apply (simp only: wp_simps)
      apply (erule wp_mono)
       apply (erule wp_mono, erule after, assumption)
      apply assumption
      done
  qed
  then show ?thesis by (simp add: keeps_wp)
qed

interpretation handoff: cleanup_invariant l env "handoff_inv l" for l env
proof
  show "keeps (handoff_inv l) (deleteResourceIfOwned l env k)" for k
    by (rule keeps_delete_owned) (simp_all add: handoff_interfere handoff_removed handoff_log, simp add: handoff_inv_def)
  show "keeps (handoff_inv l) (delete_object env x)" for x
    by (rule keeps_delete_object) (simp_all add: handoff_interfere handoff_removed)
qed (simp_all add: handoff_interfere handoff_log)

lemma claimed_removed: "claimed l c w \<Longrightarrow> claimed l c (w\<lparr>tw_store := (tw_store w)(k := None)\<rparr>)"
  by (simp add: claimed_def handoff_removed)

lemma claimed_log: "claimed l c (log_event ev w) \<longleftrightarrow> claimed l c w \<and> event_ok l ev"
  by (auto simp: claimed_def handoff_log)

lemma claimed_other [simp]:
  "claimed l c (w\<lparr>tw_tick := n\<rparr>) = claimed l c w"
  "claimed l c (w\<lparr>tw_reported := r\<rparr>) = claimed l c w"
  "claimed l c (w\<lparr>tw_owner := a\<rparr>) = claimed l c w"
  by (simp_all add: claimed_def)

interpretation claim: tenant_invariant l env "claimed l c" for l env c
proof
  show "keeps (claimed l c) (deleteResourceIfOwned l env k)" for k
    by (rule keeps_delete_owned) (simp_all add: claimed_interfere claimed_removed claimed_log, simp add: claimed_def handoff_inv_def)
qed (simp_all add: claimed_interfere claimed_log)

text \<open>Once the data plane is removed, it stays out of service.\<close>

definition idle :: "tenant_lib \<Rightarrow> tenant_world \<Rightarrow> bool" where
  "idle l w \<longleftrightarrow> handoff_inv l w \<and> \<not> tw_serving w"

lemma idle_interfere': "idle l w \<Longrightarrow> idle l (interfere env w)"
  by (simp add: idle_def handoff_interfere idle_interfere)

lemma keeps_locked_write:
  assumes "\<And>w. J w \<Longrightarrow> J (interfere env w)"
    and "\<And>w. J w \<Longrightarrow> J (log_event ev (w\<lparr>tw_mtc := (f (tw_mtc w))\<lparr>mc_rv := Suc (mc_rv (tw_mtc w))\<rparr>\<rparr>))"
  shows "keeps J (locked_write env c f ev)"
  unfolding locked_write_def by (rule keeps_call) (auto simp: Let_def assms(1), metis assms(2))

lemma handoff_finalizer:
  "handoff_inv l (w\<lparr>tw_mtc := c\<rparr>) = handoff_inv l w" if "PayloadProcessingStatus (mc_obj c) = config_status w"
  using that by (simp add: handoff_inv_def keyed_def)

lemma keeps_remove_finalizer: "keeps (handoff_inv l) (removeFinalizer env c)"
  unfolding removeFinalizer_def
  by (intro keeps_intros keeps_locked_write) (simp_all add: handoff_interfere handoff_log handoff_finalizer)

lemma keeps_signal: "idle l w \<Longrightarrow> wp (MarkPayloadProcessingCleanupComplete env c) (\<lambda>_. handoff_inv l) (\<lambda>_. handoff_inv l) w"
proof -
  assume "idle l w"
  then have i: "idle l (interfere env w)" by (rule idle_interfere')
  then have "handoff_inv l (log_event EvSignalled ((interfere env w)\<lparr>tw_mtc := s\<rparr>))" for s
    by (simp add: idle_def handoff_inv_def keyed_def)
  then show ?thesis
    using i \<open>idle l w\<close> unfolding MarkPayloadProcessingCleanupComplete_def
    by (auto simp: wp_simps Let_def idle_def intro!: wp_call)
qed

lemma remove_data_plane_idle:
  "handoff_inv l w \<Longrightarrow> wp (remove_data_plane l env c a tid gns) (\<lambda>_. idle l) (\<lambda>_. handoff_inv l) w"
proof -
  assume inv: "handoff_inv l w"
  have off: "wp (\<lambda>w. (log_event EvCleaned (w\<lparr>tw_serving := False\<rparr>), Inr ())) (\<lambda>_. idle l) (\<lambda>_. handoff_inv l) v" if "handoff_inv l v" for v
    using that by (simp add: wp_def idle_def handoff_inv_def keyed_def)
  have "keeps (handoff_inv l) (bind_io (wrap_io ErrCleanup (cleanup l env tid gns (mc_Namespace c))) (\<lambda>_.
      let tenantNamespace = ConfigNamespace (tl_unstr l) (lo_obj a) in
      if tenantNamespace = [] then return_io () else wrap_io ErrCleanup (deleteStandalonePraxis l env tid tenantNamespace)))"
    unfolding Let_def by (intro keeps_intros handoff.keeps_cleanup handoff.keeps_standalone)
  from keeps_wpI [OF this inv] show ?thesis
    unfolding remove_data_plane_def by (simp only: wp_simps) (erule wp_mono, erule wp_mono, erule off, assumption+)
qed

subsection \<open>From the configuration to the claim\<close>

lemma linked_removed: "linked l c w \<Longrightarrow> linked l c (w\<lparr>tw_store := (tw_store w)(k := None)\<rparr>)"
  by (simp add: linked_def handoff_removed)

lemma linked_log: "linked l c (log_event ev w) \<longleftrightarrow> linked l c w \<and> event_ok l ev"
  by (auto simp: linked_def handoff_log)

lemma linked_other [simp]: "linked l c (w\<lparr>tw_reported := r\<rparr>) = linked l c w"
  by (simp add: linked_def)

interpretation link: tenant_invariant l env "linked l c" for l env c
proof
  show "keeps (linked l c) (deleteResourceIfOwned l env k)" for k
    by (rule keeps_delete_owned) (simp_all add: linked_interfere linked_removed linked_log, simp add: linked_def handoff_inv_def)
qed (simp_all add: linked_interfere linked_log)

lemma wp_locked_write:
  assumes "\<And>e. E e (interfere env w)"
    and "\<And>s e. s = (f (tw_mtc (interfere env w)))\<lparr>mc_rv := Suc (mc_rv (tw_mtc (interfere env w)))\<rparr> \<Longrightarrow>
       Q s (log_event ev ((interfere env w)\<lparr>tw_mtc := s\<rparr>)) \<and> E e (log_event ev ((interfere env w)\<lparr>tw_mtc := s\<rparr>))"
  shows "wp (locked_write env c f ev) Q E w"
  unfolding locked_write_def
  by (rule wp_call) (use assms in \<open>auto simp: Let_def split: if_split_asm\<close>)

lemma ensure_finalizer_linked:
  "linked l c w \<Longrightarrow> wp (ensureFinalizer env c) (\<lambda>c' w. linked l c' w \<and> mc_finalizer c') (\<lambda>_. handoff_inv l) w"
proof -
  assume link: "linked l c w"
  let ?v = "interfere env w"
  have inv: "handoff_inv l ?v" using linked_interfere [OF link] by (simp add: linked_def)
  have "wp (locked_write env c (\<lambda>c. c\<lparr>mc_finalizer := True\<rparr>) EvFinalizerAdded)
      (\<lambda>c' w. linked l c' w \<and> mc_finalizer c') (\<lambda>_. handoff_inv l) w"
    by (rule wp_locked_write) (use inv in \<open>simp_all add: linked_def handoff_log handoff_finalizer\<close>)
  then show ?thesis using link by (simp add: ensureFinalizer_def wp_simps)
qed

definition owners_have_uid :: "tenant_env \<Rightarrow> bool" where
  "owners_have_uid env \<longleftrightarrow> (\<forall>n ns name a. te_owner env n ns name = Some a \<longrightarrow> lo_UID a \<noteq> [])"

lemma owned_uid:
  assumes "owners_have_uid env"
  shows "wp (resolveOwnedAITenant l env c) (\<lambda>owner w. \<forall>a. owner = Some a \<longrightarrow> lo_UID a \<noteq> []) (\<lambda>_ _. True) w"
proof -
  have "wp (read_call env (\<lambda>n w. te_owner env n ns name)) (\<lambda>found. wp (g found) (\<lambda>owner w. \<forall>a. owner = Some a \<longrightarrow> lo_UID a \<noteq> []) (\<lambda>_ _. True))
      (\<lambda>_ _. True) w" if "\<And>found v. (\<forall>a. found = Some a \<longrightarrow> lo_UID a \<noteq> []) \<Longrightarrow>
        wp (g found) (\<lambda>owner w. \<forall>a. owner = Some a \<longrightarrow> lo_UID a \<noteq> []) (\<lambda>_ _. True) v"
    for ns name and g :: "live_object option \<Rightarrow> live_object option tenant"
    by (rule wp_read) (use that assms in \<open>auto simp: owners_have_uid_def\<close>)
  then show ?thesis
    unfolding resolveOwnedAITenant_def
    by (auto simp: wp_simps Let_def split: option.split prod.split)
qed

lemma may_deploy_claimed:
  assumes link: "linked l c w" and fin: "mc_finalizer c"
  shows "wp (EnsurePraxisMayDeploy env c) (\<lambda>(may, c') w. handoff_inv l w \<and> (may \<longrightarrow> claimed l c' w)) (\<lambda>_. handoff_inv l) w"
proof -
  have inv: "linked l c v \<Longrightarrow> handoff_inv l v" for v by (simp add: linked_def)
  have claim: "wp (locked_write env d (\<lambda>c. c\<lparr>mc_obj := setPayloadProcessingStatus (mc_obj c) PayloadProcessingStatusSteady\<rparr>) EvClaimed)
      (\<lambda>_. claimed l c) (\<lambda>_. handoff_inv l) v" if "linked l c v" for d v
  proof (rule wp_locked_write)
    fix s e
    assume s: "s = (tw_mtc (interfere env v))\<lparr>mc_obj := setPayloadProcessingStatus (mc_obj (tw_mtc (interfere env v))) PayloadProcessingStatusSteady,
      mc_rv := Suc (mc_rv (tw_mtc (interfere env v)))\<rparr>"
    have "linked l c (interfere env v)" using linked_interfere [OF that] .
    then show "claimed l c (log_event EvClaimed ((interfere env v)\<lparr>tw_mtc := s\<rparr>)) \<and> handoff_inv l (log_event EvClaimed ((interfere env v)\<lparr>tw_mtc := s\<rparr>))"
      using fin by (simp add: s claimed_def linked_def handoff_log handoff_inv_def keyed_def)
  qed (use linked_interfere [OF that] in \<open>simp add: linked_def\<close>)
  let ?Q = "\<lambda>(may, c') w. handoff_inv l w \<and> (may \<longrightarrow> claimed l c' w)"
  have named: "claimed l (c\<lparr>mc_obj := setPayloadProcessingStatus (mc_obj c) v\<rparr>) = claimed l c" for v
    by (simp add: fun_eq_iff claimed_def)
  have step: "wp (locked_write env d (\<lambda>c. c\<lparr>mc_obj := setPayloadProcessingStatus (mc_obj c) PayloadProcessingStatusSteady\<rparr>) EvClaimed)
      (\<lambda>_. ?Q (True, c\<lparr>mc_obj := setPayloadProcessingStatus (mc_obj c) PayloadProcessingStatusSteady\<rparr>))
      (\<lambda>e. wp (case e of Conflict \<Rightarrow> return_io (False, c) | ApiFault x \<Rightarrow> fail_io (ClaimUpdate (ApiFault x))) ?Q (\<lambda>_. handoff_inv l)) v"
    if "linked l c v" for d v
    by (rule wp_mono [OF claim [OF that]]) (auto simp: named claimed_def wp_simps split: api_fault.split)
  have "wp (claimPraxisSteady env c) ?Q (\<lambda>_. handoff_inv l) w"
    unfolding claimPraxisSteady_def get_config_def
    apply (simp only: wp_simps)
    apply (rule wp_read)
     apply (rule inv, rule linked_interfere, rule link)
    using step [OF linked_interfere [OF link]] inv [OF linked_interfere [OF link, of env]]
    apply (auto simp: wp_simps split: option.split)
    done
  then show ?thesis
    using link fin inv [OF link] by (auto simp: EnsurePraxisMayDeploy_def wp_simps claimed_def linked_def)
qed

lemma prepare_claimed:
  assumes uid: "owners_have_uid env" and link: "linked l c w"
  shows "wp (preparePraxisOwnerForApply l env c)
    (\<lambda>p w. handoff_inv l w \<and> (\<forall>d a gn gns. p = Some (d, a, gn, gns) \<longrightarrow> claimed l d w \<and> lo_UID a \<noteq> [])) (\<lambda>_. handoff_inv l) w"
proof -
  define Q where "Q p w \<longleftrightarrow> handoff_inv l w \<and> (\<forall>d a gn gns. p = Some (d, a, gn, gns) \<longrightarrow> claimed l d w \<and> lo_UID a \<noteq> [])"
    for p :: "(mtc_copy \<times> live_object \<times> string \<times> string) option" and w
  have inv: "linked l d v \<Longrightarrow> handoff_inv l v" for d v by (simp add: linked_def)
  have deploy: "wp (EnsurePraxisMayDeploy env d)
      (\<lambda>x. wp (case x of (may, e) \<Rightarrow> return_io (if may then Some (e, a, gn, gns) else None)) Q (\<lambda>_. handoff_inv l))
      (\<lambda>_. handoff_inv l) v" if "linked l d v" "mc_finalizer d" "lo_UID a \<noteq> []" for d v a gn gns
    by (rule wp_mono [OF may_deploy_claimed [OF that(1,2)]]) (auto simp: wp_simps that(3) Q_def split: prod.split)
  have gateway: "wp (read_call env f)
      (\<lambda>x. if \<not> x then wp (return_io None) Q (\<lambda>_. handoff_inv l)
           else wp (bind_io (wrap_io ErrMayDeploy (EnsurePraxisMayDeploy env d))
                 (\<lambda>(may, e). return_io (if may then Some (e, a, gn, gns) else None))) Q (\<lambda>_. handoff_inv l))
      (\<lambda>e. Q None) v" if "linked l d v" "mc_finalizer d" "lo_UID a \<noteq> []" for d v a gn gns and f :: "nat \<Rightarrow> tenant_world \<Rightarrow> bool"
    by (rule wp_read) (use deploy [OF linked_interfere [OF that(1)] that(2,3)] inv [OF linked_interfere [OF that(1)]] in
        \<open>auto simp: wp_simps Q_def\<close>)
  have none: "linked l d v \<Longrightarrow> Q None v" for d v using inv by (simp add: Q_def)
  have owner: "wp (resolveOwnedAITenant l env d) (\<lambda>owner v. linked l d v \<and> (\<forall>a. owner = Some a \<longrightarrow> lo_UID a \<noteq> [])) (\<lambda>_. handoff_inv l) v"
    if "linked l d v" for d v
    using keeps_wpI [OF link.keeps_owned [where mtc = d and env = env] that] owned_uid [OF uid, of l d v] inv
    by (auto simp: wp_def split: prod.splits sum.splits)
  have "wp (ensureFinalizer env c) (\<lambda>d w. linked l d w \<and> mc_finalizer d) (\<lambda>_. handoff_inv l) w"
    by (rule ensure_finalizer_linked [OF link])
  then show ?thesis
    unfolding preparePraxisOwnerForApply_def resolveOwningAITenant_def Q_def [abs_def, symmetric]
    apply (simp only: wp_simps)
    apply (erule wp_mono)
     apply (elim conjE)
     apply (rule wp_mono [OF owner])
       apply assumption
      apply (auto simp: wp_simps inv none split: option.split intro: gateway)
    done
qed

subsection \<open>From the claim to the apply\<close>

definition free_key :: "uobject \<Rightarrow> tenant_world \<Rightarrow> bool" where
  "free_key r w \<longleftrightarrow> (legacy_owned (tw_store w (key_of r)) \<longrightarrow> released r (tw_store w (key_of r)))"

definition merge_doc :: "tenant_env \<Rightarrow> bool" where
  "merge_doc env \<longleftrightarrow> (\<forall>found obj. key_of (lo_obj (te_merge env found obj)) = key_of obj
     \<and> (\<forall>k v. map_of (uo_Labels obj) k = Some v \<longrightarrow> map_of (uo_Labels (lo_obj (te_merge env found obj))) k = Some v))"

lemma merge_managed: "merge_doc env \<Longrightarrow> managed obj \<Longrightarrow> managed (lo_obj (te_merge env found obj))"
  by (auto simp: merge_doc_def managed_def sm_get_def FieldOwner_def split: option.split_asm)

lemma managed_not_legacy: "managed (lo_obj x) \<Longrightarrow> \<not> legacy_owned (Some x)"
  by (simp add: managed_def legacy_owned_def FieldOwner_def maasControllerFieldOwner_def)

definition cleared :: "tenant_lib \<Rightarrow> mtc_copy \<Rightarrow> uobject list \<Rightarrow> tenant_world \<Rightarrow> bool" where
  "cleared l c rs w \<longleftrightarrow> claimed l c w \<and> (\<forall>r \<in> set rs. free_key r w)"

lemma cleared_interfere: "cleared l c rs w \<Longrightarrow> cleared l c rs (interfere env w)"
  using claimed_store [of l c w env] by (auto simp: cleared_def claimed_interfere free_key_def)

lemma check_owner_free: "claimed l c w \<Longrightarrow> wp (check_owner env r) (\<lambda>_ w. claimed l c w \<and> free_key r w) (\<lambda>_. claimed l c) w"
  unfolding check_owner_def get_object_def
  apply (simp only: wp_simps)
  apply (rule wp_read)
  apply (simp_all add: claimed_interfere)
  apply (auto simp: wp_simps claimed_interfere free_key_def legacy_owned_def released_def FieldOwner_def maasControllerFieldOwner_def
      split: option.split)
  done

lemma foreign_cleared:
  "claimed l c w \<Longrightarrow> wp (waitForForeignOwnership env rs) (\<lambda>_. cleared l c rs) (\<lambda>_. claimed l c) w"
  unfolding waitForForeignOwnership_def cleared_def
proof (rule wp_for_covers)
  show "wp (check_owner env y) (\<lambda>_. free_key x) (\<lambda>_ _. True) v" if "claimed l c v" "free_key x v" for x y v
    unfolding check_owner_def get_object_def
    by (simp only: wp_simps, rule wp_read)
      (use that in \<open>auto simp: wp_simps free_key_def claimed_store split: option.split\<close>)
qed (auto intro: check_owner_free)

definition fenced :: "tenant_lib \<Rightarrow> mtc_copy \<Rightarrow> uobject list \<Rightarrow> tenant_world \<Rightarrow> bool" where
  "fenced l c rs w \<longleftrightarrow> cleared l c rs w \<and> owner_ready l (mc_Namespace c) (tw_owner w)"

lemma still_valid_fenced:
  assumes "cleared l c rs w" "uid \<noteq> []"
  shows "wp (aiTenantStillValidForApply l env c uid gen gn gns) (\<lambda>valid w. cleared l c rs w \<and> (valid \<longrightarrow> fenced l c rs w))
    (\<lambda>_. cleared l c rs) w"
proof -
  have i: "cleared l c rs (interfere env w)" by (rule cleared_interfere [OF assms(1)])
  then have o: "cleared l c rs ((interfere env w)\<lparr>tw_owner := found\<rparr>)" for found
    by (simp add: cleared_def free_key_def)
  have "wp (get_live_owner env ns name) (\<lambda>found w. cleared l c rs w \<and> tw_owner w = found) (\<lambda>_. cleared l c rs) w" for ns name
    unfolding get_live_owner_def by (rule wp_call) (use i o in \<open>auto simp: Let_def\<close>)
  then have "wp (get_live_owner env ns name) (\<lambda>found. wp (return_io (case found of None \<Rightarrow> False | Some a \<Rightarrow> owner_valid l c uid gen gn gns a))
      (\<lambda>valid w. cleared l c rs w \<and> (valid \<longrightarrow> fenced l c rs w)) (\<lambda>_. cleared l c rs)) (\<lambda>_. cleared l c rs) w" for ns name
    by (rule wp_mono) (auto simp: wp_simps fenced_def owner_ready_def owner_valid_def split: option.split)
  then show ?thesis
    using assms by (auto simp: aiTenantStillValidForApply_def wp_simps split: option.split prod.split)
qed

lemma key_apply_form [simp]: "key_of (apply_form ol r) = key_of r"
  by (simp add: key_of_def apply_form_def)

lemma managed_apply_form [simp]: "managed (apply_form ol r) = managed r"
  by (simp add: managed_def apply_form_def)

lemma released_apply_form [simp]: "released (apply_form ol r) x = released r x"
  by (simp add: released_def isReleasedPluginConfigMap_def apply_form_def)

lemma fenced_interfere: "fenced l c rs w \<Longrightarrow> fenced l c rs (interfere env w)"
  by (simp add: fenced_def cleared_interfere owner_interfere)

lemma fenced_written:
  assumes doc: "merge_doc env" and f: "fenced l c rs w" and r: "r \<in> set rs" "managed r"
  shows "fenced l c rs (log_event (EvApplied (apply_form ol r) (tw_mtc w) (tw_owner w) (tw_store w (key_of r)))
     (w\<lparr>tw_store := (tw_store w)(key_of r := Some (te_merge env (tw_store w (key_of r)) (apply_form ol r))), tw_serving := True\<rparr>))"
proof -
  let ?x = "te_merge env (tw_store w (key_of r)) (apply_form ol r)"
  have key: "key_of (lo_obj ?x) = key_of r" using doc by (simp add: merge_doc_def)
  have ours: "\<not> legacy_owned (Some ?x)" by (rule managed_not_legacy, rule merge_managed [OF doc]) (use r in simp)
  have ok: "event_ok l (EvApplied (apply_form ol r) (tw_mtc w) (tw_owner w) (tw_store w (key_of r)))"
    using f r by (simp add: fenced_def cleared_def claimed_def free_key_def)
  show ?thesis
    using f ok key ours by (auto simp: fenced_def cleared_def claimed_def handoff_inv_def keyed_def free_key_def)
qed

lemma apply_fenced:
  assumes doc: "merge_doc env" and "fenced l c rs w" "list_all managed rs"
  shows "wp (Apply l env rs) (\<lambda>_. fenced l c rs) (\<lambda>_. handoff_inv l) w"
proof -
  have inv: "fenced l c rs v \<Longrightarrow> handoff_inv l v" for v by (simp add: fenced_def cleared_def claimed_def)
  have one: "wp (apply_object env (apply_form (tl_obj l) r)) (\<lambda>_. fenced l c rs) (\<lambda>_. handoff_inv l) v"
    if "r \<in> set rs" "fenced l c rs v" for r v
    unfolding apply_object_def
    by (rule wp_call) (use fenced_written [OF doc fenced_interfere [OF that(2)] that(1)] inv [OF fenced_interfere [OF that(2)]] inv
        assms(3) that(1) in \<open>auto simp: list_all_iff\<close>)
  show ?thesis
    unfolding Apply_def by (rule wp_for) (use assms(2) one in \<open>auto simp: wp_simps\<close>)
qed

subsection \<open>What is applied carries the label of its owner\<close>

definition yields :: "('w, 'e, 'a) io \<Rightarrow> ('a \<Rightarrow> bool) \<Rightarrow> bool" where
  "yields m P \<longleftrightarrow> (\<forall>w. wp m (\<lambda>x _. P x) (\<lambda>_ _. True) w)"

lemma yields_simps:
  "yields (return_io x) P = P x" "yields (fail_io e) P"
  "yields (res_io r) P = (case r of Inl e \<Rightarrow> True | Inr x \<Rightarrow> P x)"
  by (simp_all add: yields_def wp_simps split: sum.split)

lemma yields_bind: "yields m P \<Longrightarrow> (\<And>x. P x \<Longrightarrow> yields (f x) Q) \<Longrightarrow> yields (bind_io m f) Q"
  unfolding yields_def by (simp add: wp_simps) (blast intro: wp_mono)

lemma yields_any: "yields m (\<lambda>_. True)"
  by (simp add: yields_def wp_def split: prod.split sum.split)

lemma yields_bind': "(\<And>x. yields (f x) Q) \<Longrightarrow> yields (bind_io m f) Q"
  by (rule yields_bind [OF yields_any])

lemma yields_wp: "yields m P \<Longrightarrow> wp m Q E w \<Longrightarrow> wp m (\<lambda>x w. Q x w \<and> P x) E w"
  by (auto simp: yields_def wp_def split: prod.splits sum.splits)

lemma yields_if: "yields m P \<Longrightarrow> yields n P \<Longrightarrow> yields (if b then m else n) P"
  by simp

lemma managed_label [simp]: "managed (label_managed r)"
  by (simp add: managed_def label_managed_def sm_get_def update_conv')

lemma managed_object [simp]: "managed (r\<lparr>uo_Object := obj\<rparr>) = managed r"
  by (simp add: managed_def)

lemma list_all_update: "list_all P xs \<Longrightarrow> P x \<Longrightarrow> list_all P (xs[i := x])"
  by (auto simp: list_all_iff dest: set_update_subset_insert [THEN subsetD])

lemma find_index_nth: "find_index P xs = Some i \<Longrightarrow> i < length xs \<and> P (xs ! i)"
  by (induction xs arbitrary: i) (auto split: if_splits)

lemma found_managed: "list_all managed rs \<Longrightarrow> findResource rs k n ns = Some i \<Longrightarrow> managed (rs ! i)"
  by (auto simp: findResource_def list_all_length dest: find_index_nth)

lemma egress_managed:
  assumes "list_all managed rs" "ensureNemoEgress cn l rs tid ns cs = Inr rs'"
  shows "list_all managed rs' \<and> length rs' = length rs"
  using assms
  by (auto simp: ensureNemoEgress_def found_managed intro!: list_all_update split: option.splits sum.splits)

lemma mount_managed: "managed d \<Longrightarrow> mountNemoAuth l d = Inr d' \<Longrightarrow> managed d'"
  by (auto simp: mountNemoAuth_def bind_res_Inr_iff neq_Nil_conv split: list.split_asm)

lemma write_compiled_managed: "managed c \<Longrightarrow> write_compiled y l c cs = Inr (s, c') \<Longrightarrow> managed c'"
  by (auto simp: write_compiled_def bind_res_Inr_iff split: option.splits sum.splits)

lemma rbac_managed: "list_all managed (nemoCallerRBAC cs tns gns sa)"
  by (auto simp: nemoCallerRBAC_def list_all_iff caller_role_def caller_object_def managed_def nemoCallerLabels_def sm_get_def
      Let_def ManagedByAIGatewayController_def FieldOwner_def LabelManagedBy_def)

lemma callouts_managed:
  assumes rs: "list_all managed rs" and out: "configureNemoCallouts cn y l rs tid gns tns cs = Inr rs'"
  shows "list_all managed rs'"
proof (cases "cs = []")
  case True
  then show ?thesis using assms by (simp add: configureNemoCallouts_def)
next
  case False
  obtain d c compiled cm rs1 obj where
    d: "findResource rs ''Deployment'' (PayloadProcessingDeploymentName cn tid) gns = Some d"
    and c: "findResource rs ''ConfigMap'' (PayloadProcessingPluginsConfigMapForTenant cn tid) gns = Some c"
    and w: "write_compiled y l (rs ! c) cs = Inr (compiled, cm)"
    and e: "ensureNemoEgress cn l (rs[c := cm]) tid gns cs = Inr rs1"
    and r: "rs' = rs1[d := (rs1 ! d)\<lparr>uo_Object := obj\<rparr>] \<or>
      (\<exists>m. mountNemoAuth l ((rs1 ! d)\<lparr>uo_Object := obj\<rparr>) = Inr m
         \<and> rs' = rs1[d := m] @ nemoCallerRBAC cs tns gns (PayloadProcessingPostServiceAccountName cn tid))"
    using out False unfolding configureNemoCallouts_def
    by (auto simp: bind_res_Inr_iff Let_def split: option.split_asm if_split_asm) blast+
  have "list_all managed (rs[c := cm])"
    by (rule list_all_update [OF rs write_compiled_managed [OF found_managed [OF rs c] w]])
  from egress_managed [OF this e] have rs1: "list_all managed rs1" and len: "length rs1 = length rs" by simp_all
  have "d < length rs" using d find_index_nth unfolding findResource_def by blast
  then have "managed (rs1 ! d)" using rs1 len by (simp add: list_all_length)
  then have own: "managed ((rs1 ! d)\<lparr>uo_Object := obj\<rparr>)" by simp
  from r show ?thesis
    using list_all_update [OF rs1 own] list_all_update [OF rs1 mount_managed [OF own]] rbac_managed by auto
qed

lemma render_managed:
  "yields (render_resources l env c tid gn gns infra) (\<lambda>r. case r of Inl _ \<Rightarrow> True | Inr (rs, b) \<Rightarrow> list_all managed rs)"
proof -
  have labelled: "list_all managed (map label_managed xs)" for xs by (simp add: list_all_iff)
  show ?thesis
    unfolding render_resources_def
    by (intro yields_bind') (auto simp: yields_simps labelled intro!: yields_bind' yields_if split: option.split sum.split)
qed

lemma guardrails_managed:
  assumes "list_all managed rs"
  shows "yields (add_guardrails l env c tid gns infra rs b) (\<lambda>r. case r of None \<Rightarrow> True | Some rs \<Rightarrow> list_all managed rs)"
proof -
  have "yields (bind_io (res_io (map_err ErrCompile (configureNemoCallouts cn y ol rs tid gns ns cs))) (\<lambda>rs. return_io (Some rs)))
      (\<lambda>r. case r of None \<Rightarrow> True | Some rs \<Rightarrow> list_all managed rs)" for cn y ol ns cs
    using callouts_managed [OF assms]
    by (intro yields_bind [where P = "list_all managed"]) (auto simp: yields_simps map_err_def split: sum.split)
  then have inner: "yields (bind_io m (\<lambda>_. bind_io (res_io (map_err ErrCompile (configureNemoCallouts cn y ol rs tid gns ns cs))) (\<lambda>rs. return_io (Some rs))))
      (\<lambda>r. case r of None \<Rightarrow> True | Some rs \<Rightarrow> list_all managed rs)" for m :: "unit tenant" and cn y ol ns cs
    by (rule yields_bind')
  show ?thesis
    unfolding add_guardrails_def
    by (rule yields_bind') (auto simp: yields_simps intro: inner split: sum.split prod.split CalloutError.split)
qed

lemma omit_managed:
  assumes "list_all managed rs"
  shows "yields (omitOptionalUnavailableResources env rs) (list_all managed)"
proof -
  have one: "yields (omit_step env r st) (\<lambda>st. list_all managed (fst st))" if "managed r" "list_all managed (fst st)" for r st
    using that unfolding omit_step_def
    by (auto simp: yields_simps intro!: yields_bind' split: prod.split option.split)
  have "yields (fold_io (omit_step env) rs st) (\<lambda>st. list_all managed (fst st))" if "list_all managed (fst st)" for st
    using assms that by (induction rs arbitrary: st) (auto simp: yields_simps intro: yields_bind [OF one])
  then show ?thesis
    unfolding omitOptionalUnavailableResources_def
    by (intro yields_bind [where P = "\<lambda>st. list_all managed (fst st)"]) (auto simp: yields_simps split: prod.split)
qed

subsection \<open>The whole reconcile\<close>

lemma stage_inv:
  "cleared l c rs w \<Longrightarrow> handoff_inv l w" "claimed l c w \<Longrightarrow> handoff_inv l w" "fenced l c rs w \<Longrightarrow> handoff_inv l w"
  "linked l c w \<Longrightarrow> handoff_inv l w" "idle l w \<Longrightarrow> handoff_inv l w"
  by (simp_all add: cleared_def claimed_def fenced_def linked_def idle_def)

abbreviation safe :: "tenant_lib \<Rightarrow> 'a tenant \<Rightarrow> tenant_world \<Rightarrow> bool" where
  "safe l m \<equiv> wp m (\<lambda>_. handoff_inv l) (\<lambda>_. handoff_inv l)"

lemma write_safe:
  assumes "merge_doc env" "fenced l c rs w" "list_all managed rs"
  shows "safe l (write_tenant l env c tid gns infra rs) w"
  unfolding write_tenant_def
proof (rule wp_bindI)
  show "wp (Apply l env rs) (\<lambda>_. handoff_inv l) (\<lambda>_. handoff_inv l) w"
    by (rule wp_mono [OF apply_fenced [OF assms]]) (auto intro: stage_inv)
qed (rule keeps_wpI, intro keeps_intros handoff.keeps_after_apply)

lemma fence_safe:
  assumes "merge_doc env" "cleared l c rs w" "list_all managed rs" "lo_UID a \<noteq> []"
  shows "safe l (fence_tenant l env c a tid gn gns infra rs) w"
  unfolding fence_tenant_def
proof (rule wp_bindI)
  show "wp (aiTenantStillValidForApply l env c (lo_UID a) (uo_Generation (lo_obj a)) gn gns)
      (\<lambda>valid v. handoff_inv l v \<and> (valid \<longrightarrow> fenced l c rs v)) (\<lambda>_. handoff_inv l) w"
    by (rule wp_mono [OF still_valid_fenced [OF assms(2,4)]]) (auto intro: stage_inv)
qed (use write_safe [OF assms(1) _ assms(3)] in \<open>auto simp: wp_basic(1)\<close>)

lemma gate_safe:
  assumes "merge_doc env" "cleared l c rs w" "list_all managed rs" "lo_UID a \<noteq> []"
  shows "safe l (gate_tenant l env c a tid gn gns infra rs) w"
  unfolding gate_tenant_def
proof (rule wp_bindI)
  have "keeps (cleared l c rs) (ensurePluginsConfigMapMigrationAllowed env (tl_child l) c gns tid)"
    unfolding ensurePluginsConfigMapMigrationAllowed_def by (intro keeps_intros keeps_read cleared_interfere)
  from keeps_wpI [OF this assms(2)]
  show "wp (attempt (ensurePluginsConfigMapMigrationAllowed env (tl_child l) c gns tid)) (\<lambda>_. cleared l c rs) (\<lambda>_. handoff_inv l) w"
    by (simp add: wp_simps)
qed (use fence_safe [OF assms(1) _ assms(3,4)] in \<open>auto simp: wp_basic(1) intro: stage_inv\<close>)

lemma apply_safe:
  assumes "merge_doc env" "claimed l c w" "list_all managed rs" "lo_UID a \<noteq> []"
  shows "safe l (apply_tenant l env c a tid gn gns infra rs) w"
  unfolding apply_tenant_def
proof (rule wp_bindI)
  show "wp (attempt (waitForForeignOwnership env rs)) (\<lambda>free v. handoff_inv l v \<and> (free = Inr () \<longrightarrow> cleared l c rs v)) (\<lambda>_. handoff_inv l) w"
    using foreign_cleared [OF assms(2), of env rs] by (simp add: wp_simps) (erule wp_mono, (auto intro: stage_inv)[2])
qed (use gate_safe [OF assms(1) _ assms(3,4)] in \<open>auto simp: wp_basic(1)\<close>)

text \<open>\<open>reconcilePraxis\<close> after the claim, up to the apply: every part keeps the claim, and what it hands on is labelled.\<close>

lemma render_claimed:
  "claimed l c w \<Longrightarrow> wp (render_resources l env c tid gn gns infra)
     (\<lambda>r w. claimed l c w \<and> (case r of Inl _ \<Rightarrow> True | Inr (rs, b) \<Rightarrow> list_all managed rs)) (\<lambda>_. handoff_inv l) w"
  by (rule wp_mono [OF yields_wp [OF render_managed keeps_wpI [OF claim.keeps_render]]]) (auto intro: stage_inv)

lemma guardrails_claimed:
  "claimed l c w \<Longrightarrow> list_all managed rs \<Longrightarrow> wp (add_guardrails l env c tid gns infra rs b)
     (\<lambda>r w. claimed l c w \<and> (case r of None \<Rightarrow> True | Some rs \<Rightarrow> list_all managed rs)) (\<lambda>_. handoff_inv l) w"
  by (rule wp_mono [OF yields_wp [OF guardrails_managed keeps_wpI [OF claim.keeps_guardrails]]]) (auto intro: stage_inv)

lemma omit_claimed:
  "claimed l c w \<Longrightarrow> list_all managed rs \<Longrightarrow> wp (omitOptionalUnavailableResources env rs)
     (\<lambda>rs w. claimed l c w \<and> list_all managed rs) (\<lambda>_. handoff_inv l) w"
  by (rule wp_mono [OF yields_wp [OF omit_managed keeps_wpI [OF claim.keeps_omit]]]) (auto intro: stage_inv)

lemma praxis_safe:
  assumes doc: "merge_doc env" and uid: "owners_have_uid env" and link: "linked l c w"
  shows "safe l (reconcilePraxis l env c tid) w"
  unfolding reconcilePraxis_def
proof (rule wp_bindI [OF prepare_claimed [OF uid link]])
  fix p :: "(mtc_copy \<times> live_object \<times> string \<times> string) option" and v
  assume p: "handoff_inv l v \<and> (\<forall>d a gn gns. p = Some (d, a, gn, gns) \<longrightarrow> claimed l d v \<and> lo_UID a \<noteq> [])"
  have final: "safe l (bind_io (omitOptionalUnavailableResources env rs) (apply_tenant l env d a tid gn gns infra)) u"
    if "claimed l d u" "list_all managed rs" "lo_UID a \<noteq> []" for d a gn gns infra rs u
    by (rule wp_bindI [OF omit_claimed [OF that(1,2)]]) (simp add: apply_safe doc that(3))
  have guarded: "safe l (bind_io (add_guardrails l env d tid gns infra rs b) (\<lambda>guarded. case guarded of None \<Rightarrow> return_io RetrySoon
      | Some rs \<Rightarrow> bind_io (omitOptionalUnavailableResources env rs) (apply_tenant l env d a tid gn gns infra))) u"
    if "claimed l d u" "list_all managed rs" "lo_UID a \<noteq> []" for d a gn gns infra rs b u
    by (rule wp_bindI [OF guardrails_claimed [OF that(1,2)]])
      (auto simp: wp_basic(1) intro: stage_inv final [OF _ _ that(3)] split: option.split)
  have rendered: "safe l (let infra = g d in bind_io (render_resources l env d tid gn gns infra) (\<lambda>r. case r of Inl x \<Rightarrow> return_io x
      | Inr (rs, b) \<Rightarrow> bind_io (add_guardrails l env d tid gns infra rs b) (\<lambda>guarded. case guarded of None \<Rightarrow> return_io RetrySoon
      | Some rs \<Rightarrow> bind_io (omitOptionalUnavailableResources env rs) (apply_tenant l env d a tid gn gns infra)))) u"
    if "claimed l d u" "lo_UID a \<noteq> []" for d a gn gns u and g :: "mtc_copy \<Rightarrow> string"
    unfolding Let_def by (rule wp_bindI [OF render_claimed [OF that(1)]])
      (auto simp: wp_basic(1) intro: stage_inv guarded [OF _ _ that(2)] split: sum.split prod.split)
  show "safe l (case p of None \<Rightarrow> return_io RetrySoon | Some (mtc, aitenant, gatewayName, gatewayNamespace) \<Rightarrow>
         (let infraNamespace = nested_str (tl_unstr l) (uo_Object (mc_obj mtc)) [''status'', ''infraNamespace''] in
          bind_io (render_resources l env mtc tid gatewayName gatewayNamespace infraNamespace) (\<lambda>rendered.
          case rendered of
            Inl result \<Rightarrow> return_io result
          | Inr (resources, apiTranslation) \<Rightarrow>
              bind_io (add_guardrails l env mtc tid gatewayNamespace infraNamespace resources apiTranslation) (\<lambda>guarded.
              case guarded of
                None \<Rightarrow> return_io RetrySoon
              | Some resources \<Rightarrow>
                  bind_io (omitOptionalUnavailableResources env resources)
                    (apply_tenant l env mtc aitenant tid gatewayName gatewayNamespace infraNamespace))))) v"
    using p rendered by (cases p) (auto simp: wp_basic(1))
qed

lemma not_praxis_safe:
  assumes "handoff_inv l w"
  shows "safe l (reconcileNotPraxis l env c tid) w"
proof -
  have signal: "safe l (bind_io (wrap_io ErrSignal (MarkPayloadProcessingCleanupComplete env c)) (\<lambda>d.
      bind_io (wrap_io ErrFinalizer (removeFinalizer env d)) (\<lambda>_. return_io Finished))) v" if "idle l v" for v
  proof (rule wp_bindI)
    show "safe l (wrap_io ErrSignal (MarkPayloadProcessingCleanupComplete env c)) v"
      using keeps_signal [OF that, of env c] by (simp add: wp_simps)
  qed (rule keeps_wpI, intro keeps_intros keeps_remove_finalizer)
  have clean: "safe l (bind_io (remove_data_plane l env c a tid gns) (\<lambda>_. bind_io (wrap_io ErrSignal (MarkPayloadProcessingCleanupComplete env c)) (\<lambda>d.
      bind_io (wrap_io ErrFinalizer (removeFinalizer env d)) (\<lambda>_. return_io Finished)))) v" if "handoff_inv l v" for a gns v
    by (rule wp_bindI [OF remove_data_plane_idle [OF that] signal])
  show ?thesis
    unfolding reconcileNotPraxis_def wp_if
    by (auto simp: wp_basic(1) assms intro!: wp_bindI [OF keeps_wpI [OF handoff.keeps_owned assms]] clean split: option.split)
qed

lemma delete_safe:
  assumes "handoff_inv l w"
  shows "safe l (reconcileDelete l env c tid) w"
proof -
  have release: "safe l (bind_io (wrap_io ErrFinalizer (removeFinalizer env c)) (\<lambda>_. return_io Finished)) v" if "handoff_inv l v" for v
    by (rule keeps_wpI [where I = "handoff_inv l", OF _ that]) (intro keeps_intros keeps_remove_finalizer)
  have clean: "safe l (bind_io (remove_data_plane l env c a tid gns) (\<lambda>_.
      bind_io (wrap_io ErrFinalizer (removeFinalizer env c)) (\<lambda>_. return_io Finished))) v" if "handoff_inv l v" for a gns v
    by (rule wp_bindI [OF remove_data_plane_idle [OF that] release]) (auto intro: stage_inv)
  have now: "wp (\<lambda>w. (w, Inr (te_now env (tw_tick w)))) (\<lambda>_. handoff_inv l) (\<lambda>_. handoff_inv l) w"
    using assms by (simp add: wp_def)
  show ?thesis
    unfolding reconcileDelete_def wp_if
    by (auto simp: wp_basic(1) assms wp_if intro!: wp_bindI [OF now] release wp_bindI [OF keeps_wpI [OF handoff.keeps_owned]] clean
        split: option.split)
qed

definition fresh_config :: "tenant_env \<Rightarrow> bool" where
  "fresh_config env \<longleftrightarrow> (\<forall>n. te_stale env n = None)"

definition env_doc :: "tenant_env \<Rightarrow> bool" where
  "env_doc env \<longleftrightarrow> fresh_config env \<and> owners_have_uid env \<and> merge_doc env"

lemma tenant_safe:
  assumes env: "env_doc env" and "handoff_inv l w"
  shows "safe l (ReconcileTenant l env) w"
  unfolding ReconcileTenant_def
proof (rule wp_bindI)
  let ?v = "interfere env w"
  have v: "handoff_inv l ?v" by (rule handoff_interfere [OF assms(2)])
  have "wp (get_config env) (\<lambda>found v. handoff_inv l v \<and> (\<forall>c. found = Some c \<longrightarrow> linked l c v)) (\<lambda>_. handoff_inv l) w"
    unfolding get_config_def
    by (rule wp_read) (use v env in \<open>auto simp: env_doc_def fresh_config_def linked_def\<close>)
  then show "wp (wrap_io ErrGetConfig (get_config env)) (\<lambda>found v. handoff_inv l v \<and> (\<forall>c. found = Some c \<longrightarrow> linked l c v)) (\<lambda>_. handoff_inv l) w"
    by (simp add: wp_simps)
qed (use praxis_safe [of env] env in \<open>auto simp: env_doc_def wp_basic(1) Let_def wp_if delete_safe not_praxis_safe split: option.split\<close>)

lemma reconciles_inv: "env_doc env \<Longrightarrow> handoff_inv l w \<Longrightarrow> handoff_inv l (reconciles l env n w)"
proof (induction n arbitrary: w)
  case (Suc n)
  have "handoff_inv l (fst (ReconcileTenant l env w))"
    using tenant_safe [OF Suc.prems] by (auto simp: wp_def split: prod.splits sum.splits)
  then show ?case using Suc by simp
qed simp

text \<open>A world at the start of an observation: an empty log, and a data plane of this controller only under the claim.\<close>

definition tenant_start :: "tenant_world \<Rightarrow> bool" where
  "tenant_start w \<longleftrightarrow> tw_log w = [] \<and> keyed w \<and> (tw_serving w \<longrightarrow> config_status w = PayloadProcessingStatusSteady)"

lemma start_event_ok:
  assumes "env_doc env" "tenant_start w" "ev \<in> set (tw_log (reconciles l env n w))"
  shows "event_ok l ev"
proof -
  have "handoff_inv l w" using assms(2) by (simp add: tenant_start_def handoff_inv_def)
  from reconciles_inv [OF assms(1) this] assms(3) show ?thesis by (auto simp: handoff_inv_def list_all_iff)
qed

subsection \<open>Giving up ownership\<close>

fun release_event :: "tenant_event \<Rightarrow> bool" where
  "release_event EvSignalled = True"
| "release_event EvFinalizerRemoved = True"
| "release_event _ = False"

definition closed_log :: "(tenant_event list \<Rightarrow> bool) \<Rightarrow> bool" where
  "closed_log P \<longleftrightarrow> (\<forall>log ev. P log \<and> \<not> release_event ev \<longrightarrow> P (log @ [ev]))"

lemma closed_logD: "closed_log P \<Longrightarrow> P log \<Longrightarrow> \<not> release_event ev \<Longrightarrow> P (log @ [ev])"
  by (simp add: closed_log_def)

lemma closed_move: "closed_log P \<Longrightarrow> P (tw_log w) \<Longrightarrow> P (tw_log (make_move m w))"
  by (cases m) (auto intro: closed_logD)

lemma closed_interfere: "closed_log P \<Longrightarrow> P (tw_log w) \<Longrightarrow> P (tw_log (interfere env w))"
  using interfere_induct [of "\<lambda>w. P (tw_log w)" w env] by (simp add: closed_move)

lemma closed_delete_object: "closed_log P \<Longrightarrow> keeps (\<lambda>w. P (tw_log w)) (delete_object env x)"
  by (rule keeps_delete_object) (simp_all add: closed_interfere)

lemma closed_delete_owned: "closed_log P \<Longrightarrow> keeps (\<lambda>w. P (tw_log w)) (deleteResourceIfOwned l env k)"
  unfolding deleteResourceIfOwned_def get_object_def
  by (intro keeps_bind keeps_wrap keeps_read keeps_option keeps_if keeps_basic closed_delete_object)
    (auto simp: keeps_def closed_interfere intro: closed_logD)

lemma closed_cleanup: "closed_log P \<Longrightarrow> cleanup_invariant l env (\<lambda>w. P (tw_log w))"
  by unfold_locales (simp_all add: closed_interfere closed_delete_owned closed_delete_object closed_logD)

lemma closed_tenant: "closed_log P \<Longrightarrow> tenant_invariant l env (\<lambda>w. P (tw_log w))"
  using closed_cleanup cleanup_invariant.axioms(1) by blast

lemma closed_write: "closed_log P \<Longrightarrow> \<not> release_event ev \<Longrightarrow> keeps (\<lambda>w. P (tw_log w)) (locked_write env c f ev)"
  by (rule keeps_locked_write) (simp_all add: closed_interfere closed_logD)

lemma closed_prepare: "closed_log P \<Longrightarrow> keeps (\<lambda>w. P (tw_log w)) (preparePraxisOwnerForApply l env c)"
proof -
  assume P: "closed_log P"
  have e: "keeps (\<lambda>w. P (tw_log w)) (case v of Inl Conflict \<Rightarrow> m | Inl (ApiFault x) \<Rightarrow> n x | Inr y \<Rightarrow> k y)"
    if "keeps (\<lambda>w. P (tw_log w)) m" "\<And>x. keeps (\<lambda>w. P (tw_log w)) (n x)" "\<And>y. keeps (\<lambda>w. P (tw_log w)) (k y)"
    for v and m :: "(tenant_world, ClaimError, bool \<times> mtc_copy) io" and n and k :: "mtc_copy \<Rightarrow> (tenant_world, ClaimError, bool \<times> mtc_copy) io"
    using that by (auto split: sum.split api_fault.split)
  have claim: "keeps (\<lambda>w. P (tw_log w)) (EnsurePraxisMayDeploy env d)" for d
    unfolding EnsurePraxisMayDeploy_def claimPraxisSteady_def get_config_def
    by (intro keeps_bind keeps_wrap keeps_if keeps_option keeps_attempt keeps_basic keeps_read e closed_write [OF P] closed_interfere [OF P]) simp_all
  show ?thesis
    unfolding preparePraxisOwnerForApply_def ensureFinalizer_def
    by (intro keeps_intros keeps_read claim closed_write [OF P] tenant_invariant.keeps_owning [OF closed_tenant [OF P]] closed_interfere [OF P]) simp_all
qed

lemma closed_apply: "closed_log P \<Longrightarrow> keeps (\<lambda>w. P (tw_log w)) (apply_tenant l env c a tid gn gns infra rs)"
proof -
  assume P: "closed_log P"
  have one: "keeps (\<lambda>w. P (tw_log w)) (apply_object env obj)" for obj
    unfolding apply_object_def by (rule keeps_call) (simp_all add: closed_interfere P closed_logD)
  have owner: "keeps (\<lambda>w. P (tw_log w)) (get_live_owner env ns name)" for ns name
    unfolding get_live_owner_def by (rule keeps_call) (simp_all add: closed_interfere P Let_def)
  note t = closed_tenant [OF P, of l env]
  show ?thesis
    unfolding apply_tenant_def gate_tenant_def fence_tenant_def write_tenant_def Apply_def aiTenantStillValidForApply_def
    by (intro keeps_intros one owner tenant_invariant.keeps_foreign [OF t] tenant_invariant.keeps_plugins [OF t]
        tenant_invariant.keeps_after_apply [OF t])
qed

lemma closed_praxis: "closed_log P \<Longrightarrow> keeps (\<lambda>w. P (tw_log w)) (reconcilePraxis l env c tid)"
proof -
  assume P: "closed_log P"
  note t = closed_tenant [OF P, of l env]
  show ?thesis
    unfolding reconcilePraxis_def
    by (intro keeps_intros closed_prepare [OF P] closed_apply [OF P] tenant_invariant.keeps_render [OF t]
        tenant_invariant.keeps_guardrails [OF t] tenant_invariant.keeps_omit [OF t])
qed

text \<open>What must be in the log before the controller gives the data plane away.\<close>

definition removal_logged :: "tenant_lib \<Rightarrow> string \<Rightarrow> string \<Rightarrow> tenant_event list \<Rightarrow> bool" where
  "removal_logged l tid ns log \<longleftrightarrow> EvCleaned \<in> set log
     \<and> (\<exists>gns. \<forall>k \<in> set (cleanup_targets (tl_child l) tid gns ns). \<exists>x. EvSettled k x \<in> set log)"

definition releases_ok :: "tenant_lib \<Rightarrow> string \<Rightarrow> string \<Rightarrow> bool \<Rightarrow> tenant_event list \<Rightarrow> bool" where
  "releases_ok l tid ns expired log \<longleftrightarrow>
     (\<forall>p ev s. log = p @ ev # s \<and> release_event ev \<longrightarrow> removal_logged l tid ns p \<or> expired \<and> ev = EvFinalizerRemoved)"

lemma releases_ok_snoc:
  "releases_ok l tid ns x (log @ [ev]) \<longleftrightarrow>
     releases_ok l tid ns x log \<and> (release_event ev \<longrightarrow> removal_logged l tid ns log \<or> x \<and> ev = EvFinalizerRemoved)"
proof
  assume r: "releases_ok l tid ns x (log @ [ev])"
  have "releases_ok l tid ns x log"
    unfolding releases_ok_def
  proof (intro allI impI, elim conjE)
    fix p e s
    assume "log = p @ e # s" "release_event e"
    moreover from this have "log @ [ev] = p @ e # (s @ [ev])" by simp
    ultimately show "removal_logged l tid ns p \<or> x \<and> e = EvFinalizerRemoved" using r unfolding releases_ok_def by blast
  qed
  moreover have "release_event ev \<longrightarrow> removal_logged l tid ns log \<or> x \<and> ev = EvFinalizerRemoved"
    using r unfolding releases_ok_def by blast
  ultimately show "releases_ok l tid ns x log \<and> (release_event ev \<longrightarrow> removal_logged l tid ns log \<or> x \<and> ev = EvFinalizerRemoved)" ..
next
  assume r: "releases_ok l tid ns x log \<and> (release_event ev \<longrightarrow> removal_logged l tid ns log \<or> x \<and> ev = EvFinalizerRemoved)"
  show "releases_ok l tid ns x (log @ [ev])"
    unfolding releases_ok_def
  proof (intro allI impI, elim conjE)
    fix p e s
    assume eq: "log @ [ev] = p @ e # s" and "release_event e"
    then show "removal_logged l tid ns p \<or> x \<and> e = EvFinalizerRemoved"
      using r by (cases s rule: rev_cases) (auto simp: releases_ok_def)
  qed
qed

lemma closed_releases: "closed_log (releases_ok l tid ns x)"
  by (simp add: closed_log_def releases_ok_snoc)

lemma closed_removal: "closed_log (removal_logged l tid ns)"
  unfolding closed_log_def removal_logged_def by (metis Un_iff set_append)

lemma closed_settled: "closed_log (\<lambda>log. \<forall>k \<in> K. \<exists>x. EvSettled k x \<in> set log)"
  unfolding closed_log_def by (metis Un_iff set_append)

lemma delete_owned_settles:
  "wp (deleteResourceIfOwned l env k) (\<lambda>_ w. \<exists>x. EvSettled k x \<in> set (tw_log w)) (\<lambda>_ _. True) w"
proof -
  have any: "wp m (\<lambda>_ _. True) (\<lambda>_ _. True) v" for m :: "'b tenant" and v
    by (simp add: wp_def split: prod.split sum.split)
  show ?thesis
    unfolding deleteResourceIfOwned_def
    by (rule wp_bindI [OF any], rule wp_bindI [OF any]) (auto simp: wp_def)
qed

abbreviation releases :: "tenant_lib \<Rightarrow> string \<Rightarrow> string \<Rightarrow> bool \<Rightarrow> tenant_world \<Rightarrow> bool" where
  "releases l tid ns x w \<equiv> releases_ok l tid ns x (tw_log w)"

lemma wp_both:
  "wp m (\<lambda>_. P) E w \<Longrightarrow> wp m (\<lambda>_. Q) (\<lambda>_ _. True) w \<Longrightarrow> wp m (\<lambda>_ w. P w \<and> Q w) E w"
  by (auto simp: wp_def split: prod.splits sum.splits)

lemma cleanup_settles:
  assumes "releases l tid ns x w"
  shows "wp (cleanup l env tid gns ns)
    (\<lambda>_ w. releases l tid ns x w \<and> (\<forall>k \<in> set (cleanup_targets (tl_child l) tid gns ns). \<exists>y. EvSettled k y \<in> set (tw_log w)))
    (\<lambda>_. releases l tid ns x) w"
proof -
  let ?T = "cleanup_targets (tl_child l) tid gns ns"
  let ?P = "\<lambda>log. releases_ok l tid ns x log \<and> (\<forall>k \<in> set ?T. \<exists>y. EvSettled k y \<in> set log)"
  have both: "closed_log ?P"
    using closed_releases [of l tid ns x] closed_settled [of "set ?T"] unfolding closed_log_def by blast
  have mono: "keeps (\<lambda>w. \<exists>y. EvSettled k y \<in> set (tw_log w)) (deleteResourceIfOwned l env k')" for k k'
    using closed_delete_owned [OF closed_settled [of "{k}"]] by simp
  have rel: "keeps (releases l tid ns x) (deleteResourceIfOwned l env k)" for k
    by (rule closed_delete_owned [OF closed_releases])
  have "wp (for_io (deleteResourceIfOwned l env) ?T)
      (\<lambda>_ w. releases l tid ns x w \<and> (\<forall>k \<in> set ?T. \<exists>y. EvSettled k y \<in> set (tw_log w))) (\<lambda>_. releases l tid ns x) w"
  proof (rule wp_for_covers [where I = "releases l tid ns x"])
    show "releases l tid ns x w" by (rule assms)
    show "wp (deleteResourceIfOwned l env k) (\<lambda>_ w. releases l tid ns x w \<and> (\<exists>y. EvSettled k y \<in> set (tw_log w))) (\<lambda>_. releases l tid ns x) v"
      if "releases l tid ns x v" for k v
      by (rule wp_both [OF keeps_wpI [OF rel, OF that] delete_owned_settles])
    show "wp (deleteResourceIfOwned l env k') (\<lambda>_ w. \<exists>y. EvSettled k y \<in> set (tw_log w)) (\<lambda>_ _. True) v"
      if "\<exists>y. EvSettled k y \<in> set (tw_log v)" for k k' v
      by (rule wp_mono [OF keeps_wpI [OF mono, OF that]]) simp_all
  qed
  then show ?thesis
    unfolding cleanup_def
    by (rule wp_bindI) (rule wp_mono [OF keeps_wpI [OF cleanup_invariant.keeps_cleanup_rest [OF closed_cleanup [OF both]]]], auto)
qed

lemma remove_logged:
  assumes "releases l tid (mc_Namespace c) x w"
  shows "wp (remove_data_plane l env c a tid gns)
    (\<lambda>_ w. releases l tid (mc_Namespace c) x w \<and> removal_logged l tid (mc_Namespace c) (tw_log w)) (\<lambda>_. releases l tid (mc_Namespace c) x) w"
  unfolding remove_data_plane_def
proof (rule wp_bindI)
  let ?T = "cleanup_targets (tl_child l) tid gns (mc_Namespace c)"
  let ?P = "\<lambda>log. releases_ok l tid (mc_Namespace c) x log \<and> (\<forall>k \<in> set ?T. \<exists>y. EvSettled k y \<in> set log)"
  show "wp (wrap_io ErrCleanup (cleanup l env tid gns (mc_Namespace c))) (\<lambda>_ w. ?P (tw_log w)) (\<lambda>_. releases l tid (mc_Namespace c) x) w"
    using cleanup_settles [OF assms, of env gns] by (simp add: wp_simps)
  fix y :: unit and v :: tenant_world
  assume v: "?P (tw_log v)"
  have both: "closed_log ?P"
    using closed_releases [of l tid "mc_Namespace c" x] closed_settled [of "set ?T"] unfolding closed_log_def by blast
  have "keeps (\<lambda>w. ?P (tw_log w)) (let tenantNamespace = ConfigNamespace (tl_unstr l) (lo_obj a) in
      if tenantNamespace = [] then return_io () else wrap_io ErrCleanup (deleteStandalonePraxis l env tid tenantNamespace))"
    unfolding Let_def by (intro keeps_intros tenant_invariant.keeps_standalone [OF closed_tenant [OF both]])
  from keeps_wpI [OF this, of v] v
  have "wp (let tenantNamespace = ConfigNamespace (tl_unstr l) (lo_obj a) in
      if tenantNamespace = [] then return_io () else wrap_io ErrCleanup (deleteStandalonePraxis l env tid tenantNamespace))
      (\<lambda>_ w. ?P (tw_log w)) (\<lambda>_. releases l tid (mc_Namespace c) x) v"
    by (auto elim!: wp_mono)
  then show "wp (bind_io (let tenantNamespace = ConfigNamespace (tl_unstr l) (lo_obj a) in
      if tenantNamespace = [] then return_io () else wrap_io ErrCleanup (deleteStandalonePraxis l env tid tenantNamespace))
       (\<lambda>_ w. (log_event EvCleaned (w\<lparr>tw_serving := False\<rparr>), Inr ())))
     (\<lambda>_ w. releases l tid (mc_Namespace c) x w \<and> removal_logged l tid (mc_Namespace c) (tw_log w)) (\<lambda>_. releases l tid (mc_Namespace c) x) v"
    by (rule wp_bindI) (auto simp: wp_def releases_ok_snoc removal_logged_def)
qed

text \<open>After the removal, or after the deadline, a release is in order.\<close>

lemma release_ok_finalizer:
  assumes "removal_logged l tid ns (tw_log w) \<or> x" "releases l tid ns x w"
  shows "wp (removeFinalizer env c) (\<lambda>_. releases l tid ns x) (\<lambda>_. releases l tid ns x) w"
proof -
  let ?P = "\<lambda>log. (removal_logged l tid ns log \<or> x) \<and> releases_ok l tid ns x log"
  have closed: "closed_log ?P"
    using closed_releases [of l tid ns x] closed_removal [of l tid ns] unfolding closed_log_def by blast
  have "?P (tw_log (interfere env w))" by (rule closed_interfere [OF closed]) (use assms in simp)
  then show ?thesis
    unfolding removeFinalizer_def
    using assms(2) by (auto simp: wp_simps releases_ok_snoc intro!: wp_locked_write)
qed

lemma release_ok_signal:
  assumes "removal_logged l tid ns (tw_log w)" "releases l tid ns x w"
  shows "wp (MarkPayloadProcessingCleanupComplete env c) (\<lambda>_ w. removal_logged l tid ns (tw_log w) \<and> releases l tid ns x w)
    (\<lambda>_. releases l tid ns x) w"
proof -
  let ?P = "\<lambda>log. removal_logged l tid ns log \<and> releases_ok l tid ns x log"
  have closed: "closed_log ?P"
    using closed_releases [of l tid ns x] closed_removal [of l tid ns] unfolding closed_log_def by blast
  have i: "?P (tw_log (interfere env w))" by (rule closed_interfere [OF closed]) (use assms in simp)
  then have "?P (tw_log (interfere env w) @ [EvSignalled])"
    by (simp add: releases_ok_snoc) (auto simp: removal_logged_def)
  then show ?thesis
    using assms i unfolding MarkPayloadProcessingCleanupComplete_def
    by (auto simp: wp_simps Let_def intro!: wp_call)
qed

end
