(* ===== verification/NemoCallerCorrect.thy ===== *)
theory NemoCallerCorrect
  imports NemoFilters
begin

text \<open>
  Correctness of the guardrail compiler. The order of the checks is that of the attachments, every check once. A check that an
  attachment selects is never dropped: it is called in each of its phases or it rejects the request. What is called is an
  accepted policy's provider in the tenant's infrastructure namespace.
\<close>

subsection \<open>Order of the checks\<close>

text \<open>The reference: all checks that the attachments select, in their order, each the first time its key occurs.\<close>

fun keep_first :: "('a \<Rightarrow> 'k) \<Rightarrow> 'k list \<Rightarrow> 'a list \<Rightarrow> 'a list" where
  "keep_first f used [] = []"
| "keep_first f used (x # xs) =
     (if f x \<in> set used then keep_first f used xs else x # keep_first f (f x # used) xs)"

definition wanted_checks :: "nemoCallout \<Rightarrow> string list \<Rightarrow> nemoCheck list" where
  "wanted_checks c wanted = filter (\<lambda>k. wanted = [] \<or> nk_name k \<in> set wanted) (nc_checks c)"

definition checks_of :: "nemoCallout \<Rightarrow> nemoCheck list \<Rightarrow> (nemoCallout \<times> nemoCheck) list" where
  "checks_of c ks = map (\<lambda>k. (c\<lparr>nc_checks := []\<rparr>, k)) ks"

definition flatten :: "nemoCallout list \<Rightarrow> (nemoCallout \<times> nemoCheck) list" where
  "flatten cs = concat (map (\<lambda>c. checks_of c (nc_checks c)) cs)"

definition pair_key :: "nemoCallout \<times> nemoCheck \<Rightarrow> string" where
  "pair_key p = check_key (nc_name (fst p)) (nk_name (snd p))"

definition ref_picks :: "nemoCallout list \<Rightarrow> string \<Rightarrow> attachmentRef \<Rightarrow> (nemoCallout \<times> nemoCheck) list" where
  "ref_picks callouts tenantNamespace ref =
     (if inTenant ref tenantNamespace
      then (case byName callouts (ar_name ref) of None \<Rightarrow> [] | Some src \<Rightarrow> checks_of src (wanted_checks src (ar_checks ref)))
      else [])"

definition name_picks :: "nemoCallout list \<Rightarrow> string \<Rightarrow> (nemoCallout \<times> nemoCheck) list" where
  "name_picks callouts name = (case byName callouts name of None \<Rightarrow> [] | Some src \<Rightarrow> checks_of src (nc_checks src))"

definition all_picks :: "nemoCallout list \<Rightarrow> attachmentRef list \<Rightarrow> string \<Rightarrow> (nemoCallout \<times> nemoCheck) list" where
  "all_picks callouts refs tenantNamespace =
     concat (map (ref_picks callouts tenantNamespace) refs)
     @ (if list_ex ar_unreadable refs then concat (map (name_picks callouts) (sort (remdups (map nc_name callouts)))) else [])"

lemma keep_first_append:
  "keep_first f used (xs @ ys) = keep_first f used xs @ keep_first f (rev (map f (keep_first f used xs)) @ used) ys"
  by (induction xs arbitrary: used) auto



lemma distinct_keep_first: "distinct (map f (keep_first f used xs)) \<and> set (map f (keep_first f used xs)) \<inter> set used = {}"
proof (induction xs arbitrary: used)
  case (Cons x xs)
  from Cons.IH [of used] Cons.IH [of "f x # used"] show ?case by auto
qed simp

lemma checks_of_simps [simp]:
  "checks_of c [] = []" "checks_of c (k # ks) = (c\<lparr>nc_checks := []\<rparr>, k) # checks_of c ks"
  by (simp_all add: checks_of_def)

lemma pair_key_simp [simp]: "pair_key (c\<lparr>nc_checks := ks\<rparr>, k) = check_key (nc_name c) (nk_name k)"
  by (simp add: pair_key_def)

lemma take_checks_spec:
  "take_checks (nc_name c) wanted ks used = (selected, used') \<Longrightarrow>
     checks_of c selected = keep_first pair_key used (checks_of c (filter (\<lambda>k. wanted = [] \<or> nk_name k \<in> set wanted) ks))
     \<and> used' = rev (map pair_key (checks_of c selected)) @ used"
proof (induction ks arbitrary: used selected used')
  case Nil
  then show ?case by simp
next
  case (Cons k ks)
  show ?case
  proof (cases "wanted \<noteq> [] \<and> nk_name k \<notin> set wanted \<or> check_key (nc_name c) (nk_name k) \<in> set used")
    case True
    then have "take_checks (nc_name c) wanted ks used = (selected, used')" using Cons.prems by (auto split: if_split_asm)
    from Cons.IH [OF this] True show ?thesis by auto
  next
    case False
    then obtain sel where sel: "take_checks (nc_name c) wanted ks (check_key (nc_name c) (nk_name k) # used) = (sel, used')"
      and "selected = k # sel" using Cons.prems by (auto split: if_split_asm prod.split_asm)
    with False Cons.IH [OF sel] show ?thesis by auto
  qed
qed

text \<open>The state of the loop after some of the picks.\<close>

definition order_state :: "(nemoCallout \<times> nemoCheck) list \<Rightarrow> nemoCallout list \<times> string list \<Rightarrow> bool" where
  "order_state picks st \<longleftrightarrow>
     flatten (fst st) = keep_first pair_key [] picks \<and> snd st = rev (map pair_key (flatten (fst st)))"

lemma add_callout_state:
  assumes "order_state picks st"
  shows "order_state (picks @ checks_of src (wanted_checks src wanted)) (add_callout src wanted st)"
proof -
  obtain ordered used where st: "st = (ordered, used)" by (cases st)
  obtain selected used' where sel: "take_checks (nc_name src) wanted (nc_checks src) used = (selected, used')"
    by (metis surj_pair)
  have spec: "checks_of src selected = keep_first pair_key used (checks_of src (wanted_checks src wanted))"
    "used' = rev (map pair_key (checks_of src selected)) @ used"
    using take_checks_spec [OF sel] by (simp_all add: wanted_checks_def)
  have flat: "flatten (if selected = [] then ordered else ordered @ [src\<lparr>nc_checks := selected\<rparr>]) = flatten ordered @ checks_of src selected"
    by (simp add: flatten_def checks_of_def)
  have ordered: "flatten ordered = keep_first pair_key [] picks" "used = rev (map pair_key (flatten ordered))"
    using assms by (simp_all add: order_state_def st)
  have e: "flatten ordered @ checks_of src selected = keep_first pair_key [] (picks @ checks_of src (wanted_checks src wanted))"
    unfolding spec(1) keep_first_append ordered(2) by (simp add: ordered(1))
  have used': "used' = rev (map pair_key (flatten ordered @ checks_of src selected))"
    by (simp add: spec(2) ordered(2))
  have add: "add_callout src wanted st = (if selected = [] then ordered else ordered @ [src\<lparr>nc_checks := selected\<rparr>], used')"
    by (simp add: st add_callout_def selectCalloutChecks_def sel)
  show ?thesis by (simp only: order_state_def add fst_conv snd_conv flat used' e simp_thms)
qed

lemma fold_state:
  assumes "order_state picks st" "\<And>x picks st. order_state picks st \<Longrightarrow> order_state (picks @ g x) (f x st)"
  shows "order_state (picks @ concat (map g xs)) (fold f xs st)"
  using assms(1)
proof (induction xs arbitrary: picks st)
  case (Cons x xs)
  from Cons.IH [OF assms(2) [OF Cons.prems]] show ?case by simp
qed simp

lemma add_ref_state: "order_state picks st \<Longrightarrow> order_state (picks @ ref_picks callouts tn ref) (add_ref callouts tn ref st)"
  by (auto simp: ref_picks_def add_ref_def add_callout_state split: option.split)

lemma add_name_state: "order_state picks st \<Longrightarrow> order_state (picks @ name_picks callouts name) (add_name callouts name st)"
  using add_callout_state [of picks st _ "[]"] by (auto simp: name_picks_def add_name_def wanted_checks_def split: option.split)

lemma order_is_keep_first:
  "flatten (applyAttachmentOrder callouts refs tn) = keep_first pair_key [] (all_picks callouts refs tn)"
proof -
  have "order_state [] ([], [])" by (simp add: order_state_def flatten_def)
  from fold_state [OF this add_ref_state, where xs = refs]
  have st: "order_state (concat (map (ref_picks callouts tn) refs)) (fold (add_ref callouts tn) refs ([], []))" by simp
  note fold_state [OF st add_name_state, where xs = "sort (remdups (map nc_name callouts))"]
  with st show ?thesis by (auto simp: applyAttachmentOrder_def attachedPolicies_def all_picks_def order_state_def Let_def)
qed






subsection \<open>Callouts of policies\<close>

lemma compile_check_Inr:
  "compile_check p check = Inr k \<longleftrightarrow>
     gc_ConfigID check \<noteq> [] \<and> gc_Phases check \<noteq> [] \<and>
     k = \<lparr>nk_name = gc_Name check, nk_configID = gc_ConfigID check, nk_header = check_header p check,
          nk_request = (PhaseInput \<in> set (gc_Phases check)), nk_response = (PhaseOutput \<in> set (gc_Phases check)), nk_closed = False\<rparr>"
proof -
  have "gc_Phases check \<noteq> [] \<longleftrightarrow> PhaseInput \<in> set (gc_Phases check) \<or> PhaseOutput \<in> set (gc_Phases check)"
    by (metis GuardrailPhase.exhaust empty_iff empty_set last_in_set)
  then show ?thesis by (auto simp: compile_check_def Let_def)
qed

text \<open>What a callout says of its policy: closed, or open with the Service and the settings of an accepted policy.\<close>

definition open_callout :: "guard_lib \<Rightarrow> bool \<Rightarrow> AIGuardrail \<Rightarrow> nemoCallout \<Rightarrow> bool" where
  "open_callout gl ou p c \<longleftrightarrow> BindingAccepted gl p \<and> \<not> nc_closed c \<and> \<not> ProviderTimeoutTooFine (nc_timeout c)
     \<and> (\<exists>service. provider_service (gl_k8s gl) p = Inr service \<and> nc_serviceNamespace c = ns_Namespace service
          \<and> nc_serviceName c = ns_Name service \<and> nc_authenticated c = ns_Authenticated service)
     \<and> nc_endpoint c = gst_ProviderEndpoint (ag_Status p) \<and> nc_timeout c = gp_Timeout (gs_Provider (ag_Spec p))
     \<and> (ou \<longrightarrow> (\<forall>k \<in> set (nc_checks c). \<not> nk_response k))"

definition closed_of :: "AIGuardrail \<Rightarrow> AIGuardrailCheck \<Rightarrow> nemoCheck" where
  "closed_of p check = closedCheck (gc_Name check) (check_header p check)"

definition callout_of :: "guard_lib \<Rightarrow> bool \<Rightarrow> AIGuardrail \<Rightarrow> nemoCallout \<Rightarrow> bool" where
  "callout_of gl ou p c \<longleftrightarrow> nc_name c = ag_Name p
     \<and> (\<forall>k \<in> set (nc_checks c). \<exists>check \<in> set (gs_Checks (ag_Spec p)).
          if nc_closed c then k = closed_of p check else compile_check p check = Inr k)
     \<and> (if nc_closed c then c = closed_with (nc_name c) (nc_checks c) else open_callout gl ou p c)"









subsection \<open>Selected checks\<close>





subsection \<open>Filters of callouts\<close>

definition callout_url :: "nemoCallout \<Rightarrow> string" where
  "callout_url c = (case checksEndpoint (nc_endpoint c) of None \<Rightarrow> [] | Some e \<Rightarrow> e)"

definition callout_requests :: "nemoCallout \<Rightarrow> nemoFilter list" where
  "callout_requests c =
     (if nc_closed c then map closed_filter (nc_checks c)
      else map (\<lambda>k. call_filter c (callout_url c) k True False) (filter nk_request (nc_checks c)))"

definition callout_responses :: "nemoCallout \<Rightarrow> nemoFilter list" where
  "callout_responses c =
     (if nc_closed c then [] else map (\<lambda>k. call_filter c (callout_url c) k False True) (filter nk_response (nc_checks c)))"

definition callable :: "nemoCallout \<Rightarrow> bool" where
  "callable c \<longleftrightarrow> nc_closed c \<or> checksEndpoint (nc_endpoint c) \<noteq> None"

lemma fold_expand_check:
  "fold (expand_check c e) ks (fw, out) =
     (fw @ map (\<lambda>k. call_filter c e k True False) (filter nk_request ks),
      out @ map (\<lambda>k. call_filter c e k False True) (filter nk_response ks))"
  by (induction ks arbitrary: fw out) (simp_all add: expand_check_def)

lemma expand_callout_eq:
  "expand_callout c (fw, out) =
     (if callable c then Inr (fw @ callout_requests c, out @ callout_responses c) else Inl (BadEndpoint (nc_name c)))"
  by (auto simp: expand_callout_def callable_def callout_requests_def callout_responses_def callout_url_def fold_expand_check split: option.split)

lemma fold_expand:
  "fold_res expand_callout cs (fw, out) = Inr st \<longleftrightarrow>
     list_all callable cs \<and> st = (fw @ concat (map callout_requests cs), out @ concat (map callout_responses cs))"
  by (induction cs arbitrary: fw out) (auto simp: expand_callout_eq)

lemma expandNemoChecks_Inr:
  "expandNemoChecks cs = Inr fs \<longleftrightarrow>
     list_all callable cs \<and> fs = concat (map callout_requests cs) @ rev (concat (map callout_responses cs)) \<and> fs \<noteq> []"
  by (auto simp: expandNemoChecks_def bind_res_Inr_iff fold_expand)

lemma request_filters: "f \<in> set (callout_requests c) \<Longrightarrow> nf_request f \<and> \<not> nf_response f"
  by (auto simp: callout_requests_def closed_filter_def call_filter_def split: if_split_asm)

lemma response_filters: "f \<in> set (callout_responses c) \<Longrightarrow> nf_response f \<and> \<not> nf_request f \<and> \<not> nf_closed f"
  by (auto simp: callout_responses_def call_filter_def split: if_split_asm)

lemma expanded_split:
  assumes "expandNemoChecks cs = Inr fs"
  shows "filter nf_request fs = concat (map callout_requests cs) \<and> rev (filter nf_response fs) = concat (map callout_responses cs)"
proof -
  have "filter nf_request (concat (map callout_requests cs)) = concat (map callout_requests cs)"
    "filter nf_response (concat (map callout_requests cs)) = []"
    "filter nf_request (rev (concat (map callout_responses cs))) = []"
    "filter nf_response (rev (concat (map callout_responses cs))) = rev (concat (map callout_responses cs))"
    using request_filters response_filters by (fastforce simp: filter_id_conv filter_empty_conv)+
  then show ?thesis using assms by (simp add: expandNemoChecks_Inr)
qed

subsection \<open>The callouts that are compiled\<close>





lemma pin_open: "stays_open infra c \<Longrightarrow> pin_callout infra c = c"
  by (simp add: pin_callout_def)

lemma pin_closes:
  "\<not> stays_open infra c \<Longrightarrow>
     pin_callout infra c = closed_with (nc_name c) (map (\<lambda>k. closedCheck (nk_name k) (nk_header k)) (nc_checks c))"
  by (simp add: pin_callout_def)

lemma pinned_closed:
  assumes "callout_of gl ou p c" "nc_closed (pin_callout infra c)" "k \<in> set (nc_checks (pin_callout infra c))"
  shows "\<exists>check \<in> set (gs_Checks (ag_Spec p)). k = closed_of p check"
proof (cases "stays_open infra c")
  case True
  then show ?thesis using assms by (simp add: pin_open callout_of_def)
next
  case False
  then obtain k0 where k0: "k0 \<in> set (nc_checks c)" "k = closedCheck (nk_name k0) (nk_header k0)"
    using assms(3) by (auto simp: pin_closes closed_with_def)
  have "\<not> nc_closed c" using False by (simp add: stays_open_def)
  then obtain check where "check \<in> set (gs_Checks (ag_Spec p))" "compile_check p check = Inr k0"
    using assms(1) k0(1) unfolding callout_of_def by (simp only: if_False) blast
  then show ?thesis using k0(2) by (auto simp: closed_of_def compile_check_Inr)
qed

lemma pinned_check:
  assumes "k \<in> set (nc_checks c)"
  shows "\<exists>k' \<in> set (nc_checks (pin_callout infra c)). nk_name k' = nk_name k \<and> nk_header k' = nk_header k
    \<and> (\<not> nc_closed (pin_callout infra c) \<longrightarrow> k' = k)"
  using assms by (cases "stays_open infra c") (auto simp: pin_open pin_closes closed_with_def closedCheck_def)











subsection \<open>Properties\<close>
























text \<open>The checks run in the order of the attachments, each once: the compiled catalog is the sequence of all checks that the attachments
  select, from the AITenant's list to the narrowest one and, when some attachment could not be read, followed by every check of every
  policy in the order of the policy names, in which only the first occurrence of a check is kept.\<close>

theorem attachment_order:
  "flatten (applyAttachmentOrder callouts refs tenantNamespace) = keep_first pair_key [] (all_picks callouts refs tenantNamespace)"
  by (rule order_is_keep_first)

text \<open>Requests and responses see the checks in the same order. The chain of filters runs forward on a request and backward on the
  response; in both directions the filters of the phase are those of the catalog's checks with that phase, in catalog order, and
  closed checks come with the requests.\<close>

theorem phases_in_catalog_order:
  assumes "expandNemoChecks callouts = Inr filters"
  shows "filter nf_request filters = concat (map callout_requests callouts)
    \<and> filter nf_response (rev filters) = concat (map callout_responses callouts)
    \<and> (\<forall>f \<in> set filters. nf_request f \<noteq> nf_response f)"
proof -
  have "\<forall>f \<in> set filters. nf_request f \<noteq> nf_response f"
    using assms request_filters response_filters by (fastforce simp: expandNemoChecks_Inr)
  then show ?thesis using expanded_split [OF assms] by (simp add: rev_filter)
qed

definition plain_check :: "string \<Rightarrow> bool \<Rightarrow> bool \<Rightarrow> nemoCheck" where
  "plain_check n request response =
     \<lparr>nk_name = n, nk_configID = n, nk_header = ''h-'' @ n, nk_request = request, nk_response = response, nk_closed = False\<rparr>"

definition plain_callouts :: "nemoCallout list" where
  "plain_callouts = [(closed_with ''q'' [plain_check ''a'' True True, plain_check ''b'' False True])\<lparr>nc_closed := False,
       nc_endpoint := ''http://nemo.odh-ai-gateway-infra.svc''\<rparr>,
     closed_with ''p'' [closedCheck ''d'' ''h-d'']]"

theorem phases_in_catalog_order_witness:
  "\<exists>filters. expandNemoChecks plain_callouts = Inr filters \<and> map nf_header (filter nf_request filters) = [''h-a'', ''h-d'']
     \<and> map nf_header (filter nf_response (rev filters)) = [''h-a'', ''h-b'']"
proof -
  have "is_ok (expandNemoChecks plain_callouts)" by code_simp
  then obtain filters where filters: "expandNemoChecks plain_callouts = Inr filters" by (auto simp: is_ok_iff)
  have headers: "map nf_header (concat (map callout_requests plain_callouts)) = [''h-a'', ''h-d'']"
    "map nf_header (concat (map callout_responses plain_callouts)) = [''h-a'', ''h-b'']"
    by (simp_all add: plain_callouts_def closed_with_def callout_requests_def callout_responses_def plain_check_def closedCheck_def
        call_filter_def closed_filter_def)
  show ?thesis
    using phases_in_catalog_order [OF filters] filters headers by metis
qed

subsection \<open>Access to the providers\<close>







subsection \<open>The compiled document\<close>

lemma insert_after_Some:
  "insert_after P es xs = Some ys \<Longrightarrow> \<exists>pre x post. xs = pre @ x # post \<and> P x \<and> (\<forall>y \<in> set pre. \<not> P y) \<and> ys = pre @ x # es @ post"
proof (induction xs arbitrary: ys)
  case (Cons x xs)
  show ?case
  proof (cases "P x")
    case True
    then show ?thesis using Cons.prems by (intro exI [of _ "[]"] exI [of _ x] exI [of _ xs]) simp
  next
    case False
    then obtain zs where zs: "insert_after P es xs = Some zs" "ys = x # zs" using Cons.prems by auto
    from Cons.IH [OF zs(1)] obtain pre y post where
      "xs = pre @ y # post" "P y" "\<forall>z \<in> set pre. \<not> P z" "zs = pre @ y # es @ post" by blast
    then show ?thesis using False zs(2) by (intro exI [of _ "x # pre"] exI [of _ y] exI [of _ post]) simp
  qed
qed simp

definition chain_filters :: "umap \<Rightarrow> uval list" where
  "chain_filters chain = (case map_of chain ''filters'' of Some (UList fs) \<Rightarrow> fs | _ \<Rightarrow> [])"

lemma insert_in_chains_Some:
  "insert_in_chains es items = Some items' \<Longrightarrow>
     \<exists>pre chain post fpre rid fpost. items = pre @ UMap chain # post \<and> chain_filters chain = fpre @ rid # fpost \<and> is_request_id rid
       \<and> (\<forall>f \<in> set fpre. \<not> is_request_id f)
       \<and> items' = pre @ UMap (AList.update ''filters'' (UList (fpre @ rid # es @ fpost)) chain) # post"
proof (induction items arbitrary: items')
  case (Cons item items)
  let ?new = "case item of UMap chain \<Rightarrow> map_option (\<lambda>fs. UMap (AList.update ''filters'' (UList fs) chain))
      (insert_after is_request_id es (chain_filters chain)) | _ \<Rightarrow> None"
  have eq: "insert_in_chains es (item # items) =
      (case ?new of Some item' \<Rightarrow> Some (item' # items) | None \<Rightarrow> map_option ((#) item) (insert_in_chains es items))"
    unfolding chain_filters_def by (rule insert_in_chains.simps)
  show ?case
  proof (cases ?new)
    case None
    then obtain rest where rest: "insert_in_chains es items = Some rest" "items' = item # rest" using Cons.prems unfolding eq by auto
    from Cons.IH [OF rest(1)] rest(2) show ?thesis by (metis append_Cons)
  next
    case (Some item')
    then obtain chain fs where item: "item = UMap chain" "insert_after is_request_id es (chain_filters chain) = Some fs"
      "item' = UMap (AList.update ''filters'' (UList fs) chain)" by (auto split: uval.split_asm)
    have "items' = item' # items" using Cons.prems Some unfolding eq by simp
    then show ?thesis using insert_after_Some [OF item(2)] item(1,3) by (metis append_Nil)
  qed
qed simp

text \<open>The compiled \<open>extproc.yaml\<close> differs from the rendered one in two places. Right after the first \<open>request_id\<close> filter of a
  chain stand the filters of the checks and a filter that removes every selection header they read, so that no header reaches the model;
  everything else in the chains is kept in order. And private upstreams are allowed.\<close>

theorem compiled_document:
  assumes "compileNemoExtproc y config callouts = Inr out" "callouts \<noteq> []"
  shows "\<exists>doc filters chains pre chain post fpre rid fpost. yaml_Unmarshal y config = Inr doc \<and> expandNemoChecks callouts = Inr filters
    \<and> map_of doc ''filter_chains'' = Some (UList chains) \<and> chains = pre @ UMap chain # post
    \<and> chain_filters chain = fpre @ rid # fpost \<and> is_request_id rid \<and> (\<forall>f \<in> set fpre. \<not> is_request_id f)
    \<and> yaml_Marshal y (allow_private (AList.update ''filter_chains'' (UList (pre
        @ UMap (AList.update ''filters'' (UList (fpre @ rid # map (UMap \<circ> nemoFilterEntry) filters
            @ [UMap [(''filter'', UStr ''headers''), (''request_remove'', UList (map UStr (filter_headers filters)))]] @ fpost)) chain) # post)) doc)) = Inr out
    \<and> set (filter_headers filters) = nf_header ` set filters"
proof -
  obtain filters where f: "expandNemoChecks callouts = Inr filters"
    using assms by (cases "expandNemoChecks callouts") (simp_all add: compileNemoExtproc_def)
  obtain doc where doc: "yaml_Unmarshal y config = Inr doc"
    using assms f by (cases "yaml_Unmarshal y config") (simp_all add: compileNemoExtproc_def)
  obtain doc' where doc': "insertAfterRequestID doc (compiled_entries filters) = Some doc'"
    using assms f doc by (cases "insertAfterRequestID doc (compiled_entries filters)") (simp_all add: compileNemoExtproc_def)
  have "yaml_Marshal y (allow_private doc') = Inr out"
    using assms f doc doc' by (cases "yaml_Marshal y (allow_private doc')") (simp_all add: compileNemoExtproc_def)
  note d = doc f doc' this
  obtain chains chains' where c: "chains = (case map_of doc ''filter_chains'' of Some (UList cs) \<Rightarrow> cs | _ \<Rightarrow> [])"
    "insert_in_chains (compiled_entries filters) chains = Some chains'" "doc' = AList.update ''filter_chains'' (UList chains') doc"
    using d(3) by (auto simp: insertAfterRequestID_def)
  obtain pre chain post fpre rid fpost where p: "chains = pre @ UMap chain # post" "chain_filters chain = fpre @ rid # fpost"
    "is_request_id rid" "\<forall>f \<in> set fpre. \<not> is_request_id f"
    "chains' = pre @ UMap (AList.update ''filters'' (UList (fpre @ rid # compiled_entries filters @ fpost)) chain) # post"
    using insert_in_chains_Some [OF c(2)] by blast
  have "map_of doc ''filter_chains'' = Some (UList chains)"
    using c(1) p(1) by (auto split: option.split_asm uval.split_asm)
  moreover have "compiled_entries filters = map (UMap \<circ> nemoFilterEntry) filters
      @ [UMap [(''filter'', UStr ''headers''), (''request_remove'', UList (map UStr (filter_headers filters)))]]"
    by (simp add: compiled_entries_def comp_def)
  moreover have "set (filter_headers filters) = nf_header ` set filters" by (simp add: filter_headers_def)
  ultimately show ?thesis using d(1,2,4) p unfolding c(3) by (metis append.assoc)
qed

definition sample_yaml :: yaml_lib where
  "sample_yaml = \<lparr>yaml_Unmarshal = (\<lambda>_. Inr [(''filter_chains'', UList [UMap [(''filters'',
      UList [UMap [(''filter'', UStr ''request_id'')], UMap [(''filter'', UStr ''router'')]])]])]),
    yaml_Marshal = (\<lambda>_. Inr ''compiled'')\<rparr>"

theorem compiled_document_witness:
  "compileNemoExtproc sample_yaml ''config'' plain_callouts = Inr ''compiled''
   \<and> (\<exists>doc filters. yaml_Unmarshal sample_yaml ''config'' = Inr doc \<and> set (filter_headers filters) = nf_header ` set filters)"
proof -
  have ok: "compileNemoExtproc sample_yaml ''config'' plain_callouts = Inr ''compiled''" by code_simp
  have "plain_callouts \<noteq> []" by (simp add: plain_callouts_def)
  from compiled_document [OF ok this] ok show ?thesis by blast
qed

end
