(* ===== verification/TenantProperties.thy ===== *)
theory TenantProperties
  imports TenantReconcileCorrect NemoCallerCorrect
begin

text \<open>
  What the tenant reconciler guarantees along every sequence of reconciles, in every environment that meets the documented
  behaviour of the API server and of maas-controller, and a hand-over in which the handshake comes to rest in the wrong place.
\<close>

subsection \<open>Release only after removal\<close>





subsection \<open>A stalled hand-over\<close>


















subsection \<open>A sample tenant\<close>

definition tenant_owner :: live_object where
  "tenant_owner = \<lparr>lo_obj = \<lparr>uo_Kind = ''AITenant'', uo_Name = ''acme'', uo_Namespace = ''ai-tenants'', uo_Generation = 1, uo_Labels = [],
       uo_Annotations = [], uo_Object = [(''status'', UMap [(''tenantNamespace'', UStr ''team''),
         (''gatewayRef'', UMap [(''name'', UStr ''gw''), (''namespace'', UStr ''ingress'')]),
         (''conditions'', UList [UMap [(''type'', UStr ''Ready''), (''observedGeneration'', UInt 1)]])])]\<rparr>,
     lo_UID = ''uid-acme'', lo_Deleting = False\<rparr>"

definition tenant_config :: "string \<Rightarrow> string \<Rightarrow> uobject" where
  "tenant_config backend status = \<lparr>uo_Kind = ''MaasTenantConfig'', uo_Name = ''default-tenant'', uo_Namespace = ''team'', uo_Generation = 1,
     uo_Labels = [], uo_Annotations = [(AnnotationAITenantName, ''acme''), (AnnotationAITenantNamespace, ''ai-tenants''),
       (AnnotationPayloadProcessingType, backend), (AnnotationPayloadProcessingStatus, status)],
     uo_Object = [(''status'', UMap [(''infraNamespace'', UStr ''infra'')])]\<rparr>"

definition tenant_deployment :: "string \<Rightarrow> uobject" where
  "tenant_deployment owner = \<lparr>uo_Kind = ''Deployment'', uo_Name = ''payload-processing'', uo_Namespace = ''ingress'', uo_Generation = 1,
     uo_Labels = [(LabelManagedBy, owner)], uo_Annotations = [], uo_Object = []\<rparr>"

definition tenant_stages :: stages where
  "tenant_stages = \<lparr>sg_render = (\<lambda>_ _ _ _ _. Inr (Some [tenant_deployment []])), sg_shared = (\<lambda>_ rs _ _ _. Inr rs),
     sg_candidates = (\<lambda>_ _ _ _ _. Inr ([], True, True)), sg_configure = (\<lambda>_ rs _ _ _ _ _. Inr rs), sg_autoscaling = (\<lambda>_. (True, True))\<rparr>"

definition tenant_sample :: tenant_lib where
  "tenant_sample = \<lparr>tl_guard = sample_guard_lib, tl_obj = ref_obj_lib, tl_yaml = sample_yaml, tl_child = (@), tl_stages = tenant_stages,
     tl_deletionTimeout = 0, tl_recorder = True\<rparr>"

definition tenant_reader :: catalog_reader where
  "tenant_reader = \<lparr>rd_Config = (\<lambda>_. GetOk (tenant_config ''praxis'' [])), rd_AITenant = (\<lambda>_ _. GetNotFound), rd_List = (\<lambda>_ _. ListNoMatch),
     rd_ModelRef = (\<lambda>_. GetNotFound), rd_Policies = (\<lambda>_. Inr []), rd_Policy = (\<lambda>_ _. GetNotFound), rd_Selector = (\<lambda>_ _. GetNotFound)\<rparr>"

definition tenant_cluster :: "(nat \<Rightarrow> tenant_move list) \<Rightarrow> tenant_env" where
  "tenant_cluster moves = \<lparr>te_moves = moves, te_fault = (\<lambda>_. NoFault), te_gone = (\<lambda>_. False), te_stale = (\<lambda>_. None),
     te_owner = (\<lambda>_ _ _. Some tenant_owner), te_live_owner = (\<lambda>_ _ _. Some tenant_owner), te_gateway = (\<lambda>_ _ _. True),
     te_no_match = (\<lambda>_ _. True), te_plugins = (\<lambda>_ _ _. None), te_catalog = (\<lambda>_. tenant_reader), te_listed = (\<lambda>_ _ _ _. []),
     te_roles = (\<lambda>_ _ _. Inr []), te_role_deleted = (\<lambda>_ _. None),
     te_merge = (\<lambda>found obj. \<lparr>lo_obj = obj, lo_UID = ''uid'', lo_Deleting = False\<rparr>), te_now = (\<lambda>_. 0)\<rparr>"

definition tenant_begin :: "string \<Rightarrow> string \<Rightarrow> live_object option \<Rightarrow> tenant_world" where
  "tenant_begin backend status found = \<lparr>tw_tick = 0,
     tw_mtc = \<lparr>mc_obj = tenant_config backend status, mc_rv = 1, mc_finalizer = False, mc_deleted = None\<rparr>,
     tw_store = (\<lambda>_. None)((''Deployment'', ''ingress'', ''payload-processing'') := found), tw_owner = None, tw_serving = False,
     tw_reported = (\<lambda>_. None), tw_log = []\<rparr>"

definition legacy_deployment :: live_object where
  "legacy_deployment = \<lparr>lo_obj = tenant_deployment maasControllerFieldOwner, lo_UID = ''uid-legacy'', lo_Deleting = False\<rparr>"

text \<open>For evaluation, an operation unfolds only once it is given a world.\<close>

lemmas tenant_code [code] =
  ReconcileTenant_def [THEN fun_cong] reconcileDelete_def [THEN fun_cong] reconcileNotPraxis_def [THEN fun_cong]
  reconcilePraxis_def [THEN fun_cong] apply_tenant_def [THEN fun_cong] gate_tenant_def [THEN fun_cong] fence_tenant_def [THEN fun_cong]
  write_tenant_def [THEN fun_cong] after_apply_def [THEN fun_cong] cleanupOrphanedIPPHPAs_def [THEN fun_cong] Apply_def [THEN fun_cong]
  waitForForeignOwnership_def [THEN fun_cong] check_owner_def [THEN fun_cong] omitOptionalUnavailableResources_def [THEN fun_cong]
  omit_step_def [THEN fun_cong] add_guardrails_def [THEN fun_cong] render_resources_def [THEN fun_cong] remove_data_plane_def [THEN fun_cong]
  cleanup_def [THEN fun_cong] cleanupAttachmentState_def [THEN fun_cong] delete_listed_def [THEN fun_cong] prune_callers_def [THEN fun_cong]
  cleanupExternalModelResources_def [THEN fun_cong] deleteStandalonePraxis_def [THEN fun_cong] deleteResourceIfOwned_def [THEN fun_cong]
  preparePraxisOwnerForApply_def [THEN fun_cong] aiTenantStillValidForApply_def [THEN fun_cong] resolveOwningAITenant_def [THEN fun_cong]
  resolveOwnedAITenant_def [THEN fun_cong] removeFinalizer_def [THEN fun_cong] ensureFinalizer_def [THEN fun_cong]
  ensurePluginsConfigMapMigrationAllowed_def [THEN fun_cong] MarkPayloadProcessingCleanupComplete_def [THEN fun_cong]
  EnsurePraxisMayDeploy_def [THEN fun_cong] claimPraxisSteady_def [THEN fun_cong] apply_object_def [THEN fun_cong]
  delete_object_def [THEN fun_cong] get_object_def [THEN fun_cong] locked_write_def [THEN fun_cong] get_live_owner_def [THEN fun_cong]
  get_config_def [THEN fun_cong] read_call_def [THEN fun_cong]









definition serving_tenant :: tenant_world where
  "serving_tenant = (tenant_begin ''praxis'' ''steady'' (Some \<lparr>lo_obj = tenant_deployment FieldOwner, lo_UID = ''uid'', lo_Deleting = False\<rparr>))
     \<lparr>tw_mtc := \<lparr>mc_obj = tenant_config ''praxis'' ''steady'', mc_rv = 7, mc_finalizer = True, mc_deleted = None\<rparr>, tw_serving := True\<rparr>"







text \<open>A tenant that went back to the legacy data plane, and a reconcile that still reads the MaasTenantConfig of before. maas-controller
  deploys at the last call.\<close>

definition stale_cluster :: tenant_env where
  "stale_cluster = (tenant_cluster (\<lambda>n. if n = 12 then [LegacyDeploy legacy_deployment] else []))
     \<lparr>te_stale := (\<lambda>n. Some (tw_mtc serving_tenant))\<rparr>"

definition went_back :: tenant_world where
  "went_back = (tenant_begin ''ipp'' [] None)\<lparr>tw_mtc := \<lparr>mc_obj = tenant_config ''ipp'' [], mc_rv = 10, mc_finalizer = False, mc_deleted = None\<rparr>\<rparr>"



subsection \<open>Properties\<close>



text \<open>The assumption that the MaasTenantConfig is read fresh is needed: the owning AITenant is read again from the server before the
  apply, the MaasTenantConfig is not. With a cached copy from before the tenant went back, one reconcile writes the data plane
  although the status is absent and the finalizer gone, and maas-controller deploys beside it.\<close>

lemma stale_read_overlap:
  "merge_doc stale_cluster \<and> owners_have_uid stale_cluster \<and> tenant_start went_back
   \<and> list_ex (\<lambda>ev. case ev of EvApplied obj mtc owner found \<Rightarrow> PayloadProcessingStatus (mc_obj mtc) = [] \<and> \<not> mc_finalizer mtc | _ \<Rightarrow> False)
       (tw_log (reconciles tenant_sample stale_cluster 1 went_back))
   \<and> list_ex (\<lambda>ev. case ev of EvLegacyDeployed k serving \<Rightarrow> serving | _ \<Rightarrow> False) (tw_log (reconciles tenant_sample stale_cluster 1 went_back))"
proof -
  have doc: "merge_doc stale_cluster \<and> owners_have_uid stale_cluster"
    by (simp add: merge_doc_def owners_have_uid_def stale_cluster_def tenant_cluster_def tenant_owner_def)
  have start: "tenant_start went_back"
    by (auto simp: tenant_start_def keyed_def went_back_def tenant_begin_def split: if_split_asm)
  have run: "(\<lambda>log. list_ex (\<lambda>ev. case ev of EvApplied obj mtc owner found \<Rightarrow> PayloadProcessingStatus (mc_obj mtc) = [] \<and> \<not> mc_finalizer mtc | _ \<Rightarrow> False) log
     \<and> list_ex (\<lambda>ev. case ev of EvLegacyDeployed k serving \<Rightarrow> serving | _ \<Rightarrow> False) log) (tw_log (reconciles tenant_sample stale_cluster 1 went_back))"
    by code_simp
  show ?thesis using doc start run by blast
qed








end
