(* ===== verification/TenantLayout.thy ===== *)
theory TenantLayout
  imports NemoFilters
begin

text \<open>
  The layout of a tenant's resources: \<open>src/pkg/tenant/rename.go\<close> gives the rendered resources of the data plane the names of one tenant and
  repoints the references between them, and \<open>split.go\<close> adds the copies that serve ExternalModels in the namespace of the tenant.

  The functions edit objects in place; here an edit is a function to the edited object, or an error. An error keeps the step it comes
  from. A reader of a nested field gets a deep copy, so an edit takes effect where the code writes it back.
\<close>

datatype EditError =
    EditRead string string
  | EditWrite string string
  | EditMissing string
  | EditMalformed string
  | EditLongName string
  | EditCount string nat nat
  | EditStep string EditError

definition LabelTenantInstance :: string where "LabelTenantInstance = ''maas.opendatahub.io/tenant-instance''"
definition servingCertSecretAnnotation :: string where
  "servingCertSecretAnnotation = ''service.beta.openshift.io/serving-cert-secret-name''"
definition reloaderSecretAnnotation :: string where "reloaderSecretAnnotation = ''secret.reloader.stakater.com/reload''"
definition praxisOverlayName :: string where "praxisOverlayName = ''routing-overlay''"
definition maxKubernetesNameLength :: nat where "maxKubernetesNameLength = 63"

subsection \<open>Edits of one object\<close>

definition put_at :: "obj_lib \<Rightarrow> string \<Rightarrow> uval \<Rightarrow> string list \<Rightarrow> uobject \<Rightarrow> (EditError, uobject) res" where
  "put_at l what v path u =
     bind_res (map_err (EditWrite what) (SetNestedField l (uo_Object u) v path)) (\<lambda>m. Inr (u\<lparr>uo_Object := m\<rparr>))"

definition read_slice :: "obj_lib \<Rightarrow> string \<Rightarrow> umap \<Rightarrow> string list \<Rightarrow> (EditError, uval list option) res" where
  "read_slice l what m path = map_err (EditRead what) (NestedSlice (ol_unstr l) m path)"

definition setName :: "string \<Rightarrow> uobject \<Rightarrow> (EditError, uobject) res" where
  "setName name u = (if length name > maxKubernetesNameLength then Inl (EditLongName name) else Inr (u\<lparr>uo_Name := name\<rparr>))"

definition setObjectLabel :: "string \<Rightarrow> string \<Rightarrow> uobject \<Rightarrow> uobject" where
  "setObjectLabel k v u = u\<lparr>uo_Labels := AList.update k v (uo_Labels u)\<rparr>"

definition setServingCertSecretName :: "string \<Rightarrow> uobject \<Rightarrow> uobject" where
  "setServingCertSecretName secretName u = u\<lparr>uo_Annotations := AList.update servingCertSecretAnnotation secretName (uo_Annotations u)\<rparr>"

definition setReloaderSecretName :: "string \<Rightarrow> uobject \<Rightarrow> uobject" where
  "setReloaderSecretName secretName u = u\<lparr>uo_Annotations := AList.update reloaderSecretAnnotation secretName (uo_Annotations u)\<rparr>"

definition pod_labels :: "string list" where "pod_labels = [''spec'', ''template'', ''metadata'', ''labels'']"

definition addPodTemplateLabel :: "obj_lib \<Rightarrow> string \<Rightarrow> string \<Rightarrow> uobject \<Rightarrow> (EditError, uobject) res" where
  "addPodTemplateLabel l k v u =
     bind_res (map_err (EditRead ''pod template labels'') (NestedStringMap l (uo_Object u) pod_labels)) (\<lambda>labels.
       put_at l ''pod template labels'' (str_map_val (AList.update k v (case labels of None \<Rightarrow> [] | Some m \<Rightarrow> m))) pod_labels u)"

definition setSelectorMatchLabels :: "obj_lib \<Rightarrow> str_map \<Rightarrow> uobject \<Rightarrow> (EditError, uobject) res" where
  "setSelectorMatchLabels l labels u = put_at l ''selector.matchLabels'' (str_map_val labels) [''spec'', ''selector'', ''matchLabels''] u"

definition setServiceSelector :: "obj_lib \<Rightarrow> str_map \<Rightarrow> uobject \<Rightarrow> (EditError, uobject) res" where
  "setServiceSelector l labels u = put_at l ''spec.selector'' (str_map_val labels) [''spec'', ''selector''] u"

definition setServiceAccountName :: "obj_lib \<Rightarrow> string \<Rightarrow> uobject \<Rightarrow> (EditError, uobject) res" where
  "setServiceAccountName l name u = put_at l ''serviceAccountName'' (UStr name) [''spec'', ''template'', ''spec'', ''serviceAccountName''] u"

text \<open>The first volume of the name; its source must be of the given kind.\<close>

definition set_volume_source :: "obj_lib \<Rightarrow> string \<Rightarrow> string \<Rightarrow> string \<Rightarrow> string \<Rightarrow> uobject \<Rightarrow> (EditError, uobject) res" where
  "set_volume_source l source key volumeName name u =
     bind_res (read_slice l ''volumes'' (uo_Object u) pod_volumes) (\<lambda>found.
     case found of
       None \<Rightarrow> Inl (EditMissing ''volumes'')
     | Some volumes \<Rightarrow>
         (case find_index (named_item volumeName) volumes of
            None \<Rightarrow> Inl (EditMissing volumeName)
          | Some i \<Rightarrow>
              (case volumes ! i of
                 UMap vol \<Rightarrow>
                   (case map_of vol source of
                      Some (UMap s) \<Rightarrow>
                        put_at l ''volumes'' (UList (volumes[i := UMap (AList.update source (UMap (AList.update key (UStr name) s)) vol)])) pod_volumes u
                    | _ \<Rightarrow> Inl (EditMalformed volumeName))
               | _ \<Rightarrow> Inl (EditMalformed volumeName))))"

definition setConfigMapVolumeName :: "obj_lib \<Rightarrow> string \<Rightarrow> string \<Rightarrow> uobject \<Rightarrow> (EditError, uobject) res" where
  "setConfigMapVolumeName l = set_volume_source l ''configMap'' ''name''"

definition setTLSSecretVolumeName :: "obj_lib \<Rightarrow> string \<Rightarrow> string \<Rightarrow> uobject \<Rightarrow> (EditError, uobject) res" where
  "setTLSSecretVolumeName l = set_volume_source l ''secret'' ''secretName''"

subsection \<open>Upstream clusters of an EnvoyFilter\<close>

definition serviceFQDN :: "string \<Rightarrow> string \<Rightarrow> string" where
  "serviceFQDN serviceName namespace = serviceName @ ''.'' @ namespace @ ''.svc.cluster.local''"

definition edit_field :: "string \<Rightarrow> (umap \<Rightarrow> (EditError, umap) res) \<Rightarrow> umap \<Rightarrow> (EditError, umap) res" where
  "edit_field k f m =
     (case map_of m k of
        Some (UMap n) \<Rightarrow> bind_res (f n) (\<lambda>n'. Inr (AList.update k (UMap n') m))
      | _ \<Rightarrow> Inl (EditMissing k))"

definition edit_first :: "string \<Rightarrow> (umap \<Rightarrow> (EditError, umap) res) \<Rightarrow> umap \<Rightarrow> (EditError, umap) res" where
  "edit_first k f m =
     (case map_of m k of
        Some (UList (UMap n # xs)) \<Rightarrow> bind_res (f n) (\<lambda>n'. Inr (AList.update k (UList (UMap n' # xs)) m))
      | Some (UList (_ # _)) \<Rightarrow> Inl (EditMalformed k)
      | _ \<Rightarrow> Inl (EditMissing k))"

definition put_value :: "string \<Rightarrow> uval \<Rightarrow> umap \<Rightarrow> (EditError, umap) res" where
  "put_value k v m = Inr (AList.update k v m)"

definition san_path :: "string list" where
  "san_path = [''transport_socket'', ''typed_config'', ''common_tls_context'', ''validation_context'', ''match_typed_subject_alt_names'']"

definition setClusterUpstreamAddress :: "obj_lib \<Rightarrow> string \<Rightarrow> umap \<Rightarrow> (EditError, umap) res" where
  "setClusterUpstreamAddress l fqdn cluster =
     bind_res (map_err (EditWrite ''sni'') (SetNestedField l cluster (UStr fqdn) [''transport_socket'', ''typed_config'', ''sni''])) (\<lambda>c1.
     bind_res (read_slice l ''san matchers'' c1 san_path) (\<lambda>sans.
     bind_res (case slice_of sans of
                 [] \<Rightarrow> Inl (EditMissing ''match_typed_subject_alt_names'')
               | UMap san0 # rest \<Rightarrow>
                   bind_res (edit_field ''matcher'' (put_value ''exact'' (UStr fqdn)) san0) (\<lambda>san0'. Inr (UMap san0' # rest))
               | _ # _ \<Rightarrow> Inl (EditMalformed ''match_typed_subject_alt_names'')) (\<lambda>sans'.
     bind_res (map_err (EditWrite ''san matchers'') (SetNestedField l c1 (UList sans') san_path)) (\<lambda>c2.
       edit_field ''load_assignment''
         (edit_first ''endpoints''
           (edit_first ''lb_endpoints''
             (edit_field ''endpoint'' (edit_field ''address'' (edit_field ''socket_address'' (put_value ''address'' (UStr fqdn))))))) c2))))"

text \<open>Visits the CLUSTER patches of an EnvoyFilter. \<open>pick\<close> chooses an edit by the name of the cluster. The number counts
  the edited clusters.\<close>

definition edit_cluster :: "(string \<Rightarrow> (umap \<Rightarrow> (EditError, umap) res) option) \<Rightarrow> uval \<Rightarrow> (EditError, uval \<times> nat) res" where
  "edit_cluster pick raw =
     (case raw of
        UMap patch \<Rightarrow>
          if map_of patch ''applyTo'' \<noteq> Some (UStr ''CLUSTER'') then Inr (raw, 0)
          else (case map_of patch ''patch'' of
                  Some (UMap body) \<Rightarrow>
                    (case map_of body ''value'' of
                       Some (UMap cluster) \<Rightarrow>
                         (case pick (str_or_empty cluster ''name'') of
                            None \<Rightarrow> Inr (raw, 0)
                          | Some f \<Rightarrow>
                              bind_res (map_err (EditStep ''CLUSTER patch'') (f cluster)) (\<lambda>cluster'.
                                Inr (UMap (AList.update ''patch'' (UMap (AList.update ''value'' (UMap cluster') body)) patch), 1)))
                     | _ \<Rightarrow> Inr (raw, 0))
                | _ \<Rightarrow> Inr (raw, 0))
      | _ \<Rightarrow> Inr (raw, 0))"

definition edit_clusters ::
    "(string \<Rightarrow> (umap \<Rightarrow> (EditError, umap) res) option) \<Rightarrow> uval list \<Rightarrow> (EditError, uval list \<times> nat) res" where
  "edit_clusters pick patches =
     bind_res (mapM_res (edit_cluster pick) patches) (\<lambda>rs. Inr (map fst rs, sum_list (map snd rs)))"

definition config_patches :: "string list" where "config_patches = [''spec'', ''configPatches'']"

definition repoint_clusters :: "obj_lib \<Rightarrow> string \<Rightarrow> (string \<times> string) list \<Rightarrow> uobject \<Rightarrow> (EditError, uobject) res" where
  "repoint_clusters l what targets u =
     bind_res (read_slice l what (uo_Object u) config_patches) (\<lambda>found.
     case found of
       None \<Rightarrow> Inl (EditMissing what)
     | Some patches \<Rightarrow>
         bind_res (edit_clusters (\<lambda>name. map_option (setClusterUpstreamAddress l) (map_of targets name)) patches) (\<lambda>(patches', patched).
           if patched \<noteq> length targets then Inl (EditCount what (length targets) patched)
           else put_at l what (UList patches') config_patches u))"

subsection \<open>Renaming\<close>

definition patchPayloadProcessingEnvoyFilterNamespaces ::
    "child_name \<Rightarrow> obj_lib \<Rightarrow> string \<Rightarrow> string \<Rightarrow> string \<Rightarrow> uobject \<Rightarrow> (EditError, uobject) res" where
  "patchPayloadProcessingEnvoyFilterNamespaces cn l tenantID gatewayNamespace tenantNamespace u =
     repoint_clusters l ''configPatches''
       [(''payload-pre-processing-extproc'', serviceFQDN (PayloadPreProcessingServiceName cn tenantID) gatewayNamespace),
        (''payload-processing-extproc'', serviceFQDN (PayloadProcessingServiceName cn tenantID) tenantNamespace)] u"

definition renamePayloadProcessingEnvoyFilter :: "child_name \<Rightarrow> obj_lib \<Rightarrow> string \<Rightarrow> string \<Rightarrow> uobject \<Rightarrow> (EditError, uobject) res" where
  "renamePayloadProcessingEnvoyFilter cn l tenantID namespace u =
     bind_res (setName (PayloadProcessingEnvoyFilterName cn tenantID) u)
       (patchPayloadProcessingEnvoyFilterNamespaces cn l tenantID namespace namespace)"

definition renamePayloadProcessingExternalModelFilter ::
    "child_name \<Rightarrow> obj_lib \<Rightarrow> string \<Rightarrow> string \<Rightarrow> uobject \<Rightarrow> (EditError, uobject) res" where
  "renamePayloadProcessingExternalModelFilter cn l tenantID namespace u =
     bind_res (setName (PayloadProcessingExternalModelFilterNameForTenant cn tenantID) u)
       (repoint_clusters l ''ExternalModel configPatches''
          [(''payload-processing-external-model-extproc'', serviceFQDN (PayloadProcessingExternalModelServiceName cn tenantID) namespace)])"

definition renamePayloadDestinationRule :: "obj_lib \<Rightarrow> string \<Rightarrow> string \<Rightarrow> uobject \<Rightarrow> (EditError, uobject) res" where
  "renamePayloadDestinationRule l serviceName namespace u =
     (let fqdn = serviceFQDN serviceName namespace in
      bind_res (setName serviceName u) (\<lambda>u.
      bind_res (put_at l ''host'' (UStr fqdn) [''spec'', ''host''] u) (\<lambda>u.
      bind_res (put_at l ''sni'' (UStr fqdn) [''spec'', ''trafficPolicy'', ''tls'', ''sni''] u) (\<lambda>u.
        put_at l ''subjectAltNames'' (UList [UStr fqdn]) [''spec'', ''trafficPolicy'', ''tls'', ''subjectAltNames''] u))))"

definition instance_selector :: "string \<Rightarrow> string \<Rightarrow> str_map" where
  "instance_selector app deploymentName = [(''app'', app), (LabelTenantInstance, deploymentName)]"

text \<open>\<open>renamePayloadProcessingDeployment\<close> and \<open>renamePayloadPreProcessingDeployment\<close> differ in the names only. The selector of the default
  tenant is left alone.\<close>

definition rename_deployment ::
    "child_name \<Rightarrow> obj_lib \<Rightarrow> string \<Rightarrow> string \<Rightarrow> string \<Rightarrow> string \<Rightarrow> string \<Rightarrow> uobject \<Rightarrow> (EditError, uobject) res" where
  "rename_deployment cn l tenantID newName app serviceAccount tlsSecret u =
     bind_res (setName newName u) (\<lambda>u.
     bind_res (addPodTemplateLabel l LabelManagedBy ManagedByAIGatewayController (setObjectLabel LabelManagedBy ManagedByAIGatewayController u)) (\<lambda>u.
     bind_res (addPodTemplateLabel l LabelTenantInstance newName u) (\<lambda>u.
     bind_res (if tenantID \<noteq> [] then setSelectorMatchLabels l (instance_selector app newName) u else Inr u) (\<lambda>u.
     bind_res (setServiceAccountName l serviceAccount u) (\<lambda>u.
     bind_res (setConfigMapVolumeName l ''plugins-config-volume'' (PayloadProcessingPluginsConfigMapForTenant cn tenantID) u) (\<lambda>u.
     bind_res (setTLSSecretVolumeName l ''tls'' tlsSecret u) (\<lambda>u.
       Inr (setReloaderSecretName tlsSecret u))))))))"

definition renamePayloadProcessingDeployment :: "child_name \<Rightarrow> obj_lib \<Rightarrow> string \<Rightarrow> uobject \<Rightarrow> (EditError, uobject) res" where
  "renamePayloadProcessingDeployment cn l tenantID =
     rename_deployment cn l tenantID (PayloadProcessingDeploymentName cn tenantID) PayloadProcessingName
       (PayloadProcessingPostServiceAccountName cn tenantID) (PayloadProcessingTLSSecretName cn tenantID)"

definition renamePayloadPreProcessingDeployment :: "child_name \<Rightarrow> obj_lib \<Rightarrow> string \<Rightarrow> uobject \<Rightarrow> (EditError, uobject) res" where
  "renamePayloadPreProcessingDeployment cn l tenantID =
     rename_deployment cn l tenantID (PayloadPreProcessingDeploymentName cn tenantID) PayloadPreProcessingName
       (PayloadProcessingServiceAccountName cn tenantID) (PayloadPreProcessingTLSSecretName cn tenantID)"

definition renamePayloadProcessingService :: "child_name \<Rightarrow> obj_lib \<Rightarrow> string \<Rightarrow> uobject \<Rightarrow> (EditError, uobject) res" where
  "renamePayloadProcessingService cn l tenantID u =
     bind_res (setName (PayloadProcessingServiceName cn tenantID) u) (\<lambda>u.
     bind_res (setServiceSelector l (instance_selector PayloadProcessingName (PayloadProcessingDeploymentName cn tenantID)) u) (\<lambda>u.
       Inr (setServingCertSecretName (PayloadProcessingTLSSecretName cn tenantID) u)))"

definition renamePayloadPreProcessingService :: "child_name \<Rightarrow> obj_lib \<Rightarrow> string \<Rightarrow> uobject \<Rightarrow> (EditError, uobject) res" where
  "renamePayloadPreProcessingService cn l tenantID u =
     bind_res (setName (PayloadPreProcessingServiceName cn tenantID) u) (\<lambda>u.
     bind_res (setServiceSelector l (instance_selector PayloadPreProcessingName (PayloadPreProcessingDeploymentName cn tenantID)) u) (\<lambda>u.
       Inr (setServingCertSecretName (PayloadPreProcessingTLSSecretName cn tenantID) u)))"

definition instance_pods :: "string list \<Rightarrow> umap" where
  "instance_pods instances =
     [(''matchExpressions'', UList [UMap [(''key'', UStr LabelTenantInstance), (''operator'', UStr ''In''), (''values'', UList (map UStr instances))]])]"

definition renamePayloadProcessingNetworkPolicy :: "child_name \<Rightarrow> obj_lib \<Rightarrow> string \<Rightarrow> uobject \<Rightarrow> (EditError, uobject) res" where
  "renamePayloadProcessingNetworkPolicy cn l tenantID u =
     bind_res (setName (PayloadProcessingNetworkPolicyName cn tenantID) u)
       (put_at l ''podSelector''
          (UMap (instance_pods [PayloadProcessingDeploymentName cn tenantID, PayloadPreProcessingDeploymentName cn tenantID])) [''spec'', ''podSelector''])"

definition renamePayloadProcessingMetricsService :: "child_name \<Rightarrow> obj_lib \<Rightarrow> string \<Rightarrow> uobject \<Rightarrow> (EditError, uobject) res" where
  "renamePayloadProcessingMetricsService cn l tenantID u =
     (let deploymentName = PayloadProcessingDeploymentName cn tenantID in
      bind_res (setName (PayloadProcessingMetricsServiceNameForTenant cn tenantID) u) (\<lambda>u.
        setServiceSelector l (instance_selector PayloadProcessingName deploymentName) (setObjectLabel LabelTenantInstance deploymentName u)))"

definition renamePayloadProcessingMetricsMonitor :: "child_name \<Rightarrow> obj_lib \<Rightarrow> string \<Rightarrow> uobject \<Rightarrow> (EditError, uobject) res" where
  "renamePayloadProcessingMetricsMonitor cn l tenantID u =
     (let deploymentName = PayloadProcessingDeploymentName cn tenantID in
      bind_res (setName (PayloadProcessingMetricsMonitorNameForTenant cn tenantID) u) (\<lambda>u.
        put_at l ''selector.matchLabels'' (str_map_val
            [(''app'', PayloadProcessingName), (''app.kubernetes.io/component'', ''monitoring''), (LabelTenantInstance, deploymentName)])
          [''spec'', ''selector'', ''matchLabels''] (setObjectLabel LabelTenantInstance deploymentName u)))"

definition renamePayloadProcessingMetricsAuthBinding :: "child_name \<Rightarrow> obj_lib \<Rightarrow> string \<Rightarrow> uobject \<Rightarrow> (EditError, uobject) res" where
  "renamePayloadProcessingMetricsAuthBinding cn l tenantID u =
     bind_res (setName (PayloadProcessingMetricsAuthClusterRoleBindingNameForTenant cn tenantID) u) (\<lambda>u.
     bind_res (read_slice l ''subjects'' (uo_Object u) [''subjects'']) (\<lambda>found.
     case slice_of found of
       [] \<Rightarrow> Inl (EditMissing ''subjects'')
     | UMap subject # rest \<Rightarrow>
         put_at l ''subjects'' (UList (UMap (AList.update ''name'' (UStr (PayloadProcessingServiceAccountName cn tenantID)) subject) # rest)) [''subjects''] u
     | _ # _ \<Rightarrow> Inl (EditMalformed ''subjects'')))"

definition renameOne :: "child_name \<Rightarrow> obj_lib \<Rightarrow> string \<Rightarrow> string \<Rightarrow> uobject \<Rightarrow> (EditError, uobject) res" where
  "renameOne cn l tenantID namespace u =
     (let is = (\<lambda>kind name. uo_Kind u = kind \<and> uo_Name u = name) in
      if is ''Deployment'' PayloadProcessingName then renamePayloadProcessingDeployment cn l tenantID u
      else if is ''Deployment'' PayloadPreProcessingName then renamePayloadPreProcessingDeployment cn l tenantID u
      else if is ''Service'' PayloadProcessingName then renamePayloadProcessingService cn l tenantID u
      else if is ''Service'' PayloadPreProcessingName then renamePayloadPreProcessingService cn l tenantID u
      else if is ''ConfigMap'' PayloadProcessingPluginsConfigMapName then setName (PayloadProcessingPluginsConfigMapForTenant cn tenantID) u
      else if is ''ServiceAccount'' PayloadProcessingName then setName (PayloadProcessingServiceAccountName cn tenantID) u
      else if is ''NetworkPolicy'' PayloadProcessingName then renamePayloadProcessingNetworkPolicy cn l tenantID u
      else if is ''EnvoyFilter'' PayloadProcessingName then renamePayloadProcessingEnvoyFilter cn l tenantID namespace u
      else if is ''EnvoyFilter'' PayloadProcessingExternalModelFilterName then renamePayloadProcessingExternalModelFilter cn l tenantID namespace u
      else if is ''DestinationRule'' PayloadProcessingName then renamePayloadDestinationRule l (PayloadProcessingServiceName cn tenantID) namespace u
      else if is ''DestinationRule'' PayloadPreProcessingName then renamePayloadDestinationRule l (PayloadPreProcessingServiceName cn tenantID) namespace u
      else if is ''Service'' PayloadProcessingMetricsServiceName then renamePayloadProcessingMetricsService cn l tenantID u
      else if is ''ServiceMonitor'' PayloadProcessingMetricsMonitorName then renamePayloadProcessingMetricsMonitor cn l tenantID u
      else if is ''ClusterRoleBinding'' PayloadProcessingMetricsAuthName then renamePayloadProcessingMetricsAuthBinding cn l tenantID u
      else Inr u)"

definition newPostAuthServiceAccount :: "child_name \<Rightarrow> string \<Rightarrow> string \<Rightarrow> uobject" where
  "newPostAuthServiceAccount cn tenantID namespace =
     \<lparr>uo_Kind = ''ServiceAccount'', uo_Name = PayloadProcessingPostServiceAccountName cn tenantID, uo_Namespace = namespace, uo_Generation = 0,
      uo_Labels = [], uo_Annotations = [], uo_Object = [(''apiVersion'', UStr ''v1''), (''automountServiceAccountToken'', UBool False)]\<rparr>"

definition rename_step :: "child_name \<Rightarrow> obj_lib \<Rightarrow> string \<Rightarrow> string \<Rightarrow> uobject \<Rightarrow> (EditError, uobject list) res" where
  "rename_step cn l tenantID namespace r =
     bind_res (map_err (EditStep (uo_Kind r)) (renameOne cn l tenantID namespace r)) (\<lambda>u.
       Inr (u # (if uo_Kind u = ''ServiceAccount'' \<and> uo_Name u = PayloadProcessingServiceAccountName cn tenantID
                 then [newPostAuthServiceAccount cn tenantID (uo_Namespace u)] else [])))"

definition Rename :: "child_name \<Rightarrow> obj_lib \<Rightarrow> uobject list \<Rightarrow> string \<Rightarrow> string \<Rightarrow> (EditError, uobject list) res" where
  "Rename cn l resources tenantID namespace =
     bind_res (mapM_res (rename_step cn l tenantID namespace) resources) (\<lambda>rs. Inr (concat rs))"

subsection \<open>The copies for ExternalModels\<close>

definition keepExternalModelConfig :: "obj_lib \<Rightarrow> uobject \<Rightarrow> (EditError, uobject) res" where
  "keepExternalModelConfig l u =
     bind_res (map_err (EditRead ''data'') (NestedStringMap l (uo_Object u) [''data''])) (\<lambda>found.
     case found of
       None \<Rightarrow> Inl (EditMissing ''data'')
     | Some data \<Rightarrow> put_at l ''data'' (str_map_val (filter (\<lambda>kv. fst kv = ''extproc.yaml'') data)) [''data''] u)"

definition overlay_volume :: umap where
  "overlay_volume = [(''name'', UStr ''routing-overlay-volume''),
     (''configMap'', UMap [(''name'', UStr praxisOverlayName), (''optional'', UBool True)])]"

definition overlay_mount :: umap where
  "overlay_mount = [(''name'', UStr ''routing-overlay-volume''), (''mountPath'', UStr ''/etc/praxis/routing''), (''readOnly'', UBool True)]"

text \<open>Adds a volume to the pod and mounts it in the first container.\<close>

definition mount_volume :: "obj_lib \<Rightarrow> string \<Rightarrow> umap \<Rightarrow> umap \<Rightarrow> uobject \<Rightarrow> (EditError, uobject) res" where
  "mount_volume l name volume mount u =
     bind_res (read_slice l ''volumes'' (uo_Object u) pod_volumes) (\<lambda>volumes.
     bind_res (put_at l ''volumes'' (UList (appendOrReplaceNamedVolume (slice_of volumes) name volume)) pod_volumes u) (\<lambda>u.
     bind_res (read_slice l ''containers'' (uo_Object u) pod_containers) (\<lambda>found.
     case slice_of found of
       [] \<Rightarrow> Inl (EditMissing ''containers'')
     | UMap container # rest \<Rightarrow>
         bind_res (read_slice l ''volumeMounts'' container [''volumeMounts'']) (\<lambda>mounts.
         bind_res (map_err (EditWrite ''volumeMounts'')
             (SetNestedField l container (UList (appendOrReplaceNamedVolume (slice_of mounts) name mount)) [''volumeMounts''])) (\<lambda>container'.
           put_at l ''containers'' (UList (UMap container' # rest)) pod_containers u))
     | _ # _ \<Rightarrow> Inl (EditMalformed ''containers''))))"

definition configureExternalModelDeployment :: "child_name \<Rightarrow> obj_lib \<Rightarrow> string \<Rightarrow> uobject \<Rightarrow> (EditError, uobject) res" where
  "configureExternalModelDeployment cn l tenantID u =
     (let name = PayloadProcessingExternalModelDeploymentName cn tenantID; tlsSecret = PayloadProcessingExternalModelTLSSecretName cn tenantID in
      bind_res (setName name u) (\<lambda>u.
      bind_res (addPodTemplateLabel l ''app'' PayloadProcessingExternalModelName (setObjectLabel ''app'' PayloadProcessingExternalModelName u)) (\<lambda>u.
      bind_res (addPodTemplateLabel l LabelTenantInstance name u) (\<lambda>u.
      bind_res (setSelectorMatchLabels l (instance_selector PayloadProcessingExternalModelName name) u) (\<lambda>u.
      bind_res (setServiceAccountName l (PayloadProcessingExternalModelServiceAccountName cn tenantID) u) (\<lambda>u.
      bind_res (setConfigMapVolumeName l ''plugins-config-volume'' (PayloadProcessingExternalModelPluginsConfigMapForTenant cn tenantID) u) (\<lambda>u.
      bind_res (setTLSSecretVolumeName l ''tls'' tlsSecret u) (\<lambda>u.
        mount_volume l ''routing-overlay-volume'' overlay_volume overlay_mount (setReloaderSecretName tlsSecret u)))))))))"

definition set_instance_values :: "string list \<Rightarrow> uval \<Rightarrow> uval" where
  "set_instance_values instances raw =
     (case raw of
        UMap expression \<Rightarrow>
          if map_of expression ''key'' = Some (UStr LabelTenantInstance)
          then UMap (AList.update ''values'' (UList (map UStr instances)) expression) else raw
      | _ \<Rightarrow> raw)"

definition pod_expressions :: "string list" where "pod_expressions = [''spec'', ''podSelector'', ''matchExpressions'']"

definition filterTenantInstanceSelectorValues :: "obj_lib \<Rightarrow> string list \<Rightarrow> uobject \<Rightarrow> (EditError, uobject) res" where
  "filterTenantInstanceSelectorValues l instances u =
     bind_res (read_slice l ''matchExpressions'' (uo_Object u) pod_expressions) (\<lambda>found.
     case found of
       None \<Rightarrow> Inl (EditMissing ''matchExpressions'')
     | Some expressions \<Rightarrow> put_at l ''matchExpressions'' (UList (map (set_instance_values instances) expressions)) pod_expressions u)"

definition isLegacyReaderClusterRoleBinding :: "string \<Rightarrow> bool" where
  "isLegacyReaderClusterRoleBinding name = has_prefix name PayloadProcessingReaderClusterRoleBindingName"

definition external_service :: "child_name \<Rightarrow> obj_lib \<Rightarrow> string \<Rightarrow> uobject \<Rightarrow> (EditError, uobject) res" where
  "external_service cn l tenantID u =
     bind_res (setServiceSelector l (instance_selector PayloadProcessingExternalModelName (PayloadProcessingExternalModelDeploymentName cn tenantID))
         (u\<lparr>uo_Name := PayloadProcessingExternalModelServiceName cn tenantID\<rparr>)) (\<lambda>u.
       Inr (setServingCertSecretName (PayloadProcessingExternalModelTLSSecretName cn tenantID) u))"

definition external_config :: "child_name \<Rightarrow> obj_lib \<Rightarrow> string \<Rightarrow> uobject \<Rightarrow> (EditError, uobject) res" where
  "external_config cn l tenantID u =
     keepExternalModelConfig l (u\<lparr>uo_Name := PayloadProcessingExternalModelPluginsConfigMapForTenant cn tenantID\<rparr>)"

definition external_instances :: "child_name \<Rightarrow> string \<Rightarrow> string list" where
  "external_instances cn tenantID = [PayloadProcessingDeploymentName cn tenantID, PayloadProcessingExternalModelDeploymentName cn tenantID]"

definition split_same :: "child_name \<Rightarrow> obj_lib \<Rightarrow> string \<Rightarrow> string \<Rightarrow> uobject \<Rightarrow> (EditError, uobject list) res" where
  "split_same cn l tenantID tenantNamespace u =
     (let is = (\<lambda>kind name. uo_Kind u = kind \<and> uo_Name u = name); add = (\<lambda>copy. bind_res copy (\<lambda>e. Inr [u, e])) in
      if is ''Deployment'' (PayloadProcessingDeploymentName cn tenantID) then add (configureExternalModelDeployment cn l tenantID u)
      else if is ''ServiceAccount'' (PayloadProcessingServiceAccountName cn tenantID)
      then Inr [u, u\<lparr>uo_Name := PayloadProcessingExternalModelServiceAccountName cn tenantID\<rparr>]
      else if is ''Service'' (PayloadProcessingServiceName cn tenantID) then add (external_service cn l tenantID u)
      else if is ''DestinationRule'' (PayloadProcessingServiceName cn tenantID)
      then add (renamePayloadDestinationRule l (PayloadProcessingExternalModelServiceName cn tenantID) tenantNamespace u)
      else if is ''ConfigMap'' (PayloadProcessingPluginsConfigMapForTenant cn tenantID) then add (external_config cn l tenantID u)
      else if uo_Kind u = ''NetworkPolicy''
      then bind_res (filterTenantInstanceSelectorValues l (external_instances cn tenantID) u) (\<lambda>u. Inr [u])
      else if uo_Kind u = ''ClusterRoleBinding'' \<and> isLegacyReaderClusterRoleBinding (uo_Name u) then Inr []
      else Inr [u])"

definition split_across :: "child_name \<Rightarrow> obj_lib \<Rightarrow> string \<Rightarrow> string \<Rightarrow> uobject \<Rightarrow> (EditError, uobject list) res" where
  "split_across cn l tenantID tenantNamespace u =
     (let is = (\<lambda>kind name. uo_Kind u = kind \<and> uo_Name u = name); add = (\<lambda>copy. bind_res copy (\<lambda>e. Inr [u, e]));
          moved = u\<lparr>uo_Namespace := tenantNamespace\<rparr> in
      if is ''Deployment'' (PayloadProcessingDeploymentName cn tenantID) then add (configureExternalModelDeployment cn l tenantID moved)
      else if is ''Service'' (PayloadProcessingServiceName cn tenantID) then add (external_service cn l tenantID moved)
      else if is ''DestinationRule'' (PayloadProcessingServiceName cn tenantID)
      then add (renamePayloadDestinationRule l (PayloadProcessingExternalModelServiceName cn tenantID) tenantNamespace u)
      else if is ''ConfigMap'' (PayloadProcessingPluginsConfigMapForTenant cn tenantID) then add (external_config cn l tenantID moved)
      else if is ''ServiceAccount'' (PayloadProcessingServiceAccountName cn tenantID)
      then Inr [u, moved\<lparr>uo_Name := PayloadProcessingExternalModelServiceAccountName cn tenantID\<rparr>]
      else if is ''NetworkPolicy'' (PayloadProcessingNetworkPolicyName cn tenantID)
      then add (filterTenantInstanceSelectorValues l (external_instances cn tenantID) moved)
      else if is ''EnvoyFilter'' (PayloadProcessingExternalModelFilterNameForTenant cn tenantID)
      then bind_res (renamePayloadProcessingExternalModelFilter cn l tenantID tenantNamespace u) (\<lambda>u. Inr [u])
      else if uo_Kind u = ''ClusterRoleBinding'' \<and> isLegacyReaderClusterRoleBinding (uo_Name u) then Inr []
      else Inr [u])"

definition SplitPostAuthResources ::
    "child_name \<Rightarrow> obj_lib \<Rightarrow> uobject list \<Rightarrow> string \<Rightarrow> string \<Rightarrow> string \<Rightarrow> (EditError, uobject list) res" where
  "SplitPostAuthResources cn l resources tenantID gatewayNamespace tenantNamespace =
     bind_res (mapM_res (if gatewayNamespace = tenantNamespace then split_same cn l tenantID tenantNamespace
                         else split_across cn l tenantID tenantNamespace) resources) (\<lambda>rs. Inr (concat rs))"

definition is_external :: "child_name \<Rightarrow> string \<Rightarrow> uobject \<Rightarrow> bool" where
  "is_external cn tenantID u \<longleftrightarrow> (uo_Kind u, uo_Name u) \<in> set
     [(''Deployment'', PayloadProcessingExternalModelDeploymentName cn tenantID),
      (''Service'', PayloadProcessingExternalModelServiceName cn tenantID),
      (''ConfigMap'', PayloadProcessingExternalModelPluginsConfigMapForTenant cn tenantID),
      (''ServiceAccount'', PayloadProcessingExternalModelServiceAccountName cn tenantID),
      (''DestinationRule'', PayloadProcessingExternalModelServiceName cn tenantID),
      (''EnvoyFilter'', PayloadProcessingExternalModelFilterNameForTenant cn tenantID)]"

definition RemoveExternalModelResources :: "child_name \<Rightarrow> uobject list \<Rightarrow> string \<Rightarrow> uobject list" where
  "RemoveExternalModelResources cn resources tenantID = filter (\<lambda>u. \<not> is_external cn tenantID u) resources"

end
