(* ===== verification/TenantDataPlane.thy ===== *)
theory TenantDataPlane
  imports TenantLayout
begin

text \<open>
  The settings of a tenant's data plane: \<open>extproc_body_bytes.go\<close>, \<open>extproc_concurrency.go\<close>, \<open>extproc_grpc_recv.go\<close>, \<open>extproc_headers.go\<close>,
  \<open>extproc.go\<close> and \<open>autoscaling.go\<close> of \<open>src/pkg/tenant\<close>. Each reads a setting from the MaasTenantConfig, falls back to a default, and
  writes it into the resources that carry it.

  \<open>resource.ParseQuantity\<close> of apimachinery is the parameter \<open>ParseQuantity\<close>: it returns the canonical text of a quantity. \<open>FormatFloat\<close> is
  the text of a JSON number that is not an integer.
\<close>

subsection \<open>Budgets\<close>

definition AnnotationExtProcMaxRequests :: string where
  "AnnotationExtProcMaxRequests = ''maas.opendatahub.io/experimental-extproc-max-requests''"
definition DefaultExtProcMaxRequests :: int where "DefaultExtProcMaxRequests = 8"
definition MaxExtProcMaxRequests :: int where "MaxExtProcMaxRequests = 1024"
definition AnnotationExtProcMaxBodyBytes :: string where
  "AnnotationExtProcMaxBodyBytes = ''maas.opendatahub.io/experimental-extproc-max-body-bytes''"
definition DefaultExtProcMaxBodyBytes :: int where "DefaultExtProcMaxBodyBytes = 10485760"
definition MaxExtProcMaxBodyBytes :: int where "MaxExtProcMaxBodyBytes = 33554432"
definition grpcMaxRecvMsgSizeEnv :: string where "grpcMaxRecvMsgSizeEnv = ''GRPC_MAX_RECV_MSG_SIZE''"
definition grpcRecvFramingHeadroomBytes :: int where "grpcRecvFramingHeadroomBytes = 1024 * 1024"

definition budget :: "string \<Rightarrow> int \<Rightarrow> int \<Rightarrow> uobject option \<Rightarrow> int" where
  "budget annotation standard upper config =
     (case config of
        None \<Rightarrow> standard
      | Some mtc \<Rightarrow>
          (case map_of (uo_Annotations mtc) annotation of
             None \<Rightarrow> standard
           | Some raw \<Rightarrow>
               if trim_space raw = [] then standard
               else (case parse_int64 (trim_space raw) of
                       None \<Rightarrow> standard
                     | Some v \<Rightarrow> if v < 1 \<or> v > upper then standard else v)))"

definition resolveExtProcMaxBodyBytes :: "uobject option \<Rightarrow> int" where
  "resolveExtProcMaxBodyBytes = budget AnnotationExtProcMaxBodyBytes DefaultExtProcMaxBodyBytes MaxExtProcMaxBodyBytes"

definition resolveExtProcMaxRequests :: "uobject option \<Rightarrow> int" where
  "resolveExtProcMaxRequests = budget AnnotationExtProcMaxRequests DefaultExtProcMaxRequests MaxExtProcMaxRequests"

text \<open>The loop of the settings: every resource is visited, an edit counts what it changed, and at least one change is required.\<close>

fun edit_all :: "(uobject \<Rightarrow> (EditError, uobject \<times> nat) res) \<Rightarrow> uobject list \<Rightarrow> (EditError, uobject list \<times> nat) res" where
  "edit_all f [] = Inr ([], 0)"
| "edit_all f (r # rs) =
     bind_res (f r) (\<lambda>(r', n). bind_res (edit_all f rs) (\<lambda>(rs', m). Inr (r' # rs', n + m)))"

definition edit_some :: "string \<Rightarrow> (uobject \<Rightarrow> (EditError, uobject \<times> nat) res) \<Rightarrow> uobject list \<Rightarrow> (EditError, uobject list) res" where
  "edit_some what f resources =
     bind_res (edit_all f resources) (\<lambda>(rs, patched). if patched = 0 then Inl (EditMissing what) else Inr rs)"

subsection \<open>Body budget\<close>

definition line_feed :: char where "line_feed = CHR 10"

text \<open>The class \<open>\s\<close> of the regular expressions of Go.\<close>

definition space_byte :: "char \<Rightarrow> bool" where
  "space_byte c \<longleftrightarrow> c \<in> {CHR 9, CHR 10, CHR 12, CHR 13, CHR 32}"

definition digit_byte :: "char \<Rightarrow> bool" where
  "digit_byte c \<longleftrightarrow> digit_val c \<noteq> None"

definition body_line :: string where "body_line = ''  max_body_bytes: ''"

text \<open>After the digits, \<open>\s*$\<close> takes as much white space as it can so that a line ends there.\<close>

fun after_space :: "string \<Rightarrow> string option" where
  "after_space [] = Some []"
| "after_space (c # cs) =
     (case (if space_byte c then after_space cs else None) of
        Some rest \<Rightarrow> Some rest
      | None \<Rightarrow> if c = line_feed then Some (c # cs) else None)"

text \<open>What is left after a match of \<open>serverMaxBodyBytesLine\<close> at the beginning of a line.\<close>

definition match_body :: "string \<Rightarrow> string option" where
  "match_body s =
     (if \<not> has_prefix s body_line then None
      else (let t = drop (length body_line) s in
            if t = [] \<or> \<not> digit_byte (hd t) then None else after_space (dropWhile digit_byte t)))"

lemma after_space_length: "after_space s = Some rest \<Longrightarrow> length rest \<le> length s"
  by (induction s rule: after_space.induct) (auto split: option.splits if_splits)

lemma match_body_length: "match_body s = Some rest \<Longrightarrow> length rest < length s"
proof -
  assume m: "match_body s = Some rest"
  then have p: "has_prefix s body_line" and a: "after_space (dropWhile digit_byte (drop (length body_line) s)) = Some rest"
    by (auto simp: match_body_def Let_def split: if_splits)
  have "length body_line \<le> length s" using p unfolding has_prefix_def by (metis length_take min.absorb_iff2)
  moreover have "length body_line > 0" by (simp add: body_line_def)
  moreover have "length (dropWhile digit_byte (drop (length body_line) s)) \<le> length s - length body_line"
    using length_dropWhile_le [of digit_byte "drop (length body_line) s"] by simp
  ultimately show ?thesis using after_space_length [OF a] by linarith
qed

text \<open>\<open>ReplaceAllStringFunc\<close>: the flag says that a line begins here.\<close>

function rewrite_from :: "string \<Rightarrow> bool \<Rightarrow> string \<Rightarrow> string \<times> nat" where
  "rewrite_from value begins s =
     (case (if begins then match_body s else None) of
        Some rest \<Rightarrow> (case rewrite_from value False rest of (out, n) \<Rightarrow> (body_line @ value @ out, Suc n))
      | None \<Rightarrow>
          (case s of
             [] \<Rightarrow> ([], 0)
           | c # cs \<Rightarrow> (case rewrite_from value (c = line_feed) cs of (out, n) \<Rightarrow> (c # out, n))))"
  by pat_completeness auto
termination by (relation "measure (\<lambda>(v, b, s). length s)") (auto dest: match_body_length split: if_splits)

declare rewrite_from.simps [simp del]

definition rewriteServerMaxBodyBytes :: "string \<Rightarrow> int \<Rightarrow> string \<times> nat" where
  "rewriteServerMaxBodyBytes yaml maxBodyBytes = rewrite_from (format_int maxBodyBytes) True yaml"

definition isOwnedPluginConfigMap :: "string \<Rightarrow> bool" where
  "isOwnedPluginConfigMap name \<longleftrightarrow>
     contains_str name PayloadProcessingPluginsConfigMapName \<or> has_prefix name (PayloadProcessingExternalModelName @ ''-plugins'')"

definition pluginConfigMapBodyBytesKey :: string where "pluginConfigMapBodyBytesKey = ''pre-extproc.yaml''"

definition patchPluginConfigMapMaxBodyBytes :: "obj_lib \<Rightarrow> int \<Rightarrow> uobject \<Rightarrow> (EditError, uobject \<times> nat) res" where
  "patchPluginConfigMapMaxBodyBytes l maxBodyBytes cm =
     bind_res (map_err (EditRead ''data'') (NestedStringMap l (uo_Object cm) [''data''])) (\<lambda>found.
     case found of
       None \<Rightarrow> Inr (cm, 0)
     | Some data \<Rightarrow>
         (case map_of data pluginConfigMapBodyBytesKey of
            None \<Rightarrow> Inr (cm, 0)
          | Some raw \<Rightarrow>
              if \<not> contains_str raw ''max_body_bytes:'' then Inr (cm, 0)
              else (case rewriteServerMaxBodyBytes raw maxBodyBytes of (updated, n) \<Rightarrow>
                if n = 0 then Inr (cm, 0)
                else bind_res (put_at l ''data'' (str_map_val (AList.update pluginConfigMapBodyBytesKey updated data)) [''data''] cm)
                       (\<lambda>cm'. Inr (cm', n)))))"

definition configureExtProcMaxBodyBytes :: "obj_lib \<Rightarrow> uobject list \<Rightarrow> int \<Rightarrow> (EditError, uobject list) res" where
  "configureExtProcMaxBodyBytes l resources maxBodyBytes =
     (if maxBodyBytes < 1 then Inl (EditMalformed ''max body bytes'')
      else edit_some ''server max_body_bytes'' (\<lambda>cm.
        if uo_Kind cm \<noteq> ''ConfigMap'' \<or> \<not> isOwnedPluginConfigMap (uo_Name cm) then Inr (cm, 0)
        else map_err (EditStep (uo_Name cm)) (patchPluginConfigMapMaxBodyBytes l maxBodyBytes cm)) resources)"

subsection \<open>Size of a gRPC message\<close>

definition isExtProcDeployment :: "string \<Rightarrow> bool" where
  "isExtProcDeployment name \<longleftrightarrow> name = PayloadProcessingName \<or> name = PayloadPreProcessingName
     \<or> has_prefix name (PayloadProcessingName @ ''-'') \<or> has_prefix name (PayloadPreProcessingName @ ''-'')
     \<or> has_prefix name PayloadProcessingExternalModelName"

definition set_env_entry :: "string \<Rightarrow> string \<Rightarrow> uval list \<Rightarrow> uval list" where
  "set_env_entry envName v env =
     (case find_index (named_item envName) env of
        None \<Rightarrow> env @ [UMap [(''name'', UStr envName), (''value'', UStr v)]]
      | Some i \<Rightarrow> env[i := (case env ! i of
            UMap entry \<Rightarrow> UMap (AList.delete ''valueFrom'' (AList.update ''value'' (UStr v) entry)) | x \<Rightarrow> x)])"

definition setContainerEnvValue :: "obj_lib \<Rightarrow> string \<Rightarrow> string \<Rightarrow> uobject \<Rightarrow> (EditError, uobject) res" where
  "setContainerEnvValue l envName v dep =
     bind_res (read_slice l ''containers'' (uo_Object dep) pod_containers) (\<lambda>found.
     case slice_of found of
       [] \<Rightarrow> Inl (EditMissing ''containers'')
     | UMap container # rest \<Rightarrow>
         bind_res (read_slice l ''env'' container [''env'']) (\<lambda>env.
           put_at l ''containers'' (UList (UMap (AList.update ''env'' (UList (set_env_entry envName v (slice_of env))) container) # rest)) pod_containers dep)
     | _ # _ \<Rightarrow> Inl (EditMalformed ''containers''))"

definition configureExtProcGrpcRecvMsgSize :: "obj_lib \<Rightarrow> uobject list \<Rightarrow> int \<Rightarrow> (EditError, uobject list) res" where
  "configureExtProcGrpcRecvMsgSize l resources maxBodyBytes =
     (if maxBodyBytes < 1 then Inl (EditMalformed ''max body bytes'')
      else edit_some ''ExtProc Deployments'' (\<lambda>dep.
        if uo_Kind dep \<noteq> ''Deployment'' \<or> \<not> isExtProcDeployment (uo_Name dep) then Inr (dep, 0)
        else map_err (EditStep (uo_Name dep)) (bind_res
               (setContainerEnvValue l grpcMaxRecvMsgSizeEnv (format_int (maxBodyBytes + grpcRecvFramingHeadroomBytes)) dep)
               (\<lambda>dep'. Inr (dep', 1)))) resources)"

definition configureExtProcBodyLimits :: "obj_lib \<Rightarrow> uobject list \<Rightarrow> int \<Rightarrow> (EditError, uobject list) res" where
  "configureExtProcBodyLimits l resources maxBodyBytes =
     bind_res (configureExtProcMaxBodyBytes l resources maxBodyBytes) (\<lambda>rs. configureExtProcGrpcRecvMsgSize l rs maxBodyBytes)"

subsection \<open>Concurrency\<close>

definition extProcUpstreamClusterNames :: "string list" where
  "extProcUpstreamClusterNames =
     [''payload-pre-processing-extproc'', ''payload-processing-extproc'', ''payload-processing-external-model-extproc'']"

definition protocol_options :: "string list" where
  "protocol_options = [''typed_extension_protocol_options'', ''envoy.extensions.upstreams.http.v3.HttpProtocolOptions'']"

definition setExtProcClusterConcurrency :: "obj_lib \<Rightarrow> int \<Rightarrow> umap \<Rightarrow> (EditError, umap) res" where
  "setExtProcClusterConcurrency l maxRequests cluster =
     bind_res (map_err (EditWrite ''circuit_breakers.thresholds'') (SetNestedField l cluster
         (UList [UMap [(''max_connections'', UInt maxRequests), (''max_pending_requests'', UInt maxRequests), (''max_requests'', UInt maxRequests)]])
         [''circuit_breakers'', ''thresholds''])) (\<lambda>c1.
     bind_res (map_err (EditWrite ''max_concurrent_streams'') (SetNestedField l c1 (UInt maxRequests)
         (protocol_options @ [''explicit_http_config'', ''http2_protocol_options'', ''max_concurrent_streams'']))) (\<lambda>c2.
     bind_res (map_err (EditRead ''protocol options'') (NestedMap (ol_unstr l) c2 protocol_options)) (\<lambda>found.
     case found of
       None \<Rightarrow> Inr c2
     | Some opts \<Rightarrow>
         if map_of opts ''@type'' \<noteq> None then Inr c2
         else map_err (EditWrite ''protocol options @type'') (SetNestedField l c2
                (UMap (AList.update ''@type'' (UStr ''type.googleapis.com/envoy.extensions.upstreams.http.v3.HttpProtocolOptions'') opts))
                protocol_options))))"

definition patchExtProcEnvoyFilterConcurrency :: "obj_lib \<Rightarrow> int \<Rightarrow> uobject \<Rightarrow> (EditError, uobject \<times> nat) res" where
  "patchExtProcEnvoyFilterConcurrency l maxRequests u =
     bind_res (read_slice l ''configPatches'' (uo_Object u) config_patches) (\<lambda>found.
     case found of
       None \<Rightarrow> Inr (u, 0)
     | Some patches \<Rightarrow>
         bind_res (edit_clusters (\<lambda>name. if name \<in> set extProcUpstreamClusterNames
             then Some (setExtProcClusterConcurrency l maxRequests) else None) patches) (\<lambda>(patches', patched).
           if patched > 0 then bind_res (put_at l ''configPatches'' (UList patches') config_patches u) (\<lambda>u'. Inr (u', patched))
           else Inr (u, 0)))"

definition configureExtProcConcurrency :: "obj_lib \<Rightarrow> uobject list \<Rightarrow> int \<Rightarrow> (EditError, uobject list) res" where
  "configureExtProcConcurrency l resources maxRequests =
     (if maxRequests < 1 then Inl (EditMalformed ''max requests'')
      else edit_some ''ExtProc upstream CLUSTER patches'' (\<lambda>u.
        if uo_Kind u \<noteq> ''EnvoyFilter'' then Inr (u, 0)
        else map_err (EditStep (uo_Name u)) (patchExtProcEnvoyFilterConcurrency l maxRequests u)) resources)"

subsection \<open>Autoscaling\<close>

record scale_lib =
  ParseQuantity :: "string \<Rightarrow> (string, string) res"
  FormatFloat :: "string \<Rightarrow> string"

definition defaultMaxReplicas :: int where "defaultMaxReplicas = 10"
definition defaultTargetCPU :: int where "defaultTargetCPU = 70"
definition defaultTargetMemory :: int where "defaultTargetMemory = 80"
definition max_int32 :: int where "max_int32 = 2147483647"
definition min_int32 :: int where "min_int32 = - 2147483648"

text \<open>\<open>corev1.ResourceRequirements\<close>: a list that is absent differs from an empty one.\<close>

record resourceRequirements =
  rr_Requests :: "str_map option"
  rr_Limits :: "str_map option"

record ippWorkloadScaling =
  ws_autoscaling :: bool
  ws_replicas :: "int option"
  ws_maxReplicas :: int
  ws_targetCPU :: int
  ws_targetMemory :: int
  ws_resources :: "resourceRequirements option"

record ippScaling =
  is_processing :: ippWorkloadScaling
  is_preProcessing :: ippWorkloadScaling

definition nestedInt32 :: "obj_lib \<Rightarrow> umap \<Rightarrow> string \<Rightarrow> int option" where
  "nestedInt32 l m key =
     (case nestedInt64 l m key of
        None \<Rightarrow> None
      | Some v \<Rightarrow> if v < min_int32 \<or> v > max_int32 then None else Some v)"

text \<open>A setting below one is ignored.\<close>

definition positive_or :: "int \<Rightarrow> int option \<Rightarrow> int" where
  "positive_or d found = (case found of None \<Rightarrow> d | Some v \<Rightarrow> if v \<ge> 1 then v else d)"

datatype QuantityError = QuantityType string | QuantityInvalid string string

definition parse_resource :: "scale_lib \<Rightarrow> string \<times> uval \<Rightarrow> (QuantityError, string \<times> string) res" where
  "parse_resource q kv =
     bind_res (case snd kv of
                 UStr s \<Rightarrow> Inr s
               | UInt n \<Rightarrow> Inr (format_int n)
               | UFloat f \<Rightarrow> Inr (FormatFloat q f)
               | _ \<Rightarrow> Inl (QuantityType (fst kv))) (\<lambda>s.
       map_err (QuantityInvalid (fst kv)) (bind_res (ParseQuantity q s) (\<lambda>v. Inr (fst kv, v))))"

definition parseResourceList :: "scale_lib \<Rightarrow> umap \<Rightarrow> (QuantityError, str_map) res" where
  "parseResourceList q m = mapM_res (parse_resource q) m"

datatype ResourcesError = ResourcesRequests QuantityError | ResourcesLimits QuantityError | ResourcesRequired string

definition parse_part :: "scale_lib \<Rightarrow> umap \<Rightarrow> string \<Rightarrow> (QuantityError, str_map option) res" where
  "parse_part q resourcesMap part =
     (case map_of resourcesMap part of
        Some (UMap m) \<Rightarrow> bind_res (parseResourceList q m) (\<lambda>rs. Inr (Some rs))
      | _ \<Rightarrow> Inr None)"

definition no_quantities :: "str_map option \<Rightarrow> bool" where
  "no_quantities rs = (case rs of None \<Rightarrow> True | Some m \<Rightarrow> m = [])"

definition parseWorkloadResources :: "scale_lib \<Rightarrow> umap \<Rightarrow> bool \<Rightarrow> (ResourcesError, resourceRequirements option) res" where
  "parseWorkloadResources q resourcesMap autoscaling =
     bind_res (map_err ResourcesRequests (parse_part q resourcesMap ''requests'')) (\<lambda>requests.
     bind_res (map_err ResourcesLimits (parse_part q resourcesMap ''limits'')) (\<lambda>limits.
       if no_quantities requests \<and> no_quantities limits then Inr None
       else if autoscaling \<and> requests = None then Inl (ResourcesRequired ''requests'')
       else if autoscaling \<and> \<not> sm_has (the requests) ''cpu'' then Inl (ResourcesRequired ''requests.cpu'')
       else if autoscaling \<and> \<not> sm_has (the requests) ''memory'' then Inl (ResourcesRequired ''requests.memory'')
       else Inr (Some \<lparr>rr_Requests = requests, rr_Limits = limits\<rparr>)))"

definition default_scaling :: ippWorkloadScaling where
  "default_scaling = \<lparr>ws_autoscaling = False, ws_replicas = None, ws_maxReplicas = defaultMaxReplicas, ws_targetCPU = defaultTargetCPU,
     ws_targetMemory = defaultTargetMemory, ws_resources = None\<rparr>"

definition read_replicas :: "obj_lib \<Rightarrow> umap \<Rightarrow> int option" where
  "read_replicas l spec = (case nestedInt32 l spec ''replicas'' of None \<Rightarrow> None | Some v \<Rightarrow> if v \<ge> 1 then Some v else None)"

definition read_scaling :: "obj_lib \<Rightarrow> umap \<Rightarrow> ippWorkloadScaling" where
  "read_scaling l spec =
     (case NestedMap (ol_unstr l) spec [''autoscaling''] of
        Inr (Some a) \<Rightarrow>
          default_scaling\<lparr>ws_autoscaling := True, ws_replicas := read_replicas l spec,
            ws_maxReplicas := positive_or defaultMaxReplicas (nestedInt32 l a ''maxReplicas''),
            ws_targetCPU := positive_or defaultTargetCPU (nestedInt32 l a ''targetCPUUtilization''),
            ws_targetMemory := positive_or defaultTargetMemory (nestedInt32 l a ''targetMemoryUtilization'')\<rparr>
      | _ \<Rightarrow> default_scaling\<lparr>ws_replicas := read_replicas l spec\<rparr>)"

definition raise_max :: "ippWorkloadScaling \<Rightarrow> ippWorkloadScaling" where
  "raise_max cfg =
     (case ws_replicas cfg of
        Some r \<Rightarrow> if ws_autoscaling cfg \<and> r > ws_maxReplicas cfg then cfg\<lparr>ws_maxReplicas := r\<rparr> else cfg
      | None \<Rightarrow> cfg)"

definition scaling_of :: "scale_lib \<Rightarrow> obj_lib \<Rightarrow> umap \<Rightarrow> ippWorkloadScaling" where
  "scaling_of q l spec =
     (let cfg = raise_max (read_scaling l spec) in
      case NestedMap (ol_unstr l) spec [''resources''] of
        Inr (Some m) \<Rightarrow>
          (case parseWorkloadResources q m (ws_autoscaling cfg) of
             Inr (Some res) \<Rightarrow> cfg\<lparr>ws_resources := Some res\<rparr>
           | _ \<Rightarrow> cfg)
      | _ \<Rightarrow> cfg)"

definition resolveIPPWorkloadScaling :: "scale_lib \<Rightarrow> obj_lib \<Rightarrow> uobject \<Rightarrow> string \<Rightarrow> ippWorkloadScaling" where
  "resolveIPPWorkloadScaling q l mtc field =
     (case NestedMap (ol_unstr l) (uo_Object mtc) [''spec'', field] of
        Inr (Some spec) \<Rightarrow> scaling_of q l spec
      | _ \<Rightarrow> default_scaling)"

definition resolveIPPScaling :: "scale_lib \<Rightarrow> obj_lib \<Rightarrow> uobject \<Rightarrow> ippScaling" where
  "resolveIPPScaling q l mtc =
     \<lparr>is_processing = resolveIPPWorkloadScaling q l mtc ''payloadProcessing'',
      is_preProcessing = resolveIPPWorkloadScaling q l mtc ''payloadPreProcessing''\<rparr>"

definition resource_object :: "resourceRequirements \<Rightarrow> umap" where
  "resource_object res =
     (case rr_Requests res of None \<Rightarrow> [] | Some m \<Rightarrow> [(''requests'', str_map_val m)])
     @ (case rr_Limits res of None \<Rightarrow> [] | Some m \<Rightarrow> [(''limits'', str_map_val m)])"

definition setContainerResources :: "obj_lib \<Rightarrow> string \<Rightarrow> resourceRequirements \<Rightarrow> uobject \<Rightarrow> (EditError, uobject) res" where
  "setContainerResources l containerName res u =
     (case NestedSlice (ol_unstr l) (uo_Object u) pod_containers of
        Inr (Some containers) \<Rightarrow>
          (case find_index (named_item containerName) containers of
             None \<Rightarrow> Inl (EditMissing containerName)
           | Some i \<Rightarrow>
               put_at l ''containers'' (UList (containers[i := (case containers ! i of
                   UMap c \<Rightarrow> UMap (AList.update ''resources'' (UMap (resource_object res)) c) | x \<Rightarrow> x)])) pod_containers u)
      | _ \<Rightarrow> Inl (EditMissing ''containers''))"

definition scale_deployment :: "obj_lib \<Rightarrow> string \<Rightarrow> ippWorkloadScaling \<Rightarrow> uobject \<Rightarrow> (EditError, uobject) res" where
  "scale_deployment l containerName cfg u =
     bind_res (if ws_autoscaling cfg then Inr (u\<lparr>uo_Object := RemoveNestedField l (uo_Object u) [''spec'', ''replicas'']\<rparr>)
               else (case ws_replicas cfg of
                       Some r \<Rightarrow> put_at l ''replicas'' (UInt r) [''spec'', ''replicas''] u
                     | None \<Rightarrow> Inr u)) (\<lambda>u.
       case ws_resources cfg of None \<Rightarrow> Inr u | Some res \<Rightarrow> setContainerResources l containerName res u)"

definition patchIPPDeploymentScaling ::
    "obj_lib \<Rightarrow> string \<Rightarrow> string \<Rightarrow> ippWorkloadScaling \<Rightarrow> uobject list \<Rightarrow> (EditError, uobject list) res" where
  "patchIPPDeploymentScaling l deploymentName containerName cfg resources =
     (case find_index (\<lambda>r. uo_Kind r = ''Deployment'' \<and> uo_Name r = deploymentName) resources of
        None \<Rightarrow> Inr resources
      | Some i \<Rightarrow> bind_res (scale_deployment l containerName cfg (resources ! i)) (\<lambda>u. Inr (resources[i := u])))"

definition utilization :: "string \<Rightarrow> int \<Rightarrow> uval" where
  "utilization name target =
     UMap [(''type'', UStr ''Resource''), (''resource'', UMap [(''name'', UStr name),
       (''target'', UMap [(''type'', UStr ''Utilization''), (''averageUtilization'', UInt target)])])]"

definition scale_policy :: "string \<Rightarrow> int \<Rightarrow> int \<Rightarrow> uval" where
  "scale_policy type v period = UMap [(''type'', UStr type), (''value'', UInt v), (''periodSeconds'', UInt period)]"

definition appendIPPWorkloadHPA :: "string \<Rightarrow> string \<Rightarrow> string \<Rightarrow> ippWorkloadScaling \<Rightarrow> uobject" where
  "appendIPPWorkloadHPA name deployment namespace cfg =
     \<lparr>uo_Kind = ''HorizontalPodAutoscaler'', uo_Name = name, uo_Namespace = namespace, uo_Generation = 0, uo_Labels = [], uo_Annotations = [],
      uo_Object = [(''apiVersion'', UStr ''autoscaling/v2''), (''spec'', UMap
        [(''scaleTargetRef'', UMap [(''apiVersion'', UStr ''apps/v1''), (''kind'', UStr ''Deployment''), (''name'', UStr deployment)]),
         (''minReplicas'', UInt (case ws_replicas cfg of None \<Rightarrow> 1 | Some r \<Rightarrow> r)),
         (''maxReplicas'', UInt (ws_maxReplicas cfg)),
         (''metrics'', UList [utilization ''cpu'' (ws_targetCPU cfg), utilization ''memory'' (ws_targetMemory cfg)]),
         (''behavior'', UMap
           [(''scaleDown'', UMap [(''stabilizationWindowSeconds'', UInt 300), (''policies'', UList [scale_policy ''Percent'' 25 60])]),
            (''scaleUp'', UMap [(''stabilizationWindowSeconds'', UInt 0),
              (''policies'', UList [scale_policy ''Percent'' 100 15, scale_policy ''Pods'' 4 15]), (''selectPolicy'', UStr ''Max'')])])])]\<rparr>"

definition configureIPPScaling ::
    "child_name \<Rightarrow> obj_lib \<Rightarrow> uobject list \<Rightarrow> string \<Rightarrow> string \<Rightarrow> ippScaling \<Rightarrow> (EditError, uobject list) res" where
  "configureIPPScaling cn l resources tenantID gatewayNamespace scaling =
     bind_res (patchIPPDeploymentScaling l (PayloadProcessingDeploymentName cn tenantID) PayloadProcessingName (is_processing scaling) resources) (\<lambda>rs.
     bind_res (patchIPPDeploymentScaling l (PayloadPreProcessingDeploymentName cn tenantID) PayloadPreProcessingName (is_preProcessing scaling) rs) (\<lambda>rs.
       Inr (rs
         @ (if ws_autoscaling (is_processing scaling)
            then [appendIPPWorkloadHPA (PayloadProcessingHPAName cn tenantID) (PayloadProcessingDeploymentName cn tenantID) gatewayNamespace (is_processing scaling)]
            else [])
         @ (if ws_autoscaling (is_preProcessing scaling)
            then [appendIPPWorkloadHPA (PayloadPreProcessingHPAName cn tenantID) (PayloadPreProcessingDeploymentName cn tenantID) gatewayNamespace
                    (is_preProcessing scaling)]
            else []))))"

end
