(* ===== verification/TenantExtproc.thy ===== *)
theory TenantExtproc
  imports TenantDataPlane RolloutSafety
begin

text \<open>
  The configuration of the external processors, \<open>src/pkg/tenant/extproc.go\<close> and \<open>extproc_headers.go\<close>: the static chain of the shared processor,
  the chain of the processor for ExternalModels with its credentials, and the edits of the resources that carry them. The texts are lists of
  lines.
\<close>

subsection \<open>Texts\<close>

definition unlines :: "string list \<Rightarrow> string" where
  "unlines ls = concat (map (\<lambda>l. l @ [line_feed]) ls)"

definition guardedRequestHeaders :: "string list" where
  "guardedRequestHeaders =
     [''authorization'',
      ''x-api-key'',
      ''x-origin-cluster'',
      ''x-maas-username'',
      ''x-maas-username-oc'',
      ''x-maas-username-token'',
      ''x-maas-group'',
      ''x-maas-group-oc'',
      ''x-maas-group-token'',
      ''x-maas-keyname'',
      ''x-maas-key-id'',
      ''x-maas-subscription'',
      ''x-maas-subscription-rate-limit-id'',
      ''x-maas-cost-center'',
      ''x-maas-organization-id'',
      ''x-maas-identity'',
      ''x-maas-admin-scope'',
      ''x-maas-tenant'',
      ''x-maas-invocation-mode'',
      ''x-maas-policy-revision'',
      ''x-maas-responses-owner'',
      ''x-maas-return-all-models'',
      ''x-maas-model'']"

definition shared_head :: "string list" where
  "shared_head =
     [''server:'',
      ''  grpc_address: '' @ [CHR 34] @ ''0.0.0.0:9004'' @ [CHR 34],
      ''  health_address: '' @ [CHR 34] @ ''0.0.0.0:50052'' @ [CHR 34],
      ''  metrics_address: '' @ [CHR 34] @ ''0.0.0.0:9090'' @ [CHR 34]]"

definition shared_guard :: "string list" where
  "shared_guard =
     [''  tls:'',
      ''    mode: provided'',
      ''    cert_path: /etc/tls/private/tls.crt'',
      ''    key_path: /etc/tls/private/tls.key'',
      [],
      ''filter_chains:'',
      ''  - name: ipp'',
      ''    filters:'',
      ''      - filter: headers'',
      ''        conditions:'',
      ''          - unless:'',
      ''              path_prefix: /maas-api/v1'',
      ''          - unless:'',
      ''              path_prefix: /maas-api/health'',
      ''          - unless:'',
      ''              path_prefix: /v1/models'',
      ''          - unless:'',
      ''              path_prefix: /v1/subscriptions'',
      ''          - unless:'',
      ''              path_prefix: /v1/api-keys'',
      ''          - unless:'',
      ''              path: /v1/me'',
      ''        request_remove:'']"

definition translation_head :: "string list" where
  "translation_head =
     [''      - filter: anthropic_messages_request'',
      ''        on_invalid: reject'',
      ''        conditions:'',
      ''          - when:'',
      ''              path: '' @ [CHR 34] @ ''/v1/messages'' @ [CHR 34],
      ''      - filter: anthropic_messages_to_chat_completions'',
      ''        max_body_bytes: 1048576'',
      ''        conditions:'',
      ''          - when:'',
      ''              path: '' @ [CHR 34] @ ''/v1/messages'' @ [CHR 34],
      ''      - filter: anthropic_messages_to_chat_completions_stream'']"

definition translation_tail :: "string list" where
  "translation_tail =
     [''        max_tool_blocks: 10000'',
      ''        conditions:'',
      ''          - when:'',
      ''              path: '' @ [CHR 34] @ ''/v1/messages'' @ [CHR 34],
      ''        response_conditions:'',
      ''          - when:'',
      ''              headers:'',
      ''                content-type: '' @ [CHR 34] @ ''text/event-stream'' @ [CHR 34],
      ''      - filter: headers'',
      ''        request_remove:'',
      ''          - x-api-key'',
      ''        conditions:'',
      ''          - when:'',
      ''              path: '' @ [CHR 34] @ ''/v1/messages'' @ [CHR 34],
      ''      - filter: path_rewrite'',
      ''        replace:'',
      ''          pattern: '' @ [CHR 34] @ ''^/v1/messages$'' @ [CHR 34],
      ''          replacement: '' @ [CHR 34] @ ''/v1/chat/completions'' @ [CHR 34],
      ''        conditions:'',
      ''          - when:'',
      ''              path: '' @ [CHR 34] @ ''/v1/messages'' @ [CHR 34]]"

definition guard_lines :: "string list" where
  "guard_lines = map (\<lambda>header. ''          - '' @ header) guardedRequestHeaders"

definition writeStreamUsageInject :: "int \<Rightarrow> string list" where
  "writeStreamUsageInject maxBodyBytes =
     [''      - filter: stream_usage_inject'', ''        max_body_bytes: '' @ format_int maxBodyBytes]"

definition sharedExtProcConfig :: "bool \<Rightarrow> int \<Rightarrow> string" where
  "sharedExtProcConfig apiTranslation maxBodyBytes =
     unlines (shared_head @ [''  max_body_bytes: '' @ format_int maxBodyBytes] @ shared_guard @ guard_lines
       @ [''      - filter: request_id''] @ writeStreamUsageInject maxBodyBytes
       @ (if apiTranslation
          then translation_head @ [''        max_partial_event_bytes: '' @ format_int maxBodyBytes] @ translation_tail else []))"

subsection \<open>Credentials\<close>

definition extprocCredentialDir :: string where "extprocCredentialDir = ''/etc/praxis/credentials''"
definition anthropicTranslationResponseMaxBytes :: int where "anthropicTranslationResponseMaxBytes = 2 ^ 20"
definition anthropicTranslationAccumulationOverhead :: int where "anthropicTranslationAccumulationOverhead = 64 * 2 ^ 10"
record extprocCredential =
  xc_name :: string
  xc_namespace :: string
  xc_key :: string
  xc_strategy :: string
  xc_header :: string
  xc_file :: string

datatype CredentialError =
    CredentialForeign string string string
  | CredentialStrategy string string
  | CredentialIncomplete string

definition credential_identity :: "Credential \<Rightarrow> string" where
  "credential_identity c =
     (let ref = cr_SecretRef c in
      sr_Namespace ref @ ''/'' @ sr_Name ref @ ''/'' @ sr_Key ref @ ''/'' @ cr_Strategy c @ ''/'' @ cr_Header c)"

definition credential_path :: "SecretRef \<Rightarrow> string" where
  "credential_path ref =
     sr_Name ref @ ''-'' @ take 12 (sha256_hex (sr_Namespace ref @ ''/'' @ sr_Name ref @ ''/'' @ sr_Key ref)) @ ''/'' @ sr_Key ref"

definition credential_entry :: "Credential \<Rightarrow> extprocCredential" where
  "credential_entry c =
     (let ref = cr_SecretRef c in
      \<lparr>xc_name = sr_Name ref, xc_namespace = sr_Namespace ref, xc_key = sr_Key ref, xc_strategy = cr_Strategy c, xc_header = cr_Header c,
       xc_file = extprocCredentialDir @ ''/'' @ credential_path ref\<rparr>)"

definition collect_credential ::
    "string \<Rightarrow> Candidate \<Rightarrow> string list \<times> extprocCredential list \<Rightarrow> (CredentialError, string list \<times> extprocCredential list) res" where
  "collect_credential namespace candidate st =
     (case ca_Credential candidate of
        None \<Rightarrow> Inr st
      | Some c \<Rightarrow>
          (let ref = cr_SecretRef c in
           if sr_Namespace ref \<noteq> namespace then Inl (CredentialForeign (ca_StableID candidate) (sr_Namespace ref) (sr_Name ref))
           else if cr_Strategy c \<noteq> ''bearer_token'' \<and> cr_Strategy c \<noteq> ''apikey'' then Inl (CredentialStrategy (ca_StableID candidate) (cr_Strategy c))
           else if sr_Name ref = [] \<or> sr_Key ref = [] then Inl (CredentialIncomplete (ca_StableID candidate))
           else if credential_identity c \<in> set (fst st) then Inr st
           else Inr (credential_identity c # fst st, snd st @ [credential_entry c])))"

definition credential_key :: "extprocCredential \<Rightarrow> string \<times> string \<times> string \<times> string \<times> string" where
  "credential_key c = (xc_namespace c, xc_name c, xc_key c, xc_strategy c, xc_header c)"

definition extprocCredentials :: "string \<Rightarrow> Candidate list \<Rightarrow> (CredentialError, extprocCredential list) res" where
  "extprocCredentials namespace candidates =
     bind_res (fold_res (collect_credential namespace) candidates ([], [])) (\<lambda>(seen, credentials). Inr (sort_key credential_key credentials))"

subsection \<open>The chain for ExternalModels\<close>

text \<open>\<open>%q\<close> of a text without bytes above 127.\<close>

definition quote_char :: "char \<Rightarrow> string" where
  "quote_char c =
     (let n = of_char c :: nat in
      if n = 34 \<or> n = 92 then [CHR 92, c]
      else if n = 7 then [CHR 92, CHR ''a''] else if n = 8 then [CHR 92, CHR ''b''] else if n = 12 then [CHR 92, CHR ''f'']
      else if n = 10 then [CHR 92, CHR ''n''] else if n = 13 then [CHR 92, CHR ''r''] else if n = 9 then [CHR 92, CHR ''t'']
      else if n = 11 then [CHR 92, CHR ''v'']
      else if n < 32 \<or> n = 127 then [CHR 92, CHR ''x'', hex_digit (n div 16), hex_digit (n mod 16)]
      else [c])"

definition quote_text :: "string \<Rightarrow> string" where
  "quote_text s = [CHR 34] @ concat (map quote_char s) @ [CHR 34]"

definition provider_clusters :: "Candidate list \<Rightarrow> string list" where
  "provider_clusters candidates = sort (remdups (map ca_Cluster candidates))"

definition credential_lines :: "extprocCredential \<Rightarrow> string list" where
  "credential_lines c =
     [''          - name: '' @ xc_name c, ''            namespace: '' @ xc_namespace c,
      ''            key: '' @ xc_key c, ''            strategy: '' @ xc_strategy c]
     @ (if xc_strategy c = ''apikey'' \<and> xc_header c \<noteq> [] then [''            header: '' @ xc_header c] else [])
     @ [''            file: '' @ xc_file c]"

definition external_head :: "string list" where
  "external_head =
     [''  tls:'', ''    mode: provided'', ''    cert_path: /etc/tls/private/tls.crt'', ''    key_path: /etc/tls/private/tls.key'', [],
      ''filter_chains:'', ''  - name: post-auth'', ''    filters:'', ''      - filter: headers'', ''        request_remove:'']"

definition extprocPostAuthConfig :: "Candidate list \<Rightarrow> extprocCredential list \<Rightarrow> bool \<Rightarrow> int \<Rightarrow> string" where
  "extprocPostAuthConfig candidates credentials apiTranslationEnabled maxBodyBytes =
     unlines (shared_head
       @ [''  max_body_bytes: '' @ format_int (if apiTranslationEnabled then maxBodyBytes + anthropicTranslationAccumulationOverhead else maxBodyBytes)]
       @ external_head @ guard_lines
       @ [''      - filter: intelligent_route'', ''        overlay_file: /etc/praxis/routing/routing-overlay.json'',
          ''        model_header: X-Gateway-Model-Name'',
          ''        provider_hop_clusters: ['' @ join_str (map quote_text (provider_clusters candidates)) '', '' @ '']'',
          ''        reload: {enabled: true, debounce_ms: 500}'']
       @ writeStreamUsageInject maxBodyBytes
       @ (if apiTranslationEnabled
          then [''      - filter: openai_chat_completions_to_anthropic_stream'', ''        max_partial_event_bytes: 1048576'',
                ''        max_tool_blocks: 256'', ''      - filter: openai_chat_completions_to_anthropic'',
                ''        api_translation_enabled: true'', ''        max_request_body_bytes: '' @ format_int maxBodyBytes,
                ''        max_response_body_bytes: '' @ format_int anthropicTranslationResponseMaxBytes] else [])
       @ (if credentials = [] then []
          else [''      - filter: credential_inject'', ''        credentials:''] @ concat (map credential_lines credentials)))"

definition ExternalModelExtProcConfig :: "string \<Rightarrow> Candidate list \<Rightarrow> bool \<Rightarrow> int \<Rightarrow> (CredentialError, string \<times> string) res" where
  "ExternalModelExtProcConfig namespace candidates apiTranslationEnabled maxBodyBytes =
     bind_res (extprocCredentials namespace candidates) (\<lambda>credentials.
       let config = extprocPostAuthConfig candidates credentials apiTranslationEnabled maxBodyBytes in Inr (config, sha256_hex config))"

definition ExternalModelExtProcConfigHash :: "string \<Rightarrow> Candidate list \<Rightarrow> bool \<Rightarrow> int \<Rightarrow> (CredentialError, string) res" where
  "ExternalModelExtProcConfigHash namespace candidates apiTranslationEnabled maxBodyBytes =
     bind_res (ExternalModelExtProcConfig namespace candidates apiTranslationEnabled maxBodyBytes) (\<lambda>(_, configHash). Inr configHash)"

subsection \<open>HTTP filters of an EnvoyFilter\<close>

text \<open>Visits the HTTP_FILTER patches of the given name.\<close>

definition edit_http_filter :: "obj_lib \<Rightarrow> string \<Rightarrow> (umap \<Rightarrow> (EditError, umap) res) \<Rightarrow> uval \<Rightarrow> (EditError, uval \<times> nat) res" where
  "edit_http_filter l want f raw =
     (case raw of
        UMap patch \<Rightarrow>
          if map_of patch ''applyTo'' \<noteq> Some (UStr ''HTTP_FILTER'') then Inr (raw, 0)
          else bind_res (map_err (EditRead ''HTTP_FILTER name'') (NestedString (ol_unstr l) patch [''patch'', ''value'', ''name''])) (\<lambda>name.
            if name \<noteq> Some want then Inr (raw, 0) else bind_res (f patch) (\<lambda>patch'. Inr (UMap patch', 1)))
      | _ \<Rightarrow> Inr (raw, 0))"

definition edit_named_filter ::
    "obj_lib \<Rightarrow> string \<Rightarrow> string \<Rightarrow> (umap \<Rightarrow> (EditError, umap) res) \<Rightarrow> uobject \<Rightarrow> (EditError, uobject \<times> nat) res" where
  "edit_named_filter l filterName want f u =
     (if uo_Kind u \<noteq> ''EnvoyFilter'' \<or> uo_Name u \<noteq> filterName then Inr (u, 0)
      else bind_res (read_slice l ''configPatches'' (uo_Object u) config_patches) (\<lambda>found.
        case found of
          None \<Rightarrow> Inl (EditMissing ''configPatches'')
        | Some patches \<Rightarrow>
            bind_res (mapM_res (edit_http_filter l want f) patches) (\<lambda>rs.
            bind_res (put_at l ''configPatches'' (UList (map fst rs)) config_patches u) (\<lambda>u'. Inr (u', sum_list (map snd rs))))))"

definition typed_config :: "string \<Rightarrow> string list" where
  "typed_config field = [''patch'', ''value'', ''typed_config'', field]"

definition set_response_mode :: "obj_lib \<Rightarrow> bool \<Rightarrow> umap \<Rightarrow> (EditError, umap) res" where
  "set_response_mode l apiTranslation patch =
     bind_res (map_err (EditWrite ''response_body_mode'') (SetNestedField l patch (UStr (if apiTranslation then ''STREAMED'' else ''BUFFERED''))
         (typed_config ''processing_mode'' @ [''response_body_mode'']))) (\<lambda>p.
       if apiTranslation then map_err (EditWrite ''route_cache_action'') (SetNestedField l p (UStr ''RETAIN'') (typed_config ''route_cache_action''))
       else Inr (RemoveNestedField l p (typed_config ''route_cache_action'')))"

definition configureSharedExtProcResponseMode :: "child_name \<Rightarrow> obj_lib \<Rightarrow> uobject list \<Rightarrow> string \<Rightarrow> bool \<Rightarrow> (EditError, uobject list) res" where
  "configureSharedExtProcResponseMode cn l resources tenantID apiTranslation =
     edit_some ''ipp HTTP_FILTER patches''
       (edit_named_filter l (PayloadProcessingEnvoyFilterName cn tenantID) ''envoy.filters.http.ext_proc.ipp'' (set_response_mode l apiTranslation)) resources"

definition configureExternalModelRequestOrdering :: "child_name \<Rightarrow> obj_lib \<Rightarrow> uobject list \<Rightarrow> string \<Rightarrow> (EditError, uobject list) res" where
  "configureExternalModelRequestOrdering cn l resources tenantID =
     edit_some ''post-auth HTTP_FILTER patches''
       (edit_named_filter l (PayloadProcessingExternalModelFilterNameForTenant cn tenantID) ''envoy.filters.http.ext_proc.external-model''
         (\<lambda>patch. Inr (RemoveNestedField l patch (typed_config ''send_body_without_waiting_for_header_response'')))) resources"

subsection \<open>Writing the configuration\<close>

definition write_config :: "obj_lib \<Rightarrow> string \<Rightarrow> uobject \<Rightarrow> (EditError, uobject) res" where
  "write_config l config cm =
     bind_res (map_err (EditRead ''data'') (NestedStringMap l (uo_Object cm) [''data''])) (\<lambda>found.
     case found of
       None \<Rightarrow> Inl (EditMissing ''data'')
     | Some data \<Rightarrow> put_at l ''data'' (str_map_val (AList.update ''extproc.yaml'' config data)) [''data''] cm)"

definition write_hash :: "obj_lib \<Rightarrow> string \<Rightarrow> uobject \<Rightarrow> (EditError, uobject) res" where
  "write_hash l config d =
     put_at l ''config hash'' (UStr (sha256_hex config)) [''spec'', ''template'', ''metadata'', ''annotations'', extprocConfigHashAnnotation] d"

definition configureSharedExtProc ::
    "child_name \<Rightarrow> obj_lib \<Rightarrow> uobject list \<Rightarrow> string \<Rightarrow> string \<Rightarrow> bool \<Rightarrow> int \<Rightarrow> (EditError, uobject list) res" where
  "configureSharedExtProc cn l resources tenantID gatewayNamespace apiTranslation maxBodyBytes =
     (case (findResource resources ''ConfigMap'' (PayloadProcessingPluginsConfigMapForTenant cn tenantID) gatewayNamespace,
            findResource resources ''Deployment'' (PayloadProcessingDeploymentName cn tenantID) gatewayNamespace) of
        (Some c, Some d) \<Rightarrow>
          (let config = sharedExtProcConfig apiTranslation maxBodyBytes in
           bind_res (configureSharedExtProcResponseMode cn l resources tenantID apiTranslation) (\<lambda>rs.
           bind_res (write_config l config (rs ! c)) (\<lambda>cm.
           bind_res (write_hash l config (rs ! d)) (\<lambda>dep. Inr (rs[c := cm, d := dep])))))
      | _ \<Rightarrow> Inl (EditMissing ''plugin ConfigMap or Deployment''))"

text \<open>One projected source per file.\<close>

definition projected_source :: "extprocCredential \<Rightarrow> uval" where
  "projected_source c =
     UMap [(''secret'', UMap [(''name'', UStr (xc_name c)),
       (''items'', UList [UMap [(''key'', UStr (xc_key c)), (''path'', UStr (trim_prefix (xc_file c) (extprocCredentialDir @ ''/'')))]])])]"

fun once_per_file :: "string list \<Rightarrow> extprocCredential list \<Rightarrow> extprocCredential list" where
  "once_per_file seen [] = []"
| "once_per_file seen (c # cs) =
     (if xc_file c \<in> set seen then once_per_file seen cs else c # once_per_file (xc_file c # seen) cs)"

definition credentials_volume :: "extprocCredential list \<Rightarrow> umap" where
  "credentials_volume credentials =
     [(''name'', UStr ''provider-credentials''),
      (''projected'', UMap [(''sources'', UList (map projected_source (once_per_file [] credentials)))])]"

definition credentials_mount :: umap where
  "credentials_mount = [(''name'', UStr ''provider-credentials''), (''mountPath'', UStr extprocCredentialDir), (''readOnly'', UBool True)]"

datatype ExternalError = ExternalCredential CredentialError | ExternalEdit EditError

definition configureExternalModelExtProc ::
    "child_name \<Rightarrow> obj_lib \<Rightarrow> uobject list \<Rightarrow> string \<Rightarrow> string \<Rightarrow> Candidate list \<Rightarrow> bool \<Rightarrow> int \<Rightarrow> (ExternalError, uobject list) res" where
  "configureExternalModelExtProc cn l resources tenantID namespace candidates apiTranslationEnabled maxBodyBytes =
     bind_res (map_err ExternalCredential (extprocCredentials namespace candidates)) (\<lambda>credentials.
     let config = extprocPostAuthConfig candidates credentials apiTranslationEnabled maxBodyBytes;
         local = (\<lambda>kind name r. uo_Namespace r = namespace \<and> uo_Kind r = kind \<and> has_prefix (uo_Name r) name) in
     map_err ExternalEdit
       (case (find_index (local ''ConfigMap'' (PayloadProcessingExternalModelName @ ''-plugins'')) resources,
              find_index (local ''Deployment'' PayloadProcessingExternalModelName) resources) of
          (Some c, Some d) \<Rightarrow>
            bind_res (write_config l config (resources ! c)) (\<lambda>cm.
            bind_res (configureExternalModelRequestOrdering cn l (resources[c := cm]) tenantID) (\<lambda>rs.
            bind_res (write_hash l config (rs ! d)) (\<lambda>dep.
              if credentials = [] then Inr (rs[d := dep])
              else bind_res (mount_volume l ''provider-credentials'' (credentials_volume credentials) credentials_mount dep) (\<lambda>dep'.
                Inr (rs[d := dep'])))))
        | _ \<Rightarrow> Inl (EditMissing ''plugin ConfigMap or Deployment'')))"

end
