(* ===== verification/TenantCandidates.thy ===== *)
theory TenantCandidates
  imports TenantExtproc TenantReconcile Admission RuntimeProfiles
begin

text \<open>
  The candidates that the processor for ExternalModels serves, \<open>src/pkg/tenant/reconciler.go\<close> from \<open>resolvePraxisRuntimeCandidates\<close> to
  \<open>routingOverlayReady\<close>: the tenant's own models resolved to routes, the candidates that other namespaces attach through the published
  routing overlay, and the check that the overlay is published and complete before the data plane is changed.

  Each read of the cluster is a field of \<open>candidate_reads\<close>, indexed by how many reads of the same kind came before it, so that the cluster may change
  between them. The reason of an overlay that is not ready is only logged and is left out.
\<close>

definition praxisOverlayDataKey :: string where "praxisOverlayDataKey = ''routing-overlay.json''"
definition AnnotationCredentialHeader :: string where "AnnotationCredentialHeader = ''inference.opendatahub.io/credential-header''"

record copySecret =
  cs_Labels :: str_map
  cs_Annotations :: str_map

record candidate_reads =
  cv_models :: "nat \<Rightarrow> (string, ExternalModel list) res"
  cv_providers :: "nat \<Rightarrow> (string, ExternalProvider list) res"
  cv_overlay :: "nat \<Rightarrow> ConfigMap get_result"
  cv_secret :: "string \<Rightarrow> string \<Rightarrow> copySecret get_result"
  cv_live_secret :: "(string \<Rightarrow> string \<Rightarrow> copySecret get_result) option"
  cv_routes :: "(string, HTTPRoute list) res"

datatype CandidatesError =
    CandListModels string
  | CandListProviders string
  | CandGetOverlay string
  | CandCheckOverlay string
  | CandGetCopy string string string
  | CandLiveGetCopy string string string
  | CandResolve ResolveError
  | CandProfile ProfileError

subsection \<open>The tenant's own models\<close>

definition ownExternalModels :: "(string, ExternalModel list) res \<Rightarrow> string \<Rightarrow> string \<Rightarrow> (CandidatesError, ExternalModel list) res" where
  "ownExternalModels listed gatewayName gatewayNamespace =
     bind_res (map_err CandListModels listed) (\<lambda>models. Inr (filter (\<lambda>m. ServedByTenantGateway m gatewayName gatewayNamespace) models))"

definition hasActiveExternalModels :: "candidate_reads \<Rightarrow> string \<Rightarrow> string \<Rightarrow> (CandidatesError, bool) res" where
  "hasActiveExternalModels rd gatewayName gatewayNamespace =
     bind_res (ownExternalModels (cv_models rd 0) gatewayName gatewayNamespace) (\<lambda>models. Inr (list_ex (\<lambda>m. \<not> om_Deleting (em_Meta m)) models))"

definition local_ref :: "string \<Rightarrow> ExternalProviderRef \<Rightarrow> bool" where
  "local_ref namespace ref \<longleftrightarrow>
     pr_Name (er_Ref ref) \<noteq> [] \<and> (pr_Namespace (er_Ref ref) = [] \<or> pr_Namespace (er_Ref ref) = namespace)"

definition required_ref :: "bool \<Rightarrow> (string \<Rightarrow> string) \<Rightarrow> ExternalProviderRef \<Rightarrow> bool" where
  "required_ref apiTranslationEnabled providerTypes ref \<longleftrightarrow>
     (case er_Weight ref of None \<Rightarrow> True | Some w \<Rightarrow> w > 0)
     \<and> \<not> (\<not> apiTranslationEnabled \<and> er_APIFormat ref = ''messages'' \<and> providerTypes (pr_Name (er_Ref ref)) = ''anthropic'')"

definition provider_type :: "ExternalProvider list \<Rightarrow> string \<Rightarrow> string" where
  "provider_type providers name =
     (case map_of (rev (map (\<lambda>p. (om_Name (ep_Meta p), ps_Provider (ep_Spec p))) providers)) name of None \<Rightarrow> [] | Some t \<Rightarrow> t)"

text \<open>The providers that the models of the tenant refer to, and the names of those that the overlay must contain.\<close>

definition providersForTenant ::
    "candidate_reads \<Rightarrow> string \<Rightarrow> string \<Rightarrow> string \<Rightarrow> bool \<Rightarrow> (CandidatesError, ExternalProvider list \<times> string list) res" where
  "providersForTenant rd namespace gatewayName gatewayNamespace apiTranslationEnabled =
     bind_res (map_err CandListProviders (cv_providers rd 1)) (\<lambda>providers.
     bind_res (ownExternalModels (cv_models rd 2) gatewayName gatewayNamespace) (\<lambda>models.
     let refs = filter (local_ref namespace)
                  (concat (map (\<lambda>m. ms_ExternalProviderRefs (em_Spec m)) (filter (\<lambda>m. \<not> om_Deleting (em_Meta m)) models)));
         names = (\<lambda>rs. map (\<lambda>r. pr_Name (er_Ref r)) rs);
         required = names (filter (required_ref apiTranslationEnabled (provider_type providers)) refs);
         found = filter (\<lambda>p. \<not> om_Deleting (ep_Meta p) \<and> om_Name (ep_Meta p) \<in> set (names refs)) providers
     in Inr (found, filter (\<lambda>name. name \<in> set required) (map (\<lambda>p. om_Name (ep_Meta p)) found))))"

definition allRuntimeRoutesExcludedByPolicy :: "ResolvedRouteSet option \<Rightarrow> bool" where
  "allRuntimeRoutesExcludedByPolicy rs =
     (case rs of
        None \<Rightarrow> False
      | Some s \<Rightarrow>
          Models s \<noteq> []
          \<and> list_all (\<lambda>m. mr_Routes m = [] \<and> mr_Skips m \<noteq> [] \<and> list_all (\<lambda>k. sk_Reason k = SkipTranslationDisabled) (mr_Skips m)) (Models s))"

text \<open>A model that refers to providers of other namespaces only has no candidates of its own.\<close>

definition runtime_models :: "string \<Rightarrow> ExternalModel list \<Rightarrow> ExternalModel list" where
  "runtime_models namespace models =
     filter (\<lambda>m. \<not> om_Deleting (em_Meta m)
       \<and> list_ex (\<lambda>r. pr_Namespace (er_Ref r) = [] \<or> pr_Namespace (er_Ref r) = namespace) (ms_ExternalProviderRefs (em_Spec m))) models"

type_synonym home_result = "Candidate list \<times> bool \<times> CandidatesError option"

definition home_candidates ::
    "unstr_lib \<Rightarrow> k8s_lib \<Rightarrow> candidate_reads \<Rightarrow> string \<Rightarrow> bool \<Rightarrow> ExternalModel list \<Rightarrow> ResolvedRouteSet option \<Rightarrow> ResolveError option \<Rightarrow> home_result" where
  "home_candidates u lib rd namespace apiTranslationEnabled models runtimeSet err =
     (let excluded = allRuntimeRoutesExcludedByPolicy runtimeSet in
      case bind_res (ExternalModelRuntimeCandidates runtimeSet apiTranslationEnabled) (\<lambda>candidates.
             RetainHomeRuntimeCandidates lib u (cv_routes rd) namespace candidates apiTranslationEnabled) of
        Inl e \<Rightarrow> ([], False, Some (CandProfile e))
      | Inr candidates \<Rightarrow>
          if err = Some ErrNoRoutes \<and> candidates = [] \<and> models \<noteq> [] then ([], excluded, Some (CandResolve ErrNoRoutes))
          else (candidates, excluded, None))"

definition runtimeCandidates ::
    "unstr_lib \<Rightarrow> k8s_lib \<Rightarrow> candidate_reads \<Rightarrow> string \<Rightarrow> string \<Rightarrow> string \<Rightarrow> bool \<Rightarrow> home_result" where
  "runtimeCandidates u lib rd namespace gatewayName gatewayNamespace apiTranslationEnabled =
     (case (ownExternalModels (cv_models rd 1) gatewayName gatewayNamespace, cv_providers rd 0) of
        (Inl e, _) \<Rightarrow> ([], False, Some e)
      | (_, Inl e) \<Rightarrow> ([], False, Some (CandListProviders e))
      | (Inr models, Inr providers) \<Rightarrow>
          (let modelPtrs = runtime_models namespace models; providerPtrs = filter (\<lambda>p. \<not> om_Deleting (ep_Meta p)) providers in
           case ResolveAllWithAPITranslation lib (map Some modelPtrs) (map Some providerPtrs) apiTranslationEnabled of
             (runtimeSet, err) \<Rightarrow>
               (case err of
                  Some e \<Rightarrow>
                    if e \<noteq> ErrNoRoutes then ([], allRuntimeRoutesExcludedByPolicy runtimeSet, Some (CandResolve e))
                    else home_candidates u lib rd namespace apiTranslationEnabled modelPtrs runtimeSet err
                | None \<Rightarrow> home_candidates u lib rd namespace apiTranslationEnabled modelPtrs runtimeSet err)))"

definition combineRuntimeCandidates ::
    "Candidate list \<Rightarrow> Candidate list \<Rightarrow> CandidatesError option \<Rightarrow> bool \<Rightarrow> (CandidatesError, Candidate list) res" where
  "combineRuntimeCandidates home attached homeErr policyExcludedOnly =
     (if homeErr = Some (CandResolve ErrNoRoutes) \<and> policyExcludedOnly then Inr attached
      else (case homeErr of Some e \<Rightarrow> Inl e | None \<Rightarrow> Inr (home @ attached)))"

subsection \<open>Candidates of other namespaces\<close>

definition overlay_data :: "ConfigMap \<Rightarrow> string" where
  "overlay_data configMap = sm_get (cm_Data configMap) praxisOverlayDataKey"

definition overlay_owned :: "ConfigMap \<Rightarrow> bool" where
  "overlay_owned configMap \<longleftrightarrow> sm_get (cm_Labels configMap) LabelManagedBy = FieldOwner"

text \<open>The copy of the Secret, from the cache or, when it is not there, from the API server.\<close>

definition credential_copy :: "candidate_reads \<Rightarrow> string \<Rightarrow> string \<Rightarrow> (CandidatesError, copySecret option) res" where
  "credential_copy rd namespace name =
     (case cv_secret rd namespace name of
        GetOk s \<Rightarrow> Inr (Some s)
      | GetError e \<Rightarrow> Inl (CandGetCopy namespace name e)
      | GetNotFound \<Rightarrow>
          (case cv_live_secret rd of
             None \<Rightarrow> Inr None
           | Some live \<Rightarrow>
               (case live namespace name of
                  GetOk s \<Rightarrow> Inr (Some s)
                | GetNotFound \<Rightarrow> Inr None
                | GetError e \<Rightarrow> Inl (CandLiveGetCopy namespace name e))))"

definition restore_header :: "copySecret \<Rightarrow> Credential \<Rightarrow> Credential" where
  "restore_header s credential =
     (let header = sm_get (cs_Annotations s) AnnotationCredentialHeader in
      if sm_get (cs_Labels s) LabelCredentialCopy = ''true'' \<and> IsQualifiedAuthHeader header then credential\<lparr>cr_Header := header\<rparr> else credential)"

definition attach_candidate :: "candidate_reads \<Rightarrow> Candidate \<Rightarrow> (CandidatesError, Candidate list) res" where
  "attach_candidate rd candidate =
     (if \<not> IsScopedStableID (ca_StableID candidate) then Inr []
      else (case ca_Credential candidate of
              None \<Rightarrow> Inr [candidate]
            | Some credential \<Rightarrow>
                bind_res (credential_copy rd (sr_Namespace (cr_SecretRef credential)) (sr_Name (cr_SecretRef credential))) (\<lambda>found.
                  Inr (case found of
                         None \<Rightarrow> []
                       | Some s \<Rightarrow> [candidate\<lparr>ca_Credential := Some (restore_header s credential)\<rparr>]))))"

text \<open>The second component reports a published overlay that cannot be read.\<close>

definition attachedOverlayCandidates :: "candidate_reads \<Rightarrow> (CandidatesError, Candidate list \<times> bool) res" where
  "attachedOverlayCandidates rd =
     (case cv_overlay rd 0 of
        GetNotFound \<Rightarrow> Inr ([], False)
      | GetError e \<Rightarrow> Inl (CandGetOverlay e)
      | GetOk configMap \<Rightarrow>
          if \<not> overlay_owned configMap then Inr ([], False)
          else (case unmarshal dec_envelope (overlay_data configMap) of
                  Inl _ \<Rightarrow> Inr ([], True)
                | Inr env \<Rightarrow> bind_res (mapM_res (attach_candidate rd) (ov_Candidates (ev_Overlay env))) (\<lambda>cs. Inr (concat cs, False))))"

subsection \<open>The published overlay\<close>

definition overlay_valid :: "jcs_fn \<Rightarrow> string \<Rightarrow> string \<Rightarrow> Envelope \<Rightarrow> bool" where
  "overlay_valid jcs namespace raw env \<longleftrightarrow>
     ev_SchemaVersion env = SchemaVersion \<and> rf_Value (ev_Revision env) \<noteq> [] \<and> dg_Value (ev_ContentDigest env) = rf_Value (ev_Revision env)
     \<and> sc_Namespace (ev_Scope env) = namespace \<and> ComputeDigestFromWire jcs raw = Inr (rf_Value (ev_Revision env))"

definition overlay_has :: "Envelope \<Rightarrow> string \<Rightarrow> bool" where
  "overlay_has env provider \<longleftrightarrow> ''provider-'' @ provider \<in> set (map ca_Cluster (ov_Candidates (ev_Overlay env)))"

definition routingOverlayReady :: "jcs_fn \<Rightarrow> candidate_reads \<Rightarrow> string \<Rightarrow> string list \<Rightarrow> (CandidatesError, bool) res" where
  "routingOverlayReady jcs rd namespace requiredProviders =
     (case cv_overlay rd 1 of
        GetNotFound \<Rightarrow> Inr False
      | GetError e \<Rightarrow> Inl (CandCheckOverlay e)
      | GetOk configMap \<Rightarrow>
          if \<not> overlay_owned configMap \<or> overlay_data configMap = [] then Inr False
          else (case unmarshal dec_envelope (overlay_data configMap) of
                  Inl _ \<Rightarrow> Inr False
                | Inr env \<Rightarrow> Inr (overlay_valid jcs namespace (overlay_data configMap) env \<and> list_all (overlay_has env) requiredProviders)))"

text \<open>The result: the candidates, whether the processor for ExternalModels is served, and whether the overlay is ready.\<close>

definition resolvePraxisRuntimeCandidates ::
    "jcs_fn \<Rightarrow> unstr_lib \<Rightarrow> k8s_lib \<Rightarrow> candidate_reads \<Rightarrow> string \<Rightarrow> string \<Rightarrow> string \<Rightarrow> bool \<Rightarrow> (CandidatesError, Candidate list \<times> bool \<times> bool) res" where
  "resolvePraxisRuntimeCandidates jcs u lib rd tenantNamespace gatewayName gatewayNamespace apiTranslation =
     bind_res (hasActiveExternalModels rd gatewayName gatewayNamespace) (\<lambda>hasModels.
     bind_res (attachedOverlayCandidates rd) (\<lambda>(attached, unreadableOverlay).
     case runtimeCandidates u lib rd tenantNamespace gatewayName gatewayNamespace apiTranslation of (homeCandidates, policyExcludedOnly, homeErr) \<Rightarrow>
       if homeErr \<noteq> None \<and> homeErr \<noteq> Some (CandResolve ErrNoRoutes) then Inl (the homeErr)
       else if \<not> (hasModels \<or> homeCandidates \<noteq> [] \<or> attached \<noteq> [] \<or> unreadableOverlay) then Inr ([], False, True)
       else if policyExcludedOnly \<and> attached = [] \<and> \<not> unreadableOverlay then Inr ([], False, True)
       else bind_res (providersForTenant rd tenantNamespace gatewayName gatewayNamespace apiTranslation) (\<lambda>(_, requiredProviders).
            bind_res (routingOverlayReady jcs rd tenantNamespace requiredProviders) (\<lambda>ready.
              if \<not> ready then Inr ([], True, False)
              else bind_res (combineRuntimeCandidates homeCandidates attached homeErr policyExcludedOnly) (\<lambda>candidates.
                Inr (candidates, True, True))))))"

definition omitNetworkPolicies :: "bool \<Rightarrow> uobject list \<Rightarrow> uobject list" where
  "omitNetworkPolicies skip resources = (if \<not> skip then resources else filter (\<lambda>r. uo_Kind r \<noteq> ''NetworkPolicy'') resources)"

end
