(* ===== verification/TenantStages.thy ===== *)
theory TenantStages
  imports TenantCandidates
begin

text \<open>
  The stages of a tenant's reconcile put together from the code: \<open>src/pkg/render/postrender.go\<close>, which replaces the placeholders of the rendered
  manifests, and the calls of \<open>reconcilePraxis\<close> in \<open>src/pkg/tenant/reconciler.go\<close> between rendering and applying. \<open>code_stages\<close> is the value of the
  record \<open>stages\<close> that the reconciler of this repository runs with.

  Kustomize (\<open>render.Build\<close>) is not part of the repository: \<open>sl_build\<close> is what it returns. An error of a stage keeps the text that
  \<open>reconcilePraxis\<close> wraps it with.
\<close>

subsection \<open>Placeholders\<close>

record Params =
  pa_Namespace :: string
  pa_GatewayName :: string
  pa_Image :: string
  pa_MaaSAPIRouteName :: string
  pa_MaaSAPIRouteNamespace :: string

definition clusterScopedKinds :: "string list" where
  "clusterScopedKinds = [''ClusterRole'', ''ClusterRoleBinding'', ''CustomResourceDefinition'', ''Namespace'']"

definition placeholderReplacements :: "Params \<Rightarrow> (string \<times> string) list" where
  "placeholderReplacements p =
     [(''openshift-ingress.kuadrant-maas-default-gateway'', pa_Namespace p @ ''.kuadrant-'' @ pa_GatewayName p),
      (''.openshift-ingress.svc.cluster.local'', ''.'' @ pa_Namespace p @ ''.svc.cluster.local''),
      (''maas-default-gateway'', pa_GatewayName p),
      (''openshift-ingress'', pa_Namespace p),
      (''PLACEHOLDER.maas-api-route'',
         if pa_MaaSAPIRouteNamespace p = [] then pa_MaaSAPIRouteName p else pa_MaaSAPIRouteNamespace p @ ''.'' @ pa_MaaSAPIRouteName p),
      (''praxis-extproc:dev'', pa_Image p)]"

definition replace_text :: "(string \<times> string) list \<Rightarrow> string \<Rightarrow> string" where
  "replace_text replacements s = fold (\<lambda>(old, new) v. replace_all v old new) replacements s"

fun replaceStrings :: "(string \<times> string) list \<Rightarrow> uval \<Rightarrow> uval" where
  "replaceStrings rs (UMap m) = UMap (map (\<lambda>(k, v). (k, replaceStrings rs v)) m)"
| "replaceStrings rs (UList vs) = UList (map (replaceStrings rs) vs)"
| "replaceStrings rs (UStr s) = UStr (replace_text rs s)"
| "replaceStrings rs v = v"

text \<open>The content of an object includes its kind and its metadata.\<close>

definition replace_object :: "(string \<times> string) list \<Rightarrow> uobject \<Rightarrow> uobject" where
  "replace_object rs u =
     (let texts = map (\<lambda>(k, v). (k, replace_text rs v)) in
      u\<lparr>uo_Kind := replace_text rs (uo_Kind u), uo_Name := replace_text rs (uo_Name u), uo_Namespace := replace_text rs (uo_Namespace u),
        uo_Labels := texts (uo_Labels u), uo_Annotations := texts (uo_Annotations u),
        uo_Object := map (\<lambda>(k, v). (k, replaceStrings rs v)) (uo_Object u)\<rparr>)"

definition default_namespace :: "string \<Rightarrow> uobject \<Rightarrow> uobject" where
  "default_namespace namespace u =
     (if uo_Kind u \<notin> set clusterScopedKinds \<and> uo_Namespace u = [] then u\<lparr>uo_Namespace := namespace\<rparr> else u)"

definition PostRender :: "uobject list \<Rightarrow> Params \<Rightarrow> uobject list" where
  "PostRender resources p = map (\<lambda>u. default_namespace (pa_Namespace p) (replace_object (placeholderReplacements p) u)) resources"

subsection \<open>The stages\<close>

record stage_lib =
  sl_child :: child_name
  sl_obj :: obj_lib
  sl_k8s :: k8s_lib
  sl_scale :: scale_lib
  sl_jcs :: jcs_fn
  sl_build :: "(string, uobject list) res"
  sl_Image :: string
  sl_MaaSAPIRouteNameBase :: string
  sl_SkipNetworkPolicy :: bool
  sl_reads :: "nat \<Rightarrow> string \<Rightarrow> candidate_reads"

definition in_stage :: "string \<Rightarrow> ('e, 'a) res \<Rightarrow> (string, 'a) res" where
  "in_stage what = map_err (\<lambda>_. what)"

definition render_params :: "stage_lib \<Rightarrow> string \<Rightarrow> string \<Rightarrow> string \<Rightarrow> string \<Rightarrow> Params" where
  "render_params s gatewayName gatewayNamespace infraNamespace tenantID =
     \<lparr>pa_Namespace = gatewayNamespace, pa_GatewayName = gatewayName, pa_Image = sl_Image s,
      pa_MaaSAPIRouteName = ResourceName (sl_child s) (sl_MaaSAPIRouteNameBase s) tenantID, pa_MaaSAPIRouteNamespace = infraNamespace\<rparr>"

text \<open>A tenant whose names do not fit is not retried: \<open>None\<close>.\<close>

definition render_stage :: "stage_lib \<Rightarrow> mtc_copy \<Rightarrow> string \<Rightarrow> string \<Rightarrow> string \<Rightarrow> string \<Rightarrow> (string, uobject list option) res" where
  "render_stage s mtc gatewayName gatewayNamespace infraNamespace tenantID =
     bind_res (in_stage ''render'' (sl_build s)) (\<lambda>rendered.
       Inr (case Rename (sl_child s) (sl_obj s) (PostRender rendered (render_params s gatewayName gatewayNamespace infraNamespace tenantID))
                tenantID gatewayNamespace of
              Inl _ \<Rightarrow> None
            | Inr resources \<Rightarrow> Some resources))"

definition shared_stage :: "stage_lib \<Rightarrow> mtc_copy \<Rightarrow> uobject list \<Rightarrow> string \<Rightarrow> string \<Rightarrow> bool \<Rightarrow> (string, uobject list) res" where
  "shared_stage s mtc resources tenantID gatewayNamespace apiTranslation =
     in_stage ''configure shared ExtProc'' (configureSharedExtProc (sl_child s) (sl_obj s) resources tenantID gatewayNamespace apiTranslation
       (resolveExtProcMaxBodyBytes (Some (mc_obj mtc))))"

definition candidates_stage ::
    "stage_lib \<Rightarrow> nat \<Rightarrow> string \<Rightarrow> string \<Rightarrow> string \<Rightarrow> bool \<Rightarrow> (string, Candidate list \<times> bool \<times> bool) res" where
  "candidates_stage s n tenantNamespace gatewayName gatewayNamespace apiTranslation =
     in_stage ''resolve runtime candidates'' (resolvePraxisRuntimeCandidates (sl_jcs s) (ol_unstr (sl_obj s)) (sl_k8s s)
       (sl_reads s n tenantNamespace) tenantNamespace gatewayName gatewayNamespace apiTranslation)"

definition external_stage ::
    "stage_lib \<Rightarrow> mtc_copy \<Rightarrow> uobject list \<Rightarrow> string \<Rightarrow> bool \<Rightarrow> Candidate list \<Rightarrow> bool \<Rightarrow> (string, uobject list) res" where
  "external_stage s mtc resources tenantID serving candidates apiTranslation =
     (if serving
      then in_stage ''configure ExternalModel ExtProc'' (configureExternalModelExtProc (sl_child s) (sl_obj s) resources tenantID (mc_Namespace mtc)
             candidates apiTranslation (resolveExtProcMaxBodyBytes (Some (mc_obj mtc))))
      else Inr (RemoveExternalModelResources (sl_child s) resources tenantID))"

definition configure_stage ::
    "stage_lib \<Rightarrow> mtc_copy \<Rightarrow> uobject list \<Rightarrow> string \<Rightarrow> string \<Rightarrow> bool \<Rightarrow> Candidate list \<Rightarrow> bool \<Rightarrow> (string, uobject list) res" where
  "configure_stage s mtc resources tenantID gatewayNamespace serving candidates apiTranslation =
     (let l = sl_obj s; config = Some (mc_obj mtc) in
      bind_res (in_stage ''split ExternalModel ExtProc resources''
        (SplitPostAuthResources (sl_child s) l resources tenantID gatewayNamespace (mc_Namespace mtc))) (\<lambda>rs.
      bind_res (external_stage s mtc rs tenantID serving candidates apiTranslation) (\<lambda>rs.
      bind_res (in_stage ''configure ExtProc concurrency'' (configureExtProcConcurrency l rs (resolveExtProcMaxRequests config))) (\<lambda>rs.
      bind_res (in_stage ''configure ExtProc body limits'' (configureExtProcBodyLimits l rs (resolveExtProcMaxBodyBytes config))) (\<lambda>rs.
        in_stage ''configure IPP scaling'' (configureIPPScaling (sl_child s) l (omitNetworkPolicies (sl_SkipNetworkPolicy s) rs) tenantID
          gatewayNamespace (resolveIPPScaling (sl_scale s) l (mc_obj mtc))))))))"

definition code_stages :: "stage_lib \<Rightarrow> stages" where
  "code_stages s =
     \<lparr>sg_render = render_stage s, sg_shared = shared_stage s, sg_candidates = candidates_stage s, sg_configure = configure_stage s,
      sg_autoscaling = (\<lambda>mtc. let scaling = resolveIPPScaling (sl_scale s) (sl_obj s) (mc_obj mtc) in
        (ws_autoscaling (is_processing scaling), ws_autoscaling (is_preProcessing scaling)))\<rparr>"

end
