(* ===== verification/TenantLayoutCorrect.thy ===== *)
theory TenantLayoutCorrect
  imports TenantExtproc TenantReconcile
begin

text \<open>
  What the layout of a tenant's resources keeps. An edit changes the content of an object and not the key it is stored under, unless it is the
  edit that renames it. The rules are stated for \<open>returns\<close>: a property of the result when there is one.
\<close>

subsection \<open>Results of edits\<close>

definition returns :: "('a \<Rightarrow> bool) \<Rightarrow> ('e, 'a) res \<Rightarrow> bool" where
  "returns P r \<longleftrightarrow> (\<forall>x. r = Inr x \<longrightarrow> P x)"

named_theorems edit_rules

lemma returnsD: "returns P r \<Longrightarrow> r = Inr x \<Longrightarrow> P x"
  by (simp add: returns_def)

lemma returns_Inr [simp]: "returns P (Inr x) = P x"
  by (simp add: returns_def)

lemma returns_Inl [simp]: "returns P (Inl e)"
  by (simp add: returns_def)

lemma returns_bind: "returns Q r \<Longrightarrow> (\<And>x. Q x \<Longrightarrow> returns P (f x)) \<Longrightarrow> returns P (bind_res r f)"
  by (cases r) (simp_all add: returns_def)

lemma returns_then: "(\<And>x. returns P (f x)) \<Longrightarrow> returns P (bind_res r f)"
  by (cases r) (simp_all add: returns_def)

lemma returns_map_err [simp]: "returns P (map_err f r) = returns P r"
  by (cases r) (simp_all add: returns_def map_err_def)

lemma returns_mono: "returns Q r \<Longrightarrow> (\<And>x. Q x \<Longrightarrow> P x) \<Longrightarrow> returns P r"
  by (simp add: returns_def)

text \<open>The key of the result of an edit.\<close>

abbreviation keyed_as :: "objkey \<Rightarrow> (EditError, uobject) res \<Rightarrow> bool" where
  "keyed_as k \<equiv> returns (\<lambda>u. key_of u = k)"

lemma keyed_bind: "keyed_as k r \<Longrightarrow> (\<And>u. key_of u = k \<Longrightarrow> keyed_as k' (f u)) \<Longrightarrow> keyed_as k' (bind_res r f)"
  by (rule returns_bind)

lemma keyed_put [edit_rules]: "key_of u = k \<Longrightarrow> keyed_as k (put_at l what v path u)"
  by (auto simp: put_at_def key_of_def intro!: returns_then)

lemma keyed_name [edit_rules]: "keyed_as (uo_Kind u, uo_Namespace u, name) (setName name u)"
  by (simp add: setName_def key_of_def)

lemma key_fields:
  "key_of (setObjectLabel k v u) = key_of u"
  "key_of (setServingCertSecretName s u) = key_of u"
  "key_of (setReloaderSecretName s u) = key_of u"
  by (simp_all add: key_of_def setObjectLabel_def setServingCertSecretName_def setReloaderSecretName_def)

lemmas put_edits = setSelectorMatchLabels_def setServiceSelector_def setServiceAccountName_def

lemma keyed_puts [edit_rules]:
  assumes "key_of u = k"
  shows "keyed_as k (setSelectorMatchLabels l labels u)" "keyed_as k (setServiceSelector l labels u)" "keyed_as k (setServiceAccountName l name u)"
  using assms by (auto simp: put_edits intro: edit_rules)

lemma keyed_pod_label [edit_rules]: "key_of u = k \<Longrightarrow> keyed_as k (addPodTemplateLabel l a b u)"
  by (auto simp: addPodTemplateLabel_def intro!: returns_then edit_rules)

lemma keyed_volume_source: "key_of u = k \<Longrightarrow> keyed_as k (set_volume_source l source field volumeName name u)"
  by (auto simp: set_volume_source_def intro!: returns_then edit_rules split: option.splits uval.splits)

lemma keyed_volumes [edit_rules]:
  "key_of u = k \<Longrightarrow> keyed_as k (setConfigMapVolumeName l volumeName name u)"
  "key_of u = k \<Longrightarrow> keyed_as k (setTLSSecretVolumeName l volumeName name u)"
  by (simp_all add: setConfigMapVolumeName_def setTLSSecretVolumeName_def keyed_volume_source)

lemma keyed_repoint [edit_rules]: "key_of u = k \<Longrightarrow> keyed_as k (repoint_clusters l what targets u)"
  by (auto simp: repoint_clusters_def intro!: returns_then edit_rules split: option.splits)

lemma keyed_mount [edit_rules]: "key_of u = k \<Longrightarrow> keyed_as k (mount_volume l name volume mount u)"
  unfolding mount_volume_def
  by (rule returns_then, rule keyed_bind, rule keyed_put, assumption, rule returns_then)
     (auto intro!: returns_then edit_rules split: list.splits uval.splits)

lemma keyed_if: "(b \<Longrightarrow> keyed_as k r) \<Longrightarrow> (\<not> b \<Longrightarrow> keyed_as k s) \<Longrightarrow> keyed_as k (if b then r else s)"
  by simp

lemma keyed_chain: "keyed_as k r \<Longrightarrow> (\<And>u. key_of u = k \<Longrightarrow> keyed_as k (f u)) \<Longrightarrow> keyed_as k (bind_res r f)"
  by (rule returns_bind)

lemma keyed_named: "(\<And>u'. key_of u' = (uo_Kind u, uo_Namespace u, name) \<Longrightarrow> keyed_as (uo_Kind u, uo_Namespace u, name) (f u'))
    \<Longrightarrow> keyed_as (uo_Kind u, uo_Namespace u, name) (bind_res (setName name u) f)"
  by (rule returns_bind [OF keyed_name])

lemma keyed_field:
  "key_of u = k \<Longrightarrow> key_of (setObjectLabel a v u) = k"
  "key_of u = k \<Longrightarrow> key_of (setServingCertSecretName s u) = k"
  "key_of u = k \<Longrightarrow> key_of (setReloaderSecretName s u) = k"
  by (simp_all add: key_fields)

subsection \<open>Keys after renaming\<close>

lemma keyed_deployment: "keyed_as (uo_Kind u, uo_Namespace u, newName) (rename_deployment cn l t newName app sa tls u)"
  unfolding rename_deployment_def
  by (intro keyed_named keyed_chain edit_rules keyed_if keyed_field | simp add: key_fields)+

lemma keyed_renames [edit_rules]:
  "keyed_as (uo_Kind u, uo_Namespace u, PayloadProcessingDeploymentName cn t) (renamePayloadProcessingDeployment cn l t u)"
  "keyed_as (uo_Kind u, uo_Namespace u, PayloadPreProcessingDeploymentName cn t) (renamePayloadPreProcessingDeployment cn l t u)"
  "keyed_as (uo_Kind u, uo_Namespace u, PayloadProcessingServiceName cn t) (renamePayloadProcessingService cn l t u)"
  "keyed_as (uo_Kind u, uo_Namespace u, PayloadPreProcessingServiceName cn t) (renamePayloadPreProcessingService cn l t u)"
  "keyed_as (uo_Kind u, uo_Namespace u, PayloadProcessingNetworkPolicyName cn t) (renamePayloadProcessingNetworkPolicy cn l t u)"
  "keyed_as (uo_Kind u, uo_Namespace u, PayloadProcessingEnvoyFilterName cn t) (renamePayloadProcessingEnvoyFilter cn l t ns u)"
  "keyed_as (uo_Kind u, uo_Namespace u, PayloadProcessingExternalModelFilterNameForTenant cn t)
     (renamePayloadProcessingExternalModelFilter cn l t ns u)"
  "keyed_as (uo_Kind u, uo_Namespace u, PayloadProcessingMetricsServiceNameForTenant cn t) (renamePayloadProcessingMetricsService cn l t u)"
  "keyed_as (uo_Kind u, uo_Namespace u, PayloadProcessingMetricsMonitorNameForTenant cn t) (renamePayloadProcessingMetricsMonitor cn l t u)"
  "keyed_as (uo_Kind u, uo_Namespace u, serviceName) (renamePayloadDestinationRule l serviceName ns u)"
  unfolding renamePayloadProcessingDeployment_def renamePayloadPreProcessingDeployment_def renamePayloadProcessingService_def
    renamePayloadPreProcessingService_def renamePayloadProcessingNetworkPolicy_def renamePayloadProcessingEnvoyFilter_def
    patchPayloadProcessingEnvoyFilterNamespaces_def renamePayloadProcessingExternalModelFilter_def renamePayloadProcessingMetricsService_def
    renamePayloadProcessingMetricsMonitor_def renamePayloadDestinationRule_def Let_def
  by (intro keyed_deployment keyed_named keyed_chain edit_rules keyed_field | simp add: key_fields)+

lemma keyed_auth_binding [edit_rules]:
  "keyed_as (uo_Kind u, uo_Namespace u, PayloadProcessingMetricsAuthClusterRoleBindingNameForTenant cn t)
     (renamePayloadProcessingMetricsAuthBinding cn l t u)"
  unfolding renamePayloadProcessingMetricsAuthBinding_def
  by (intro keyed_named returns_then) (auto intro: edit_rules split: list.splits uval.splits)

text \<open>The renamed objects, by kind and name in the manifests, with the name of the tenant. \<open>renameOne\<close> leaves every other object alone.\<close>

definition tenant_names :: "child_name \<Rightarrow> string \<Rightarrow> ((string \<times> string) \<times> string) list" where
  "tenant_names cn t =
     [((''Deployment'', PayloadProcessingName), PayloadProcessingDeploymentName cn t),
      ((''Deployment'', PayloadPreProcessingName), PayloadPreProcessingDeploymentName cn t),
      ((''Service'', PayloadProcessingName), PayloadProcessingServiceName cn t),
      ((''Service'', PayloadPreProcessingName), PayloadPreProcessingServiceName cn t),
      ((''ConfigMap'', PayloadProcessingPluginsConfigMapName), PayloadProcessingPluginsConfigMapForTenant cn t),
      ((''ServiceAccount'', PayloadProcessingName), PayloadProcessingServiceAccountName cn t),
      ((''NetworkPolicy'', PayloadProcessingName), PayloadProcessingNetworkPolicyName cn t),
      ((''EnvoyFilter'', PayloadProcessingName), PayloadProcessingEnvoyFilterName cn t),
      ((''EnvoyFilter'', PayloadProcessingExternalModelFilterName), PayloadProcessingExternalModelFilterNameForTenant cn t),
      ((''DestinationRule'', PayloadProcessingName), PayloadProcessingServiceName cn t),
      ((''DestinationRule'', PayloadPreProcessingName), PayloadPreProcessingServiceName cn t),
      ((''Service'', PayloadProcessingMetricsServiceName), PayloadProcessingMetricsServiceNameForTenant cn t),
      ((''ServiceMonitor'', PayloadProcessingMetricsMonitorName), PayloadProcessingMetricsMonitorNameForTenant cn t),
      ((''ClusterRoleBinding'', PayloadProcessingMetricsAuthName), PayloadProcessingMetricsAuthClusterRoleBindingNameForTenant cn t)]"

definition tenant_name :: "child_name \<Rightarrow> string \<Rightarrow> uobject \<Rightarrow> string" where
  "tenant_name cn t u = (case map_of (tenant_names cn t) (uo_Kind u, uo_Name u) of None \<Rightarrow> uo_Name u | Some name \<Rightarrow> name)"

lemmas manifest_names = PayloadProcessingName_def PayloadPreProcessingName_def PayloadProcessingPluginsConfigMapName_def
  PayloadProcessingExternalModelFilterName_def PayloadProcessingMetricsServiceName_def PayloadProcessingMetricsMonitorName_def
  PayloadProcessingMetricsAuthName_def PayloadProcessingExternalModelName_def PayloadProcessingReaderClusterRoleBindingName_def

lemma keyed_eq: "keyed_as k r \<Longrightarrow> k = k' \<Longrightarrow> keyed_as k' r"
  by simp

lemma keyed_case: "(a \<Longrightarrow> b \<Longrightarrow> keyed_as k r) \<Longrightarrow> (\<not> (a \<and> b) \<Longrightarrow> keyed_as k s) \<Longrightarrow> keyed_as k (if a \<and> b then r else s)"
  by simp

lemma keyed_renameOne: "keyed_as (uo_Kind u, uo_Namespace u, tenant_name cn t u) (renameOne cn l t ns u)"
proof -
  note names = tenant_name_def tenant_names_def manifest_names
  show ?thesis
    unfolding renameOne_def Let_def
    by (rule keyed_case, rule keyed_eq, rule edit_rules, simp add: names)+
       (clarsimp simp: tenant_name_def tenant_names_def key_of_def, blast)
qed

text \<open>The keys that one object of the manifests leads to.\<close>

definition rename_keys :: "child_name \<Rightarrow> string \<Rightarrow> uobject \<Rightarrow> objkey set" where
  "rename_keys cn t u =
     insert (uo_Kind u, uo_Namespace u, tenant_name cn t u)
       (if uo_Kind u = ''ServiceAccount'' then {(''ServiceAccount'', uo_Namespace u, PayloadProcessingPostServiceAccountName cn t)} else {})"

lemma returns_rename_step: "returns (\<lambda>out. \<forall>r \<in> set out. key_of r \<in> rename_keys cn t u) (rename_step cn l t ns u)"
  unfolding rename_step_def
  by (rule returns_bind [where Q = "\<lambda>u'. key_of u' = (uo_Kind u, uo_Namespace u, tenant_name cn t u)"])
     (simp_all add: keyed_renameOne, auto simp: rename_keys_def key_of_def newPostAuthServiceAccount_def)

lemma returns_mapM_concat:
  assumes "\<And>x. x \<in> set xs \<Longrightarrow> returns (\<lambda>out. \<forall>r \<in> set out. P x r) (f x)"
  shows "returns (\<lambda>out. \<forall>r \<in> set out. \<exists>x \<in> set xs. P x r) (bind_res (mapM_res f xs) (\<lambda>rs. Inr (concat rs)))"
proof (rule returns_bind [where Q = "\<lambda>rs. list_all2 (\<lambda>x out. \<forall>r \<in> set out. P x r) xs rs"])
  show "returns (list_all2 (\<lambda>x out. \<forall>r \<in> set out. P x r) xs) (mapM_res f xs)"
    using assms unfolding returns_def mapM_res_Inr by (auto elim!: list.rel_mono_strong)
next
  fix rs assume "list_all2 (\<lambda>x out. \<forall>r \<in> set out. P x r) xs rs"
  then show "returns (\<lambda>out. \<forall>r \<in> set out. \<exists>x \<in> set xs. P x r) (Inr (concat rs))"
    by (auto simp: list_all2_conv_all_nth in_set_conv_nth) (metis nth_mem)
qed

lemma returns_Rename: "returns (\<lambda>out. \<forall>r \<in> set out. \<exists>u \<in> set resources. key_of r \<in> rename_keys cn t u) (Rename cn l resources t ns)"
  unfolding Rename_def by (rule returns_mapM_concat) (rule returns_rename_step)

subsection \<open>Keys after the split\<close>

lemma keyed_external [edit_rules]:
  "keyed_as (uo_Kind u, uo_Namespace u, PayloadProcessingExternalModelDeploymentName cn t) (configureExternalModelDeployment cn l t u)"
  unfolding configureExternalModelDeployment_def Let_def
  by (intro keyed_named keyed_chain edit_rules keyed_field | simp add: key_fields)+

lemma keyed_keep_config [edit_rules]: "key_of u = k \<Longrightarrow> keyed_as k (keepExternalModelConfig l u)"
  by (auto simp: keepExternalModelConfig_def intro!: returns_then edit_rules split: option.splits)

lemma keyed_external_service [edit_rules]:
  "keyed_as (uo_Kind u, uo_Namespace u, PayloadProcessingExternalModelServiceName cn t) (external_service cn l t u)"
  unfolding external_service_def by (intro keyed_chain edit_rules) (simp_all add: key_fields, simp add: key_of_def)

lemma keyed_external_config [edit_rules]:
  "keyed_as (uo_Kind u, uo_Namespace u, PayloadProcessingExternalModelPluginsConfigMapForTenant cn t) (external_config cn l t u)"
  unfolding external_config_def by (intro edit_rules) (simp add: key_of_def)

lemma keyed_selector_values [edit_rules]: "key_of u = k \<Longrightarrow> keyed_as k (filterTenantInstanceSelectorValues l instances u)"
  by (auto simp: filterTenantInstanceSelectorValues_def intro!: returns_then edit_rules split: option.splits)

text \<open>The keys of the copies that serve ExternalModels; the NetworkPolicy of the tenant's namespace stays when they are removed.\<close>

definition split_keys :: "child_name \<Rightarrow> string \<Rightarrow> string \<Rightarrow> string \<Rightarrow> objkey set" where
  "split_keys cn t gw tn =
     set (external_model_targets cn t gw tn) \<union> {(''NetworkPolicy'', tn, PayloadProcessingNetworkPolicyName cn t)}"

definition split_kinds :: "string list" where
  "split_kinds = [''Deployment'', ''Service'', ''DestinationRule'', ''ConfigMap'', ''ServiceAccount'', ''NetworkPolicy'']"

lemma returns_pair: "key_of u \<in> K \<Longrightarrow> keyed_as k r \<Longrightarrow> k \<in> K \<Longrightarrow>
    returns (\<lambda>out. \<forall>r \<in> set out. key_of r \<in> K) (bind_res r (\<lambda>e. Inr [u, e]))"
  by (auto simp: returns_def bind_res_Inr_iff)

lemma returns_single: "keyed_as k r \<Longrightarrow> k \<in> K \<Longrightarrow> returns (\<lambda>out. \<forall>r \<in> set out. key_of r \<in> K) (bind_res r (\<lambda>e. Inr [e]))"
  by (auto simp: returns_def bind_res_Inr_iff)

lemma returns_case: "(a \<Longrightarrow> b \<Longrightarrow> returns P r) \<Longrightarrow> returns P s \<Longrightarrow> returns P (if a \<and> b then r else s)"
  by simp

lemmas split_key_defs = split_kinds_def split_keys_def external_model_targets_def key_of_def

lemma returns_split_across:
  assumes "uo_Namespace u = gw \<or> uo_Kind u \<notin> set split_kinds"
  shows "returns (\<lambda>out. \<forall>r \<in> set out. key_of r \<in> insert (key_of u) (split_keys cn t gw tn)) (split_across cn l t tn u)"
  unfolding split_across_def Let_def
  by ((rule returns_case,
        ((rule returns_pair, simp, rule edit_rules, (rule refl)?) | (rule returns_single, rule edit_rules) | succeed),
        use assms in \<open>simp add: split_key_defs\<close>)+) simp

lemma returns_branch: "(a \<Longrightarrow> returns P r) \<Longrightarrow> returns P s \<Longrightarrow> returns P (if a then r else s)"
  by simp

lemma returns_split_same:
  assumes "uo_Namespace u = tn \<or> uo_Kind u \<notin> set split_kinds"
  shows "returns (\<lambda>out. \<forall>r \<in> set out. key_of r \<in> insert (key_of u) (split_keys cn t tn tn)) (split_same cn l t tn u)"
  unfolding split_same_def Let_def
  by ((rule returns_branch, (elim conjE)?,
        ((rule returns_pair, simp, rule edit_rules) | (rule returns_single, rule edit_rules, rule refl) | succeed),
        use assms in \<open>simp add: split_key_defs\<close>)+) simp

text \<open>Every resource after the split stands under a key of the renamed resources or of the copies.\<close>

lemma returns_split:
  assumes "\<And>u. u \<in> set resources \<Longrightarrow> uo_Namespace u = gw \<or> uo_Kind u \<notin> set split_kinds"
  shows "returns (\<lambda>out. \<forall>r \<in> set out. \<exists>u \<in> set resources. key_of r \<in> insert (key_of u) (split_keys cn t gw tn))
           (SplitPostAuthResources cn l resources t gw tn)"
  unfolding SplitPostAuthResources_def
  by (rule returns_mapM_concat) (use assms returns_split_across returns_split_same in \<open>auto split: if_splits\<close>)

subsection \<open>Keys after the settings\<close>

abbreviation same_keys :: "uobject list \<Rightarrow> ('e, uobject list) res \<Rightarrow> bool" where
  "same_keys rs \<equiv> returns (\<lambda>rs'. map key_of rs' = map key_of rs)"

abbreviation edits :: "uobject \<Rightarrow> (EditError, uobject \<times> nat) res \<Rightarrow> bool" where
  "edits u \<equiv> returns (\<lambda>(u', n). key_of u' = key_of u)"

lemma edits_done: "keyed_as (key_of u) r \<Longrightarrow> edits u (bind_res r (\<lambda>u'. Inr (u', n)))"
  by (rule returns_bind) simp_all

lemma same_keys_edit_all: "(\<And>u. edits u (f u)) \<Longrightarrow> returns (\<lambda>(rs', n). map key_of rs' = map key_of rs) (edit_all f rs)"
proof (induction rs)
  case (Cons r rs)
  show ?case
    unfolding edit_all.simps
    by (rule returns_bind [OF Cons.prems]) (auto intro!: returns_bind [OF Cons.IH [OF Cons.prems]])
qed simp

lemma same_keys_edit_some [edit_rules]: "(\<And>u. edits u (f u)) \<Longrightarrow> same_keys rs (edit_some what f rs)"
  unfolding edit_some_def by (rule returns_bind [OF same_keys_edit_all]) auto

lemma same_keys_chain:
  "same_keys rs r \<Longrightarrow> (\<And>rs'. map key_of rs' = map key_of rs \<Longrightarrow> same_keys rs (f rs')) \<Longrightarrow> same_keys rs (bind_res r f)"
  by (rule returns_bind)

lemma same_keys_update: "i < length rs \<Longrightarrow> key_of u = key_of (rs ! i) \<Longrightarrow> map key_of (rs[i := u]) = map key_of rs"
  by (simp add: map_update list_update_same_conv)

lemma edits_config_map: "edits cm (patchPluginConfigMapMaxBodyBytes l n cm)"
  unfolding patchPluginConfigMapMaxBodyBytes_def
  by (rule returns_then) (auto split: option.splits prod.splits intro!: edits_done edit_rules)

lemma keyed_env [edit_rules]: "key_of u = k \<Longrightarrow> keyed_as k (setContainerEnvValue l name v u)"
  unfolding setContainerEnvValue_def
  by (rule returns_then) (auto intro!: returns_then edit_rules split: list.splits uval.splits)

lemma edits_filter: "edits u (patchExtProcEnvoyFilterConcurrency l n u)"
  unfolding patchExtProcEnvoyFilterConcurrency_def
  by (rule returns_then) (auto split: option.splits prod.splits intro!: returns_then edits_done edit_rules)

lemma same_keys_body [edit_rules]: "same_keys rs (configureExtProcMaxBodyBytes l rs n)"
  unfolding configureExtProcMaxBodyBytes_def
  by (auto intro!: same_keys_edit_some edits_config_map split del: if_split split: if_splits)

lemma same_keys_grpc [edit_rules]: "same_keys rs (configureExtProcGrpcRecvMsgSize l rs n)"
  unfolding configureExtProcGrpcRecvMsgSize_def by (auto intro!: same_keys_edit_some edits_done edit_rules)

lemma same_keys_limits [edit_rules]: "same_keys rs (configureExtProcBodyLimits l rs n)"
  unfolding configureExtProcBodyLimits_def
  by (rule returns_bind [OF same_keys_body], rule returns_mono [OF same_keys_grpc]) simp

lemma same_keys_concurrency [edit_rules]: "same_keys rs (configureExtProcConcurrency l rs n)"
  unfolding configureExtProcConcurrency_def by (auto intro!: same_keys_edit_some edits_filter)

lemma edits_named_filter: "edits u (edit_named_filter l filterName want f u)"
  unfolding edit_named_filter_def by (auto split: option.splits intro!: returns_then edits_done edit_rules)

lemma same_keys_response [edit_rules]: "same_keys rs (configureSharedExtProcResponseMode cn l rs t tr)"
  unfolding configureSharedExtProcResponseMode_def by (intro edit_rules edits_named_filter)

lemma same_keys_ordering [edit_rules]: "same_keys rs (configureExternalModelRequestOrdering cn l rs t)"
  unfolding configureExternalModelRequestOrdering_def by (intro edit_rules edits_named_filter)

lemma keyed_write_config [edit_rules]: "key_of u = k \<Longrightarrow> keyed_as k (write_config l config u)"
  by (auto simp: write_config_def intro!: returns_then edit_rules split: option.splits)

lemma keyed_write_hash [edit_rules]: "key_of u = k \<Longrightarrow> keyed_as k (write_hash l config u)"
  by (simp add: write_hash_def edit_rules)

lemma find_index_key: "find_index P rs = Some i \<Longrightarrow> i < length rs"
  by (induction rs arbitrary: i) (auto split: if_splits)

lemma map_key_length: "map key_of rs' = map key_of rs \<Longrightarrow> length rs' = length rs"
  by (metis length_map)

text \<open>Writing back edited resources at positions of the list.\<close>

lemma keys_put: "map key_of rs' = map key_of rs \<Longrightarrow> i < length rs \<Longrightarrow> key_of u = key_of (rs' ! i) \<Longrightarrow> map key_of (rs'[i := u]) = map key_of rs"
  using same_keys_update [of i rs' u] map_key_length [of rs' rs] by simp

lemma key_nth_update: "i < length rs \<Longrightarrow> key_of u = key_of (rs ! i) \<Longrightarrow> key_of (rs[i := u] ! j) = key_of (rs ! j)"
  by (cases "i = j") simp_all

lemma same_keys_put:
  assumes "map key_of rs' = map key_of rs" "i < length rs" "keyed_as (key_of (rs' ! i)) r"
    and "\<And>u. map key_of (rs'[i := u]) = map key_of rs \<Longrightarrow> key_of u = key_of (rs' ! i) \<Longrightarrow> same_keys rs (f u)"
  shows "same_keys rs (bind_res r f)"
  by (rule returns_bind [OF assms(3)]) (use assms(1,2,4) keys_put in blast)

lemma same_keys_shared [edit_rules]: "same_keys rs (configureSharedExtProc cn l rs t gw tr n)"
proof (cases "findResource rs ''ConfigMap'' (PayloadProcessingPluginsConfigMapForTenant cn t) gw")
  case (Some c)
  show ?thesis
  proof (cases "findResource rs ''Deployment'' (PayloadProcessingDeploymentName cn t) gw")
    case d: (Some d)
    have b: "c < length rs" "d < length rs" using Some d by (auto simp: findResource_def dest: find_index_key)
    have "same_keys rs (bind_res (write_config l config (rs' ! c)) (\<lambda>cm. bind_res (write_hash l config (rs' ! d)) (\<lambda>dep. Inr (rs'[c := cm, d := dep]))))"
      if eq: "map key_of rs' = map key_of rs" for rs' config
    proof (rule same_keys_put [OF eq b(1) keyed_write_config [OF refl]])
      fix cm assume "map key_of (rs'[c := cm]) = map key_of rs" "key_of cm = key_of (rs' ! c)"
      then show "same_keys rs (bind_res (write_hash l config (rs' ! d)) (\<lambda>dep. Inr (rs'[c := cm, d := dep])))"
        using b map_key_length [OF eq] by (intro same_keys_put [OF _ b(2) keyed_write_hash]) (auto simp: key_nth_update)
    qed
    then show ?thesis
      unfolding configureSharedExtProc_def Let_def Some d option.case prod.case by (rule same_keys_chain [OF same_keys_response])
  qed (simp add: configureSharedExtProc_def Some)
qed (simp add: configureSharedExtProc_def)

lemma same_keys_external_write:
  assumes "c < length rs" "d < length rs"
  shows "same_keys rs (bind_res (write_config l config (rs ! c)) (\<lambda>cm.
    bind_res (configureExternalModelRequestOrdering cn l (rs[c := cm]) t) (\<lambda>rs'.
    bind_res (write_hash l config (rs' ! d)) (\<lambda>dep.
      if credentials = [] then Inr (rs'[d := dep])
      else bind_res (mount_volume l name volume mount dep) (\<lambda>dep'. Inr (rs'[d := dep']))))))"
proof (rule same_keys_put [OF refl assms(1) keyed_write_config [OF refl]])
  fix cm assume cm: "map key_of (rs[c := cm]) = map key_of rs"
  have tail: "same_keys rs (bind_res (write_hash l config (rs' ! d)) (\<lambda>dep.
      if credentials = [] then Inr (rs'[d := dep])
      else bind_res (mount_volume l name volume mount dep) (\<lambda>dep'. Inr (rs'[d := dep']))))"
    if eq: "map key_of rs' = map key_of rs" for rs'
    by (rule same_keys_put [OF eq assms(2) keyed_write_hash [OF refl]])
       (auto intro!: same_keys_put [OF eq assms(2) keyed_mount])
  show "same_keys rs (bind_res (configureExternalModelRequestOrdering cn l (rs[c := cm]) t) (\<lambda>rs'.
    bind_res (write_hash l config (rs' ! d)) (\<lambda>dep.
      if credentials = [] then Inr (rs'[d := dep])
      else bind_res (mount_volume l name volume mount dep) (\<lambda>dep'. Inr (rs'[d := dep'])))))"
    by (rule returns_bind [OF same_keys_ordering]) (rule tail, simp add: cm)
qed

lemma same_keys_external [edit_rules]: "same_keys rs (configureExternalModelExtProc cn l rs t tn candidates tr n)"
  unfolding configureExternalModelExtProc_def Let_def
  by (rule returns_then)
     (auto simp del: returns_Inr split: option.splits intro!: same_keys_external_write dest: find_index_key)

lemma keyed_resources [edit_rules]: "key_of u = k \<Longrightarrow> keyed_as k (setContainerResources l name res u)"
  by (auto simp: setContainerResources_def intro!: edit_rules split: sum.splits option.splits)

lemma key_object: "key_of (u\<lparr>uo_Object := m\<rparr>) = key_of u"
  by (simp add: key_of_def)

lemma keyed_scale [edit_rules]: "keyed_as (key_of u) (scale_deployment l name cfg u)"
  unfolding scale_deployment_def
  by (rule keyed_chain) (auto simp: key_object intro!: edit_rules split: option.splits)

lemma same_keys_scale [edit_rules]: "same_keys rs (patchIPPDeploymentScaling l name container cfg rs)"
  unfolding patchIPPDeploymentScaling_def
  by (auto split: option.splits dest: find_index_key intro!: same_keys_put [OF refl _ keyed_scale])

definition hpa_keys :: "child_name \<Rightarrow> string \<Rightarrow> string \<Rightarrow> ippScaling \<Rightarrow> objkey list" where
  "hpa_keys cn t gw scaling =
     (if ws_autoscaling (is_processing scaling) then [(''HorizontalPodAutoscaler'', gw, PayloadProcessingHPAName cn t)] else [])
     @ (if ws_autoscaling (is_preProcessing scaling) then [(''HorizontalPodAutoscaler'', gw, PayloadPreProcessingHPAName cn t)] else [])"

lemma keys_scaling:
  "returns (\<lambda>rs'. map key_of rs' = map key_of rs @ hpa_keys cn t gw scaling) (configureIPPScaling cn l rs t gw scaling)"
  unfolding configureIPPScaling_def
  by (rule returns_bind [OF same_keys_scale], rule returns_bind [OF same_keys_scale])
     (simp add: hpa_keys_def appendIPPWorkloadHPA_def key_of_def)

end
