(* ===== verification/TenantSamples.thy ===== *)
theory TenantSamples
  imports TenantLayoutCorrect
begin

text \<open>
  Manifests of a data plane, cut down to the fields that the layout reads: the inputs of the examples. The names fit without shortening, so the child
  name of knative is the concatenation, cut at the documented length.
\<close>

definition named_patch :: "string \<Rightarrow> umap \<Rightarrow> uval" where
  "named_patch applyTo v = UMap [(''applyTo'', UStr applyTo), (''patch'', UMap [(''value'', UMap v)])]"

definition sample_cluster :: "string \<Rightarrow> uval" where
  "sample_cluster name = named_patch ''CLUSTER''
     [(''name'', UStr name),
      (''transport_socket'', UMap [(''typed_config'', UMap [(''sni'', UStr ''x''), (''common_tls_context'', UMap [(''validation_context'',
         UMap [(''match_typed_subject_alt_names'', UList [UMap [(''matcher'', UMap [(''exact'', UStr ''x'')])]])])])])]),
      (''load_assignment'', UMap [(''endpoints'', UList [UMap [(''lb_endpoints'', UList [UMap [(''endpoint'', UMap [(''address'',
         UMap [(''socket_address'', UMap [(''address'', UStr ''x'')])])])]])]])])]"

definition sample_http :: "string \<Rightarrow> uval" where
  "sample_http name = named_patch ''HTTP_FILTER'' [(''name'', UStr name), (''typed_config'', UMap [])]"

definition manifest :: "string \<Rightarrow> string \<Rightarrow> umap \<Rightarrow> uobject" where
  "manifest kind name content = \<lparr>uo_Kind = kind, uo_Name = name, uo_Namespace = [], uo_Generation = 0, uo_Labels = [], uo_Annotations = [],
     uo_Object = content\<rparr>"

definition sample_config_map :: uobject where
  "sample_config_map = manifest ''ConfigMap'' PayloadProcessingPluginsConfigMapName
     [(''data'', UMap [(''extproc.yaml'', UStr ''''), (''pre-extproc.yaml'', UStr ''  max_body_bytes: 1'')])]"

definition manifest_deployment :: uobject where
  "manifest_deployment = manifest ''Deployment'' PayloadProcessingName
     [(''spec'', UMap [(''template'', UMap [(''metadata'', UMap [(''labels'', UMap [(''app'', UStr PayloadProcessingName)])]),
        (''spec'', UMap
          [(''volumes'', UList [UMap [(''name'', UStr ''plugins-config-volume''), (''configMap'', UMap [])],
              UMap [(''name'', UStr ''tls''), (''secret'', UMap [])]]),
           (''containers'', UList [UMap [(''name'', UStr PayloadProcessingName), (''image'', UStr ''praxis-extproc:dev'')]])])])])]"

definition sample_service :: uobject where
  "sample_service = manifest ''Service'' PayloadProcessingName [(''spec'', UMap [])]"

definition sample_account :: uobject where
  "sample_account = manifest ''ServiceAccount'' PayloadProcessingName []"

definition sample_policy :: uobject where
  "sample_policy = manifest ''NetworkPolicy'' PayloadProcessingName [(''spec'', UMap [])]"

definition sample_filter :: uobject where
  "sample_filter = manifest ''EnvoyFilter'' PayloadProcessingName
     [(''spec'', UMap [(''configPatches'', UList [sample_cluster ''payload-pre-processing-extproc'', sample_cluster ''payload-processing-extproc'',
        sample_http ''envoy.filters.http.ext_proc.ipp''])])]"

definition sample_external_filter :: uobject where
  "sample_external_filter = manifest ''EnvoyFilter'' PayloadProcessingExternalModelFilterName
     [(''spec'', UMap [(''configPatches'', UList [sample_cluster ''payload-processing-external-model-extproc'',
        sample_http ''envoy.filters.http.ext_proc.external-model''])])]"

definition sample_manifests :: "uobject list" where
  "sample_manifests = [sample_config_map, manifest_deployment, sample_service, sample_account, sample_policy, sample_filter, sample_external_filter]"

definition short_child :: child_name where
  "short_child p s = take 63 (p @ s)"

lemma short_child_doc: "child_name_doc short_child"
  unfolding child_name_doc_def short_child_def by (auto simp: min_def)

text \<open>Equations that compute on texts and numbers without unary numbers. The texts of the processors' configuration and their digest are kept as they are:
  no stage reads them.\<close>

function decimal :: "int \<Rightarrow> string" where
  "decimal i = (if i < 10 then [char_of (48 + nat i)] else decimal (i div 10) @ [char_of (48 + nat (i mod 10))])"
  by pat_completeness auto
termination by (relation "measure nat") auto

declare decimal.simps [simp del]

lemma decimal_format: "0 \<le> i \<Longrightarrow> decimal i = format_nat (nat i)"
proof (induction i rule: decimal.induct)
  case (1 i)
  have "nat i < 10 \<longleftrightarrow> i < 10" "nat (i div 10) = nat i div 10" "nat (i mod 10) = nat i mod 10"
    using 1(2) by (auto simp: nat_div_distrib nat_mod_distrib)
  with 1 show ?case by (subst decimal.simps, subst format_nat.simps) auto
qed

lemma format_int_decimal [code]: "format_int i = (if i < 0 then CHR ''-'' # decimal (- i) else decimal i)"
  by (simp add: format_int_def decimal_format)

lemma has_prefix_code [code]:
  "has_prefix s [] = True" "has_prefix [] (y # ys) = False" "has_prefix (x # xs) (y # ys) = (x = y \<and> has_prefix xs ys)"
  by (simp_all add: has_prefix_def)

lemma replace_all_code [code]:
  "replace_all [] old new = []"
  "replace_all (c # cs) old new =
     (if old = [] then c # cs else if has_prefix (c # cs) old then new @ replace_all (drop (length old) (c # cs)) old new
      else c # replace_all cs old new)"
  by (subst replace_all.simps; simp)+

declare sha256_hex_def [code del] sharedExtProcConfig_def [code del] extprocPostAuthConfig_def [code del]

end
