(* ===== verification/TenantStagesCorrect.thy ===== *)
theory TenantStagesCorrect
  imports TenantStages TenantSamples
begin

text \<open>
  Properties of the stages of a tenant's reconcile: every resource that they lead to is one that the removal of the tenant finds again, what is no
  longer applied when a tenant stops serving ExternalModels is what is deleted, and what two tenants have in common.
\<close>

subsection \<open>A tenant\<close>

definition sample_reads :: candidate_reads where
  "sample_reads = \<lparr>cv_models = (\<lambda>_. Inr []), cv_providers = (\<lambda>_. Inr []), cv_overlay = (\<lambda>_. GetNotFound), cv_secret = (\<lambda>_ _. GetNotFound),
     cv_live_secret = None, cv_routes = Inr []\<rparr>"

definition sample_stages :: stage_lib where
  "sample_stages = \<lparr>sl_child = short_child, sl_obj = ref_obj_lib, sl_k8s = sample_lib, sl_scale = \<lparr>ParseQuantity = Inr, FormatFloat = (\<lambda>f. f)\<rparr>,
     sl_jcs = Some, sl_build = Inr sample_manifests, sl_Image = ''praxis:1'', sl_MaaSAPIRouteNameBase = ''maas-api-route'', sl_SkipNetworkPolicy = False,
     sl_reads = (\<lambda>_ _. sample_reads)\<rparr>"

definition sample_tenant :: mtc_copy where
  "sample_tenant = \<lparr>mc_obj = (manifest ''MaasTenantConfig'' MaasTenantConfigInstanceName
       [(''spec'', UMap [(''payloadProcessing'', UMap [(''autoscaling'', UMap [])])])])\<lparr>uo_Namespace := ''acme''\<rparr>,
     mc_rv = 0, mc_finalizer = True, mc_deleted = None\<rparr>"

subsection \<open>Keys after all stages\<close>

lemma in_stage_returns [simp]: "returns P (in_stage what r) = returns P r"
  by (simp add: in_stage_def)

lemma in_stage_Inr [simp]: "in_stage what r = Inr x \<longleftrightarrow> r = Inr x"
  by (cases r) (simp_all add: in_stage_def map_err_def)

definition external_key :: "child_name \<Rightarrow> string \<Rightarrow> objkey \<Rightarrow> bool" where
  "external_key cn t k \<longleftrightarrow> is_external cn t \<lparr>uo_Kind = fst k, uo_Name = snd (snd k), uo_Namespace = fst (snd k), uo_Generation = 0,
     uo_Labels = [], uo_Annotations = [], uo_Object = []\<rparr>"

lemma is_external_key: "is_external cn t u = external_key cn t (key_of u)"
  by (simp add: external_key_def is_external_def key_of_def)

definition kept_key :: "bool \<Rightarrow> bool \<Rightarrow> child_name \<Rightarrow> string \<Rightarrow> objkey \<Rightarrow> bool" where
  "kept_key skip serving cn t k \<longleftrightarrow> (skip \<longrightarrow> fst k \<noteq> ''NetworkPolicy'') \<and> (serving \<or> \<not> external_key cn t k)"

lemma keys_omit: "map key_of (omitNetworkPolicies skip rs) = filter (\<lambda>k. skip \<longrightarrow> fst k \<noteq> ''NetworkPolicy'') (map key_of rs)"
  by (auto simp: omitNetworkPolicies_def filter_map comp_def key_of_def intro!: arg_cong [where f = "map _"] filter_cong)

lemma keys_external_stage:
  "returns (\<lambda>rs'. map key_of rs' = filter (\<lambda>k. serving \<or> \<not> external_key (sl_child s) t k) (map key_of rs))
     (external_stage s mtc rs t serving candidates tr)"
  by (cases serving)
     (auto simp: external_stage_def RemoveExternalModelResources_def is_external_key filter_map comp_def intro!: edit_rules)

text \<open>The keys of the configured resources are those of the split ones that are kept, and the autoscalers.\<close>

lemma configure_keys:
  assumes "configure_stage s mtc rs t gw serving candidates tr = Inr rs'"
  obtains divided where "SplitPostAuthResources (sl_child s) (sl_obj s) rs t gw (mc_Namespace mtc) = Inr divided"
    "map key_of rs' = filter (kept_key (sl_SkipNetworkPolicy s) serving (sl_child s) t) (map key_of divided)
       @ hpa_keys (sl_child s) t gw (resolveIPPScaling (sl_scale s) (sl_obj s) (mc_obj mtc))"
proof -
  let ?config = "Some (mc_obj mtc)"
  from assms obtain rs1 rs2 rs3 rs4 where s1: "SplitPostAuthResources (sl_child s) (sl_obj s) rs t gw (mc_Namespace mtc) = Inr rs1"
    and s2: "external_stage s mtc rs1 t serving candidates tr = Inr rs2"
    and s3: "configureExtProcConcurrency (sl_obj s) rs2 (resolveExtProcMaxRequests ?config) = Inr rs3"
    and s4: "configureExtProcBodyLimits (sl_obj s) rs3 (resolveExtProcMaxBodyBytes ?config) = Inr rs4"
    and s5: "configureIPPScaling (sl_child s) (sl_obj s) (omitNetworkPolicies (sl_SkipNetworkPolicy s) rs4) t gw
        (resolveIPPScaling (sl_scale s) (sl_obj s) (mc_obj mtc)) = Inr rs'"
    by (auto simp: configure_stage_def Let_def bind_res_Inr_iff)
  have "map key_of rs4 = filter (\<lambda>k. serving \<or> \<not> external_key (sl_child s) t k) (map key_of rs1)"
    using returnsD [OF keys_external_stage s2] returnsD [OF same_keys_concurrency s3] returnsD [OF same_keys_limits s4] by simp
  then have "map key_of rs' = filter (\<lambda>k. sl_SkipNetworkPolicy s \<longrightarrow> fst k \<noteq> ''NetworkPolicy'')
        (filter (\<lambda>k. serving \<or> \<not> external_key (sl_child s) t k) (map key_of rs1))
      @ hpa_keys (sl_child s) t gw (resolveIPPScaling (sl_scale s) (sl_obj s) (mc_obj mtc))"
    using returnsD [OF keys_scaling s5] by (simp add: keys_omit)
  with s1 show ?thesis
    by (intro that) (auto simp: kept_key_def intro!: filter_cong)
qed

lemma hpa_covered: "set (hpa_keys cn t gw scaling) \<subseteq> set (cleanup_targets cn t gw tn)"
  by (auto simp: hpa_keys_def cleanup_targets_def)

lemma split_covered: "split_keys cn t gw tn \<subseteq> set (cleanup_targets cn t gw tn)"
  by (auto simp: split_keys_def external_model_targets_def cleanup_targets_def)

lemma replace_empty [simp]: "replace_text rs [] = []"
proof -
  have "replace_all [] old new = []" for old new by (subst replace_all.simps) simp
  then show ?thesis unfolding replace_text_def by (induction rs) auto
qed

text \<open>The namespace of a rendered object.\<close>

definition home :: "string \<Rightarrow> string \<Rightarrow> string" where
  "home gw kind = (if kind \<in> set clusterScopedKinds then [] else gw)"

lemma rendered_namespace:
  assumes "b \<in> set (PostRender built p)" "list_all (\<lambda>m. uo_Namespace m = []) built"
  shows "uo_Namespace b = home (pa_Namespace p) (uo_Kind b)"
  using assms by (auto simp: home_def PostRender_def default_namespace_def replace_object_def Let_def list_all_iff)

text \<open>An object of the manifests that belongs to the tenant is renamed to a key that the removal of the tenant knows.\<close>

lemma renamed_targets: "list_all (\<lambda>((kind, _), name). (kind, home gw kind, name) \<in> set (cleanup_targets cn t gw tn)) (tenant_names cn t)"
  by (simp add: tenant_names_def cleanup_targets_def home_def clusterScopedKinds_def)

lemma post_account_target: "(''ServiceAccount'', home gw ''ServiceAccount'', PayloadProcessingPostServiceAccountName cn t) \<in> set (cleanup_targets cn t gw tn)"
  by (simp add: cleanup_targets_def home_def clusterScopedKinds_def)

lemma renamed_covered:
  assumes "map_of (tenant_names cn t) (uo_Kind b, uo_Name b) = Some name" "uo_Namespace b = home gw (uo_Kind b)"
  shows "(uo_Kind b, uo_Namespace b, name) \<in> set (cleanup_targets cn t gw tn)"
  using renamed_targets [of gw cn t tn] map_of_SomeD [OF assms(1)] assms(2) unfolding list_all_iff by force

lemma rename_keys_covered:
  assumes "k \<in> rename_keys cn t b" and "uo_Namespace b = home gw (uo_Kind b)"
  shows "k \<in> set (cleanup_targets cn t gw tn)
    \<or> map_of (tenant_names cn t) (uo_Kind b, uo_Name b) = None \<and> k = key_of b"
proof -
  have "k = (uo_Kind b, uo_Namespace b, tenant_name cn t b)
      \<or> k = (''ServiceAccount'', home gw ''ServiceAccount'', PayloadProcessingPostServiceAccountName cn t)"
    using assms unfolding rename_keys_def by (auto split: if_split_asm)
  moreover have "map_of (tenant_names cn t) (uo_Kind b, uo_Name b) = None \<Longrightarrow> (uo_Kind b, uo_Namespace b, tenant_name cn t b) = key_of b"
    by (simp add: tenant_name_def key_of_def)
  moreover have "map_of (tenant_names cn t) (uo_Kind b, uo_Name b) = Some name \<Longrightarrow> tenant_name cn t b = name" for name
    by (simp add: tenant_name_def)
  ultimately show ?thesis
    using post_account_target [of gw cn t tn] renamed_covered [of cn t b _ gw tn, OF _ assms(2)]
    by (cases "map_of (tenant_names cn t) (uo_Kind b, uo_Name b)") auto
qed

lemma rename_namespace:
  assumes "k \<in> rename_keys cn t b" and "uo_Namespace b = home gw (uo_Kind b)"
  shows "fst (snd k) = gw \<or> fst k \<notin> set split_kinds"
  using assms by (auto simp: rename_keys_def home_def clusterScopedKinds_def split_kinds_def split: if_split_asm)

lemma render_keys:
  assumes "sl_build s = Inr built" "list_all (\<lambda>m. uo_Namespace m = []) built"
    and "render_stage s mtc gatewayName gw infra t = Inr (Some rs)" "r \<in> set rs"
  obtains b where "b \<in> set (PostRender built (render_params s gatewayName gw infra t))" "key_of r \<in> rename_keys (sl_child s) t b"
    "uo_Namespace b = home gw (uo_Kind b)"
proof -
  have ren: "Rename (sl_child s) (sl_obj s) (PostRender built (render_params s gatewayName gw infra t)) t gw = Inr rs"
    using assms(1,3) by (auto simp: render_stage_def bind_res_Inr_iff split: sum.splits)
  from returnsD [OF returns_Rename ren] assms(4) obtain b where b: "b \<in> set (PostRender built (render_params s gatewayName gw infra t))"
    "key_of r \<in> rename_keys (sl_child s) t b" by blast
  moreover have "pa_Namespace (render_params s gatewayName gw infra t) = gw" by (simp add: render_params_def)
  ultimately show ?thesis using rendered_namespace [OF b(1) assms(2)] by (intro that) simp_all
qed

lemma same_key_source:
  assumes "map key_of rs' = map key_of rs" "r' \<in> set rs'"
  obtains r where "r \<in> set rs" "key_of r' = key_of r"
proof -
  have "key_of r' \<in> key_of ` set rs" using assms by (metis image_eqI list.set_map)
  with that show ?thesis by blast
qed

lemma configure_source:
  assumes "configure_stage s mtc rs t gw serving candidates tr = Inr rs'" "r \<in> set rs'"
    and "\<And>u. u \<in> set rs \<Longrightarrow> uo_Namespace u = gw \<or> uo_Kind u \<notin> set split_kinds"
  shows "(\<exists>u \<in> set rs. key_of r = key_of u) \<or> key_of r \<in> set (cleanup_targets (sl_child s) t gw (mc_Namespace mtc))"
proof -
  from assms(1) obtain divided where d: "SplitPostAuthResources (sl_child s) (sl_obj s) rs t gw (mc_Namespace mtc) = Inr divided"
    "map key_of rs' = filter (kept_key (sl_SkipNetworkPolicy s) serving (sl_child s) t) (map key_of divided)
       @ hpa_keys (sl_child s) t gw (resolveIPPScaling (sl_scale s) (sl_obj s) (mc_obj mtc))"
    by (rule configure_keys)
  have "key_of r \<in> set (map key_of rs')" using assms(2) by simp
  then consider x where "x \<in> set divided" "key_of r = key_of x"
    | "key_of r \<in> set (hpa_keys (sl_child s) t gw (resolveIPPScaling (sl_scale s) (sl_obj s) (mc_obj mtc)))"
    unfolding d(2) by auto
  then show ?thesis
  proof cases
    case 1
    then have "\<exists>u \<in> set rs. key_of x \<in> insert (key_of u) (split_keys (sl_child s) t gw (mc_Namespace mtc))"
      using returnsD [OF returns_split [OF assms(3)] d(1)] by blast
    with 1(2) split_covered [of "sl_child s" t gw "mc_Namespace mtc"] show ?thesis by auto
  qed (use hpa_covered in blast)
qed

lemma label_managed_deletable: "shouldDeletePraxisResource u (label_managed r)"
  by (simp add: shouldDeletePraxisResource_def label_managed_def Let_def sm_get_def update_conv' LabelManagedBy_def FieldOwner_def
      ManagedByAIGatewayController_def maasControllerFieldOwner_def)

text \<open>C30. Nothing of a tenant is left behind: every resource that the stages of a reconcile lead to stands under a key that the removal of the
  tenant visits, and as it is written it passes the check that the removal makes before it deletes. The only other resources are
  objects of the manifests that belong to no tenant, under the key they are rendered with.\<close>

theorem cleanup_covers:
  assumes "sl_build s = Inr built" "list_all (\<lambda>m. uo_Namespace m = []) built"
    and "sg_render (code_stages s) mtc gatewayName gw infra t = Inr (Some rs0)"
    and "sg_shared (code_stages s) mtc rs0 t gw apiTranslation = Inr rs1"
    and "sg_configure (code_stages s) mtc rs1 t gw serving candidates apiTranslation = Inr rs2"
    and "r \<in> set (map label_managed rs2)"
  shows "(key_of r \<in> set (cleanup_targets (sl_child s) t gw (mc_Namespace mtc))
      \<or> (\<exists>b \<in> set (PostRender built (render_params s gatewayName gw infra t)).
           map_of (tenant_names (sl_child s) t) (uo_Kind b, uo_Name b) = None \<and> key_of r = key_of b))
    \<and> shouldDeletePraxisResource u r"
proof -
  note st = assms(3-5) [unfolded code_stages_def stages.simps]
  obtain r2 where r2: "r2 \<in> set rs2" "r = label_managed r2" using assms(6) by auto
  have key: "key_of r = key_of r2" by (simp add: r2 label_managed_def key_of_def)
  have keys: "map key_of rs1 = map key_of rs0"
    using st(2) returnsD [OF same_keys_shared] unfolding shared_stage_def in_stage_Inr by blast
  have ns: "uo_Namespace x = gw \<or> uo_Kind x \<notin> set split_kinds" if x: "x \<in> set rs1" for x
  proof -
    obtain x0 where x0: "x0 \<in> set rs0" "key_of x = key_of x0" by (rule same_key_source [OF keys x])
    from render_keys [OF assms(1,2) st(1) x0(1)] rename_namespace x0(2) show ?thesis by (metis fst_conv key_of_def snd_conv)
  qed
  consider x where "x \<in> set rs1" "key_of r2 = key_of x" | "key_of r2 \<in> set (cleanup_targets (sl_child s) t gw (mc_Namespace mtc))"
    using configure_source [OF st(3) r2(1) ns] by blast
  then have "key_of r2 \<in> set (cleanup_targets (sl_child s) t gw (mc_Namespace mtc))
      \<or> (\<exists>b \<in> set (PostRender built (render_params s gatewayName gw infra t)).
           map_of (tenant_names (sl_child s) t) (uo_Kind b, uo_Name b) = None \<and> key_of r2 = key_of b)"
  proof cases
    case 1
    obtain x0 where x0: "x0 \<in> set rs0" "key_of x = key_of x0" by (rule same_key_source [OF keys 1(1)])
    from render_keys [OF assms(1,2) st(1) x0(1)] rename_keys_covered x0(2) 1(2) show ?thesis by metis
  qed simp
  then show ?thesis using label_managed_deletable r2(2) key by simp
qed


definition shared_layout :: "child_name \<Rightarrow> string \<Rightarrow> string \<Rightarrow> uobject \<Rightarrow> bool" where
  "shared_layout cn t gw u \<longleftrightarrow>
     (uo_Kind u \<in> set split_kinds \<longrightarrow> uo_Namespace u = gw) \<and> (is_external cn t u \<longrightarrow> uo_Kind u = ''EnvoyFilter'' \<and> uo_Namespace u = gw)"


definition sample_run :: "(string, (uobject list \<times> uobject list \<times> uobject list \<times> uobject list) option) res" where
  "sample_run =
     bind_res (sg_render (code_stages sample_stages) sample_tenant ''gw'' ''ingress'' ''infra'' ''acme'') (\<lambda>found.
     case found of
       None \<Rightarrow> Inr None
     | Some rs0 \<Rightarrow>
         bind_res (sg_shared (code_stages sample_stages) sample_tenant rs0 ''acme'' ''ingress'' False) (\<lambda>rs1.
         bind_res (sg_configure (code_stages sample_stages) sample_tenant rs1 ''acme'' ''ingress'' False [] False) (\<lambda>off.
         bind_res (sg_configure (code_stages sample_stages) sample_tenant rs1 ''acme'' ''ingress'' True [] False) (\<lambda>on.
           Inr (Some (rs0, rs1, off, on))))))"

lemma sample_run_ok:
  "case sample_run of
     Inr (Some (rs0, rs1, off, on)) \<Rightarrow> length off = 9 \<and> length on = 14 \<and> list_all (shared_layout short_child ''acme'' ''ingress'') rs1
   | _ \<Rightarrow> False"
  by code_simp

lemma sample_stages_run:
  obtains rs0 rs1 off on where
    "sg_render (code_stages sample_stages) sample_tenant ''gw'' ''ingress'' ''infra'' ''acme'' = Inr (Some rs0)"
    "sg_shared (code_stages sample_stages) sample_tenant rs0 ''acme'' ''ingress'' False = Inr rs1"
    "sg_configure (code_stages sample_stages) sample_tenant rs1 ''acme'' ''ingress'' False [] False = Inr off"
    "sg_configure (code_stages sample_stages) sample_tenant rs1 ''acme'' ''ingress'' True [] False = Inr on"
    "length off = 9" "length on = 14" "list_all (shared_layout short_child ''acme'' ''ingress'') rs1"
proof -
  obtain rs0 rs1 off on where r: "sample_run = Inr (Some (rs0, rs1, off, on))" "length off = 9" "length on = 14"
    "list_all (shared_layout short_child ''acme'' ''ingress'') rs1"
    using sample_run_ok by (auto split: sum.splits option.splits)
  show ?thesis
    by (rule that [of rs0 rs1 off on]) (use r in \<open>auto simp: sample_run_def bind_res_Inr_iff split: option.splits\<close>)
qed



lemma sample_owned:
  "list_all (\<lambda>b. map_of (tenant_names short_child ''acme'') (uo_Kind b, uo_Name b) \<noteq> None)
     (PostRender sample_manifests (render_params sample_stages ''gw'' ''ingress'' ''infra'' ''acme''))"
  by code_simp

theorem cleanup_covers_witness:
  "\<exists>rs0 rs1 rs2. sg_render (code_stages sample_stages) sample_tenant ''gw'' ''ingress'' ''infra'' ''acme'' = Inr (Some rs0)
     \<and> sg_shared (code_stages sample_stages) sample_tenant rs0 ''acme'' ''ingress'' False = Inr rs1
     \<and> sg_configure (code_stages sample_stages) sample_tenant rs1 ''acme'' ''ingress'' True [] False = Inr rs2 \<and> length rs2 = 14
     \<and> list_all (\<lambda>r. key_of r \<in> set (cleanup_targets short_child ''acme'' ''ingress'' ''acme'') \<and> shouldDeletePraxisResource ref_unstr r)
         (map label_managed rs2)"
proof -
  obtain rs0 rs1 off on where run:
    "sg_render (code_stages sample_stages) sample_tenant ''gw'' ''ingress'' ''infra'' ''acme'' = Inr (Some rs0)"
    "sg_shared (code_stages sample_stages) sample_tenant rs0 ''acme'' ''ingress'' False = Inr rs1"
    "sg_configure (code_stages sample_stages) sample_tenant rs1 ''acme'' ''ingress'' True [] False = Inr on" "length on = 14"
    by (rule sample_stages_run)
  have s: "sl_child sample_stages = short_child" "mc_Namespace sample_tenant = ''acme''" "sl_build sample_stages = Inr sample_manifests"
    by (simp_all add: sample_stages_def sample_tenant_def manifest_def)
  have b: "list_all (\<lambda>m. uo_Namespace m = []) sample_manifests" by code_simp
  have "key_of r \<in> set (cleanup_targets short_child ''acme'' ''ingress'' ''acme'') \<and> shouldDeletePraxisResource ref_unstr r"
    if "r \<in> set (map label_managed on)" for r
    using cleanup_covers [OF s(3) b run(1-3) that, unfolded s] sample_owned unfolding list_all_iff by blast
  with run show ?thesis unfolding list_all_iff by blast
qed

end
