(* ===== verification/TenantIsolation.thy ===== *)
theory TenantIsolation
  imports TenantSamples
begin

text \<open>
  What keeps two tenants of one gateway apart. The names of a tenant's resources are a base name with the identifier of the tenant behind it. Some
  base names continue others, so that an identifier that begins with one of those continuations leads to a name of another tenant; for every other
  identifier the resources of two tenants have different names, and a Service of one tenant selects no pod of the other.
\<close>

subsection \<open>Names of tenants\<close>



definition suffix_of :: "string \<Rightarrow> string" where
  "suffix_of t = (if t = [] then [] else CHR ''-'' # t)"








text \<open>An identifier of at most 21 bytes needs no shortening with any base name.\<close>

lemma ResourceName_short:
  assumes "child_name_doc cn" "length base \<le> 41" "length t \<le> 21"
  shows "ResourceName cn base t = base @ suffix_of t"
  using assms unfolding ResourceName_def suffix_of_def child_name_doc_def by auto

subsection \<open>Kinds and base names\<close>




lemmas tenant_resource_names = PayloadProcessingDeploymentName_def PayloadPreProcessingDeploymentName_def PayloadProcessingServiceName_def
  PayloadPreProcessingServiceName_def PayloadProcessingServiceAccountName_def PayloadProcessingPostServiceAccountName_def
  PayloadProcessingExternalModelServiceAccountName_def PayloadProcessingExternalModelDeploymentName_def
  PayloadProcessingExternalModelServiceName_def PayloadProcessingExternalModelPluginsConfigMapForTenant_def
  PayloadProcessingNetworkPolicyName_def PayloadProcessingEnvoyFilterName_def PayloadProcessingHPAName_def PayloadPreProcessingHPAName_def
  PayloadProcessingExternalModelEnvoyFilterName_def PayloadProcessingExternalModelFilterNameForTenant_def
  PayloadProcessingPluginsConfigMapForTenant_def PayloadProcessingReaderClusterRoleBindingNameForTenant_def
  PayloadProcessingReaderClusterRoleBindingPostNameForTenant_def PayloadProcessingMetricsAuthClusterRoleBindingNameForTenant_def
  PayloadProcessingMetricsServiceNameForTenant_def PayloadProcessingMetricsMonitorNameForTenant_def






subsection \<open>Selectors and pods\<close>



definition instance_service :: "string \<Rightarrow> uobject \<Rightarrow> bool" where
  "instance_service name u \<longleftrightarrow>
     (\<exists>selector. look (UMap (uo_Object u)) [''spec'', ''selector''] = Some (str_map_val selector) \<and> (LabelTenantInstance, name) \<in> set selector)"

lemma put_look:
  assumes "edit_doc l" "put_at l what v path u = Inr u'"
  shows "look (UMap (uo_Object u')) path = Some v" "divergent path q \<Longrightarrow> look (UMap (uo_Object u')) q = look (UMap (uo_Object u)) q"
  using assms by (auto simp: put_at_def bind_res_Inr_iff edit_doc_def map_err_def split: sum.splits)








lemma returns_keep: "returns P r \<Longrightarrow> (\<And>u. P u \<Longrightarrow> returns P (f u)) \<Longrightarrow> returns P (bind_res r f)"
  by (rule returns_bind)



lemma service_selector: "edit_doc l \<Longrightarrow> returns (instance_service name) (setServiceSelector l (instance_selector app name) u)"
  unfolding setServiceSelector_def returns_def instance_service_def instance_selector_def
  by (auto dest!: put_look(1))

lemma service_cert: "instance_service name (setServingCertSecretName s u) = instance_service name u"
  by (simp add: instance_service_def setServingCertSecretName_def)

lemma service_renames:
  assumes "edit_doc l"
  shows "returns (instance_service (PayloadProcessingDeploymentName cn t)) (renamePayloadProcessingService cn l t u)"
    "returns (instance_service (PayloadPreProcessingDeploymentName cn t)) (renamePayloadPreProcessingService cn l t u)"
    "returns (instance_service (PayloadProcessingDeploymentName cn t)) (renamePayloadProcessingMetricsService cn l t u)"
    "returns (instance_service (PayloadProcessingExternalModelDeploymentName cn t)) (external_service cn l t u)"
  unfolding renamePayloadProcessingService_def renamePayloadPreProcessingService_def renamePayloadProcessingMetricsService_def
    external_service_def Let_def
  by (rule returns_keep [OF service_selector [OF assms]] | rule returns_then | simp add: service_cert service_selector assms)+






text \<open>C34. The names of tenants collide: the Service of a tenant called \<open>metrics\<close> has the key of the metrics Service of the default tenant in the
  same gateway namespace, although the two select different pods. Each reconcile of the one overwrites the Service of the other.\<close>

theorem tenant_services_collide:
  assumes "child_name_doc cn" "edit_doc l" "uo_Namespace m = uo_Namespace p"
    and "uo_Kind m = ''Service''" "uo_Name m = PayloadProcessingMetricsServiceName" "renameOne cn l [] ns m = Inr a"
    and "uo_Kind p = ''Service''" "uo_Name p = PayloadProcessingName" "renameOne cn l ''metrics'' ns p = Inr b"
  shows "key_of a = key_of b \<and> instance_service ''payload-processing'' a \<and> instance_service ''payload-processing-metrics'' b"
proof -
  have ma: "renamePayloadProcessingMetricsService cn l [] m = Inr a" and pb: "renamePayloadProcessingService cn l ''metrics'' p = Inr b"
    using assms(4-9) unfolding renameOne_def Let_def by (auto simp: manifest_names)
  have n: "ResourceName cn ''payload-processing'' ''metrics'' = ''payload-processing-metrics''"
    using ResourceName_short [OF assms(1), of "''payload-processing''" "''metrics''"] by (simp add: suffix_of_def)
  show ?thesis
    using returnsD [OF keyed_renames(8) ma] returnsD [OF keyed_renames(3) pb] returnsD [OF service_renames(3) [OF assms(2)] ma]
      returnsD [OF service_renames(1) [OF assms(2)] pb] assms(3,4,7) n
    by (simp add: tenant_resource_names manifest_names ResourceName_def [of _ _ "[]"])
qed

theorem tenant_services_collide_witness:
  "\<exists>a b. renameOne short_child ref_obj_lib [] ''ingress'' (manifest ''Service'' PayloadProcessingMetricsServiceName []) = Inr a
     \<and> renameOne short_child ref_obj_lib ''metrics'' ''ingress'' sample_service = Inr b
     \<and> key_of a = key_of b \<and> instance_service ''payload-processing'' a \<and> instance_service ''payload-processing-metrics'' b"
proof -
  have "is_ok (renameOne short_child ref_obj_lib [] ''ingress'' (manifest ''Service'' PayloadProcessingMetricsServiceName []))"
    "is_ok (renameOne short_child ref_obj_lib ''metrics'' ''ingress'' sample_service)" by code_simp+
  then obtain a b where run: "renameOne short_child ref_obj_lib [] ''ingress'' (manifest ''Service'' PayloadProcessingMetricsServiceName []) = Inr a"
    "renameOne short_child ref_obj_lib ''metrics'' ''ingress'' sample_service = Inr b" by (auto simp: is_ok_iff)
  have "key_of a = key_of b \<and> instance_service ''payload-processing'' a \<and> instance_service ''payload-processing-metrics'' b"
    by (rule tenant_services_collide [OF short_child_doc ref_obj_lib_doc _ _ _ run(1) _ _ run(2)]) (simp_all add: sample_service_def manifest_def)
  with run show ?thesis by blast
qed

end
