(* ===== verification/TenantSettingsCorrect.thy ===== *)
theory TenantSettingsCorrect
  imports TenantSamples
begin

text \<open>
  Properties of the settings of a tenant's data plane: the budgets stay in their range and fit together, autoscaling is consistent, the
  rewriting of the body budget leaves no line with an old value, and every credential that the processor for ExternalModels is told to read is mounted
  where it reads it.
\<close>

subsection \<open>Budgets\<close>

lemma budget_range: "1 \<le> standard \<Longrightarrow> standard \<le> upper \<Longrightarrow> 1 \<le> budget a standard upper config \<and> budget a standard upper config \<le> upper"
  by (auto simp: budget_def split: option.splits)

definition env_value :: "string \<Rightarrow> uval list \<Rightarrow> uval option" where
  "env_value name env = (case List.find (named_item name) env of Some (UMap e) \<Rightarrow> map_of e ''value'' | _ \<Rightarrow> None)"

lemma find_index_Some: "find_index P xs = Some i \<Longrightarrow> i < length xs \<and> P (xs ! i) \<and> (\<forall>j < i. \<not> P (xs ! j))"
  by (induction xs arbitrary: i) (auto split: if_splits simp: less_Suc_eq_0_disj)

lemma find_index_None: "find_index P xs = None \<longleftrightarrow> (\<forall>x \<in> set xs. \<not> P x)"
  by (induction xs) auto

lemma find_first: "i < length xs \<Longrightarrow> P (xs ! i) \<Longrightarrow> (\<And>j. j < i \<Longrightarrow> \<not> P (xs ! j)) \<Longrightarrow> List.find P xs = Some (xs ! i)"
  unfolding find_Some_iff by blast

lemma env_value_set: "env_value name (set_env_entry name v env) = Some (UStr v)"
proof (cases "find_index (named_item name) env")
  case None
  let ?x = "UMap [(''name'', UStr name), (''value'', UStr v)]"
  have "List.find (named_item name) (env @ [?x]) = Some ((env @ [?x]) ! length env)"
    using None by (intro find_first) (auto simp: find_index_None nth_append named_item_def)
  then show ?thesis using None by (simp add: set_env_entry_def env_value_def)
next
  case (Some i)
  note i = find_index_Some [OF Some]
  then obtain e where e: "env ! i = UMap e" "map_of e ''name'' = Some (UStr name)"
    by (auto simp: named_item_def split: uval.splits)
  let ?e = "AList.delete ''valueFrom'' (AList.update ''value'' (UStr v) e)"
  have look: "map_of ?e ''name'' = Some (UStr name)" "map_of ?e ''value'' = Some (UStr v)"
    by (simp_all add: delete_conv' update_conv' e)
  have "List.find (named_item name) (env[i := UMap ?e]) = Some (env[i := UMap ?e] ! i)"
    by (rule find_first) (use i look in \<open>auto simp: named_item_def\<close>)
  then show ?thesis using Some e i look by (simp add: set_env_entry_def env_value_def)
qed

definition grpc_limit :: "uobject \<Rightarrow> uval option" where
  "grpc_limit dep =
     (case look (UMap (uo_Object dep)) pod_containers of
        Some (UList (UMap c # _)) \<Rightarrow> (case map_of c ''env'' of Some (UList env) \<Rightarrow> env_value grpcMaxRecvMsgSizeEnv env | _ \<Rightarrow> None)
      | _ \<Rightarrow> None)"

lemma put_value_at: "edit_doc l \<Longrightarrow> put_at l what v path u = Inr u' \<Longrightarrow> look (UMap (uo_Object u')) path = Some v"
  by (auto simp: put_at_def bind_res_Inr_iff edit_doc_def map_err_def split: sum.splits)

lemma grpc_limit_set:
  assumes "edit_doc l" "setContainerEnvValue l grpcMaxRecvMsgSizeEnv v dep = Inr dep'"
  shows "grpc_limit dep' = Some (UStr v)"
proof -
  from assms(2) obtain found where run: "(case slice_of found of [] \<Rightarrow> Inl (EditMissing ''containers'')
     | UMap container # rest \<Rightarrow>
         bind_res (read_slice l ''env'' container [''env'']) (\<lambda>env.
           put_at l ''containers'' (UList (UMap (AList.update ''env'' (UList (set_env_entry grpcMaxRecvMsgSizeEnv v (slice_of env))) container) # rest))
             pod_containers dep)
     | _ # _ \<Rightarrow> Inl (EditMalformed ''containers'')) = Inr dep'"
    by (auto simp only: setContainerEnvValue_def bind_res_Inr_iff)
  show ?thesis
  proof (cases "slice_of found")
    case (Cons c rest)
    with run show ?thesis
      by (cases c) (auto simp: bind_res_Inr_iff grpc_limit_def update_conv' env_value_set dest!: put_value_at [OF assms(1)])
  qed (use run in simp)
qed

definition grpc_step :: "obj_lib \<Rightarrow> int \<Rightarrow> uobject \<Rightarrow> (EditError, uobject \<times> nat) res" where
  "grpc_step l n dep =
     (if uo_Kind dep \<noteq> ''Deployment'' \<or> \<not> isExtProcDeployment (uo_Name dep) then Inr (dep, 0)
      else map_err (EditStep (uo_Name dep)) (bind_res
             (setContainerEnvValue l grpcMaxRecvMsgSizeEnv (format_int (n + grpcRecvFramingHeadroomBytes)) dep) (\<lambda>dep'. Inr (dep', 1))))"

lemma grpc_step_limit:
  assumes "edit_doc l" "grpc_step l n dep = Inr (dep', m)" "uo_Kind dep' = ''Deployment''" "isExtProcDeployment (uo_Name dep')"
  shows "grpc_limit dep' = Some (UStr (format_int (n + grpcRecvFramingHeadroomBytes)))"
proof (cases "uo_Kind dep \<noteq> ''Deployment'' \<or> \<not> isExtProcDeployment (uo_Name dep)")
  case False
  with assms(2) have "setContainerEnvValue l grpcMaxRecvMsgSizeEnv (format_int (n + grpcRecvFramingHeadroomBytes)) dep = Inr dep'"
    by (auto simp: grpc_step_def map_err_def bind_res_Inr_iff split: sum.split_asm)
  then show ?thesis by (rule grpc_limit_set [OF assms(1)])
qed (use assms in \<open>auto simp: grpc_step_def\<close>)

lemma edit_all_nth:
  assumes "edit_all f rs = Inr (rs', n)"
  shows "list_all2 (\<lambda>r r'. \<exists>m. f r = Inr (r', m)) rs rs'"
  using assms by (induction f rs arbitrary: rs' n rule: edit_all.induct) (auto simp: bind_res_Inr_iff)

text \<open>C35. The body budget of a tenant is between one byte and 32 MiB, its request budget between one and 1024, whatever the annotations say. With the budget
  written, every processor accepts gRPC messages one MiB larger than the budget, which is more than its server takes with the room
  that translation adds, and within 32 bits.\<close>

theorem body_limits_fit:
  assumes "edit_doc l" "configureExtProcBodyLimits l resources (resolveExtProcMaxBodyBytes config) = Inr resources'"
  shows "1 \<le> resolveExtProcMaxBodyBytes config \<and> resolveExtProcMaxBodyBytes config \<le> MaxExtProcMaxBodyBytes
    \<and> 1 \<le> resolveExtProcMaxRequests config \<and> resolveExtProcMaxRequests config \<le> MaxExtProcMaxRequests
    \<and> (\<exists>limit. limit \<le> max_int32 \<and> limit > resolveExtProcMaxBodyBytes config + anthropicTranslationAccumulationOverhead
         \<and> list_all (\<lambda>dep. uo_Kind dep = ''Deployment'' \<and> isExtProcDeployment (uo_Name dep) \<longrightarrow> grpc_limit dep = Some (UStr (format_int limit))) resources')"
proof -
  let ?b = "resolveExtProcMaxBodyBytes config"
  have b: "1 \<le> ?b" "?b \<le> MaxExtProcMaxBodyBytes" and q: "1 \<le> resolveExtProcMaxRequests config \<and> resolveExtProcMaxRequests config \<le> MaxExtProcMaxRequests"
    using budget_range unfolding resolveExtProcMaxBodyBytes_def resolveExtProcMaxRequests_def
    by (auto simp: DefaultExtProcMaxBodyBytes_def MaxExtProcMaxBodyBytes_def DefaultExtProcMaxRequests_def MaxExtProcMaxRequests_def)
  from assms(2) obtain rs n where "configureExtProcGrpcRecvMsgSize l rs ?b = Inr resources'"
    by (auto simp: configureExtProcBodyLimits_def bind_res_Inr_iff)
  with b(1) have "list_all2 (\<lambda>r r'. \<exists>m. grpc_step l ?b r = Inr (r', m)) rs resources'"
    by (auto simp: configureExtProcGrpcRecvMsgSize_def edit_some_def bind_res_Inr_iff grpc_step_def split: if_split_asm dest!: edit_all_nth)
  then have "list_all (\<lambda>dep. uo_Kind dep = ''Deployment'' \<and> isExtProcDeployment (uo_Name dep) \<longrightarrow>
      grpc_limit dep = Some (UStr (format_int (?b + grpcRecvFramingHeadroomBytes)))) resources'"
    using grpc_step_limit [OF assms(1)] unfolding list_all2_conv_all_nth list_all_length by metis
  moreover have "?b + grpcRecvFramingHeadroomBytes \<le> max_int32" "?b + grpcRecvFramingHeadroomBytes > ?b + anthropicTranslationAccumulationOverhead"
    using b by (simp_all add: MaxExtProcMaxBodyBytes_def grpcRecvFramingHeadroomBytes_def max_int32_def anthropicTranslationAccumulationOverhead_def)
  ultimately show ?thesis using b q by blast
qed

theorem body_limits_fit_witness:
  "\<exists>rs. configureExtProcBodyLimits ref_obj_lib [sample_config_map, manifest_deployment] (resolveExtProcMaxBodyBytes None) = Inr rs
     \<and> (\<exists>limit > resolveExtProcMaxBodyBytes None + anthropicTranslationAccumulationOverhead. limit \<le> max_int32
         \<and> list_all (\<lambda>dep. uo_Kind dep = ''Deployment'' \<and> isExtProcDeployment (uo_Name dep) \<longrightarrow> grpc_limit dep = Some (UStr (format_int limit))) rs)"
proof -
  have "is_ok (configureExtProcBodyLimits ref_obj_lib [sample_config_map, manifest_deployment] (resolveExtProcMaxBodyBytes None))" by code_simp
  then obtain rs where "configureExtProcBodyLimits ref_obj_lib [sample_config_map, manifest_deployment] (resolveExtProcMaxBodyBytes None) = Inr rs"
    by (auto simp: is_ok_iff)
  with body_limits_fit [OF ref_obj_lib_doc this] show ?thesis by blast
qed

subsection \<open>Autoscaling\<close>

definition scaling_ok :: "ippWorkloadScaling \<Rightarrow> bool" where
  "scaling_ok cfg \<longleftrightarrow>
     1 \<le> ws_maxReplicas cfg \<and> ws_maxReplicas cfg \<le> max_int32 \<and> 1 \<le> ws_targetCPU cfg \<and> ws_targetCPU cfg \<le> max_int32
     \<and> 1 \<le> ws_targetMemory cfg \<and> ws_targetMemory cfg \<le> max_int32
     \<and> (case ws_replicas cfg of None \<Rightarrow> True | Some r \<Rightarrow> 1 \<le> r \<and> r \<le> max_int32 \<and> (ws_autoscaling cfg \<longrightarrow> r \<le> ws_maxReplicas cfg))
     \<and> (case ws_resources cfg of
          None \<Rightarrow> True
        | Some res \<Rightarrow> ws_autoscaling cfg \<longrightarrow>
            (\<exists>requests. rr_Requests res = Some requests \<and> sm_has requests ''cpu'' \<and> sm_has requests ''memory''))"

lemma nestedInt32_range: "nestedInt32 l m key = Some v \<Longrightarrow> v \<le> max_int32"
  by (auto simp: nestedInt32_def split: option.split_asm if_split_asm)

lemma positive_or_range: "1 \<le> d \<Longrightarrow> d \<le> max_int32 \<Longrightarrow> 1 \<le> positive_or d (nestedInt32 l m k) \<and> positive_or d (nestedInt32 l m k) \<le> max_int32"
  by (auto simp: positive_or_def nestedInt32_range split: option.splits)

lemma parsed_requests:
  assumes "parseWorkloadResources q m True = Inr (Some res)"
  shows "\<exists>requests. rr_Requests res = Some requests \<and> sm_has requests ''cpu'' \<and> sm_has requests ''memory''"
  using assms by (auto simp: parseWorkloadResources_def bind_res_Inr_iff split: if_split_asm)

lemmas scaling_consts = defaultMaxReplicas_def defaultTargetCPU_def defaultTargetMemory_def max_int32_def

lemma default_scaling_ok: "scaling_ok default_scaling"
  by (simp add: scaling_ok_def default_scaling_def scaling_consts)

lemma read_replicas_range: "read_replicas l spec = Some r \<Longrightarrow> 1 \<le> r \<and> r \<le> max_int32"
  by (auto simp: read_replicas_def nestedInt32_range split: option.split_asm if_split_asm)

lemma read_scaling_ok: "scaling_ok (raise_max (read_scaling l spec))"
proof -
  have "1 \<le> positive_or d (nestedInt32 l m k) \<and> positive_or d (nestedInt32 l m k) \<le> max_int32"
    if "d \<in> {defaultMaxReplicas, defaultTargetCPU, defaultTargetMemory}" for d m k
    using that by (intro positive_or_range) (auto simp: scaling_consts)
  then show ?thesis
    using read_replicas_range [of l spec]
    by (auto simp: scaling_ok_def raise_max_def read_scaling_def default_scaling_def split: sum.splits option.splits)
       (auto simp: scaling_consts)
qed

lemma scaling_of_ok: "scaling_ok (scaling_of q l spec)"
proof -
  let ?c = "raise_max (read_scaling l spec)"
  have eq: "scaling_of q l spec = (case NestedMap (ol_unstr l) spec [''resources''] of
      Inr (Some m) \<Rightarrow> (case parseWorkloadResources q m (ws_autoscaling ?c) of Inr (Some res) \<Rightarrow> ?c\<lparr>ws_resources := Some res\<rparr> | _ \<Rightarrow> ?c)
    | _ \<Rightarrow> ?c)"
    by (simp add: scaling_of_def Let_def)
  have "scaling_ok (?c\<lparr>ws_resources := Some res\<rparr>)" if "parseWorkloadResources q m (ws_autoscaling ?c) = Inr (Some res)" for m res
    using read_scaling_ok [of l spec] parsed_requests [of q m res] that by (auto simp: scaling_ok_def split: option.splits)
  then show ?thesis unfolding eq using read_scaling_ok by (auto split: sum.splits option.splits)
qed

text \<open>C36. Autoscaling settings are consistent: whatever a MaasTenantConfig asks for, the resolved replica counts and targets are at least one and fit in 32
  bits, a fixed number of replicas is not above the maximum, and resource overrides for an autoscaled workload request CPU and memory.
  The HorizontalPodAutoscaler written from them scales between one and its maximum, with its minimum not above its maximum.\<close>

theorem autoscaling_consistent:
  "scaling_ok (resolveIPPWorkloadScaling q l mtc field)
   \<and> (ws_autoscaling (resolveIPPWorkloadScaling q l mtc field) \<longrightarrow>
       (\<exists>lo hi. look (UMap (uo_Object (appendIPPWorkloadHPA name deployment namespace (resolveIPPWorkloadScaling q l mtc field)))) [''spec'', ''minReplicas'']
            = Some (UInt lo)
          \<and> look (UMap (uo_Object (appendIPPWorkloadHPA name deployment namespace (resolveIPPWorkloadScaling q l mtc field)))) [''spec'', ''maxReplicas'']
            = Some (UInt hi)
          \<and> 1 \<le> lo \<and> lo \<le> hi \<and> hi \<le> max_int32))"
proof -
  have "scaling_ok (resolveIPPWorkloadScaling q l mtc field)"
    by (auto simp: resolveIPPWorkloadScaling_def default_scaling_ok scaling_of_ok split: sum.splits option.splits)
  then show ?thesis by (auto simp: scaling_ok_def appendIPPWorkloadHPA_def split: option.splits)
qed

definition sample_scaling :: uobject where
  "sample_scaling = manifest ''MaasTenantConfig'' MaasTenantConfigInstanceName
     [(''spec'', UMap [(''payloadProcessing'', UMap [(''replicas'', UInt 30), (''autoscaling'', UMap [(''maxReplicas'', UInt 20), (''targetCPUUtilization'', UInt 0)]),
        (''resources'', UMap [(''requests'', UMap [(''cpu'', UStr ''1'')])])])])]"

theorem autoscaling_consistent_witness:
  "ws_autoscaling (resolveIPPWorkloadScaling \<lparr>ParseQuantity = Inr, FormatFloat = id\<rparr> ref_obj_lib sample_scaling ''payloadProcessing'')
   \<and> ws_maxReplicas (resolveIPPWorkloadScaling \<lparr>ParseQuantity = Inr, FormatFloat = id\<rparr> ref_obj_lib sample_scaling ''payloadProcessing'') = 30
   \<and> scaling_ok (resolveIPPWorkloadScaling \<lparr>ParseQuantity = Inr, FormatFloat = id\<rparr> ref_obj_lib sample_scaling ''payloadProcessing'')"
proof -
  have "ws_autoscaling (resolveIPPWorkloadScaling \<lparr>ParseQuantity = Inr, FormatFloat = id\<rparr> ref_obj_lib sample_scaling ''payloadProcessing'')"
    "ws_maxReplicas (resolveIPPWorkloadScaling \<lparr>ParseQuantity = Inr, FormatFloat = id\<rparr> ref_obj_lib sample_scaling ''payloadProcessing'') = 30"
    by code_simp+
  then show ?thesis
    using autoscaling_consistent [of "\<lparr>ParseQuantity = Inr, FormatFloat = id\<rparr>" ref_obj_lib sample_scaling "''payloadProcessing''"] by blast
qed

subsection \<open>The body budget in a configuration\<close>











text \<open>Text before the first line end is copied; a budget line is replaced as a whole, with the white space behind it.\<close>

definition ahead :: "string \<Rightarrow> string \<times> nat \<Rightarrow> string \<times> nat" where
  "ahead p r = (p @ fst r, snd r)"

lemma ahead_simps [simp]: "fst (ahead p r) = p @ fst r" "snd (ahead p r) = snd r"
  by (simp_all add: ahead_def)














end
