(* ===== verification/TenantCredentialsCorrect.thy ===== *)
theory TenantCredentialsCorrect
  imports TenantSettingsCorrect
begin

text \<open>
  The credentials of the processor for ExternalModels. The configuration names a file for every credential of a served candidate; the Deployment mounts one
  projected volume. Kubernetes allows no slash in the name of a Secret, in a key of it or in a header, which is the assumption \<open>plain_credential\<close>.
\<close>

subsection \<open>Collecting credentials\<close>

definition plain :: "string \<Rightarrow> bool" where
  "plain s \<longleftrightarrow> CHR ''/'' \<notin> set s"

definition plain_credential :: "Credential \<Rightarrow> bool" where
  "plain_credential c \<longleftrightarrow> list_all plain [sr_Namespace (cr_SecretRef c), sr_Name (cr_SecretRef c), sr_Key (cr_SecretRef c), cr_Header c]"

definition candidate_credentials :: "Candidate list \<Rightarrow> Credential set" where
  "candidate_credentials candidates = {c. \<exists>x \<in> set candidates. ca_Credential x = Some c}"

definition usable :: "string \<Rightarrow> Credential \<Rightarrow> bool" where
  "usable namespace c \<longleftrightarrow> sr_Namespace (cr_SecretRef c) = namespace \<and> cr_Strategy c \<in> {''bearer_token'', ''apikey''}
     \<and> sr_Name (cr_SecretRef c) \<noteq> [] \<and> sr_Key (cr_SecretRef c) \<noteq> []"

text \<open>The loop keeps the identities it has seen, in step with the entries it has added.\<close>

definition collected :: "string \<Rightarrow> Credential list \<Rightarrow> Credential set \<Rightarrow> string list \<times> extprocCredential list \<Rightarrow> bool" where
  "collected namespace cs done_set st \<longleftrightarrow>
     fst st = rev (map credential_identity cs) \<and> snd st = map credential_entry cs \<and> distinct (map credential_identity cs)
     \<and> set cs \<subseteq> done_set \<and> credential_identity ` done_set = credential_identity ` set cs \<and> (\<forall>c \<in> done_set. usable namespace c)"

lemma collect_step:
  assumes "collect_credential namespace x st = Inr st'" "collected namespace cs D st"
  shows "\<exists>cs'. collected namespace cs' (D \<union> {c. ca_Credential x = Some c}) st'"
proof (cases "ca_Credential x")
  case None
  then show ?thesis using assms by (auto simp: collect_credential_def)
next
  case (Some c)
  have u: "usable namespace c" using assms(1) Some by (auto simp: collect_credential_def Let_def usable_def split: if_split_asm)
  have D: "D \<union> {d. ca_Credential x = Some d} = insert c D" using Some by auto
  show ?thesis
  proof (cases "credential_identity c \<in> set (fst st)")
    case True
    then have "st' = st" using assms(1) Some by (auto simp: collect_credential_def Let_def split: if_split_asm)
    then have "collected namespace cs (insert c D) st'" using assms(2) True u by (auto simp: collected_def)
    then show ?thesis unfolding D by blast
  next
    case False
    then have "st' = (credential_identity c # fst st, snd st @ [credential_entry c])"
      using assms(1) Some by (auto simp: collect_credential_def Let_def split: if_split_asm)
    then have "collected namespace (cs @ [c]) (insert c D) st'" using assms(2) False u by (auto simp: collected_def)
    then show ?thesis unfolding D by blast
  qed
qed

lemma collect_all:
  assumes "fold_res (collect_credential namespace) candidates st = Inr st'" "collected namespace cs D st"
  shows "\<exists>cs'. collected namespace cs' (D \<union> candidate_credentials candidates) st'"
  using assms
proof (induction candidates arbitrary: st cs D)
  case Nil
  then show ?case by (auto simp: candidate_credentials_def)
next
  case (Cons x xs)
  from Cons.prems(1) obtain st1 where s1: "collect_credential namespace x st = Inr st1" "fold_res (collect_credential namespace) xs st1 = Inr st'"
    by (auto split: sum.split_asm)
  obtain cs1 where "collected namespace cs1 (D \<union> {c. ca_Credential x = Some c}) st1" using collect_step [OF s1(1) Cons.prems(2)] by blast
  from Cons.IH [OF s1(2) this] show ?case
    by (auto simp: candidate_credentials_def Un_assoc Collect_disj_eq [symmetric] elim!: back_subst [where P = "\<lambda>D. \<exists>cs'. collected namespace cs' D st'"])
qed

lemma credentials_collected:
  assumes "extprocCredentials namespace candidates = Inr creds"
  obtains cs where "creds = sort_key credential_key (map credential_entry cs)" "distinct (map credential_identity cs)"
    "set cs \<subseteq> candidate_credentials candidates"
    "credential_identity ` candidate_credentials candidates = credential_identity ` set cs"
    "\<forall>c \<in> candidate_credentials candidates. usable namespace c"
proof -
  from assms obtain st where st: "fold_res (collect_credential namespace) candidates ([], []) = Inr st" "creds = sort_key credential_key (snd st)"
    by (auto simp: extprocCredentials_def bind_res_Inr_iff)
  have "collected namespace [] {} ([], [])" by (simp add: collected_def)
  from collect_all [OF st(1) this] obtain cs where "collected namespace cs (candidate_credentials candidates) st" by auto
  then show ?thesis using that st(2) by (auto simp: collected_def)
qed

subsection \<open>Identities and files\<close>

lemma plain_split: "plain a \<Longrightarrow> plain b \<Longrightarrow> a @ ''/'' @ r = b @ ''/'' @ s \<Longrightarrow> a = b \<and> r = s"
proof (induction a arbitrary: b)
  case Nil
  then show ?case by (cases b) (auto simp: plain_def)
next
  case (Cons x a)
  then show ?case by (cases b) (auto simp: plain_def)
qed

lemma identity_inj:
  assumes "plain_credential c" "plain_credential d" "usable ns c" "usable ns d" "credential_identity c = credential_identity d"
  shows "c = d"
proof -
  have plain: "plain (sr_Namespace (cr_SecretRef x))" "plain (sr_Name (cr_SecretRef x))" "plain (sr_Key (cr_SecretRef x))" "plain (cr_Strategy x)"
    if "x \<in> {c, d}" for x using that assms(1-4) by (auto simp: plain_credential_def usable_def plain_def)
  note pc = plain [of c, simplified] and pd = plain [of d, simplified]
  note e1 = plain_split [OF pc(1) pd(1) assms(5) [unfolded credential_identity_def Let_def]]
  note e2 = plain_split [OF pc(2) pd(2) conjunct2 [OF e1]]
  note e3 = plain_split [OF pc(3) pd(3) conjunct2 [OF e2]]
  note e4 = plain_split [OF pc(4) pd(4) conjunct2 [OF e3]]
  have "cr_SecretRef c = cr_SecretRef d" using e1 e2 e3 by (intro SecretRef.equality) simp_all
  then show ?thesis using e4 by (intro Credential.equality) simp_all
qed











lemma credentials_set:
  assumes "extprocCredentials namespace candidates = Inr creds" "\<forall>c \<in> candidate_credentials candidates. plain_credential c"
  shows "set creds = credential_entry ` candidate_credentials candidates" "\<And>c. c \<in> candidate_credentials candidates \<Longrightarrow> usable namespace c"
    "sorted (map credential_key creds)" "distinct (map credential_key creds)"
proof -
  obtain cs where cs: "creds = sort_key credential_key (map credential_entry cs)" "distinct (map credential_identity cs)"
    "set cs \<subseteq> candidate_credentials candidates"
    "credential_identity ` candidate_credentials candidates = credential_identity ` set cs"
    "\<forall>c \<in> candidate_credentials candidates. usable namespace c"
    by (rule credentials_collected [OF assms(1)])
  have "set cs = candidate_credentials candidates"
  proof
    show "candidate_credentials candidates \<subseteq> set cs"
    proof
      fix c assume c: "c \<in> candidate_credentials candidates"
      then obtain d where d: "d \<in> set cs" "credential_identity d = credential_identity c" using cs(4) by (metis imageE imageI)
      then have "d = c" using identity_inj [of d c namespace] assms(2) c cs(3,5) by blast
      then show "c \<in> set cs" using d by simp
    qed
  qed (rule cs(3))
  then show "set creds = credential_entry ` candidate_credentials candidates" by (simp add: cs(1))
  show "\<And>c. c \<in> candidate_credentials candidates \<Longrightarrow> usable namespace c" using cs(5) by blast
  show "sorted (map credential_key creds)" by (simp add: cs(1))
  have key: "credential_identity c = credential_identity d" if "credential_key (credential_entry c) = credential_key (credential_entry d)" for c d
    using that by (simp add: credential_key_def credential_entry_def credential_identity_def Let_def)
  have d: "distinct cs" "inj_on credential_identity (set cs)" using cs(2) by (simp_all only: distinct_map)
  have "inj_on (credential_key \<circ> credential_entry) (set cs)"
  proof (rule inj_onI)
    fix c c' assume "c \<in> set cs" "c' \<in> set cs" "(credential_key \<circ> credential_entry) c = (credential_key \<circ> credential_entry) c'"
    then show "c = c'" using key [of c c'] inj_onD [OF d(2)] unfolding comp_def by blast
  qed
  with d(1) have "distinct (map credential_key (map credential_entry cs))" by (simp only: map_map distinct_map simp_thms)
  then have "distinct (map credential_entry cs)" "inj_on credential_key (set (map credential_entry cs))"
    by (simp_all only: distinct_map [of credential_key])
  then show "distinct (map credential_key creds)"
    unfolding cs(1) distinct_map [of credential_key] by (simp only: distinct_sort set_sort simp_thms)
qed

subsection \<open>Properties\<close>


definition sample_candidate :: "string \<Rightarrow> string \<Rightarrow> Candidate" where
  "sample_candidate ident secret = \<lparr>ca_Cluster = ''provider-p'', ca_StableID = ident, ca_Kind = ''provider'', ca_Name = ''p'', ca_Site = ''local'',
     ca_Fresh = True, ca_SelectionGroup = None, ca_TrafficWeight = None,
     ca_Credential = Some \<lparr>cr_Strategy = ''bearer_token'', cr_Header = [],
       cr_SecretRef = \<lparr>sr_Name = secret, sr_Namespace = ''acme'', sr_Key = ''api-key''\<rparr>\<rparr>,
     ca_APIFormat = [], ca_Path = [], ca_TargetModel = []\<rparr>"

definition sample_candidates :: "Candidate list" where
  "sample_candidates = [sample_candidate ''m/z'' ''zeta'', sample_candidate ''m/a'' ''alpha'', sample_candidate ''n/z'' ''zeta'']"

lemma sample_candidates_ok:
  "is_ok (extprocCredentials ''acme'' sample_candidates)"
  "list_all (\<lambda>x. case ca_Credential x of None \<Rightarrow> True | Some c \<Rightarrow> plain_credential c) sample_candidates"
  by code_simp+


lemma collect_ok:
  assumes "\<And>c. c \<in> candidate_credentials candidates \<Longrightarrow> usable namespace c"
  shows "is_ok (fold_res (collect_credential namespace) candidates st)"
  using assms
proof (induction candidates arbitrary: st)
  case (Cons x xs)
  have "is_ok (collect_credential namespace x st)"
    using Cons.prems by (cases "ca_Credential x")
      (auto simp: collect_credential_def Let_def usable_def candidate_credentials_def is_ok_iff)
  moreover have "is_ok (fold_res (collect_credential namespace) xs st')" for st'
    using Cons.prems by (intro Cons.IH) (auto simp: candidate_credentials_def)
  ultimately show ?case by (auto simp: is_ok_iff)
qed simp

lemma credential_key_inj: "credential_key (credential_entry c) = credential_key (credential_entry d) \<Longrightarrow> credential_entry c = credential_entry d"
  by (simp add: credential_key_def credential_entry_def credential_path_def Let_def)

text \<open>C39. The order in which candidates are found has no influence on the configuration's credentials: two lists with the same
  candidates, in any order and with repetitions, give the same list, so a processor is not restarted for it.\<close>

theorem credentials_order_free:
  assumes "extprocCredentials namespace candidates = Inr creds" "set candidates' = set candidates"
    and "list_all (\<lambda>x. case ca_Credential x of None \<Rightarrow> True | Some c \<Rightarrow> plain_credential c) candidates"
  shows "extprocCredentials namespace candidates' = Inr creds"
proof -
  have same: "candidate_credentials candidates' = candidate_credentials candidates" using assms(2) by (simp add: candidate_credentials_def)
  have plain: "\<forall>c \<in> candidate_credentials candidates. plain_credential c"
    using assms(3) by (auto simp: candidate_credentials_def list_all_iff split: option.splits)
  note creds = credentials_set [OF assms(1) plain]
  have "is_ok (fold_res (collect_credential namespace) candidates' ([], []))" by (rule collect_ok) (simp add: same creds(2))
  then obtain creds' where run: "extprocCredentials namespace candidates' = Inr creds'"
    by (auto simp: extprocCredentials_def is_ok_iff)
  note creds' = credentials_set [OF run, unfolded same, OF plain]
  have "map credential_key creds = map credential_key creds'"
    using creds(1,3,4) creds'(1,3,4) by (intro sorted_distinct_set_unique) simp_all
  moreover have "inj_on credential_key (set creds \<union> set creds')"
    unfolding creds(1) creds'(1) using credential_key_inj by (auto intro!: inj_onI)
  ultimately show ?thesis using run inj_on_map_eq_map by blast
qed

theorem credentials_order_free_witness:
  "\<exists>creds. extprocCredentials ''acme'' sample_candidates = Inr creds \<and> extprocCredentials ''acme'' (rev sample_candidates) = Inr creds"
proof -
  obtain creds where run: "extprocCredentials ''acme'' sample_candidates = Inr creds" using sample_candidates_ok(1) by (auto simp: is_ok_iff)
  from credentials_order_free [OF run _ sample_candidates_ok(2), of "rev sample_candidates"] run show ?thesis by simp
qed

subsection \<open>The configuration and its digest\<close>

















end
