(* ===== verification/Spec2Isabelle.thy ===== *)
theory Spec2Isabelle
  imports PublisherCorrect WithdrawalCorrect GuardrailProperties NemoEndpoint AdmissionCorrect ReferenceGrants TenantProperties
    TenantStagesCorrect TenantIsolation TenantSettingsCorrect TenantCredentialsCorrect
begin

text \<open>
  A model of the AI gateway controller, a Kubernetes operator in Go, and the theorems that make its parts correct.

  \<^bold>\<open>The program.\<close> Users declare ExternalModel and ExternalProvider objects. The route resolver (\<open>src/pkg/resolver\<close>) merges them into
  routes; the envelope package (\<open>src/pkg/envelope\<close>) renders the routes as a routing overlay, a JSON document addressed by its SHA-256
  digest and numbered by a generation; the publisher (\<open>src/pkg/publisher\<close>) stores the overlay in a ConfigMap that the data plane
  mounts. When a provider leaves, the controller (\<open>src/pkg/controller/withdrawal.go\<close>) keeps its transport resources until the pods of
  the data plane prove that they serve the new overlay, and for a drain interval after that. AIGuardrail policies
  (\<open>src/pkg/guardrail\<close>) bind checks to a NemoGuardrails provider of another team: a reconciler publishes a verdict on
  every policy, and a resolver hands accepted policies to the tenant compiler. The tenant reconciler (\<open>src/pkg/tenant\<close>) compiles the
  checks a tenant attaches into the configuration of its data plane, and deploys, hands over and removes that data plane in step with
  maas-controller, which deploys a legacy one under the same names.

  \<^bold>\<open>Theories and sources.\<close>
  \<^item> \<open>Prelude\<close>, \<open>GoStrings\<close>, \<open>GoTime\<close>, \<open>Sha256\<close>, \<open>Json\<close>, \<open>JsonRoundtrip\<close>, \<open>JsonDecode\<close>: results of fallible functions and the parts of
    the Go library that the sources use: \<open>strings\<close>, \<open>strconv\<close>, \<open>sort\<close>, \<open>time\<close>, \<open>crypto/sha256\<close>, \<open>encoding/json\<close>. The digest shape is
    the locale \<open>content_digest\<close>, encoders with decoders are the locale \<open>json_codec\<close>.
  \<^item> \<open>ApiTypes\<close>, \<open>Resolver\<close>, \<open>ResolverCorrect\<close>: \<open>src/api/inference/v1alpha1\<close> and \<open>resolver.go\<close>. The loops are shown to compute a
    specification that treats every reference on its own; admission, ordering and naming follow.
  \<^item> \<open>Envelope\<close>, \<open>EnvelopeCodec\<close>, \<open>EnvelopeCorrect\<close>: \<open>envelope.go\<close>. Decoding inverts encoding (interpretation \<open>wire\<close>); selection policy,
    candidates, revision rule, digest of the wire form.
  \<^item> \<open>Publisher\<close>, \<open>PublisherCorrect\<close>: \<open>publisher.go\<close>. A step relation over the ConfigMap with reachability; invariants by rule induction;
    the locale \<open>revision_store\<close> states what a reader may rely on.
  \<^item> \<open>TenantNaming\<close>, \<open>RolloutSafety\<close>, \<open>RolloutCorrect\<close>: \<open>naming.go\<close> and the rollout and drain part of \<open>withdrawal.go\<close>. A positive check is
    sound for what was read; the persisted drain state refines the history of calls.
  \<^item> \<open>Unstructured\<close>, \<open>RuntimeProfiles\<close>, \<open>WithdrawalRoutes\<close>, \<open>WithdrawalCorrect\<close>: \<open>runtime_inputs.go\<close>, the candidate part of \<open>extproc.go\<close>, and the
    staging part of \<open>withdrawal.go\<close>. No applied route and no previous candidate is lost while its provider drains.
  \<^item> \<open>Guardrail\<close>, \<open>GuardrailReconcile\<close>, \<open>GuardrailResolver\<close>, \<open>GuardrailCorrect\<close>, \<open>GuardrailProperties\<close>: the package \<open>guardrail\<close>. A policy is
    accepted exactly when its binding is justified, refused policies carry no binding, failing reads change nothing, and the
    resolver (locale \<open>policy_reader\<close>) hands out accepted policies only.
  \<^item> \<open>GoUrl\<close>, \<open>NemoEndpoint\<close>: \<open>net/url\<close> (\<open>Parse\<close>, \<open>Hostname\<close>, \<open>Port\<close>) and \<open>ParseNemoEndpoint\<close> of \<open>nemoendpoint.go\<close>, which the tenant
    compiler runs on the endpoint a verdict published: the endpoint of every accepted policy is read back as the Service it
    came from, and whatever is read back is a Service in an infrastructure namespace.
  \<^item> \<open>Transport\<close>, \<open>TransportCorrect\<close>: \<open>provider_endpoint.go\<close> and the rendering half of \<open>src/pkg/controller/reconciler.go\<close>: endpoints
    and ports of providers, the HTTPRoutes of a model split by the rule limit, the annotation with the resolved route. The
    annotation is read back by the withdrawal code as the route that was rendered; the predicted number of rules is exact.
  \<^item> \<open>Admission\<close>, \<open>AdmissionCorrect\<close>: what is checked between resolution and rendering: unsupported selections, transport
    conflicts, credentials of providers. Admission keeps exactly the models whose shape the data plane supports.
  \<^item> \<open>ReferenceGrants\<close>: \<open>referencegrant.go\<close>: a provider of another namespace is used only with a grant of that namespace.
  \<^item> \<open>TenantConfig\<close>, \<open>NemoCatalog\<close>, \<open>NemoCaller\<close>, \<open>NemoFilters\<close>, \<open>NemoCallerCorrect\<close>: \<open>aitenant.go\<close>, \<open>maastenantconfig.go\<close>, \<open>catalog.go\<close>, \<open>postauth.go\<close>,
    \<open>nemocaller.go\<close> and \<open>nemoauth.go\<close>: the attachments of a tenant, the callouts compiled from them, the filters, egress rules and
    grants rendered for them. Every attached check runs or fails closed, calls stay in the infrastructure namespace, and grants
    and egress cover exactly the Services that are called.
  \<^item> \<open>Effects\<close>: reconciles with calls in between as state transformers with errors, their weakest preconditions and invariants.
  \<^item> \<open>TenantHandoff\<close>, \<open>TenantReconcile\<close>: \<open>migration.go\<close>, \<open>ownership.go\<close>, \<open>plugins_migration.go\<close>, \<open>reconciler.go\<close> of \<open>src/pkg/tenant\<close> and \<open>apply.go\<close> of
    \<open>src/pkg/render\<close>: the handshake, the whole reconcile, and the world it runs in.
  \<^item> \<open>TenantReconcileCorrect\<close>, \<open>TenantProperties\<close>: invariants of a reconcile as the locales \<open>tenant_invariant\<close> and \<open>cleanup_invariant\<close>, interpreted
    for the handshake. The two data planes exclude each other, writes are fenced, a release follows a removal; one sequence of
    selections makes the handover come to rest.
  \<^item> \<open>TenantLayout\<close>, \<open>TenantLayoutCorrect\<close>, \<open>TenantIsolation\<close>: \<open>rename.go\<close> and \<open>split.go\<close>: the names and references of a tenant and the copies that
    serve ExternalModels. Edits keep or set the key of an object in a known way; tenants have no resource in common and select only
    their own pods, except where a tenant's name continues a base name.
  \<^item> \<open>TenantDataPlane\<close>, \<open>TenantExtproc\<close>, \<open>TenantSettingsCorrect\<close>, \<open>TenantCredentialsCorrect\<close>: \<open>extproc_body_bytes.go\<close>, \<open>extproc_concurrency.go\<close>,
    \<open>extproc_grpc_recv.go\<close>, \<open>autoscaling.go\<close>, \<open>extproc.go\<close> and \<open>extproc_headers.go\<close>: budgets, scaling, the configurations of the processors
    as text and the Secrets mounted for them. Limits fit together, mounted credentials are those that the configuration names, and
    the digest on a Deployment is that of its configuration.
  \<^item> \<open>TenantCandidates\<close>, \<open>TenantStages\<close>, \<open>TenantStagesCorrect\<close>: the candidates of the processor in \<open>reconciler.go\<close>, \<open>postrender.go\<close>, and the composition
    of all stages between the claim and the apply (\<open>code_stages\<close>). The clean-up of a tenant covers all that the stages lead to.
  \<^item> \<open>TenantSamples\<close>: the manifests that the witnesses of the tenant theories run on, with code equations for their evaluation.

  \<^bold>\<open>State and effects.\<close> A reconcile is a function of what its reads return: the API server's answers are arguments, and what the
  reconcile writes is part of its value. In the tenant reconciler, where the order of calls matters, the world changes between
  calls: \<open>tenant_env\<close> gives the moves of users and of maas-controller before every call, and lets a call fail before or after it took
  effect. \<open>env_doc\<close> collects what is assumed of it: the MaasTenantConfig is read fresh, owners have a UID, a
  server-side apply sets the labels it was given. Errors are datatypes with one constructor per message. A range over a Go map visits the
  entries in any order; the theorems hold for every order. Code outside the repository is a parameter: \<open>k8s_lib\<close> and \<open>unstr_lib\<close>
  (apimachinery), \<open>guard_lib\<close> (conditions and label selectors), \<open>jcs_fn\<close> (the JSON canonicaliser), \<open>child_name\<close> (knative),
  \<open>obj_lib\<close> and \<open>yaml_lib\<close> (nested fields and YAML), \<open>scale_lib\<close> (quantities and floating-point numbers), \<open>stage_lib\<close> (what Kustomize returns, and the
  reads of a stage in \<open>candidate_reads\<close>), the
  validation of DNS labels and label values, and the decoding of PEM blocks. What its
  documentation promises and a theorem needs is a named predicate, for instance \<open>status_condition_doc\<close> or \<open>nested_doc\<close>, and the
  witnesses satisfy it with a concrete function.

  \<^bold>\<open>Bounds.\<close> No definition needs fuel: every loop of the modelled code ends with its input, by structural recursion or, as in the
  reader of IPv6 groups of \<open>GoUrl\<close> and the replacement of a regular expression in \<open>TenantDataPlane\<close>, by a measure on what is left of it. Generations are bounded by \<open>max_int64\<close> and
  durations are 64-bit where the code depends on it.

  \<^bold>\<open>Not modelled.\<close> Manager start-up, registration of watches, logging and metrics; Kustomize rendering; generated deep copies. The
  reconcile loops of \<open>src/pkg/controller/reconciler.go\<close> and \<open>attachment.go\<close>, the end of a withdrawal, and \<open>src/pkg/consumerportal\<close>. The theory
  of the tenant's reconcile is stated for any \<open>stages\<close>, so it holds for \<open>code_stages\<close>.
\<close>

end
